(* ===== verification/Prelude.thy ===== *)
theory Prelude
  imports Main "HOL-Library.State_Monad"
begin

text \<open>
  Shared vocabulary of the development: Go's time and error values, the string and list
  operations of the standard library that the sources call, and a small calculus for
  programs in the state monad (the Go functions that touch PostgreSQL, Redis, the clock).

  Times and durations are integers counting nanoseconds; \<open>0\<close> is Go's zero
  \<^verbatim>\<open>time.Time{}\<close>. A Go \<^verbatim>\<open>string\<close> is a byte string, modelled by \<open>string\<close>
  (a list of 8-bit characters).
\<close>

named_theorems io_run "evaluation rules of the state-monad programs"
named_theorems io_pres "introduction rules for preserved predicates"
named_theorems io_keep "introduction rules for the parts of the state a program leaves alone"
named_theorems io_adv "introduction rules for programs that advance the call counter"
named_theorems go_defs "unfolding rules of small helper functions"

section \<open>Time\<close>

type_synonym time = int
type_synonym duration = int

abbreviation (input) zero_time :: time where
  "zero_time \<equiv> 0"

definition second :: duration where
  "second = 1000000000"

definition minute :: duration where
  "minute = 60 * second"

definition hour :: duration where
  "hour = 60 * minute"

lemma duration_pos [simp]: "0 < second" "0 < minute" "0 < hour"
  by (simp_all add: second_def minute_def hour_def)

section \<open>Errors\<close>

text \<open>
  A Go error is a sentinel (compared by identity), an anonymous error carrying only its
  text, or a wrapper made by \<^verbatim>\<open>fmt.Errorf\<close> with a \<^verbatim>\<open>%w\<close> verb. A run-time panic is a value
  of its own, so that a theorem can say that it never arises. \<open>Driver\<close> is an error
  reported by the PostgreSQL or Redis client, or by another external party.
\<close>

datatype sentinel =
    ErrCPFInvalid | ErrCPFBlacklisted
  | company_ErrNotFound | ErrCNPJInvalid | ErrCNPJTaken | ErrUserNotMember | ErrInvalidRole
  | ErrAlreadyMember | ErrCompanyInfoNotFound | ErrCompanyInactive | ErrSearchNotSupported
  | ErrCaptchaRequired | ErrCaptchaExpired | ErrCaptchaInvalid | ErrCaptchaTokenMissing
  | session_ErrNotFound | user_ErrNotFound | postgres_ErrNotFound | ErrRoleNotFound
  | invitation_ErrNotFound | invitation_ErrExpired | invitation_ErrInvalid
  | ErrInvalidURL | ErrEmptyEvents | webhook_ErrNotFound
  | ErrInvalidCredentials | ErrUserNotActive | ErrUserNotFound | ErrInvalidResetToken
  | ErrNoProvidersAvailable | ErrQueryTooShort

datatype go_error =
    Sentinel sentinel
  | ErrorString string
  | Wrapped string go_error string
  | Driver string
  | RuntimePanic string

text \<open>\<^verbatim>\<open>errors.Is\<close>: the error itself or one it wraps is the target sentinel.\<close>

fun errors_Is :: "go_error \<Rightarrow> sentinel \<Rightarrow> bool" where
  "errors_Is (Sentinel s) t = (s = t)"
| "errors_Is (Wrapped pre e post) t = errors_Is e t"
| "errors_Is (ErrorString m) t = False"
| "errors_Is (Driver m) t = False"
| "errors_Is (RuntimePanic m) t = False"

abbreviation wrap :: "string \<Rightarrow> go_error \<Rightarrow> go_error" where
  "wrap pre e \<equiv> Wrapped pre e []"

type_synonym 'a result = "go_error + 'a"

section \<open>Strings\<close>

definition is_digit :: "char \<Rightarrow> bool" where
  "is_digit c \<longleftrightarrow> 48 \<le> (of_char c :: nat) \<and> (of_char c :: nat) \<le> 57"

definition digit_val :: "char \<Rightarrow> nat" where
  "digit_val c = of_char c - 48"

text \<open>The regular expression \<^verbatim>\<open>\D\<close> replaced by the empty string keeps the ASCII digits.\<close>

definition only_digits :: "string \<Rightarrow> string" where
  "only_digits s = filter is_digit s"

text \<open>
  \<^verbatim>\<open>strconv.Atoi(string(b))\<close> for one byte \<open>b\<close>: a digit gives its value, every other
  byte (also \<^verbatim>\<open>+\<close> and \<^verbatim>\<open>-\<close> alone) is a syntax error.
\<close>

definition atoi_byte :: "char \<Rightarrow> nat option" where
  "atoi_byte c = (if is_digit c then Some (digit_val c) else None)"

text \<open>Indexing a Go string: out of range is a run-time panic.\<close>

definition str_index :: "string \<Rightarrow> nat \<Rightarrow> char result" where
  "str_index s i = (if i < length s then Inr (s ! i) else Inl (RuntimePanic ''index out of range''))"

text \<open>The slice \<^verbatim>\<open>s[i:j]\<close>, for bounds the caller has checked.\<close>

definition substr :: "string \<Rightarrow> nat \<Rightarrow> nat \<Rightarrow> string" where
  "substr s i j = take (j - i) (drop i s)"

definition has_prefix :: "string \<Rightarrow> string \<Rightarrow> bool" where
  "has_prefix s p \<longleftrightarrow> take (length p) s = p"

definition trim_prefix :: "string \<Rightarrow> string \<Rightarrow> string" where
  "trim_prefix s p = (if has_prefix s p then drop (length p) s else s)"

text \<open>\<^verbatim>\<open>strings.SplitN(s, c, 2)\<close> for a one-byte separator \<open>c\<close>.\<close>

definition split2 :: "char \<Rightarrow> string \<Rightarrow> string list" where
  "split2 c s = (if c \<in> set s
     then [takeWhile (\<lambda>x. x \<noteq> c) s, tl (dropWhile (\<lambda>x. x \<noteq> c) s)] else [s])"

lemma only_digits_all: "c \<in> set (only_digits s) \<Longrightarrow> is_digit c"
  by (simp add: only_digits_def)

lemma only_digits_append [simp]: "only_digits (s @ t) = only_digits s @ only_digits t"
  by (simp add: only_digits_def)

lemma only_digits_Nil [simp]: "only_digits [] = []"
  by (simp add: only_digits_def)

lemma only_digits_Cons [simp]:
  "only_digits (c # s) = (if is_digit c then c # only_digits s else only_digits s)"
  by (simp add: only_digits_def)

lemma only_digits_id: "\<forall>c \<in> set s. is_digit c \<Longrightarrow> only_digits s = s"
  by (simp add: only_digits_def)

lemma only_digits_length: "length (only_digits s) = length s \<Longrightarrow> only_digits s = s"
  unfolding only_digits_def by (metis filter_id_conv length_filter_less less_irrefl)

lemma only_digits_idem [simp]: "only_digits (only_digits s) = only_digits s"
  by (simp add: only_digits_def)

lemma only_digits_sub:
  "\<forall>c \<in> set s. is_digit c \<Longrightarrow> only_digits (substr s i j) = substr s i j"
  by (rule only_digits_id) (auto simp: substr_def dest: in_set_takeD in_set_dropD)

lemma substr_append: "i \<le> j \<Longrightarrow> j \<le> k \<Longrightarrow> substr s i j @ substr s j k = substr s i k"
proof -
  assume "i \<le> j" "j \<le> k"
  then have "k - i = (j - i) + (k - j)" "j = (j - i) + i" by simp_all
  then show ?thesis
    unfolding substr_def by (metis take_add drop_drop)
qed

lemma substr_full: "n = length s \<Longrightarrow> substr s 0 n = s"
  by (simp add: substr_def)

lemma length2: "length xs = 2 \<longleftrightarrow> (\<exists>x y. xs = [x, y])"
  by (cases xs) (auto simp: length_Suc_conv)

lemma digit_val_less [simp]: "is_digit c \<Longrightarrow> digit_val c < 10"
  unfolding is_digit_def digit_val_def by linarith

lemma digit_val_inj: "is_digit c \<Longrightarrow> is_digit d \<Longrightarrow> digit_val c = digit_val d \<Longrightarrow> c = d"
proof -
  assume "is_digit c" "is_digit d" "digit_val c = digit_val d"
  then have "(of_char c :: nat) = of_char d"
    unfolding is_digit_def digit_val_def by linarith
  then show "c = d" by (simp only: of_char_eq_iff)
qed

text \<open>The character of a digit value, the inverse of \<open>digit_val\<close>.\<close>

definition digit_char :: "nat \<Rightarrow> char" where
  "digit_char n = char_of (n + 48)"

lemma digit_char_props [simp]:
  "n < 10 \<Longrightarrow> is_digit (digit_char n)" "n < 10 \<Longrightarrow> digit_val (digit_char n) = n"
  by (simp_all add: digit_char_def is_digit_def digit_val_def)

text \<open>The decimal notation \<^verbatim>\<open>%d\<close> of a natural number.\<close>

fun string_of_nat :: "nat \<Rightarrow> string" where
  "string_of_nat n = (if n < 10 then [digit_char n] else string_of_nat (n div 10) @ [digit_char (n mod 10)])"

declare string_of_nat.simps [simp del]

definition string_of_int :: "int \<Rightarrow> string" where
  "string_of_int n = (if n < 0 then CHR ''-'' # string_of_nat (nat (- n)) else string_of_nat (nat n))"

definition ascii_lower :: "char \<Rightarrow> char" where
  "ascii_lower c = (let n = of_char c :: nat in if 65 \<le> n \<and> n \<le> 90 then char_of (n + 32) else c)"

section \<open>Searching a table\<close>

lemma find_SomeD: "find P xs = Some x \<Longrightarrow> x \<in> set xs \<and> P x"
  by (auto simp: find_Some_iff)

lemma find_None: "find P xs = None \<longleftrightarrow> (\<forall>x \<in> set xs. \<not> P x)"
  by (auto simp: find_None_iff)

lemma find_key_None: "k \<notin> f ` set xs \<Longrightarrow> find (\<lambda>x. f x = k) xs = None"
  by (auto simp: find_None)

lemma find_append:
  "find P (xs @ ys) = (case find P xs of None \<Rightarrow> find P ys | Some x \<Rightarrow> Some x)"
  by (induction xs) auto

text \<open>A search for a key that at most one row has.\<close>

lemma find_unique:
  assumes "x \<in> set xs" "P x" "\<And>y. y \<in> set xs \<Longrightarrow> P y \<Longrightarrow> y = x"
  shows "find P xs = Some x"
  using assms by (metis find_None find_SomeD not_None_eq)

section \<open>JSON values\<close>

text \<open>
  \<^verbatim>\<open>encoding/json\<close> is modelled at the level of JSON values: \<^verbatim>\<open>json.Marshal\<close> builds one,
  \<^verbatim>\<open>json.Unmarshal\<close> reads one. The byte syntax is left to the standard library.
\<close>

datatype json = JNull | JBool bool | JNum int | JStr string | JArr "json list"
  | JObj "(string \<times> json) list"

section \<open>Programs over a state\<close>

abbreviation ret :: "'a \<Rightarrow> ('s, 'a) state" where
  "ret x \<equiv> State_Monad.return x"

text \<open>
  The Go idiom \<^verbatim>\<open>x, err := m(); if err != nil { return wrap(err) }\<close> followed by the rest of
  the function.
\<close>

definition tryE :: "('s, 'a result) state \<Rightarrow> (go_error \<Rightarrow> go_error)
    \<Rightarrow> ('a \<Rightarrow> ('s, 'b result) state) \<Rightarrow> ('s, 'b result) state" where
  "tryE m f k = do {
     r \<leftarrow> m;
     case r of Inl e \<Rightarrow> ret (Inl (f e)) | Inr a \<Rightarrow> k a }"

lemma run_tryE [io_run]:
  "run_state (tryE m f k) s =
     (case run_state m s of (Inl e, s') \<Rightarrow> (Inl (f e), s') | (Inr a, s') \<Rightarrow> run_state (k a) s')"
  by (simp add: tryE_def split: prod.splits sum.splits)

lemma run_tryE_Inr [io_run]:
  "run_state (tryE m f k) s = (Inr b, s'') \<longleftrightarrow>
     (\<exists>a s'. run_state m s = (Inr a, s') \<and> run_state (k a) s' = (Inr b, s''))"
  by (auto simp: run_tryE split: prod.splits sum.splits)

lemma run_result: "fst (run_state m s) = r \<Longrightarrow> run_state m s = (r, snd (run_state m s))"
  by (cases "run_state m s") simp

text \<open>\<open>preserves P m\<close>: running \<open>m\<close> keeps \<open>P\<close>, whatever it returns.\<close>

definition preserves :: "('s \<Rightarrow> bool) \<Rightarrow> ('s, 'a) state \<Rightarrow> bool" where
  "preserves P m \<longleftrightarrow> (\<forall>s. P s \<longrightarrow> P (snd (run_state m s)))"

lemma preservesI: "(\<And>s. P s \<Longrightarrow> P (snd (run_state m s))) \<Longrightarrow> preserves P m"
  by (simp add: preserves_def)

lemma preservesD: "preserves P m \<Longrightarrow> P s \<Longrightarrow> run_state m s = (a, s') \<Longrightarrow> P s'"
  by (auto simp: preserves_def dest!: spec[of _ s])

lemma preserves_ret [io_pres]: "preserves P (ret x)"
  by (simp add: preserves_def)

lemma preserves_bind [io_pres]:
  "preserves P m \<Longrightarrow> (\<And>a. preserves P (k a)) \<Longrightarrow> preserves P (State_Monad.bind m k)"
  by (simp add: preserves_def split: prod.splits) (metis prod.sel(2))

lemma preserves_tryE [io_pres]:
  "preserves P m \<Longrightarrow> (\<And>a. preserves P (k a)) \<Longrightarrow> preserves P (tryE m f k)"
  unfolding tryE_def by (intro preserves_bind) (auto simp: preserves_ret split: sum.splits)

lemma preserves_if [io_pres]:
  "(b \<Longrightarrow> preserves P m) \<Longrightarrow> (\<not> b \<Longrightarrow> preserves P n) \<Longrightarrow> preserves P (if b then m else n)"
  by simp

lemma preserves_case_sum [io_pres]:
  "(\<And>e. r = Inl e \<Longrightarrow> preserves P (m e)) \<Longrightarrow> (\<And>a. r = Inr a \<Longrightarrow> preserves P (n a))
    \<Longrightarrow> preserves P (case r of Inl e \<Rightarrow> m e | Inr a \<Rightarrow> n a)"
  by (simp split: sum.splits)

lemma preserves_case_option [io_pres]:
  "(r = None \<Longrightarrow> preserves P m) \<Longrightarrow> (\<And>a. r = Some a \<Longrightarrow> preserves P (n a))
    \<Longrightarrow> preserves P (case r of None \<Rightarrow> m | Some a \<Rightarrow> n a)"
  by (simp split: option.splits)

text \<open>\<open>keeps f m\<close>: running \<open>m\<close> leaves the component \<open>f\<close> of the state as it was.\<close>

definition keeps :: "('s \<Rightarrow> 'b) \<Rightarrow> ('s, 'a) state \<Rightarrow> bool" where
  "keeps f m \<longleftrightarrow> (\<forall>s. f (snd (run_state m s)) = f s)"

lemma keepsD: "keeps f m \<Longrightarrow> run_state m s = (a, s') \<Longrightarrow> f s' = f s"
  by (metis keeps_def snd_conv)

lemma keeps_preserves [io_pres]: "keeps f m \<Longrightarrow> preserves (\<lambda>s. f s = c) m"
  by (simp add: keeps_def preserves_def)

lemma keeps_ret [io_keep]: "keeps f (ret x)"
  by (simp add: keeps_def)

lemma keeps_bind [io_keep]:
  "keeps f m \<Longrightarrow> (\<And>a. keeps f (k a)) \<Longrightarrow> keeps f (State_Monad.bind m k)"
  by (simp add: keeps_def split: prod.splits) (metis snd_conv)

lemma keeps_tryE [io_keep]: "keeps f m \<Longrightarrow> (\<And>a. keeps f (k a)) \<Longrightarrow> keeps f (tryE m g k)"
  unfolding tryE_def by (intro keeps_bind) (auto simp: keeps_ret split: sum.splits)

lemma keeps_if [io_keep]: "keeps f m \<Longrightarrow> keeps f n \<Longrightarrow> keeps f (if b then m else n)"
  by simp

lemma keeps_case_sum [io_keep]:
  "(\<And>e. keeps f (m e)) \<Longrightarrow> (\<And>a. keeps f (n a)) \<Longrightarrow> keeps f (case r of Inl e \<Rightarrow> m e | Inr a \<Rightarrow> n a)"
  by (simp split: sum.splits)

lemma keeps_case_option [io_keep]:
  "keeps f m \<Longrightarrow> (\<And>a. keeps f (n a)) \<Longrightarrow> keeps f (case r of None \<Rightarrow> m | Some a \<Rightarrow> n a)"
  by (simp split: option.splits)

lemma keeps_case_prod [io_keep]:
  "(\<And>a b. keeps f (n a b)) \<Longrightarrow> keeps f (case r of (a, b) \<Rightarrow> n a b)"
  by (simp split: prod.splits)

text \<open>
  \<open>clean f m\<close>: when \<open>m\<close> returns an error, the component \<open>f\<close> of the state is as before.
  \<open>never_fails m\<close>: \<open>m\<close> returns no error.
\<close>

definition clean :: "('s \<Rightarrow> 'b) \<Rightarrow> ('s, 'a result) state \<Rightarrow> bool" where
  "clean f m \<longleftrightarrow> (\<forall>s e s'. run_state m s = (Inl e, s') \<longrightarrow> f s' = f s)"

definition never_fails :: "('s, 'a result) state \<Rightarrow> bool" where
  "never_fails m \<longleftrightarrow> (\<forall>s. \<not> isl (fst (run_state m s)))"

lemma cleanD: "clean f m \<Longrightarrow> run_state m s = (Inl e, s') \<Longrightarrow> f s' = f s"
  by (simp add: clean_def)

lemma clean_keeps: "keeps f m \<Longrightarrow> clean f m"
  by (auto simp: clean_def dest: keepsD)

lemma clean_tryE:
  "keeps f m \<Longrightarrow> (\<And>a. clean f (k a)) \<Longrightarrow> clean f (tryE m g k)"
  by (auto simp: clean_def run_tryE split: prod.splits sum.splits dest: keepsD)

lemma clean_tryE_last:
  "clean f m \<Longrightarrow> (\<And>a. never_fails (k a)) \<Longrightarrow> clean f (tryE m g k)"
  unfolding clean_def never_fails_def run_tryE
  by (auto split: prod.splits sum.splits) (metis fst_conv isl_def)

lemma clean_bind:
  "keeps f m \<Longrightarrow> (\<And>a. clean f (k a)) \<Longrightarrow> clean f (State_Monad.bind m k)"
  by (auto simp: clean_def split: prod.splits) (metis keepsD)

lemma clean_if: "clean f m \<Longrightarrow> clean f n \<Longrightarrow> clean f (if b then m else n)"
  by simp

lemma clean_case_sum:
  "(\<And>e. clean f (m e)) \<Longrightarrow> (\<And>a. clean f (n a)) \<Longrightarrow> clean f (case r of Inl e \<Rightarrow> m e | Inr a \<Rightarrow> n a)"
  by (simp split: sum.splits)

lemma clean_ret: "clean f (ret x)"
  by (simp add: clean_def)

lemma never_fails_bind: "(\<And>a. never_fails (k a)) \<Longrightarrow> never_fails (State_Monad.bind m k)"
  by (simp add: never_fails_def split: prod.splits)

lemma never_fails_ret: "never_fails (ret (Inr x))"
  by (simp add: never_fails_def)

end
