(* ===== verification/Tax_Document.thy ===== *)
theory Tax_Document
  imports Prelude
begin

text \<open>
  The interface that the two Brazilian registration numbers of the system (CPF for people,
  CNPJ for companies) share: a normal form made of digits, a printed form, and a validity
  test. The consequences that the clients rely on are proved here once.
\<close>

locale tax_document =
  fixes norm :: "string \<Rightarrow> string"
    and fmt :: "string \<Rightarrow> string"
    and mask :: "string \<Rightarrow> string"
    and valid :: "string \<Rightarrow> bool"
    and size_of :: nat
    and shown :: nat
  assumes norm_idem: "norm (norm s) = norm s"
    and norm_fmt: "length (norm s) = size_of \<Longrightarrow> norm (fmt s) = norm s"
    and fmt_norm: "length (norm s) = size_of \<Longrightarrow> fmt (norm s) = fmt s"
    and valid_norm: "valid (norm s) = valid s"
    and valid_size: "valid s \<Longrightarrow> length (norm s) = size_of"
    and mask_prefix: "length (norm s) = size_of \<Longrightarrow> length (norm t) = size_of
      \<Longrightarrow> take shown (norm s) = take shown (norm t) \<Longrightarrow> mask s = mask t"
begin

lemma valid_fmt:
  assumes "valid s"
  shows "valid (fmt s)"
proof -
  have "norm (fmt s) = norm s" using assms by (simp add: norm_fmt valid_size)
  then show ?thesis using assms by (metis valid_norm)
qed

lemma fmt_idem: "valid s \<Longrightarrow> fmt (fmt s) = fmt s"
  by (metis fmt_norm norm_fmt valid_size)

lemma fmt_inject: "valid s \<Longrightarrow> valid t \<Longrightarrow> fmt s = fmt t \<longleftrightarrow> norm s = norm t"
  by (metis fmt_norm norm_fmt valid_size)

lemma mask_fmt: "valid s \<Longrightarrow> mask (fmt s) = mask s"
  by (rule mask_prefix) (simp_all add: norm_fmt valid_size)

end

end
