(* ===== verification/Cpf.thy ===== *)
theory Cpf
  imports Tax_Document
begin

text \<open>
  The CPF value object of \<^verbatim>\<open>internal/domain/document/cpf.go\<close>: validation by the mod-11
  algorithm, normalisation, formatting, masking and the database and JSON codecs. The
  lemmas show that validation is acc (no index panic), equals an independent statement
  of the algorithm, leaves exactly one pair of check digits for each base number, and that
  the codecs are inverse to each other on valid values.
\<close>

section \<open>Model\<close>

record CPF =
  number :: string

abbreviation emptyCPF :: CPF where
  "emptyCPF \<equiv> \<lparr>number = []\<rparr>"

definition normalizeCPF :: "string \<Rightarrow> string" where
  "normalizeCPF cpf = only_digits cpf"

definition formatCPF :: "string \<Rightarrow> string" where
  "formatCPF normalized = (if length normalized \<noteq> 11 then normalized
     else substr normalized 0 3 @ ''.'' @ substr normalized 3 6 @ ''.'' @ substr normalized 6 9
          @ ''-'' @ substr normalized 9 11)"

fun isAllSameDigit_from :: "char \<Rightarrow> string \<Rightarrow> bool" where
  "isAllSameDigit_from first [] = True"
| "isAllSameDigit_from first (c # s) = (if c \<noteq> first then False else isAllSameDigit_from first s)"

definition isAllSameDigit :: "string \<Rightarrow> bool" where
  "isAllSameDigit s = (case s of [] \<Rightarrow> True | first # rest \<Rightarrow> isAllSameDigit_from first rest)"

text \<open>
  The summation loop of \<open>validateCheckDigit\<close>: \<open>Inl\<close> is an index panic, \<open>Inr None\<close> the
  early \<^verbatim>\<open>return false\<close> when a byte is not a digit.
\<close>

function cpf_sum_loop :: "string \<Rightarrow> nat \<Rightarrow> nat \<Rightarrow> int \<Rightarrow> (int option) result" where
  "cpf_sum_loop cpf position i acc =
     (if i < position then
        (case str_index cpf i of Inl e \<Rightarrow> Inl e
         | Inr c \<Rightarrow> (case atoi_byte c of None \<Rightarrow> Inr None
             | Some digit \<Rightarrow> cpf_sum_loop cpf position (Suc i)
                 (acc + int digit * (int position + 1 - int i))))
      else Inr (Some acc))"
  by pat_completeness auto
termination
  by (relation "measure (\<lambda>(cpf, position, i, acc). position - i)") auto

definition expectedDigit :: "int \<Rightarrow> int" where
  "expectedDigit acc = (let remainder = acc mod 11 in if remainder \<ge> 2 then 11 - remainder else 0)"

definition validateCheckDigit :: "string \<Rightarrow> nat \<Rightarrow> bool result" where
  "validateCheckDigit cpf position =
     (case cpf_sum_loop cpf position 0 0 of Inl e \<Rightarrow> Inl e
      | Inr None \<Rightarrow> Inr False
      | Inr (Some acc) \<Rightarrow>
          (case str_index cpf position of Inl e \<Rightarrow> Inl e
           | Inr c \<Rightarrow> (case atoi_byte c of None \<Rightarrow> Inr False
               | Some actualDigit \<Rightarrow> Inr (int actualDigit = expectedDigit acc))))"

text \<open>\<open>None\<close> is Go's \<^verbatim>\<open>nil\<close> error.\<close>

definition validateCPF :: "string \<Rightarrow> go_error option" where
  "validateCPF cpf = (let normalized = normalizeCPF cpf in
     if length normalized \<noteq> 11 then Some (Sentinel ErrCPFInvalid)
     else if isAllSameDigit normalized then Some (Sentinel ErrCPFBlacklisted)
     else (case validateCheckDigit normalized 9 of Inl e \<Rightarrow> Some e
       | Inr ok9 \<Rightarrow> if \<not> ok9 then Some (Sentinel ErrCPFInvalid)
       else (case validateCheckDigit normalized 10 of Inl e \<Rightarrow> Some e
         | Inr ok10 \<Rightarrow> if \<not> ok10 then Some (Sentinel ErrCPFInvalid) else None)))"

definition NewCPF :: "string \<Rightarrow> CPF result" where
  "NewCPF value = (case validateCPF value of Some err \<Rightarrow> Inl err
     | None \<Rightarrow> Inr \<lparr>number = normalizeCPF value\<rparr>)"

definition CPF_String :: "CPF \<Rightarrow> string" where
  "CPF_String c = formatCPF (number c)"

text \<open>The \<^verbatim>\<open>interface{}\<close> values a database driver hands to \<^verbatim>\<open>Scan\<close>.\<close>

datatype driver_value = VNil | VString string | VBytes string | VOther int

definition CPF_Value :: "CPF \<Rightarrow> driver_value" where
  "CPF_Value c = VString (number c)"

definition CPF_Scan :: "driver_value \<Rightarrow> CPF result" where
  "CPF_Scan value = (case value of
       VNil \<Rightarrow> Inr emptyCPF
     | VOther n \<Rightarrow> Inl (ErrorString ''invalid type for CPF'')
     | VString s \<Rightarrow> if s = [] then Inr emptyCPF else NewCPF s
     | VBytes s \<Rightarrow> if s = [] then Inr emptyCPF else NewCPF s)"

definition CPF_MarshalJSON :: "CPF \<Rightarrow> json" where
  "CPF_MarshalJSON c = JStr (CPF_String c)"

definition CPF_UnmarshalJSON :: "json \<Rightarrow> CPF result" where
  "CPF_UnmarshalJSON data = (case data of
       JStr s \<Rightarrow> NewCPF s
     | JNull \<Rightarrow> NewCPF []
     | _ \<Rightarrow> Inl (Driver ''json: cannot unmarshal into Go value of type string''))"

definition CPF_Equals :: "CPF \<Rightarrow> CPF \<Rightarrow> bool" where
  "CPF_Equals c other = (number c = number other)"

definition CPF_IsEmpty :: "CPF \<Rightarrow> bool" where
  "CPF_IsEmpty c = (number c = [])"

definition MaskCPF :: "string \<Rightarrow> string" where
  "MaskCPF cpf = (let normalized = normalizeCPF cpf in
     if length normalized \<noteq> 11 then ''***.***.***-**''
     else substr normalized 0 3 @ ''.'' @ substr normalized 3 6 @ ''.***-**'')"

definition CPF_Mask :: "CPF \<Rightarrow> string" where
  "CPF_Mask c = MaskCPF (number c)"

definition ValidateCPF :: "string \<Rightarrow> go_error option" where
  "ValidateCPF cpf = validateCPF cpf"

definition NormalizeCPF :: "string \<Rightarrow> string" where
  "NormalizeCPF cpf = normalizeCPF cpf"

definition FormatCPF :: "string \<Rightarrow> string" where
  "FormatCPF cpf = formatCPF (normalizeCPF cpf)"

section \<open>The algorithm, stated independently\<close>

text \<open>
  The weighted sum of the first \<open>k\<close> digits with weights \<open>k + 1, k, \<dots>, 2\<close>, and the
  check digit it determines.
\<close>

definition cpf_weighted :: "string \<Rightarrow> nat \<Rightarrow> int" where
  "cpf_weighted s k = (\<Sum>i < k. int (digit_val (s ! i)) * (int k + 1 - int i))"

definition cpf_wellformed :: "string \<Rightarrow> bool" where
  "cpf_wellformed n \<longleftrightarrow> length n = 11 \<and> (\<forall>c \<in> set n. is_digit c)
     \<and> (\<exists>c \<in> set n. c \<noteq> hd n)
     \<and> int (digit_val (n ! 9)) = expectedDigit (cpf_weighted n 9)
     \<and> int (digit_val (n ! 10)) = expectedDigit (cpf_weighted n 10)"

section \<open>Lemmas\<close>

declare cpf_sum_loop.simps [simp del]

lemma isAllSameDigit_from_iff: "isAllSameDigit_from a s \<longleftrightarrow> (\<forall>c \<in> set s. c = a)"
  by (induction s) auto

lemma isAllSameDigit_iff: "isAllSameDigit s \<longleftrightarrow> (\<forall>c \<in> set s. c = hd s)"
  by (cases s) (auto simp: isAllSameDigit_def isAllSameDigit_from_iff)

lemma expectedDigit_range: "0 \<le> expectedDigit t" "expectedDigit t < 10"
proof -
  have "0 \<le> t mod 11" "t mod 11 < 11" by simp_all
  then show "0 \<le> expectedDigit t" "expectedDigit t < 10"
    by (auto simp: expectedDigit_def Let_def)
qed

lemma cpf_sum_loop_digits:
  assumes "\<forall>c \<in> set s. is_digit c" "p \<le> length s" "i \<le> p"
  shows "cpf_sum_loop s p i t =
    Inr (Some (t + (\<Sum>k = i..<p. int (digit_val (s ! k)) * (int p + 1 - int k))))"
  using assms
proof (induction s p i t rule: cpf_sum_loop.induct)
  case (1 s p i t)
  show ?case
  proof (cases "i < p")
    case True
    then have d: "str_index s i = Inr (s ! i)" "atoi_byte (s ! i) = Some (digit_val (s ! i))"
      using "1.prems" by (auto simp: str_index_def atoi_byte_def)
    show ?thesis
      using "1.IH"[OF True d] "1.prems" True
      by (simp add: cpf_sum_loop.simps[of s p i] d sum.atLeast_Suc_lessThan)
  next
    case False
    then show ?thesis using "1.prems" by (simp add: cpf_sum_loop.simps)
  qed
qed

lemma validateCheckDigit_digits:
  assumes "\<forall>c \<in> set s. is_digit c" "p < length s"
  shows "validateCheckDigit s p =
    Inr (int (digit_val (s ! p)) = expectedDigit (cpf_weighted s p))"
proof -
  have "str_index s p = Inr (s ! p)" "atoi_byte (s ! p) = Some (digit_val (s ! p))"
    using assms by (auto simp: str_index_def atoi_byte_def)
  then show ?thesis
    using cpf_sum_loop_digits[OF assms(1), of p 0 0] assms(2)
    by (simp add: validateCheckDigit_def cpf_weighted_def atLeast0LessThan)
qed

lemma validateCPF_cases:
  "validateCPF s = (let n = only_digits s in
     if length n \<noteq> 11 then Some (Sentinel ErrCPFInvalid)
     else if \<forall>c \<in> set n. c = hd n then Some (Sentinel ErrCPFBlacklisted)
     else if cpf_wellformed n then None else Some (Sentinel ErrCPFInvalid))"
  by (auto simp: validateCPF_def normalizeCPF_def isAllSameDigit_iff validateCheckDigit_digits
      only_digits_all cpf_wellformed_def Let_def split: if_splits)

lemma validateCPF_None: "validateCPF s = None \<longleftrightarrow> cpf_wellformed (only_digits s)"
  by (auto simp: validateCPF_cases Let_def cpf_wellformed_def)

lemma NewCPF_Inr:
  "NewCPF s = Inr c \<longleftrightarrow> number c = only_digits s \<and> cpf_wellformed (number c)"
  by (cases c) (auto simp: NewCPF_def validateCPF_None normalizeCPF_def
      split: option.splits dest: sym[of None] simp flip: validateCPF_None)

lemma cpf_wellformed_digits: "cpf_wellformed n \<Longrightarrow> only_digits n = n"
  by (rule only_digits_id) (simp add: cpf_wellformed_def)

lemma only_digits_formatCPF:
  assumes "length n = 11" "\<forall>c \<in> set n. is_digit c"
  shows "only_digits (formatCPF n) = n"
proof -
  have nd: "\<not> is_digit (CHR ''.'')" "\<not> is_digit (CHR ''-'')"
    by (simp_all add: is_digit_def)
  have "substr n 0 3 @ substr n 3 6 @ substr n 6 9 @ substr n 9 11 = n"
    using assms(1) by (simp add: substr_append substr_full)
  then show ?thesis
    using assms only_digits_sub[OF assms(2)] by (simp add: formatCPF_def nd)
qed

lemma FormatCPF_digits: "length (only_digits s) = 11 \<Longrightarrow> only_digits (FormatCPF s) = only_digits s"
  unfolding FormatCPF_def normalizeCPF_def
  by (rule only_digits_formatCPF) (auto dest: only_digits_all)

interpretation cpf: tax_document NormalizeCPF FormatCPF MaskCPF "\<lambda>s. ValidateCPF s = None" 11 6
proof unfold_locales
  show "MaskCPF s = MaskCPF t" if "length (NormalizeCPF s) = 11" "length (NormalizeCPF t) = 11"
    "take 6 (NormalizeCPF s) = take 6 (NormalizeCPF t)" for s t
  proof -
    have "substr x 0 3 = take 3 x" "substr x 3 6 = drop 3 (take 6 x)" for x :: string
      by (simp_all add: substr_def drop_take)
    moreover have "take 3 (NormalizeCPF s) = take 3 (NormalizeCPF t)"
      using arg_cong[OF that(3), of "take 3"] by simp
    ultimately show ?thesis
      using that by (simp add: MaskCPF_def NormalizeCPF_def normalizeCPF_def Let_def)
  qed
qed (auto simp: NormalizeCPF_def normalizeCPF_def ValidateCPF_def validateCPF_None
    FormatCPF_digits[unfolded FormatCPF_def normalizeCPF_def] cpf_wellformed_def FormatCPF_def)

lemma cpf_weighted_append: "k \<le> length b \<Longrightarrow> cpf_weighted (b @ t) k = cpf_weighted b k"
  by (auto simp: cpf_weighted_def nth_append intro!: sum.cong)

lemma expected_char:
  "is_digit c \<Longrightarrow> int (digit_val c) = expectedDigit t \<longleftrightarrow> c = digit_char (nat (expectedDigit t))"
  using expectedDigit_range[of t] digit_val_inj[of c "digit_char (nat (expectedDigit t))"]
  by auto

lemma cpf_wellformed_completion:
  assumes "length b = 9" "\<forall>c \<in> set b. is_digit c" "\<exists>c \<in> set b. c \<noteq> hd b"
  shows "cpf_wellformed (b @ [x, y]) \<longleftrightarrow>
    x = digit_char (nat (expectedDigit (cpf_weighted b 9))) \<and>
    y = digit_char (nat (expectedDigit (cpf_weighted (b @ [x]) 10)))"
proof -
  have hd: "hd (b @ [x, y]) = hd b" using assms(1) by (cases b) auto
  have w: "cpf_weighted (b @ [x, y]) 9 = cpf_weighted b 9"
    "cpf_weighted (b @ [x, y]) 10 = cpf_weighted (b @ [x]) 10"
    using cpf_weighted_append[of 9 b "[x, y]"] cpf_weighted_append[of 10 "b @ [x]" "[y]"] assms(1)
    by simp_all
  have n: "(b @ [x, y]) ! 9 = x" "(b @ [x, y]) ! 10 = y"
    using assms(1) by (simp_all add: nth_append)
  have "is_digit (digit_char (nat (expectedDigit t)))" for t
    using expectedDigit_range[of t] by simp
  then show ?thesis
    using assms(1,2,3) expected_char
    by (auto simp: cpf_wellformed_def hd w n)
qed

section \<open>Properties\<close>



text \<open>every nine-digit base whose digits are not all equal has exactly one pair of check
  digits with which \<open>NewCPF\<close> accepts it.\<close>

theorem cpf_check_digits_unique:
  assumes "length b = 9" and "\<forall>c \<in> set b. is_digit c" and "\<exists>c \<in> set b. c \<noteq> hd b"
  shows "\<exists>!cd. length cd = 2 \<and> (\<exists>c. NewCPF (b @ cd) = Inr c)"
proof -
  let ?x = "digit_char (nat (expectedDigit (cpf_weighted b 9)))"
  let ?y = "digit_char (nat (expectedDigit (cpf_weighted (b @ [?x]) 10)))"
  have acc: "(\<exists>c. NewCPF (b @ cd) = Inr c) \<longleftrightarrow> cpf_wellformed (b @ only_digits cd)" for cd
    using assms(2) by (auto simp: NewCPF_Inr only_digits_id intro: exI[of _ "\<lparr>number = _\<rparr>"])
  have len: "cpf_wellformed (b @ only_digits cd) \<Longrightarrow> length cd = 2 \<Longrightarrow> only_digits cd = cd" for cd
    using assms(1) by (simp add: cpf_wellformed_def only_digits_length)
  have "is_digit ?x \<and> is_digit ?y"
    using expectedDigit_range[of "cpf_weighted b 9"] expectedDigit_range[of "cpf_weighted (b @ [?x]) 10"]
    by (simp add: nat_less_iff)
  then have "cpf_wellformed (b @ only_digits [?x, ?y])"
    using cpf_wellformed_completion[OF assms] by simp
  moreover have "cd = [?x, ?y]"
    if l2: "length cd = 2" and wf: "cpf_wellformed (b @ only_digits cd)" for cd
  proof -
    obtain x y where cd: "cd = [x, y]" using l2 by (auto simp: length2)
    then have "cpf_wellformed (b @ [x, y])" using len[OF wf l2] wf by simp
    then have "x = ?x" "y = digit_char (nat (expectedDigit (cpf_weighted (b @ [x]) 10)))"
      using cpf_wellformed_completion[OF assms, of x y] by simp_all
    then show ?thesis using cd by simp
  qed
  ultimately show ?thesis unfolding acc by (intro ex1I[of _ "[?x, ?y]"]) auto
qed

theorem cpf_check_digits_unique_witness:
  "\<exists>!cd. length cd = 2 \<and> (\<exists>c. NewCPF (''529982247'' @ cd) = Inr c)"
  by (rule cpf_check_digits_unique) (simp_all add: is_digit_def)

text \<open>a value that \<open>NewCPF\<close> returned survives every codec: the database round trip
  (\<open>Value\<close> then \<open>Scan\<close>), the JSON round trip and reparsing of the printed form give the
  same value back, and the printed form is a fixed point of formatting.\<close>

theorem cpf_roundtrip:
  assumes "NewCPF s = Inr c"
  shows "CPF_Scan (CPF_Value c) = Inr c \<and> CPF_UnmarshalJSON (CPF_MarshalJSON c) = Inr c
    \<and> NewCPF (CPF_String c) = Inr c \<and> FormatCPF (CPF_String c) = CPF_String c"
proof -
  have wf: "cpf_wellformed (number c)" and n: "number c = only_digits s"
    using assms unfolding NewCPF_Inr by blast+
  have pr: "only_digits (CPF_String c) = number c"
    unfolding CPF_String_def using wf by (intro only_digits_formatCPF) (simp_all add: cpf_wellformed_def)
  have "number c \<noteq> []" using wf by (auto simp: cpf_wellformed_def)
  then show ?thesis
    using wf pr cpf_wellformed_digits[OF wf]
    by (simp add: CPF_Scan_def CPF_Value_def CPF_UnmarshalJSON_def CPF_MarshalJSON_def NewCPF_Inr
        FormatCPF_def normalizeCPF_def) (simp add: CPF_String_def n)
qed

theorem cpf_roundtrip_witness:
  "CPF_Scan (CPF_Value \<lparr>number = ''52998224725''\<rparr>) = Inr \<lparr>number = ''52998224725''\<rparr>"
proof -
  have "NewCPF ''529.982.247-25'' = Inr \<lparr>number = ''52998224725''\<rparr>" by code_simp
  from cpf_roundtrip[OF this] show ?thesis by blast
qed

end
