(* ===== verification/Cnpj.thy ===== *)
theory Cnpj
  imports Cpf
begin

text \<open>
  CNPJ validation of \<^verbatim>\<open>internal/domain/company/cnpj.go\<close>. As for the CPF, validation is shown
  total and equal to an independent statement of the algorithm, each twelve-digit base has
  exactly one completion, and the list of known invalid numbers is shown to reject nothing
  that validation accepts.
\<close>

section \<open>Model\<close>

definition NormalizeCNPJ :: "string \<Rightarrow> string" where
  "NormalizeCNPJ cnpj = only_digits cnpj"

definition FormatCNPJ :: "string \<Rightarrow> string" where
  "FormatCNPJ cnpj = (let normalized = NormalizeCNPJ cnpj in
     if length normalized \<noteq> 14 then cnpj
     else substr normalized 0 2 @ ''.'' @ substr normalized 2 5 @ ''.'' @ substr normalized 5 8 @ ''/''
          @ substr normalized 8 12 @ ''-'' @ substr normalized 12 14)"

definition MaskCNPJ :: "string \<Rightarrow> string" where
  "MaskCNPJ cnpj = (let normalized = NormalizeCNPJ cnpj in
     if length normalized \<noteq> 14 then ''**.***.****/****-**''
     else substr normalized 0 2 @ ''.'' @ substr normalized 2 5 @ ''.'' @ substr normalized 5 8
          @ ''/****-**'')"

fun cnpj_allSame_from :: "char \<Rightarrow> string \<Rightarrow> bool" where
  "cnpj_allSame_from first [] = True"
| "cnpj_allSame_from first (c # s) = (if c \<noteq> first then False else cnpj_allSame_from first s)"

definition cnpj_isAllSameDigit :: "string \<Rightarrow> bool" where
  "cnpj_isAllSameDigit s = (case s of [] \<Rightarrow> True | first # rest \<Rightarrow> cnpj_allSame_from first rest)"

definition cnpj_weights :: "nat \<Rightarrow> int list" where
  "cnpj_weights position = (if position = 12 then [5, 4, 3, 2, 9, 8, 7, 6, 5, 4, 3, 2]
     else [6, 5, 4, 3, 2, 9, 8, 7, 6, 5, 4, 3, 2])"

text \<open>
  The summation loop: \<open>Inl\<close> is an index panic (of the string or of the weight slice),
  \<open>Inr None\<close> the early \<^verbatim>\<open>return false\<close>.
\<close>

function cnpj_sum_loop :: "string \<Rightarrow> int list \<Rightarrow> nat \<Rightarrow> nat \<Rightarrow> int \<Rightarrow> (int option) result" where
  "cnpj_sum_loop cnpj weights position i acc =
     (if i < position then
        (case str_index cnpj i of Inl e \<Rightarrow> Inl e
         | Inr c \<Rightarrow> (case atoi_byte c of None \<Rightarrow> Inr None
             | Some digit \<Rightarrow>
                 (if i < length weights
                  then cnpj_sum_loop cnpj weights position (Suc i) (acc + int digit * weights ! i)
                  else Inl (RuntimePanic ''index out of range''))))
      else Inr (Some acc))"
  by pat_completeness auto
termination
  by (relation "measure (\<lambda>(cnpj, weights, position, i, acc). position - i)") auto

definition cnpj_validateCheckDigit :: "string \<Rightarrow> nat \<Rightarrow> bool result" where
  "cnpj_validateCheckDigit cnpj position =
     (case cnpj_sum_loop cnpj (cnpj_weights position) position 0 0 of Inl e \<Rightarrow> Inl e
      | Inr None \<Rightarrow> Inr False
      | Inr (Some acc) \<Rightarrow>
          (let remainder = acc mod 11;
               expected = (if remainder \<ge> 2 then 11 - remainder else 0)
           in case str_index cnpj position of Inl e \<Rightarrow> Inl e
              | Inr c \<Rightarrow> (case atoi_byte c of None \<Rightarrow> Inr False
                  | Some actualDigit \<Rightarrow> Inr (int actualDigit = expected))))"

definition ValidateCNPJ_result :: "string \<Rightarrow> bool result" where
  "ValidateCNPJ_result cnpj0 = (let cnpj = NormalizeCNPJ cnpj0 in
     if length cnpj \<noteq> 14 then Inr False
     else if cnpj_isAllSameDigit cnpj then Inr False
     else (case cnpj_validateCheckDigit cnpj 12 of Inl e \<Rightarrow> Inl e
       | Inr ok \<Rightarrow> if \<not> ok then Inr False else cnpj_validateCheckDigit cnpj 13))"

text \<open>
  What the callers see: the boolean result. That the run-time panic branch does not arise
  is lemma \<open>ValidateCNPJ_total\<close> below.
\<close>

definition ValidateCNPJ :: "string \<Rightarrow> bool" where
  "ValidateCNPJ cnpj = (ValidateCNPJ_result cnpj = Inr True)"

definition KnownInvalidCNPJs :: "string list" where
  "KnownInvalidCNPJs = [''00000000000000'', ''11111111111111'', ''22222222222222'',
     ''33333333333333'', ''44444444444444'', ''55555555555555'', ''66666666666666'',
     ''77777777777777'', ''88888888888888'', ''99999999999999'']"

fun blacklist_loop :: "string \<Rightarrow> string list \<Rightarrow> bool" where
  "blacklist_loop normalized [] = False"
| "blacklist_loop normalized (invalid # rest) =
     (if normalized = invalid then True else blacklist_loop normalized rest)"

definition IsBlacklistedCNPJ :: "string \<Rightarrow> bool" where
  "IsBlacklistedCNPJ cnpj = blacklist_loop (NormalizeCNPJ cnpj) KnownInvalidCNPJs"

section \<open>The algorithm, stated independently\<close>

definition cnpj_weighted :: "string \<Rightarrow> nat \<Rightarrow> int" where
  "cnpj_weighted s k = (\<Sum>i < k. int (digit_val (s ! i)) * (2 + (int k - 1 - int i) mod 8))"

definition cnpj_wellformed :: "string \<Rightarrow> bool" where
  "cnpj_wellformed n \<longleftrightarrow> length n = 14 \<and> (\<forall>c \<in> set n. is_digit c)
     \<and> (\<exists>c \<in> set n. c \<noteq> hd n)
     \<and> int (digit_val (n ! 12)) = expectedDigit (cnpj_weighted n 12)
     \<and> int (digit_val (n ! 13)) = expectedDigit (cnpj_weighted n 13)"

section \<open>Lemmas\<close>

declare cnpj_sum_loop.simps [simp del]

lemma cnpj_allSame_from_iff: "cnpj_allSame_from a s \<longleftrightarrow> (\<forall>c \<in> set s. c = a)"
  by (induction s) auto

lemma cnpj_isAllSameDigit_iff: "cnpj_isAllSameDigit s \<longleftrightarrow> (\<forall>c \<in> set s. c = hd s)"
  by (cases s) (auto simp: cnpj_isAllSameDigit_def cnpj_allSame_from_iff)

lemma blacklist_loop_iff: "blacklist_loop n xs \<longleftrightarrow> n \<in> set xs"
  by (induction xs) auto

lemma cnpj_sum_loop_digits:
  assumes "\<forall>c \<in> set s. is_digit c" "p \<le> length s" "p \<le> length ws" "i \<le> p"
  shows "cnpj_sum_loop s ws p i t =
    Inr (Some (t + (\<Sum>k = i..<p. int (digit_val (s ! k)) * ws ! k)))"
  using assms
proof (induction s ws p i t rule: cnpj_sum_loop.induct)
  case (1 s ws p i t)
  show ?case
  proof (cases "i < p")
    case True
    then have d: "str_index s i = Inr (s ! i)" "atoi_byte (s ! i) = Some (digit_val (s ! i))"
      "i < length ws"
      using "1.prems" by (auto simp: str_index_def atoi_byte_def)
    show ?thesis
      using "1.IH"[OF True d] "1.prems" True
      by (simp add: cnpj_sum_loop.simps[of s ws p i] d sum.atLeast_Suc_lessThan)
  next
    case False
    then show ?thesis using "1.prems" by (simp add: cnpj_sum_loop.simps)
  qed
qed

text \<open>The two weight tables are the cycle \<open>2, \<dots>, 9\<close> read from the right.\<close>

lemma cnpj_weights_nth:
  assumes "p \<in> {12, 13}" "i < p"
  shows "cnpj_weights p ! i = 2 + (int p - 1 - int i) mod 8"
proof -
  have "\<forall>i \<in> set [0..<12]. cnpj_weights 12 ! i = 2 + (11 - int i) mod 8"
    "\<forall>i \<in> set [0..<13]. cnpj_weights 13 ! i = 2 + (12 - int i) mod 8"
    by (simp_all add: cnpj_weights_def upt_rec)
  then show ?thesis using assms by auto
qed

lemma cnpj_validateCheckDigit_digits:
  assumes "\<forall>c \<in> set s. is_digit c" "p < length s" "p \<in> {12, 13}"
  shows "cnpj_validateCheckDigit s p =
    Inr (int (digit_val (s ! p)) = expectedDigit (cnpj_weighted s p))"
proof -
  have "str_index s p = Inr (s ! p)" "atoi_byte (s ! p) = Some (digit_val (s ! p))"
    using assms by (auto simp: str_index_def atoi_byte_def)
  moreover have "p \<le> length (cnpj_weights p)" using assms(3) by (auto simp: cnpj_weights_def)
  moreover have "(\<Sum>k = 0..<p. int (digit_val (s ! k)) * cnpj_weights p ! k) = cnpj_weighted s p"
    unfolding cnpj_weighted_def atLeast0LessThan
    by (rule sum.cong) (simp_all add: cnpj_weights_nth[OF assms(3)])
  ultimately show ?thesis
    using cnpj_sum_loop_digits[OF assms(1), of p "cnpj_weights p" 0 0] assms(2)
    by (simp add: cnpj_validateCheckDigit_def expectedDigit_def Let_def)
qed

lemma ValidateCNPJ_total: "ValidateCNPJ_result s = Inr (cnpj_wellformed (only_digits s))"
  by (auto simp: ValidateCNPJ_result_def NormalizeCNPJ_def cnpj_isAllSameDigit_iff
      cnpj_validateCheckDigit_digits only_digits_all cnpj_wellformed_def Let_def)

lemma ValidateCNPJ_iff: "ValidateCNPJ s \<longleftrightarrow> cnpj_wellformed (only_digits s)"
  by (simp add: ValidateCNPJ_def ValidateCNPJ_total)

lemma ValidateCNPJ_length: "ValidateCNPJ s \<Longrightarrow> length (NormalizeCNPJ s) = 14"
  by (simp add: ValidateCNPJ_iff cnpj_wellformed_def NormalizeCNPJ_def)

lemma NormalizeCNPJ_idem [simp]: "NormalizeCNPJ (NormalizeCNPJ s) = NormalizeCNPJ s"
  by (simp add: NormalizeCNPJ_def)

lemma ValidateCNPJ_Normalize [simp]: "ValidateCNPJ (NormalizeCNPJ s) = ValidateCNPJ s"
  by (simp add: NormalizeCNPJ_def ValidateCNPJ_iff)

lemma only_digits_FormatCNPJ:
  assumes "length (only_digits s) = 14"
  shows "only_digits (FormatCNPJ s) = only_digits s"
proof -
  let ?n = "only_digits s"
  have nd: "\<not> is_digit (CHR ''.'')" "\<not> is_digit (CHR ''-'')" "\<not> is_digit (CHR ''/'')"
    by (simp_all add: is_digit_def)
  have "substr ?n 0 2 @ substr ?n 2 5 @ substr ?n 5 8 @ substr ?n 8 12 @ substr ?n 12 14 = ?n"
    using assms by (simp add: substr_append substr_full)
  moreover have "only_digits (substr ?n i j) = substr ?n i j" for i j
    by (rule only_digits_sub) (auto dest: only_digits_all)
  ultimately show ?thesis
    using assms by (simp add: FormatCNPJ_def NormalizeCNPJ_def nd Let_def)
qed

interpretation cnpj: tax_document NormalizeCNPJ FormatCNPJ MaskCNPJ ValidateCNPJ 14 8
proof unfold_locales
  show "MaskCNPJ s = MaskCNPJ t" if "length (NormalizeCNPJ s) = 14" "length (NormalizeCNPJ t) = 14"
    "take 8 (NormalizeCNPJ s) = take 8 (NormalizeCNPJ t)" for s t
  proof -
    have "substr x 0 2 = take 2 x" "substr x 2 5 = drop 2 (take 5 x)"
      "substr x 5 8 = drop 5 (take 8 x)" for x :: string
      by (simp_all add: substr_def drop_take)
    moreover have "take 2 (NormalizeCNPJ s) = take 2 (NormalizeCNPJ t)"
      "take 5 (NormalizeCNPJ s) = take 5 (NormalizeCNPJ t)"
      using arg_cong[OF that(3), of "take 2"] arg_cong[OF that(3), of "take 5"] by simp_all
    ultimately show ?thesis
      using that by (simp add: MaskCNPJ_def Let_def)
  qed
  show "NormalizeCNPJ (FormatCNPJ s) = NormalizeCNPJ s" if "length (NormalizeCNPJ s) = 14" for s
    using that only_digits_FormatCNPJ by (simp add: NormalizeCNPJ_def)
qed (auto simp: ValidateCNPJ_length FormatCNPJ_def Let_def)

lemma cnpj_weighted_append: "k \<le> length b \<Longrightarrow> cnpj_weighted (b @ t) k = cnpj_weighted b k"
  by (auto simp: cnpj_weighted_def nth_append intro!: sum.cong)

lemma cnpj_wellformed_completion:
  assumes "length b = 12" "\<forall>c \<in> set b. is_digit c" "\<exists>c \<in> set b. c \<noteq> hd b"
  shows "cnpj_wellformed (b @ [x, y]) \<longleftrightarrow>
    x = digit_char (nat (expectedDigit (cnpj_weighted b 12))) \<and>
    y = digit_char (nat (expectedDigit (cnpj_weighted (b @ [x]) 13)))"
proof -
  have hd: "hd (b @ [x, y]) = hd b" using assms(1) by (cases b) auto
  have w: "cnpj_weighted (b @ [x, y]) 12 = cnpj_weighted b 12"
    "cnpj_weighted (b @ [x, y]) 13 = cnpj_weighted (b @ [x]) 13"
    using cnpj_weighted_append[of 12 b "[x, y]"] cnpj_weighted_append[of 13 "b @ [x]" "[y]"] assms(1)
    by simp_all
  have n: "(b @ [x, y]) ! 12 = x" "(b @ [x, y]) ! 13 = y"
    using assms(1) by (simp_all add: nth_append)
  have "is_digit (digit_char (nat (expectedDigit t)))" for t
    using expectedDigit_range[of t] by simp
  then show ?thesis
    using assms(1,2,3) expected_char
    by (auto simp: cnpj_wellformed_def hd w n)
qed

section \<open>Properties\<close>

text \<open>C35: \<open>ValidateCNPJ\<close> runs without an index panic on every input and accepts exactly the
  strings whose digits form a fourteen-digit number, not all equal, with both check digits
  given by the weights \<open>2\<close> to \<open>9\<close> cycling from the right; hence the two weight tables of
  the source are that cycle.\<close>

theorem ValidateCNPJ_spec: "ValidateCNPJ_result s = Inr (cnpj_wellformed (NormalizeCNPJ s))"
  by (simp add: ValidateCNPJ_total NormalizeCNPJ_def)

text \<open>for a valid CNPJ the printed form is again valid, normalises to the same digits and is a
  fixed point of \<open>FormatCNPJ\<close>; the mask depends on the first eight digits only; and the list
  \<open>KnownInvalidCNPJs\<close> never rejects a number that validation has accepted.\<close>

theorem cnpj_format_mask_blacklist:
  assumes "ValidateCNPJ s"
  shows "ValidateCNPJ (FormatCNPJ s) \<and> NormalizeCNPJ (FormatCNPJ s) = NormalizeCNPJ s
    \<and> FormatCNPJ (FormatCNPJ s) = FormatCNPJ s
    \<and> (\<forall>t. ValidateCNPJ t \<and> take 8 (NormalizeCNPJ t) = take 8 (NormalizeCNPJ s) \<longrightarrow> MaskCNPJ t = MaskCNPJ s)
    \<and> \<not> IsBlacklistedCNPJ s"
proof -
  have "\<forall>x \<in> set KnownInvalidCNPJs. \<forall>c \<in> set x. c = hd x" by (simp add: KnownInvalidCNPJs_def)
  then have "\<not> IsBlacklistedCNPJ s"
    using assms
    by (auto simp: IsBlacklistedCNPJ_def blacklist_loop_iff NormalizeCNPJ_def ValidateCNPJ_iff cnpj_wellformed_def)
  then show ?thesis
    using assms cnpj.mask_prefix cnpj.valid_size
    by (auto simp: cnpj.valid_fmt cnpj.fmt_idem cnpj.norm_fmt cnpj.valid_size)
qed

theorem cnpj_format_mask_blacklist_witness:
  "ValidateCNPJ (FormatCNPJ ''11222333000181'') \<and> FormatCNPJ ''11222333000181'' = ''11.222.333/0001-81''"
proof -
  have v: "ValidateCNPJ ''11222333000181''" by code_simp
  have f: "FormatCNPJ ''11222333000181'' = ''11.222.333/0001-81''" by code_simp
  from cnpj_format_mask_blacklist[OF v] f show ?thesis by blast
qed

end
