(* ===== verification/Company.thy ===== *)
theory Company
  imports Cnpj
begin

text \<open>
  The company aggregate of \<^verbatim>\<open>internal/domain/company\<close> (\<^verbatim>\<open>company.go\<close>, \<^verbatim>\<open>company_info.go\<close>): companies,
  memberships and the cached registry data. Go's string-based enumerations stay strings, so
  that values outside the enumeration (which the \<^verbatim>\<open>IsValid\<close> methods reject) exist in the
  model too. A call of \<^verbatim>\<open>time.Now()\<close> is an argument.
\<close>

type_synonym CompanyStatus = string
type_synonym CompanyRole = string
type_synonym MembershipStatus = string
type_synonym CadastralSituation = string

abbreviation StatusActive :: CompanyStatus where "StatusActive \<equiv> ''active''"
abbreviation StatusPending :: CompanyStatus where "StatusPending \<equiv> ''pending''"
abbreviation StatusSuspended :: CompanyStatus where "StatusSuspended \<equiv> ''suspended''"

definition CompanyStatus_IsValid :: "CompanyStatus \<Rightarrow> bool" where
  "CompanyStatus_IsValid s \<longleftrightarrow> s = StatusActive \<or> s = StatusPending \<or> s = StatusSuspended"

abbreviation RoleAdmin :: CompanyRole where "RoleAdmin \<equiv> ''admin''"
abbreviation RoleMember :: CompanyRole where "RoleMember \<equiv> ''member''"
abbreviation RoleViewer :: CompanyRole where "RoleViewer \<equiv> ''viewer''"

definition CompanyRole_IsValid :: "CompanyRole \<Rightarrow> bool" where
  "CompanyRole_IsValid r \<longleftrightarrow> r = RoleAdmin \<or> r = RoleMember \<or> r = RoleViewer"

record Address =
  Logradouro :: string
  Numero :: string
  Complemento :: string
  Bairro :: string
  Cidade :: string
  UF :: string
  CEP :: string

definition emptyAddress :: Address where
  "emptyAddress = \<lparr>Logradouro = [], Numero = [], Complemento = [], Bairro = [], Cidade = [],
     UF = [], CEP = []\<rparr>"

definition Address_IsEmpty :: "Address \<Rightarrow> bool" where
  "Address_IsEmpty a \<longleftrightarrow> Logradouro a = [] \<and> Cidade a = [] \<and> UF a = [] \<and> CEP a = []"

record Company =
  c_ID :: string
  c_TenantID :: string
  c_CNPJ :: string
  c_RazaoSocial :: string
  c_NomeFantasia :: string
  c_Endereco :: Address
  c_RepresentanteLegal :: string
  c_Status :: CompanyStatus
  c_CreatedAt :: time
  c_UpdatedAt :: time

definition NewCompany :: "time \<Rightarrow> string \<Rightarrow> string \<Rightarrow> string \<Rightarrow> string \<Rightarrow> Company result" where
  "NewCompany now cid tenantID cnpj razaoSocial =
     (if cid = [] then Inl (ErrorString ''company id is required'')
      else if tenantID = [] then Inl (ErrorString ''tenant id is required'')
      else if cnpj = [] then Inl (ErrorString ''CNPJ is required'')
      else if razaoSocial = [] then Inl (ErrorString (''raz'' @ [CHR 0xC3, CHR 0xA3] @ ''o social is required''))
      else if \<not> ValidateCNPJ cnpj then Inl (Sentinel ErrCNPJInvalid)
      else Inr \<lparr>c_ID = cid, c_TenantID = tenantID, c_CNPJ = NormalizeCNPJ cnpj,
        c_RazaoSocial = razaoSocial, c_NomeFantasia = [], c_Endereco = emptyAddress,
        c_RepresentanteLegal = [], c_Status = StatusActive, c_CreatedAt = now, c_UpdatedAt = now\<rparr>)"

definition Company_IsActive :: "Company \<Rightarrow> bool" where
  "Company_IsActive c \<longleftrightarrow> c_Status c = StatusActive"

definition Company_Suspend :: "time \<Rightarrow> Company \<Rightarrow> Company" where
  "Company_Suspend now c = c\<lparr>c_Status := StatusSuspended, c_UpdatedAt := now\<rparr>"

definition Company_Activate :: "time \<Rightarrow> Company \<Rightarrow> Company" where
  "Company_Activate now c = c\<lparr>c_Status := StatusActive, c_UpdatedAt := now\<rparr>"

abbreviation MembershipPending :: MembershipStatus where "MembershipPending \<equiv> ''pending''"
abbreviation MembershipActive :: MembershipStatus where "MembershipActive \<equiv> ''active''"
abbreviation MembershipRevoked :: MembershipStatus where "MembershipRevoked \<equiv> ''revoked''"

definition MembershipStatus_IsValid :: "MembershipStatus \<Rightarrow> bool" where
  "MembershipStatus_IsValid s \<longleftrightarrow> s = MembershipPending \<or> s = MembershipActive \<or> s = MembershipRevoked"

record CompanyUser =
  cu_CompanyID :: string
  cu_UserID :: string
  cu_Role :: CompanyRole
  cu_InvitedBy :: string
  cu_JoinedAt :: time
  cu_Status :: MembershipStatus

definition NewCompanyUser ::
    "time \<Rightarrow> string \<Rightarrow> string \<Rightarrow> CompanyRole \<Rightarrow> string \<Rightarrow> CompanyUser result" where
  "NewCompanyUser now companyID userID role invitedBy =
     (if companyID = [] then Inl (ErrorString ''company id is required'')
      else if userID = [] then Inl (ErrorString ''user id is required'')
      else if \<not> CompanyRole_IsValid role then Inl (Sentinel ErrInvalidRole)
      else Inr \<lparr>cu_CompanyID = companyID, cu_UserID = userID, cu_Role = role,
        cu_InvitedBy = invitedBy, cu_JoinedAt = now, cu_Status = MembershipActive\<rparr>)"

definition CompanyUser_IsActive :: "CompanyUser \<Rightarrow> bool" where
  "CompanyUser_IsActive cu \<longleftrightarrow> cu_Status cu = MembershipActive"

definition CompanyUser_Revoke :: "CompanyUser \<Rightarrow> CompanyUser" where
  "CompanyUser_Revoke cu = cu\<lparr>cu_Status := MembershipRevoked\<rparr>"

section \<open>Registry data\<close>

abbreviation SituationActive :: CadastralSituation where "SituationActive \<equiv> ''ATIVA''"
abbreviation SituationSuspended :: CadastralSituation where "SituationSuspended \<equiv> ''SUSPENSA''"
abbreviation SituationInapt :: CadastralSituation where "SituationInapt \<equiv> ''INAPTA''"
abbreviation SituationLowered :: CadastralSituation where "SituationLowered \<equiv> ''BAIXADA''"
abbreviation SituationNull :: CadastralSituation where "SituationNull \<equiv> ''NULA''"

definition CadastralSituation_IsValid :: "CadastralSituation \<Rightarrow> bool" where
  "CadastralSituation_IsValid s \<longleftrightarrow> s = SituationActive \<or> s = SituationSuspended \<or> s = SituationInapt
     \<or> s = SituationLowered \<or> s = SituationNull"

record CompanyInfo =
  ci_CNPJ :: string
  ci_RazaoSocial :: string
  ci_NomeFantasia :: string
  ci_Situacao :: CadastralSituation
  ci_NaturezaJuridica :: string
  ci_DataAbertura :: time
  ci_Endereco :: Address
  ci_Telefones :: "string list"
  ci_Emails :: "string list"
  ci_CNAEPrincipal :: string
  ci_LastFetchedAt :: time

definition CompanyInfo_IsActive :: "CompanyInfo \<Rightarrow> bool" where
  "CompanyInfo_IsActive ci \<longleftrightarrow> ci_Situacao ci = SituationActive"

definition CheckEligibility :: "CompanyInfo \<Rightarrow> go_error option" where
  "CheckEligibility ci = (if \<not> CompanyInfo_IsActive ci then Some (Sentinel ErrCompanyInactive) else None)"

section \<open>Well-formedness\<close>

definition company_ok :: "Company \<Rightarrow> bool" where
  "company_ok c \<longleftrightarrow> c_ID c \<noteq> [] \<and> c_TenantID c \<noteq> [] \<and> c_RazaoSocial c \<noteq> []
     \<and> cnpj_wellformed (c_CNPJ c) \<and> CompanyStatus_IsValid (c_Status c)"

definition company_user_ok :: "CompanyUser \<Rightarrow> bool" where
  "company_user_ok cu \<longleftrightarrow> cu_CompanyID cu \<noteq> [] \<and> cu_UserID cu \<noteq> [] \<and> CompanyRole_IsValid (cu_Role cu)
     \<and> MembershipStatus_IsValid (cu_Status cu)"

lemma company_ok_Suspend_Activate [simp]:
  "company_ok c \<Longrightarrow> company_ok (Company_Suspend t c)" "company_ok c \<Longrightarrow> company_ok (Company_Activate t c)"
  by (simp_all add: company_ok_def Company_Suspend_def Company_Activate_def CompanyStatus_IsValid_def)

lemma NewCompanyUser_ok: "NewCompanyUser t c u r b = Inr cu \<Longrightarrow> company_user_ok cu"
  by (auto simp: NewCompanyUser_def company_user_ok_def MembershipStatus_IsValid_def split: if_splits)

text \<open>the constructor \<open>NewCompany\<close> either reports an error or returns a well-formed company: its
  identifiers and name are not empty, its CNPJ is the fourteen-digit normal form of a valid
  number and its status is active; suspending and activating it toggle exactly what
  \<open>IsActive\<close> reports and keep it well formed.\<close>

theorem NewCompany_ok:
  assumes "NewCompany now i t cnpj rs = Inr c"
  shows "company_ok c \<and> c_CNPJ c = NormalizeCNPJ cnpj \<and> ValidateCNPJ (c_CNPJ c) \<and> Company_IsActive c
    \<and> \<not> Company_IsActive (Company_Suspend t1 c) \<and> company_ok (Company_Suspend t1 c)
    \<and> Company_Activate t2 (Company_Suspend t1 c) = c\<lparr>c_UpdatedAt := t2\<rparr>"
proof -
  have ok: "company_ok c" and eqs: "c_CNPJ c = NormalizeCNPJ cnpj" "ValidateCNPJ cnpj" "c_Status c = StatusActive"
    using assms
    by (auto simp: NewCompany_def company_ok_def CompanyStatus_IsValid_def ValidateCNPJ_iff
        NormalizeCNPJ_def split: if_splits)
  then show ?thesis
    by (cases c) (simp add: Company_IsActive_def Company_Suspend_def Company_Activate_def company_ok_def
        CompanyStatus_IsValid_def)
qed

theorem NewCompany_ok_witness:
  "\<exists>c. NewCompany 5 ''c1'' ''t1'' ''11.222.333/0001-81'' ''ACME'' = Inr c \<and> company_ok c"
proof -
  have "ValidateCNPJ ''11.222.333/0001-81''" by code_simp
  then obtain c where c: "NewCompany 5 ''c1'' ''t1'' ''11.222.333/0001-81'' ''ACME'' = Inr c"
    by (simp add: NewCompany_def)
  with NewCompany_ok[OF c] show ?thesis by blast
qed

end
