(* ===== verification/Identity.thy ===== *)
theory Identity
  imports Company
begin

text \<open>
  The remaining domain entities: users and identity types (\<^verbatim>\<open>domain/user\<close>, \<^verbatim>\<open>domain/identity\<close>),
  sessions, tenants, API keys, roles, ReBAC tuples, TOTP secrets and login history, together
  with the JWT claims of \<^verbatim>\<open>application/ports/security.go\<close>.
\<close>

section \<open>Users\<close>

record User =
  u_ID :: string
  u_Email :: string
  u_PasswordHash :: string
  u_TenantID :: string
  u_IdentityType :: string
  u_CPF :: CPF
  u_ActiveCompanyID :: string
  u_AvatarURL :: string
  u_CreatedAt :: time
  u_UpdatedAt :: time
  u_LastLoginAt :: time
  u_LoginAttempts :: int
  u_LockedUntil :: time
  u_ResetToken :: string
  u_ResetTokenExpiresAt :: time
  u_Status :: string
  u_VerificationToken :: string
  u_VerificationTokenExpiresAt :: time
  u_MFAEnabled :: bool
  u_MFASecret :: string

text \<open>Go's zero value \<^verbatim>\<open>user.User{}\<close>.\<close>

definition zeroUser :: User where
  "zeroUser = \<lparr>u_ID = [], u_Email = [], u_PasswordHash = [], u_TenantID = [], u_IdentityType = [],
     u_CPF = emptyCPF, u_ActiveCompanyID = [], u_AvatarURL = [], u_CreatedAt = 0, u_UpdatedAt = 0,
     u_LastLoginAt = 0, u_LoginAttempts = 0, u_LockedUntil = 0, u_ResetToken = [],
     u_ResetTokenExpiresAt = 0, u_Status = [], u_VerificationToken = [],
     u_VerificationTokenExpiresAt = 0, u_MFAEnabled = False, u_MFASecret = []\<rparr>"

abbreviation UserPending :: string where "UserPending \<equiv> ''pending''"
abbreviation UserActive :: string where "UserActive \<equiv> ''active''"
abbreviation UserSuspended :: string where "UserSuspended \<equiv> ''suspended''"

abbreviation IdentityTypeIndividual :: string where "IdentityTypeIndividual \<equiv> ''individual''"
abbreviation IdentityTypeCompany :: string where "IdentityTypeCompany \<equiv> ''company''"

definition IdentityType_IsValid :: "string \<Rightarrow> bool" where
  "IdentityType_IsValid t \<longleftrightarrow> t = IdentityTypeIndividual \<or> t = IdentityTypeCompany"

definition NewUser :: "time \<Rightarrow> string \<Rightarrow> string \<Rightarrow> string \<Rightarrow> string \<Rightarrow> User result" where
  "NewUser now uid email passwordHash tenantID =
     (if uid = [] then Inl (ErrorString ''user id is required'')
      else if email = [] then Inl (ErrorString ''email is required'')
      else if passwordHash = [] then Inl (ErrorString ''password hash is required'')
      else if tenantID = [] then Inl (ErrorString ''tenant id is required'')
      else Inr (zeroUser\<lparr>u_ID := uid, u_Email := email, u_PasswordHash := passwordHash,
        u_TenantID := tenantID, u_IdentityType := IdentityTypeIndividual, u_ActiveCompanyID := [],
        u_CreatedAt := now, u_UpdatedAt := now, u_ResetToken := [], u_ResetTokenExpiresAt := 0,
        u_Status := UserPending, u_VerificationToken := [], u_VerificationTokenExpiresAt := 0\<rparr>))"

section \<open>Sessions\<close>

record Session =
  s_ID :: string
  s_UserID :: string
  s_RefreshToken :: string
  s_UserAgent :: string
  s_IPAddress :: string
  s_ExpiresAt :: time
  s_CreatedAt :: time
  s_Revoked :: bool

definition NewSession ::
    "time \<Rightarrow> string \<Rightarrow> string \<Rightarrow> string \<Rightarrow> string \<Rightarrow> string \<Rightarrow> time \<Rightarrow> Session" where
  "NewSession now sid userID refreshToken userAgent ipAddress expiresAt =
     \<lparr>s_ID = sid, s_UserID = userID, s_RefreshToken = refreshToken, s_UserAgent = userAgent,
      s_IPAddress = ipAddress, s_ExpiresAt = expiresAt, s_CreatedAt = now, s_Revoked = False\<rparr>"

definition Session_IsValid :: "time \<Rightarrow> Session \<Rightarrow> bool" where
  "Session_IsValid now s \<longleftrightarrow> \<not> s_Revoked s \<and> now < s_ExpiresAt s"

section \<open>Tenants, roles, tuples, keys, secrets\<close>

record Tenant =
  t_ID :: string
  t_Name :: string
  t_Status :: string
  t_CreatedAt :: time
  t_UpdatedAt :: time

abbreviation TenantActive :: string where "TenantActive \<equiv> ''active''"
abbreviation TenantSuspended :: string where "TenantSuspended \<equiv> ''suspended''"

definition Tenant_IsActive :: "Tenant \<Rightarrow> bool" where
  "Tenant_IsActive t \<longleftrightarrow> t_Status t = TenantActive"

record PolicyRole =
  pr_ID :: string
  pr_Name :: string
  pr_Description :: string
  pr_Permissions :: "string list"
  pr_TenantID :: string
  pr_CreatedAt :: time
  pr_UpdatedAt :: time

record Permission =
  pm_ID :: string
  pm_Name :: string
  pm_Description :: string
  pm_Module :: string
  pm_CreatedAt :: time

record DomainRole =
  dr_ID :: string
  dr_Name :: string
  dr_Description :: string
  dr_Permissions :: "Permission list"
  dr_CreatedAt :: time
  dr_UpdatedAt :: time

fun permission_loop :: "Permission list \<Rightarrow> string \<Rightarrow> bool" where
  "permission_loop [] permissionName = False"
| "permission_loop (p # ps) permissionName =
     (if pm_Name p = permissionName then True else permission_loop ps permissionName)"

definition HasPermission :: "DomainRole \<Rightarrow> string \<Rightarrow> bool" where
  "HasPermission r permissionName = permission_loop (dr_Permissions r) permissionName"

record Tuple =
  tp_TenantID :: string
  tp_Subject :: string
  tp_Relation :: string
  tp_Object :: string

record APIKey =
  k_ID :: string
  k_TenantID :: string
  k_UserID :: string
  k_Name :: string
  k_KeyPrefix :: string
  k_KeyHash :: string
  k_Scopes :: "string list"
  k_ExpiresAt :: "time option"
  k_LastUsedAt :: "time option"
  k_CreatedAt :: time

record TOTPSecret =
  ts_ID :: string
  ts_UserID :: string
  ts_Secret :: string
  ts_Enabled :: bool
  ts_BackupCodes :: "string list"
  ts_CreatedAt :: time
  ts_UpdatedAt :: time

record Claims =
  cl_UserID :: string
  cl_TenantID :: string
  cl_Roles :: "string list"
  cl_ActiveCompanyID :: string
  cl_CompanyRole :: string
  cl_IdentityType :: string
  cl_ExpiresAt :: time
  cl_IssuedAt :: time
  cl_NotBefore :: time
  cl_Issuer :: string
  cl_ID :: string

text \<open>The answer of an external document verification (\<^verbatim>\<open>ports/document_verification.go\<close>).\<close>

record DocumentVerificationResult =
  dv_Valid :: bool
  dv_Name :: string
  dv_Situation :: string
  dv_Timestamp :: time

section \<open>Domain events\<close>

text \<open>
  Events of \<^verbatim>\<open>domain/event\<close> and \<^verbatim>\<open>domain/company/events.go\<close>. The payload is an
  \<^verbatim>\<open>interface{}\<close>: one constructor per payload struct that the services publish.
\<close>

datatype payload =
    UserCreatedPayload string string string string        \<comment> \<open>user, email, tenant, role\<close>
  | UserSuspendedPayload string string                    \<comment> \<open>user, reason\<close>
  | TenantProvisionedPayload string string                \<comment> \<open>tenant, name\<close>
  | CompanyCreatedPayload string string string string string
      \<comment> \<open>company, CNPJ, legal name, tenant, creator\<close>
  | CompanyUserAddedPayload string string string string   \<comment> \<open>company, user, role, inviter\<close>
  | CompanyUserRemovedPayload string string string string \<comment> \<open>company, user, remover, reason\<close>
  | CompanySuspendedPayload string string string          \<comment> \<open>company, by, reason\<close>
  | CompanyActivatedPayload string string                 \<comment> \<open>company, by\<close>
  | CompanyInfoFetchedPayload string string string bool   \<comment> \<open>CNPJ, trigger, provider, found\<close>
  | CompanySyncPayload string string string string        \<comment> \<open>company, old status, new status, reason\<close>
  | event_CompanyUserAddedPayload string string string    \<comment> \<open>company, user, role: the struct of package event\<close>

abbreviation ev_UserCreated :: string where "ev_UserCreated \<equiv> ''Identity.UserCreated''"
abbreviation ev_UserSuspended :: string where "ev_UserSuspended \<equiv> ''Identity.UserSuspended''"
abbreviation ev_UserLoggedIn :: string where "ev_UserLoggedIn \<equiv> ''Identity.UserLoggedIn''"
abbreviation ev_TenantProvisioned :: string where "ev_TenantProvisioned \<equiv> ''Identity.TenantProvisioned''"
abbreviation ev_CompanyCreated :: string where "ev_CompanyCreated \<equiv> ''Identity.CompanyCreated''"
abbreviation ev_CompanyUserAdded :: string where "ev_CompanyUserAdded \<equiv> ''Identity.CompanyUserAdded''"
abbreviation ev_CompanyUserRemoved :: string where "ev_CompanyUserRemoved \<equiv> ''Identity.CompanyUserRemoved''"
abbreviation ev_CompanySuspended :: string where "ev_CompanySuspended \<equiv> ''Identity.CompanySuspended''"
abbreviation ev_CompanyActivated :: string where "ev_CompanyActivated \<equiv> ''Identity.CompanyActivated''"
abbreviation ev_CompanyUpdated :: string where "ev_CompanyUpdated \<equiv> ''Identity.CompanyUpdated''"
abbreviation ev_CompanyInfoFetched :: string where "ev_CompanyInfoFetched \<equiv> ''Identity.CompanyInfoFetched''"

record Event =
  e_ID :: string
  e_Type :: string
  e_AggregateType :: string
  e_AggregateID :: string
  e_Source :: string
  e_Timestamp :: time
  e_Payload :: payload
  e_TenantID :: string

text \<open>\<^verbatim>\<open>json.Marshal\<close> of a payload and of an event, with the \<^verbatim>\<open>omitempty\<close> fields of the structs.\<close>

definition omitempty :: "string \<Rightarrow> string \<Rightarrow> (string \<times> json) list" where
  "omitempty k s = (if s = [] then [] else [(k, JStr s)])"

fun payload_json :: "payload \<Rightarrow> json" where
  "payload_json (UserCreatedPayload u m t r) =
     JObj ([(''user_id'', JStr u), (''email'', JStr m), (''tenant_id'', JStr t)] @ omitempty ''role'' r)"
| "payload_json (UserSuspendedPayload u r) = JObj [(''user_id'', JStr u), (''reason'', JStr r)]"
| "payload_json (TenantProvisionedPayload t n) = JObj [(''tenant_id'', JStr t), (''name'', JStr n)]"
| "payload_json (CompanyCreatedPayload c n rs t b) =
     JObj [(''company_id'', JStr c), (''cnpj'', JStr n), (''razao_social'', JStr rs),
           (''tenant_id'', JStr t), (''created_by'', JStr b)]"
| "payload_json (CompanyUserAddedPayload c u r b) =
     JObj [(''company_id'', JStr c), (''user_id'', JStr u), (''role'', JStr r), (''invited_by'', JStr b)]"
| "payload_json (CompanyUserRemovedPayload c u b r) =
     JObj ([(''company_id'', JStr c), (''user_id'', JStr u), (''removed_by'', JStr b)] @ omitempty ''reason'' r)"
| "payload_json (CompanySuspendedPayload c b r) =
     JObj [(''company_id'', JStr c), (''suspended_by'', JStr b), (''reason'', JStr r)]"
| "payload_json (CompanyActivatedPayload c b) =
     JObj [(''company_id'', JStr c), (''activated_by'', JStr b)]"
| "payload_json (CompanyInfoFetchedPayload c t p f) =
     JObj ([(''cnpj'', JStr c)] @ omitempty ''triggered_by'' t @ [(''provider'', JStr p), (''found'', JBool f)])"
| "payload_json (CompanySyncPayload c s n r) =
     JObj [(''company_id'', JStr c), (''new_status'', JStr n), (''old_status'', JStr s), (''reason'', JStr r)]"
| "payload_json (event_CompanyUserAddedPayload c u r) =
     JObj [(''company_id'', JStr c), (''user_id'', JStr u), (''role'', JStr r)]"

definition event_json :: "Event \<Rightarrow> json" where
  "event_json e = JObj ([(''id'', JStr (e_ID e)), (''type'', JStr (e_Type e))]
     @ omitempty ''aggregate_type'' (e_AggregateType e) @ omitempty ''aggregate_id'' (e_AggregateID e)
     @ [(''source'', JStr (e_Source e)), (''timestamp'', JNum (e_Timestamp e)),
        (''payload'', payload_json (e_Payload e))]
     @ omitempty ''tenant_id'' (e_TenantID e))"

lemma permission_loop_iff: "permission_loop ps n \<longleftrightarrow> n \<in> pm_Name ` set ps"
  by (induction ps) auto

end
