(* ===== verification/Invitation.thy ===== *)
theory Invitation
  imports Company
begin

text \<open>
  The invitation entity of \<^verbatim>\<open>internal/domain/invitation/invitation.go\<close> as a state machine: an
  invitation starts pending and is accepted, expired or revoked at most once.
\<close>

section \<open>Model\<close>

abbreviation InvPending :: string where "InvPending \<equiv> ''pending''"
abbreviation InvAccepted :: string where "InvAccepted \<equiv> ''accepted''"
abbreviation InvExpired :: string where "InvExpired \<equiv> ''expired''"
abbreviation InvRevoked :: string where "InvRevoked \<equiv> ''revoked''"

record Invitation =
  i_ID :: string
  i_CompanyID :: string
  i_Email :: string
  i_Role :: CompanyRole
  i_Token :: string
  i_Status :: string
  i_ExpiresAt :: time
  i_CreatedAt :: time
  i_UpdatedAt :: time

text \<open>The two identifiers are the results of the two \<^verbatim>\<open>uuid.New()\<close> calls.\<close>

definition NewInvitation ::
    "time \<Rightarrow> string \<Rightarrow> string \<Rightarrow> string \<Rightarrow> string \<Rightarrow> CompanyRole \<Rightarrow> duration \<Rightarrow> Invitation" where
  "NewInvitation now uuid1 uuid2 companyID email role expiresIn =
     \<lparr>i_ID = uuid1, i_CompanyID = companyID, i_Email = email, i_Role = role, i_Token = uuid2,
      i_Status = InvPending, i_ExpiresAt = now + expiresIn, i_CreatedAt = now, i_UpdatedAt = now\<rparr>"

text \<open>
  \<open>Accept\<close> mutates its receiver also when it fails with \<open>ErrExpired\<close>, so the result is the
  error (if any) and the new value. The two times are the two calls of \<^verbatim>\<open>time.Now()\<close>.
\<close>

definition Invitation_Accept :: "time \<Rightarrow> time \<Rightarrow> Invitation \<Rightarrow> go_error option \<times> Invitation" where
  "Invitation_Accept now1 now2 i =
     (if i_Status i \<noteq> InvPending then (Some (Sentinel invitation_ErrInvalid), i)
      else if i_ExpiresAt i < now1 then (Some (Sentinel invitation_ErrExpired), i\<lparr>i_Status := InvExpired\<rparr>)
      else (None, i\<lparr>i_Status := InvAccepted, i_UpdatedAt := now2\<rparr>))"

definition Invitation_Revoke :: "time \<Rightarrow> Invitation \<Rightarrow> go_error option \<times> Invitation" where
  "Invitation_Revoke now i =
     (if i_Status i \<noteq> InvPending then (Some (Sentinel invitation_ErrInvalid), i)
      else (None, i\<lparr>i_Status := InvRevoked, i_UpdatedAt := now\<rparr>))"

section \<open>The life of an invitation\<close>

text \<open>
  A run is any sequence of calls of the two methods; the label records the call and whether
  it returned \<^verbatim>\<open>nil\<close>.
\<close>

datatype inv_label = LAccept time bool | LRevoke bool

inductive inv_step :: "Invitation \<Rightarrow> inv_label \<Rightarrow> Invitation \<Rightarrow> bool" where
  accept: "Invitation_Accept t1 t2 i = (r, i') \<Longrightarrow> inv_step i (LAccept t1 (r = None)) i'"
| revoke: "Invitation_Revoke t i = (r, i') \<Longrightarrow> inv_step i (LRevoke (r = None)) i'"

inductive inv_run :: "Invitation \<Rightarrow> inv_label list \<Rightarrow> Invitation \<Rightarrow> bool" where
  nil: "inv_run i [] i"
| snoc: "inv_run i ls j \<Longrightarrow> inv_step j l k \<Longrightarrow> inv_run i (ls @ [l]) k"

inductive_simps inv_step_accept: "inv_step i (LAccept t b) i'"
inductive_simps inv_step_revoke: "inv_step i (LRevoke b) i'"
inductive_cases inv_stepE: "inv_step i l i'"

fun succeeded :: "inv_label \<Rightarrow> bool" where
  "succeeded (LAccept t b) = b"
| "succeeded (LRevoke b) = b"

lemmas inv_ops = Invitation_Accept_def Invitation_Revoke_def

lemma inv_step_frame:
  "inv_step i l i' \<Longrightarrow> i_ID i' = i_ID i \<and> i_CompanyID i' = i_CompanyID i \<and> i_Email i' = i_Email i
    \<and> i_Role i' = i_Role i \<and> i_Token i' = i_Token i \<and> i_ExpiresAt i' = i_ExpiresAt i"
  by (erule inv_stepE) (auto simp: inv_ops split: if_splits)

lemma inv_step_status:
  "inv_step i l i' \<Longrightarrow> (if succeeded l then i_Status i = InvPending \<and> i_Status i' \<noteq> InvPending
     else i' = i \<or> i_Status i = InvPending \<and> i_Status i' = InvExpired)"
  by (erule inv_stepE) (auto simp: inv_ops split: if_splits)

lemma inv_step_done: "inv_step i l i' \<Longrightarrow> i_Status i \<noteq> InvPending \<Longrightarrow> i' = i \<and> \<not> succeeded l"
  by (erule inv_stepE) (auto simp: inv_ops split: if_splits)

lemma inv_step_in_time: "inv_step i (LAccept t True) i' \<Longrightarrow> t \<le> i_ExpiresAt i"
  by (auto simp: inv_step_accept inv_ops split: if_splits)

lemma inv_run_frame:
  "inv_run i ls j \<Longrightarrow> i_ID j = i_ID i \<and> i_CompanyID j = i_CompanyID i \<and> i_Email j = i_Email i
    \<and> i_Role j = i_Role i \<and> i_Token j = i_Token i \<and> i_ExpiresAt j = i_ExpiresAt i"
  by (induction rule: inv_run.induct) (auto dest: inv_step_frame)

lemma inv_run_success_count:
  "inv_run i ls j \<Longrightarrow> length (filter succeeded ls) \<le> (if i_Status j = InvPending then 0 else 1)
    \<and> (\<forall>t. LAccept t True \<in> set ls \<longrightarrow> t \<le> i_ExpiresAt i)"
proof (induction rule: inv_run.induct)
  case (nil i)
  then show ?case by simp
next
  case (snoc i ls j l k)
  have "t \<le> i_ExpiresAt i" if "l = LAccept t True" for t
    using that snoc.hyps inv_step_in_time inv_run_frame by metis
  moreover have "length (filter succeeded (ls @ [l])) \<le> (if i_Status k = InvPending then 0 else 1)"
    using snoc.IH inv_step_status[OF snoc.hyps(2)] inv_step_done[OF snoc.hyps(2)]
    by (auto split: if_splits)
  ultimately show ?case using snoc.IH by auto
qed

section \<open>Properties\<close>

text \<open>whatever sequence of \<open>Accept\<close> and \<open>Revoke\<close> calls is made on an invitation, at most one of
  them succeeds, an \<open>Accept\<close> succeeds only at a time not after the expiry, and the company, email,
  role, token and expiry of the invitation never change.\<close>

theorem invitation_single_use:
  assumes "inv_run i ls j"
  shows "length (filter succeeded ls) \<le> 1 \<and> (\<forall>t. LAccept t True \<in> set ls \<longrightarrow> t \<le> i_ExpiresAt i)
    \<and> i_CompanyID j = i_CompanyID i \<and> i_Email j = i_Email i \<and> i_Role j = i_Role i
    \<and> i_Token j = i_Token i \<and> i_ExpiresAt j = i_ExpiresAt i"
  using inv_run_success_count[OF assms] inv_run_frame[OF assms] by (auto split: if_splits)

text \<open>A run in which an invitation is accepted in time and a later revocation is refused.\<close>

theorem invitation_single_use_witness:
  "\<exists>i j. i_Status i = InvPending \<and> inv_run i [LAccept 5 True, LRevoke False] j \<and> i_Status j = InvAccepted
    \<and> length (filter succeeded [LAccept 5 True, LRevoke False]) \<le> 1"
proof -
  let ?i = "NewInvitation 0 ''a'' ''b'' ''c'' ''e'' RoleMember 10"
  let ?j = "?i\<lparr>i_Status := InvAccepted, i_UpdatedAt := 6\<rparr>"
  have s1: "inv_step ?i (LAccept 5 True) ?j"
    using inv_step.accept[of 5 6 ?i None ?j] by (simp add: inv_ops NewInvitation_def)
  have s2: "inv_step ?j (LRevoke False) ?j"
    using inv_step.revoke[of 7 ?j "Some (Sentinel invitation_ErrInvalid)" ?j] by (simp add: inv_ops)
  have r: "inv_run ?i [LAccept 5 True, LRevoke False] ?j"
    using inv_run.snoc[OF inv_run.snoc[OF inv_run.nil s1] s2] by simp
  have "i_Status ?i = InvPending" "i_Status ?j = InvAccepted" by (simp_all add: NewInvitation_def)
  with r invitation_single_use[OF r] show ?thesis by blast
qed

end
