(* ===== verification/World.thy ===== *)
theory World
  imports Identity Invitation "HOL-Library.Word"
begin

text \<open>
  The state that the services share and the parties they call. \<open>environ\<close> collects what is
  not code of the repository: the clock, the failures of PostgreSQL and Redis, the UUID and
  random generators, bcrypt and the JWT library. Each is a function, mostly of the number of
  external calls made so far (\<open>ticks\<close>), so two calls may give different results; a theorem
  that needs one of them to behave says so as a hypothesis. \<open>world\<close> is the state: the
  PostgreSQL tables of \<^verbatim>\<open>migrations/\<close>, the Redis keyspace, and the work handed to goroutines.

  The SQL statements of the repositories are translated over these tables. Failures that the
  tables do not determine (a lost connection, a value longer than its column) are left to
  \<open>pg_fault\<close>, which may fail any statement. Rows are kept in insertion order; where a query
  without \<^verbatim>\<open>ORDER BY\<close> can match several rows, the oldest is taken.
\<close>

section \<open>The environment\<close>

record environ =
  clock :: "nat \<Rightarrow> time"
  pg_fault :: "nat \<Rightarrow> string option"
  redis_fault :: "nat \<Rightarrow> string option"
  new_uuid :: "nat \<Rightarrow> string"
  is_uuid :: "string \<Rightarrow> bool"
  rls_bypass :: bool
  bcrypt_hash :: "nat \<Rightarrow> string \<Rightarrow> string result"
  bcrypt_verify :: "string \<Rightarrow> string \<Rightarrow> bool"
  jwt_sign :: "Claims \<Rightarrow> string result"
  jwt_parse :: "time \<Rightarrow> string \<Rightarrow> Claims result"
  jwt_issuer :: string
  rand_hex :: "nat \<Rightarrow> string"
  rand_read :: "nat \<Rightarrow> (nat \<Rightarrow> nat) result"
  uuid_parse :: "string \<Rightarrow> string result"
  totp_generate :: "nat \<Rightarrow> string \<Rightarrow> string \<Rightarrow> (string \<times> string) result"
  totp_validate :: "time \<Rightarrow> string \<Rightarrow> string \<Rightarrow> bool"
  year_month :: "time \<Rightarrow> nat \<times> nat"
  next_month :: "time \<Rightarrow> time"

text \<open>
  \<open>rand_read n\<close> gives the bytes of a call of \<^verbatim>\<open>rand.Read\<close>, modulo 256, or its error; \<open>uuid_parse\<close> gives the canonical form that
  \<^verbatim>\<open>uuid.Parse\<close> followed by \<^verbatim>\<open>String\<close> prints; \<open>totp_generate\<close> and \<open>totp_validate\<close> are the functions of
  the \<^verbatim>\<open>pquerna/otp\<close> package, a key being its secret and its URL; \<open>year_month\<close> and \<open>next_month\<close> are the
  calendar of the server's time zone.
\<close>

section \<open>Tables\<close>

record user_row =
  ur_id :: string
  ur_tenant_id :: string
  ur_email :: string
  ur_password_hash :: string
  ur_status :: string
  ur_created_at :: time
  ur_updated_at :: time
  ur_reset_token :: string
  ur_reset_token_expires_at :: "time option"
  ur_verification_token :: string
  ur_verification_token_expires_at :: "time option"
  ur_cpf :: "string option"
  ur_identity_type :: string
  ur_active_company_id :: "string option"

record tuple_row =
  pt_tenant_id :: string
  pt_entity_type :: string
  pt_entity_id :: string
  pt_relation :: string
  pt_subject_type :: string
  pt_subject_id :: string

record outbox_row =
  ob_id :: string
  ob_aggregate_type :: string
  ob_aggregate_id :: string
  ob_event_type :: string
  ob_payload :: json
  ob_created_at :: time
  ob_processed_at :: "time option"

record LoginHistory =
  lh_ID :: string
  lh_UserID :: string
  lh_IPAddress :: string
  lh_UserAgent :: string
  lh_LoginAt :: time

record Webhook =
  wh_ID :: string
  wh_TenantID :: string
  wh_URL :: string
  wh_Secret :: string
  wh_Events :: "string list"
  wh_Status :: string
  wh_CreatedAt :: time
  wh_UpdatedAt :: time

record LogEntry =
  le_ID :: string
  le_TenantID :: string
  le_ActorID :: string
  le_Action :: string
  le_Entity :: string
  le_EntityID :: string
  le_Metadata :: "(string \<times> json) list"
  le_Timestamp :: time

text \<open>A passkey: its sign counter is a \<^verbatim>\<open>uint32\<close>, its flags are the JSON object of the column.\<close>

record WebAuthnCredential =
  wc_ID :: string
  wc_UserID :: string
  wc_WebAuthnID :: "nat list"
  wc_PublicKey :: "nat list"
  wc_AttestationType :: string
  wc_Transport :: "string list"
  wc_Flags :: "(string \<times> json) list"
  wc_SignCount :: "32 word"
  wc_CreatedAt :: time
  wc_UpdatedAt :: time

record VerificationRecord =
  vr_ID :: string
  vr_Document :: string
  vr_Type :: string
  vr_Source :: string
  vr_Valid :: bool
  vr_Metadata :: string
  vr_CreatedAt :: time

record tables =
  tenants :: "Tenant list"
  users :: "user_row list"
  companies :: "Company list"
  company_users :: "CompanyUser list"
  invitations :: "Invitation list"
  policy_tuples :: "tuple_row list"
  policy_roles :: "PolicyRole list"
  outbox_events :: "outbox_row list"
  totp_secrets :: "TOTPSecret list"
  api_keys :: "APIKey list"
  company_infos :: "CompanyInfo list"
  login_history :: "LoginHistory list"
  webhooks :: "Webhook list"
  audit_logs :: "LogEntry list"
  webauthn_credentials :: "WebAuthnCredential list"
  document_verifications :: "VerificationRecord list"
  current_tenant :: "string option"

section \<open>Redis\<close>

datatype rvalue = RStr string | RInt int | RSet "string list" | RSession Session
  | RMemberships "CompanyUser list" | RDocument DocumentVerificationResult

record rentry =
  r_val :: rvalue
  r_expires :: "time option"

section \<open>The state\<close>

text \<open>What a \<^verbatim>\<open>go\<close> statement starts: it runs later, in an order the code does not fix.\<close>

datatype task =
    BusPublish Event
  | SendEmailTask string string string
  | SaveVerification string string bool   \<comment> \<open>masked document, source, valid\<close>
  | TouchAPIKey string
  | CachePolicyCheck string string duration
  | DispatchWebhook Webhook Event
  | KillSwitch string string

record world =
  ticks :: nat
  pg :: tables
  tx_failed :: bool
  tx_time :: time
  redis :: "string \<rightharpoonup> rentry"
  spawned :: "task list"

type_synonym 'a io = "(world, 'a) state"

text \<open>
  A request context: whether it carries a transaction (\<^verbatim>\<open>txKey\<close>), and the values stored under
  plain string keys and under the keys of type \<^verbatim>\<open>middleware.contextKey\<close>, which are different
  keys even when their text is the same. The values of \<^verbatim>\<open>RolesKey\<close> and \<^verbatim>\<open>ClaimsKey\<close> are no strings and
  have fields of their own.
\<close>

record reqctx =
  ctx_tx :: bool
  ctx_string :: "string \<rightharpoonup> string"
  ctx_typed :: "string \<rightharpoonup> string"
  ctx_roles :: "string list option"
  ctx_claims :: "Claims option"

definition background :: reqctx where
  "background = \<lparr>ctx_tx = False, ctx_string = Map.empty, ctx_typed = Map.empty, ctx_roles = None, ctx_claims = None\<rparr>"

section \<open>Primitive steps\<close>

abbreviation tick :: "world \<Rightarrow> world" where
  "tick w \<equiv> w\<lparr>ticks := Suc (ticks w)\<rparr>"

definition time_Now :: "environ \<Rightarrow> time io" where
  "time_Now E = State (\<lambda>w. (clock E (ticks w), w\<lparr>ticks := Suc (ticks w)\<rparr>))"

definition uuid_New :: "environ \<Rightarrow> string io" where
  "uuid_New E = State (\<lambda>w. (new_uuid E (ticks w), w\<lparr>ticks := Suc (ticks w)\<rparr>))"

definition rand_Read :: "environ \<Rightarrow> nat \<Rightarrow> (nat list result) io" where
  "rand_Read E k = State (\<lambda>w. (case rand_read E (ticks w) of Inl e \<Rightarrow> Inl e
     | Inr f \<Rightarrow> Inr (map (\<lambda>i. f i mod 256) [0..<k]), tick w))"

definition spawn :: "task \<Rightarrow> unit io" where
  "spawn t = State (\<lambda>w. ((), w\<lparr>spawned := spawned w @ [t]\<rparr>))"

text \<open>
  One round trip to PostgreSQL with the given UUID-typed arguments: whether the server accepts
  the statement, and then its \<^verbatim>\<open>NOW()\<close>, which in a transaction is the time it began. A malformed UUID is refused, and so is every statement
  of a transaction in which one has failed. A failed statement changes no table.
\<close>

definition pg_gate :: "environ \<Rightarrow> reqctx \<Rightarrow> string list \<Rightarrow> world \<Rightarrow> time result" where
  "pg_gate E ctx ids w =
     (if ctx_tx ctx \<and> tx_failed w then Inl (Driver ''current transaction is aborted'')
      else case pg_fault E (ticks w) of
        Some m \<Rightarrow> Inl (Driver m)
      | None \<Rightarrow> if list_all (is_uuid E) ids
                then Inr (if ctx_tx ctx then tx_time w else clock E (ticks w))
                else Inl (Driver ''invalid input syntax for type uuid''))"

definition pg_abort :: "reqctx \<Rightarrow> world \<Rightarrow> world" where
  "pg_abort ctx w = (if ctx_tx ctx then w\<lparr>tx_failed := True\<rparr> else w)"

text \<open>
  A read-only query, and a data-changing statement: its function gives a constraint violation
  (\<open>Inl\<close>) or the new tables and the number of rows affected.
\<close>

definition pg_query ::
    "environ \<Rightarrow> reqctx \<Rightarrow> string list \<Rightarrow> (tables \<Rightarrow> 'a) \<Rightarrow> ('a result) io" where
  "pg_query E ctx ids q = State (\<lambda>w.
     case pg_gate E ctx ids w of
       Inl e \<Rightarrow> (Inl e, pg_abort ctx (tick w))
     | Inr t \<Rightarrow> (Inr (q (pg w)), tick w))"

definition pg_exec ::
    "environ \<Rightarrow> reqctx \<Rightarrow> string list \<Rightarrow> (time \<Rightarrow> tables \<Rightarrow> (tables \<times> nat) result)
      \<Rightarrow> (nat result) io" where
  "pg_exec E ctx ids f = State (\<lambda>w.
     case pg_gate E ctx ids w of
       Inl e \<Rightarrow> (Inl e, pg_abort ctx (tick w))
     | Inr t \<Rightarrow> (case f t (pg w) of
         Inl e \<Rightarrow> (Inl e, pg_abort ctx (tick w))
       | Inr (db, n) \<Rightarrow> (Inr n, (tick w)\<lparr>pg := db\<rparr>)))"

abbreviation violation :: "string \<Rightarrow> 'a result" where
  "violation m \<equiv> Inl (Driver m)"

section \<open>Row-level security\<close>

text \<open>
  The tenant that \<^verbatim>\<open>current_setting('app.current_tenant', true)\<close> gives a statement: the
  transaction's setting, and none for a statement sent to the pool.
\<close>

definition tenant_setting :: "reqctx \<Rightarrow> tables \<Rightarrow> string option" where
  "tenant_setting ctx db = (if ctx_tx ctx then current_tenant db else None)"

definition zero_uuid :: string where
  "zero_uuid = ''00000000-0000-0000-0000-000000000000''"

text \<open>
  The policy \<^verbatim>\<open>tenant_isolation_policy\<close> on \<^verbatim>\<open>users\<close> (migrations 2 and 9) and
  \<^verbatim>\<open>companies_tenant_isolation\<close> on \<^verbatim>\<open>companies\<close> (migration 20), for a database role that does not
  bypass row-level security.
\<close>

definition user_policy :: "environ \<Rightarrow> string option \<Rightarrow> string \<Rightarrow> bool" where
  "user_policy E setting tenant \<longleftrightarrow> rls_bypass E
     \<or> tenant = (case setting of None \<Rightarrow> zero_uuid | Some t \<Rightarrow> t)"

definition company_policy :: "environ \<Rightarrow> string option \<Rightarrow> string \<Rightarrow> bool" where
  "company_policy E setting tenant \<longleftrightarrow> rls_bypass E \<or> setting = Some tenant"

section \<open>Transactions\<close>

text \<open>
  \<^verbatim>\<open>PostgresTransactionManager.RunInTransaction\<close>: the body runs with the transaction in its
  context; when it returns an error, or the commit fails (as it does when a statement of the
  transaction failed), the tables are those of before.
\<close>

definition tx_begin :: "environ \<Rightarrow> world \<Rightarrow> world" where
  "tx_begin E w = (tick w)\<lparr>pg := (pg w)\<lparr>current_tenant := None\<rparr>, tx_failed := False,
     tx_time := clock E (ticks w)\<rparr>"

definition tx_rollback :: "world \<Rightarrow> world \<Rightarrow> world" where
  "tx_rollback w0 w = w\<lparr>pg := pg w0, tx_failed := tx_failed w0\<rparr>"

definition tx_commit :: "world \<Rightarrow> world \<Rightarrow> world" where
  "tx_commit w0 w = w\<lparr>pg := (pg w)\<lparr>current_tenant := current_tenant (pg w0)\<rparr>,
     tx_failed := tx_failed w0\<rparr>"

definition RunInTransaction ::
    "environ \<Rightarrow> reqctx \<Rightarrow> (reqctx \<Rightarrow> (unit result) io) \<Rightarrow> (unit result) io" where
  "RunInTransaction E ctx fn = State (\<lambda>w0.
     case pg_fault E (ticks w0) of
       Some m \<Rightarrow> (Inl (wrap ''failed to begin transaction: '' (Driver m)), tick w0)
     | None \<Rightarrow>
         (case run_state (fn (ctx\<lparr>ctx_tx := True\<rparr>)) (tx_begin E w0) of
            (Inl e, w) \<Rightarrow> (Inl e, tx_rollback w0 w)
          | (Inr u, w) \<Rightarrow>
              (case pg_gate E (ctx\<lparr>ctx_tx := True\<rparr>) [] w of
                 Inl e \<Rightarrow> (Inl (wrap ''failed to commit transaction: '' e), tx_rollback w0 (tick w))
               | Inr t \<Rightarrow> (Inr (), tx_commit w0 (tick w)))))"

section \<open>Redis commands\<close>

text \<open>
  A Redis round trip gives the server's time. Keys expire at the exact time computed by the
  client, who sends durations in milliseconds.
\<close>

definition redis_gate :: "environ \<Rightarrow> world \<Rightarrow> time result" where
  "redis_gate E w = (case redis_fault E (ticks w) of
     Some m \<Rightarrow> Inl (Driver m) | None \<Rightarrow> Inr (clock E (ticks w)))"

definition alive :: "time \<Rightarrow> rentry \<Rightarrow> bool" where
  "alive now e \<longleftrightarrow> (case r_expires e of None \<Rightarrow> True | Some x \<Rightarrow> now < x)"

definition redis_lookup :: "time \<Rightarrow> (string \<rightharpoonup> rentry) \<Rightarrow> string \<Rightarrow> rvalue option" where
  "redis_lookup now m k = (case m k of None \<Rightarrow> None
     | Some e \<Rightarrow> if alive now e then Some (r_val e) else None)"

text \<open>
  \<^verbatim>\<open>SET key value\<close>: go-redis sends a positive expiration, \<^verbatim>\<open>KEEPTTL\<close> for \<open>-1\<close>, and no
  expiration otherwise.
\<close>

definition redis_put ::
    "time \<Rightarrow> string \<Rightarrow> rvalue \<Rightarrow> duration \<Rightarrow> (string \<rightharpoonup> rentry) \<Rightarrow> (string \<rightharpoonup> rentry)" where
  "redis_put now k v ttl m = m(k \<mapsto> \<lparr>r_val = v, r_expires =
     (if 0 < ttl then Some (now + ttl)
      else if ttl = -1 then (case m k of Some e \<Rightarrow> if alive now e then r_expires e else None
                             | None \<Rightarrow> None)
      else None)\<rparr>)"

definition redis_Get :: "environ \<Rightarrow> string \<Rightarrow> (rvalue option result) io" where
  "redis_Get E k = State (\<lambda>w. (case redis_gate E w of
       Inl e \<Rightarrow> Inl e | Inr now \<Rightarrow> Inr (redis_lookup now (redis w) k), tick w))"

definition redis_do ::
    "environ \<Rightarrow> (time \<Rightarrow> (string \<rightharpoonup> rentry) \<Rightarrow> (string \<rightharpoonup> rentry)) \<Rightarrow> (unit result) io" where
  "redis_do E f = State (\<lambda>w. case redis_gate E w of
       Inl e \<Rightarrow> (Inl e, tick w)
     | Inr now \<Rightarrow> (Inr (), (tick w)\<lparr>redis := f now (redis w)\<rparr>))"

definition redis_Set :: "environ \<Rightarrow> string \<Rightarrow> rvalue \<Rightarrow> duration \<Rightarrow> (unit result) io" where
  "redis_Set E k v ttl = redis_do E (\<lambda>now. redis_put now k v ttl)"

definition redis_Del :: "environ \<Rightarrow> string \<Rightarrow> (unit result) io" where
  "redis_Del E k = redis_do E (\<lambda>now m. m(k := None))"

section \<open>Rules for the primitive steps\<close>

lemma run_time_Now [io_run]: "run_state (time_Now E) w = (clock E (ticks w), tick w)"
  by (simp add: time_Now_def)

lemma run_uuid_New [io_run]: "run_state (uuid_New E) w = (new_uuid E (ticks w), tick w)"
  by (simp add: uuid_New_def)

lemma run_rand_Read [io_run]:
  "run_state (rand_Read E k) w = (case rand_read E (ticks w) of Inl e \<Rightarrow> Inl e
     | Inr f \<Rightarrow> Inr (map (\<lambda>i. f i mod 256) [0..<k]), tick w)"
  by (simp add: rand_Read_def)

lemma run_spawn [io_run]: "run_state (spawn t) w = ((), w\<lparr>spawned := spawned w @ [t]\<rparr>)"
  by (simp add: spawn_def)

lemma run_pg_query [io_run]:
  "run_state (pg_query E ctx ids q) w =
     (case pg_gate E ctx ids w of Inl e \<Rightarrow> (Inl e, pg_abort ctx (tick w))
      | Inr t \<Rightarrow> (Inr (q (pg w)), tick w))"
  by (simp add: pg_query_def)

lemma run_pg_exec [io_run]:
  "run_state (pg_exec E ctx ids f) w =
     (case pg_gate E ctx ids w of Inl e \<Rightarrow> (Inl e, pg_abort ctx (tick w))
      | Inr t \<Rightarrow> (case f t (pg w) of Inl e \<Rightarrow> (Inl e, pg_abort ctx (tick w))
          | Inr (db, n) \<Rightarrow> (Inr n, (tick w)\<lparr>pg := db\<rparr>)))"
  by (simp add: pg_exec_def)

lemma run_redis_Get [io_run]:
  "run_state (redis_Get E k) w =
     (case redis_gate E w of Inl e \<Rightarrow> Inl e | Inr now \<Rightarrow> Inr (redis_lookup now (redis w) k), tick w)"
  by (simp add: redis_Get_def)

lemma run_redis_do [io_run]:
  "run_state (redis_do E f) w = (case redis_gate E w of Inl e \<Rightarrow> (Inl e, tick w)
     | Inr now \<Rightarrow> (Inr (), (tick w)\<lparr>redis := f now (redis w)\<rparr>))"
  by (simp add: redis_do_def)

lemmas run_redis_Set [io_run] = run_redis_do [of _ "\<lambda>now. redis_put now k v ttl" for k v ttl, folded redis_Set_def]
lemmas run_redis_Del [io_run] = run_redis_do [of _ "\<lambda>now m. m(k := None)" for k, folded redis_Del_def]

lemma pg_abort_simps [simp]:
  "pg (pg_abort ctx w) = pg w" "redis (pg_abort ctx w) = redis w"
  "spawned (pg_abort ctx w) = spawned w" "ticks (pg_abort ctx w) = ticks w"
  by (simp_all add: pg_abort_def)

lemma pg_gate_Inr_iff:
  "pg_gate E ctx ids w = Inr t \<longleftrightarrow> \<not> (ctx_tx ctx \<and> tx_failed w) \<and> pg_fault E (ticks w) = None
     \<and> list_all (is_uuid E) ids \<and> t = (if ctx_tx ctx then tx_time w else clock E (ticks w))"
  by (auto simp: pg_gate_def split: option.splits)

lemma redis_gate_Inr_iff:
  "redis_gate E w = Inr t \<longleftrightarrow> redis_fault E (ticks w) = None \<and> t = clock E (ticks w)"
  by (auto simp: redis_gate_def split: option.splits)

text \<open>Which part of the state each primitive leaves alone.\<close>

lemma keeps_time_Now [io_keep]:
  "keeps pg (time_Now E)" "keeps redis (time_Now E)" "keeps spawned (time_Now E)"
  by (simp_all add: keeps_def io_run)

lemma keeps_uuid_New [io_keep]:
  "keeps pg (uuid_New E)" "keeps redis (uuid_New E)" "keeps spawned (uuid_New E)"
  by (simp_all add: keeps_def io_run)

lemma keeps_rand_Read [io_keep]:
  "keeps pg (rand_Read E k)" "keeps redis (rand_Read E k)" "keeps spawned (rand_Read E k)"
  by (simp_all add: keeps_def io_run)

lemma keeps_spawn [io_keep]: "keeps pg (spawn t)" "keeps redis (spawn t)"
  by (simp_all add: keeps_def io_run)

lemma keeps_pg_query [io_keep]:
  "keeps pg (pg_query E ctx ids q)" "keeps redis (pg_query E ctx ids q)"
  "keeps spawned (pg_query E ctx ids q)"
  by (simp_all add: keeps_def io_run split: sum.splits)

lemma keeps_pg_exec [io_keep]:
  "keeps redis (pg_exec E ctx ids f)" "keeps spawned (pg_exec E ctx ids f)"
  by (simp_all add: keeps_def io_run split: sum.splits prod.splits)

lemma keeps_redis_Get [io_keep]:
  "keeps pg (redis_Get E k)" "keeps redis (redis_Get E k)" "keeps spawned (redis_Get E k)"
  by (simp_all add: keeps_def io_run)

lemma keeps_redis_do [io_keep]: "keeps pg (redis_do E f)" "keeps spawned (redis_do E f)"
  by (simp_all add: keeps_def io_run split: sum.splits)

lemma keeps_redis_Set [io_keep]: "keeps pg (redis_Set E k v ttl)" "keeps spawned (redis_Set E k v ttl)"
  unfolding redis_Set_def by (intro io_keep)+

lemma keeps_redis_Del [io_keep]: "keeps pg (redis_Del E k)" "keeps spawned (redis_Del E k)"
  unfolding redis_Del_def by (intro io_keep)+

text \<open>A statement preserves an invariant of the tables when the table functions it applies do.\<close>

lemma preserves_pg_exec [io_pres]:
  "(\<And>t db db' n. P db \<Longrightarrow> f t db = Inr (db', n) \<Longrightarrow> P db')
    \<Longrightarrow> preserves (\<lambda>w. P (pg w)) (pg_exec E ctx ids f)"
  by (rule preservesI) (auto simp: io_run split: sum.splits prod.splits)

lemma preserves_keeps_pg [io_pres]: "keeps pg m \<Longrightarrow> preserves (\<lambda>w. P (pg w)) m"
  by (simp add: keeps_def preserves_def)

text \<open>The call counter never goes back, so what is generated later is generated at a later count.\<close>

definition advances :: "'a io \<Rightarrow> bool" where
  "advances m \<longleftrightarrow> (\<forall>w. ticks w \<le> ticks (snd (run_state m w)))"

lemma advancesD: "advances m \<Longrightarrow> run_state m w = (a, w') \<Longrightarrow> ticks w \<le> ticks w'"
  by (metis advances_def snd_conv)

lemma advances_ret [io_adv]: "advances (ret x)"
  by (simp add: advances_def)

lemma advances_bind [io_adv]:
  "advances m \<Longrightarrow> (\<And>a. advances (k a)) \<Longrightarrow> advances (State_Monad.bind m k)"
  by (simp add: advances_def split: prod.splits) (metis le_trans snd_conv)

lemma advances_tryE [io_adv]: "advances m \<Longrightarrow> (\<And>a. advances (k a)) \<Longrightarrow> advances (tryE m g k)"
  unfolding tryE_def by (intro advances_bind) (auto simp: advances_ret split: sum.splits)

lemma advances_if [io_adv]: "advances m \<Longrightarrow> advances n \<Longrightarrow> advances (if b then m else n)"
  by simp

lemma advances_case_sum [io_adv]:
  "(\<And>e. advances (m e)) \<Longrightarrow> (\<And>a. advances (n a)) \<Longrightarrow> advances (case r of Inl e \<Rightarrow> m e | Inr a \<Rightarrow> n a)"
  by (simp split: sum.splits)

lemma advances_case_option [io_adv]:
  "advances m \<Longrightarrow> (\<And>a. advances (n a)) \<Longrightarrow> advances (case r of None \<Rightarrow> m | Some a \<Rightarrow> n a)"
  by (simp split: option.splits)

lemma advances_prims [io_adv]:
  "advances (time_Now E)" "advances (uuid_New E)" "advances (rand_Read E k)" "advances (spawn t)" "advances (pg_query E ctx ids q)"
  "advances (pg_exec E ctx ids f)" "advances (redis_Get E key)" "advances (redis_do E g)"
  "advances (redis_Set E key v ttl)" "advances (redis_Del E key)"
  by (simp_all add: advances_def io_run split: sum.splits prod.splits)

section \<open>Transactions are atomic\<close>

lemma run_RunInTransaction [io_run]:
  "run_state (RunInTransaction E ctx fn) w0 =
    (case pg_fault E (ticks w0) of
       Some m \<Rightarrow> (Inl (wrap ''failed to begin transaction: '' (Driver m)), tick w0)
     | None \<Rightarrow>
         (case run_state (fn (ctx\<lparr>ctx_tx := True\<rparr>)) (tx_begin E w0) of
            (Inl e, w) \<Rightarrow> (Inl e, tx_rollback w0 w)
          | (Inr u, w) \<Rightarrow>
              (case pg_gate E (ctx\<lparr>ctx_tx := True\<rparr>) [] w of
                 Inl e \<Rightarrow> (Inl (wrap ''failed to commit transaction: '' e), tx_rollback w0 (tick w))
               | Inr t \<Rightarrow> (Inr (), tx_commit w0 (tick w)))))"
  by (simp add: RunInTransaction_def)

lemma RunInTransaction_error:
  "run_state (RunInTransaction E ctx fn) w = (Inl e, w') \<Longrightarrow> pg w' = pg w"
  by (auto simp: io_run tx_rollback_def split: option.splits prod.splits sum.splits)

lemma RunInTransaction_ok:
  "run_state (RunInTransaction E ctx fn) w = (Inr u, w') \<Longrightarrow>
     \<exists>w1. run_state (fn (ctx\<lparr>ctx_tx := True\<rparr>)) (tx_begin E w) = (Inr (), w1)
       \<and> w' = tx_commit w (tick w1)"
  by (auto simp: io_run split: option.splits prod.splits sum.splits)

lemma tx_simps [simp]:
  "redis (tx_begin E w) = redis w" "spawned (tx_begin E w) = spawned w"
  "redis (tx_rollback w0 w) = redis w" "spawned (tx_rollback w0 w) = spawned w"
  "redis (tx_commit w0 w) = redis w" "spawned (tx_commit w0 w) = spawned w"
  "pg (tx_rollback w0 w) = pg w0"
  "pg (tx_commit w0 w) = (pg w)\<lparr>current_tenant := current_tenant (pg w0)\<rparr>"
  "pg (tx_begin E w) = (pg w)\<lparr>current_tenant := None\<rparr>"
  "tx_time (tx_begin E w) = clock E (ticks w)" "ticks (tx_begin E w) = Suc (ticks w)" "tx_failed (tx_begin E w) = False"
  by (simp_all add: tx_begin_def tx_rollback_def tx_commit_def)

lemma keeps_redis_RunInTransaction [io_keep]:
  assumes "\<And>c. keeps redis (fn c)" shows "keeps redis (RunInTransaction E ctx fn)"
  unfolding keeps_def
proof
  fix w
  obtain r w1 where r: "run_state (fn (ctx\<lparr>ctx_tx := True\<rparr>)) (tx_begin E w) = (r, w1)"
    by fastforce
  then have "redis w1 = redis w" using keepsD[OF assms r] by simp
  then show "redis (snd (run_state (RunInTransaction E ctx fn) w)) = redis w"
    using r by (simp add: run_RunInTransaction split: option.splits sum.splits)
qed

lemma keeps_spawned_RunInTransaction [io_keep]:
  assumes "\<And>c. keeps spawned (fn c)" shows "keeps spawned (RunInTransaction E ctx fn)"
  unfolding keeps_def
proof
  fix w
  obtain r w1 where r: "run_state (fn (ctx\<lparr>ctx_tx := True\<rparr>)) (tx_begin E w) = (r, w1)"
    by fastforce
  then have "spawned w1 = spawned w" using keepsD[OF assms r] by simp
  then show "spawned (snd (run_state (RunInTransaction E ctx fn) w)) = spawned w"
    using r by (simp add: run_RunInTransaction split: option.splits sum.splits)
qed

text \<open>
  An invariant of the tables that does not look at the tenant setting survives a transaction
  when its body preserves it.
\<close>

lemma preserves_RunInTransaction [io_pres]:
  assumes "\<And>c. preserves (\<lambda>w. P (pg w)) (fn c :: (unit result) io)"
    and "\<And>db t. P (db\<lparr>current_tenant := t\<rparr>) = P db"
  shows "preserves (\<lambda>w. P (pg w)) (RunInTransaction E ctx fn)"
proof (rule preservesI)
  fix w :: world assume P: "P (pg w)"
  obtain r w1 where r: "run_state (fn (ctx\<lparr>ctx_tx := True\<rparr>)) (tx_begin E w) = (r, w1)"
    by fastforce
  have "P (pg w1)" using preservesD[OF assms(1) _ r] P assms(2) by simp
  then show "P (pg (snd (run_state (RunInTransaction E ctx fn) w)))"
    using r P assms(2) by (simp add: run_RunInTransaction split: option.splits sum.splits)
qed

section \<open>A concrete environment\<close>

text \<open>
  An environment in which every call succeeds, for evaluating the programs on examples: the
  clock advances with every call, UUIDs and random tokens are distinct, and a password hash is
  the password with a prefix. Its database role is subject to row-level security.
\<close>

definition demo_env :: environ where
  "demo_env = \<lparr>clock = (\<lambda>n. 1000 + int n), pg_fault = (\<lambda>_. None), redis_fault = (\<lambda>_. None),
     new_uuid = (\<lambda>n. replicate (Suc n) CHR ''u''), is_uuid = (\<lambda>s. s \<noteq> []), rls_bypass = False,
     bcrypt_hash = (\<lambda>_ p. Inr (''h:'' @ p)), bcrypt_verify = (\<lambda>p h. h = ''h:'' @ p),
     jwt_sign = (\<lambda>c. Inr (''jwt:'' @ cl_UserID c)),
     jwt_parse = (\<lambda>t s. Inl (Driver ''token is malformed'')), jwt_issuer = ''vyst'', rand_hex = (\<lambda>n. replicate (Suc n) CHR ''r''),
     rand_read = (\<lambda>n. Inr (\<lambda>i. n + i)), uuid_parse = (\<lambda>s. if s = [] then Inl (Driver ''invalid UUID'') else Inr s),
     totp_generate = (\<lambda>n issuer account. Inr (''secret'' @ replicate n CHR ''x'', ''otpauth'')),
     totp_validate = (\<lambda>t code secret. code = secret), year_month = (\<lambda>t. (2025, 1)),
     next_month = (\<lambda>t. t + 1000)\<rparr>"

text \<open>The same with a superuser role, which bypasses the policies.\<close>

definition owner_env :: environ where
  "owner_env = demo_env\<lparr>rls_bypass := True\<rparr>"

definition empty_tables :: tables where
  "empty_tables = \<lparr>tenants = [], users = [], companies = [], company_users = [], invitations = [],
     policy_tuples = [], policy_roles = [], outbox_events = [], totp_secrets = [], api_keys = [],
     company_infos = [], login_history = [], webhooks = [], audit_logs = [],
     webauthn_credentials = [], document_verifications = [], current_tenant = None\<rparr>"

definition empty_world :: world where
  "empty_world = \<lparr>ticks = 0, pg = empty_tables, tx_failed = False, tx_time = 0,
     redis = Map.empty, spawned = []\<rparr>"

end
