(* ===== verification/User_Repo.thy ===== *)
theory User_Repo
  imports World
begin

text \<open>
  The PostgreSQL user repository (\<^verbatim>\<open>persistence/postgres/user_repo.go\<close>): its SQL statements over the
  table \<^verbatim>\<open>users\<close>, with the unique indexes, the foreign key and the row-level security policy of
  the migrations, and the scanning of rows into \<^verbatim>\<open>user.User\<close>.

  \<open>GetByID\<close> always asks the pool; no caller uses it inside a transaction, so that it never
  looks at uncommitted rows is not modelled.
\<close>

section \<open>Rows\<close>

definition user_visible :: "environ \<Rightarrow> reqctx \<Rightarrow> tables \<Rightarrow> user_row \<Rightarrow> bool" where
  "user_visible E ctx db r = user_policy E (tenant_setting ctx db) (ur_tenant_id r)"

definition row_cpf :: "user_row \<Rightarrow> CPF result" where
  "row_cpf r = CPF_Scan (case ur_cpf r of None \<Rightarrow> VNil | Some s \<Rightarrow> VString s)"

definition deref_time :: "time option \<Rightarrow> time" where
  "deref_time t = (case t of None \<Rightarrow> zero_time | Some x \<Rightarrow> x)"

definition nullable_time :: "time \<Rightarrow> time option" where
  "nullable_time t = (if t = zero_time then None else Some t)"

definition cpf_column :: "CPF \<Rightarrow> string option" where
  "cpf_column c = (case CPF_Value c of VString s \<Rightarrow> Some s | _ \<Rightarrow> None)"

definition user_to_row :: "User \<Rightarrow> user_row" where
  "user_to_row u = \<lparr>ur_id = u_ID u, ur_tenant_id = u_TenantID u, ur_email = u_Email u,
     ur_password_hash = u_PasswordHash u, ur_status = u_Status u, ur_created_at = u_CreatedAt u,
     ur_updated_at = u_UpdatedAt u, ur_reset_token = u_ResetToken u,
     ur_reset_token_expires_at = Some (u_ResetTokenExpiresAt u),
     ur_verification_token = u_VerificationToken u,
     ur_verification_token_expires_at = Some (u_VerificationTokenExpiresAt u),
     ur_cpf = cpf_column (u_CPF u), ur_identity_type = IdentityTypeIndividual,
     ur_active_company_id = None\<rparr>"

definition cpf_conflict :: "user_row \<Rightarrow> user_row \<Rightarrow> bool" where
  "cpf_conflict r r' \<longleftrightarrow> ur_cpf r = ur_cpf r' \<and> ur_cpf r \<noteq> None \<and> ur_cpf r \<noteq> Some []"

definition insert_user :: "environ \<Rightarrow> reqctx \<Rightarrow> User \<Rightarrow> time \<Rightarrow> tables \<Rightarrow> (tables \<times> nat) result" where
  "insert_user E ctx u t db = (let r = user_to_row u in
     if \<not> user_visible E ctx db r then violation ''new row violates row-level security policy''
     else if \<exists>r' \<in> set (users db). ur_id r' = ur_id r then violation ''duplicate key: users_pkey''
     else if \<exists>r' \<in> set (users db). ur_tenant_id r' = ur_tenant_id r \<and> ur_email r' = ur_email r
       then violation ''duplicate key: idx_users_tenant_email''
     else if \<exists>r' \<in> set (users db). cpf_conflict r' r then violation ''duplicate key: users_cpf_idx''
     else if \<not> (\<exists>x \<in> set (tenants db). t_ID x = ur_tenant_id r)
       then violation ''foreign key violation: users_tenant_id_fkey''
     else Inr (db\<lparr>users := users db @ [r]\<rparr>, 1))"

definition set_user_columns :: "time \<Rightarrow> User \<Rightarrow> user_row \<Rightarrow> user_row" where
  "set_user_columns now u r = r\<lparr>ur_email := u_Email u, ur_password_hash := u_PasswordHash u,
     ur_cpf := cpf_column (u_CPF u), ur_updated_at := now, ur_reset_token := u_ResetToken u,
     ur_reset_token_expires_at := nullable_time (u_ResetTokenExpiresAt u), ur_status := u_Status u,
     ur_verification_token := u_VerificationToken u,
     ur_verification_token_expires_at := nullable_time (u_VerificationTokenExpiresAt u)\<rparr>"

definition update_user :: "environ \<Rightarrow> reqctx \<Rightarrow> time \<Rightarrow> User \<Rightarrow> time \<Rightarrow> tables \<Rightarrow> (tables \<times> nat) result" where
  "update_user E ctx now u t db =
     (case find (\<lambda>r. ur_id r = u_ID u \<and> user_visible E ctx db r) (users db) of
        None \<Rightarrow> Inr (db, 0)
      | Some r0 \<Rightarrow> (let r = set_user_columns now u r0 in
          if \<exists>r' \<in> set (users db). ur_id r' \<noteq> ur_id r \<and> ur_tenant_id r' = ur_tenant_id r
               \<and> ur_email r' = ur_email r
            then violation ''duplicate key: idx_users_tenant_email''
          else if \<exists>r' \<in> set (users db). ur_id r' \<noteq> ur_id r \<and> cpf_conflict r' r
            then violation ''duplicate key: users_cpf_idx''
          else Inr (db\<lparr>users := map (\<lambda>r'. if ur_id r' = ur_id r then r else r') (users db)\<rparr>, 1)))"

section \<open>Operations\<close>

text \<open>\<^verbatim>\<open>GetExecutor(ctx, pool)\<close> is the context itself; a statement sent to the pool leaves it.\<close>

abbreviation pool :: "reqctx \<Rightarrow> reqctx" where
  "pool ctx \<equiv> ctx\<lparr>ctx_tx := False\<rparr>"

definition UserRepository_Create :: "environ \<Rightarrow> reqctx \<Rightarrow> User \<Rightarrow> (unit result) io" where
  "UserRepository_Create E ctx u =
     tryE (pg_exec E ctx [u_ID u, u_TenantID u] (insert_user E ctx u)) (\<lambda>e. e) (\<lambda>_. ret (Inr ()))"

definition scanUser :: "user_row option \<Rightarrow> User result" where
  "scanUser row = (case row of None \<Rightarrow> Inl (Sentinel user_ErrNotFound)
     | Some r \<Rightarrow> (case row_cpf r of Inl e \<Rightarrow> Inl e
         | Inr c \<Rightarrow> Inr (zeroUser\<lparr>u_ID := ur_id r, u_Email := ur_email r,
             u_PasswordHash := ur_password_hash r, u_TenantID := ur_tenant_id r, u_CPF := c,
             u_CreatedAt := ur_created_at r, u_UpdatedAt := ur_updated_at r,
             u_ResetToken := ur_reset_token r,
             u_ResetTokenExpiresAt := deref_time (ur_reset_token_expires_at r)\<rparr>)))"

text \<open>The scan with the status and verification columns, inlined twice in the source.\<close>

definition scanUserFull :: "(go_error \<Rightarrow> go_error) \<Rightarrow> user_row option \<Rightarrow> User result" where
  "scanUserFull wrapErr row = (case row of None \<Rightarrow> Inl (Sentinel user_ErrNotFound)
     | Some r \<Rightarrow> (case row_cpf r of Inl e \<Rightarrow> Inl (wrapErr e)
         | Inr c \<Rightarrow> Inr (zeroUser\<lparr>u_ID := ur_id r, u_Email := ur_email r,
             u_PasswordHash := ur_password_hash r, u_TenantID := ur_tenant_id r, u_CPF := c,
             u_CreatedAt := ur_created_at r, u_UpdatedAt := ur_updated_at r,
             u_ResetToken := ur_reset_token r,
             u_ResetTokenExpiresAt := deref_time (ur_reset_token_expires_at r),
             u_Status := ur_status r, u_VerificationToken := ur_verification_token r,
             u_VerificationTokenExpiresAt := deref_time (ur_verification_token_expires_at r)\<rparr>)))"

definition UserRepository_GetByEmail :: "environ \<Rightarrow> reqctx \<Rightarrow> string \<Rightarrow> (User result) io" where
  "UserRepository_GetByEmail E ctx email =
     tryE (pg_query E ctx [] (\<lambda>db. find (\<lambda>r. ur_email r = email) (users db)))
       (wrap ''failed to scan user: '')
       (\<lambda>row. ret (scanUserFull (wrap ''failed to scan user: '') row))"

definition tenant_char :: "char \<Rightarrow> bool" where
  "tenant_char c \<longleftrightarrow> (let n = of_char c :: nat in
     48 \<le> n \<and> n \<le> 57 \<or> 97 \<le> n \<and> n \<le> 122 \<or> 65 \<le> n \<and> n \<le> 90 \<or> n = 45)"

definition validateTenantContext :: "string \<Rightarrow> go_error option" where
  "validateTenantContext tenantID =
     (if 36 < length tenantID then Some (ErrorString ''invalid tenant_id length'')
      else if \<not> list_all tenant_char tenantID then Some (ErrorString ''invalid characters in tenant_id'')
      else None)"

definition getByIDWithTenant ::
    "environ \<Rightarrow> reqctx \<Rightarrow> string \<Rightarrow> string \<Rightarrow> (User result) io" where
  "getByIDWithTenant E ctx uid tenantID = (case validateTenantContext tenantID of
     Some e \<Rightarrow> ret (Inl e)
   | None \<Rightarrow>
       tryE (pg_query E (pool ctx) [] (\<lambda>_. ())) (wrap ''failed to begin tx: '') (\<lambda>_.
       tryE (pg_query E (pool ctx) [] (\<lambda>_. ())) (wrap ''failed to set tenant context: '') (\<lambda>_.
       tryE (pg_query E (pool ctx) (uid # (if rls_bypass E then [] else [tenantID]))
               (\<lambda>db. find (\<lambda>r. ur_id r = uid \<and> user_policy E (Some tenantID) (ur_tenant_id r)) (users db)))
         (\<lambda>e. e) (\<lambda>row.
       tryE (ret (scanUser row)) (\<lambda>e. e) (\<lambda>u.
       tryE (pg_query E (pool ctx) [] (\<lambda>_. ())) (wrap ''failed to commit tx: '') (\<lambda>_.
       ret (Inr u)))))))"

definition ctx_Value :: "reqctx \<Rightarrow> string \<Rightarrow> string" where
  "ctx_Value ctx k = (case ctx_string ctx k of None \<Rightarrow> [] | Some v \<Rightarrow> v)"

definition UserRepository_GetByID :: "environ \<Rightarrow> reqctx \<Rightarrow> string \<Rightarrow> (User result) io" where
  "UserRepository_GetByID E ctx uid = (let tenantID = ctx_Value ctx ''tenant_id'' in
     if tenantID \<noteq> [] then getByIDWithTenant E ctx uid tenantID
     else tryE (pg_query E (pool ctx) [uid]
            (\<lambda>db. find (\<lambda>r. ur_id r = uid \<and> user_visible E (pool ctx) db r) (users db)))
          (\<lambda>e. e) (\<lambda>row. ret (scanUser row)))"

definition UserRepository_Update :: "environ \<Rightarrow> reqctx \<Rightarrow> User \<Rightarrow> (unit result) io" where
  "UserRepository_Update E ctx u = do {
     now \<leftarrow> time_Now E;
     tryE (pg_exec E ctx [u_ID u] (update_user E ctx now u)) (\<lambda>e. e) (\<lambda>n.
       ret (if n = 0 then Inl (Sentinel user_ErrNotFound) else Inr ())) }"

definition UserRepository_GetByResetToken :: "environ \<Rightarrow> reqctx \<Rightarrow> string \<Rightarrow> (User result) io" where
  "UserRepository_GetByResetToken E ctx token =
     tryE (pg_query E ctx []
        (\<lambda>db. find (\<lambda>r. ur_reset_token r = token \<and> user_visible E ctx db r) (users db)))
       (\<lambda>e. e) (\<lambda>row. ret (scanUser row))"

definition UserRepository_GetByVerificationToken ::
    "environ \<Rightarrow> reqctx \<Rightarrow> string \<Rightarrow> (User result) io" where
  "UserRepository_GetByVerificationToken E ctx token =
     tryE (pg_query E ctx []
        (\<lambda>db. find (\<lambda>r. ur_verification_token r = token \<and> user_visible E ctx db r) (users db)))
       (\<lambda>e. e) (\<lambda>row. ret (scanUserFull (\<lambda>e. e) row))"

section \<open>Integrity of the table\<close>

definition users_ok :: "tables \<Rightarrow> bool" where
  "users_ok db \<longleftrightarrow> distinct (map ur_id (users db))
     \<and> (\<forall>r \<in> set (users db). \<forall>r' \<in> set (users db). ur_id r \<noteq> ur_id r' \<longrightarrow>
          \<not> (ur_tenant_id r = ur_tenant_id r' \<and> ur_email r = ur_email r') \<and> \<not> cpf_conflict r r')
     \<and> (\<forall>r \<in> set (users db). ur_tenant_id r \<in> t_ID ` set (tenants db))"

lemma users_okD:
  assumes "users_ok db" "r \<in> set (users db)" "r' \<in> set (users db)" "ur_id r = ur_id r'"
  shows "r = r'"
proof -
  have "inj_on ur_id (set (users db))" using assms(1) by (simp add: users_ok_def distinct_map)
  then show ?thesis using assms(2-4) by (simp add: inj_onD)
qed

lemma cpf_conflict_sym: "cpf_conflict r r' = cpf_conflict r' r"
  by (cases "ur_cpf r = ur_cpf r'") (simp_all add: cpf_conflict_def eq_commute[of "ur_cpf r'" "ur_cpf r"])

lemma insert_user_ok:
  assumes ok: "users_ok db" and ins: "insert_user E ctx u t db = Inr (db', n)"
  shows "users_ok db'"
proof -
  let ?r = "user_to_row u"
  have db': "db' = db\<lparr>users := users db @ [?r]\<rparr>"
    and new: "\<forall>r' \<in> set (users db). ur_id r' \<noteq> ur_id ?r"
      "\<forall>r' \<in> set (users db). \<not> (ur_tenant_id r' = ur_tenant_id ?r \<and> ur_email r' = ur_email ?r)"
      "\<forall>r' \<in> set (users db). \<not> cpf_conflict r' ?r"
      "ur_tenant_id ?r \<in> t_ID ` set (tenants db)"
    using ins by (auto simp: insert_user_def Let_def split: if_splits intro: rev_image_eqI)
  moreover have "\<forall>r' \<in> set (users db). \<not> cpf_conflict ?r r'"
    using new(3) cpf_conflict_sym by metis
  ultimately show ?thesis
    using ok unfolding users_ok_def db' by simp (metis imageE)
qed

lemma set_user_columns_id [simp]:
  "ur_id (set_user_columns now u r) = ur_id r"
  "ur_tenant_id (set_user_columns now u r) = ur_tenant_id r"
  by (simp_all add: set_user_columns_def)

lemma update_user_cases:
  assumes "update_user E ctx now u t db = Inr (db', n)"
  obtains "n = 0" "db' = db"
      "find (\<lambda>r. ur_id r = u_ID u \<and> user_visible E ctx db r) (users db) = None"
  | r0 r where "n = 1" "r = set_user_columns now u r0" "r0 \<in> set (users db)" "ur_id r0 = u_ID u"
      "user_visible E ctx db r0"
      "\<forall>r' \<in> set (users db). ur_id r' \<noteq> ur_id r \<longrightarrow>
         \<not> (ur_tenant_id r' = ur_tenant_id r \<and> ur_email r' = ur_email r) \<and> \<not> cpf_conflict r' r"
      "db' = db\<lparr>users := map (\<lambda>r'. if ur_id r' = u_ID u then r else r') (users db)\<rparr>"
proof (cases "find (\<lambda>r. ur_id r = u_ID u \<and> user_visible E ctx db r) (users db)")
  case None
  then show ?thesis using assms by (intro that(1)) (simp_all add: update_user_def)
next
  case (Some r0)
  let ?r = "set_user_columns now u r0"
  have r0: "r0 \<in> set (users db)" "ur_id r0 = u_ID u" "user_visible E ctx db r0"
    using find_SomeD[OF Some] by simp_all
  then show ?thesis
    using assms Some
    by (intro that(2)[of ?r r0]) (auto simp: update_user_def Let_def split: if_splits)
qed

lemma update_user_ok:
  assumes ok: "users_ok db" and upd: "update_user E ctx now u t db = Inr (db', n)"
  shows "users_ok db'"
proof (rule update_user_cases[OF upd])
  assume "db' = db" then show ?thesis using ok by simp
next
  fix r0 r
  assume r: "r = set_user_columns now u r0" "r0 \<in> set (users db)" "ur_id r0 = u_ID u"
    and new: "\<forall>r' \<in> set (users db). ur_id r' \<noteq> ur_id r \<longrightarrow>
         \<not> (ur_tenant_id r' = ur_tenant_id r \<and> ur_email r' = ur_email r) \<and> \<not> cpf_conflict r' r"
    and db': "db' = db\<lparr>users := map (\<lambda>r'. if ur_id r' = u_ID u then r else r') (users db)\<rparr>"
  have ids: "map ur_id (users db') = map ur_id (users db)" using r by (simp add: db')
  have set': "r' \<in> set (users db') \<Longrightarrow> r' = r \<or> r' \<in> set (users db) \<and> ur_id r' \<noteq> ur_id r" for r'
    using r by (auto simp: db')
  have pair: "\<not> (ur_tenant_id a = ur_tenant_id b \<and> ur_email a = ur_email b) \<and> \<not> cpf_conflict a b"
    if ab: "a \<in> set (users db')" "b \<in> set (users db')" "ur_id a \<noteq> ur_id b" for a b
  proof -
    consider "a = r" "b \<in> set (users db)" "ur_id b \<noteq> ur_id r" | "b = r" "a \<in> set (users db)" "ur_id a \<noteq> ur_id r"
      | "a \<in> set (users db)" "b \<in> set (users db)"
      using set'[OF ab(1)] set'[OF ab(2)] ab(3) by auto
    then show ?thesis
    proof cases
      case 1 then show ?thesis using new cpf_conflict_sym by metis
    next
      case 2 then show ?thesis using new by metis
    next
      case 3 then show ?thesis using ok ab(3) unfolding users_ok_def by metis
    qed
  qed
  have fk: "ur_tenant_id a \<in> t_ID ` set (tenants db')" if "a \<in> set (users db')" for a
    using set'[OF that] ok r unfolding users_ok_def by (auto simp: db')
  show ?thesis using ok ids pair fk unfolding users_ok_def by simp
qed

text \<open>Every operation of the repository keeps the integrity of the table.\<close>

lemma UserRepository_preserves [io_pres]:
  "preserves (\<lambda>w. users_ok (pg w)) (UserRepository_Create E ctx u)"
  "preserves (\<lambda>w. users_ok (pg w)) (UserRepository_Update E ctx u)"
  unfolding UserRepository_Create_def UserRepository_Update_def
  by (intro io_pres io_keep; auto intro: insert_user_ok update_user_ok)+

lemma UserRepository_keeps [io_keep]:
  "keeps pg (UserRepository_GetByEmail E ctx email)"
  "keeps redis (UserRepository_GetByEmail E ctx email)"
  "keeps spawned (UserRepository_GetByEmail E ctx email)"
  "keeps pg (UserRepository_GetByID E ctx uid)"
  "keeps redis (UserRepository_GetByID E ctx uid)"
  "keeps spawned (UserRepository_GetByID E ctx uid)"
  "keeps pg (UserRepository_GetByResetToken E ctx tok)"
  "keeps redis (UserRepository_GetByResetToken E ctx tok)"
  "keeps pg (UserRepository_GetByVerificationToken E ctx tok)"
  "keeps redis (UserRepository_GetByVerificationToken E ctx tok)"
  "keeps redis (UserRepository_Create E ctx u)" "keeps spawned (UserRepository_Create E ctx u)"
  "keeps redis (UserRepository_Update E ctx u)" "keeps spawned (UserRepository_Update E ctx u)"
  unfolding UserRepository_GetByEmail_def UserRepository_GetByID_def getByIDWithTenant_def
    UserRepository_GetByResetToken_def UserRepository_GetByVerificationToken_def
    UserRepository_Create_def UserRepository_Update_def Let_def
  by (intro io_keep)+

section \<open>Tenant isolation and round trip\<close>

lemma scanUser_Inr:
  "scanUser row = Inr u \<Longrightarrow> \<exists>r. row = Some r \<and> u_ID u = ur_id r \<and> u_TenantID u = ur_tenant_id r
     \<and> u_Email u = ur_email r \<and> u_PasswordHash u = ur_password_hash r \<and> u_ResetToken u = ur_reset_token r
     \<and> u_ResetTokenExpiresAt u = deref_time (ur_reset_token_expires_at r) \<and> row_cpf r = Inr (u_CPF u)
     \<and> u_Status u = [] \<and> u_VerificationToken u = [] \<and> u_VerificationTokenExpiresAt u = 0
     \<and> u_ActiveCompanyID u = [] \<and> u_IdentityType u = []"
  by (auto simp: scanUser_def zeroUser_def split: option.splits sum.splits)

lemma scanUserFull_Inr:
  "scanUserFull f row = Inr u \<Longrightarrow> \<exists>r. row = Some r \<and> u_ID u = ur_id r \<and> u_TenantID u = ur_tenant_id r
     \<and> u_Email u = ur_email r \<and> u_PasswordHash u = ur_password_hash r \<and> u_ResetToken u = ur_reset_token r
     \<and> u_ResetTokenExpiresAt u = deref_time (ur_reset_token_expires_at r) \<and> row_cpf r = Inr (u_CPF u)
     \<and> u_Status u = ur_status r \<and> u_VerificationToken u = ur_verification_token r
     \<and> u_VerificationTokenExpiresAt u = deref_time (ur_verification_token_expires_at r)
     \<and> u_ActiveCompanyID u = [] \<and> u_IdentityType u = []"
  by (auto simp: scanUserFull_def zeroUser_def split: option.splits sum.splits)

lemma GetByID_row:
  assumes "run_state (UserRepository_GetByID E ctx uid) w = (Inr u, w')"
  obtains r where "r \<in> set (users (pg w))" "ur_id r = uid" "scanUser (Some r) = Inr u" "u_ID u = uid"
    "u_TenantID u = ur_tenant_id r" "u_Status u = []" "u_VerificationToken u = []" "u_ActiveCompanyID u = []"
proof -
  let ?P = "\<lambda>Q r. ur_id r = uid \<and> Q r"
  have "scanUser (find (?P (\<lambda>r. user_policy E (Some (ctx_Value ctx ''tenant_id'')) (ur_tenant_id r))) (users (pg w))) = Inr u
    \<or> scanUser (find (?P (user_visible E (pool ctx) (pg w))) (users (pg w))) = Inr u"
    using assms by (auto simp: UserRepository_GetByID_def getByIDWithTenant_def Let_def io_run
        split: option.splits sum.splits prod.splits if_splits)
  then obtain Q where s: "scanUser (find (?P Q) (users (pg w))) = Inr u"
    by (elim disjE) (erule that)+
  then obtain r where f: "find (?P Q) (users (pg w)) = Some r" using scanUser_Inr by blast
  then show ?thesis
    using find_SomeD[OF f] scanUser_Inr[OF s] s by (intro that[of r]) auto
qed

text \<open>The effect of a successful \<^verbatim>\<open>Update\<close>.\<close>

lemma UserRepository_Update_ok:
  assumes "run_state (UserRepository_Update E ctx u) w = (Inr (), w')"
  obtains r0 now where "r0 \<in> set (users (pg w))" "ur_id r0 = u_ID u" "user_visible E ctx (pg w) r0"
    "pg w' = (pg w)\<lparr>users := map (\<lambda>r'. if ur_id r' = u_ID u then set_user_columns now u r0 else r') (users (pg w))\<rparr>"
proof -
  from assms obtain t n where "update_user E ctx (clock E (ticks w)) u t (pg w) = Inr (pg w', n)" "n \<noteq> 0"
    by (auto simp: UserRepository_Update_def io_run split: sum.splits prod.splits if_splits)
  then show ?thesis using that by (elim update_user_cases) auto
qed


definition demo_tenant :: "string \<Rightarrow> Tenant" where
  "demo_tenant t = \<lparr>t_ID = t, t_Name = ''Acme'', t_Status = TenantActive, t_CreatedAt = 1, t_UpdatedAt = 1\<rparr>"

definition demo_user :: "string \<Rightarrow> string \<Rightarrow> string \<Rightarrow> user_row" where
  "demo_user t i email = (user_to_row (zeroUser\<lparr>u_ID := i, u_Email := email, u_TenantID := t,
     u_PasswordHash := ''h:pw'', u_Status := UserActive, u_CreatedAt := 1, u_UpdatedAt := 1\<rparr>))"

definition demo_world :: world where
  "demo_world = empty_world\<lparr>pg := empty_tables\<lparr>tenants := [demo_tenant ''t1'', demo_tenant ''t2''],
     users := [demo_user ''t1'' ''u1'' ''ana'', demo_user ''t2'' ''u2'' ''bob'']\<rparr>\<rparr>"

definition demo_ctx :: reqctx where
  "demo_ctx = background\<lparr>ctx_string := [''tenant_id'' \<mapsto> ''t1'']\<rparr>"


end
