(* ===== verification/Policy_Repo.thy ===== *)
theory Policy_Repo
  imports User_Repo
begin

text \<open>
  Relationship-based access control: the PostgreSQL tuple store with its recursive permission
  query (\<^verbatim>\<open>persistence/postgres/policy_repo.go\<close>) and the Redis decorator that caches its answers
  (\<^verbatim>\<open>persistence/redis/policy_cache.go\<close>). Both implement \<^verbatim>\<open>policy.Repository\<close>; the locale
  \<open>policy_checker\<close> states what a caller of \<^verbatim>\<open>Check\<close> may rely on, and both are interpretations.
\<close>

section \<open>The tuple store\<close>

definition parseEntity :: "string \<Rightarrow> (string \<times> string) result" where
  "parseEntity entity = (case split2 (CHR '':'') entity of
     [t, i] \<Rightarrow> Inr (t, i)
   | _ \<Rightarrow> Inl (ErrorString (''invalid entity format: '' @ entity @ '' (expected 'type:id')'')))"

text \<open>
  The recursive common table expression: its base rows have depth 1, and a row of depth below
  10 is joined with the \<^verbatim>\<open>member\<close> tuples of its subject. \<open>cte_rows n f\<close> are the rows of the \<open>n\<close>
  levels that start with \<open>f\<close>.
\<close>

definition cte_base :: "tuple_row list \<Rightarrow> string \<Rightarrow> string \<Rightarrow> string \<Rightarrow> (string \<times> string) list" where
  "cte_base ts objType objID relation = [(pt_subject_type r, pt_subject_id r). r \<leftarrow> ts,
     pt_entity_type r = objType \<and> pt_entity_id r = objID \<and> pt_relation r = relation]"

definition cte_step :: "tuple_row list \<Rightarrow> (string \<times> string) list \<Rightarrow> (string \<times> string) list" where
  "cte_step ts sp = [(pt_subject_type r, pt_subject_id r). s \<leftarrow> sp, r \<leftarrow> ts,
     pt_entity_type r = fst s \<and> pt_entity_id r = snd s \<and> pt_relation r = ''member'']"

fun cte_rows :: "nat \<Rightarrow> tuple_row list \<Rightarrow> (string \<times> string) list \<Rightarrow> (string \<times> string) list" where
  "cte_rows 0 ts sp = []"
| "cte_rows (Suc n) ts sp = sp @ cte_rows n ts (cte_step ts sp)"

definition permission_query ::
    "string \<times> string \<Rightarrow> string \<Rightarrow> string \<times> string \<Rightarrow> tables \<Rightarrow> bool" where
  "permission_query sub relation obj db =
     (sub \<in> set (cte_rows 10 (policy_tuples db) (cte_base (policy_tuples db) (fst obj) (snd obj) relation)))"

definition PolicyRepository_Check ::
    "environ \<Rightarrow> reqctx \<Rightarrow> string \<Rightarrow> string \<Rightarrow> string \<Rightarrow> (bool result) io" where
  "PolicyRepository_Check E ctx subject relation object =
     (case parseEntity subject of Inl e \<Rightarrow> ret (Inl e)
      | Inr sub \<Rightarrow> (case parseEntity object of Inl e \<Rightarrow> ret (Inl e)
          | Inr obj \<Rightarrow>
              tryE (pg_query E ctx [] (permission_query sub relation obj))
                (wrap ''failed to execute permission check: '') (\<lambda>allowed. ret (Inr allowed))))"

definition tuple_tenant :: "Tuple \<Rightarrow> string" where
  "tuple_tenant t = (if tp_TenantID t = [] then zero_uuid else tp_TenantID t)"

definition mk_tuple_row :: "Tuple \<Rightarrow> string \<times> string \<Rightarrow> string \<times> string \<Rightarrow> tuple_row" where
  "mk_tuple_row t sub obj = \<lparr>pt_tenant_id = tuple_tenant t, pt_entity_type = fst obj, pt_entity_id = snd obj,
     pt_relation = tp_Relation t, pt_subject_type = fst sub, pt_subject_id = snd sub\<rparr>"

definition insert_tuple :: "tuple_row \<Rightarrow> time \<Rightarrow> tables \<Rightarrow> (tables \<times> nat) result" where
  "insert_tuple r t db =
     (if r \<in> set (policy_tuples db) then Inr (db, 0)
      else if \<not> (\<exists>x \<in> set (tenants db). t_ID x = pt_tenant_id r)
        then violation ''foreign key violation: policy_tuples_tenant_id_fkey''
      else Inr (db\<lparr>policy_tuples := policy_tuples db @ [r]\<rparr>, 1))"

definition delete_tuple :: "tuple_row \<Rightarrow> time \<Rightarrow> tables \<Rightarrow> (tables \<times> nat) result" where
  "delete_tuple r t db = Inr (db\<lparr>policy_tuples := filter (\<lambda>r'. r' \<noteq> r) (policy_tuples db)\<rparr>,
     length (filter (\<lambda>r'. r' = r) (policy_tuples db)))"

definition PolicyRepository_WriteTuple :: "environ \<Rightarrow> reqctx \<Rightarrow> Tuple \<Rightarrow> (unit result) io" where
  "PolicyRepository_WriteTuple E ctx tuple =
     (case parseEntity (tp_Subject tuple) of Inl e \<Rightarrow> ret (Inl e)
      | Inr sub \<Rightarrow> (case parseEntity (tp_Object tuple) of Inl e \<Rightarrow> ret (Inl e)
          | Inr obj \<Rightarrow>
              tryE (pg_exec E ctx [tuple_tenant tuple] (insert_tuple (mk_tuple_row tuple sub obj)))
                (\<lambda>e. e) (\<lambda>_. ret (Inr ()))))"

definition PolicyRepository_DeleteTuple :: "environ \<Rightarrow> reqctx \<Rightarrow> Tuple \<Rightarrow> (unit result) io" where
  "PolicyRepository_DeleteTuple E ctx tuple =
     (case parseEntity (tp_Subject tuple) of Inl e \<Rightarrow> ret (Inl e)
      | Inr sub \<Rightarrow> (case parseEntity (tp_Object tuple) of Inl e \<Rightarrow> ret (Inl e)
          | Inr obj \<Rightarrow>
              tryE (pg_exec E ctx [tuple_tenant tuple] (delete_tuple (mk_tuple_row tuple sub obj)))
                (\<lambda>e. e) (\<lambda>_. ret (Inr ()))))"

definition PolicyRepository_GetRolesForUser :: "environ \<Rightarrow> reqctx \<Rightarrow> string \<Rightarrow> (string list result) io" where
  "PolicyRepository_GetRolesForUser E ctx userID =
     tryE (pg_query E ctx [] (\<lambda>db. [pt_relation r. r \<leftarrow> policy_tuples db,
            pt_subject_type r = ''user'' \<and> pt_subject_id r = userID \<and> pt_entity_type r = ''tenant'']))
       (wrap ''failed to query roles: '') (\<lambda>roles. ret (Inr roles))"

section \<open>The cache\<close>

definition policy_key :: "string \<Rightarrow> string \<Rightarrow> string \<Rightarrow> string" where
  "policy_key subject relation object = ''policy:check:'' @ subject @ '':'' @ relation @ '':'' @ object"

text \<open>The time to live that \<^verbatim>\<open>main.go\<close> configures.\<close>

definition policy_ttl :: duration where
  "policy_ttl = 30 * second"

text \<open>The string a Redis \<^verbatim>\<open>GET\<close> finds; a key of another type is an error of the server.\<close>

definition redis_GetString :: "environ \<Rightarrow> string \<Rightarrow> (string option result) io" where
  "redis_GetString E k = tryE (redis_Get E k) (\<lambda>e. e) (\<lambda>v. ret (case v of
     None \<Rightarrow> Inr None | Some (RStr s) \<Rightarrow> Inr (Some s) | Some _ \<Rightarrow> Inl (Driver ''WRONGTYPE'')))"

definition CachedPolicyRepository_Check ::
    "environ \<Rightarrow> reqctx \<Rightarrow> string \<Rightarrow> string \<Rightarrow> string \<Rightarrow> (bool result) io" where
  "CachedPolicyRepository_Check E ctx subject relation object = do {
     let key = policy_key subject relation object;
     hit \<leftarrow> redis_GetString E key;
     let miss = tryE (PolicyRepository_Check E ctx subject relation object) (\<lambda>e. e) (\<lambda>allowed. do {
         spawn (CachePolicyCheck key (if allowed then ''1'' else ''0'') policy_ttl);
         ret (Inr allowed) });
     case hit of
       Inr (Some val) \<Rightarrow> ret (Inr (val = ''1''))
     | Inr None \<Rightarrow> miss
     | Inl e \<Rightarrow> miss }"

definition CachedPolicyRepository_WriteTuple :: "environ \<Rightarrow> reqctx \<Rightarrow> Tuple \<Rightarrow> (unit result) io" where
  "CachedPolicyRepository_WriteTuple E ctx tuple =
     tryE (PolicyRepository_WriteTuple E ctx tuple) (\<lambda>e. e) (\<lambda>_. ret (Inr ()))"

definition CachedPolicyRepository_DeleteTuple :: "environ \<Rightarrow> reqctx \<Rightarrow> Tuple \<Rightarrow> (unit result) io" where
  "CachedPolicyRepository_DeleteTuple E ctx tuple =
     tryE (PolicyRepository_DeleteTuple E ctx tuple) (\<lambda>e. e) (\<lambda>_. ret (Inr ()))"

definition CachedPolicyRepository_GetRolesForUser ::
    "environ \<Rightarrow> reqctx \<Rightarrow> string \<Rightarrow> (string list result) io" where
  "CachedPolicyRepository_GetRolesForUser E ctx userID = PolicyRepository_GetRolesForUser E ctx userID"

text \<open>The goroutine of \<^verbatim>\<open>Check\<close>, when it runs.\<close>

definition run_cache_task :: "environ \<Rightarrow> string \<Rightarrow> string \<Rightarrow> duration \<Rightarrow> unit io" where
  "run_cache_task E key val ttl = do { _ \<leftarrow> redis_Set E key (RStr val) ttl; ret () }"

section \<open>What the query computes\<close>

text \<open>
  \<open>grants ts rel obj n s\<close>: subject \<open>s\<close> is reached from \<open>obj\<close> by one tuple with relation \<open>rel\<close>
  followed by \<open>n - 1\<close> tuples with relation \<^verbatim>\<open>member\<close>.
\<close>

inductive grants :: "tuple_row list \<Rightarrow> string \<Rightarrow> string \<times> string \<Rightarrow> nat \<Rightarrow> string \<times> string \<Rightarrow> bool"
  for ts rel obj where
  direct: "r \<in> set ts \<Longrightarrow> (pt_entity_type r, pt_entity_id r) = obj \<Longrightarrow> pt_relation r = rel
     \<Longrightarrow> grants ts rel obj (Suc 0) (pt_subject_type r, pt_subject_id r)"
| member: "grants ts rel obj n g \<Longrightarrow> r \<in> set ts \<Longrightarrow> (pt_entity_type r, pt_entity_id r) = g
     \<Longrightarrow> pt_relation r = ''member'' \<Longrightarrow> grants ts rel obj (Suc n) (pt_subject_type r, pt_subject_id r)"

lemma grants_pos: "grants ts rel obj n s \<Longrightarrow> 0 < n"
  by (induction rule: grants.induct) auto

definition cte_level :: "tuple_row list \<Rightarrow> string \<Rightarrow> string \<times> string \<Rightarrow> nat \<Rightarrow> (string \<times> string) list" where
  "cte_level ts rel obj n = (cte_step ts ^^ n) (cte_base ts (fst obj) (snd obj) rel)"

lemma mem_cte_step:
  "x \<in> set (cte_step ts sp) \<longleftrightarrow> (\<exists>r \<in> set ts. x = (pt_subject_type r, pt_subject_id r)
     \<and> (pt_entity_type r, pt_entity_id r) \<in> set sp \<and> pt_relation r = ''member'')"
  unfolding cte_step_def by (auto split: if_splits) (auto intro!: bexI)

lemma cte_rows_levels: "set (cte_rows n ts sp) = (\<Union>k < n. set ((cte_step ts ^^ k) sp))"
proof (induction n arbitrary: sp)
  case (Suc n)
  have "(\<Union>k < Suc n. set ((cte_step ts ^^ k) sp))
      = set sp \<union> (\<Union>k < n. set ((cte_step ts ^^ Suc k) sp))"
    by (simp only: lessThan_Suc_eq_insert_0 UN_insert UN_simps image_image) (auto simp: funpow_0)
  then show ?case using Suc by (simp add: funpow_swap1)
qed simp

lemma grants_level: "grants ts rel obj (Suc n) s \<longleftrightarrow> s \<in> set (cte_level ts rel obj n)"
proof (induction n arbitrary: s)
  case 0
  show ?case
    by (auto simp: cte_level_def cte_base_def grants.simps[of ts rel obj "Suc 0" s] dest: grants_pos)
next
  case (Suc n)
  show ?case
    by (subst grants.simps) (auto simp: cte_level_def mem_cte_step Suc.IH[unfolded cte_level_def, symmetric])
qed

lemma permission_query_iff:
  "permission_query sub rel obj db \<longleftrightarrow> (\<exists>n \<le> 10. grants (policy_tuples db) rel obj n sub)"
proof -
  have "permission_query sub rel obj db \<longleftrightarrow> (\<exists>k < 10. sub \<in> set (cte_level (policy_tuples db) rel obj k))"
    by (auto simp: permission_query_def cte_rows_levels cte_level_def)
  also have "\<dots> \<longleftrightarrow> (\<exists>k < 10. grants (policy_tuples db) rel obj (Suc k) sub)"
    by (simp add: grants_level)
  also have "\<dots> \<longleftrightarrow> (\<exists>n \<le> 10. grants (policy_tuples db) rel obj n sub)"
    by (metis Suc_le_eq gr0_conv_Suc grants_pos)
  finally show ?thesis .
qed

section \<open>The contract of Check\<close>

definition policy_allowed :: "tables \<Rightarrow> string \<Rightarrow> string \<Rightarrow> string \<Rightarrow> bool" where
  "policy_allowed db subject relation object =
     (case parseEntity subject of Inl e \<Rightarrow> False
      | Inr sub \<Rightarrow> (case parseEntity object of Inl e \<Rightarrow> False
          | Inr obj \<Rightarrow> permission_query sub relation obj db))"

locale policy_checker =
  fixes check :: "reqctx \<Rightarrow> string \<Rightarrow> string \<Rightarrow> string \<Rightarrow> (bool result) io"
    and inv :: "world \<Rightarrow> bool"
  assumes check_sound:
      "inv w \<Longrightarrow> run_state (check ctx s r ob) w = (Inr b, w') \<Longrightarrow> b = policy_allowed (pg w) s r ob"
    and check_inv: "inv w \<Longrightarrow> run_state (check ctx s r ob) w = (x, w') \<Longrightarrow> inv w'"
    and check_frame: "keeps pg (check ctx s r ob)"
begin

text \<open>Answers are stable: a check between two others does not influence them.\<close>

lemma check_stable:
  assumes "inv w" "run_state (check ctx s r ob) w = (x, w')"
    and "run_state (check ctx' s' r' ob') w' = (Inr b, w'')"
  shows "b = policy_allowed (pg w) s' r' ob'"
  using check_sound[OF check_inv[OF assms(1,2)] assms(3)] keepsD[OF check_frame assms(2)] by simp

end

lemma keeps_Check [io_keep]:
  "keeps pg (PolicyRepository_Check E ctx s r ob)" "keeps redis (PolicyRepository_Check E ctx s r ob)"
  "keeps spawned (PolicyRepository_Check E ctx s r ob)"
  unfolding PolicyRepository_Check_def by (intro io_keep)+

lemma keeps_WriteTuple [io_keep]:
  "keeps redis (PolicyRepository_WriteTuple E ctx t)" "keeps spawned (PolicyRepository_WriteTuple E ctx t)"
  "keeps redis (PolicyRepository_DeleteTuple E ctx t)" "keeps spawned (PolicyRepository_DeleteTuple E ctx t)"
  unfolding PolicyRepository_WriteTuple_def PolicyRepository_DeleteTuple_def by (intro io_keep)+

lemma keeps_GetRolesForUser [io_keep]:
  "keeps pg (PolicyRepository_GetRolesForUser E ctx u)"
  "keeps redis (PolicyRepository_GetRolesForUser E ctx u)"
  "keeps spawned (PolicyRepository_GetRolesForUser E ctx u)"
  unfolding PolicyRepository_GetRolesForUser_def by (intro io_keep)+

lemma keeps_redis_GetString [io_keep]:
  "keeps pg (redis_GetString E k)" "keeps redis (redis_GetString E k)" "keeps spawned (redis_GetString E k)"
  unfolding redis_GetString_def by (intro io_keep)+

interpretation pg_policy: policy_checker "PolicyRepository_Check E" "\<lambda>w. True" for E
proof
  fix w ctx s r ob b w'
  assume "run_state (PolicyRepository_Check E ctx s r ob) w = (Inr b, w')"
  then show "b = policy_allowed (pg w) s r ob"
    by (auto simp: PolicyRepository_Check_def policy_allowed_def io_run
        split: sum.splits prod.splits)
qed (rule io_keep | simp)+

text \<open>The cache agrees with the store: no cached answer differs from the current one.\<close>

definition policy_cache_coherent :: "world \<Rightarrow> bool" where
  "policy_cache_coherent w \<longleftrightarrow> (\<forall>s r ob e v. redis w (policy_key s r ob) = Some e \<longrightarrow>
     r_val e = RStr v \<longrightarrow> (v = ''1'') = policy_allowed (pg w) s r ob)"

lemma keeps_CachedCheck [io_keep]:
  "keeps pg (CachedPolicyRepository_Check E ctx s r ob)"
  "keeps redis (CachedPolicyRepository_Check E ctx s r ob)"
  unfolding CachedPolicyRepository_Check_def Let_def by (intro io_keep)+

lemma run_redis_GetString:
  "run_state (redis_GetString E k) w = (case redis_gate E w of Inl e \<Rightarrow> Inl e
     | Inr now \<Rightarrow> (case redis_lookup now (redis w) k of None \<Rightarrow> Inr None
         | Some (RStr s) \<Rightarrow> Inr (Some s) | Some _ \<Rightarrow> Inl (Driver ''WRONGTYPE'')), tick w)"
  by (auto simp: redis_GetString_def io_run split: sum.splits)

lemma cached_Check_cases:
  assumes "run_state (CachedPolicyRepository_Check E ctx s r ob) w = (Inr b, w')"
  obtains v where "redis_lookup (clock E (ticks w)) (redis w) (policy_key s r ob) = Some (RStr v)" "b = (v = ''1'')"
  | w1 where "run_state (PolicyRepository_Check E ctx s r ob) (tick w) = (Inr b, w1)"
  using assms
  by (auto simp: CachedPolicyRepository_Check_def Let_def run_redis_GetString redis_gate_def
        run_tryE run_spawn split: sum.splits option.splits prod.splits rvalue.splits)

interpretation cached_policy: policy_checker "CachedPolicyRepository_Check E" policy_cache_coherent for E
proof
  fix w ctx s r ob b w'
  assume inv: "policy_cache_coherent w"
    and run: "run_state (CachedPolicyRepository_Check E ctx s r ob) w = (Inr b, w')"
  show "b = policy_allowed (pg w) s r ob"
  proof (rule cached_Check_cases[OF run])
    fix v assume v: "redis_lookup (clock E (ticks w)) (redis w) (policy_key s r ob) = Some (RStr v)"
      "b = (v = ''1'')"
    then obtain e where "redis w (policy_key s r ob) = Some e" "r_val e = RStr v"
      by (auto simp: redis_lookup_def split: option.splits if_splits)
    then show ?thesis using inv v(2) unfolding policy_cache_coherent_def by blast
  next
    fix w1 assume "run_state (PolicyRepository_Check E ctx s r ob) (tick w) = (Inr b, w1)"
    from pg_policy.check_sound[OF _ this] show ?thesis by simp
  qed
next
  fix w ctx s r ob x w'
  assume "policy_cache_coherent w" "run_state (CachedPolicyRepository_Check E ctx s r ob) w = (x, w')"
  then show "policy_cache_coherent w'"
    using keepsD[OF keeps_CachedCheck(1)] keepsD[OF keeps_CachedCheck(2)]
    by (simp add: policy_cache_coherent_def)
qed (rule io_keep)

section \<open>Properties\<close>

text \<open>
  C3: The recursive query decides bounded reachability. For entities of the form \<^verbatim>\<open>type:id\<close> and a
  statement the server accepts, \<^verbatim>\<open>Check\<close> returns (always, with no error) whether the subject is
  reached from the object by one tuple with the requested relation followed by at most nine
  \<^verbatim>\<open>member\<close> tuples, and it changes nothing but the call counter.
\<close>

theorem Check_refines_reachability:
  assumes "parseEntity subject = Inr sub" "parseEntity object = Inr obj" "pg_gate E ctx [] w = Inr t"
  shows "run_state (PolicyRepository_Check E ctx subject relation object) w =
    (Inr (\<exists>n \<le> 10. grants (policy_tuples (pg w)) relation obj n sub), tick w)"
  using assms by (simp add: PolicyRepository_Check_def io_run permission_query_iff)

definition demo_tuple :: "string \<Rightarrow> string \<Rightarrow> string \<Rightarrow> Tuple" where
  "demo_tuple s r ob = \<lparr>tp_TenantID = ''t1'', tp_Subject = s, tp_Relation = r, tp_Object = ob\<rparr>"

definition demo_tuple_row :: "string \<times> string \<Rightarrow> string \<Rightarrow> string \<times> string \<Rightarrow> tuple_row" where
  "demo_tuple_row s r ob = mk_tuple_row (demo_tuple [] r []) s ob"

definition policy_world :: world where
  "policy_world = demo_world\<lparr>pg := (pg demo_world)\<lparr>policy_tuples :=
     [demo_tuple_row (''group'', ''eng'') ''viewer'' (''doc'', ''9''),
      demo_tuple_row (''user'', ''u1'') ''member'' (''group'', ''eng'')]\<rparr>\<rparr>"

theorem Check_refines_reachability_witness:
  "\<exists>n \<le> 10. grants (policy_tuples (pg policy_world)) ''viewer'' (''doc'', ''9'') n (''user'', ''u1'')"
proof -
  have "fst (run_state (PolicyRepository_Check demo_env background ''user:u1'' ''viewer'' ''doc:9'') policy_world)
      = Inr True" by code_simp
  moreover have "parseEntity ''user:u1'' = Inr (''user'', ''u1'')" "parseEntity ''doc:9'' = Inr (''doc'', ''9'')"
    by code_simp+
  moreover have "pg_gate demo_env background [] policy_world = Inr 1000" by code_simp
  ultimately show ?thesis
    using Check_refines_reachability[of "''user:u1''" _ "''doc:9''" _ demo_env background policy_world]
    by simp
qed

lemma permission_query_mono:
  "set (policy_tuples db) \<subseteq> set (policy_tuples db') \<Longrightarrow> permission_query sub rel obj db
    \<Longrightarrow> permission_query sub rel obj db'"
proof -
  assume sub: "set (policy_tuples db) \<subseteq> set (policy_tuples db')"
  have "grants (policy_tuples db) rel obj n x \<Longrightarrow> grants (policy_tuples db') rel obj n x" for n x
    by (induction rule: grants.induct) (use sub in \<open>auto intro: grants.intros\<close>)
  then show "permission_query sub rel obj db \<Longrightarrow> permission_query sub rel obj db'"
    unfolding permission_query_iff by blast
qed

lemma WriteTuple_ok:
  assumes "run_state (PolicyRepository_WriteTuple E ctx t) w = (Inr (), w')"
  obtains sub obj where "parseEntity (tp_Subject t) = Inr sub" "parseEntity (tp_Object t) = Inr obj"
    "pg w' = (pg w)\<lparr>policy_tuples := (if mk_tuple_row t sub obj \<in> set (policy_tuples (pg w))
        then policy_tuples (pg w) else policy_tuples (pg w) @ [mk_tuple_row t sub obj])\<rparr>"
  using assms
  by (auto simp: PolicyRepository_WriteTuple_def io_run insert_tuple_def
      split: sum.splits prod.splits if_splits)

lemma WriteTuple_policy_allowed:
  assumes w: "run_state (PolicyRepository_WriteTuple E ctx t) w = (Inr (), w')"
  shows "policy_allowed (pg w') (tp_Subject t) (tp_Relation t) (tp_Object t)"
proof (rule WriteTuple_ok[OF w])
  fix sub obj
  let ?r = "mk_tuple_row t sub obj"
  assume p: "parseEntity (tp_Subject t) = Inr sub" "parseEntity (tp_Object t) = Inr obj"
    and pg': "pg w' = (pg w)\<lparr>policy_tuples := (if ?r \<in> set (policy_tuples (pg w))
        then policy_tuples (pg w) else policy_tuples (pg w) @ [?r])\<rparr>"
  have mem: "?r \<in> set (policy_tuples (pg w'))" by (auto simp: pg')
  have "grants (policy_tuples (pg w')) (tp_Relation t) obj (Suc 0) sub"
    using grants.direct[OF mem, of obj "tp_Relation t"] by (simp add: mk_tuple_row_def)
  then show ?thesis
    by (auto simp: policy_allowed_def p permission_query_iff intro!: exI[of _ "Suc 0"])
qed

text \<open>
  \<^verbatim>\<open>WriteTuple\<close> grants: after a successful write the store answers the check of that tuple with
  true, every answer that was true stays true, the table gains at most this one tuple, and a
  table without duplicates stays without duplicates.
\<close>

theorem WriteTuple_grants:
  assumes w: "run_state (PolicyRepository_WriteTuple E ctx t) w = (Inr (), w')"
  shows "policy_allowed (pg w') (tp_Subject t) (tp_Relation t) (tp_Object t)
    \<and> (\<forall>s r ob. policy_allowed (pg w) s r ob \<longrightarrow> policy_allowed (pg w') s r ob)
    \<and> length (policy_tuples (pg w')) \<le> Suc (length (policy_tuples (pg w)))
    \<and> (distinct (policy_tuples (pg w)) \<longrightarrow> distinct (policy_tuples (pg w')))"
proof (rule WriteTuple_ok[OF w])
  fix sub obj
  let ?r = "mk_tuple_row t sub obj"
  assume p: "parseEntity (tp_Subject t) = Inr sub" "parseEntity (tp_Object t) = Inr obj"
    and pg': "pg w' = (pg w)\<lparr>policy_tuples := (if ?r \<in> set (policy_tuples (pg w))
        then policy_tuples (pg w) else policy_tuples (pg w) @ [?r])\<rparr>"
  have sub: "set (policy_tuples (pg w)) \<subseteq> set (policy_tuples (pg w'))"
    by (auto simp: pg')
  note WriteTuple_policy_allowed[OF w]
  moreover have "policy_allowed (pg w) s r ob \<Longrightarrow> policy_allowed (pg w') s r ob" for s r ob
    using permission_query_mono[OF sub] by (auto simp: policy_allowed_def split: sum.splits)
  ultimately show ?thesis by (auto simp: pg')
qed

theorem WriteTuple_grants_witness:
  "policy_allowed (pg (snd (run_state (PolicyRepository_WriteTuple demo_env background
     (demo_tuple ''user:u1'' ''owner'' ''tenant:t1'')) demo_world))) ''user:u1'' ''owner'' ''tenant:t1''"
proof -
  have "fst (run_state (PolicyRepository_WriteTuple demo_env background
     (demo_tuple ''user:u1'' ''owner'' ''tenant:t1'')) demo_world) = Inr ()" by code_simp
  from WriteTuple_grants[OF run_result[OF this]] show ?thesis by (simp add: demo_tuple_def)
qed



text \<open>
  Bounded staleness of the permission cache: an answer that the goroutine of \<^verbatim>\<open>Check\<close> stored is
  not used any more 30 seconds after it was stored, whatever the tuples became meanwhile; the
  cached check then gives exactly the store's answer.
\<close>

theorem cached_Check_stale_bound:
  assumes "run_state (run_cache_task E (policy_key s r ob) val policy_ttl) w = ((), w1)"
    and "redis_fault E (ticks w) = None"
    and "redis w2 (policy_key s r ob) = redis w1 (policy_key s r ob)"
    and "clock E (ticks w) + policy_ttl \<le> clock E (ticks w2)"
  shows "fst (run_state (CachedPolicyRepository_Check E ctx s r ob) w2) =
         fst (run_state (PolicyRepository_Check E ctx s r ob) (tick w2))"
proof -
  have "redis w1 (policy_key s r ob) =
      Some \<lparr>r_val = RStr val, r_expires = Some (clock E (ticks w) + policy_ttl)\<rparr>"
    using assms(1,2) by (auto simp: run_cache_task_def io_run redis_gate_def redis_put_def policy_ttl_def)
  then have "redis_lookup (clock E (ticks w2)) (redis w2) (policy_key s r ob) = None"
    using assms(3,4) by (simp add: redis_lookup_def alive_def)
  then show ?thesis
    by (auto simp: CachedPolicyRepository_Check_def Let_def run_redis_GetString redis_gate_def
        run_tryE run_spawn split: sum.splits option.splits prod.splits)
qed

theorem cached_Check_stale_bound_witness:
  "fst (run_state (CachedPolicyRepository_Check demo_env background ''user:u1'' ''viewer'' ''doc:9'')
     (snd (run_state (run_cache_task demo_env (policy_key ''user:u1'' ''viewer'' ''doc:9'') ''0'' policy_ttl)
        policy_world)\<lparr>ticks := nat policy_ttl\<rparr>)) = Inr True"
proof -
  let ?k = "policy_key ''user:u1'' ''viewer'' ''doc:9''"
  let ?w1 = "snd (run_state (run_cache_task demo_env ?k ''0'' policy_ttl) policy_world)"
  let ?w2 = "?w1\<lparr>ticks := nat policy_ttl\<rparr>"
  have 1: "run_state (run_cache_task demo_env ?k ''0'' policy_ttl) policy_world = ((), ?w1)"
    by (rule run_result) simp
  have pg: "policy_tuples (pg ?w1) = policy_tuples (pg policy_world)"
    by (simp add: run_cache_task_def io_run demo_env_def redis_gate_def)
  have "policy_allowed (pg policy_world) ''user:u1'' ''viewer'' ''doc:9''" by code_simp
  then have "fst (run_state (PolicyRepository_Check demo_env background ''user:u1'' ''viewer'' ''doc:9'') (tick ?w2)) = Inr True"
    using pg by (auto simp: PolicyRepository_Check_def policy_allowed_def permission_query_def io_run
        pg_gate_def demo_env_def background_def split: sum.splits)
  then show ?thesis
    using cached_Check_stale_bound[OF 1, of ?w2 background]
    by (simp add: demo_env_def policy_world_def demo_world_def empty_world_def policy_ttl_def second_def)
qed

definition collision_world :: world where
  "collision_world = demo_world\<lparr>pg := (pg demo_world)\<lparr>policy_tuples :=
     [demo_tuple_row (''user'', ''1:a'') ''b'' (''doc'', ''9'')]\<rparr>\<rparr>"

text \<open>
  The cache key does not determine the question: subject, relation and object are joined with
  colons, which entity names contain. Starting from a store that grants only the relation
  \<^verbatim>\<open>b\<close> on \<^verbatim>\<open>doc:9\<close> to \<^verbatim>\<open>user:1:a\<close>, checking that grant (and running the goroutine that stores the
  answer) makes the cached check also allow relation \<^verbatim>\<open>a:b\<close> to \<^verbatim>\<open>user:1\<close>, which the store denies.
\<close>

theorem policy_key_collision:
  "fst (run_state (do {
     a \<leftarrow> CachedPolicyRepository_Check demo_env background ''user:1:a'' ''b'' ''doc:9'';
     run_cache_task demo_env (policy_key ''user:1:a'' ''b'' ''doc:9'') ''1'' policy_ttl;
     c \<leftarrow> CachedPolicyRepository_Check demo_env background ''user:1'' ''a:b'' ''doc:9'';
     d \<leftarrow> PolicyRepository_Check demo_env background ''user:1'' ''a:b'' ''doc:9'';
     ret (a, c, d) }) collision_world) = (Inr True, Inr True, Inr False)"
  by code_simp

end
