(* ===== verification/Session_Store.thy ===== *)
theory Session_Store
  imports Policy_Repo
begin

text \<open>
  The Redis session store (\<^verbatim>\<open>persistence/redis/session_store.go\<close>): refresh-token sessions, one-time
  WebAuthn ceremonies and short-lived string values. A session is stored under its id, with a
  second key that maps its refresh token to the id. JSON encodes a session without loss, so the
  model stores the session itself; the WebAuthn session data of the third-party library is kept
  as its JSON text. The set of a user's sessions is only ever written by this store.
\<close>

section \<open>Strings and WebAuthn ceremonies\<close>

definition SessionStore_SaveString :: "environ \<Rightarrow> string \<Rightarrow> string \<Rightarrow> duration \<Rightarrow> (unit result) io" where
  "SessionStore_SaveString E key value ttl =
     tryE (redis_Set E key (RStr value) ttl) (wrap ''failed to save string to redis: '') (\<lambda>_. ret (Inr ()))"

definition SessionStore_GetString :: "environ \<Rightarrow> string \<Rightarrow> (string result) io" where
  "SessionStore_GetString E key =
     tryE (redis_GetString E key) (wrap ''failed to get string from redis: '')
       (\<lambda>v. ret (case v of None \<Rightarrow> Inl (ErrorString ''key not found'') | Some s \<Rightarrow> Inr s))"

definition SessionStore_Delete :: "environ \<Rightarrow> string \<Rightarrow> (unit result) io" where
  "SessionStore_Delete E key = redis_Del E key"

definition SessionStore_SaveSession :: "environ \<Rightarrow> string \<Rightarrow> string \<Rightarrow> duration \<Rightarrow> (unit result) io" where
  "SessionStore_SaveSession E key data ttl =
     tryE (redis_Set E (''webauthn:'' @ key) (RStr data) ttl) (wrap ''failed to save session to redis: '')
       (\<lambda>_. ret (Inr ()))"

definition SessionStore_GetSession :: "environ \<Rightarrow> string \<Rightarrow> (string result) io" where
  "SessionStore_GetSession E key =
     tryE (redis_GetString E (''webauthn:'' @ key)) (wrap ''failed to get session from redis: '')
       (\<lambda>v. case v of None \<Rightarrow> ret (Inl (ErrorString ''session not found''))
        | Some data \<Rightarrow> do {
            _ \<leftarrow> redis_Del E (''webauthn:'' @ key);
            ret (Inr data) })"

section \<open>Sessions\<close>

definition session_key :: "string \<Rightarrow> string" where
  "session_key sid = ''session:'' @ sid"

definition refresh_key :: "string \<Rightarrow> string" where
  "refresh_key tok = ''refresh:'' @ tok"

definition user_sessions_key :: "string \<Rightarrow> string" where
  "user_sessions_key uid = ''user:'' @ uid @ '':sessions''"

text \<open>\<^verbatim>\<open>SADD\<close> followed by \<^verbatim>\<open>EXPIRE\<close>.\<close>

definition redis_sadd ::
    "time \<Rightarrow> string \<Rightarrow> string \<Rightarrow> duration \<Rightarrow> (string \<rightharpoonup> rentry) \<Rightarrow> (string \<rightharpoonup> rentry)" where
  "redis_sadd now k x ttl m = redis_put now k (RSet (case redis_lookup now m k of
     Some (RSet xs) \<Rightarrow> List.insert x xs | _ \<Rightarrow> [x])) ttl m"

definition SessionStore_Create :: "environ \<Rightarrow> Session \<Rightarrow> (unit result) io" where
  "SessionStore_Create E sess = do {
     now1 \<leftarrow> time_Now E;
     now2 \<leftarrow> time_Now E;
     tryE (redis_do E (\<lambda>now m.
        redis_sadd now (user_sessions_key (s_UserID sess)) (s_ID sess) (30 * 24 * hour)
          (redis_put now (refresh_key (s_RefreshToken sess)) (RStr (s_ID sess)) (s_ExpiresAt sess - now2)
            (redis_put now (session_key (s_ID sess)) (RSession sess) (s_ExpiresAt sess - now1) m))))
       (wrap ''failed to create session in redis: '') (\<lambda>_. ret (Inr ())) }"

definition SessionStore_GetByID :: "environ \<Rightarrow> string \<Rightarrow> (Session result) io" where
  "SessionStore_GetByID E sid =
     tryE (redis_Get E (session_key sid)) (wrap ''failed to get session: '') (\<lambda>v. ret (case v of
        None \<Rightarrow> Inl (Sentinel session_ErrNotFound)
      | Some (RSession sess) \<Rightarrow> Inr sess
      | Some _ \<Rightarrow> Inl (wrap ''failed to unmarshal session: '' (Driver ''json''))))"

definition SessionStore_GetByRefreshToken :: "environ \<Rightarrow> string \<Rightarrow> (Session result) io" where
  "SessionStore_GetByRefreshToken E tok =
     tryE (redis_GetString E (refresh_key tok)) (wrap ''failed to get refresh token: '') (\<lambda>v. case v of
        None \<Rightarrow> ret (Inl (Sentinel session_ErrNotFound))
      | Some sid \<Rightarrow> SessionStore_GetByID E sid)"

definition SessionStore_Update :: "environ \<Rightarrow> Session \<Rightarrow> (unit result) io" where
  "SessionStore_Update E sess = do {
     now \<leftarrow> time_Now E;
     tryE (redis_Set E (session_key (s_ID sess)) (RSession sess) (s_ExpiresAt sess - now))
       (wrap ''failed to update session: '') (\<lambda>_. ret (Inr ())) }"

text \<open>The keys that the pipeline of \<^verbatim>\<open>DeleteByUserID\<close> deletes, collected by its loop.\<close>

fun collect_session_keys :: "environ \<Rightarrow> string list \<Rightarrow> (string list) io" where
  "collect_session_keys E [] = ret []"
| "collect_session_keys E (sid # sids) = do {
     sess \<leftarrow> SessionStore_GetByID E sid;
     rest \<leftarrow> collect_session_keys E sids;
     ret ([session_key sid] @ (case sess of Inl e \<Rightarrow> [] | Inr s \<Rightarrow> [refresh_key (s_RefreshToken s)]) @ rest) }"

definition redis_SMembers :: "environ \<Rightarrow> string \<Rightarrow> (string list result) io" where
  "redis_SMembers E k = tryE (redis_Get E k) (\<lambda>e. e) (\<lambda>v. ret (case v of
     None \<Rightarrow> Inr [] | Some (RSet xs) \<Rightarrow> Inr xs | Some _ \<Rightarrow> Inl (Driver ''WRONGTYPE'')))"

definition SessionStore_DeleteByUserID :: "environ \<Rightarrow> string \<Rightarrow> (unit result) io" where
  "SessionStore_DeleteByUserID E userID =
     tryE (redis_SMembers E (user_sessions_key userID)) (wrap ''failed to get user sessions: '') (\<lambda>sids.
       if sids = [] then ret (Inr ())
       else do {
         ks \<leftarrow> collect_session_keys E sids;
         redis_do E (\<lambda>now m. m |` (- set (ks @ [user_sessions_key userID]))) })"

section \<open>Laws of the store\<close>

lemma session_keys_distinct [simp]:
  "session_key a \<noteq> refresh_key b" "refresh_key b \<noteq> session_key a"
  "session_key a \<noteq> user_sessions_key u" "user_sessions_key u \<noteq> session_key a"
  "refresh_key b \<noteq> user_sessions_key u" "user_sessions_key u \<noteq> refresh_key b"
  "session_key a = session_key a' \<longleftrightarrow> a = a'" "refresh_key b = refresh_key b' \<longleftrightarrow> b = b'"
  by (simp_all add: session_key_def refresh_key_def user_sessions_key_def)

lemma redis_put_simps [simp]:
  "k' \<noteq> k \<Longrightarrow> redis_put now k v ttl m k' = m k'"
  "redis_put now k v ttl m k = Some e \<longleftrightarrow> e = \<lparr>r_val = v, r_expires = (if 0 < ttl then Some (now + ttl)
      else if ttl = -1 then (case m k of Some e \<Rightarrow> if alive now e then r_expires e else None | None \<Rightarrow> None)
      else None)\<rparr>"
  by (auto simp: redis_put_def)

lemma redis_sadd_other [simp]: "k' \<noteq> k \<Longrightarrow> redis_sadd now k x ttl m k' = m k'"
  by (simp add: redis_sadd_def)

text \<open>Sessions are stored under their own id.\<close>

definition sessions_ok :: "(string \<rightharpoonup> rentry) \<Rightarrow> bool" where
  "sessions_ok m \<longleftrightarrow> (\<forall>sid e s. m (session_key sid) = Some e \<longrightarrow> r_val e = RSession s \<longrightarrow> s_ID s = sid)"

lemma sessions_okD: "sessions_ok m \<Longrightarrow> m (session_key sid) = Some e \<Longrightarrow> r_val e = RSession s \<Longrightarrow> s_ID s = sid"
  by (simp add: sessions_ok_def)

lemma keeps_session_reads [io_keep]:
  "keeps pg (SessionStore_GetByID E sid)" "keeps redis (SessionStore_GetByID E sid)"
  "keeps spawned (SessionStore_GetByID E sid)"
  "keeps pg (SessionStore_GetByRefreshToken E tok)" "keeps redis (SessionStore_GetByRefreshToken E tok)"
  "keeps spawned (SessionStore_GetByRefreshToken E tok)"
  unfolding SessionStore_GetByID_def SessionStore_GetByRefreshToken_def by (intro io_keep)+

lemma keeps_session_writes [io_keep]:
  "keeps pg (SessionStore_Create E sess)" "keeps pg (SessionStore_Update E sess)"
  "keeps spawned (SessionStore_Create E sess)" "keeps spawned (SessionStore_Update E sess)"
  unfolding SessionStore_Create_def SessionStore_Update_def by (intro io_keep)+

lemma preserves_redis_do [io_pres]:
  "(\<And>now m. P m \<Longrightarrow> P (f now m)) \<Longrightarrow> preserves (\<lambda>w. P (redis w)) (redis_do E f)"
  by (rule preservesI) (auto simp: io_run split: sum.splits)

lemma preserves_keeps_redis [io_pres]: "keeps redis m \<Longrightarrow> preserves (\<lambda>w. P (redis w)) m"
  by (simp add: keeps_def preserves_def)

lemma sessions_ok_put:
  "sessions_ok m \<Longrightarrow> (\<And>sid s. k = session_key sid \<Longrightarrow> v = RSession s \<Longrightarrow> s_ID s = sid)
    \<Longrightarrow> sessions_ok (redis_put now k v ttl m)"
  unfolding sessions_ok_def
proof (intro allI impI)
  fix sid e s
  assume m: "\<forall>sid e s. m (session_key sid) = Some e \<longrightarrow> r_val e = RSession s \<longrightarrow> s_ID s = sid"
    and k: "\<And>sid s. k = session_key sid \<Longrightarrow> v = RSession s \<Longrightarrow> s_ID s = sid"
    and e: "redis_put now k v ttl m (session_key sid) = Some e" "r_val e = RSession s"
  show "s_ID s = sid"
  proof (cases "k = session_key sid")
    case True
    then have "r_val e = v" using e(1) by simp
    then show ?thesis using k[OF True] e(2) by simp
  next
    case False
    then show ?thesis using m e by simp
  qed
qed

lemma SessionStore_preserves [io_pres]:
  "preserves (\<lambda>w. sessions_ok (redis w)) (SessionStore_Create E sess)"
  "preserves (\<lambda>w. sessions_ok (redis w)) (SessionStore_Update E sess)"
  unfolding SessionStore_Create_def SessionStore_Update_def redis_Set_def redis_sadd_def
  by (intro io_pres io_keep; auto intro!: sessions_ok_put)+

text \<open>What a lookup by refresh token finds.\<close>

lemma GetByRefreshToken_Inr:
  assumes "run_state (SessionStore_GetByRefreshToken E tok) w = (Inr s, w')"
  obtains sid e e' where "redis w (refresh_key tok) = Some e" "r_val e = RStr sid"
    "redis w (session_key sid) = Some e'" "r_val e' = RSession s" "redis w' = redis w"
proof -
  have "redis w' = redis w" using keepsD[OF keeps_session_reads(5) assms] .
  then show ?thesis
    using assms that
    by (auto simp: SessionStore_GetByRefreshToken_def SessionStore_GetByID_def run_tryE run_redis_GetString
        run_redis_Get redis_lookup_def redis_gate_def
        split: sum.splits prod.splits option.splits rvalue.splits if_splits)
qed

section \<open>Revoked tokens\<close>

text \<open>A refresh token is dead when it leads to no session or only to a revoked one.\<close>

definition token_dead :: "string \<Rightarrow> (string \<rightharpoonup> rentry) \<Rightarrow> bool" where
  "token_dead tok m \<longleftrightarrow> (\<forall>e sid e' s. m (refresh_key tok) = Some e \<longrightarrow> r_val e = RStr sid \<longrightarrow>
     m (session_key sid) = Some e' \<longrightarrow> r_val e' = RSession s \<longrightarrow> s_Revoked s)"

text \<open>
  What the authentication service needs of \<^verbatim>\<open>session.Repository\<close>: a lookup of a dead token gives only
  revoked sessions, storing the revoked form of a session found by a token makes the token dead,
  and lookups and further revocations keep it dead.
\<close>

locale session_repository =
  fixes get :: "string \<Rightarrow> (Session result) io"
    and update :: "Session \<Rightarrow> (unit result) io"
    and inv :: "world \<Rightarrow> bool"
    and dead :: "string \<Rightarrow> world \<Rightarrow> bool"
  assumes get_dead: "dead tok w \<Longrightarrow> run_state (get tok) w = (Inr s, w') \<Longrightarrow> s_Revoked s"
    and revoke: "inv w \<Longrightarrow> run_state (get tok) w = (Inr s, w1)
      \<Longrightarrow> run_state (update (s\<lparr>s_Revoked := True\<rparr>)) w1 = (Inr (), w2) \<Longrightarrow> dead tok w2"
    and get_keeps: "preserves (dead tok) (get tok')"
    and update_keeps: "s_Revoked s \<Longrightarrow> preserves (dead tok) (update s)"
begin

lemma revoked_sticks:
  assumes "inv w" "run_state (get tok) w = (Inr s, w1)"
    and "run_state (update (s\<lparr>s_Revoked := True\<rparr>)) w1 = (Inr (), w2)"
    and "run_state (get tok') w2 = (x, w3)" "run_state (get tok) w3 = (Inr s', w4)"
  shows "\<not> Session_IsValid now s'"
proof -
  have "dead tok w3" using preservesD[OF get_keeps revoke[OF assms(1-3)] assms(4)] .
  from get_dead[OF this assms(5)] show ?thesis by (simp add: Session_IsValid_def)
qed

end

lemma token_dead_put_session:
  assumes "token_dead tok m" "s_Revoked s \<or> (\<forall>e. m (refresh_key tok) = Some e \<longrightarrow> r_val e \<noteq> RStr sid)"
  shows "token_dead tok (redis_put now (session_key sid) (RSession s) ttl m)"
  unfolding token_dead_def
proof (intro allI impI)
  fix e sid' e' s'
  let ?m = "redis_put now (session_key sid) (RSession s) ttl m"
  assume e: "?m (refresh_key tok) = Some e" "r_val e = RStr sid'" "?m (session_key sid') = Some e'" "r_val e' = RSession s'"
  show "s_Revoked s'"
  proof (cases "sid' = sid")
    case True
    then have "s' = s" using e(3,4) by simp
    then show ?thesis using e(1,2) assms(2) True by auto
  next
    case False
    then show ?thesis using e assms(1) unfolding token_dead_def by simp
  qed
qed

lemma token_dead_put_refresh:
  "token_dead tok m \<Longrightarrow> tok' \<noteq> tok \<Longrightarrow> token_dead tok (redis_put now (refresh_key tok') v ttl m)"
  by (simp add: token_dead_def)

lemma token_dead_put_other:
  "token_dead tok m \<Longrightarrow> k \<noteq> refresh_key tok \<Longrightarrow> \<forall>sid. k \<noteq> session_key sid \<Longrightarrow> token_dead tok (redis_put now k v ttl m)"
  by (simp add: token_dead_def) (metis redis_put_simps(1))

interpretation redis_sessions: session_repository
    "SessionStore_GetByRefreshToken E" "SessionStore_Update E" "\<lambda>w. sessions_ok (redis w)"
    "\<lambda>tok w. token_dead tok (redis w)" for E
proof
  fix tok w s w'
  assume "token_dead tok (redis w)" "run_state (SessionStore_GetByRefreshToken E tok) w = (Inr s, w')"
  then show "s_Revoked s" by (auto simp: token_dead_def elim!: GetByRefreshToken_Inr)
next
  fix w tok s w1 w2
  assume ok: "sessions_ok (redis w)" and g: "run_state (SessionStore_GetByRefreshToken E tok) w = (Inr s, w1)"
    and u: "run_state (SessionStore_Update E (s\<lparr>s_Revoked := True\<rparr>)) w1 = (Inr (), w2)"
  from g obtain sid e e' where m: "redis w (refresh_key tok) = Some e" "r_val e = RStr sid"
    "redis w (session_key sid) = Some e'" "r_val e' = RSession s" "redis w1 = redis w"
    by (rule GetByRefreshToken_Inr)
  have "s_ID s = sid" using sessions_okD[OF ok m(3,4)] .
  with u m obtain now ttl where
    "redis w2 = redis_put now (session_key sid) (RSession (s\<lparr>s_Revoked := True\<rparr>)) ttl (redis w)"
    by (auto simp: SessionStore_Update_def io_run split: sum.splits prod.splits)
  then show "token_dead tok (redis w2)"
    using m(1,2) by (simp add: token_dead_def)
next
  fix tok tok'
  show "preserves (\<lambda>w. token_dead tok (redis w)) (SessionStore_GetByRefreshToken E tok')"
    by (intro io_pres io_keep)
next
  fix s :: Session and tok assume "s_Revoked s"
  then show "preserves (\<lambda>w. token_dead tok (redis w)) (SessionStore_Update E s)"
    unfolding SessionStore_Update_def redis_Set_def
    by (intro io_pres io_keep) (simp add: token_dead_put_session)
qed

end
