(* ===== verification/Company_User_Repo.thy ===== *)
theory Company_User_Repo
  imports Policy_Repo "HOL-Library.List_Lexorder" "HOL-Library.Char_ord" "HOL-Library.Product_Lexorder"
begin

text \<open>
  Company memberships: the PostgreSQL repository (\<^verbatim>\<open>postgres/company_user_repo.go\<close>) and the Redis
  decorator in front of it (\<^verbatim>\<open>redis/cached_company_user_repository.go\<close>). Both implement
  \<^verbatim>\<open>company.CompanyUserRepository\<close>; the locale \<open>role_lookup\<close> is the contract of \<^verbatim>\<open>GetUserRole\<close> that
  the services and the middleware rely on.
\<close>

section \<open>PostgreSQL repository\<close>

definition cu_key :: "CompanyUser \<Rightarrow> string \<times> string" where
  "cu_key cu = (cu_CompanyID cu, cu_UserID cu)"

text \<open>The UUID-typed arguments of the insertion; an empty inviter is sent as \<^verbatim>\<open>NULL\<close>.\<close>

definition optional_uuid :: "string \<Rightarrow> string list" where
  "optional_uuid s = (if s = [] then [] else [s])"

definition insert_company_user :: "CompanyUser \<Rightarrow> time \<Rightarrow> tables \<Rightarrow> (tables \<times> nat) result" where
  "insert_company_user cu t db =
     (if \<not> CompanyRole_IsValid (cu_Role cu) then violation ''check constraint: valid_company_user_role''
      else if \<not> MembershipStatus_IsValid (cu_Status cu) then violation ''check constraint: valid_company_user_status''
      else if cu_key cu \<in> cu_key ` set (company_users db) then violation ''duplicate key: company_users_pkey''
      else if cu_CompanyID cu \<notin> c_ID ` set (companies db) then violation ''foreign key violation: company_id''
      else if cu_UserID cu \<notin> ur_id ` set (users db) then violation ''foreign key violation: user_id''
      else if cu_InvitedBy cu \<noteq> [] \<and> cu_InvitedBy cu \<notin> ur_id ` set (users db)
        then violation ''foreign key violation: invited_by''
      else Inr (db\<lparr>company_users := company_users db @ [cu]\<rparr>, 1))"

definition CompanyUserRepository_AddUser :: "environ \<Rightarrow> reqctx \<Rightarrow> CompanyUser \<Rightarrow> (unit result) io" where
  "CompanyUserRepository_AddUser E ctx cu =
     tryE (pg_exec E ctx ([cu_CompanyID cu, cu_UserID cu] @ optional_uuid (cu_InvitedBy cu)) (insert_company_user cu))
       (wrap ''failed to add user to company: '') (\<lambda>_. ret (Inr ()))"

definition not_member_if_zero :: "nat \<Rightarrow> unit result" where
  "not_member_if_zero n = (if n = 0 then Inl (Sentinel ErrUserNotMember) else Inr ())"

definition CompanyUserRepository_RemoveUser ::
    "environ \<Rightarrow> reqctx \<Rightarrow> string \<Rightarrow> string \<Rightarrow> (unit result) io" where
  "CompanyUserRepository_RemoveUser E ctx companyID userID =
     tryE (pg_exec E ctx [companyID, userID] (\<lambda>t db.
        Inr (db\<lparr>company_users := filter (\<lambda>cu. cu_key cu \<noteq> (companyID, userID)) (company_users db)\<rparr>,
             length (filter (\<lambda>cu. cu_key cu = (companyID, userID)) (company_users db)))))
       (wrap ''failed to remove user from company: '') (\<lambda>n. ret (not_member_if_zero n))"

definition active_role :: "string \<Rightarrow> string \<Rightarrow> tables \<Rightarrow> string option" where
  "active_role companyID userID db = map_option cu_Role
     (find (\<lambda>cu. cu_key cu = (companyID, userID) \<and> cu_Status cu = MembershipActive) (company_users db))"

definition CompanyUserRepository_GetUserRole ::
    "environ \<Rightarrow> reqctx \<Rightarrow> string \<Rightarrow> string \<Rightarrow> (CompanyRole result) io" where
  "CompanyUserRepository_GetUserRole E ctx companyID userID =
     tryE (pg_query E ctx [companyID, userID] (active_role companyID userID))
       (wrap ''failed to get user role: '')
       (\<lambda>row. ret (case row of None \<Rightarrow> Inl (Sentinel ErrUserNotMember) | Some role \<Rightarrow> Inr role))"

definition memberships_of :: "string \<Rightarrow> tables \<Rightarrow> CompanyUser list" where
  "memberships_of userID db =
     sort_key (\<lambda>cu. - cu_JoinedAt cu) (filter (\<lambda>cu. cu_UserID cu = userID) (company_users db))"

definition CompanyUserRepository_GetCompaniesForUser ::
    "environ \<Rightarrow> reqctx \<Rightarrow> string \<Rightarrow> (CompanyUser list result) io" where
  "CompanyUserRepository_GetCompaniesForUser E ctx userID =
     tryE (pg_query E ctx [userID] (memberships_of userID))
       (wrap ''failed to query company users: '') (\<lambda>rows. ret (Inr rows))"

definition CompanyUserRepository_GetUsersForCompany ::
    "environ \<Rightarrow> reqctx \<Rightarrow> string \<Rightarrow> (CompanyUser list result) io" where
  "CompanyUserRepository_GetUsersForCompany E ctx companyID =
     tryE (pg_query E ctx [companyID] (\<lambda>db. sort_key (\<lambda>cu. (cu_Role cu, cu_JoinedAt cu))
        (filter (\<lambda>cu. cu_CompanyID cu = companyID) (company_users db))))
       (wrap ''failed to query company users: '') (\<lambda>rows. ret (Inr rows))"

definition change_member :: "(CompanyUser \<Rightarrow> CompanyUser) \<Rightarrow> string \<Rightarrow> string \<Rightarrow> tables \<Rightarrow> tables \<times> nat" where
  "change_member f companyID userID db =
     (db\<lparr>company_users := map (\<lambda>cu. if cu_key cu = (companyID, userID) then f cu else cu) (company_users db)\<rparr>,
      length (filter (\<lambda>cu. cu_key cu = (companyID, userID)) (company_users db)))"

definition CompanyUserRepository_UpdateUserRole ::
    "environ \<Rightarrow> reqctx \<Rightarrow> string \<Rightarrow> string \<Rightarrow> CompanyRole \<Rightarrow> (unit result) io" where
  "CompanyUserRepository_UpdateUserRole E ctx companyID userID role =
     tryE (pg_exec E ctx [companyID, userID] (\<lambda>t db.
        if snd (change_member id companyID userID db) \<noteq> 0 \<and> \<not> CompanyRole_IsValid role
        then violation ''check constraint: valid_company_user_role''
        else Inr (change_member (\<lambda>cu. cu\<lparr>cu_Role := role\<rparr>) companyID userID db)))
       (wrap ''failed to update user role: '') (\<lambda>n. ret (not_member_if_zero n))"

definition CompanyUserRepository_UpdateUserStatus ::
    "environ \<Rightarrow> reqctx \<Rightarrow> string \<Rightarrow> string \<Rightarrow> MembershipStatus \<Rightarrow> (unit result) io" where
  "CompanyUserRepository_UpdateUserStatus E ctx companyID userID status =
     tryE (pg_exec E ctx [companyID, userID] (\<lambda>t db.
        if snd (change_member id companyID userID db) \<noteq> 0 \<and> \<not> MembershipStatus_IsValid status
        then violation ''check constraint: valid_company_user_status''
        else Inr (change_member (\<lambda>cu. cu\<lparr>cu_Status := status\<rparr>) companyID userID db)))
       (wrap ''failed to update user status: '') (\<lambda>n. ret (not_member_if_zero n))"

section \<open>Redis decorator\<close>

definition role_key :: "string \<Rightarrow> string \<Rightarrow> string" where
  "role_key companyID userID = ''company:user_role:'' @ companyID @ '':'' @ userID"

definition companies_key :: "string \<Rightarrow> string" where
  "companies_key userID = ''company:user_companies:'' @ userID"

definition role_ttl :: duration where
  "role_ttl = 5 * minute"

definition invalidateUserCache :: "environ \<Rightarrow> string \<Rightarrow> unit io" where
  "invalidateUserCache E userID = do { _ \<leftarrow> redis_Del E (companies_key userID); ret () }"

definition invalidateRoleCache :: "environ \<Rightarrow> string \<Rightarrow> string \<Rightarrow> unit io" where
  "invalidateRoleCache E companyID userID = do { _ \<leftarrow> redis_Del E (role_key companyID userID); ret () }"

definition Cached_AddUser :: "environ \<Rightarrow> reqctx \<Rightarrow> CompanyUser \<Rightarrow> (unit result) io" where
  "Cached_AddUser E ctx cu = tryE (CompanyUserRepository_AddUser E ctx cu) (\<lambda>e. e) (\<lambda>_. do {
     invalidateUserCache E (cu_UserID cu);
     ret (Inr ()) })"

definition Cached_RemoveUser :: "environ \<Rightarrow> reqctx \<Rightarrow> string \<Rightarrow> string \<Rightarrow> (unit result) io" where
  "Cached_RemoveUser E ctx companyID userID =
     tryE (CompanyUserRepository_RemoveUser E ctx companyID userID) (\<lambda>e. e) (\<lambda>_. do {
       invalidateUserCache E userID;
       invalidateRoleCache E companyID userID;
       ret (Inr ()) })"

text \<open>The part of \<^verbatim>\<open>GetUserRole\<close> after a cache miss.\<close>

definition cached_role_miss :: "environ \<Rightarrow> reqctx \<Rightarrow> string \<Rightarrow> string \<Rightarrow> (CompanyRole result) io" where
  "cached_role_miss E ctx companyID userID = do {
     r \<leftarrow> CompanyUserRepository_GetUserRole E ctx companyID userID;
     case r of
       Inl e \<Rightarrow> do {
         _ \<leftarrow> (if e = Sentinel ErrUserNotMember
              then redis_Set E (role_key companyID userID) (RStr ''NOT_FOUND'') minute else ret (Inr ()));
         ret (Inl e) }
     | Inr role \<Rightarrow> do {
         _ \<leftarrow> redis_Set E (role_key companyID userID) (RStr role) role_ttl;
         ret (Inr role) } }"

definition Cached_GetUserRole :: "environ \<Rightarrow> reqctx \<Rightarrow> string \<Rightarrow> string \<Rightarrow> (CompanyRole result) io" where
  "Cached_GetUserRole E ctx companyID userID = do {
     hit \<leftarrow> redis_GetString E (role_key companyID userID);
     case hit of
       Inr (Some val) \<Rightarrow> ret (if val = ''NOT_FOUND'' then Inl (Sentinel ErrUserNotMember) else Inr val)
     | Inr None \<Rightarrow> cached_role_miss E ctx companyID userID
     | Inl e \<Rightarrow> cached_role_miss E ctx companyID userID }"

definition Cached_GetCompaniesForUser :: "environ \<Rightarrow> reqctx \<Rightarrow> string \<Rightarrow> (CompanyUser list result) io" where
  "Cached_GetCompaniesForUser E ctx userID = do {
     let key = companies_key userID;
     val \<leftarrow> redis_Get E key;
     let miss = tryE (CompanyUserRepository_GetCompaniesForUser E ctx userID) (\<lambda>e. e) (\<lambda>companies. do {
       _ \<leftarrow> redis_Set E key (RMemberships companies) role_ttl;
       ret (Inr companies) });
     case val of Inr (Some (RMemberships cached)) \<Rightarrow> ret (Inr cached) | _ \<Rightarrow> miss }"

definition Cached_GetUsersForCompany :: "environ \<Rightarrow> reqctx \<Rightarrow> string \<Rightarrow> (CompanyUser list result) io" where
  "Cached_GetUsersForCompany E ctx companyID = CompanyUserRepository_GetUsersForCompany E ctx companyID"

definition Cached_UpdateUserRole ::
    "environ \<Rightarrow> reqctx \<Rightarrow> string \<Rightarrow> string \<Rightarrow> CompanyRole \<Rightarrow> (unit result) io" where
  "Cached_UpdateUserRole E ctx companyID userID role =
     tryE (CompanyUserRepository_UpdateUserRole E ctx companyID userID role) (\<lambda>e. e) (\<lambda>_. do {
       invalidateUserCache E userID;
       invalidateRoleCache E companyID userID;
       ret (Inr ()) })"

definition Cached_UpdateUserStatus ::
    "environ \<Rightarrow> reqctx \<Rightarrow> string \<Rightarrow> string \<Rightarrow> MembershipStatus \<Rightarrow> (unit result) io" where
  "Cached_UpdateUserStatus E ctx companyID userID status =
     tryE (CompanyUserRepository_UpdateUserStatus E ctx companyID userID status) (\<lambda>e. e) (\<lambda>_. do {
       invalidateUserCache E userID;
       invalidateRoleCache E companyID userID;
       ret (Inr ()) })"

section \<open>Integrity of the membership table\<close>

definition memberships_ok :: "tables \<Rightarrow> bool" where
  "memberships_ok db \<longleftrightarrow> distinct (map cu_key (company_users db))
     \<and> (\<forall>cu \<in> set (company_users db). CompanyRole_IsValid (cu_Role cu) \<and> MembershipStatus_IsValid (cu_Status cu)
          \<and> cu_CompanyID cu \<in> c_ID ` set (companies db) \<and> cu_UserID cu \<in> ur_id ` set (users db))"

lemma insert_company_user_ok:
  "memberships_ok db \<Longrightarrow> insert_company_user cu t db = Inr (db', n) \<Longrightarrow> memberships_ok db'"
  by (auto simp: insert_company_user_def memberships_ok_def split: if_splits)

lemma remove_company_user_ok:
  "memberships_ok db \<Longrightarrow> memberships_ok (db\<lparr>company_users := filter P (company_users db)\<rparr>)"
  by (auto simp: memberships_ok_def distinct_map_filter)

lemma change_member_ok:
  assumes "memberships_ok db" "\<And>cu. cu_key (f cu) = cu_key cu"
    and "\<And>cu. cu \<in> set (company_users db) \<Longrightarrow> cu_key cu = (c, u)
      \<Longrightarrow> CompanyRole_IsValid (cu_Role (f cu)) \<and> MembershipStatus_IsValid (cu_Status (f cu))"
  shows "memberships_ok (fst (change_member f c u db))"
proof -
  have "map cu_key (company_users (fst (change_member f c u db))) = map cu_key (company_users db)"
    using assms(2) by (simp add: change_member_def)
  moreover have "cu_CompanyID (f cu) = cu_CompanyID cu \<and> cu_UserID (f cu) = cu_UserID cu" for cu
    using assms(2)[of cu] by (simp add: cu_key_def)
  moreover have "\<forall>cu \<in> set (company_users (fst (change_member f c u db))). \<exists>cu0 \<in> set (company_users db).
      cu = (if cu_key cu0 = (c, u) then f cu0 else cu0)"
    by (auto simp: change_member_def)
  moreover have "companies (fst (change_member f c u db)) = companies db"
      "users (fst (change_member f c u db)) = users db"
    by (simp_all add: change_member_def)
  ultimately show ?thesis
    using assms(1,3) unfolding memberships_ok_def by (simp, metis)
qed

lemma change_member_zero:
  "snd (change_member f c u db) = 0 \<longleftrightarrow> (c, u) \<notin> cu_key ` set (company_users db)"
  by (simp add: change_member_def filter_empty_conv) (metis image_iff)

lemma update_role_memberships_ok:
  assumes "memberships_ok db" "snd (change_member id c u db) = 0 \<or> CompanyRole_IsValid role"
    and "change_member (\<lambda>cu. cu\<lparr>cu_Role := role\<rparr>) c u db = (db', n)"
  shows "memberships_ok db'"
  using change_member_ok[OF assms(1), of "\<lambda>cu. cu\<lparr>cu_Role := role\<rparr>" c u] assms
  unfolding change_member_zero by (auto simp: cu_key_def memberships_ok_def image_iff)

lemma update_status_memberships_ok:
  assumes "memberships_ok db" "snd (change_member id c u db) = 0 \<or> MembershipStatus_IsValid status"
    and "change_member (\<lambda>cu. cu\<lparr>cu_Status := status\<rparr>) c u db = (db', n)"
  shows "memberships_ok db'"
  using change_member_ok[OF assms(1), of "\<lambda>cu. cu\<lparr>cu_Status := status\<rparr>" c u] assms
  unfolding change_member_zero by (auto simp: cu_key_def memberships_ok_def image_iff)

lemma CompanyUserRepository_preserves [io_pres]:
  "preserves (\<lambda>w. memberships_ok (pg w)) (CompanyUserRepository_AddUser E ctx cu)"
  "preserves (\<lambda>w. memberships_ok (pg w)) (CompanyUserRepository_RemoveUser E ctx c u)"
  "preserves (\<lambda>w. memberships_ok (pg w)) (CompanyUserRepository_UpdateUserRole E ctx c u role)"
  "preserves (\<lambda>w. memberships_ok (pg w)) (CompanyUserRepository_UpdateUserStatus E ctx c u status)"
  unfolding CompanyUserRepository_AddUser_def CompanyUserRepository_RemoveUser_def
    CompanyUserRepository_UpdateUserRole_def CompanyUserRepository_UpdateUserStatus_def
  by (intro io_pres io_keep; fastforce intro: insert_company_user_ok remove_company_user_ok
      update_role_memberships_ok update_status_memberships_ok split: if_splits)+

lemma keeps_invalidate [io_keep]:
  "keeps pg (invalidateUserCache E u)" "keeps pg (invalidateRoleCache E c u)"
  "keeps spawned (invalidateUserCache E u)" "keeps spawned (invalidateRoleCache E c u)"
  unfolding invalidateUserCache_def invalidateRoleCache_def by (intro io_keep)+

lemma Cached_preserves [io_pres]:
  "preserves (\<lambda>w. memberships_ok (pg w)) (Cached_AddUser E ctx cu)"
  "preserves (\<lambda>w. memberships_ok (pg w)) (Cached_RemoveUser E ctx c u)"
  "preserves (\<lambda>w. memberships_ok (pg w)) (Cached_UpdateUserRole E ctx c u role)"
  "preserves (\<lambda>w. memberships_ok (pg w)) (Cached_UpdateUserStatus E ctx c u status)"
  unfolding Cached_AddUser_def Cached_RemoveUser_def Cached_UpdateUserRole_def Cached_UpdateUserStatus_def
  by (intro io_pres io_keep)+

lemma keeps_membership_reads [io_keep]:
  "keeps pg (CompanyUserRepository_GetUserRole E ctx c u)"
  "keeps redis (CompanyUserRepository_GetUserRole E ctx c u)"
  "keeps spawned (CompanyUserRepository_GetUserRole E ctx c u)"
  "keeps pg (Cached_GetUserRole E ctx c u)" "keeps spawned (Cached_GetUserRole E ctx c u)"
  "keeps pg (CompanyUserRepository_GetCompaniesForUser E ctx u)"
  "keeps spawned (CompanyUserRepository_GetCompaniesForUser E ctx u)"
  unfolding CompanyUserRepository_GetUserRole_def Cached_GetUserRole_def cached_role_miss_def
    CompanyUserRepository_GetCompaniesForUser_def Let_def
  by (intro io_keep)+

lemma keeps_GetCompaniesForUser [io_keep]:
  "keeps pg (Cached_GetCompaniesForUser E ctx u)" "keeps spawned (Cached_GetCompaniesForUser E ctx u)"
  unfolding Cached_GetCompaniesForUser_def Let_def
  by (auto intro!: io_keep split: sum.splits option.splits rvalue.splits)

section \<open>The contract of GetUserRole\<close>

text \<open>Identifiers without a colon, as UUIDs are: for them the cache key determines the pair.\<close>

definition no_colon :: "string \<Rightarrow> bool" where
  "no_colon s \<longleftrightarrow> CHR '':'' \<notin> set s"

lemma role_key_inj:
  assumes "role_key c u = role_key c' u'" "no_colon c" "no_colon c'"
  shows "c = c' \<and> u = u'"
proof -
  have cut: "takeWhile (\<lambda>x. x \<noteq> CHR '':'') (a @ CHR '':'' # b) = a" if "no_colon a" for a b :: string
    using that by (induction a) (auto simp: no_colon_def)
  have eq: "c @ CHR '':'' # u = c' @ CHR '':'' # u'" using assms(1) by (simp add: role_key_def)
  then have "c = c'" using cut[OF assms(2), of u] cut[OF assms(3), of u'] by simp
  then show ?thesis using eq by simp
qed

lemma companies_key_neq_role_key [simp]: "companies_key u \<noteq> role_key c u'" "role_key c u' \<noteq> companies_key u"
  by (simp_all add: companies_key_def role_key_def)

locale role_lookup =
  fixes lookup :: "reqctx \<Rightarrow> string \<Rightarrow> string \<Rightarrow> (CompanyRole result) io"
    and inv :: "world \<Rightarrow> bool"
  assumes lookup_role: "inv w \<Longrightarrow> no_colon c \<Longrightarrow> run_state (lookup ctx c u) w = (Inr r, w')
      \<Longrightarrow> active_role c u (pg w) = Some r"
    and lookup_none: "inv w \<Longrightarrow> no_colon c
      \<Longrightarrow> run_state (lookup ctx c u) w = (Inl (Sentinel ErrUserNotMember), w') \<Longrightarrow> active_role c u (pg w) = None"
    and lookup_inv: "inv w \<Longrightarrow> no_colon c \<Longrightarrow> run_state (lookup ctx c u) w = (x, w') \<Longrightarrow> inv w'"
    and lookup_frame: "keeps pg (lookup ctx c u)"
begin

text \<open>Two lookups of the same membership, with any others between them, agree.\<close>

lemma lookup_consistent:
  assumes "inv w" "no_colon c" "no_colon c'" "run_state (lookup ctx c u) w = (x, w1)"
    and "run_state (lookup ctx' c' u') w1 = (Inr r, w2)"
  shows "active_role c' u' (pg w) = Some r"
  using lookup_role[OF lookup_inv[OF assms(1,2,4)] assms(3,5)] keepsD[OF lookup_frame assms(4)] by simp

end

interpretation pg_roles: role_lookup "CompanyUserRepository_GetUserRole E" "\<lambda>w. True" for E
proof
  fix w c ctx u r w'
  assume "run_state (CompanyUserRepository_GetUserRole E ctx c u) w = (Inr r, w')"
  then show "active_role c u (pg w) = Some r"
    by (auto simp: CompanyUserRepository_GetUserRole_def io_run split: sum.splits prod.splits option.splits)
next
  fix w c ctx u w'
  assume "run_state (CompanyUserRepository_GetUserRole E ctx c u) w = (Inl (Sentinel ErrUserNotMember), w')"
  then show "active_role c u (pg w) = None"
    by (auto simp: CompanyUserRepository_GetUserRole_def io_run split: sum.splits prod.splits option.splits)
qed (rule io_keep | simp)+

text \<open>Every cached role is the current one, and every cached absence is current.\<close>

definition cached_role_ok :: "tables \<Rightarrow> string \<Rightarrow> string \<Rightarrow> rvalue \<Rightarrow> bool" where
  "cached_role_ok db c u v \<longleftrightarrow> (\<forall>s. v = RStr s \<longrightarrow>
     active_role c u db = (if s = ''NOT_FOUND'' then None else Some s))"

definition role_cache_coherent :: "world \<Rightarrow> bool" where
  "role_cache_coherent w \<longleftrightarrow> memberships_ok (pg w) \<and> (\<forall>c u e. no_colon c \<longrightarrow>
     redis w (role_key c u) = Some e \<longrightarrow> cached_role_ok (pg w) c u (r_val e))"

lemma active_role_valid: "memberships_ok db \<Longrightarrow> active_role c u db = Some r \<Longrightarrow> CompanyRole_IsValid r"
  by (auto simp: active_role_def memberships_ok_def dest!: find_SomeD)

lemma role_cache_put:
  assumes "role_cache_coherent w" "no_colon c" "cached_role_ok (pg w) c u v"
    and "redis w' = redis_put now (role_key c u) v ttl (redis w)" "pg w' = pg w"
  shows "role_cache_coherent w'"
  unfolding role_cache_coherent_def
proof (intro conjI allI impI)
  show "memberships_ok (pg w')" using assms(1,5) by (simp add: role_cache_coherent_def)
  fix c' u' e assume e: "no_colon c'" "redis w' (role_key c' u') = Some e"
  show "cached_role_ok (pg w') c' u' (r_val e)"
  proof (cases "role_key c' u' = role_key c u")
    case True
    then show ?thesis
      using role_key_inj[OF True e(1) assms(2)] e(2) assms(3-5) by (auto simp: redis_put_def)
  next
    case False
    then have "redis w (role_key c' u') = Some e" using e(2) assms(4) by (simp add: redis_put_def)
    then show ?thesis using assms(1,5) e(1) by (simp add: role_cache_coherent_def)
  qed
qed

lemma Cached_GetUserRole_cases:
  assumes "run_state (Cached_GetUserRole E ctx c u) w = (x, w')"
  obtains (hit) v where "redis_lookup (clock E (ticks w)) (redis w) (role_key c u) = Some (RStr v)" "redis w' = redis w"
      "x = (if v = ''NOT_FOUND'' then Inl (Sentinel ErrUserNotMember) else Inr v)"
  | (miss) w1 where "run_state (CompanyUserRepository_GetUserRole E ctx c u) (tick w) = (x, w1)"
      "redis w' = redis w \<or> (\<exists>now ttl v. redis w' = redis_put now (role_key c u) (RStr v) ttl (redis w)
         \<and> (x = Inl (Sentinel ErrUserNotMember) \<and> v = ''NOT_FOUND'' \<or> x = Inr v))"
proof -
  consider v where "redis_lookup (clock E (ticks w)) (redis w) (role_key c u) = Some (RStr v)"
      "x = (if v = ''NOT_FOUND'' then Inl (Sentinel ErrUserNotMember) else Inr v)" "w' = tick w"
    | "run_state (cached_role_miss E ctx c u) (tick w) = (x, w')"
    using assms
    by (auto simp: Cached_GetUserRole_def run_redis_GetString redis_gate_def
        split: sum.splits option.splits rvalue.splits)
  then show ?thesis
  proof cases
    case 1 then show ?thesis by (intro hit) simp_all
  next
    case 2
    obtain y w1 where y: "run_state (CompanyUserRepository_GetUserRole E ctx c u) (tick w) = (y, w1)" by fastforce
    then have "redis w1 = redis w" using keepsD[OF keeps_membership_reads(2) y] by simp
    then show ?thesis
      using 2 y by (intro miss[of w1])
        (auto simp: cached_role_miss_def run_redis_Set split: sum.splits if_splits; blast)+
  qed
qed

interpretation cached_roles: role_lookup "Cached_GetUserRole E" role_cache_coherent for E
proof
  fix w c ctx u r w'
  assume w: "role_cache_coherent w" "no_colon c" "run_state (Cached_GetUserRole E ctx c u) w = (Inr r, w')"
  from w(3) show "active_role c u (pg w) = Some r"
  proof (cases rule: Cached_GetUserRole_cases)
    case (hit v)
    then show ?thesis using w(1,2)
      by (auto simp: role_cache_coherent_def cached_role_ok_def redis_lookup_def split: option.splits if_splits)
  next
    case (miss w1)
    from pg_roles.lookup_role[OF _ w(2) miss(1)] show ?thesis by simp
  qed
next
  fix w c ctx u w'
  assume w: "role_cache_coherent w" "no_colon c"
    "run_state (Cached_GetUserRole E ctx c u) w = (Inl (Sentinel ErrUserNotMember), w')"
  from w(3) show "active_role c u (pg w) = None"
  proof (cases rule: Cached_GetUserRole_cases)
    case (hit v)
    then show ?thesis using w(1,2)
      by (auto simp: role_cache_coherent_def cached_role_ok_def redis_lookup_def split: option.splits if_splits)
  next
    case (miss w1)
    from pg_roles.lookup_none[OF _ w(2) miss(1)] show ?thesis by simp
  qed
next
  fix w c ctx u x w'
  assume w: "role_cache_coherent w" "no_colon c" "run_state (Cached_GetUserRole E ctx c u) w = (x, w')"
  have pg: "pg w' = pg w" using keepsD[OF keeps_membership_reads(4) w(3)] .
  have same: "role_cache_coherent w'" if "redis w' = redis w"
    using that w(1) pg by (simp add: role_cache_coherent_def)
  from w(3) show "role_cache_coherent w'"
  proof (cases rule: Cached_GetUserRole_cases)
    case hit then show ?thesis using same by simp
  next
    case (miss w1)
    then consider "redis w' = redis w"
      | now ttl v where "redis w' = redis_put now (role_key c u) (RStr v) ttl (redis w)"
          "x = Inl (Sentinel ErrUserNotMember) \<and> v = ''NOT_FOUND'' \<or> x = Inr v" by blast
    then show ?thesis
    proof cases
      case 1 then show ?thesis using same by simp
    next
      case 2
      have "cached_role_ok (pg w) c u (RStr v)"
        using 2(2) miss(1) pg_roles.lookup_role[OF _ w(2), of E ctx u "tick w"]
          pg_roles.lookup_none[OF _ w(2), of E ctx u "tick w"] w(1) active_role_valid
        unfolding cached_role_ok_def role_cache_coherent_def
        by (fastforce simp: CompanyRole_IsValid_def)
      then show ?thesis using role_cache_put[OF w(1,2) _ 2(1) pg] by blast
    qed
  qed
qed (rule io_keep)

section \<open>Revocation reaches the cache\<close>

lemma coherent_invalidate:
  assumes "role_cache_coherent w" "memberships_ok (pg w')"
    and "\<And>c' u'. (c', u') \<noteq> (c, u) \<Longrightarrow> active_role c' u' (pg w') = active_role c' u' (pg w)"
    and "redis w' (role_key c u) = None" "\<And>k. redis w' k = None \<or> redis w' k = redis w k"
  shows "role_cache_coherent w'"
  unfolding role_cache_coherent_def
proof (intro conjI allI impI)
  show "memberships_ok (pg w')" by fact
  fix c' u' e assume e: "no_colon c'" "redis w' (role_key c' u') = Some e"
  then have "(c', u') \<noteq> (c, u)" "redis w (role_key c' u') = Some e"
    using assms(4) assms(5)[of "role_key c' u'"] by auto
  then show "cached_role_ok (pg w') c' u' (r_val e)"
    using assms(1,3) e(1) by (simp add: role_cache_coherent_def cached_role_ok_def)
qed

lemma active_role_filter:
  "(c', u') \<noteq> (c, u) \<Longrightarrow>
    active_role c' u' (db\<lparr>company_users := filter (\<lambda>cu. cu_key cu \<noteq> (c, u)) (company_users db)\<rparr>) = active_role c' u' db"
proof -
  assume ne: "(c', u') \<noteq> (c, u)"
  have "find (\<lambda>cu. cu_key cu = (c', u') \<and> Q cu) (filter (\<lambda>cu. cu_key cu \<noteq> (c, u)) xs)
      = find (\<lambda>cu. cu_key cu = (c', u') \<and> Q cu) xs" for Q xs
    using ne by (induction xs) auto
  then show ?thesis by (simp add: active_role_def)
qed

lemma active_role_change:
  assumes "(c', u') \<noteq> (c, u)" "\<And>cu. cu_key (f cu) = cu_key cu"
  shows "active_role c' u' (fst (change_member f c u db)) = active_role c' u' db"
proof -
  have "find (\<lambda>cu. cu_key cu = (c', u') \<and> Q cu) (map (\<lambda>cu. if cu_key cu = (c, u) then f cu else cu) xs)
      = find (\<lambda>cu. cu_key cu = (c', u') \<and> Q cu) xs" for Q xs
    using assms by (induction xs) auto
  then show ?thesis by (simp add: active_role_def change_member_def)
qed

text \<open>The two invalidations at the end of the three operations that can revoke access.\<close>

lemma invalidate_both:
  assumes "\<And>n. redis_fault E n = None"
  shows "\<exists>w'. run_state (do { invalidateUserCache E u; invalidateRoleCache E c u; ret (Inr ()) }) w = (Inr (), w')
    \<and> pg w' = pg w \<and> redis w' (role_key c u) = None \<and> (\<forall>k. redis w' k = None \<or> redis w' k = redis w k)"
  using assms by (simp add: invalidateUserCache_def invalidateRoleCache_def run_redis_Del redis_gate_def)

lemmas revoke_defs = CompanyUserRepository_RemoveUser_def CompanyUserRepository_UpdateUserRole_def
  CompanyUserRepository_UpdateUserStatus_def not_member_if_zero_def

lemma no_match_filter: "length (filter P xs) = 0 \<Longrightarrow> filter (\<lambda>x. \<not> P x) xs = xs"
  by (simp add: filter_empty_conv filter_id_conv)

lemma no_match_change:
  "change_member f c u db = (db', 0) \<Longrightarrow> db' = db"
  by (auto simp: change_member_def filter_empty_conv intro!: tables.equality map_idI)

lemma member_stmt_effect:
  assumes "run_state (tryE (pg_exec E ctx ids f) g (\<lambda>n. ret (not_member_if_zero n))) w = (x, w1)"
  obtains "pg w1 = pg w" | t db n where "f t (pg w) = Inr (db, n)" "pg w1 = db" "isl x \<longleftrightarrow> n = 0"
  using assms
  by (auto simp: io_run not_member_if_zero_def split: sum.splits prod.splits if_splits)

text \<open>Each of the three statements leaves the memberships of the other pairs alone, and all when it fails.\<close>

definition only_pair :: "string \<Rightarrow> string \<Rightarrow> (unit result) io \<Rightarrow> bool" where
  "only_pair c u m \<longleftrightarrow> (\<forall>w x w1. run_state m w = (x, w1) \<longrightarrow> (isl x \<longrightarrow> pg w1 = pg w)
     \<and> (\<forall>c' u'. (c', u') \<noteq> (c, u) \<longrightarrow> active_role c' u' (pg w1) = active_role c' u' (pg w)))"

lemma only_pair_change:
  assumes "\<And>t db db' n. f t db = Inr (db', n) \<Longrightarrow> change_member h c u db = (db', n)"
    and "\<And>cu. cu_key (h cu) = cu_key cu"
  shows "only_pair c u (tryE (pg_exec E ctx ids f) g (\<lambda>n. ret (not_member_if_zero n)))"
  unfolding only_pair_def
proof (intro allI impI)
  fix w x w1 assume "run_state (tryE (pg_exec E ctx ids f) g (\<lambda>n. ret (not_member_if_zero n))) w = (x, w1)"
  then show "(isl x \<longrightarrow> pg w1 = pg w)
     \<and> (\<forall>c' u'. (c', u') \<noteq> (c, u) \<longrightarrow> active_role c' u' (pg w1) = active_role c' u' (pg w))"
  proof (cases rule: member_stmt_effect)
    case (2 t db n)
    from assms(1)[OF 2(1)] have ch: "change_member h c u (pg w) = (db, n)" .
    then have "fst (change_member h c u (pg w)) = pg w1" using 2(2) by simp
    then show ?thesis
      using active_role_change[OF _ assms(2), of _ _ c u "pg w"] 2 ch no_match_change by (metis (no_types))
  qed simp
qed

lemma revoke_only_pair:
  "only_pair c u (CompanyUserRepository_UpdateUserRole E ctx c u role)"
  "only_pair c u (CompanyUserRepository_UpdateUserStatus E ctx c u status)"
  unfolding CompanyUserRepository_UpdateUserRole_def CompanyUserRepository_UpdateUserStatus_def
  by (rule only_pair_change[where h = "\<lambda>cu. cu\<lparr>cu_Role := role\<rparr>"]
        only_pair_change[where h = "\<lambda>cu. cu\<lparr>cu_Status := status\<rparr>"];
      simp add: cu_key_def split: if_splits)+

lemma remove_only_pair: "only_pair c u (CompanyUserRepository_RemoveUser E ctx c u)"
  unfolding only_pair_def
proof (intro allI impI)
  fix w x w1 assume "run_state (CompanyUserRepository_RemoveUser E ctx c u) w = (x, w1)"
  then show "(isl x \<longrightarrow> pg w1 = pg w)
     \<and> (\<forall>c' u'. (c', u') \<noteq> (c, u) \<longrightarrow> active_role c' u' (pg w1) = active_role c' u' (pg w))"
    unfolding CompanyUserRepository_RemoveUser_def
  proof (cases rule: member_stmt_effect)
    case (2 t db n)
    then have db: "pg w1 = (pg w)\<lparr>company_users := filter (\<lambda>cu. cu_key cu \<noteq> (c, u)) (company_users (pg w))\<rparr>"
      and n: "n = length (filter (\<lambda>cu. cu_key cu = (c, u)) (company_users (pg w)))" by auto
    have "n = 0 \<Longrightarrow> pg w1 = pg w"
      using no_match_filter[of "\<lambda>cu. cu_key cu = (c, u)"] db n by simp
    then show ?thesis using 2(3) active_role_filter db by simp
  qed simp
qed

lemma revoke_coherent:
  assumes op: "run_state (tryE m (\<lambda>e. e) (\<lambda>_. do { invalidateUserCache E u; invalidateRoleCache E c u; ret (Inr ()) })) w
        = (r, w')"
    and m: "preserves (\<lambda>w. memberships_ok (pg w)) m" "keeps redis m"
    and eff: "only_pair c u m"
    and inv: "role_cache_coherent w" and up: "\<And>n. redis_fault E n = None"
  shows "role_cache_coherent w'"
proof -
  obtain x w1 where x: "run_state m w = (x, w1)" by fastforce
  have ok: "memberships_ok (pg w1)" and rd: "redis w1 = redis w"
    using preservesD[OF m(1) _ x] inv keepsD[OF m(2) x] by (auto simp: role_cache_coherent_def)
  note eff_x = eff[unfolded only_pair_def, rule_format, OF x]
  show ?thesis
  proof (cases x)
    case (Inl e)
    then have "w1 = w'" "pg w1 = pg w" using op x eff_x by (auto simp: run_tryE)
    then show ?thesis using rd inv by (simp add: role_cache_coherent_def)
  next
    case (Inr a)
    obtain w2 where w2: "run_state (do { invalidateUserCache E u; invalidateRoleCache E c u; ret (Inr ()) }) w1 = (Inr (), w2)"
      and eq: "pg w2 = pg w1" "redis w2 (role_key c u) = None" "\<forall>k. redis w2 k = None \<or> redis w2 k = redis w1 k"
      using invalidate_both[OF up] by blast
    have "w' = w2" using op x Inr w2 by (auto simp: run_tryE split: prod.splits)
    then show ?thesis
      using coherent_invalidate[OF inv, of w2 c u] eff_x ok eq rd by simp
  qed
qed

lemma keeps_redis_memberships [io_keep]:
  "keeps redis (CompanyUserRepository_RemoveUser E ctx c u)"
  "keeps redis (CompanyUserRepository_UpdateUserRole E ctx c u role)"
  "keeps redis (CompanyUserRepository_UpdateUserStatus E ctx c u status)"
  "keeps redis (CompanyUserRepository_AddUser E ctx cu)" "keeps spawned (CompanyUserRepository_AddUser E ctx cu)"
  unfolding revoke_defs CompanyUserRepository_AddUser_def by (intro io_keep)+


text \<open>
  C15: The cached role lookup is exact on a coherent cache: a returned role is the role of an active
  membership in the table, \<^verbatim>\<open>ErrUserNotMember\<close> means there is none, and the lookup leaves the
  cache coherent and the tables unchanged.
\<close>

theorem cached_role_exact:
  assumes "role_cache_coherent w" "no_colon c" "run_state (Cached_GetUserRole E ctx c u) w = (x, w')"
  shows "(\<forall>role. x = Inr role \<longrightarrow> active_role c u (pg w) = Some role \<and> CompanyRole_IsValid role)
    \<and> (x = Inl (Sentinel ErrUserNotMember) \<longrightarrow> active_role c u (pg w) = None)
    \<and> role_cache_coherent w' \<and> pg w' = pg w"
  using cached_roles.lookup_role[OF assms(1,2)] cached_roles.lookup_none[OF assms(1,2)] assms(3)
    cached_roles.lookup_inv[OF assms] keepsD[OF cached_roles.lookup_frame assms(3)] active_role_valid assms(1)
  unfolding role_cache_coherent_def by blast

definition member_world :: world where
  "member_world = demo_world\<lparr>pg := (pg demo_world)\<lparr>
     companies := [\<lparr>c_ID = ''c1'', c_TenantID = ''t1'', c_CNPJ = ''11222333000181'', c_RazaoSocial = ''Acme'',
        c_NomeFantasia = [], c_Endereco = emptyAddress, c_RepresentanteLegal = [], c_Status = StatusActive,
        c_CreatedAt = 1, c_UpdatedAt = 1\<rparr>],
     company_users := [\<lparr>cu_CompanyID = ''c1'', cu_UserID = ''u1'', cu_Role = RoleAdmin, cu_InvitedBy = [],
        cu_JoinedAt = 1, cu_Status = MembershipActive\<rparr>]\<rparr>\<rparr>"

lemma member_world_ok: "memberships_ok (pg member_world)" "redis member_world = Map.empty"
  by code_simp (simp add: member_world_def demo_world_def empty_world_def)

lemma member_world_coherent: "role_cache_coherent member_world"
  using member_world_ok by (simp add: role_cache_coherent_def)

theorem cached_role_exact_witness:
  "active_role ''c1'' ''u1'' (pg member_world) = Some RoleAdmin"
proof -
  have "fst (run_state (Cached_GetUserRole demo_env background ''c1'' ''u1'') member_world) = Inr RoleAdmin"
    by code_simp
  from cached_role_exact[OF member_world_coherent _ run_result[OF this]] show ?thesis
    by (simp add: no_colon_def)
qed


definition new_member :: CompanyUser where
  "new_member = \<lparr>cu_CompanyID = ''c1'', cu_UserID = ''u2'', cu_Role = RoleMember, cu_InvitedBy = ''u1'',
     cu_JoinedAt = 2, cu_Status = MembershipActive\<rparr>"

text \<open>
  Adding a member does not invalidate the cached absence of that member: a lookup before the
  insertion stores the absence for a minute, and the lookup right after a successful
  \<^verbatim>\<open>AddUser\<close> still answers \<^verbatim>\<open>ErrUserNotMember\<close>, although the table has the active membership.
  \<^verbatim>\<open>AddUserToCompany\<close> makes exactly this sequence of calls.
\<close>

theorem AddUser_leaves_stale_absence:
  "(case run_state (do {
      a \<leftarrow> Cached_GetUserRole demo_env background ''c1'' ''u2'';
      b \<leftarrow> Cached_AddUser demo_env background new_member;
      c \<leftarrow> Cached_GetUserRole demo_env background ''c1'' ''u2'';
      ret (a, b, c) }) member_world of
    (res, w') \<Rightarrow> res = (Inl (Sentinel ErrUserNotMember), Inr (), Inl (Sentinel ErrUserNotMember))
      \<and> active_role ''c1'' ''u2'' (pg w') = Some RoleMember)"
  by code_simp

end
