(* ===== verification/Tenant_Role.thy ===== *)
theory Tenant_Role
  imports Policy_Repo "HOL-Library.List_Lexorder" "HOL-Library.Char_ord"
begin

text \<open>
  Tenants and roles: \<^verbatim>\<open>postgres/tenant_repo.go\<close>, \<^verbatim>\<open>postgres/role_repo.go\<close> and the services over them
  (\<^verbatim>\<open>service/tenant_service.go\<close>, \<^verbatim>\<open>service/policy_service.go\<close>). The unique index on the name of a
  role within its tenant and the foreign keys are those of migration 1; names are
  ordered bytewise.
\<close>

section \<open>Tenant repository\<close>

definition insert_tenant :: "Tenant \<Rightarrow> time \<Rightarrow> tables \<Rightarrow> (tables \<times> nat) result" where
  "insert_tenant x t db =
     (if t_ID x \<in> t_ID ` set (tenants db) then violation ''duplicate key: tenants_pkey''
      else Inr (db\<lparr>tenants := tenants db @ [x]\<rparr>, 1))"

definition TenantRepository_Create :: "environ \<Rightarrow> reqctx \<Rightarrow> Tenant \<Rightarrow> (unit result) io" where
  "TenantRepository_Create E ctx x =
     tryE (pg_exec E ctx [t_ID x] (insert_tenant x)) (\<lambda>e. e) (\<lambda>_. ret (Inr ()))"

definition scanTenant :: "Tenant option \<Rightarrow> Tenant result" where
  "scanTenant row = (case row of None \<Rightarrow> Inl (Sentinel postgres_ErrNotFound) | Some x \<Rightarrow> Inr x)"

definition TenantRepository_GetByID :: "environ \<Rightarrow> reqctx \<Rightarrow> string \<Rightarrow> (Tenant result) io" where
  "TenantRepository_GetByID E ctx tid =
     tryE (pg_query E ctx [tid] (\<lambda>db. find (\<lambda>x. t_ID x = tid) (tenants db))) (\<lambda>e. e)
       (\<lambda>row. ret (scanTenant row))"

definition update_tenant :: "Tenant \<Rightarrow> time \<Rightarrow> tables \<Rightarrow> (tables \<times> nat) result" where
  "update_tenant x t db = Inr (db\<lparr>tenants := map (\<lambda>y. if t_ID y = t_ID x
       then y\<lparr>t_Name := t_Name x, t_Status := t_Status x, t_UpdatedAt := t_UpdatedAt x\<rparr> else y) (tenants db)\<rparr>,
     length (filter (\<lambda>y. t_ID y = t_ID x) (tenants db)))"

definition TenantRepository_Update :: "environ \<Rightarrow> reqctx \<Rightarrow> Tenant \<Rightarrow> (unit result) io" where
  "TenantRepository_Update E ctx x =
     tryE (pg_exec E ctx [t_ID x] (update_tenant x)) (\<lambda>e. e)
       (\<lambda>n. ret (if n = 0 then Inl (Sentinel postgres_ErrNotFound) else Inr ()))"

text \<open>
  The setting is local to the transaction; for a statement sent to the pool it is gone when the
  statement ends.
\<close>

definition TenantRepository_SetCurrentTenant :: "environ \<Rightarrow> reqctx \<Rightarrow> string \<Rightarrow> (unit result) io" where
  "TenantRepository_SetCurrentTenant E ctx tenantID =
     tryE (pg_exec E ctx [] (\<lambda>t db.
        Inr (if ctx_tx ctx then db\<lparr>current_tenant := Some tenantID\<rparr> else db, 1)))
       (\<lambda>e. e) (\<lambda>_. ret (Inr ()))"

definition TenantRepository_List :: "environ \<Rightarrow> reqctx \<Rightarrow> (Tenant list result) io" where
  "TenantRepository_List E ctx =
     tryE (pg_query E ctx [] (\<lambda>db. sort_key (\<lambda>x. - t_CreatedAt x) (tenants db))) (\<lambda>e. e)
       (\<lambda>rows. ret (Inr rows))"

section \<open>Role repository\<close>

definition insert_role :: "PolicyRole \<Rightarrow> time \<Rightarrow> tables \<Rightarrow> (tables \<times> nat) result" where
  "insert_role x t db =
     (if pr_ID x \<in> pr_ID ` set (policy_roles db) then violation ''duplicate key: roles_pkey''
      else if (pr_TenantID x, pr_Name x) \<in> (\<lambda>y. (pr_TenantID y, pr_Name y)) ` set (policy_roles db)
        then violation ''duplicate key: idx_roles_tenant_name''
      else if pr_TenantID x \<notin> t_ID ` set (tenants db)
        then violation ''foreign key violation: roles_tenant_id_fkey''
      else Inr (db\<lparr>policy_roles := policy_roles db @ [x]\<rparr>, 1))"

definition RoleRepository_Create :: "environ \<Rightarrow> reqctx \<Rightarrow> PolicyRole \<Rightarrow> (unit result) io" where
  "RoleRepository_Create E ctx x =
     tryE (pg_exec E ctx [pr_ID x, pr_TenantID x] (insert_role x)) (\<lambda>e. e) (\<lambda>_. ret (Inr ()))"

definition scanRole :: "PolicyRole option \<Rightarrow> PolicyRole result" where
  "scanRole row = (case row of None \<Rightarrow> Inl (Sentinel ErrRoleNotFound) | Some x \<Rightarrow> Inr x)"

definition RoleRepository_GetByID :: "environ \<Rightarrow> reqctx \<Rightarrow> string \<Rightarrow> (PolicyRole result) io" where
  "RoleRepository_GetByID E ctx rid =
     tryE (pg_query E ctx [rid] (\<lambda>db. find (\<lambda>x. pr_ID x = rid) (policy_roles db))) (\<lambda>e. e)
       (\<lambda>row. ret (scanRole row))"

definition RoleRepository_List :: "environ \<Rightarrow> reqctx \<Rightarrow> string \<Rightarrow> (PolicyRole list result) io" where
  "RoleRepository_List E ctx tenantID =
     tryE (pg_query E ctx [tenantID]
        (\<lambda>db. sort_key pr_Name (filter (\<lambda>x. pr_TenantID x = tenantID) (policy_roles db))))
       (\<lambda>e. e) (\<lambda>rows. ret (Inr rows))"

definition update_role :: "PolicyRole \<Rightarrow> time \<Rightarrow> tables \<Rightarrow> (tables \<times> nat) result" where
  "update_role x t db = (case find (\<lambda>y. pr_ID y = pr_ID x) (policy_roles db) of
     None \<Rightarrow> Inr (db, 0)
   | Some y0 \<Rightarrow>
       if \<exists>y \<in> set (policy_roles db). pr_ID y \<noteq> pr_ID x \<and> pr_TenantID y = pr_TenantID y0 \<and> pr_Name y = pr_Name x
       then violation ''duplicate key: idx_roles_tenant_name''
       else Inr (db\<lparr>policy_roles := map (\<lambda>y. if pr_ID y = pr_ID x
              then y\<lparr>pr_Name := pr_Name x, pr_Description := pr_Description x,
                     pr_Permissions := pr_Permissions x, pr_UpdatedAt := pr_UpdatedAt x\<rparr> else y)
              (policy_roles db)\<rparr>, 1))"

definition RoleRepository_Update :: "environ \<Rightarrow> reqctx \<Rightarrow> PolicyRole \<Rightarrow> (unit result) io" where
  "RoleRepository_Update E ctx x =
     tryE (pg_exec E ctx [pr_ID x] (update_role x)) (\<lambda>e. e)
       (\<lambda>n. ret (if n = 0 then Inl (Sentinel ErrRoleNotFound) else Inr ()))"

definition delete_role :: "string \<Rightarrow> time \<Rightarrow> tables \<Rightarrow> (tables \<times> nat) result" where
  "delete_role rid t db = Inr (db\<lparr>policy_roles := filter (\<lambda>y. pr_ID y \<noteq> rid) (policy_roles db)\<rparr>,
     length (filter (\<lambda>y. pr_ID y = rid) (policy_roles db)))"

definition RoleRepository_Delete :: "environ \<Rightarrow> reqctx \<Rightarrow> string \<Rightarrow> (unit result) io" where
  "RoleRepository_Delete E ctx rid =
     tryE (pg_exec E ctx [rid] (delete_role rid)) (\<lambda>e. e)
       (\<lambda>n. ret (if n = 0 then Inl (Sentinel ErrRoleNotFound) else Inr ()))"

section \<open>Services\<close>

definition CreateRole ::
    "environ \<Rightarrow> reqctx \<Rightarrow> string \<Rightarrow> string \<Rightarrow> string \<Rightarrow> string list \<Rightarrow> (PolicyRole result) io" where
  "CreateRole E ctx name description tenantID permissions = do {
     rid \<leftarrow> uuid_New E;
     now1 \<leftarrow> time_Now E;
     now2 \<leftarrow> time_Now E;
     let role = \<lparr>pr_ID = rid, pr_Name = name, pr_Description = description, pr_Permissions = permissions,
       pr_TenantID = tenantID, pr_CreatedAt = now1, pr_UpdatedAt = now2\<rparr>;
     tryE (RoleRepository_Create E ctx role) (\<lambda>e. e) (\<lambda>_. ret (Inr role)) }"

definition GetRole :: "environ \<Rightarrow> reqctx \<Rightarrow> string \<Rightarrow> (PolicyRole result) io" where
  "GetRole E ctx rid = RoleRepository_GetByID E ctx rid"

definition ListRoles :: "environ \<Rightarrow> reqctx \<Rightarrow> string \<Rightarrow> (PolicyRole list result) io" where
  "ListRoles E ctx tenantID = RoleRepository_List E ctx tenantID"

definition UpdateRole ::
    "environ \<Rightarrow> reqctx \<Rightarrow> string \<Rightarrow> string \<Rightarrow> string \<Rightarrow> string list \<Rightarrow> (PolicyRole result) io" where
  "UpdateRole E ctx rid name description permissions =
     tryE (RoleRepository_GetByID E ctx rid) (\<lambda>e. e) (\<lambda>role. do {
       now \<leftarrow> time_Now E;
       let role' = role\<lparr>pr_Name := name, pr_Description := description, pr_Permissions := permissions,
         pr_UpdatedAt := now\<rparr>;
       tryE (RoleRepository_Update E ctx role') (\<lambda>e. e) (\<lambda>_. ret (Inr role')) })"

definition DeleteRole :: "environ \<Rightarrow> reqctx \<Rightarrow> string \<Rightarrow> (unit result) io" where
  "DeleteRole E ctx rid = RoleRepository_Delete E ctx rid"

definition CheckPermission :: "environ \<Rightarrow> reqctx \<Rightarrow> string \<Rightarrow> string \<Rightarrow> string \<Rightarrow> (bool result) io" where
  "CheckPermission E ctx subject relation object = CachedPolicyRepository_Check E ctx subject relation object"

definition CreateTenant :: "environ \<Rightarrow> reqctx \<Rightarrow> string \<Rightarrow> string \<Rightarrow> (Tenant result) io" where
  "CreateTenant E ctx name ownerID = do {
     tid \<leftarrow> uuid_New E;
     now1 \<leftarrow> time_Now E;
     now2 \<leftarrow> time_Now E;
     let x = \<lparr>t_ID = tid, t_Name = name, t_Status = TenantActive, t_CreatedAt = now1, t_UpdatedAt = now2\<rparr>;
     tryE (TenantRepository_Create E ctx x) (\<lambda>e. e) (\<lambda>_.
     tryE (CachedPolicyRepository_WriteTuple E ctx
             \<lparr>tp_TenantID = tid, tp_Subject = ''user:'' @ ownerID, tp_Relation = ''owner'',
              tp_Object = ''tenant:'' @ tid\<rparr>) (\<lambda>e. e) (\<lambda>_.
     ret (Inr x))) }"

definition ListTenants :: "environ \<Rightarrow> reqctx \<Rightarrow> (Tenant list result) io" where
  "ListTenants E ctx = TenantRepository_List E ctx"

definition SuspendTenant :: "environ \<Rightarrow> reqctx \<Rightarrow> string \<Rightarrow> (unit result) io" where
  "SuspendTenant E ctx tid =
     tryE (TenantRepository_GetByID E ctx tid) (\<lambda>e. e) (\<lambda>x. do {
       now \<leftarrow> time_Now E;
       TenantRepository_Update E ctx (x\<lparr>t_Status := TenantSuspended, t_UpdatedAt := now\<rparr>) })"

section \<open>Integrity of the tables\<close>

definition tenants_ok :: "tables \<Rightarrow> bool" where
  "tenants_ok db \<longleftrightarrow> distinct (map t_ID (tenants db))"

definition roles_ok :: "tables \<Rightarrow> bool" where
  "roles_ok db \<longleftrightarrow> distinct (map pr_ID (policy_roles db))
     \<and> distinct (map (\<lambda>r. (pr_TenantID r, pr_Name r)) (policy_roles db))
     \<and> (\<forall>r \<in> set (policy_roles db). pr_TenantID r \<in> t_ID ` set (tenants db))"

lemma insert_role_ok:
  "roles_ok db \<Longrightarrow> insert_role x t db = Inr (db', n) \<Longrightarrow> roles_ok db'"
  by (auto simp: insert_role_def roles_ok_def split: if_splits)

lemma delete_role_ok:
  "roles_ok db \<Longrightarrow> delete_role x t db = Inr (db', n) \<Longrightarrow> roles_ok db'"
  by (auto simp: delete_role_def roles_ok_def distinct_map_filter)

lemma update_role_ok:
  assumes ok: "roles_ok db" and upd: "update_role x t db = Inr (db', n)"
  shows "roles_ok db'"
proof (cases "find (\<lambda>y. pr_ID y = pr_ID x) (policy_roles db)")
  case None
  then show ?thesis using assms by (simp add: update_role_def)
next
  case (Some y0)
  let ?g = "\<lambda>y. if pr_ID y = pr_ID x
      then y\<lparr>pr_Name := pr_Name x, pr_Description := pr_Description x,
             pr_Permissions := pr_Permissions x, pr_UpdatedAt := pr_UpdatedAt x\<rparr> else y"
  have y0: "y0 \<in> set (policy_roles db)" "pr_ID y0 = pr_ID x" using find_SomeD[OF Some] by auto
  have db': "db' = db\<lparr>policy_roles := map ?g (policy_roles db)\<rparr>"
    and free: "\<And>y. y \<in> set (policy_roles db) \<Longrightarrow> pr_ID y \<noteq> pr_ID x \<Longrightarrow> pr_TenantID y = pr_TenantID y0
      \<Longrightarrow> pr_Name y \<noteq> pr_Name x"
    using upd Some by (auto simp: update_role_def split: if_splits)
  have ids: "distinct (map pr_ID (policy_roles db))" "distinct (policy_roles db)"
    using ok by (auto simp: roles_ok_def distinct_map)
  have same: "y = y0" if "y \<in> set (policy_roles db)" "pr_ID y = pr_ID x" for y
    using ids that y0 by (metis distinct_map inj_onD)
  have "inj_on ((\<lambda>r. (pr_TenantID r, pr_Name r)) \<circ> ?g) (set (policy_roles db))"
  proof (rule inj_onI)
    fix a b assume ab: "a \<in> set (policy_roles db)" "b \<in> set (policy_roles db)"
      and eq: "((\<lambda>r. (pr_TenantID r, pr_Name r)) \<circ> ?g) a = ((\<lambda>r. (pr_TenantID r, pr_Name r)) \<circ> ?g) b"
    have inj: "inj_on (\<lambda>r. (pr_TenantID r, pr_Name r)) (set (policy_roles db))"
      using ok by (simp add: roles_ok_def distinct_map)
    show "a = b"
      using eq ab same[of a] same[of b] free[of a] free[of b] inj_onD[OF inj, of a b]
      by (auto split: if_splits)
  qed
  then have "distinct (map (\<lambda>r. (pr_TenantID r, pr_Name r)) (policy_roles db'))"
    using ids(2) by (simp add: db' distinct_map)
  moreover have "map pr_ID (policy_roles db') = map pr_ID (policy_roles db)"
    by (simp add: db')
  moreover have "\<forall>r \<in> set (policy_roles db'). pr_TenantID r \<in> t_ID ` set (tenants db')"
    using ok by (auto simp: roles_ok_def db')
  ultimately show ?thesis using ok unfolding roles_ok_def by simp
qed

lemma keeps_role_reads [io_keep]:
  "keeps pg (RoleRepository_GetByID E ctx rid)" "keeps pg (RoleRepository_List E ctx tid)"
  unfolding RoleRepository_GetByID_def RoleRepository_List_def by (intro io_keep)+

text \<open>
  The role service keeps the role table sound: ids are unique, names are unique within a
  tenant and every role belongs to an existing tenant, whatever the arguments, the outcome and
  the failures of the database.
\<close>

theorem role_service_sound:
  "preserves (\<lambda>w. roles_ok (pg w)) (CreateRole E ctx name descr tenantID perms)
   \<and> preserves (\<lambda>w. roles_ok (pg w)) (UpdateRole E ctx rid name descr perms)
   \<and> preserves (\<lambda>w. roles_ok (pg w)) (DeleteRole E ctx rid)"
proof (intro conjI)
  show "preserves (\<lambda>w. roles_ok (pg w)) (CreateRole E ctx name descr tenantID perms)"
    unfolding CreateRole_def RoleRepository_Create_def Let_def
    by (intro io_pres io_keep; auto intro: insert_role_ok)
  show "preserves (\<lambda>w. roles_ok (pg w)) (UpdateRole E ctx rid name descr perms)"
    unfolding UpdateRole_def RoleRepository_Update_def Let_def
    by (intro io_pres io_keep; auto intro: update_role_ok)
  show "preserves (\<lambda>w. roles_ok (pg w)) (DeleteRole E ctx rid)"
    unfolding DeleteRole_def RoleRepository_Delete_def
    by (intro io_pres io_keep; auto intro: delete_role_ok)
qed

text \<open>A role that \<^verbatim>\<open>CreateRole\<close> returned is what \<^verbatim>\<open>GetRole\<close> then finds.\<close>

lemma CreateRole_GetRole:
  "run_state (CreateRole E ctx name descr tenantID perms) w = (Inr role, w')
   \<Longrightarrow> pg_gate E ctx [pr_ID role] w' = Inr now \<Longrightarrow> fst (run_state (GetRole E ctx (pr_ID role)) w') = Inr role"
  by (auto simp: CreateRole_def RoleRepository_Create_def GetRole_def RoleRepository_GetByID_def
      Let_def io_run insert_role_def scanRole_def find_append find_key_None
      split: sum.splits prod.splits if_splits option.splits)

text \<open>
  \<^verbatim>\<open>CreateTenant\<close> writes the tenant and its owner tuple in two separate statements: success gives
  both, so the owner passes the check; a failure of the second leaves the tenant without owner.
\<close>

lemma TenantRepository_Create_ok:
  "run_state (TenantRepository_Create E ctx x) w = (Inr (), w')
   \<Longrightarrow> t_ID x \<notin> t_ID ` set (tenants (pg w)) \<and> pg w' = (pg w)\<lparr>tenants := tenants (pg w) @ [x]\<rparr>"
  by (auto simp: TenantRepository_Create_def io_run insert_tenant_def split: sum.splits prod.splits if_splits)

lemma CreateTenant_owner:
  assumes "run_state (CreateTenant E ctx name ownerID) w = (Inr x, w')"
  shows "tenants (pg w') = tenants (pg w) @ [x] \<and> t_Status x = TenantActive
    \<and> policy_allowed (pg w') (''user:'' @ ownerID) ''owner'' (''tenant:'' @ t_ID x)"
proof -
  let ?t = "\<lparr>tp_TenantID = t_ID x, tp_Subject = ''user:'' @ ownerID, tp_Relation = ''owner'',
     tp_Object = ''tenant:'' @ t_ID x\<rparr>"
  from assms obtain w0 w1 where c: "run_state (TenantRepository_Create E ctx x) w0 = (Inr (), w1)"
    and w0: "pg w0 = pg w" and x: "t_Status x = TenantActive"
    and t: "run_state (PolicyRepository_WriteTuple E ctx ?t) w1 = (Inr (), w')"
    by (auto simp: CreateTenant_def CachedPolicyRepository_WriteTuple_def Let_def run_time_Now run_uuid_New
        run_tryE split: sum.splits prod.splits)
  from WriteTuple_ok[OF t] have "tenants (pg w') = tenants (pg w1)"
    by (metis (no_types, lifting) tables.select_convs(1) tables.surjective tables.update_convs(6))
  then show ?thesis
    using TenantRepository_Create_ok[OF c] x w0 WriteTuple_policy_allowed[OF t] by simp
qed

end
