(* ===== verification/Outbox.thy ===== *)
theory Outbox
  imports Tenant_Role
begin

text \<open>
  The transactional outbox (\<^verbatim>\<open>messaging/outbox\<close>): the publisher that writes an event in the
  caller's transaction, and the processor that hands unprocessed events to a message broker.
  The broker is a parameter of the processor.
\<close>

section \<open>Publisher\<close>

definition outbox_aggregate :: "Event \<Rightarrow> string \<times> string" where
  "outbox_aggregate evt =
     (if e_Type evt = ev_UserCreated \<or> e_Type evt = ev_UserSuspended then
        (''User'', case e_Payload evt of UserCreatedPayload u m t r \<Rightarrow> u | _ \<Rightarrow> e_ID evt)
      else if e_Type evt = ev_TenantProvisioned then
        (''Tenant'', case e_Payload evt of TenantProvisionedPayload t n \<Rightarrow> t | _ \<Rightarrow> e_ID evt)
      else (''unknown'', e_ID evt))"

definition outbox_row_of :: "string \<Rightarrow> time \<Rightarrow> Event \<Rightarrow> outbox_row" where
  "outbox_row_of oid t evt = \<lparr>ob_id = oid, ob_aggregate_type = fst (outbox_aggregate evt),
     ob_aggregate_id = snd (outbox_aggregate evt), ob_event_type = e_Type evt,
     ob_payload = event_json evt, ob_created_at = t, ob_processed_at = None\<rparr>"

text \<open>The row's id is the column's default \<^verbatim>\<open>gen_random_uuid()\<close>, its creation time \<^verbatim>\<open>NOW()\<close>.\<close>

definition Publisher_Publish :: "environ \<Rightarrow> reqctx \<Rightarrow> Event \<Rightarrow> (unit result) io" where
  "Publisher_Publish E ctx evt = do {
     oid \<leftarrow> uuid_New E;
     tryE (pg_exec E ctx [] (\<lambda>t db.
        Inr (db\<lparr>outbox_events := outbox_events db @ [outbox_row_of oid t evt]\<rparr>, 1)))
       (wrap ''failed to insert outbox event: '') (\<lambda>_. ret (Inr ())) }"

section \<open>Processor\<close>

definition fetch_unprocessed :: "nat \<Rightarrow> tables \<Rightarrow> outbox_row list" where
  "fetch_unprocessed limit db =
     take limit (sort_key ob_created_at (filter (\<lambda>r. ob_processed_at r = None) (outbox_events db)))"

definition mark_processed :: "string \<Rightarrow> time \<Rightarrow> tables \<Rightarrow> (tables \<times> nat) result" where
  "mark_processed oid t db = Inr (db\<lparr>outbox_events := map (\<lambda>r. if ob_id r = oid
       then r\<lparr>ob_processed_at := Some t\<rparr> else r) (outbox_events db)\<rparr>,
     length (filter (\<lambda>r. ob_id r = oid) (outbox_events db)))"

fun process_events ::
    "environ \<Rightarrow> reqctx \<Rightarrow> (outbox_row \<Rightarrow> (unit result) io) \<Rightarrow> outbox_row list \<Rightarrow> unit io" where
  "process_events E ctx publish [] = ret ()"
| "process_events E ctx publish (event # events) = do {
     r \<leftarrow> publish event;
     _ \<leftarrow> (case r of Inl e \<Rightarrow> ret (Inr 0)
          | Inr u \<Rightarrow> pg_exec E (pool ctx) [ob_id event] (mark_processed (ob_id event)));
     process_events E ctx publish events }"

definition processBatch ::
    "environ \<Rightarrow> reqctx \<Rightarrow> (outbox_row \<Rightarrow> (unit result) io) \<Rightarrow> nat \<Rightarrow> (unit result) io" where
  "processBatch E ctx publish batchSize =
     tryE (pg_query E (pool ctx) [] (fetch_unprocessed batchSize)) (\<lambda>e. e) (\<lambda>events. do {
       process_events E ctx publish events;
       ret (Inr ()) })"

text \<open>The batch size of \<^verbatim>\<open>NewProcessor\<close>, and the publisher that the worker is started with.\<close>

definition batchSize :: nat where
  "batchSize = 100"

definition LogPublisher_Publish :: "outbox_row \<Rightarrow> (unit result) io" where
  "LogPublisher_Publish event = ret (Inr ())"

section \<open>Repository\<close>

definition FetchUnprocessed :: "environ \<Rightarrow> reqctx \<Rightarrow> nat \<Rightarrow> (outbox_row list result) io" where
  "FetchUnprocessed E ctx limit =
     tryE (pg_query E (pool ctx) [] (fetch_unprocessed limit)) (wrap ''failed to query outbox: '')
       (\<lambda>rows. ret (Inr rows))"

definition MarkProcessed :: "environ \<Rightarrow> reqctx \<Rightarrow> string \<Rightarrow> (unit result) io" where
  "MarkProcessed E ctx oid =
     tryE (pg_exec E (pool ctx) [oid] (mark_processed oid)) (\<lambda>e. e) (\<lambda>_. ret (Inr ()))"

section \<open>Delivery\<close>

lemma keeps_Publish [io_keep]:
  "keeps redis (Publisher_Publish E ctx evt)" "keeps spawned (Publisher_Publish E ctx evt)"
  unfolding Publisher_Publish_def by (intro io_keep)+

text \<open>
  What processing may do to the table: rows keep their place and content, a row is marked only
  if its id is among \<open>ids\<close>, and a mark is never removed.
\<close>

definition only_marks :: "string set \<Rightarrow> outbox_row list \<Rightarrow> outbox_row list \<Rightarrow> bool" where
  "only_marks ids xs ys \<longleftrightarrow> length ys = length xs \<and> (\<forall>i < length xs.
     ys ! i = xs ! i \<or> ob_id (xs ! i) \<in> ids \<and> (\<exists>t. ys ! i = (xs ! i)\<lparr>ob_processed_at := Some t\<rparr>))"

lemma only_marks_refl: "only_marks ids xs xs"
  by (simp add: only_marks_def)

lemma only_marks_trans:
  assumes "only_marks A xs ys" "only_marks B ys zs" shows "only_marks (A \<union> B) xs zs"
  unfolding only_marks_def
proof (intro conjI allI impI)
  show "length zs = length xs" using assms by (simp add: only_marks_def)
  fix i assume "i < length xs"
  then show "zs ! i = xs ! i \<or> ob_id (xs ! i) \<in> A \<union> B \<and> (\<exists>t. zs ! i = (xs ! i)\<lparr>ob_processed_at := Some t\<rparr>)"
    using assms unfolding only_marks_def by (elim conjE allE[of _ i]) auto
qed

lemma only_marks_mono: "only_marks A xs ys \<Longrightarrow> A \<subseteq> B \<Longrightarrow> only_marks B xs ys"
  by (auto simp: only_marks_def)

lemma mark_processed_only:
  "mark_processed oid t db = Inr (db', n) \<Longrightarrow> only_marks {oid} (outbox_events db) (outbox_events db')"
  by (auto simp: mark_processed_def only_marks_def split: if_splits)

lemma process_events_marks:
  assumes "\<And>e. keeps (\<lambda>w. outbox_events (pg w)) (publish e)"
    and "\<And>e w. e \<in> set events \<Longrightarrow> \<not> ok e \<Longrightarrow> isl (fst (run_state (publish e) w))"
    and "run_state (process_events E ctx publish events) w = ((), w')"
  shows "only_marks (ob_id ` {e \<in> set events. ok e}) (outbox_events (pg w)) (outbox_events (pg w'))"
  using assms(2,3)
proof (induction events arbitrary: w)
  case Nil
  then show ?case by (simp add: only_marks_refl)
next
  case (Cons e es)
  obtain r w1 where r: "run_state (publish e) w = (r, w1)" by fastforce
  have w1: "outbox_events (pg w1) = outbox_events (pg w)" using keepsD[OF assms(1) r] .
  let ?m = "(case r of Inl e \<Rightarrow> ret (Inr 0)
          | Inr u \<Rightarrow> pg_exec E (pool ctx) [ob_id e] (mark_processed (ob_id e)))"
  obtain x w2 where m: "run_state ?m w1 = (x, w2)" by fastforce
  have mark: "only_marks (ob_id ` {e' \<in> {e}. ok e'}) (outbox_events (pg w1)) (outbox_events (pg w2))"
  proof (cases r)
    case (Inl err)
    then show ?thesis using m by (simp add: only_marks_refl)
  next
    case (Inr u)
    then have "ok e" using Cons.prems(1)[of e w] r by auto
    then have ids: "ob_id ` {e' \<in> {e}. ok e'} = {ob_id e}" by auto
    show ?thesis
      unfolding ids using m Inr
      by (auto simp: io_run only_marks_refl split: sum.splits prod.splits dest: mark_processed_only)
  qed
  have "run_state (process_events E ctx publish es) w2 = ((), w')"
    using Cons.prems(2) r m by simp
  then have "only_marks (ob_id ` {e' \<in> set es. ok e'}) (outbox_events (pg w2)) (outbox_events (pg w'))"
    using Cons.IH Cons.prems(1) by simp
  from only_marks_trans[OF mark this] show ?case
    unfolding w1 by (rule only_marks_mono) auto
qed

text \<open>
  C18: No event is lost by the outbox processor. Whatever the broker and the database do, a batch
  removes, reorders and alters no outbox row, and it marks a row as processed only if the row was
  fetched as unprocessed in this batch and the broker accepted it; an event that the broker
  refuses therefore stays for a later batch.
\<close>

theorem processBatch_at_least_once:
  assumes "\<And>e. keeps (\<lambda>w. outbox_events (pg w)) (publish e)"
    and "\<And>e w. \<not> accepts e \<Longrightarrow> isl (fst (run_state (publish e) w))"
    and "run_state (processBatch E ctx publish n) w = (r, w')"
  shows "only_marks (ob_id ` {e \<in> set (fetch_unprocessed n (pg w)). accepts e})
           (outbox_events (pg w)) (outbox_events (pg w'))"
proof -
  let ?events = "fetch_unprocessed n (pg w)"
  consider "pg w' = pg w" | "run_state (process_events E ctx publish ?events) (tick w) = ((), w')"
    using assms(3)
    by (auto simp: processBatch_def run_tryE run_pg_query split: sum.splits prod.splits)
  then show ?thesis
  proof cases
    case 1 then show ?thesis by (simp add: only_marks_refl)
  next
    case 2
    from process_events_marks[where ok = accepts, OF assms(1) assms(2) 2] show ?thesis by simp
  qed
qed

definition outbox_world :: world where
  "outbox_world = empty_world\<lparr>pg := empty_tables\<lparr>outbox_events :=
     map (\<lambda>(i, t). \<lparr>ob_id = i, ob_aggregate_type = ''User'', ob_aggregate_id = i, ob_event_type = ev_UserCreated,
       ob_payload = JNull, ob_created_at = t, ob_processed_at = None\<rparr>) [(''e1'', 2), (''e2'', 1)]\<rparr>\<rparr>"

definition picky_publisher :: "outbox_row \<Rightarrow> (unit result) io" where
  "picky_publisher e = ret (if ob_id e = ''e1'' then Inl (Driver ''broker down'') else Inr ())"

theorem processBatch_at_least_once_witness:
  "let w' = snd (run_state (processBatch demo_env background picky_publisher batchSize) outbox_world)
   in only_marks (ob_id ` {e \<in> set (fetch_unprocessed batchSize (pg outbox_world)). ob_id e \<noteq> ''e1''})
        (outbox_events (pg outbox_world)) (outbox_events (pg w'))
      \<and> map (\<lambda>r. ob_processed_at r = None) (outbox_events (pg w')) = [True, False]"
proof -
  let ?m = "run_state (processBatch demo_env background picky_publisher batchSize) outbox_world"
  have "map (\<lambda>r. ob_processed_at r = None) (outbox_events (pg (snd ?m))) = [True, False]" by code_simp
  moreover have "only_marks (ob_id ` {e \<in> set (fetch_unprocessed batchSize (pg outbox_world)). ob_id e \<noteq> ''e1''})
        (outbox_events (pg outbox_world)) (outbox_events (pg (snd ?m)))"
    by (rule processBatch_at_least_once[where publish = picky_publisher and accepts = "\<lambda>e. ob_id e \<noteq> ''e1''",
          OF _ _ run_result[OF refl]]) (simp_all add: picky_publisher_def keeps_ret)
  ultimately show ?thesis by (simp add: Let_def)
qed

end
