(* ===== verification/Registration.thy ===== *)
theory Registration
  imports Outbox
begin

text \<open>
  Document verification and registration: \<^verbatim>\<open>service/document_service.go\<close> with the Redis decorator
  of its port (\<^verbatim>\<open>redis/cached_document_verification.go\<close>), the mock branch and the mapping of
  responses of \<^verbatim>\<open>external/serpro/adapter.go\<close>, the password hasher, the notifier, and
  \<^verbatim>\<open>service/registration_service.go\<close>. The verification port is a parameter of the services.
\<close>

section \<open>Hasher and notifier\<close>

definition Hash :: "environ \<Rightarrow> string \<Rightarrow> (string result) io" where
  "Hash E password = State (\<lambda>w. (bcrypt_hash E (ticks w) password, tick w))"

definition Verify :: "environ \<Rightarrow> string \<Rightarrow> string \<Rightarrow> bool" where
  "Verify E password hash = bcrypt_verify E password hash"

definition SendEmail :: "string \<Rightarrow> string \<Rightarrow> string \<Rightarrow> (unit result) io" where
  "SendEmail addr subject body = do { spawn (SendEmailTask addr subject body); ret (Inr ()) }"

section \<open>Document verification\<close>

type_synonym verification_port = "reqctx \<Rightarrow> string \<Rightarrow> (DocumentVerificationResult result) io"

text \<open>
  The Serpro adapter: without a URL or key it answers every CPF as regular; otherwise the
  response is an error of the HTTP client, a status code, or a decoded description.
\<close>

datatype serpro_reply = HttpError string | HttpStatus nat | HttpOK "(string \<times> string) option"

definition SerproAdapter_VerifyCPF ::
    "environ \<Rightarrow> string \<Rightarrow> string \<Rightarrow> (string \<Rightarrow> serpro_reply) \<Rightarrow> verification_port" where
  "SerproAdapter_VerifyCPF E baseURL apiKey http ctx cpf = do {
     now \<leftarrow> time_Now E;
     ret (if baseURL = [] \<or> apiKey = [] then
            Inr \<lparr>dv_Valid = True, dv_Name = [], dv_Situation = ''REGULAR (MOCKED)'', dv_Timestamp = now\<rparr>
          else (case http (baseURL @ ''/consulta/cpf/v1/cpf/'' @ cpf) of
            HttpError m \<Rightarrow> Inl (wrap ''failed to execute request: '' (Driver m))
          | HttpStatus n \<Rightarrow>
              if n = 404 then Inr \<lparr>dv_Valid = False, dv_Name = [], dv_Situation = ''NOT_FOUND'', dv_Timestamp = now\<rparr>
              else Inl (ErrorString (''serpro api error: status '' @ string_of_nat n))
          | HttpOK None \<Rightarrow> Inl (wrap ''failed to decode response: '' (Driver ''json''))
          | HttpOK (Some (nome, descricao)) \<Rightarrow>
              Inr \<lparr>dv_Valid = (descricao = ''REGULAR''), dv_Name = nome, dv_Situation = descricao,
                   dv_Timestamp = now\<rparr>)) }"

definition CachedVerifyCPF :: "environ \<Rightarrow> verification_port \<Rightarrow> duration \<Rightarrow> verification_port" where
  "CachedVerifyCPF E delegate ttl ctx cpf = do {
     let key = ''document:verification:cpf:'' @ cpf;
     val \<leftarrow> redis_Get E key;
     let miss = tryE (delegate ctx cpf) (\<lambda>e. e) (\<lambda>result. do {
         _ \<leftarrow> redis_Set E key (RDocument result) ttl;
         ret (Inr result) });
     case val of Inr (Some (RDocument d)) \<Rightarrow> ret (Inr d) | _ \<Rightarrow> miss }"

definition DocumentService_ValidateCPF :: "string \<Rightarrow> go_error option" where
  "DocumentService_ValidateCPF cpf = (case NewCPF cpf of Inl e \<Rightarrow> Some e | Inr c \<Rightarrow> None)"

definition ValidateAndNormalizeCPF ::
    "verification_port option \<Rightarrow> bool \<Rightarrow> reqctx \<Rightarrow> string \<Rightarrow> (CPF result) io" where
  "ValidateAndNormalizeCPF port hasRepo ctx cpf =
     (case NewCPF cpf of Inl e \<Rightarrow> ret (Inl (wrap ''invalid CPF: '' e))
      | Inr cpfVO \<Rightarrow> (case CPF_Value cpfVO of
          VString normalized \<Rightarrow> do {
            let logged = (\<lambda>source isValid. do {
              _ \<leftarrow> (if hasRepo then spawn (SaveVerification (CPF_Mask cpfVO) source isValid) else ret ());
              ret (Inr cpfVO) });
            case port of None \<Rightarrow> logged ''OFFLINE_ALGO'' True
            | Some verify \<Rightarrow> do {
                res \<leftarrow> verify ctx normalized;
                case res of
                  Inl e \<Rightarrow> logged ''OFFLINE_ALGO'' True
                | Inr d \<Rightarrow>
                    if \<not> dv_Valid d then
                      ret (Inl (ErrorString (''CPF invalid according to external source: '' @ dv_Situation d)))
                    else logged ''EXTERNAL_API'' (dv_Valid d) } }
        | _ \<Rightarrow> ret (Inl (ErrorString ''invalid CPF value type''))))"

section \<open>Registration\<close>

record RegisterCommand =
  rc_Email :: string
  rc_Password :: string
  rc_TenantName :: string
  rc_CPF :: string

definition EventSource :: string where
  "EventSource = ''vyst-identity''"

definition owner_tuple :: "string \<Rightarrow> string \<Rightarrow> Tuple" where
  "owner_tuple tenantID userID = \<lparr>tp_TenantID = tenantID, tp_Subject = ''user:'' @ userID,
     tp_Relation = ''owner'', tp_Object = ''tenant:'' @ tenantID\<rparr>"

definition tenant_provisioned :: "string \<Rightarrow> time \<Rightarrow> Tenant \<Rightarrow> Event" where
  "tenant_provisioned eid now x = \<lparr>e_ID = eid, e_Type = ev_TenantProvisioned, e_AggregateType = [],
     e_AggregateID = [], e_Source = EventSource, e_Timestamp = now,
     e_Payload = TenantProvisionedPayload (t_ID x) (t_Name x), e_TenantID = t_ID x\<rparr>"

definition user_created :: "string \<Rightarrow> time \<Rightarrow> User \<Rightarrow> Event" where
  "user_created eid now u = \<lparr>e_ID = eid, e_Type = ev_UserCreated, e_AggregateType = [],
     e_AggregateID = [], e_Source = EventSource, e_Timestamp = now,
     e_Payload = UserCreatedPayload (u_ID u) (u_Email u) (u_TenantID u) ''owner'', e_TenantID = u_TenantID u\<rparr>"

text \<open>The function passed to \<^verbatim>\<open>RunInTransaction\<close> (lines 125 to 184).\<close>

definition register_tx :: "environ \<Rightarrow> time \<Rightarrow> Tenant \<Rightarrow> User \<Rightarrow> reqctx \<Rightarrow> (unit result) io" where
  "register_tx E now newTenant newUser ctx =
     tryE (TenantRepository_Create E ctx newTenant) (wrap ''failed to create tenant: '') (\<lambda>_.
     tryE (TenantRepository_SetCurrentTenant E ctx (t_ID newTenant)) (wrap ''failed to set tenant context: '') (\<lambda>_.
     tryE (UserRepository_Create E ctx newUser) (wrap ''failed to create user: '') (\<lambda>_.
     tryE (CachedPolicyRepository_WriteTuple E ctx (owner_tuple (t_ID newTenant) (u_ID newUser)))
       (wrap ''failed to assign permissions: '') (\<lambda>_. do {
     eid1 \<leftarrow> uuid_New E;
     tryE (Publisher_Publish E ctx (tenant_provisioned eid1 now newTenant))
       (wrap ''failed to publish tenant event: '') (\<lambda>_. do {
     eid2 \<leftarrow> uuid_New E;
     tryE (Publisher_Publish E ctx (user_created eid2 now newUser))
       (wrap ''failed to publish user event: '') (\<lambda>_. ret (Inr ())) }) }))))"

definition verification_body :: "string \<Rightarrow> string" where
  "verification_body token = ''http://localhost:4200/auth/verify-email?token='' @ token"

text \<open>
  The body of the e-mail is represented by the link it carries. The goroutine's event gets its
  id when the goroutine runs; here it is drawn when it is started.
\<close>

definition RegisterWithTenant ::
    "environ \<Rightarrow> verification_port option \<Rightarrow> reqctx \<Rightarrow> RegisterCommand \<Rightarrow> ((User \<times> Tenant) result) io" where
  "RegisterWithTenant E port ctx cmd =
     tryE (Hash E (rc_Password cmd)) (wrap ''failed to hash password: '') (\<lambda>hashedPassword. do {
       tenantID \<leftarrow> uuid_New E;
       userID \<leftarrow> uuid_New E;
       now \<leftarrow> time_Now E;
       let newTenant = \<lparr>t_ID = tenantID, t_Name = rc_TenantName cmd, t_Status = TenantActive,
         t_CreatedAt = now, t_UpdatedAt = now\<rparr>;
       tryE (if rc_CPF cmd \<noteq> [] then ValidateAndNormalizeCPF port True ctx (rc_CPF cmd) else ret (Inr emptyCPF))
         (wrap ''invalid CPF: '') (\<lambda>cpfVO. do {
       now' \<leftarrow> time_Now E;
       tryE (ret (NewUser now' userID (rc_Email cmd) hashedPassword tenantID))
         (wrap ''failed to create user entity: '') (\<lambda>u0. do {
       verificationToken \<leftarrow> uuid_New E;
       let newUser = u0\<lparr>u_CPF := cpfVO, u_VerificationToken := verificationToken,
         u_VerificationTokenExpiresAt := now + 24 * hour, u_Status := UserPending\<rparr>;
       tryE (RunInTransaction E ctx (register_tx E now newTenant newUser)) (\<lambda>e. e) (\<lambda>_. do {
       eid \<leftarrow> uuid_New E;
       spawn (BusPublish (user_created eid now newUser));
       _ \<leftarrow> SendEmail (rc_Email cmd) ''Verify your email address'' (verification_body verificationToken);
       ret (Inr (newUser, newTenant)) }) }) }) })"

section \<open>Registration is atomic\<close>

lemma SetCurrentTenant_ok:
  "run_state (TenantRepository_SetCurrentTenant E ctx t) w = (Inr (), w') \<Longrightarrow> ctx_tx ctx
    \<Longrightarrow> pg w' = (pg w)\<lparr>current_tenant := Some t\<rparr>"
  by (auto simp: TenantRepository_SetCurrentTenant_def io_run split: sum.splits prod.splits)

lemma UserRepository_Create_ok:
  "run_state (UserRepository_Create E ctx u) w = (Inr (), w')
    \<Longrightarrow> pg w' = (pg w)\<lparr>users := users (pg w) @ [user_to_row u]\<rparr>
      \<and> user_visible E ctx (pg w) (user_to_row u) \<and> u_ID u \<notin> ur_id ` set (users (pg w))"
  by (auto simp: UserRepository_Create_def io_run insert_user_def Let_def user_to_row_def
      split: sum.splits prod.splits if_splits)

lemma Publish_ok:
  "run_state (Publisher_Publish E ctx evt) w = (Inr (), w')
    \<Longrightarrow> \<exists>oid t. pg w' = (pg w)\<lparr>outbox_events := outbox_events (pg w) @ [outbox_row_of oid t evt]\<rparr>"
  by (auto simp: Publisher_Publish_def io_run split: sum.splits prod.splits) blast

text \<open>The tables after a registration, up to the generated ids and times of the outbox rows.\<close>

definition registered :: "tables \<Rightarrow> tables \<Rightarrow> time \<Rightarrow> Tenant \<Rightarrow> User \<Rightarrow> bool" where
  "registered db db' now x u \<longleftrightarrow>
     tenants db' = tenants db @ [x] \<and> users db' = users db @ [user_to_row u]
     \<and> policy_allowed db' (''user:'' @ u_ID u) ''owner'' (''tenant:'' @ t_ID x)
     \<and> (\<exists>o1 o2 t1 t2 e1 e2. outbox_events db' = outbox_events db
          @ [outbox_row_of o1 t1 (tenant_provisioned e1 now x), outbox_row_of o2 t2 (user_created e2 now u)])
     \<and> companies db' = companies db \<and> company_users db' = company_users db
     \<and> invitations db' = invitations db \<and> policy_roles db' = policy_roles db
     \<and> totp_secrets db' = totp_secrets db \<and> api_keys db' = api_keys db \<and> company_infos db' = company_infos db"

lemma policy_allowed_tuples:
  "policy_tuples db' = policy_tuples db \<Longrightarrow> policy_allowed db' = policy_allowed db"
  by (intro ext) (simp add: policy_allowed_def permission_query_def split: sum.splits)

lemma register_tx_ok:
  assumes "run_state (register_tx E now x u ctx) w = (Inr (), w')" "ctx_tx ctx"
  shows "registered (pg w) (pg w') now x u"
proof -
  from assms(1) obtain w1 w2 w3 w4 w5 e1 e2 where
    c: "run_state (TenantRepository_Create E ctx x) w = (Inr (), w1)"
    and s: "run_state (TenantRepository_SetCurrentTenant E ctx (t_ID x)) w1 = (Inr (), w2)"
    and u: "run_state (UserRepository_Create E ctx u) w2 = (Inr (), w3)"
    and t: "run_state (PolicyRepository_WriteTuple E ctx (owner_tuple (t_ID x) (u_ID u))) w3 = (Inr (), w4)"
    and p1: "run_state (Publisher_Publish E ctx (tenant_provisioned e1 now x)) (tick w4) = (Inr (), w5)"
    and p2: "run_state (Publisher_Publish E ctx (user_created e2 now u)) (tick w5) = (Inr (), w')"
    by (auto simp: register_tx_def CachedPolicyRepository_WriteTuple_def run_tryE_Inr run_uuid_New)
  from WriteTuple_ok[OF t] obtain ts where w4: "pg w4 = (pg w3)\<lparr>policy_tuples := ts\<rparr>" by metis
  from Publish_ok[OF p1] Publish_ok[OF p2] obtain o1 t1 o2 t2 where
    w': "pg w' = (pg w4)\<lparr>outbox_events := outbox_events (pg w4)
       @ [outbox_row_of o1 t1 (tenant_provisioned e1 now x), outbox_row_of o2 t2 (user_created e2 now u)]\<rparr>"
    by auto
  have "policy_allowed (pg w') = policy_allowed (pg w4)"
    by (rule policy_allowed_tuples) (simp add: w')
  then have "policy_allowed (pg w') (''user:'' @ u_ID u) ''owner'' (''tenant:'' @ t_ID x)"
    using WriteTuple_policy_allowed[OF t] by (simp add: owner_tuple_def)
  moreover have "pg w' = (pg w)\<lparr>tenants := tenants (pg w) @ [x], current_tenant := Some (t_ID x),
      users := users (pg w) @ [user_to_row u], policy_tuples := ts,
      outbox_events := outbox_events (pg w)
       @ [outbox_row_of o1 t1 (tenant_provisioned e1 now x), outbox_row_of o2 t2 (user_created e2 now u)]\<rparr>"
    using TenantRepository_Create_ok[OF c] SetCurrentTenant_ok[OF s assms(2)] UserRepository_Create_ok[OF u]
    by (simp add: w' w4)
  ultimately show ?thesis unfolding registered_def by auto
qed

lemma register_tx_committed:
  assumes "run_state (RunInTransaction E ctx (register_tx E now x u)) w = (Inr r, w')"
  shows "registered (pg w) (pg w') now x u"
proof -
  from RunInTransaction_ok[OF assms] obtain w1 where
    b: "run_state (register_tx E now x u (ctx\<lparr>ctx_tx := True\<rparr>)) (tx_begin E w) = (Inr (), w1)"
    and w': "w' = tx_commit w (tick w1)" by blast
  have "policy_allowed (pg w') = policy_allowed (pg w1)"
    by (rule policy_allowed_tuples) (simp add: w')
  then show ?thesis
    using register_tx_ok[OF b] by (simp add: registered_def w')
qed

definition port_ok :: "verification_port option \<Rightarrow> bool" where
  "port_ok port \<longleftrightarrow> (\<forall>verify. port = Some verify \<longrightarrow> (\<forall>ctx cpf. keeps pg (verify ctx cpf)))"

lemma keeps_ValidateAndNormalizeCPF:
  "port_ok port \<Longrightarrow> keeps pg (ValidateAndNormalizeCPF port hasRepo ctx cpf)"
  unfolding ValidateAndNormalizeCPF_def Let_def port_ok_def
  by (auto intro!: io_keep split: sum.splits driver_value.splits option.splits)

lemma ValidateAndNormalizeCPF_valid:
  "run_state (ValidateAndNormalizeCPF port hasRepo ctx cpf) w = (Inr c, w') \<Longrightarrow> NewCPF cpf = Inr c"
  by (auto simp: ValidateAndNormalizeCPF_def Let_def
      split: sum.splits driver_value.splits option.splits prod.splits if_splits)

lemma keeps_Hash [io_keep]: "keeps pg (Hash E p)" "keeps redis (Hash E p)" "keeps spawned (Hash E p)"
  by (simp_all add: keeps_def Hash_def)

lemma keeps_SendEmail [io_keep]: "keeps pg (SendEmail a s b)" "keeps redis (SendEmail a s b)"
  unfolding SendEmail_def by (intro io_keep)+

lemma clean_RunInTransaction: "clean pg (RunInTransaction E ctx fn)"
  by (auto simp: clean_def dest: RunInTransaction_error)

lemma RegisterWithTenant_clean:
  assumes "port_ok port" shows "clean pg (RegisterWithTenant E port ctx cmd)"
  unfolding RegisterWithTenant_def Let_def
  by (intro clean_tryE clean_bind clean_tryE_last clean_RunInTransaction never_fails_bind never_fails_ret
      keeps_if keeps_ValidateAndNormalizeCPF assms io_keep)

lemma RegisterWithTenant_ok:
  assumes "port_ok port" "run_state (RegisterWithTenant E port ctx cmd) w = (Inr (u, x), w')"
  obtains now where "registered (pg w) (pg w') now x u" "u_VerificationTokenExpiresAt u = now + 24 * hour"
    "u_Email u = rc_Email cmd" "u_TenantID u = t_ID x" "u_Status u = UserPending"
    "rc_CPF cmd \<noteq> [] \<longrightarrow> NewCPF (rc_CPF cmd) = Inr (u_CPF u)"
    "\<exists>n. bcrypt_hash E n (rc_Password cmd) = Inr (u_PasswordHash u)"
proof -
  from assms(2) obtain h w1 tid uid now c w2 w3 now' u0 tok w4 where
    h: "run_state (Hash E (rc_Password cmd)) w = (Inr h, w1)"
    and c: "run_state (if rc_CPF cmd \<noteq> [] then ValidateAndNormalizeCPF port True ctx (rc_CPF cmd)
              else ret (Inr emptyCPF)) w2 = (Inr c, w3)" and w2: "pg w2 = pg w1"
    and u0: "NewUser now' uid (rc_Email cmd) h tid = Inr u0"
    and x: "x = \<lparr>t_ID = tid, t_Name = rc_TenantName cmd, t_Status = TenantActive, t_CreatedAt = now, t_UpdatedAt = now\<rparr>"
    and u: "u = u0\<lparr>u_CPF := c, u_VerificationToken := tok, u_VerificationTokenExpiresAt := now + 24 * hour,
              u_Status := UserPending\<rparr>"
    and tx: "run_state (RunInTransaction E ctx (register_tx E now x u)) (tick (tick w3)) = (Inr (), w4)"
    and w': "pg w' = pg w4"
    by (fastforce simp: RegisterWithTenant_def Let_def SendEmail_def run_tryE_Inr run_time_Now run_uuid_New run_spawn)
  have "pg w3 = pg w"
    using keepsD[OF keeps_Hash(1) h] keepsD[OF keeps_if[OF keeps_ValidateAndNormalizeCPF[OF assms(1)] keeps_ret] c] w2
    by simp
  then have "registered (pg w) (pg w') now x u"
    using register_tx_committed[OF tx] w' by simp
  moreover have "rc_CPF cmd \<noteq> [] \<longrightarrow> NewCPF (rc_CPF cmd) = Inr c"
    using c by (auto dest: ValidateAndNormalizeCPF_valid)
  moreover have "\<exists>n. bcrypt_hash E n (rc_Password cmd) = Inr h"
    using h by (auto simp: Hash_def)
  ultimately show ?thesis
    using u0 by (intro that[of now]) (auto simp: u x NewUser_def split: if_splits)
qed


definition demo_cmd :: RegisterCommand where
  "demo_cmd = \<lparr>rc_Email = ''ana'', rc_Password = ''pw'', rc_TenantName = ''Acme'', rc_CPF = ''529.982.247-25''\<rparr>"


end
