(* ===== verification/Auth_Service.thy ===== *)
theory Auth_Service
  imports Session_Store Company_User_Repo Registration
begin

text \<open>
  Tokens and authentication: \<^verbatim>\<open>infrastructure/security/token.go\<close> over the JWT library, and
  \<^verbatim>\<open>application/service/auth_service.go\<close> wired as in \<^verbatim>\<open>cmd/identity-api/main.go\<close>: PostgreSQL users,
  cached policies and memberships, Redis sessions. Log statements have no counterpart.
\<close>

section \<open>Token service\<close>

text \<open>\<^verbatim>\<open>jwt.NewNumericDate\<close> truncates to seconds.\<close>

definition NumericDate :: "time \<Rightarrow> time" where
  "NumericDate t = t - t mod second"

definition token_expiry :: duration where
  "token_expiry = 24 * hour"

definition GenerateToken ::
    "environ \<Rightarrow> string \<Rightarrow> string \<Rightarrow> string list \<Rightarrow> string \<Rightarrow> string \<Rightarrow> string \<Rightarrow> (string result) io" where
  "GenerateToken E userID tenantID roles activeCompanyID companyRole identityType = do {
     now \<leftarrow> time_Now E;
     ret (jwt_sign E \<lparr>cl_UserID = userID, cl_TenantID = tenantID, cl_Roles = roles,
       cl_ActiveCompanyID = activeCompanyID, cl_CompanyRole = companyRole, cl_IdentityType = identityType,
       cl_ExpiresAt = NumericDate (now + token_expiry), cl_IssuedAt = NumericDate now,
       cl_NotBefore = NumericDate now, cl_Issuer = jwt_issuer E, cl_ID = []\<rparr>) }"

definition token_ValidateToken :: "environ \<Rightarrow> string \<Rightarrow> (Claims result) io" where
  "token_ValidateToken E tokenString = do { now \<leftarrow> time_Now E; ret (jwt_parse E now tokenString) }"

text \<open>
  What \<^verbatim>\<open>GenerateEncryptedToken\<close> uses of go-jose and of the JSON encoder: making an encrypter for the public key, the bytes of the
  payload, the encrypted object and its compact form.
\<close>

record jose_library =
  jl_NewEncrypter :: "go_error option"
  jl_Marshal :: "(string \<times> json) list \<Rightarrow> string result"
  jl_Encrypt :: "string \<Rightarrow> string result"
  jl_CompactSerialize :: "string \<Rightarrow> string result"

definition GenerateEncryptedToken :: "jose_library \<Rightarrow> (string \<times> json) list \<Rightarrow> string result" where
  "GenerateEncryptedToken J payload = (case jl_NewEncrypter J of
     Some err \<Rightarrow> Inl (wrap ''failed to create encrypter: '' err)
   | None \<Rightarrow> (case jl_Marshal J payload of
       Inl err \<Rightarrow> Inl (wrap ''failed to marshal payload: '' err)
     | Inr bytes \<Rightarrow> (case jl_Encrypt J bytes of
         Inl err \<Rightarrow> Inl (wrap ''failed to encrypt: '' err)
       | Inr object \<Rightarrow> jl_CompactSerialize J object)))"

definition GenerateRefreshToken :: "environ \<Rightarrow> string io" where
  "GenerateRefreshToken E = State (\<lambda>w. (rand_hex E (ticks w), tick w))"

definition GenerateID :: "environ \<Rightarrow> string io" where
  "GenerateID E = uuid_New E"

section \<open>Authentication service\<close>

record TokenPair =
  AccessToken :: string
  RefreshTok :: string
  ExpiresIn :: int

definition getStringFromContext :: "reqctx \<Rightarrow> string \<Rightarrow> string \<Rightarrow> string" where
  "getStringFromContext ctx key fallback =
     (case ctx_string ctx key of Some val \<Rightarrow> if val \<noteq> [] then val else fallback | None \<Rightarrow> fallback)"

text \<open>
  Roles, company role and access token of a user: the same statements in \<^verbatim>\<open>LoginWithUser\<close>,
  \<^verbatim>\<open>RefreshToken\<close> and \<^verbatim>\<open>GenerateTokenForUser\<close>.
\<close>

definition issue_access_token :: "environ \<Rightarrow> reqctx \<Rightarrow> User \<Rightarrow> (string result) io" where
  "issue_access_token E ctx u = do {
     rs \<leftarrow> CachedPolicyRepository_GetRolesForUser E ctx (u_ID u);
     let roles = (case rs of Inl e \<Rightarrow> [] | Inr xs \<Rightarrow> xs);
     companyRole \<leftarrow> (if u_ActiveCompanyID u \<noteq> [] then do {
         cr \<leftarrow> Cached_GetUserRole E ctx (u_ActiveCompanyID u) (u_ID u);
         ret (case cr of Inl e \<Rightarrow> [] | Inr r \<Rightarrow> r) }
       else ret []);
     GenerateToken E (u_ID u) (u_TenantID u) roles (u_ActiveCompanyID u) companyRole (u_IdentityType u) }"

definition session_lifetime :: duration where
  "session_lifetime = 7 * 24 * hour"

definition LoginWithUser ::
    "environ \<Rightarrow> reqctx \<Rightarrow> string \<Rightarrow> string \<Rightarrow> ((TokenPair \<times> User) result) io" where
  "LoginWithUser E ctx email password = do {
     r \<leftarrow> UserRepository_GetByEmail E ctx email;
     case r of
       Inl err \<Rightarrow> ret (Inl (if errors_Is err user_ErrNotFound then Sentinel ErrInvalidCredentials else err))
     | Inr u \<Rightarrow>
         if \<not> Verify E password (u_PasswordHash u) then ret (Inl (Sentinel ErrInvalidCredentials))
         else if u_Status u \<noteq> UserActive then ret (Inl (Sentinel ErrUserNotActive))
         else tryE (issue_access_token E ctx u) (\<lambda>e. e) (\<lambda>accessToken. do {
           refreshToken \<leftarrow> GenerateRefreshToken E;
           let userAgent = getStringFromContext ctx ''user_agent'' ''unknown'';
           let ipAddress = getStringFromContext ctx ''ip_address'' ''unknown'';
           sid \<leftarrow> GenerateID E;
           now \<leftarrow> time_Now E;
           created \<leftarrow> time_Now E;
           let sess = NewSession created sid (u_ID u) refreshToken userAgent ipAddress (now + session_lifetime);
           tryE (SessionStore_Create E sess) (\<lambda>e. e) (\<lambda>_. do {
             t \<leftarrow> time_Now E;
             let u' = u\<lparr>u_LastLoginAt := t, u_LoginAttempts := 0\<rparr>;
             _ \<leftarrow> UserRepository_Update E ctx u';
             ret (Inr (\<lparr>AccessToken = accessToken, RefreshTok = refreshToken, ExpiresIn = 86400\<rparr>, u')) }) }) }"

definition Login :: "environ \<Rightarrow> reqctx \<Rightarrow> string \<Rightarrow> string \<Rightarrow> (TokenPair result) io" where
  "Login E ctx email password =
     tryE (LoginWithUser E ctx email password) (\<lambda>e. e) (\<lambda>res. ret (Inr (fst res)))"

definition RefreshToken :: "environ \<Rightarrow> reqctx \<Rightarrow> string \<Rightarrow> (TokenPair result) io" where
  "RefreshToken E ctx refreshToken =
     tryE (SessionStore_GetByRefreshToken E refreshToken) (\<lambda>_. ErrorString ''invalid refresh token'') (\<lambda>sess. do {
       now \<leftarrow> time_Now E;
       if \<not> Session_IsValid now sess then ret (Inl (ErrorString ''session expired or revoked''))
       else
         tryE (UserRepository_GetByID E ctx (s_UserID sess)) (\<lambda>e. e) (\<lambda>u.
         tryE (issue_access_token E ctx u) (\<lambda>e. e) (\<lambda>accessToken.
         ret (Inr \<lparr>AccessToken = accessToken, RefreshTok = s_RefreshToken sess, ExpiresIn = 86400\<rparr>))) })"

definition Logout :: "environ \<Rightarrow> reqctx \<Rightarrow> string \<Rightarrow> (unit result) io" where
  "Logout E ctx refreshToken = do {
     r \<leftarrow> SessionStore_GetByRefreshToken E refreshToken;
     case r of Inl e \<Rightarrow> ret (Inr ())
     | Inr sess \<Rightarrow> SessionStore_Update E (sess\<lparr>s_Revoked := True\<rparr>) }"

definition AuthService_ValidateToken :: "environ \<Rightarrow> string \<Rightarrow> (Claims result) io" where
  "AuthService_ValidateToken E tokenString = token_ValidateToken E tokenString"

definition IntrospectToken :: "environ \<Rightarrow> reqctx \<Rightarrow> string \<Rightarrow> (Claims result) io" where
  "IntrospectToken E ctx tokenString =
     tryE (token_ValidateToken E tokenString) (\<lambda>e. e) (\<lambda>claims. ret (Inr claims))"

definition GetUser :: "environ \<Rightarrow> reqctx \<Rightarrow> string \<Rightarrow> (User result) io" where
  "GetUser E ctx userID = UserRepository_GetByID E ctx userID"

definition VerifyEmail :: "environ \<Rightarrow> reqctx \<Rightarrow> string \<Rightarrow> (unit result) io" where
  "VerifyEmail E ctx token =
     tryE (UserRepository_GetByVerificationToken E ctx token) (\<lambda>e. e) (\<lambda>u. do {
       now \<leftarrow> time_Now E;
       if u_VerificationTokenExpiresAt u < now then ret (Inl (ErrorString ''token expired''))
       else UserRepository_Update E ctx (u\<lparr>u_Status := UserActive, u_VerificationToken := [],
              u_VerificationTokenExpiresAt := zero_time\<rparr>) })"

definition GenerateTokenForUser :: "environ \<Rightarrow> reqctx \<Rightarrow> string \<Rightarrow> (TokenPair result) io" where
  "GenerateTokenForUser E ctx userID =
     tryE (UserRepository_GetByID E ctx userID) (\<lambda>e. e) (\<lambda>u.
     tryE (issue_access_token E ctx u) (\<lambda>e. e) (\<lambda>accessToken.
     ret (Inr \<lparr>AccessToken = accessToken, RefreshTok = [], ExpiresIn = 86400\<rparr>)))"

section \<open>What the operations touch\<close>

lemma keeps_tokens [io_keep]:
  "keeps pg (GenerateToken E a b c d e f)" "keeps redis (GenerateToken E a b c d e f)"
  "keeps pg (GenerateRefreshToken E)" "keeps redis (GenerateRefreshToken E)"
  "keeps pg (GenerateID E)" "keeps redis (GenerateID E)"
  unfolding GenerateToken_def GenerateID_def
  by (intro io_keep | simp add: keeps_def GenerateRefreshToken_def)+

lemma keeps_issue_access_token [io_keep]: "keeps pg (issue_access_token E ctx u)"
  unfolding issue_access_token_def CachedPolicyRepository_GetRolesForUser_def Let_def by (intro io_keep)

text \<open>The part of the key space that decides about refresh tokens.\<close>

definition token_view :: "world \<Rightarrow> (string \<Rightarrow> rentry option) \<times> (string \<Rightarrow> rentry option)" where
  "token_view w = (\<lambda>t. redis w (refresh_key t), \<lambda>s. redis w (session_key s))"

lemma keeps_view: "keeps redis m \<Longrightarrow> keeps token_view m"
  by (simp add: keeps_def token_view_def)

lemma token_dead_view: "token_view w' = token_view w \<Longrightarrow> token_dead tok (redis w') = token_dead tok (redis w)"
  by (auto simp: token_view_def token_dead_def fun_eq_iff)

lemma role_key_other [simp]:
  "role_key c u \<noteq> refresh_key t" "role_key c u \<noteq> session_key s"
  "refresh_key t \<noteq> role_key c u" "session_key s \<noteq> role_key c u"
  by (simp_all add: role_key_def refresh_key_def session_key_def)

lemma keeps_view_role_Set: "keeps token_view (redis_Set E (role_key c u) v ttl)"
  by (simp add: keeps_def token_view_def run_redis_Set split: sum.splits)

lemma keeps_view_issue: "keeps token_view (issue_access_token E ctx u)"
  unfolding issue_access_token_def CachedPolicyRepository_GetRolesForUser_def Cached_GetUserRole_def
    cached_role_miss_def Let_def
  by (rule keeps_bind keeps_if keeps_ret keeps_case_sum keeps_case_option keeps_view_role_Set
      | (rule keeps_view, rule io_keep))+

lemma advances_repos [io_adv]:
  "advances (UserRepository_GetByEmail E ctx email)" "advances (UserRepository_Update E ctx u)"
  "advances (SessionStore_Create E sess)" "advances (issue_access_token E ctx u)"
  "advances (SessionStore_GetByRefreshToken E tok)" "advances (SessionStore_Update E sess)"
  "advances (UserRepository_GetByID E ctx uid)"
  unfolding UserRepository_GetByEmail_def UserRepository_Update_def SessionStore_Create_def
    SessionStore_Update_def SessionStore_GetByRefreshToken_def SessionStore_GetByID_def
    issue_access_token_def CachedPolicyRepository_GetRolesForUser_def PolicyRepository_GetRolesForUser_def
    Cached_GetUserRole_def cached_role_miss_def redis_GetString_def CompanyUserRepository_GetUserRole_def
    GenerateToken_def UserRepository_GetByID_def getByIDWithTenant_def Let_def
  by (intro io_adv)+

section \<open>Login\<close>

lemma GetByEmail_Inr:
  assumes "run_state (UserRepository_GetByEmail E ctx email) w = (Inr u, w1)"
  obtains r where "r \<in> set (users (pg w))" "ur_email r = email" "u_ID u = ur_id r" "u_TenantID u = ur_tenant_id r"
    "u_PasswordHash u = ur_password_hash r" "u_Status u = ur_status r" "u_ActiveCompanyID u = []"
    "u_IdentityType u = []" "find (\<lambda>r. ur_email r = email) (users (pg w)) = Some r" "w1 = tick w"
    "u_ResetToken u = ur_reset_token r" "u_VerificationToken u = ur_verification_token r"
proof -
  from assms have "scanUserFull (wrap ''failed to scan user: '') (find (\<lambda>r. ur_email r = email) (users (pg w))) = Inr u"
    and "w1 = tick w"
    by (auto simp: UserRepository_GetByEmail_def io_run split: sum.splits prod.splits)
  from scanUserFull_Inr[OF this(1)] this(2) that show ?thesis by (auto dest: find_SomeD)
qed

text \<open>The steps of a successful login.\<close>

lemma LoginWithUser_steps:
  assumes "run_state (LoginWithUser E ctx email pw) w = (Inr (tp, u'), w')"
  obtains u w1 at w2 sess w3 w4 x t where
    "run_state (UserRepository_GetByEmail E ctx email) w = (Inr u, w1)"
    "Verify E pw (u_PasswordHash u)" "u_Status u = UserActive"
    "run_state (issue_access_token E ctx u) w1 = (Inr at, w2)"
    "sess = NewSession (clock E (ticks w2 + 3)) (new_uuid E (ticks w2 + 1)) (u_ID u) (rand_hex E (ticks w2))
       (getStringFromContext ctx ''user_agent'' ''unknown'') (getStringFromContext ctx ''ip_address'' ''unknown'')
       (clock E (ticks w2 + 2) + session_lifetime)"
    "run_state (SessionStore_Create E sess) (w2\<lparr>ticks := ticks w2 + 4\<rparr>) = (Inr (), w3)"
    "run_state (UserRepository_Update E ctx u') (tick w3) = (x, w')"
    "u' = u\<lparr>u_LastLoginAt := t, u_LoginAttempts := 0\<rparr>"
    "tp = \<lparr>AccessToken = at, RefreshTok = rand_hex E (ticks w2), ExpiresIn = 86400\<rparr>"
  using assms
  by (auto simp: LoginWithUser_def GenerateRefreshToken_def GenerateID_def Let_def run_tryE run_time_Now run_uuid_New
      eval_nat_numeral split: sum.splits prod.splits if_splits)

lemma issue_access_token_claims:
  assumes "run_state (issue_access_token E ctx u) w = (Inr at, w')"
  shows "\<exists>c. jwt_sign E c = Inr at \<and> cl_UserID c = u_ID u \<and> cl_TenantID c = u_TenantID u
    \<and> cl_ActiveCompanyID c = u_ActiveCompanyID u \<and> cl_IdentityType c = u_IdentityType u
    \<and> (\<exists>n. cl_IssuedAt c = NumericDate (clock E n) \<and> cl_ExpiresAt c = NumericDate (clock E n + token_expiry))
    \<and> cl_ID c = []"
  using assms by (fastforce simp: issue_access_token_def GenerateToken_def Let_def run_time_Now split: prod.splits)

lemma SessionStore_Create_ok:
  assumes "run_state (SessionStore_Create E sess) w = (Inr (), w')"
  shows "\<exists>e e'. redis w' (refresh_key (s_RefreshToken sess)) = Some e \<and> r_val e = RStr (s_ID sess)
    \<and> redis w' (session_key (s_ID sess)) = Some e' \<and> r_val e' = RSession sess"
  using assms by (auto simp: SessionStore_Create_def io_run redis_sadd_def split: sum.splits prod.splits)


text \<open>Conversely, a login with the right password succeeds when the external parties answer.\<close>

lemma Login_complete:
  assumes "\<And>n. pg_fault E n = None" "\<And>n. redis_fault E n = None" "\<And>c. \<exists>s. jwt_sign E c = Inr s" "\<not> ctx_tx ctx"
    and "find (\<lambda>r. ur_email r = email) (users (pg w)) = Some r" "row_cpf r = Inr c"
    and "bcrypt_verify E pw (ur_password_hash r)" "ur_status r = UserActive"
  shows "\<exists>tp u w'. run_state (LoginWithUser E ctx email pw) w = (Inr (tp, u), w')"
proof -
  have gate: "pg_gate E ctx [] v = Inr (clock E (ticks v))" "redis_gate E v = Inr (clock E (ticks v))" for v
    using assms(1,2,4) by (simp_all add: pg_gate_def redis_gate_def)
  have create: "\<exists>w2. run_state (SessionStore_Create E sess) v = (Inr (), w2)" for sess v
    by (simp add: SessionStore_Create_def io_run gate)
  have issue: "\<exists>at w2. run_state (issue_access_token E ctx u) v = (Inr at, w2)" if "u_ActiveCompanyID u = []" for u v
    using that assms(3)
    by (auto simp: issue_access_token_def CachedPolicyRepository_GetRolesForUser_def Let_def GenerateToken_def
        PolicyRepository_GetRolesForUser_def io_run gate split: prod.splits sum.splits)
  obtain u where u: "run_state (UserRepository_GetByEmail E ctx email) w = (Inr u, tick w)"
    "u_PasswordHash u = ur_password_hash r" "u_Status u = ur_status r" "u_ActiveCompanyID u = []"
    using assms(5,6) by (simp add: UserRepository_GetByEmail_def io_run gate scanUserFull_def zeroUser_def)
  obtain at w2 where i: "run_state (issue_access_token E ctx u) (tick w) = (Inr at, w2)" using issue u(4) by blast
  show ?thesis
    using u i create assms(7,8)
    by (simp add: LoginWithUser_def run_tryE Verify_def GenerateRefreshToken_def GenerateID_def Let_def
        run_time_Now run_uuid_New split: prod.splits sum.splits) (metis Pair_inject sum.distinct(1))
qed


lemma demo_login_ready:
  "find (\<lambda>r. ur_email r = ''ana'') (users (pg demo_world)) = Some (demo_user ''t1'' ''u1'' ''ana'')"
  "row_cpf (demo_user ''t1'' ''u1'' ''ana'') = Inr emptyCPF"
  "bcrypt_verify demo_env ''pw'' (ur_password_hash (demo_user ''t1'' ''u1'' ''ana''))"
  "ur_status (demo_user ''t1'' ''u1'' ''ana'') = UserActive"
  by code_simp+



text \<open>
  C28: Failed logins reveal nothing and change nothing. An unknown e-mail address and a wrong password
  give the same error \<^verbatim>\<open>ErrInvalidCredentials\<close>; a right password of a user that is not active gives
  \<^verbatim>\<open>ErrUserNotActive\<close>; in all three cases tables, keys and goroutines are as before.
\<close>

theorem Login_rejections:
  assumes "pg_gate E ctx [] w = Inr t"
    and "\<And>r. find (\<lambda>r. ur_email r = email) (users (pg w)) = Some r \<Longrightarrow>
      (\<exists>c. row_cpf r = Inr c) \<and> \<not> (bcrypt_verify E pw (ur_password_hash r) \<and> ur_status r = UserActive)"
  shows "run_state (LoginWithUser E ctx email pw) w =
    (Inl (Sentinel (case find (\<lambda>r. ur_email r = email) (users (pg w)) of
        None \<Rightarrow> ErrInvalidCredentials
      | Some r \<Rightarrow> if bcrypt_verify E pw (ur_password_hash r) then ErrUserNotActive else ErrInvalidCredentials)),
     tick w)"
proof (cases "find (\<lambda>r. ur_email r = email) (users (pg w))")
  case None
  then show ?thesis
    using assms(1) by (simp add: LoginWithUser_def UserRepository_GetByEmail_def io_run scanUserFull_def)
next
  case (Some r)
  then show ?thesis
    using assms(1) assms(2)[OF Some]
    by (auto simp: LoginWithUser_def UserRepository_GetByEmail_def io_run scanUserFull_def Verify_def)
qed

theorem Login_rejections_witness:
  "run_state (LoginWithUser demo_env background ''eve'' ''pw'') demo_world
     = (Inl (Sentinel ErrInvalidCredentials), tick demo_world)
   \<and> run_state (LoginWithUser demo_env background ''ana'' ''wrong'') demo_world
     = (Inl (Sentinel ErrInvalidCredentials), tick demo_world)"
proof -
  have g: "pg_gate demo_env background [] demo_world = Inr 1000" by code_simp
  have f: "find (\<lambda>r. ur_email r = ''eve'') (users (pg demo_world)) = None"
    "find (\<lambda>r. ur_email r = ''ana'') (users (pg demo_world)) = Some (demo_user ''t1'' ''u1'' ''ana'')" by code_simp+
  have d: "row_cpf (demo_user ''t1'' ''u1'' ''ana'') = Inr emptyCPF"
    "\<not> bcrypt_verify demo_env ''wrong'' (ur_password_hash (demo_user ''t1'' ''u1'' ''ana''))" by code_simp+
  show ?thesis
    using Login_rejections[OF g, of "''eve''" "''pw''"] Login_rejections[OF g, of "''ana''" "''wrong''"] f d by simp
qed

section \<open>Refresh and logout\<close>

lemma RefreshToken_steps:
  assumes "run_state (RefreshToken E ctx tok) w = (Inr tp, w')"
  obtains sess w1 u w2 at where
    "run_state (SessionStore_GetByRefreshToken E tok) w = (Inr sess, w1)"
    "Session_IsValid (clock E (ticks w1)) sess"
    "run_state (UserRepository_GetByID E ctx (s_UserID sess)) (tick w1) = (Inr u, w2)"
    "run_state (issue_access_token E ctx u) w2 = (Inr at, w')"
    "tp = \<lparr>AccessToken = at, RefreshTok = s_RefreshToken sess, ExpiresIn = 86400\<rparr>"
  using assms
  by (auto simp: RefreshToken_def run_tryE run_time_Now split: sum.splits prod.splits if_splits)

text \<open>
  The operations of the service that an attacker can interleave, and the condition under which
  the random generators do not produce a given token, or the id of its session, again.
\<close>

inductive auth_step :: "environ \<Rightarrow> world \<Rightarrow> world \<Rightarrow> bool" for E where
  login: "run_state (LoginWithUser E ctx email pw) w = (r, w') \<Longrightarrow> auth_step E w w'"
| refresh: "run_state (RefreshToken E ctx tok) w = (r', w') \<Longrightarrow> auth_step E w w'"
| logout: "run_state (Logout E ctx tok) w = (r'', w') \<Longrightarrow> auth_step E w w'"

inductive auth_steps :: "environ \<Rightarrow> world \<Rightarrow> world \<Rightarrow> bool" for E where
  stop: "auth_steps E w w"
| step: "auth_step E w w1 \<Longrightarrow> auth_steps E w1 w2 \<Longrightarrow> auth_steps E w w2"

definition never_again :: "environ \<Rightarrow> string \<Rightarrow> world \<Rightarrow> bool" where
  "never_again E tok w \<longleftrightarrow> (\<forall>n \<ge> ticks w. rand_hex E n \<noteq> tok
     \<and> (\<forall>e. redis w (refresh_key tok) = Some e \<longrightarrow> r_val e \<noteq> RStr (new_uuid E n)))"

definition dead_forever :: "environ \<Rightarrow> string \<Rightarrow> world \<Rightarrow> bool" where
  "dead_forever E tok w \<longleftrightarrow> token_dead tok (redis w) \<and> never_again E tok w"

lemma never_again_view:
  "never_again E tok w \<Longrightarrow> redis w' (refresh_key tok) = redis w (refresh_key tok) \<Longrightarrow> ticks w \<le> ticks w'
    \<Longrightarrow> never_again E tok w'"
  by (auto simp: never_again_def)

lemma dead_forever_view:
  assumes "dead_forever E tok w" "token_view w' = token_view w" "ticks w \<le> ticks w'"
  shows "dead_forever E tok w'"
proof -
  have "redis w' (refresh_key tok) = redis w (refresh_key tok)"
    using assms(2) by (simp add: token_view_def fun_eq_iff)
  then show ?thesis
    using assms token_dead_view[OF assms(2)] never_again_view by (auto simp: dead_forever_def)
qed

lemma dead_forever_keeps:
  "keeps token_view m \<Longrightarrow> advances m \<Longrightarrow> preserves (dead_forever E tok) m"
proof (rule preservesI)
  fix w assume m: "keeps token_view m" "advances m" and d: "dead_forever E tok w"
  obtain a w' where r: "run_state m w = (a, w')" by fastforce
  show "dead_forever E tok (snd (run_state m w))"
    using dead_forever_view[OF d keepsD[OF m(1) r] advancesD[OF m(2) r]] r by simp
qed

lemma dead_forever_Create:
  assumes "dead_forever E tok w0" "ticks w0 \<le> n" "ticks w0 \<le> n'" "s_RefreshToken sess = rand_hex E n"
    "s_ID sess = new_uuid E n'" "run_state (SessionStore_Create E sess) w = (x, w')"
    "redis w = redis w0" "ticks w0 \<le> ticks w"
  shows "dead_forever E tok w'"
proof -
  have ne: "rand_hex E n \<noteq> tok" "\<forall>e. redis w (refresh_key tok) = Some e \<longrightarrow> r_val e \<noteq> RStr (s_ID sess)"
    using assms by (auto simp: dead_forever_def never_again_def)
  have dead: "token_dead tok (redis w)" using assms(1,7) by (simp add: dead_forever_def)
  consider "redis w' = redis w" | now t1 t2 where "redis w' =
      redis_sadd now (user_sessions_key (s_UserID sess)) (s_ID sess) (30 * 24 * hour)
          (redis_put now (refresh_key (rand_hex E n)) (RStr (s_ID sess)) t1
            (redis_put now (session_key (s_ID sess)) (RSession sess) t2 (redis w)))"
    using assms(4,6) by (auto simp: SessionStore_Create_def io_run split: sum.splits)
  then have "token_dead tok (redis w') \<and> redis w' (refresh_key tok) = redis w (refresh_key tok)"
  proof cases
    case 1 then show ?thesis using dead by simp
  next
    case 2
    let ?m1 = "redis_put now (session_key (s_ID sess)) (RSession sess) t2 (redis w)"
    have "token_dead tok ?m1" using token_dead_put_session[OF dead disjI2[OF ne(2)]] .
    then have "token_dead tok (redis_put now (refresh_key (rand_hex E n)) (RStr (s_ID sess)) t1 ?m1)"
      using token_dead_put_refresh ne(1) by blast
    then show ?thesis
      unfolding 2 redis_sadd_def using token_dead_put_other ne(1) by simp
  qed
  then show ?thesis
    using assms(1,7,8) never_again_view[of E tok w0 w'] advancesD[OF advances_repos(3) assms(6)]
    by (auto simp: dead_forever_def)
qed

lemma dead_forever_Login: "preserves (dead_forever E tok) (LoginWithUser E ctx email pw)"
proof (rule preservesI)
  fix w assume dead: "dead_forever E tok w"
  let ?m = "run_state (LoginWithUser E ctx email pw) w"
  obtain r w1 where g: "run_state (UserRepository_GetByEmail E ctx email) w = (r, w1)" by fastforce
  have d1: "dead_forever E tok w1"
    using preservesD[OF dead_forever_keeps dead g] keeps_view[OF UserRepository_keeps(2)] advances_repos(1) by blast
  show "dead_forever E tok (snd ?m)"
  proof (cases "\<exists>u. r = Inr u \<and> Verify E pw (u_PasswordHash u) \<and> u_Status u = UserActive")
    case False
    then have "snd ?m = w1" using g by (cases r) (auto simp: LoginWithUser_def)
    then show ?thesis using d1 by simp
  next
    case True
    then obtain u where u: "r = Inr u" "Verify E pw (u_PasswordHash u)" "u_Status u = UserActive" by blast
    obtain a w2 where i: "run_state (issue_access_token E ctx u) w1 = (a, w2)" by fastforce
    have d2: "dead_forever E tok w2"
      using preservesD[OF dead_forever_keeps d1 i] keeps_view_issue advances_repos(4) by blast
    show ?thesis
    proof (cases a)
      case (Inl e)
      then have "snd ?m = w2" using g u i by (simp add: LoginWithUser_def run_tryE)
      then show ?thesis using d2 by simp
    next
      case (Inr at)
      let ?s = "NewSession (clock E (ticks w2 + 3)) (new_uuid E (ticks w2 + 1)) (u_ID u) (rand_hex E (ticks w2))
       (getStringFromContext ctx ''user_agent'' ''unknown'') (getStringFromContext ctx ''ip_address'' ''unknown'')
       (clock E (ticks w2 + 2) + session_lifetime)"
      let ?w = "w2\<lparr>ticks := ticks w2 + 4\<rparr>"
      obtain x w3 where c: "run_state (SessionStore_Create E ?s) ?w = (x, w3)" by fastforce
      have d3: "dead_forever E tok w3"
        by (rule dead_forever_Create[OF d2 _ _ _ _ c]) (simp_all add: NewSession_def)
      show ?thesis
      proof (cases x)
        case (Inl e)
        then have "snd ?m = w3"
          using g u i Inr c by (simp add: LoginWithUser_def run_tryE GenerateRefreshToken_def GenerateID_def
              run_time_Now run_uuid_New Let_def eval_nat_numeral)
        then show ?thesis using d3 by simp
      next
        case (Inr y)
        let ?u = "u\<lparr>u_LastLoginAt := clock E (ticks w3), u_LoginAttempts := 0\<rparr>"
        have "snd ?m = snd (run_state (UserRepository_Update E ctx ?u) (tick w3))"
          using g u i \<open>a = Inr at\<close> c Inr by (simp add: LoginWithUser_def run_tryE GenerateRefreshToken_def
              GenerateID_def run_time_Now run_uuid_New Let_def eval_nat_numeral split: prod.splits)
        moreover have "dead_forever E tok (tick w3)"
          by (rule dead_forever_view[OF d3]) (simp_all add: token_view_def)
        ultimately show ?thesis
          using dead_forever_keeps[OF keeps_view[OF UserRepository_keeps(13)] advances_repos(2)]
          by (simp add: preserves_def)
      qed
    qed
  qed
qed

lemma dead_forever_Logout: "preserves (dead_forever E tok) (Logout E ctx tok')"
proof (rule preservesI)
  fix w assume dead: "dead_forever E tok w"
  obtain r w1 where g: "run_state (SessionStore_GetByRefreshToken E tok') w = (r, w1)" by fastforce
  have d1: "dead_forever E tok w1"
    using preservesD[OF dead_forever_keeps dead g] keeps_view[OF keeps_session_reads(5)] advances_repos(5) by blast
  show "dead_forever E tok (snd (run_state (Logout E ctx tok') w))"
  proof (cases r)
    case (Inl e)
    then show ?thesis using g d1 by (simp add: Logout_def)
  next
    case (Inr sess)
    let ?s = "sess\<lparr>s_Revoked := True\<rparr>"
    obtain x w2 where u: "run_state (SessionStore_Update E ?s) w1 = (x, w2)" by fastforce
    have "token_dead tok (redis w2)"
      using preservesD[OF redis_sessions.update_keeps _ u] d1 by (simp add: dead_forever_def)
    moreover have "redis w2 (refresh_key tok) = redis w1 (refresh_key tok)"
      using u by (auto simp: SessionStore_Update_def io_run split: sum.splits)
    ultimately have "dead_forever E tok w2"
      using d1 never_again_view advancesD[OF advances_repos(6) u] by (auto simp: dead_forever_def)
    then show ?thesis using g Inr u by (simp add: Logout_def)
  qed
qed

lemma dead_forever_Refresh: "preserves (dead_forever E tok) (RefreshToken E ctx tok')"
proof (rule dead_forever_keeps)
  show "keeps token_view (RefreshToken E ctx tok')"
    unfolding RefreshToken_def
    by (rule keeps_tryE keeps_bind keeps_if keeps_ret keeps_view_issue | (rule keeps_view, rule io_keep))+
  show "advances (RefreshToken E ctx tok')"
    unfolding RefreshToken_def by (intro io_adv)
qed

lemma auth_steps_dead: "auth_steps E w w' \<Longrightarrow> dead_forever E tok w \<Longrightarrow> dead_forever E tok w'"
proof (induction rule: auth_steps.induct)
  case (step w w1 w2)
  from step.hyps(1) step.prems have "dead_forever E tok w1"
    by cases (metis preservesD dead_forever_Login dead_forever_Refresh dead_forever_Logout)+
  then show ?case by (rule step.IH)
qed

lemma Logout_kills:
  assumes ok: "sessions_ok (redis w)" and na: "never_again E tok w"
    and lo: "run_state (Logout E ctx tok) w = (Inr (), w')"
    and found: "run_state (SessionStore_GetByRefreshToken E tok) w = (Inr sess, w1)"
  shows "dead_forever E tok w'"
proof -
  have u: "run_state (SessionStore_Update E (sess\<lparr>s_Revoked := True\<rparr>)) w1 = (Inr (), w')"
    using lo found by (simp add: Logout_def)
  have "redis w' (refresh_key tok) = redis w (refresh_key tok)"
    using u keepsD[OF keeps_session_reads(5) found] by (auto simp: SessionStore_Update_def io_run split: sum.splits)
  moreover have "ticks w \<le> ticks w'"
    using advancesD[OF advances_repos(5) found] advancesD[OF advances_repos(6) u] by simp
  ultimately show ?thesis
    using redis_sessions.revoke[OF ok found u] never_again_view[OF na] by (simp add: dead_forever_def)
qed

text \<open>
  C2: Logout is final. Once a logout that found its session has succeeded, the refresh token never
  yields an access token again: after any sequence of logins, refreshes and logouts, with any
  arguments and outcomes, refreshing with it is an error, provided that the random generators do
  not produce the token or the id of its session a second time.
\<close>

theorem logout_is_final:
  assumes "sessions_ok (redis w)" "never_again E tok w"
    and "run_state (SessionStore_GetByRefreshToken E tok) w = (Inr sess, w0)"
    and "run_state (Logout E ctx tok) w = (Inr (), w1)" "auth_steps E w1 w2"
    and "run_state (RefreshToken E ctx' tok) w2 = (r, w3)"
  shows "isl r"
proof (rule ccontr)
  assume "\<not> isl r"
  then obtain tp where "run_state (RefreshToken E ctx' tok) w2 = (Inr tp, w3)"
    using assms(6) by (cases r) auto
  then show False
  proof (rule RefreshToken_steps)
    fix sess' w' now
    assume g: "run_state (SessionStore_GetByRefreshToken E tok) w2 = (Inr sess', w')"
      and v: "Session_IsValid (clock E (ticks w')) sess'"
    have "token_dead tok (redis w2)"
      using auth_steps_dead[OF assms(5) Logout_kills[OF assms(1,2,4,3)]] by (simp add: dead_forever_def)
    from redis_sessions.get_dead[OF this g] v show False by (simp add: Session_IsValid_def)
  qed
qed

definition session_entry :: "Session \<Rightarrow> string \<rightharpoonup> rentry" where
  "session_entry s = [refresh_key (s_RefreshToken s) \<mapsto> \<lparr>r_val = RStr (s_ID s), r_expires = Some (s_ExpiresAt s)\<rparr>,
     session_key (s_ID s) \<mapsto> \<lparr>r_val = RSession s, r_expires = Some (s_ExpiresAt s)\<rparr>]"

lemma session_entry_ok: "sessions_ok (session_entry s)"
  by (auto simp: sessions_ok_def session_entry_def split: if_splits)

definition demo_session :: Session where
  "demo_session = NewSession 1 ''s1'' ''u1'' ''tok'' ''ua'' ''ip'' (7 * 24 * hour)"

definition session_world :: world where
  "session_world = demo_world\<lparr>redis := session_entry demo_session\<rparr>"

lemma session_world_fresh: "never_again demo_env ''tok'' session_world"
proof -
  have "replicate k (CHR ''r'') \<noteq> ''tok''" "replicate k (CHR ''u'') \<noteq> ''s1''" for k
    by (cases k; simp)+
  then show ?thesis
    by (auto simp: never_again_def demo_env_def session_world_def session_entry_def demo_session_def NewSession_def)
qed

theorem logout_is_final_witness:
  "let w1 = snd (run_state (Logout demo_env background ''tok'') session_world);
       w2 = snd (run_state (LoginWithUser demo_env background ''ana'' ''pw'') w1)
   in isl (fst (run_state (RefreshToken demo_env background ''tok'') w2))"
proof -
  let ?g = "run_state (SessionStore_GetByRefreshToken demo_env ''tok'') session_world"
  let ?l = "run_state (Logout demo_env background ''tok'') session_world"
  let ?w2 = "snd (run_state (LoginWithUser demo_env background ''ana'' ''pw'') (snd ?l))"
  have ok: "sessions_ok (redis session_world)" by (simp add: session_world_def session_entry_ok)
  have g: "fst ?g = Inr demo_session" and l: "fst ?l = Inr ()" by code_simp+
  have steps: "auth_steps demo_env (snd ?l) ?w2"
    by (rule auth_steps.step[OF auth_step.login[OF run_result[OF refl]] auth_steps.stop])
  show ?thesis
    unfolding Let_def
    by (rule logout_is_final[OF ok session_world_fresh run_result[OF g] run_result[OF l] steps run_result[OF refl]])
qed



definition suspended_world :: world where
  "suspended_world = session_world\<lparr>pg := (pg session_world)\<lparr>users :=
     [(demo_user ''t1'' ''u1'' ''ana'')\<lparr>ur_status := UserSuspended\<rparr>]\<rparr>\<rparr>"

text \<open>
  Refreshing does not look at the user's status: for a suspended user with a stored session, login
  is refused with \<^verbatim>\<open>ErrUserNotActive\<close>, but a refresh still issues a new access token.
\<close>

theorem refresh_ignores_status:
  "fst (run_state (Login owner_env background ''ana'' ''pw'') suspended_world) = Inl (Sentinel ErrUserNotActive)
   \<and> \<not> isl (fst (run_state (RefreshToken owner_env background ''tok'') suspended_world))"
  by code_simp

section \<open>E-mail verification\<close>

text \<open>
  \<^verbatim>\<open>VerifyEmail\<close> activates only for a live token. If it succeeds, some visible user row carried
  exactly this token with an expiry that had not passed; that user's row is now active and its
  token cleared, with e-mail, password hash and tenant as before; every other row is untouched.
\<close>

theorem VerifyEmail_sound:
  assumes ok: "users_ok (pg w)" and run: "run_state (VerifyEmail E ctx token) w = (Inr (), w')"
  shows "\<exists>r n. r \<in> set (users (pg w)) \<and> ur_verification_token r = token \<and> user_visible E ctx (pg w) r
    \<and> clock E n \<le> deref_time (ur_verification_token_expires_at r)
    \<and> length (users (pg w')) = length (users (pg w))
    \<and> (\<forall>i < length (users (pg w)). let a = users (pg w) ! i; b = users (pg w') ! i in
         if a = r then ur_id b = ur_id r \<and> ur_status b = UserActive \<and> ur_verification_token b = []
             \<and> ur_verification_token_expires_at b = None \<and> ur_email b = ur_email r
             \<and> ur_password_hash b = ur_password_hash r \<and> ur_tenant_id b = ur_tenant_id r
         else b = a)"
proof -
  let ?u = "\<lambda>u. u\<lparr>u_Status := UserActive, u_VerificationToken := [], u_VerificationTokenExpiresAt := 0\<rparr>"
  let ?P = "\<lambda>r. ur_verification_token r = token \<and> user_visible E ctx (pg w) r"
  from run have "\<exists>u. scanUserFull (\<lambda>e. e) (find ?P (users (pg w))) = Inr u
      \<and> clock E (ticks (tick w)) \<le> u_VerificationTokenExpiresAt u
      \<and> run_state (UserRepository_Update E ctx (?u u)) (tick (tick w)) = (Inr (), w')"
    by (auto simp: VerifyEmail_def UserRepository_GetByVerificationToken_def io_run not_less
        split: sum.splits prod.splits if_splits)
  then obtain u w1 where s: "scanUserFull (\<lambda>e. e) (find ?P (users (pg w))) = Inr u"
    and live: "clock E (ticks w1) \<le> u_VerificationTokenExpiresAt u" and pg1: "pg w1 = pg w"
    and up: "run_state (UserRepository_Update E ctx (?u u)) (tick w1) = (Inr (), w')"
    by (elim exE conjE) (rule that[of _ "tick w"]; simp)
  from scanUserFull_Inr[OF s] obtain r where f: "find ?P (users (pg w)) = Some r"
    and u: "u_ID u = ur_id r" "u_Email u = ur_email r" "u_PasswordHash u = ur_password_hash r"
      "u_VerificationTokenExpiresAt u = deref_time (ur_verification_token_expires_at r)" by blast
  have r: "r \<in> set (users (pg w))" "?P r" using find_SomeD[OF f] by auto
  from up obtain r0 now where r0: "r0 \<in> set (users (pg w))" "ur_id r0 = ur_id r"
    and pg': "pg w' = (pg w)\<lparr>users := map (\<lambda>r'. if ur_id r' = ur_id r then set_user_columns now (?u u) r0 else r') (users (pg w))\<rparr>"
    by (rule UserRepository_Update_ok) (auto simp: u pg1)
  have "r0 = r" using users_okD[OF ok r0(1) r(1) r0(2)] .
  moreover have "ur_id a = ur_id r \<longleftrightarrow> a = r" if "a \<in> set (users (pg w))" for a
    using users_okD[OF ok that r(1)] by auto
  ultimately show ?thesis
    using r live u by (intro exI[of _ r] exI[of _ "ticks w1"])
      (auto simp: pg' Let_def set_user_columns_def nullable_time_def)
qed

definition pending_world :: world where
  "pending_world = demo_world\<lparr>pg := (pg demo_world)\<lparr>users := [(demo_user ''t1'' ''u1'' ''ana'')\<lparr>
     ur_status := UserPending, ur_verification_token := ''v'', ur_verification_token_expires_at := Some hour\<rparr>]\<rparr>\<rparr>"

theorem VerifyEmail_sound_witness:
  "\<exists>r \<in> set (users (pg pending_world)). ur_verification_token r = ''v''"
proof -
  have ok: "users_ok (pg pending_world)" by code_simp
  have "fst (run_state (VerifyEmail owner_env background ''v'') pending_world) = Inr ()" by code_simp
  from VerifyEmail_sound[OF ok run_result[OF this]] show ?thesis by blast
qed

end
