(* ===== verification/Http.thy ===== *)
theory Http
  imports Auth_Service
begin

text \<open>
  What the handlers and middleware use of \<^verbatim>\<open>net/http\<close> and \<^verbatim>\<open>encoding/json\<close>: a request with its
  headers, peer address, path and query parameters, body and context; a response with its status,
  the headers set and its body; decoding the string fields of a request struct; and the helpers of
  \<^verbatim>\<open>handlers/auth_handler.go\<close> that write responses. A header that is absent reads as the empty string.
\<close>

section \<open>Requests and responses\<close>

record request =
  rq_header :: "string \<Rightarrow> string"
  rq_RemoteAddr :: string
  rq_param :: "string \<Rightarrow> string"
  rq_query :: "string \<Rightarrow> string"
  rq_body :: "json option"   \<comment> \<open>\<open>None\<close> when the body is no JSON value\<close>
  rq_ctx :: reqctx

record response =
  rs_status :: nat
  rs_headers :: "(string \<times> string) list"
  rs_body :: json

type_synonym handler = "request \<Rightarrow> response io"

text \<open>\<^verbatim>\<open>http.Error\<close>: a plain-text body.\<close>

definition http_Error :: "string \<Rightarrow> nat \<Rightarrow> response" where
  "http_Error msg status = \<lparr>rs_status = status, rs_headers =
     [(''Content-Type'', ''text/plain; charset=utf-8''), (''X-Content-Type-Options'', ''nosniff'')], rs_body = JStr msg\<rparr>"

text \<open>The middleware passes it the text of a JSON object.\<close>

definition json_error :: "string \<Rightarrow> string" where
  "json_error m = (let q = [CHR 0x22] in ''{'' @ q @ ''error'' @ q @ '': '' @ q @ m @ q @ ''}'')"

text \<open>Headers set before the next handler runs; that handler may set them again.\<close>

definition with_headers :: "(string \<times> string) list \<Rightarrow> response \<Rightarrow> response" where
  "with_headers hs rs = rs\<lparr>rs_headers := hs @ rs_headers rs\<rparr>"

section \<open>Decoding a request body\<close>

text \<open>
  \<^verbatim>\<open>Decode\<close> into a struct with string fields: a key of the object selects a field regardless of
  case, a later occurrence overwrites an earlier one, \<^verbatim>\<open>null\<close> leaves the field as it is, and a value
  of another type is an error.
\<close>

fun json_string_field :: "string \<Rightarrow> (string \<times> json) list \<Rightarrow> string \<Rightarrow> string option" where
  "json_string_field name [] acc = Some acc"
| "json_string_field name ((k, v) # fs) acc =
     (if map ascii_lower k = name
      then (case v of JStr s \<Rightarrow> json_string_field name fs s | JNull \<Rightarrow> json_string_field name fs acc | _ \<Rightarrow> None)
      else json_string_field name fs acc)"

definition decode_strings :: "string list \<Rightarrow> json option \<Rightarrow> string list option" where
  "decode_strings names body = (case body of
     Some (JObj fs) \<Rightarrow> those (map (\<lambda>n. json_string_field n fs []) names)
   | Some JNull \<Rightarrow> Some (map (\<lambda>_. []) names)
   | _ \<Rightarrow> None)"

section \<open>Errors as text\<close>

fun sentinel_text :: "sentinel \<Rightarrow> string" where
  "sentinel_text ErrCPFInvalid = ''invalid CPF''"
| "sentinel_text ErrCPFBlacklisted = ''CPF is blacklisted or invalid''"
| "sentinel_text company_ErrNotFound = ''company not found''"
| "sentinel_text ErrCNPJInvalid = ''invalid CNPJ''"
| "sentinel_text ErrCNPJTaken = ''CNPJ already registered''"
| "sentinel_text ErrUserNotMember = ''user is not a member of this company''"
| "sentinel_text ErrInvalidRole = ''invalid company role''"
| "sentinel_text ErrAlreadyMember = ''user is already a member of this company''"
| "sentinel_text ErrCompanyInfoNotFound = ''company info not found''"
| "sentinel_text ErrCompanyInactive = ''company is inactive''"
| "sentinel_text ErrSearchNotSupported = ''text search is not supported by this provider''"
| "sentinel_text ErrCaptchaRequired = ''captcha verification required''"
| "sentinel_text ErrCaptchaExpired = ''captcha challenge expired''"
| "sentinel_text ErrCaptchaInvalid = ''captcha verification failed''"
| "sentinel_text ErrCaptchaTokenMissing = ''captcha token is required''"
| "sentinel_text session_ErrNotFound = ''session not found''"
| "sentinel_text user_ErrNotFound = ''user not found''"
| "sentinel_text postgres_ErrNotFound = ''entity not found''"
| "sentinel_text ErrRoleNotFound = ''role not found''"
| "sentinel_text invitation_ErrNotFound = ''invitation not found''"
| "sentinel_text invitation_ErrExpired = ''invitation expired''"
| "sentinel_text invitation_ErrInvalid = ''invitation invalid''"
| "sentinel_text ErrInvalidURL = ''invalid webhook URL''"
| "sentinel_text ErrEmptyEvents = ''at least one event must be subscribed''"
| "sentinel_text webhook_ErrNotFound = ''webhook not found''"
| "sentinel_text ErrInvalidCredentials = ''invalid credentials''"
| "sentinel_text ErrUserNotActive = ''user is not active''"
| "sentinel_text ErrUserNotFound = ''user not found''"
| "sentinel_text ErrInvalidResetToken = ''invalid or expired reset token''"
| "sentinel_text ErrNoProvidersAvailable = ''no company data providers available''"
| "sentinel_text ErrQueryTooShort = ''search query must be at least 3 characters''"

fun Error_text :: "go_error \<Rightarrow> string" where
  "Error_text (Sentinel s) = sentinel_text s"
| "Error_text (ErrorString m) = m"
| "Error_text (Wrapped pre e post) = pre @ Error_text e @ post"
| "Error_text (Driver m) = m"
| "Error_text (RuntimePanic m) = m"

section \<open>Writing responses\<close>

definition writeJSON :: "nat \<Rightarrow> json \<Rightarrow> response" where
  "writeJSON status data = \<lparr>rs_status = status, rs_headers = [(''Content-Type'', ''application/json'')], rs_body = data\<rparr>"

definition writeError :: "string \<Rightarrow> nat \<Rightarrow> response" where
  "writeError message status = writeJSON status (JObj [(''error'', JStr message)])"

lemma response_status [simp]:
  "rs_status (http_Error m s) = s" "rs_status (writeJSON s d) = s" "rs_status (writeError m s) = s"
  "rs_status (with_headers hs r) = rs_status r"
  by (simp_all add: http_Error_def writeJSON_def writeError_def with_headers_def)

end
