(* ===== verification/Encoding.thy ===== *)
theory Encoding
  imports Prelude
begin

text \<open>
  The encodings of \<^verbatim>\<open>encoding/base32\<close> and \<^verbatim>\<open>encoding/base64\<close> that the services use for random
  secrets: the input bytes are a sequence of bits, cut into groups of 5 or 6 from the left, the
  last group filled with zero bits, each group printed by its character of the alphabet.
\<close>

definition byte_bits :: "nat \<Rightarrow> bool list" where
  "byte_bits b = map (\<lambda>i. odd (b div 2 ^ i)) [7, 6, 5, 4, 3, 2, 1, 0]"

definition bits_of :: "nat list \<Rightarrow> bool list" where
  "bits_of bs = concat (map byte_bits bs)"

fun bits_val :: "bool list \<Rightarrow> nat" where
  "bits_val [] = 0"
| "bits_val (b # bs) = (if b then 2 ^ length bs else 0) + bits_val bs"

definition bit_group :: "nat \<Rightarrow> bool list \<Rightarrow> nat \<Rightarrow> bool list" where
  "bit_group k bits g = (let x = take k (drop (g * k) bits) in x @ replicate (k - length x) False)"

definition encode_bits :: "nat \<Rightarrow> string \<Rightarrow> nat list \<Rightarrow> string" where
  "encode_bits k alphabet bs = (let bits = bits_of bs in
     map (\<lambda>g. alphabet ! bits_val (bit_group k bits g)) [0..<(length bits + k - 1) div k])"

definition base32_alphabet :: string where
  "base32_alphabet = ''ABCDEFGHIJKLMNOPQRSTUVWXYZ234567''"

definition base64url_alphabet :: string where
  "base64url_alphabet = ''ABCDEFGHIJKLMNOPQRSTUVWXYZabcdefghijklmnopqrstuvwxyz0123456789-_''"

text \<open>
  \<^verbatim>\<open>base32.StdEncoding\<close> on inputs whose length is a multiple of five, which need no padding;
  \<^verbatim>\<open>base64.RawURLEncoding\<close>; and \<^verbatim>\<open>base64.URLEncoding\<close>, which pads to a multiple of four.
\<close>

definition base32_encode :: "nat list \<Rightarrow> string" where
  "base32_encode bs = encode_bits 5 base32_alphabet bs"

definition base64_raw_url :: "nat list \<Rightarrow> string" where
  "base64_raw_url bs = encode_bits 6 base64url_alphabet bs"

definition base64_url :: "nat list \<Rightarrow> string" where
  "base64_url bs = (let s = base64_raw_url bs in s @ replicate ((4 - length s mod 4) mod 4) CHR ''='')"

section \<open>Lengths and alphabet\<close>

lemma length_byte_bits [simp]: "length (byte_bits b) = 8"
  by (simp add: byte_bits_def)

lemma length_bits_of [simp]: "length (bits_of bs) = 8 * length bs"
  by (induction bs) (simp_all add: bits_of_def)

lemma length_encode_bits [simp]: "length (encode_bits k alphabet bs) = (8 * length bs + k - 1) div k"
  by (simp add: encode_bits_def Let_def)

lemma length_base32 [simp]: "length bs = 5 \<Longrightarrow> length (base32_encode bs) = 8"
  by (simp add: base32_encode_def)

lemma length_base64_raw [simp]: "length bs = 32 \<Longrightarrow> length (base64_raw_url bs) = 43"
  by (simp add: base64_raw_url_def)

lemma length_bit_group [simp]: "length (bit_group k bits g) = k"
  by (simp add: bit_group_def Let_def min_def)

lemma bits_val_less: "bits_val bs < 2 ^ length bs"
  by (induction bs) auto

text \<open>No index of the alphabet is out of range, so every printed character belongs to it.\<close>

lemma encode_bits_alphabet:
  assumes "2 ^ k \<le> length alphabet"
  shows "set (encode_bits k alphabet bs) \<subseteq> set alphabet"
proof -
  have "alphabet ! bits_val (bit_group k (bits_of bs) g) \<in> set alphabet" for g
    using bits_val_less[of "bit_group k (bits_of bs) g"] assms by (intro nth_mem) simp
  then show ?thesis by (auto simp: encode_bits_def Let_def)
qed

end
