(* ===== verification/Api_Key.thy ===== *)
theory Api_Key
  imports Auth_Service Encoding
begin

text \<open>
  API keys: the PostgreSQL repository (\<^verbatim>\<open>postgres/apikey_repo.go\<close>, with the constraints and the
  row-level security of migration 15) and the service (\<^verbatim>\<open>service/apikey_service.go\<close>). The repository
  sends every statement to the pool, never to the transaction of the context.
\<close>

section \<open>Repository\<close>

definition key_visible :: "environ \<Rightarrow> reqctx \<Rightarrow> tables \<Rightarrow> APIKey \<Rightarrow> bool" where
  "key_visible E ctx db k \<longleftrightarrow> company_policy E (tenant_setting ctx db) (k_TenantID k)"

definition insert_api_key :: "environ \<Rightarrow> reqctx \<Rightarrow> APIKey \<Rightarrow> time \<Rightarrow> tables \<Rightarrow> (tables \<times> nat) result" where
  "insert_api_key E ctx k t db =
     (if \<not> key_visible E ctx db k then violation ''new row violates row-level security policy''
      else if k_ID k \<in> k_ID ` set (api_keys db) then violation ''duplicate key: api_keys_pkey''
      else if k_KeyPrefix k \<in> k_KeyPrefix ` set (api_keys db) then violation ''duplicate key: unique_key_prefix''
      else if k_TenantID k \<notin> t_ID ` set (tenants db) then violation ''foreign key violation: tenant_id''
      else if k_UserID k \<notin> ur_id ` set (users db) then violation ''foreign key violation: user_id''
      else Inr (db\<lparr>api_keys := api_keys db @ [k\<lparr>k_LastUsedAt := None\<rparr>]\<rparr>, 1))"

definition APIKeyRepository_Create :: "environ \<Rightarrow> reqctx \<Rightarrow> APIKey \<Rightarrow> (unit result) io" where
  "APIKeyRepository_Create E ctx key =
     tryE (pg_exec E (pool ctx) [k_ID key, k_TenantID key, k_UserID key] (insert_api_key E (pool ctx) key))
       (wrap ''failed to create api key: '') (\<lambda>_. ret (Inr ()))"

definition scanAPIKey :: "APIKey option \<Rightarrow> APIKey result" where
  "scanAPIKey row = (case row of None \<Rightarrow> Inl (Sentinel postgres_ErrNotFound) | Some k \<Rightarrow> Inr k)"

definition APIKeyRepository_GetByPrefix :: "environ \<Rightarrow> reqctx \<Rightarrow> string \<Rightarrow> (APIKey result) io" where
  "APIKeyRepository_GetByPrefix E ctx prefix =
     tryE (pg_query E (pool ctx) [] (\<lambda>db.
        find (\<lambda>k. k_KeyPrefix k = prefix \<and> key_visible E (pool ctx) db k) (api_keys db)))
       (wrap ''failed to scan api key: '') (\<lambda>row. ret (scanAPIKey row))"

definition APIKeyRepository_ListByTenant :: "environ \<Rightarrow> reqctx \<Rightarrow> string \<Rightarrow> (APIKey list result) io" where
  "APIKeyRepository_ListByTenant E ctx tenantID =
     tryE (pg_query E (pool ctx) [tenantID] (\<lambda>db. sort_key (\<lambda>k. - k_CreatedAt k)
        (filter (\<lambda>k. k_TenantID k = tenantID \<and> key_visible E (pool ctx) db k) (api_keys db))))
       (wrap ''failed to list api keys: '') (\<lambda>rows. ret (Inr rows))"

definition APIKeyRepository_Revoke :: "environ \<Rightarrow> reqctx \<Rightarrow> string \<Rightarrow> (unit result) io" where
  "APIKeyRepository_Revoke E ctx kid =
     tryE (pg_exec E (pool ctx) [kid] (\<lambda>t db.
        let hit = (\<lambda>k. k_ID k = kid \<and> key_visible E (pool ctx) db k) in
        Inr (db\<lparr>api_keys := filter (\<lambda>k. \<not> hit k) (api_keys db)\<rparr>, length (filter hit (api_keys db)))))
       (wrap ''failed to revoke api key: '') (\<lambda>_. ret (Inr ()))"

definition APIKeyRepository_UpdateLastUsed :: "environ \<Rightarrow> reqctx \<Rightarrow> string \<Rightarrow> (unit result) io" where
  "APIKeyRepository_UpdateLastUsed E ctx kid = do {
     now \<leftarrow> time_Now E;
     tryE (pg_exec E (pool ctx) [kid] (\<lambda>t db.
        let hit = (\<lambda>k. k_ID k = kid \<and> key_visible E (pool ctx) db k) in
        Inr (db\<lparr>api_keys := map (\<lambda>k. if hit k then k\<lparr>k_LastUsedAt := Some now\<rparr> else k) (api_keys db)\<rparr>,
             length (filter hit (api_keys db)))))
       (wrap ''failed to update last used: '') (\<lambda>_. ret (Inr ())) }"

section \<open>Service\<close>

record GeneratedKey =
  gk_APIKey :: APIKey
  gk_RawKey :: string

definition CreateAPIKey :: "environ \<Rightarrow> reqctx \<Rightarrow> string \<Rightarrow> string \<Rightarrow> string \<Rightarrow> (GeneratedKey result) io" where
  "CreateAPIKey E ctx userID tenantID name =
     tryE (rand_Read E 32) (wrap ''failed to generate random bytes: '') (\<lambda>randomBytes.
       let rawKey = ''vyst_'' @ base64_raw_url randomBytes; prefix = substr rawKey 0 13 in
       tryE (Hash E rawKey) (wrap ''failed to hash key: '') (\<lambda>hashedKey. do {
         kid \<leftarrow> uuid_New E;
         now \<leftarrow> time_Now E;
         let key = \<lparr>k_ID = kid, k_TenantID = tenantID, k_UserID = userID, k_Name = name, k_KeyPrefix = prefix,
           k_KeyHash = hashedKey, k_Scopes = [''all''], k_ExpiresAt = None, k_LastUsedAt = None, k_CreatedAt = now\<rparr>;
         tryE (APIKeyRepository_Create E ctx key) (\<lambda>err. err) (\<lambda>_. ret (Inr \<lparr>gk_APIKey = key, gk_RawKey = rawKey\<rparr>)) }))"

definition ValidateAPIKey :: "environ \<Rightarrow> reqctx \<Rightarrow> string \<Rightarrow> (APIKey result) io" where
  "ValidateAPIKey E ctx rawKey =
     (if \<not> has_prefix rawKey ''vyst_'' then ret (Inl (ErrorString ''invalid key format''))
      else if length rawKey < 13 then ret (Inl (ErrorString ''invalid key length''))
      else tryE (APIKeyRepository_GetByPrefix E ctx (substr rawKey 0 13)) (\<lambda>_. ErrorString ''invalid api key'') (\<lambda>key.
        if \<not> Verify E rawKey (k_KeyHash key) then ret (Inl (ErrorString ''invalid api key''))
        else do {
          spawn (TouchAPIKey (k_ID key));
          ret (Inr key) }))"

text \<open>The goroutine that \<^verbatim>\<open>ValidateAPIKey\<close> starts.\<close>

definition run_touch :: "environ \<Rightarrow> string \<Rightarrow> unit io" where
  "run_touch E kid = do { _ \<leftarrow> APIKeyRepository_UpdateLastUsed E background kid; ret () }"

definition ListAPIKeys :: "environ \<Rightarrow> reqctx \<Rightarrow> string \<Rightarrow> (APIKey list result) io" where
  "ListAPIKeys E ctx tenantID = APIKeyRepository_ListByTenant E ctx tenantID"

definition RevokeAPIKey :: "environ \<Rightarrow> reqctx \<Rightarrow> string \<Rightarrow> (unit result) io" where
  "RevokeAPIKey E ctx kid = APIKeyRepository_Revoke E ctx kid"

section \<open>Constraints\<close>

definition api_keys_ok :: "tables \<Rightarrow> bool" where
  "api_keys_ok db \<longleftrightarrow> distinct (map k_ID (api_keys db)) \<and> distinct (map k_KeyPrefix (api_keys db))"

lemma APIKey_preserves [io_pres]:
  "preserves (\<lambda>w. api_keys_ok (pg w)) (APIKeyRepository_Create E ctx key)"
  "preserves (\<lambda>w. api_keys_ok (pg w)) (APIKeyRepository_Revoke E ctx kid)"
  "preserves (\<lambda>w. api_keys_ok (pg w)) (APIKeyRepository_UpdateLastUsed E ctx kid)"
proof -
  have upd: "map k_ID (map (\<lambda>k. if P k then k\<lparr>k_LastUsedAt := a\<rparr> else k) xs) = map k_ID xs"
    "map k_KeyPrefix (map (\<lambda>k. if P k then k\<lparr>k_LastUsedAt := a\<rparr> else k) xs) = map k_KeyPrefix xs" for P a xs
    by (simp_all add: comp_def)
  show "preserves (\<lambda>w. api_keys_ok (pg w)) (APIKeyRepository_Create E ctx key)"
    unfolding APIKeyRepository_Create_def
    by (intro io_pres io_keep) (auto simp: insert_api_key_def api_keys_ok_def split: if_splits)
  show "preserves (\<lambda>w. api_keys_ok (pg w)) (APIKeyRepository_Revoke E ctx kid)"
    unfolding APIKeyRepository_Revoke_def
    by (intro io_pres io_keep) (auto simp: api_keys_ok_def Let_def distinct_map_filter)
  show "preserves (\<lambda>w. api_keys_ok (pg w)) (APIKeyRepository_UpdateLastUsed E ctx kid)"
    unfolding APIKeyRepository_UpdateLastUsed_def
    by (intro io_pres io_keep) (auto simp: api_keys_ok_def Let_def upd simp del: map_map)
qed

lemma find_key:
  assumes "api_keys_ok db" "rls_bypass E"
  shows "find (\<lambda>k. k_KeyPrefix k = p \<and> key_visible E ctx db k) (api_keys db) = Some k
    \<longleftrightarrow> k \<in> set (api_keys db) \<and> k_KeyPrefix k = p"
proof -
  have vis: "key_visible E ctx db k" for k using assms(2) by (simp add: key_visible_def company_policy_def)
  have inj: "inj_on k_KeyPrefix (set (api_keys db))" using assms(1) by (simp add: api_keys_ok_def distinct_map)
  show ?thesis
  proof (cases "find (\<lambda>k. k_KeyPrefix k = p) (api_keys db)")
    case None
    moreover from this have "\<forall>k \<in> set (api_keys db). k_KeyPrefix k \<noteq> p" unfolding find_None_iff by blast
    ultimately show ?thesis by (auto simp: vis)
  next
    case (Some k')
    then have "k' \<in> set (api_keys db)" "k_KeyPrefix k' = p" using find_SomeD by fastforce+
    then show ?thesis using Some inj by (auto simp: vis inj_on_def)
  qed
qed

lemma run_GetByPrefix:
  assumes "\<And>n. pg_fault E n = None"
  shows "run_state (APIKeyRepository_GetByPrefix E ctx p) w =
    (scanAPIKey (find (\<lambda>k. k_KeyPrefix k = p \<and> key_visible E (pool ctx) (pg w) k) (api_keys (pg w))), tick w)"
  using assms by (simp add: APIKeyRepository_GetByPrefix_def io_run pg_gate_def)

section \<open>Correctness\<close>

lemma ValidateAPIKey_iff:
  assumes "\<And>n. pg_fault E n = None" "rls_bypass E" "api_keys_ok (pg w)"
  shows "fst (run_state (ValidateAPIKey E ctx rawKey) w) = Inr k \<longleftrightarrow>
    has_prefix rawKey ''vyst_'' \<and> 13 \<le> length rawKey \<and> k \<in> set (api_keys (pg w))
    \<and> k_KeyPrefix k = take 13 rawKey \<and> Verify E rawKey (k_KeyHash k)"
proof -
  have "substr rawKey 0 13 = take 13 rawKey" by (simp add: substr_def)
  then show ?thesis
    using find_key[OF assms(3,2), where p = "take 13 rawKey" and ctx = "pool ctx" and k = k]
    by (cases "find (\<lambda>k. k_KeyPrefix k = take 13 rawKey \<and> key_visible E (pool ctx) (pg w) k) (api_keys (pg w))")
      (auto simp: ValidateAPIKey_def run_tryE run_GetByPrefix[OF assms(1)] scanAPIKey_def run_spawn not_less)
qed

text \<open>
  Which keys are accepted: when PostgreSQL answers a role that sees every row, \<^verbatim>\<open>ValidateAPIKey\<close>
  returns a key exactly when the text starts with \<^verbatim>\<open>vyst_\<close>, has at least 13 characters, and the
  returned key is the stored one with that prefix, whose hash verifies; its \<^verbatim>\<open>ExpiresAt\<close> plays no role.
\<close>

theorem ValidateAPIKey_exact:
  assumes "\<And>n. pg_fault E n = None" "rls_bypass E" "api_keys_ok (pg w)"
  shows "fst (run_state (ValidateAPIKey E ctx rawKey) w) = Inr k \<longleftrightarrow>
    has_prefix rawKey ''vyst_'' \<and> 13 \<le> length rawKey \<and> k \<in> set (api_keys (pg w))
    \<and> k_KeyPrefix k = take 13 rawKey \<and> Verify E rawKey (k_KeyHash k)"
  by (rule ValidateAPIKey_iff[OF assms])

definition api_world :: world where
  "api_world = demo_world\<lparr>pg := (pg demo_world)\<lparr>api_keys := [\<lparr>k_ID = ''k1'', k_TenantID = ''t1'', k_UserID = ''u1'',
     k_Name = ''ci'', k_KeyPrefix = ''vyst_12345678'', k_KeyHash = ''h:vyst_123456789'', k_Scopes = [''all''],
     k_ExpiresAt = Some 5, k_LastUsedAt = None, k_CreatedAt = 1\<rparr>]\<rparr>\<rparr>"

theorem ValidateAPIKey_exact_witness:
  "\<exists>k. fst (run_state (ValidateAPIKey owner_env background ''vyst_123456789'') api_world) = Inr k
     \<and> k_ExpiresAt k = Some 5 \<and> clock owner_env 0 > 5"
proof -
  have h: "\<And>n. pg_fault owner_env n = None" "rls_bypass owner_env" "api_keys_ok (pg api_world)"
    by (simp_all add: owner_env_def demo_env_def api_world_def api_keys_ok_def)
  note iff = ValidateAPIKey_exact[OF h, where rawKey = "''vyst_123456789''" and ctx = background]
  have "api_keys (pg api_world) \<noteq> []" "has_prefix ''vyst_123456789'' ''vyst_''"
    "k_KeyPrefix (hd (api_keys (pg api_world))) = take 13 ''vyst_123456789''"
    "Verify owner_env ''vyst_123456789'' (k_KeyHash (hd (api_keys (pg api_world))))"
    "k_ExpiresAt (hd (api_keys (pg api_world))) = Some 5" "clock owner_env 0 > 5"
    by (simp_all add: api_world_def has_prefix_def Verify_def owner_env_def demo_env_def)
  then show ?thesis using iff[of "hd (api_keys (pg api_world))"] by auto
qed

lemma CreateAPIKey_ok:
  assumes "run_state (CreateAPIKey E ctx u t name) w = (Inr gk, w')"
  shows "gk_APIKey gk \<in> set (api_keys (pg w')) \<and> k_KeyPrefix (gk_APIKey gk) = take 13 (gk_RawKey gk)
    \<and> has_prefix (gk_RawKey gk) ''vyst_'' \<and> length (gk_RawKey gk) = 48
    \<and> (\<exists>n. bcrypt_hash E n (gk_RawKey gk) = Inr (k_KeyHash (gk_APIKey gk)))
    \<and> k_TenantID (gk_APIKey gk) = t \<and> k_UserID (gk_APIKey gk) = u"
proof -
  from assms obtain f where f: "rand_read E (ticks w) = Inr f"
    by (cases "rand_read E (ticks w)") (simp_all add: CreateAPIKey_def run_tryE run_rand_Read)
  let ?raw = "''vyst_'' @ base64_raw_url (map (\<lambda>i. f i mod 256) [0..<32])"
  from assms f obtain h where h: "bcrypt_hash E (Suc (ticks w)) ?raw = Inr h"
    by (cases "bcrypt_hash E (Suc (ticks w)) ?raw") (simp_all add: CreateAPIKey_def run_tryE run_rand_Read Hash_def Let_def)
  let ?w = "tick (tick (tick (tick w)))"
  let ?key = "\<lparr>k_ID = new_uuid E (Suc (Suc (ticks w))), k_TenantID = t, k_UserID = u, k_Name = name, k_KeyPrefix = substr ?raw 0 13,
           k_KeyHash = h, k_Scopes = [''all''], k_ExpiresAt = None, k_LastUsedAt = None, k_CreatedAt = clock E (Suc (Suc (Suc (ticks w))))\<rparr>"
  from assms f h have c: "run_state (APIKeyRepository_Create E ctx ?key) ?w = (Inr (), w')"
    and gk: "gk = \<lparr>gk_APIKey = ?key, gk_RawKey = ?raw\<rparr>"
    by (auto simp: CreateAPIKey_def run_tryE run_rand_Read Hash_def Let_def io_run split: sum.splits prod.splits)
  have len: "length ?raw = 48" by (simp add: length_base64_raw)
  have "?key \<in> set (api_keys (pg w'))"
    using c by (auto simp: APIKeyRepository_Create_def io_run insert_api_key_def split: sum.splits if_splits)
  then show ?thesis using h len unfolding gk by (auto simp: has_prefix_def substr_def)
qed

lemma CreateAPIKey_preserves: "preserves (\<lambda>w. api_keys_ok (pg w)) (CreateAPIKey E ctx u t name)"
  unfolding CreateAPIKey_def Let_def Hash_def
  by (intro io_pres io_keep) (simp_all add: keeps_def)

lemma CreateAPIKey_accepted:
  assumes "\<And>n. pg_fault E n = None" "rls_bypass E" "api_keys_ok (pg w)"
    and "\<And>n p h. bcrypt_hash E n p = Inr h \<Longrightarrow> bcrypt_verify E p h"
    and "run_state (CreateAPIKey E ctx u t name) w = (Inr gk, w1)" "api_keys (pg w2) = api_keys (pg w1)"
  shows "fst (run_state (ValidateAPIKey E ctx' (gk_RawKey gk)) w2) = Inr (gk_APIKey gk)"
proof -
  have "api_keys_ok (pg w1)" by (rule preservesD[OF CreateAPIKey_preserves assms(3,5)])
  then have "api_keys_ok (pg w2)" using assms(6) by (simp add: api_keys_ok_def)
  from ValidateAPIKey_iff[OF assms(1,2) this] assms(6) CreateAPIKey_ok[OF assms(5)] show ?thesis
    using assms(4) by (auto simp: Verify_def)
qed

lemma Revoke_ok:
  assumes "run_state (APIKeyRepository_Revoke E ctx kid) w = (Inr (), w')" "rls_bypass E"
  shows "api_keys (pg w') = filter (\<lambda>k. k_ID k \<noteq> kid) (api_keys (pg w))"
  using assms by (auto simp: APIKeyRepository_Revoke_def io_run key_visible_def company_policy_def split: sum.splits)

text \<open>
  Life of an API key: when \<^verbatim>\<open>CreateAPIKey\<close> returns a key and its raw text, the raw text has 48
  characters and \<^verbatim>\<open>ValidateAPIKey\<close> accepts it in every later state with these keys, returning the
  very key; after \<^verbatim>\<open>RevokeAPIKey\<close> of its id no text is accepted as that key. PostgreSQL must answer
  a role that sees every row, and bcrypt verify what it hashed.
\<close>

theorem api_key_lifecycle:
  assumes "\<And>n. pg_fault E n = None" "rls_bypass E" "api_keys_ok (pg w)"
    and "\<And>n p h. bcrypt_hash E n p = Inr h \<Longrightarrow> bcrypt_verify E p h"
    and "run_state (CreateAPIKey E ctx u t name) w = (Inr gk, w1)"
  shows "length (gk_RawKey gk) = 48
    \<and> (\<forall>w2. api_keys (pg w2) = api_keys (pg w1) \<longrightarrow> fst (run_state (ValidateAPIKey E ctx' (gk_RawKey gk)) w2) = Inr (gk_APIKey gk))
    \<and> (\<forall>w3 raw k. run_state (RevokeAPIKey E ctx (k_ID (gk_APIKey gk))) w1 = (Inr (), w3)
         \<and> fst (run_state (ValidateAPIKey E ctx' raw) w3) = Inr k \<longrightarrow> k_ID k \<noteq> k_ID (gk_APIKey gk))"
proof (intro conjI allI impI)
  note ok = CreateAPIKey_ok[OF assms(5)]
  show "length (gk_RawKey gk) = 48" using ok by blast
  have inv: "api_keys_ok (pg w1)" by (rule preservesD[OF CreateAPIKey_preserves assms(3,5)])
  show "fst (run_state (ValidateAPIKey E ctx' (gk_RawKey gk)) w2) = Inr (gk_APIKey gk)"
    if "api_keys (pg w2) = api_keys (pg w1)" for w2
    by (rule CreateAPIKey_accepted[OF assms that])
  show "k_ID k \<noteq> k_ID (gk_APIKey gk)"
    if h: "run_state (RevokeAPIKey E ctx (k_ID (gk_APIKey gk))) w1 = (Inr (), w3)
      \<and> fst (run_state (ValidateAPIKey E ctx' raw) w3) = Inr k" for w3 raw k
  proof -
    from h have r: "run_state (APIKeyRepository_Revoke E ctx (k_ID (gk_APIKey gk))) w1 = (Inr (), w3)"
      by (simp add: RevokeAPIKey_def)
    have "api_keys_ok (pg w3)" by (rule preservesD[OF APIKey_preserves(2) inv r])
    from ValidateAPIKey_iff[OF assms(1,2) this] h have "k \<in> set (api_keys (pg w3))" by blast
    then show ?thesis unfolding Revoke_ok[OF r assms(2)] by simp
  qed
qed

lemma demo_keys:
  "\<And>n. pg_fault owner_env n = None" "rls_bypass owner_env" "api_keys_ok (pg demo_world)"
  "\<And>n p h. bcrypt_hash owner_env n p = Inr h \<Longrightarrow> bcrypt_verify owner_env p h"
  by (simp_all add: owner_env_def demo_env_def demo_world_def empty_world_def empty_tables_def api_keys_ok_def)

lemma demo_CreateAPIKey:
  "\<exists>gk w1. run_state (CreateAPIKey owner_env ctx ''u1'' ''t1'' ''ci'') demo_world = (Inr gk, w1)"
  by (simp add: CreateAPIKey_def run_tryE run_rand_Read Hash_def io_run Let_def APIKeyRepository_Create_def pg_gate_def
      insert_api_key_def key_visible_def company_policy_def owner_env_def demo_env_def demo_world_def
      empty_world_def empty_tables_def demo_tenant_def demo_user_def user_to_row_def zeroUser_def)

theorem api_key_lifecycle_witness:
  "\<exists>gk w1. run_state (CreateAPIKey owner_env background ''u1'' ''t1'' ''ci'') demo_world = (Inr gk, w1)
     \<and> fst (run_state (ValidateAPIKey owner_env background (gk_RawKey gk)) w1) = Inr (gk_APIKey gk)"
proof -
  note h = demo_keys
  obtain gk w1 where r: "run_state (CreateAPIKey owner_env background ''u1'' ''t1'' ''ci'') demo_world = (Inr gk, w1)"
    using demo_CreateAPIKey by blast
  have "fst (run_state (ValidateAPIKey owner_env background (gk_RawKey gk)) w1) = Inr (gk_APIKey gk)"
    using api_key_lifecycle[OF h(1-3) _ r, where ctx' = background] h(4) by blast
  then show ?thesis using r by blast
qed

end
