(* ===== verification/Middleware.thy ===== *)
theory Middleware
  imports Http Api_Key
begin

text \<open>
  The HTTP middleware (\<^verbatim>\<open>interfaces/http/middleware\<close>): authentication by API key or bearer token,
  the company-role guard, the per-address rate limiter, the monthly quota, token revocation, request
  metadata and security headers. A middleware is a function from the next handler to a handler.
\<close>

section \<open>Authentication\<close>

text \<open>
  The context values are those of the keys of type \<^verbatim>\<open>contextKey\<close>. Without an API-key validator the
  flag \<open>validator\<close> is false.
\<close>

definition with_value :: "string \<Rightarrow> string \<Rightarrow> reqctx \<Rightarrow> reqctx" where
  "with_value k v ctx = ctx\<lparr>ctx_typed := (ctx_typed ctx)(k \<mapsto> v)\<rparr>"

definition key_context :: "APIKey \<Rightarrow> reqctx \<Rightarrow> reqctx" where
  "key_context key ctx =
     (with_value ''tenant_id'' (k_TenantID key) (with_value ''user_id'' (k_UserID key) ctx))\<lparr>ctx_roles := Some (k_Scopes key)\<rparr>"

definition claims_context :: "Claims \<Rightarrow> reqctx \<Rightarrow> reqctx" where
  "claims_context claims ctx =
     (with_value ''tenant_id'' (cl_TenantID claims) (with_value ''user_id'' (cl_UserID claims) ctx))
       \<lparr>ctx_roles := Some (cl_Roles claims), ctx_claims := Some claims\<rparr>"

definition Auth :: "environ \<Rightarrow> bool \<Rightarrow> handler \<Rightarrow> handler" where
  "Auth E validator next_handler rq =
     (if rq_header rq ''X-API-Key'' \<noteq> [] then
        if \<not> validator then ret (http_Error (json_error ''API Key authentication not supported'') 501)
        else do {
          r \<leftarrow> ValidateAPIKey E (rq_ctx rq) (rq_header rq ''X-API-Key'');
          case r of
            Inl _ \<Rightarrow> ret (http_Error (json_error ''Invalid API Key'') 401)
          | Inr key \<Rightarrow> next_handler (rq\<lparr>rq_ctx := key_context key (rq_ctx rq)\<rparr>) }
      else if rq_header rq ''Authorization'' = [] then ret (http_Error (json_error ''Authorization header or X-API-Key required'') 401)
      else case split2 (CHR '' '') (rq_header rq ''Authorization'') of
        [scheme, tokenString] \<Rightarrow>
          if scheme \<noteq> ''Bearer'' then ret (http_Error (json_error ''Invalid authorization format'') 401)
          else do {
            r \<leftarrow> token_ValidateToken E tokenString;
            case r of
              Inl _ \<Rightarrow> ret (http_Error (json_error ''Invalid token'') 401)
            | Inr claims \<Rightarrow> next_handler (rq\<lparr>rq_ctx := claims_context claims (rq_ctx rq)\<rparr>) }
      | _ \<Rightarrow> ret (http_Error (json_error ''Invalid authorization format'') 401))"

definition UserIDFromContext :: "reqctx \<Rightarrow> string option" where
  "UserIDFromContext ctx = ctx_typed ctx ''user_id''"

definition TenantIDFromContext :: "reqctx \<Rightarrow> string option" where
  "TenantIDFromContext ctx = ctx_typed ctx ''tenant_id''"

definition RolesFromContext :: "reqctx \<Rightarrow> string list" where
  "RolesFromContext ctx = (case ctx_roles ctx of None \<Rightarrow> [] | Some roles \<Rightarrow> roles)"

definition UserAgentFromContext :: "reqctx \<Rightarrow> string" where
  "UserAgentFromContext ctx = (case ctx_typed ctx ''user_agent'' of None \<Rightarrow> ''unknown'' | Some ua \<Rightarrow> ua)"

definition IPAddressFromContext :: "reqctx \<Rightarrow> string" where
  "IPAddressFromContext ctx = (case ctx_typed ctx ''ip_address'' of None \<Rightarrow> ''unknown'' | Some ip \<Rightarrow> ip)"

fun role_loop :: "string \<Rightarrow> string list \<Rightarrow> bool" where
  "role_loop role [] = False"
| "role_loop role (r # rs) = (if r = role then True else role_loop role rs)"

definition HasRole :: "reqctx \<Rightarrow> string \<Rightarrow> bool" where
  "HasRole ctx role = role_loop role (RolesFromContext ctx)"

definition IsSuperAdmin :: "reqctx \<Rightarrow> bool" where
  "IsSuperAdmin ctx = HasRole ctx ''super_admin''"

section \<open>Company roles\<close>

definition hasSufficientRole :: "CompanyRole \<Rightarrow> CompanyRole \<Rightarrow> bool" where
  "hasSufficientRole userRole requiredRole =
     (if userRole = RoleAdmin then True
      else if requiredRole = RoleAdmin then False
      else if userRole = RoleMember then requiredRole = RoleMember \<or> requiredRole = RoleViewer
      else if userRole = RoleViewer then requiredRole = RoleViewer
      else False)"

definition RequiredCompanyRole :: "CompanyRole \<Rightarrow> handler \<Rightarrow> handler" where
  "RequiredCompanyRole requiredRole next_handler rq = (case ctx_claims (rq_ctx rq) of
     None \<Rightarrow> ret (http_Error ''Unauthorized: No claims found'' 401)
   | Some claims \<Rightarrow>
       if cl_ActiveCompanyID claims = [] then ret (http_Error ''Forbidden: No active company context'' 403)
       else if cl_CompanyRole claims = [] then ret (http_Error ''Forbidden: No role in active company'' 403)
       else if \<not> hasSufficientRole (cl_CompanyRole claims) requiredRole
         then ret (http_Error ''Forbidden: Insufficient permissions'' 403)
       else next_handler rq)"

section \<open>Counters in Redis\<close>

text \<open>
  \<^verbatim>\<open>INCR\<close>: a missing or expired key counts from zero and keeps no expiry, a number is increased and
  keeps its expiry, and a value of another kind is an error. \<^verbatim>\<open>EXPIRE\<close> and \<^verbatim>\<open>EXPIREAT\<close> set the expiry of an existing key.
\<close>

definition redis_incr_at :: "time \<Rightarrow> string \<Rightarrow> (string \<rightharpoonup> rentry) \<Rightarrow> (int \<times> (string \<rightharpoonup> rentry)) result" where
  "redis_incr_at now k m = (case redis_lookup now m k of
     None \<Rightarrow> Inr (1, m(k \<mapsto> \<lparr>r_val = RInt 1, r_expires = None\<rparr>))
   | Some (RInt n) \<Rightarrow> Inr (n + 1, m(k \<mapsto> \<lparr>r_val = RInt (n + 1), r_expires = r_expires (the (m k))\<rparr>))
   | Some _ \<Rightarrow> Inl (Driver ''value is not an integer or out of range''))"

definition redis_Incr :: "environ \<Rightarrow> string \<Rightarrow> (int result) io" where
  "redis_Incr E k = State (\<lambda>w. case redis_gate E w of
       Inl e \<Rightarrow> (Inl e, tick w)
     | Inr now \<Rightarrow> (case redis_incr_at now k (redis w) of
         Inl e \<Rightarrow> (Inl e, tick w)
       | Inr (n, m) \<Rightarrow> (Inr n, (tick w)\<lparr>redis := m\<rparr>)))"

definition expire_at :: "time \<Rightarrow> time \<Rightarrow> string \<Rightarrow> (string \<rightharpoonup> rentry) \<Rightarrow> (string \<rightharpoonup> rentry)" where
  "expire_at now at k m = (case m k of
     None \<Rightarrow> m
   | Some e \<Rightarrow> if alive now e then m(k \<mapsto> e\<lparr>r_expires := Some at\<rparr>) else m)"

definition redis_Expire :: "environ \<Rightarrow> string \<Rightarrow> duration \<Rightarrow> (unit result) io" where
  "redis_Expire E k ttl = redis_do E (\<lambda>now. expire_at now (now + ttl) k)"

section \<open>Rate limiting\<close>

record RateLimiter =
  rl_limit :: int
  rl_window :: duration

definition ratelimit_key :: "string \<Rightarrow> string" where
  "ratelimit_key ip = ''ratelimit:'' @ ip"

definition RateLimiter_Middleware :: "environ \<Rightarrow> RateLimiter \<Rightarrow> handler \<Rightarrow> handler" where
  "RateLimiter_Middleware E rl next_handler rq = do {
     let key = ratelimit_key (rq_RemoteAddr rq);
     r \<leftarrow> redis_Incr E key;
     case r of
       Inl _ \<Rightarrow> next_handler rq
     | Inr count \<Rightarrow> do {
         _ \<leftarrow> (if count = 1 then redis_Expire E key (rl_window rl) else ret (Inr ()));
         if rl_limit rl < count
         then ret (with_headers [(''X-RateLimit-Limit'', string_of_int (rl_limit rl)), (''X-RateLimit-Remaining'', ''0''),
                    (''Retry-After'', string_of_int (rl_window rl div second))]
                (http_Error (json_error ''Rate limit exceeded'') 429))
         else do {
           rs \<leftarrow> next_handler rq;
           ret (with_headers [(''X-RateLimit-Limit'', string_of_int (rl_limit rl)),
                  (''X-RateLimit-Remaining'', string_of_int (rl_limit rl - count))] rs) } } }"

section \<open>Quotas\<close>

record QuotaPlan =
  qp_Name :: string
  qp_AuthsPerMonth :: int
  qp_UsersLimit :: int
  qp_RatePerMinute :: int

definition DefaultPlans :: "string \<rightharpoonup> QuotaPlan" where
  "DefaultPlans = [
     ''free'' \<mapsto> \<lparr>qp_Name = ''Free'', qp_AuthsPerMonth = 1000, qp_UsersLimit = 10, qp_RatePerMinute = 60\<rparr>,
     ''pro'' \<mapsto> \<lparr>qp_Name = ''Pro'', qp_AuthsPerMonth = 50000, qp_UsersLimit = 100, qp_RatePerMinute = 300\<rparr>,
     ''enterprise'' \<mapsto> \<lparr>qp_Name = ''Enterprise'', qp_AuthsPerMonth = -1, qp_UsersLimit = -1, qp_RatePerMinute = 1000\<rparr>]"

record QuotaUsage =
  qu_TenantID :: string
  qu_PlanName :: string
  qu_AuthsThisMonth :: int
  qu_AuthsLimit :: int
  qu_UsersCount :: int
  qu_UsersLimit :: int
  qu_ResetDate :: time

text \<open>Indexing the map of plans with an absent name gives the zero plan.\<close>

definition plan_or_zero :: "(string \<rightharpoonup> QuotaPlan) \<Rightarrow> string \<Rightarrow> QuotaPlan" where
  "plan_or_zero plans name = (case plans name of Some p \<Rightarrow> p
     | None \<Rightarrow> \<lparr>qp_Name = [], qp_AuthsPerMonth = 0, qp_UsersLimit = 0, qp_RatePerMinute = 0\<rparr>)"

definition plan_key :: "string \<Rightarrow> string" where
  "plan_key tenantID = ''tenant:'' @ tenantID @ '':plan''"

definition getTenantPlan :: "environ \<Rightarrow> (string \<rightharpoonup> QuotaPlan) \<Rightarrow> string \<Rightarrow> QuotaPlan io" where
  "getTenantPlan E plans tenantID = do {
     r \<leftarrow> redis_Get E (plan_key tenantID);
     ret (case r of
       Inr (Some (RStr planName)) \<Rightarrow> (case plans planName of
           Some plan \<Rightarrow> if planName = [] then plan_or_zero plans ''free'' else plan
         | None \<Rightarrow> plan_or_zero plans ''free'')
     | _ \<Rightarrow> plan_or_zero plans ''free'') }"

definition two_digits :: "nat \<Rightarrow> string" where
  "two_digits n = (if n < 10 then ''0'' @ string_of_nat n else string_of_nat n)"

definition getMonthKey :: "environ \<Rightarrow> string \<Rightarrow> string io" where
  "getMonthKey E tenantID = do {
     now \<leftarrow> time_Now E;
     let (year, month) = year_month E now;
     ret (''quota:'' @ tenantID @ '':'' @ string_of_nat year @ ''-'' @ two_digits month) }"

definition getResetDate :: "environ \<Rightarrow> time io" where
  "getResetDate E = do { now \<leftarrow> time_Now E; ret (next_month E now) }"

definition getCurrentUsage :: "environ \<Rightarrow> string \<Rightarrow> (int result) io" where
  "getCurrentUsage E tenantID = do {
     key \<leftarrow> getMonthKey E tenantID;
     r \<leftarrow> redis_Get E key;
     ret (case r of
       Inl e \<Rightarrow> Inl e
     | Inr None \<Rightarrow> Inr 0
     | Inr (Some (RInt n)) \<Rightarrow> Inr n
     | Inr (Some _) \<Rightarrow> Inl (Driver ''strconv.ParseInt: invalid syntax'')) }"

text \<open>The two commands of the pipeline travel together: one round trip carries both.\<close>

definition incrementUsage :: "environ \<Rightarrow> string \<Rightarrow> unit io" where
  "incrementUsage E tenantID = do {
     key \<leftarrow> getMonthKey E tenantID;
     reset \<leftarrow> getResetDate E;
     _ \<leftarrow> redis_do E (\<lambda>now m. case redis_incr_at now key m of
        Inl _ \<Rightarrow> expire_at now (reset + 24 * hour) key m
      | Inr (n, m') \<Rightarrow> expire_at now (reset + 24 * hour) key m');
     ret () }"

definition writeQuotaExceeded :: "environ \<Rightarrow> QuotaPlan \<Rightarrow> int \<Rightarrow> response io" where
  "writeQuotaExceeded E plan usage = do {
     reset1 \<leftarrow> getResetDate E;
     reset2 \<leftarrow> getResetDate E;
     now \<leftarrow> time_Now E;
     reset3 \<leftarrow> getResetDate E;
     ret \<lparr>rs_status = 402,
       rs_headers = [(''Content-Type'', ''application/json''), (''X-Quota-Limit'', string_of_int (qp_AuthsPerMonth plan)),
         (''X-Quota-Remaining'', ''0''), (''X-Quota-Reset'', string_of_int reset1),
         (''Retry-After'', string_of_int ((reset2 - now) div second))],
       rs_body = JObj [(''error'', JStr ''quota_exceeded''),
         (''message'', JStr ''Monthly authentication quota exceeded. Please upgrade your plan.''),
         (''current_plan'', JStr (qp_Name plan)), (''usage'', JNum usage), (''limit'', JNum (qp_AuthsPerMonth plan)),
         (''reset_date'', JNum reset3)]\<rparr> }"

definition QuotaEnforcer_Middleware :: "environ \<Rightarrow> (string \<rightharpoonup> QuotaPlan) \<Rightarrow> handler \<Rightarrow> handler" where
  "QuotaEnforcer_Middleware E plans next_handler rq =
     (let tenantID = rq_header rq ''X-Tenant-ID'' in
      if tenantID = [] then next_handler rq
      else do {
        plan \<leftarrow> getTenantPlan E plans tenantID;
        if qp_AuthsPerMonth plan = -1 then next_handler rq
        else do {
          r \<leftarrow> getCurrentUsage E tenantID;
          case r of
            Inl _ \<Rightarrow> next_handler rq
          | Inr usage \<Rightarrow>
              if qp_AuthsPerMonth plan \<le> usage then writeQuotaExceeded E plan usage
              else do {
                incrementUsage E tenantID;
                let remaining = max 0 (qp_AuthsPerMonth plan - usage - 1);
                reset \<leftarrow> getResetDate E;
                rs \<leftarrow> next_handler rq;
                ret (with_headers [(''X-Quota-Limit'', string_of_int (qp_AuthsPerMonth plan)),
                  (''X-Quota-Remaining'', string_of_int remaining), (''X-Quota-Reset'', string_of_int reset)] rs) } } })"

definition GetUsage :: "environ \<Rightarrow> (string \<rightharpoonup> QuotaPlan) \<Rightarrow> string \<Rightarrow> (QuotaUsage result) io" where
  "GetUsage E plans tenantID = do {
     plan \<leftarrow> getTenantPlan E plans tenantID;
     tryE (getCurrentUsage E tenantID) (\<lambda>e. e) (\<lambda>usage. do {
       reset \<leftarrow> getResetDate E;
       ret (Inr \<lparr>qu_TenantID = tenantID, qu_PlanName = qp_Name plan, qu_AuthsThisMonth = usage,
         qu_AuthsLimit = qp_AuthsPerMonth plan, qu_UsersCount = 0, qu_UsersLimit = qp_UsersLimit plan, qu_ResetDate = reset\<rparr>) }) }"

definition SetTenantPlan :: "environ \<Rightarrow> (string \<rightharpoonup> QuotaPlan) \<Rightarrow> string \<Rightarrow> string \<Rightarrow> (unit result) io" where
  "SetTenantPlan E plans tenantID planName =
     (if plans planName = None then ret (Inl (ErrorString (''unknown plan: '' @ planName)))
      else redis_Set E (plan_key tenantID) (RStr planName) 0)"

text \<open>\<^verbatim>\<open>SADD\<close> keeps the expiry of the key, which nothing else writes.\<close>

definition AddActiveTenant :: "environ \<Rightarrow> string \<Rightarrow> (unit result) io" where
  "AddActiveTenant E tenantID = redis_do E (\<lambda>now. redis_sadd now ''tenants:active'' tenantID (-1))"

definition GetActiveTenants :: "environ \<Rightarrow> (string list result) io" where
  "GetActiveTenants E = redis_SMembers E ''tenants:active''"

section \<open>Request metadata and headers\<close>

definition split_first :: "char \<Rightarrow> string \<Rightarrow> string" where
  "split_first c s = takeWhile (\<lambda>x. x \<noteq> c) s"

definition is_space :: "char \<Rightarrow> bool" where
  "is_space c \<longleftrightarrow> of_char c \<in> {9, 10, 11, 12, 13, 32 :: nat}"

definition trim_space :: "string \<Rightarrow> string" where
  "trim_space s = rev (dropWhile is_space (rev (dropWhile is_space s)))"

text \<open>\<^verbatim>\<open>strings.LastIndex\<close> of a character; \<open>None\<close> stands for \<open>-1\<close>.\<close>

definition last_index :: "string \<Rightarrow> char \<Rightarrow> nat option" where
  "last_index s c = (if c \<in> set s then Some (length s - 1 - length (takeWhile (\<lambda>x. x \<noteq> c) (rev s))) else None)"

definition getClientIP :: "request \<Rightarrow> string" where
  "getClientIP rq =
     (let xff = rq_header rq ''X-Forwarded-For''; xri = rq_header rq ''X-Real-IP''; addr = rq_RemoteAddr rq in
      if xff \<noteq> [] then trim_space (split_first (CHR '','') xff)
      else if xri \<noteq> [] then xri
      else case last_index addr (CHR '':'') of
          None \<Rightarrow> addr
        | Some idx \<Rightarrow>
            (if CHR ''['' \<in> set addr
             then (case last_index addr (CHR '']'') of Some bracketEnd \<Rightarrow> substr addr 1 bracketEnd | None \<Rightarrow> substr addr 0 idx)
             else substr addr 0 idx))"

definition RequestMetadata :: "handler \<Rightarrow> handler" where
  "RequestMetadata next_handler rq =
     (let ua = (if rq_header rq ''User-Agent'' = [] then ''unknown'' else rq_header rq ''User-Agent'') in
      next_handler (rq\<lparr>rq_ctx := with_value ''ip_address'' (getClientIP rq) (with_value ''user_agent'' ua (rq_ctx rq))\<rparr>))"

definition SecurityHeaders :: "handler \<Rightarrow> handler" where
  "SecurityHeaders next_handler rq = do {
     rs \<leftarrow> next_handler rq;
     ret (with_headers
       [(''Strict-Transport-Security'', ''max-age=31536000; includeSubDomains''),
        (''X-Content-Type-Options'', ''nosniff''), (''X-Frame-Options'', ''DENY''),
        (''X-XSS-Protection'', ''1; mode=block''),
        (''Content-Security-Policy'', ''default-src 'self'; script-src 'self' 'unsafe-inline' 'unsafe-eval'; style-src 'self' 'unsafe-inline'; connect-src 'self'; img-src 'self' data:; font-src 'self'; frame-ancestors 'none'' @ [CHR 0x27]),
        (''Referrer-Policy'', ''strict-origin-when-cross-origin''),
        (''Permissions-Policy'', ''geolocation=(), microphone=(), camera=()'')] rs) }"

section \<open>Revocation\<close>

text \<open>The in-memory store is the set of revoked token ids.\<close>

definition IsRevoked :: "string set \<Rightarrow> string \<Rightarrow> bool result" where
  "IsRevoked store tokenID = Inr (tokenID \<in> store)"

definition Revoke_token :: "string \<Rightarrow> string set \<Rightarrow> string set" where
  "Revoke_token tokenID store = insert tokenID store"

definition Revocation :: "environ \<Rightarrow> string set \<Rightarrow> handler \<Rightarrow> handler" where
  "Revocation E store next_handler rq =
     (if rq_header rq ''Authorization'' = [] then ret (http_Error (json_error ''Authorization header required'') 401)
      else do {
        r \<leftarrow> token_ValidateToken E (trim_prefix (rq_header rq ''Authorization'') ''Bearer '');
        case r of
          Inl _ \<Rightarrow> ret (http_Error (json_error ''Invalid token'') 401)
        | Inr claims \<Rightarrow> (case IsRevoked store (cl_ID claims) of
            Inl _ \<Rightarrow> ret (http_Error (json_error ''Internal server error'') 500)
          | Inr revoked \<Rightarrow> if revoked then ret (http_Error (json_error ''Token revoked'') 401) else next_handler rq) })"

section \<open>Authentication is required\<close>

lemma keeps_ValidateAPIKey [io_keep]:
  "keeps pg (ValidateAPIKey E ctx raw)" "keeps redis (ValidateAPIKey E ctx raw)"
  unfolding ValidateAPIKey_def APIKeyRepository_GetByPrefix_def by (intro io_keep)+

lemma split2_Bearer: "split2 (CHR '' '') s = [''Bearer'', tok] \<Longrightarrow> s = ''Bearer '' @ tok"
proof -
  assume a: "split2 (CHR '' '') s = [''Bearer'', tok]"
  then have t: "takeWhile (\<lambda>x. x \<noteq> CHR '' '') s = ''Bearer''" "tl (dropWhile (\<lambda>x. x \<noteq> CHR '' '') s) = tok" "CHR '' '' \<in> set s"
    by (auto simp: split2_def split: if_splits)
  let ?d = "dropWhile (\<lambda>x. x \<noteq> CHR '' '') s"
  have "?d \<noteq> []" using t(3) by (simp add: dropWhile_eq_Nil_conv)
  moreover from hd_dropWhile[OF this] have "hd ?d = CHR '' ''" by simp
  ultimately have "?d = CHR '' '' # tl ?d" by (cases ?d) auto
  then show ?thesis using takeWhile_dropWhile_id[of "\<lambda>x. x \<noteq> CHR '' ''" s] t by simp
qed

text \<open>
  Behind \<^verbatim>\<open>Auth\<close> every request is authenticated: either the response is 401 or 501 and no
  handler ran and no table changed, or the next handler ran once with the request's own context
  extended by the user and tenant of an API key that \<^verbatim>\<open>ValidateAPIKey\<close> accepted for the presented
  text, or of the claims that \<^verbatim>\<open>ValidateToken\<close> read from the presented bearer token.
\<close>

lemma Auth_cases:
  assumes "run_state (Auth E validator next_handler rq) w = (rs, w')"
  shows "((rs_status rs = 401 \<or> \<not> validator \<and> rs_status rs = 501) \<and> pg w' = pg w \<and> redis w' = redis w)
    \<or> (\<exists>key w1. run_state (ValidateAPIKey E (rq_ctx rq) (rq_header rq ''X-API-Key'')) w = (Inr key, w1)
         \<and> run_state (next_handler (rq\<lparr>rq_ctx := key_context key (rq_ctx rq)\<rparr>)) w1 = (rs, w'))
    \<or> (\<exists>tok claims n. rq_header rq ''Authorization'' = ''Bearer '' @ tok \<and> jwt_parse E (clock E n) tok = Inr claims
         \<and> run_state (next_handler (rq\<lparr>rq_ctx := claims_context claims (rq_ctx rq)\<rparr>)) (tick w) = (rs, w'))"
proof (cases "rq_header rq ''X-API-Key'' = []")
  case False
  obtain r w1 where r: "run_state (ValidateAPIKey E (rq_ctx rq) (rq_header rq ''X-API-Key'')) w = (r, w1)" by fastforce
  have "pg w1 = pg w" "redis w1 = redis w" using keepsD[OF keeps_ValidateAPIKey(1) r] keepsD[OF keeps_ValidateAPIKey(2) r] by simp_all
  then show ?thesis
  proof (cases "\<exists>key. validator \<and> r = Inr key")
    case True
    then obtain key where "validator" "r = Inr key" by blast
    then show ?thesis using assms False r by (intro disjI2 disjI1 exI[of _ key] exI[of _ w1]) (simp add: Auth_def)
  next
    case refused: False
    then have "(rs_status rs = 401 \<or> \<not> validator \<and> rs_status rs = 501) \<and> (w' = w1 \<or> w' = w)"
      using assms False r by (cases r) (auto simp: Auth_def split: if_splits)
    then show ?thesis using \<open>pg w1 = pg w\<close> \<open>redis w1 = redis w\<close> by blast
  qed
next
  case True
  show ?thesis
  proof (cases "\<exists>tok. rq_header rq ''Authorization'' = ''Bearer '' @ tok")
    case t: True
    then obtain tok where h: "rq_header rq ''Authorization'' = ''Bearer '' @ tok" by blast
    then have "split2 (CHR '' '') (rq_header rq ''Authorization'') = [''Bearer'', tok]" by (simp add: split2_def)
    then have run: "run_state (case jwt_parse E (clock E (ticks w)) tok of Inl _ \<Rightarrow> ret (http_Error (json_error ''Invalid token'') 401)
        | Inr claims \<Rightarrow> next_handler (rq\<lparr>rq_ctx := claims_context claims (rq_ctx rq)\<rparr>)) (tick w) = (rs, w')"
      using assms True h by (simp add: Auth_def token_ValidateToken_def run_time_Now)
    show ?thesis
    proof (cases "jwt_parse E (clock E (ticks w)) tok")
      case (Inl e)
      then show ?thesis using run by (intro disjI1) auto
    next
      case (Inr claims)
      then show ?thesis using run h by (intro disjI2 exI[of _ tok] exI[of _ claims] exI[of _ "ticks w"]) simp
    qed
  next
    case False
    then have "rs_status rs = 401 \<and> w' = w"
      using assms True split2_Bearer[of "rq_header rq ''Authorization''"]
      by (auto simp: Auth_def split: if_splits list.splits)
    then show ?thesis by simp
  qed
qed

definition plain_request :: request where
  "plain_request = \<lparr>rq_header = (\<lambda>_. []), rq_RemoteAddr = ''10.0.0.1:5000'', rq_param = (\<lambda>_. []), rq_query = (\<lambda>_. []),
     rq_body = None, rq_ctx = background\<rparr>"

definition who_am_i :: handler where
  "who_am_i rq = ret (writeJSON 200 (case UserIDFromContext (rq_ctx rq) of None \<Rightarrow> JNull | Some u \<Rightarrow> JStr u))"

section \<open>Roles form an order\<close>

definition role_rank :: "CompanyRole \<Rightarrow> nat" where
  "role_rank r = (if r = RoleAdmin then 3 else if r = RoleMember then 2 else if r = RoleViewer then 1 else 0)"

text \<open>
  \<^verbatim>\<open>RequiredCompanyRole\<close> enforces the order viewer, member, admin: for a required role that is
  valid, the request goes to the next handler exactly when the claims name an active company and a
  role of at least the required rank; every other request is answered 401 or 403 and nothing runs.
\<close>

theorem RequiredCompanyRole_exact:
  assumes "CompanyRole_IsValid required"
  shows "run_state (RequiredCompanyRole required next_handler rq) w =
    (case ctx_claims (rq_ctx rq) of
       None \<Rightarrow> (http_Error ''Unauthorized: No claims found'' 401, w)
     | Some c \<Rightarrow> if cl_ActiveCompanyID c \<noteq> [] \<and> role_rank required \<le> role_rank (cl_CompanyRole c)
                then run_state (next_handler rq) w
                else (http_Error (if cl_ActiveCompanyID c = [] then ''Forbidden: No active company context''
                        else if cl_CompanyRole c = [] then ''Forbidden: No role in active company''
                        else ''Forbidden: Insufficient permissions'') 403, w))"
proof -
  have "hasSufficientRole u required \<longleftrightarrow> role_rank required \<le> role_rank u" for u
    using assms by (auto simp: hasSufficientRole_def role_rank_def CompanyRole_IsValid_def)
  moreover have "0 < role_rank required" "role_rank [] = 0"
    using assms by (auto simp: role_rank_def CompanyRole_IsValid_def)
  ultimately show ?thesis by (auto simp: RequiredCompanyRole_def split: option.splits)
qed

definition member_claims :: Claims where
  "member_claims = \<lparr>cl_UserID = ''u1'', cl_TenantID = ''t1'', cl_Roles = [], cl_ActiveCompanyID = ''c1'',
     cl_CompanyRole = RoleMember, cl_IdentityType = ''company'', cl_ExpiresAt = 9000, cl_IssuedAt = 1, cl_NotBefore = 1,
     cl_Issuer = ''vyst'', cl_ID = []\<rparr>"

theorem RequiredCompanyRole_exact_witness:
  "rs_status (fst (run_state (RequiredCompanyRole RoleAdmin who_am_i
     (plain_request\<lparr>rq_ctx := background\<lparr>ctx_claims := Some member_claims\<rparr>\<rparr>)) empty_world)) = 403"
  using RequiredCompanyRole_exact[of RoleAdmin who_am_i "plain_request\<lparr>rq_ctx := background\<lparr>ctx_claims := Some member_claims\<rparr>\<rparr>"]
  by (simp add: CompanyRole_IsValid_def member_claims_def role_rank_def)

section \<open>The rate limit holds\<close>

text \<open>Requests served one after the other.\<close>

fun serve_all :: "handler \<Rightarrow> request list \<Rightarrow> response list io" where
  "serve_all h [] = ret []"
| "serve_all h (rq # rqs) = do { rs \<leftarrow> h rq; rss \<leftarrow> serve_all h rqs; ret (rs # rss) }"

definition counted :: "string \<Rightarrow> int \<Rightarrow> time \<Rightarrow> world \<Rightarrow> bool" where
  "counted k n x w \<longleftrightarrow> redis w k = Some \<lparr>r_val = RInt n, r_expires = Some x\<rparr>"

text \<open>A handler that neither touches the counter nor answers 429 itself.\<close>

definition quiet :: "string \<Rightarrow> handler \<Rightarrow> bool" where
  "quiet k h \<longleftrightarrow> (\<forall>rq. keeps (\<lambda>w. redis w k) (h rq) \<and> advances (h rq) \<and> (\<forall>w. rs_status (fst (run_state (h rq) w)) \<noteq> 429))"

lemma quiet_run:
  assumes "quiet k h" "run_state (h rq) w = (rs, w')"
  shows "redis w' k = redis w k" "ticks w \<le> ticks w'" "rs_status rs \<noteq> 429"
proof -
  from assms(1) have h: "keeps (\<lambda>w. redis w k) (h rq)" "advances (h rq)" "rs_status (fst (run_state (h rq) w)) \<noteq> 429"
    unfolding quiet_def by blast+
  show "redis w' k = redis w k" by (rule keepsD[OF h(1) assms(2)])
  show "ticks w \<le> ticks w'" by (rule advancesD[OF h(2) assms(2)])
  show "rs_status rs \<noteq> 429" using h(3) assms(2) by simp
qed

lemma advances_redis_counters [io_adv]: "advances (redis_Incr E k)" "advances (redis_Expire E k ttl)"
  by (simp_all add: advances_def redis_Incr_def redis_Expire_def io_run split: sum.splits prod.splits)

lemma advances_RateLimiter:
  assumes "quiet k h" shows "advances (RateLimiter_Middleware E rl h rq)"
proof -
  have "advances (h rq)" using assms by (simp add: quiet_def)
  then show ?thesis unfolding RateLimiter_Middleware_def Let_def by (intro io_adv)
qed

lemma advances_serve_all: "(\<And>rq. advances (h rq)) \<Longrightarrow> advances (serve_all h rqs)"
  by (induction rqs) (auto intro!: io_adv)

lemma RateLimiter_counted:
  assumes up: "\<And>n. redis_fault E n = None" and c: "counted k n x w" and n: "1 \<le> n" and t: "clock E (ticks w) < x"
    and k: "k = ratelimit_key (rq_RemoteAddr rq)" and q: "quiet k h"
    and r: "run_state (RateLimiter_Middleware E rl h rq) w = (rs, w')"
  shows "counted k (n + 1) x w' \<and> (rs_status rs \<noteq> 429 \<longleftrightarrow> n + 1 \<le> rl_limit rl)"
proof -
  let ?w = "(tick w)\<lparr>redis := (redis w)(k \<mapsto> \<lparr>r_val = RInt (n + 1), r_expires = Some x\<rparr>)\<rparr>"
  have inc: "run_state (redis_Incr E k) w = (Inr (n + 1), ?w)"
    using up c t by (simp add: redis_Incr_def redis_gate_def redis_incr_at_def redis_lookup_def alive_def counted_def)
  obtain rs0 w0 where h: "run_state (h rq) ?w = (rs0, w0)" by fastforce
  show ?thesis using r n inc quiet_run[OF q h] h
    by (auto simp: RateLimiter_Middleware_def Let_def k[symmetric] counted_def split: if_splits)
qed

lemma RateLimiter_first:
  assumes up: "\<And>n. redis_fault E n = None" and c: "redis_lookup (clock E (ticks w)) (redis w) k = None"
    and k: "k = ratelimit_key (rq_RemoteAddr rq)" and q: "quiet k h"
    and r: "run_state (RateLimiter_Middleware E rl h rq) w = (rs, w')"
  shows "counted k 1 (clock E (Suc (ticks w)) + rl_window rl) w' \<and> (rs_status rs \<noteq> 429 \<longleftrightarrow> 1 \<le> rl_limit rl)"
proof -
  let ?w1 = "(tick w)\<lparr>redis := (redis w)(k \<mapsto> \<lparr>r_val = RInt 1, r_expires = None\<rparr>)\<rparr>"
  let ?x = "clock E (Suc (ticks w)) + rl_window rl"
  let ?w2 = "(tick (tick w))\<lparr>redis := (redis w)(k \<mapsto> \<lparr>r_val = RInt 1, r_expires = Some ?x\<rparr>)\<rparr>"
  have inc: "run_state (redis_Incr E k) w = (Inr 1, ?w1)"
    using up c by (simp add: redis_Incr_def redis_gate_def redis_incr_at_def)
  have exp: "run_state (redis_Expire E k (rl_window rl)) ?w1 = (Inr (), ?w2)"
    using up by (simp add: redis_Expire_def run_redis_do redis_gate_def expire_at_def alive_def)
  obtain rs0 w0 where h: "run_state (h rq) ?w2 = (rs0, w0)" by fastforce
  show ?thesis using r inc exp quiet_run[OF q h] h
    by (auto simp: RateLimiter_Middleware_def Let_def k[symmetric] counted_def split: if_splits)
qed

lemma serve_all_counted:
  assumes up: "\<And>n. redis_fault E n = None" and mono: "mono (clock E)" and q: "quiet k h"
  shows "run_state (serve_all (RateLimiter_Middleware E rl h) rqs) w = (rss, w') \<Longrightarrow> counted k n x w \<Longrightarrow> 1 \<le> n
    \<Longrightarrow> clock E (ticks w') < x \<Longrightarrow> \<forall>rq \<in> set rqs. ratelimit_key (rq_RemoteAddr rq) = k
    \<Longrightarrow> length (filter (\<lambda>rs. rs_status rs \<noteq> 429) rss) = min (length rqs) (nat (rl_limit rl - n))"
proof (induction rqs arbitrary: w n rss)
  case Nil
  then show ?case by simp
next
  case (Cons rq rqs)
  obtain rs w1 where r: "run_state (RateLimiter_Middleware E rl h rq) w = (rs, w1)" by fastforce
  obtain rss1 w2 where rest: "run_state (serve_all (RateLimiter_Middleware E rl h) rqs) w1 = (rss1, w2)" by fastforce
  have eq: "w2 = w'" "rss = rs # rss1" using Cons.prems(1) r rest by simp_all
  have "ticks w \<le> ticks w'"
    using advancesD[OF advances_RateLimiter[OF q] r] advancesD[OF advances_serve_all rest] advances_RateLimiter[OF q] eq by auto
  then have "clock E (ticks w) < x" using monoD[OF mono] Cons.prems(4) by (meson le_less_trans)
  then have step: "counted k (n + 1) x w1 \<and> (rs_status rs \<noteq> 429 \<longleftrightarrow> n + 1 \<le> rl_limit rl)"
    using RateLimiter_counted[OF up Cons.prems(2,3) _ _ q r] Cons.prems(5) by auto
  from Cons.IH[OF rest[unfolded eq]] step Cons.prems
  have "length (filter (\<lambda>rs. rs_status rs \<noteq> 429) rss1) = min (length rqs) (nat (rl_limit rl - (n + 1)))" by auto
  then show ?case using step eq by (auto simp: min_def nat_diff_distrib')
qed



text \<open>
  A lost \<^verbatim>\<open>EXPIRE\<close> locks an address out for good: its error is ignored, so when it fails after the
  first request the counter has no expiry, and once the limit is reached the address is refused
  thirty years later.
\<close>

theorem ratelimit_lockout:
  "(let E = demo_env\<lparr>redis_fault := (\<lambda>n. if n = 1 then Some ''i/o timeout'' else None),
        clock := (\<lambda>n. if n < 2 then 0 else 30 * 365 * 24 * hour)\<rparr> in
    map rs_status (fst (run_state (serve_all (RateLimiter_Middleware E \<lparr>rl_limit = 1, rl_window = minute\<rparr> who_am_i)
      [plain_request, plain_request]) empty_world)) = [200, 429])"
  by code_simp

section \<open>What the services see of the context\<close>

text \<open>
  The middleware stores under keys of type \<^verbatim>\<open>contextKey\<close>, the services read under plain string keys,
  so the tenant, the user agent and the address of a request never reach them.
\<close>

lemma context_keys_differ:
  "ctx_Value (claims_context c ctx) k = ctx_Value ctx k" "ctx_Value (key_context a ctx) k = ctx_Value ctx k"
  "getStringFromContext (with_value k' v ctx) k d = getStringFromContext ctx k d"
  by (simp_all add: ctx_Value_def claims_context_def key_context_def with_value_def getStringFromContext_def)

lemma role_loop_iff: "role_loop role rs \<longleftrightarrow> role \<in> set rs"
  by (induction rs) auto

end
