(* ===== verification/Captcha.thy ===== *)
theory Captcha
  imports World Complex_Main
begin

text \<open>
  CAPTCHA verification: the value objects of \<^verbatim>\<open>domain/captcha/captcha.go\<close> and the Cloudflare Turnstile
  service of \<^verbatim>\<open>infrastructure/security/captcha.go\<close>. The HTTP call to Cloudflare and the parser of
  time stamps are parameters; a score is a rational number.
\<close>

section \<open>Domain\<close>

abbreviation TypeInvisible :: string where "TypeInvisible \<equiv> ''invisible''"
abbreviation TypeInteractive :: string where "TypeInteractive \<equiv> ''interactive''"
abbreviation TypeManaged :: string where "TypeManaged \<equiv> ''managed''"

definition CaptchaType_IsValid :: "string \<Rightarrow> bool" where
  "CaptchaType_IsValid t \<longleftrightarrow> t \<in> {TypeInvisible, TypeInteractive, TypeManaged}"

record Challenge =
  ch_ID :: string
  ch_Type :: string
  ch_SiteKey :: string
  ch_ExpiresAt :: time
  ch_CreatedAt :: time

definition NewChallenge :: "time \<Rightarrow> string \<Rightarrow> string \<Rightarrow> string \<Rightarrow> duration \<Rightarrow> Challenge result" where
  "NewChallenge now cid siteKey captchaType ttl =
     (if cid = [] then Inl (ErrorString ''challenge id is required'')
      else if siteKey = [] then Inl (ErrorString ''site key is required'')
      else Inr \<lparr>ch_ID = cid, ch_Type = (if CaptchaType_IsValid captchaType then captchaType else TypeManaged),
        ch_SiteKey = siteKey, ch_ExpiresAt = now + ttl, ch_CreatedAt = now\<rparr>)"

definition Challenge_IsExpired :: "time \<Rightarrow> Challenge \<Rightarrow> bool" where
  "Challenge_IsExpired now c \<longleftrightarrow> ch_ExpiresAt c < now"

record captcha_Result =
  cr_Success :: bool
  cr_Score :: rat
  cr_Action :: string
  cr_ChallengeTS :: time
  cr_Hostname :: string
  cr_ErrorCodes :: "string list"

definition captcha_NewResult :: "time \<Rightarrow> bool \<Rightarrow> rat \<Rightarrow> captcha_Result" where
  "captcha_NewResult now success score = \<lparr>cr_Success = success, cr_Score = score, cr_Action = [],
     cr_ChallengeTS = now, cr_Hostname = [], cr_ErrorCodes = []\<rparr>"

definition IsHuman :: "captcha_Result \<Rightarrow> bool" where
  "IsHuman r \<longleftrightarrow> cr_Success r \<and> 1 / 2 \<le> cr_Score r"

definition IsBot :: "captcha_Result \<Rightarrow> bool" where
  "IsBot r \<longleftrightarrow> \<not> cr_Success r \<or> cr_Score r < 1 / 2"

definition HasErrors :: "captcha_Result \<Rightarrow> bool" where
  "HasErrors r \<longleftrightarrow> cr_ErrorCodes r \<noteq> []"

section \<open>Turnstile\<close>

record turnstileResponse =
  tr_Success :: bool
  tr_ChallengeTS :: string
  tr_Hostname :: string
  tr_ErrorCodes :: "string list"
  tr_Action :: string
  tr_CData :: string

text \<open>The outside: a POST gives a transport error, an undecodable body (\<open>Inr None\<close>) or a response.\<close>

record turnstile_api =
  ta_post :: "nat \<Rightarrow> json \<Rightarrow> turnstileResponse option result"
  ta_parse_time :: "string \<Rightarrow> time option"

record TurnstileService =
  tn_secretKey :: string
  tn_siteKey :: string
  tn_enabled :: bool

definition NewTurnstileService :: "string \<Rightarrow> string \<Rightarrow> TurnstileService" where
  "NewTurnstileService siteKey secretKey =
     \<lparr>tn_secretKey = secretKey, tn_siteKey = siteKey, tn_enabled = (secretKey \<noteq> [] \<and> siteKey \<noteq> [])\<rparr>"

definition defaultScore :: rat where
  "defaultScore = 1"

definition turnstile_body :: "TurnstileService \<Rightarrow> string \<Rightarrow> string \<Rightarrow> json" where
  "turnstile_body s token remoteIP =
     JObj ([(''secret'', JStr (tn_secretKey s)), (''response'', JStr token)] @ omitempty ''remoteip'' remoteIP)"

definition verifyWithTurnstile ::
    "environ \<Rightarrow> turnstile_api \<Rightarrow> TurnstileService \<Rightarrow> string \<Rightarrow> string \<Rightarrow> (captcha_Result result) io" where
  "verifyWithTurnstile E api s token remoteIP =
     tryE (State (\<lambda>w. (ta_post api (ticks w) (turnstile_body s token remoteIP), tick w)))
       (wrap ''failed to call turnstile API: '') (\<lambda>body. case body of
         None \<Rightarrow> ret (Inl (wrap ''failed to decode response: '' (ErrorString ''invalid character'')))
       | Some apiResp \<Rightarrow> do {
           now \<leftarrow> time_Now E;
           let ts = (if tr_ChallengeTS apiResp = [] then now
                     else case ta_parse_time api (tr_ChallengeTS apiResp) of None \<Rightarrow> now | Some t \<Rightarrow> t);
           ret (Inr \<lparr>cr_Success = tr_Success apiResp, cr_Score = defaultScore, cr_Action = tr_Action apiResp,
             cr_ChallengeTS = ts, cr_Hostname = tr_Hostname apiResp, cr_ErrorCodes = tr_ErrorCodes apiResp\<rparr>) })"

text \<open>The result and the error: an invalid token gives both.\<close>

definition ValidateTokenWithResult ::
    "environ \<Rightarrow> turnstile_api \<Rightarrow> TurnstileService \<Rightarrow> string \<Rightarrow> string \<Rightarrow> (captcha_Result option \<times> go_error option) io" where
  "ValidateTokenWithResult E api s token remoteIP =
     (if \<not> tn_enabled s then do { now \<leftarrow> time_Now E; ret (Some (captcha_NewResult now True defaultScore), None) }
      else if token = [] then ret (None, Some (Sentinel ErrCaptchaTokenMissing))
      else do {
        r \<leftarrow> verifyWithTurnstile E api s token remoteIP;
        case r of
          Inl err \<Rightarrow> ret (None, Some (wrap ''failed to verify captcha: '' err))
        | Inr result \<Rightarrow> if cr_Success result then ret (Some result, None)
                        else ret (Some result, Some (Sentinel ErrCaptchaInvalid)) })"

definition captcha_ValidateToken ::
    "environ \<Rightarrow> turnstile_api \<Rightarrow> TurnstileService \<Rightarrow> string \<Rightarrow> string \<Rightarrow> (go_error option) io" where
  "captcha_ValidateToken E api s token remoteIP = do {
     r \<leftarrow> ValidateTokenWithResult E api s token remoteIP;
     ret (snd r) }"

definition captcha_GetConfig :: "TurnstileService \<Rightarrow> json" where
  "captcha_GetConfig s = JObj [(''site_key'', JStr (tn_siteKey s)), (''enabled'', JBool (tn_enabled s))]"

section \<open>Properties\<close>

lemma IsBot_IsHuman: "IsBot r \<longleftrightarrow> \<not> IsHuman r"
  by (auto simp: IsBot_def IsHuman_def)

lemma keeps_captcha [io_keep]:
  "keeps pg (verifyWithTurnstile E api s token ip)" "keeps redis (verifyWithTurnstile E api s token ip)"
  "keeps pg (captcha_ValidateToken E api s token ip)" "keeps redis (captcha_ValidateToken E api s token ip)"
proof -
  have post: "keeps f (State (\<lambda>w. (g w, tick w)))" if "\<And>w. f (tick w) = f w" for f :: "world \<Rightarrow> 'c" and g :: "world \<Rightarrow> 'd"
    using that by (simp add: keeps_def)
  show v: "keeps pg (verifyWithTurnstile E api s token ip)" "keeps redis (verifyWithTurnstile E api s token ip)"
    unfolding verifyWithTurnstile_def Let_def by (intro io_keep post; simp)+
  show "keeps pg (captcha_ValidateToken E api s token ip)" "keeps redis (captcha_ValidateToken E api s token ip)"
    unfolding captcha_ValidateToken_def ValidateTokenWithResult_def by (intro io_keep v)+
qed

text \<open>A token passes exactly when the service is disabled or Cloudflare confirms the token.\<close>

lemma captcha_passes_iff:
  "fst (run_state (captcha_ValidateToken E api s token ip) w) = None \<longleftrightarrow>
     \<not> tn_enabled s \<or> token \<noteq> [] \<and> (\<exists>r. ta_post api (ticks w) (turnstile_body s token ip) = Inr (Some r) \<and> tr_Success r)"
  by (cases "ta_post api (ticks w) (turnstile_body s token ip)")
    (auto simp: captcha_ValidateToken_def ValidateTokenWithResult_def verifyWithTurnstile_def Let_def run_tryE io_run
      split: option.splits)

end
