(* ===== verification/Two_Factor.thy ===== *)
theory Two_Factor
  imports Auth_Service Encoding
begin

text \<open>
  Two-factor authentication: the PostgreSQL repository of TOTP secrets (\<^verbatim>\<open>postgres/totp_repo.go\<close>, with
  the unique user, the foreign key and the row-level security of migration 18) and the service
  (\<^verbatim>\<open>service/totp_service.go\<close>). Generating a key and validating a code are functions of the
  third-party package and parameters of the environment. A nil store of temporary tokens is the
  flag \<open>store = False\<close>.
\<close>

section \<open>Repository\<close>

definition totp_visible :: "environ \<Rightarrow> reqctx \<Rightarrow> tables \<Rightarrow> string \<Rightarrow> bool" where
  "totp_visible E ctx db uid \<longleftrightarrow> rls_bypass E \<or> (\<exists>r \<in> set (users db). ur_id r = uid \<and> user_visible E ctx db r)"

definition insert_totp :: "environ \<Rightarrow> reqctx \<Rightarrow> TOTPSecret \<Rightarrow> time \<Rightarrow> tables \<Rightarrow> (tables \<times> nat) result" where
  "insert_totp E ctx s t db =
     (if \<not> totp_visible E ctx db (ts_UserID s) then violation ''new row violates row-level security policy''
      else if ts_UserID s \<in> ts_UserID ` set (totp_secrets db) then violation ''duplicate key: totp_secrets_user_id_key''
      else if ts_UserID s \<notin> ur_id ` set (users db) then violation ''foreign key violation: user_id''
      else Inr (db\<lparr>totp_secrets := totp_secrets db @ [s\<lparr>ts_CreatedAt := t, ts_UpdatedAt := t\<rparr>]\<rparr>, 1))"

text \<open>The id is the column's default \<^verbatim>\<open>gen_random_uuid()\<close>.\<close>

definition TOTPRepository_Create :: "environ \<Rightarrow> reqctx \<Rightarrow> TOTPSecret \<Rightarrow> (unit result) io" where
  "TOTPRepository_Create E ctx secret = do {
     oid \<leftarrow> uuid_New E;
     tryE (pg_exec E ctx [] (insert_totp E ctx (secret\<lparr>ts_ID := oid\<rparr>)))
       (wrap ''failed to create TOTP secret: '') (\<lambda>_. ret (Inr ())) }"

definition TOTPRepository_GetByUserID :: "environ \<Rightarrow> reqctx \<Rightarrow> string \<Rightarrow> (TOTPSecret option result) io" where
  "TOTPRepository_GetByUserID E ctx userID =
     tryE (pg_query E ctx [] (\<lambda>db.
        find (\<lambda>s. ts_UserID s = userID \<and> totp_visible E ctx db (ts_UserID s)) (totp_secrets db)))
       (wrap ''failed to get TOTP secret: '') (\<lambda>row. ret (Inr row))"

definition update_totp :: "environ \<Rightarrow> reqctx \<Rightarrow> TOTPSecret \<Rightarrow> time \<Rightarrow> tables \<Rightarrow> (tables \<times> nat) result" where
  "update_totp E ctx secret t db =
     (let hit = (\<lambda>s. ts_UserID s = ts_UserID secret \<and> totp_visible E ctx db (ts_UserID s)) in
      Inr (db\<lparr>totp_secrets := map (\<lambda>s. if hit s then s\<lparr>ts_Enabled := ts_Enabled secret,
             ts_BackupCodes := ts_BackupCodes secret, ts_UpdatedAt := t\<rparr> else s) (totp_secrets db)\<rparr>,
           length (filter hit (totp_secrets db))))"

definition TOTPRepository_Update :: "environ \<Rightarrow> reqctx \<Rightarrow> TOTPSecret \<Rightarrow> (unit result) io" where
  "TOTPRepository_Update E ctx secret =
     tryE (pg_exec E ctx [] (update_totp E ctx secret)) (wrap ''failed to update TOTP secret: '')
       (\<lambda>_. ret (Inr ()))"

definition TOTPRepository_Delete :: "environ \<Rightarrow> reqctx \<Rightarrow> string \<Rightarrow> (unit result) io" where
  "TOTPRepository_Delete E ctx userID =
     tryE (pg_exec E ctx [] (\<lambda>t db.
        let hit = (\<lambda>s. ts_UserID s = userID \<and> totp_visible E ctx db (ts_UserID s)) in
        Inr (db\<lparr>totp_secrets := filter (\<lambda>s. \<not> hit s) (totp_secrets db)\<rparr>, length (filter hit (totp_secrets db)))))
       (wrap ''failed to delete TOTP secret: '') (\<lambda>_. ret (Inr ()))"

section \<open>Service\<close>

definition totp_Generate :: "environ \<Rightarrow> string \<Rightarrow> string \<Rightarrow> ((string \<times> string) result) io" where
  "totp_Generate E issuer account = State (\<lambda>w. (totp_generate E (ticks w) issuer account, tick w))"

definition totp_Validate :: "environ \<Rightarrow> string \<Rightarrow> string \<Rightarrow> bool io" where
  "totp_Validate E code secret = do { now \<leftarrow> time_Now E; ret (totp_validate E now code secret) }"

record TOTPSetupResult =
  sr_Secret :: string
  sr_QRCodeURL :: string
  sr_BackupCodes :: "string list"

definition backup_code :: "nat list \<Rightarrow> string" where
  "backup_code bytes = (let code = base32_encode bytes in substr code 0 4 @ ''-'' @ substr code 4 8)"

fun generateBackupCodes :: "environ \<Rightarrow> nat \<Rightarrow> (string list result) io" where
  "generateBackupCodes E 0 = ret (Inr [])"
| "generateBackupCodes E (Suc n) =
     tryE (rand_Read E 5) (\<lambda>e. e) (\<lambda>bytes.
     tryE (generateBackupCodes E n) (\<lambda>e. e) (\<lambda>codes. ret (Inr (backup_code bytes # codes))))"

definition GenerateSecret ::
    "environ \<Rightarrow> string \<Rightarrow> reqctx \<Rightarrow> string \<Rightarrow> string \<Rightarrow> (TOTPSetupResult result) io" where
  "GenerateSecret E issuer ctx userID email =
     tryE (ret (uuid_parse E userID)) (wrap ''invalid user ID: '') (\<lambda>uid.
     tryE (TOTPRepository_GetByUserID E ctx uid) (wrap ''failed to check existing secret: '') (\<lambda>existing.
     tryE (totp_Generate E issuer email) (wrap ''failed to generate TOTP key: '') (\<lambda>key.
     tryE (generateBackupCodes E 8) (wrap ''failed to generate backup codes: '') (\<lambda>backupCodes.
       let secret = \<lparr>ts_ID = zero_uuid, ts_UserID = uid, ts_Secret = fst key, ts_Enabled = False,
             ts_BackupCodes = backupCodes, ts_CreatedAt = zero_time, ts_UpdatedAt = zero_time\<rparr>;
           result = \<lparr>sr_Secret = fst key, sr_QRCodeURL = snd key, sr_BackupCodes = backupCodes\<rparr> in
       (case existing of
          Some ex \<Rightarrow> tryE (TOTPRepository_Update E ctx (secret\<lparr>ts_ID := ts_ID ex\<rparr>))
                       (wrap ''failed to update secret: '') (\<lambda>_. ret (Inr result))
        | None \<Rightarrow> tryE (TOTPRepository_Create E ctx secret) (wrap ''failed to store secret: '')
                    (\<lambda>_. ret (Inr result)))))))"

definition VerifySetup :: "environ \<Rightarrow> reqctx \<Rightarrow> string \<Rightarrow> string \<Rightarrow> (unit result) io" where
  "VerifySetup E ctx userID code =
     tryE (ret (uuid_parse E userID)) (wrap ''invalid user ID: '') (\<lambda>uid. do {
       r \<leftarrow> TOTPRepository_GetByUserID E ctx uid;
       case r of
         Inr (Some secret) \<Rightarrow> do {
           ok \<leftarrow> totp_Validate E code (ts_Secret secret);
           if \<not> ok then ret (Inl (ErrorString ''invalid verification code''))
           else tryE (TOTPRepository_Update E ctx (secret\<lparr>ts_Enabled := True\<rparr>))
                  (wrap ''failed to enable 2FA: '') (\<lambda>_. ret (Inr ())) }
       | _ \<Rightarrow> ret (Inl (ErrorString ''no TOTP secret found, please set up 2FA first'')) })"

definition IsEnabled :: "environ \<Rightarrow> reqctx \<Rightarrow> string \<Rightarrow> (bool result) io" where
  "IsEnabled E ctx userID =
     tryE (ret (uuid_parse E userID)) (wrap ''invalid user ID: '') (\<lambda>uid.
     tryE (TOTPRepository_GetByUserID E ctx uid) (wrap ''failed to check 2FA status: '') (\<lambda>secret.
       ret (Inr (case secret of None \<Rightarrow> False | Some s \<Rightarrow> ts_Enabled s))))"

text \<open>The loop over the backup codes: the remaining codes when one of them is the given code.\<close>

fun spend_backup_code :: "string \<Rightarrow> string list \<Rightarrow> string list option" where
  "spend_backup_code code [] = None"
| "spend_backup_code code (bc # bcs) =
     (if bc = code then Some bcs else map_option ((#) bc) (spend_backup_code code bcs))"

definition VerifyCode :: "environ \<Rightarrow> reqctx \<Rightarrow> string \<Rightarrow> string \<Rightarrow> bool io" where
  "VerifyCode E ctx userID code = (case uuid_parse E userID of Inl e \<Rightarrow> ret False
     | Inr uid \<Rightarrow> do {
         r \<leftarrow> TOTPRepository_GetByUserID E ctx uid;
         case r of
           Inr (Some secret) \<Rightarrow>
             if \<not> ts_Enabled secret then ret False
             else do {
               ok \<leftarrow> totp_Validate E code (ts_Secret secret);
               if ok then ret True
               else (case spend_backup_code code (ts_BackupCodes secret) of
                  None \<Rightarrow> ret False
                | Some codes \<Rightarrow> do {
                    _ \<leftarrow> TOTPRepository_Update E ctx (secret\<lparr>ts_BackupCodes := codes\<rparr>);
                    ret True }) }
         | _ \<Rightarrow> ret False })"

definition Disable :: "environ \<Rightarrow> reqctx \<Rightarrow> string \<Rightarrow> (unit result) io" where
  "Disable E ctx userID =
     tryE (ret (uuid_parse E userID)) (wrap ''invalid user ID: '') (\<lambda>uid. TOTPRepository_Delete E ctx uid)"

definition tempTokenTTL :: duration where
  "tempTokenTTL = 5 * minute"

definition temp_key :: "string \<Rightarrow> string" where
  "temp_key tok = ''2fa_temp:'' @ tok"

definition GenerateTempToken :: "environ \<Rightarrow> bool \<Rightarrow> string \<Rightarrow> (string result) io" where
  "GenerateTempToken E store userID =
     tryE (rand_Read E 32) (wrap ''failed to generate token: '') (\<lambda>token.
       let tokenStr = base64_url token in
       if store then tryE (SessionStore_SaveString E (temp_key tokenStr) userID tempTokenTTL)
                       (wrap ''failed to store temp token: '') (\<lambda>_. ret (Inr tokenStr))
       else ret (Inr tokenStr))"

definition ValidateTempToken :: "environ \<Rightarrow> bool \<Rightarrow> string \<Rightarrow> (string result) io" where
  "ValidateTempToken E store tempToken =
     (if \<not> store then ret (Inl (ErrorString ''temp token store not available''))
      else tryE (SessionStore_GetString E (temp_key tempToken))
        (\<lambda>_. ErrorString ''invalid or expired temporary token'') (\<lambda>userID. do {
          _ \<leftarrow> SessionStore_Delete E (temp_key tempToken);
          ret (Inr userID) }))"

section \<open>Frames and effects\<close>

lemma keeps_totp_reads [io_keep]:
  "keeps pg (TOTPRepository_GetByUserID E ctx uid)" "keeps redis (TOTPRepository_GetByUserID E ctx uid)"
  "keeps pg (totp_Generate E i a)" "keeps pg (totp_Validate E c s)" "keeps redis (totp_Validate E c s)"
  unfolding TOTPRepository_GetByUserID_def totp_Validate_def
  by (intro io_keep | simp add: keeps_def totp_Generate_def)+

lemma keeps_generateBackupCodes [io_keep]: "keeps pg (generateBackupCodes E n)"
  by (induction n) (auto intro!: io_keep)

lemma spend_backup_code_eq:
  "spend_backup_code code cs = (if code \<in> set cs then Some (remove1 code cs) else None)"
  by (induction cs) auto

lemma run_GetByUserID:
  assumes "\<And>n. pg_fault E n = None" "\<not> ctx_tx ctx"
  shows "run_state (TOTPRepository_GetByUserID E ctx uid) w =
    (Inr (find (\<lambda>s. ts_UserID s = uid \<and> totp_visible E ctx (pg w) (ts_UserID s)) (totp_secrets (pg w))), tick w)"
  using assms by (simp add: TOTPRepository_GetByUserID_def io_run pg_gate_def)

lemma GetByUserID_find:
  "run_state (TOTPRepository_GetByUserID E ctx uid) w = (Inr row, w')
    \<Longrightarrow> row = find (\<lambda>s. ts_UserID s = uid \<and> totp_visible E ctx (pg w) (ts_UserID s)) (totp_secrets (pg w))"
  by (auto simp: TOTPRepository_GetByUserID_def io_run split: sum.splits)

lemma TOTPRepository_Update_ok:
  "run_state (TOTPRepository_Update E ctx secret) w = (Inr (), w') \<Longrightarrow>
    \<exists>t. pg w' = (pg w)\<lparr>totp_secrets := map (\<lambda>s. if ts_UserID s = ts_UserID secret \<and> totp_visible E ctx (pg w) (ts_UserID s)
       then s\<lparr>ts_Enabled := ts_Enabled secret, ts_BackupCodes := ts_BackupCodes secret, ts_UpdatedAt := t\<rparr> else s)
       (totp_secrets (pg w))\<rparr>"
  by (auto simp: TOTPRepository_Update_def io_run update_totp_def Let_def split: sum.splits prod.splits)

lemma TOTPRepository_Update_total:
  assumes "\<And>n. pg_fault E n = None" "\<not> ctx_tx ctx"
  shows "\<exists>w'. run_state (TOTPRepository_Update E ctx secret) w = (Inr (), w')"
  using assms by (simp add: TOTPRepository_Update_def io_run update_totp_def Let_def pg_gate_def)

text \<open>The unique constraint: at most one secret per user.\<close>

definition totp_ok :: "tables \<Rightarrow> bool" where
  "totp_ok db \<longleftrightarrow> distinct (map ts_UserID (totp_secrets db))"

lemma totp_okD: "totp_ok db \<Longrightarrow> s \<in> set (totp_secrets db) \<Longrightarrow> s' \<in> set (totp_secrets db)
    \<Longrightarrow> ts_UserID s = ts_UserID s' \<Longrightarrow> s = s'"
  unfolding totp_ok_def distinct_map by (auto dest: inj_onD)

lemma TOTP_preserves [io_pres]:
  "preserves (\<lambda>w. totp_ok (pg w)) (TOTPRepository_Create E ctx secret)"
  "preserves (\<lambda>w. totp_ok (pg w)) (TOTPRepository_Update E ctx secret)"
  "preserves (\<lambda>w. totp_ok (pg w)) (TOTPRepository_Delete E ctx uid)"
proof -
  have upd: "map ts_UserID (map (\<lambda>s. if P s then s\<lparr>ts_Enabled := a, ts_BackupCodes := b, ts_UpdatedAt := c\<rparr> else s) xs)
      = map ts_UserID xs" for P a b c xs by (simp add: comp_def)
  show "preserves (\<lambda>w. totp_ok (pg w)) (TOTPRepository_Create E ctx secret)"
    unfolding TOTPRepository_Create_def
    by (intro io_pres io_keep) (auto simp: insert_totp_def totp_ok_def split: if_splits)
  show "preserves (\<lambda>w. totp_ok (pg w)) (TOTPRepository_Update E ctx secret)"
    unfolding TOTPRepository_Update_def
    by (intro io_pres io_keep) (auto simp: update_totp_def totp_ok_def Let_def upd simp del: map_map)
  show "preserves (\<lambda>w. totp_ok (pg w)) (TOTPRepository_Delete E ctx uid)"
    unfolding TOTPRepository_Delete_def
    by (intro io_pres io_keep) (auto simp: totp_ok_def Let_def distinct_map_filter)
qed

section \<open>Backup codes\<close>

lemma map_update_mem: "x \<in> set xs \<Longrightarrow> P x \<Longrightarrow> f x \<in> set (map (\<lambda>x. if P x then f x else x) xs)"
  by (auto simp: image_iff)

lemma VerifyCode_backup:
  assumes up: "\<And>n. pg_fault E n = None" "\<not> ctx_tx ctx" and uid: "uuid_parse E userID = Inr uid"
    and no: "\<forall>s \<in> set (totp_secrets (pg w)). ts_UserID s = uid \<longrightarrow> (\<forall>t. \<not> totp_validate E t code (ts_Secret s))"
    and run: "run_state (VerifyCode E ctx userID code) w = (True, w')"
  obtains s t where "s \<in> set (totp_secrets (pg w))" "ts_UserID s = uid" "ts_Enabled s" "code \<in> set (ts_BackupCodes s)"
    "totp_visible E ctx (pg w) uid"
    "pg w' = (pg w)\<lparr>totp_secrets := map (\<lambda>x. if ts_UserID x = uid then x\<lparr>ts_Enabled := True,
       ts_BackupCodes := remove1 code (ts_BackupCodes s), ts_UpdatedAt := t\<rparr> else x) (totp_secrets (pg w))\<rparr>"
proof -
  let ?f = "find (\<lambda>s. ts_UserID s = uid \<and> totp_visible E ctx (pg w) (ts_UserID s)) (totp_secrets (pg w))"
  from run obtain s where s: "?f = Some s" and en: "ts_Enabled s"
    by (auto simp: VerifyCode_def uid run_GetByUserID[OF up] split: option.splits if_splits)
  have mem: "s \<in> set (totp_secrets (pg w))" "ts_UserID s = uid" "totp_visible E ctx (pg w) uid"
    using find_SomeD[OF s] by auto
  let ?s = "s\<lparr>ts_BackupCodes := remove1 code (ts_BackupCodes s)\<rparr>"
  from run s en mem no have code: "code \<in> set (ts_BackupCodes s)"
    by (auto simp: VerifyCode_def uid run_GetByUserID[OF up] totp_Validate_def io_run spend_backup_code_eq split: if_splits)
  obtain w2 where "run_state (TOTPRepository_Update E ctx ?s) (tick (tick w)) = (Inr (), w2)"
    using TOTPRepository_Update_total[OF up] by blast
  moreover from this have "w' = w2" using run s en mem no code
    by (auto simp: VerifyCode_def uid run_GetByUserID[OF up] totp_Validate_def io_run spend_backup_code_eq split: if_splits)
  ultimately have "run_state (TOTPRepository_Update E ctx ?s) (tick (tick w)) = (Inr (), w')" by simp
  from TOTPRepository_Update_ok[OF this] obtain t where
    db: "pg w' = (pg w)\<lparr>totp_secrets := map (\<lambda>x. if ts_UserID x = uid \<and> totp_visible E ctx (pg w) (ts_UserID x)
       then x\<lparr>ts_Enabled := True, ts_BackupCodes := remove1 code (ts_BackupCodes s), ts_UpdatedAt := t\<rparr> else x)
       (totp_secrets (pg w))\<rparr>"
    using en mem(2) by (simp cong: if_cong) blast
  have fn: "(\<lambda>x. if ts_UserID x = uid \<and> totp_visible E ctx (pg w) (ts_UserID x)
       then x\<lparr>ts_Enabled := True, ts_BackupCodes := remove1 code (ts_BackupCodes s), ts_UpdatedAt := t\<rparr> else x)
     = (\<lambda>x. if ts_UserID x = uid then x\<lparr>ts_Enabled := True, ts_BackupCodes := remove1 code (ts_BackupCodes s),
         ts_UpdatedAt := t\<rparr> else x)"
    using mem(3) by auto
  show ?thesis by (rule that[OF mem(1,2) en code mem(3) db[unfolded fn]])
qed

text \<open>A code that no secret of the user accepts and that is not among the user's backup codes is refused.\<close>

lemma VerifyCode_refuses:
  assumes "\<And>n. pg_fault E n = None" "\<not> ctx_tx ctx" "uuid_parse E userID = Inr uid"
    and "\<forall>x \<in> set (totp_secrets (pg w)). ts_UserID x = uid \<longrightarrow> (\<forall>t. \<not> totp_validate E t code (ts_Secret x))"
    and "\<forall>x \<in> set (totp_secrets (pg w)). ts_UserID x = uid \<longrightarrow> code \<notin> set (ts_BackupCodes x)"
  shows "\<not> fst (run_state (VerifyCode E ctx userID code) w)"
proof
  assume "fst (run_state (VerifyCode E ctx userID code) w)"
  then have r: "run_state (VerifyCode E ctx userID code) w = (True, snd (run_state (VerifyCode E ctx userID code) w))"
    by (metis (full_types) prod.collapse)
  obtain x where "x \<in> set (totp_secrets (pg w))" "ts_UserID x = uid" "code \<in> set (ts_BackupCodes x)"
    by (rule VerifyCode_backup[OF assms(1-4) r])
  then show False using assms(5) by simp
qed

text \<open>Spending a code gives every secret of the user the shorter list and leaves the secrets alone.\<close>

lemma spent_secrets:
  assumes "ss' = map (\<lambda>y. if ts_UserID y = uid then y\<lparr>ts_Enabled := True, ts_BackupCodes := cs, ts_UpdatedAt := t\<rparr> else y) ss"
    and "x \<in> set ss'" "ts_UserID x = uid"
  shows "ts_BackupCodes x = cs" "\<exists>y \<in> set ss. ts_UserID y = uid \<and> ts_Secret x = ts_Secret y"
proof -
  from assms(1,2) obtain y where y: "y \<in> set ss"
    "x = (if ts_UserID y = uid then y\<lparr>ts_Enabled := True, ts_BackupCodes := cs, ts_UpdatedAt := t\<rparr> else y)" by auto
  then show "ts_BackupCodes x = cs" "\<exists>y \<in> set ss. ts_UserID y = uid \<and> ts_Secret x = ts_Secret y"
    using assms(3) by (auto split: if_splits)
qed

text \<open>
  C21: A backup code is spent by its use: when PostgreSQL answers, the backup codes of the user are
  distinct and the code is not also a valid TOTP code, a successful \<^verbatim>\<open>VerifyCode\<close> found it among the
  stored codes of an enabled secret, removed exactly that code, and every later \<^verbatim>\<open>VerifyCode\<close> with
  it on these secrets is refused.
\<close>

theorem backup_code_single_use:
  assumes "\<And>n. pg_fault E n = None" "\<not> ctx_tx ctx" "uuid_parse E userID = Inr uid"
    and "\<forall>s \<in> set (totp_secrets (pg w)). ts_UserID s = uid \<longrightarrow> distinct (ts_BackupCodes s)
      \<and> (\<forall>t. \<not> totp_validate E t code (ts_Secret s))"
    and "run_state (VerifyCode E ctx userID code) w = (True, w')"
  shows "(\<exists>s \<in> set (totp_secrets (pg w)). \<exists>s' \<in> set (totp_secrets (pg w')). ts_UserID s = uid \<and> ts_UserID s' = uid
      \<and> ts_Enabled s \<and> code \<in> set (ts_BackupCodes s) \<and> ts_BackupCodes s' = remove1 code (ts_BackupCodes s))
    \<and> (\<forall>w1. totp_secrets (pg w1) = totp_secrets (pg w') \<longrightarrow> \<not> fst (run_state (VerifyCode E ctx userID code) w1))"
proof -
  have no: "\<forall>s \<in> set (totp_secrets (pg w)). ts_UserID s = uid \<longrightarrow> (\<forall>t. \<not> totp_validate E t code (ts_Secret s))"
    using assms(4) by blast
  obtain s t where
    s: "s \<in> set (totp_secrets (pg w))" "ts_UserID s = uid" "ts_Enabled s" "code \<in> set (ts_BackupCodes s)"
    and db: "pg w' = (pg w)\<lparr>totp_secrets := map (\<lambda>x. if ts_UserID x = uid then x\<lparr>ts_Enabled := True,
       ts_BackupCodes := remove1 code (ts_BackupCodes s), ts_UpdatedAt := t\<rparr> else x) (totp_secrets (pg w))\<rparr>"
    by (rule VerifyCode_backup[OF assms(1-3) no assms(5)])
  let ?s' = "s\<lparr>ts_Enabled := True, ts_BackupCodes := remove1 code (ts_BackupCodes s), ts_UpdatedAt := t\<rparr>"
  have mem: "?s' \<in> set (totp_secrets (pg w'))"
    unfolding db using s(2) map_update_mem[of s, OF s(1), where P = "\<lambda>x. ts_UserID x = uid"
      and f = "\<lambda>x. x\<lparr>ts_Enabled := True, ts_BackupCodes := remove1 code (ts_BackupCodes s), ts_UpdatedAt := t\<rparr>"]
    by (simp del: set_map)
  have gone: "code \<notin> set (remove1 code (ts_BackupCodes s))"
    using assms(4) s by (simp add: set_remove1_eq)
  note after = spent_secrets[OF arg_cong[OF db, of totp_secrets, simplified]]
  have later: "\<not> fst (run_state (VerifyCode E ctx userID code) w1)"
    if w1: "totp_secrets (pg w1) = totp_secrets (pg w')" for w1
    by (rule VerifyCode_refuses[OF assms(1-3)]) (use after no gone w1 in metis)+
  have "ts_UserID ?s' = uid" "ts_BackupCodes ?s' = remove1 code (ts_BackupCodes s)" using s(2) by simp_all
  with s mem have "\<exists>s \<in> set (totp_secrets (pg w)). \<exists>s' \<in> set (totp_secrets (pg w')). ts_UserID s = uid \<and> ts_UserID s' = uid
      \<and> ts_Enabled s \<and> code \<in> set (ts_BackupCodes s) \<and> ts_BackupCodes s' = remove1 code (ts_BackupCodes s)"
    by (intro bexI[of _ s] bexI[of _ ?s'] conjI)
  then show ?thesis using later by blast
qed

definition totp_world :: world where
  "totp_world = demo_world\<lparr>pg := (pg demo_world)\<lparr>totp_secrets := [\<lparr>ts_ID = ''s1'', ts_UserID = ''u1'', ts_Secret = ''old'',
     ts_Enabled = True, ts_BackupCodes = [''AAAA-BBBB'', ''CCCC-DDDD''], ts_CreatedAt = 1, ts_UpdatedAt = 1\<rparr>]\<rparr>\<rparr>"

theorem backup_code_single_use_witness:
  "(case run_state (VerifyCode owner_env background ''u1'' ''CCCC-DDDD'') totp_world of (ok, w') \<Rightarrow>
      ok \<and> \<not> fst (run_state (VerifyCode owner_env background ''u1'' ''CCCC-DDDD'') w'))"
proof -
  let ?m = "run_state (VerifyCode owner_env background ''u1'' ''CCCC-DDDD'') totp_world"
  have ok: "fst ?m" by code_simp
  then have r: "?m = (True, snd ?m)" by (metis (full_types) prod.collapse)
  have "\<And>n. pg_fault owner_env n = None" "\<not> ctx_tx background" "uuid_parse owner_env ''u1'' = Inr ''u1''"
    by (simp_all add: owner_env_def demo_env_def background_def)
  moreover have "\<forall>s \<in> set (totp_secrets (pg totp_world)). ts_UserID s = ''u1'' \<longrightarrow> distinct (ts_BackupCodes s)
      \<and> (\<forall>t. \<not> totp_validate owner_env t ''CCCC-DDDD'' (ts_Secret s))"
    by (simp add: totp_world_def owner_env_def demo_env_def)
  ultimately have "\<not> fst (run_state (VerifyCode owner_env background ''u1'' ''CCCC-DDDD'') (snd ?m))"
    using backup_code_single_use[OF _ _ _ _ r] by blast
  then show ?thesis using ok by (simp add: case_prod_beta)
qed

section \<open>Setting up again\<close>

text \<open>
  Setting up two-factor authentication again disables it without storing the new secret: when
  \<^verbatim>\<open>GenerateSecret\<close> succeeds for a user whose secret is stored and visible, the stored secret is the
  old one, the returned secret is the freshly generated one, and the factor is switched off, no
  code having been asked for.
\<close>

theorem GenerateSecret_again_disables:
  assumes "uuid_parse E userID = Inr uid" "s \<in> set (totp_secrets (pg w))" "ts_UserID s = uid" "totp_visible E ctx (pg w) uid"
    and "run_state (GenerateSecret E issuer ctx userID email) w = (Inr res, w')"
  shows "\<exists>s' \<in> set (totp_secrets (pg w')). ts_UserID s' = uid \<and> ts_Secret s' = ts_Secret s \<and> \<not> ts_Enabled s'
    \<and> ts_BackupCodes s' = sr_BackupCodes res \<and> (\<exists>n url. totp_generate E n issuer email = Inr (sr_Secret res, url))"
proof -
  note run = assms(5)[unfolded GenerateSecret_def assms(1)]
  obtain rg w1 where g: "run_state (TOTPRepository_GetByUserID E ctx uid) w = (rg, w1)" by fastforce
  from run g obtain ex where ex: "rg = Inr ex" by (cases rg) (auto simp: run_tryE)
  obtain rk w2 where k: "run_state (totp_Generate E issuer email) w1 = (rk, w2)" by fastforce
  from run g ex k obtain key where key: "rk = Inr key" by (cases rk) (auto simp: run_tryE)
  obtain rc w3 where c: "run_state (generateBackupCodes E 8) w2 = (rc, w3)" by fastforce
  from run g ex k key c obtain codes where codes: "rc = Inr codes"
    by (cases rc) (auto simp: run_tryE simp del: generateBackupCodes.simps)
  note g = g[unfolded ex] and k = k[unfolded key] and c = c[unfolded codes]
  have "find (\<lambda>s. ts_UserID s = uid \<and> totp_visible E ctx (pg w) (ts_UserID s)) (totp_secrets (pg w)) \<noteq> None"
    using assms(2-4) unfolding find_None_iff by blast
  then obtain x where x: "ex = Some x" using GetByUserID_find[OF g] by auto
  have pg3: "pg w3 = pg w"
    using keepsD[OF keeps_totp_reads(1) g] keepsD[OF keeps_totp_reads(3) k] keepsD[OF keeps_generateBackupCodes c] by simp
  let ?u = "\<lparr>ts_ID = ts_ID x, ts_UserID = uid, ts_Secret = fst key, ts_Enabled = False,
             ts_BackupCodes = codes, ts_CreatedAt = zero_time, ts_UpdatedAt = zero_time\<rparr>"
  from run g k c x have up: "run_state (TOTPRepository_Update E ctx ?u) w3 = (Inr (), w')"
    and res: "res = \<lparr>sr_Secret = fst key, sr_QRCodeURL = snd key, sr_BackupCodes = codes\<rparr>"
    by (auto simp: run_tryE Let_def simp del: generateBackupCodes.simps split: sum.splits prod.splits)
  from TOTPRepository_Update_ok[OF up] obtain t where
    db: "pg w' = (pg w)\<lparr>totp_secrets := map (\<lambda>s. if ts_UserID s = uid \<and> totp_visible E ctx (pg w) (ts_UserID s)
       then s\<lparr>ts_Enabled := False, ts_BackupCodes := codes, ts_UpdatedAt := t\<rparr> else s) (totp_secrets (pg w))\<rparr>"
    using pg3 by (simp cong: if_cong) blast
  have "s\<lparr>ts_Enabled := False, ts_BackupCodes := codes, ts_UpdatedAt := t\<rparr> \<in> set (totp_secrets (pg w'))"
    unfolding db using assms(3,4) map_update_mem[of s, OF assms(2),
      where P = "\<lambda>s. ts_UserID s = uid \<and> totp_visible E ctx (pg w) (ts_UserID s)"
        and f = "\<lambda>s. s\<lparr>ts_Enabled := False, ts_BackupCodes := codes, ts_UpdatedAt := t\<rparr>"]
    by (simp del: set_map)
  moreover have "\<exists>n url. totp_generate E n issuer email = Inr (sr_Secret res, url)"
    using k res by (cases key) (auto simp: totp_Generate_def)
  ultimately show ?thesis using assms(3) res by (intro bexI) auto
qed

lemma generateBackupCodes_total:
  assumes "\<And>n. \<not> isl (rand_read E n)"
  shows "\<exists>codes w'. run_state (generateBackupCodes E n) w = (Inr codes, w') \<and> length codes = n"
proof (induction n arbitrary: w)
  case 0
  then show ?case by simp
next
  case (Suc n)
  obtain f where f: "rand_read E (ticks w) = Inr f" using assms by (metis isl_def old.sum.exhaust)
  obtain cs w2 where "run_state (generateBackupCodes E n) (tick w) = (Inr cs, w2)" "length cs = n" using Suc by blast
  then show ?case by (simp add: run_tryE run_rand_Read f)
qed

theorem GenerateSecret_again_disables_witness:
  "(case run_state (GenerateSecret owner_env ''vyst'' background ''u1'' ''ana'') totp_world of (r, w') \<Rightarrow>
      \<not> isl r \<and> (\<exists>s' \<in> set (totp_secrets (pg w')). ts_Secret s' = ''old'' \<and> \<not> ts_Enabled s'))"
proof -
  let ?m = "run_state (GenerateSecret owner_env ''vyst'' background ''u1'' ''ana'') totp_world"
  have up: "\<And>n. pg_fault owner_env n = None" "\<not> ctx_tx background" "\<And>n. \<not> isl (rand_read owner_env n)"
    "uuid_parse owner_env ''u1'' = Inr ''u1''" "totp_generate owner_env n ''vyst'' ''ana'' = Inr (''secret'' @ replicate n CHR ''x'', ''otpauth'')" for n
    by (simp_all add: owner_env_def demo_env_def background_def)
  have row: "find (\<lambda>s. ts_UserID s = ''u1'' \<and> totp_visible owner_env background (pg totp_world) (ts_UserID s))
      (totp_secrets (pg totp_world)) \<noteq> None"
    by (simp add: totp_world_def totp_visible_def owner_env_def)
  obtain codes w2 where "run_state (generateBackupCodes owner_env 8) (tick (tick totp_world)) = (Inr codes, w2)"
    using generateBackupCodes_total[OF up(3)] by blast
  moreover obtain f where "\<And>secret. run_state (TOTPRepository_Update owner_env background secret) w2 = (Inr (), f secret)"
  proof -
    have "\<forall>secret. \<exists>w3. run_state (TOTPRepository_Update owner_env background secret) w2 = (Inr (), w3)"
      using TOTPRepository_Update_total[OF up(1,2)] by blast
    from choice[OF this] show ?thesis using that by blast
  qed
  ultimately have ok: "\<not> isl (fst ?m)"
    using row by (auto simp: GenerateSecret_def run_tryE run_GetByUserID[OF up(1,2)] totp_Generate_def up Let_def
        simp del: generateBackupCodes.simps split: option.splits)
  then obtain res where r: "fst ?m = Inr res" by (metis isl_def old.sum.exhaust)
  have "\<exists>s \<in> set (totp_secrets (pg totp_world)). ts_UserID s = ''u1'' \<and> ts_Secret s = ''old''"
    by (simp add: totp_world_def)
  then obtain s where s: "s \<in> set (totp_secrets (pg totp_world))" "ts_UserID s = ''u1''" "ts_Secret s = ''old''" by blast
  have "uuid_parse owner_env ''u1'' = Inr ''u1''" "totp_visible owner_env background (pg totp_world) ''u1''"
    by (simp_all add: totp_visible_def owner_env_def demo_env_def)
  from GenerateSecret_again_disables[OF this(1) s(1,2) this(2) run_result[OF r]] s(3) ok
  show ?thesis by (auto simp: case_prod_beta)
qed

section \<open>Temporary tokens\<close>

lemma run_ValidateTempToken:
  assumes "\<And>n. redis_fault E n = None"
  shows "run_state (ValidateTempToken E True tok) w =
    (case redis_lookup (clock E (ticks w)) (redis w) (temp_key tok) of
       Some (RStr uid) \<Rightarrow> (Inr uid, (tick (tick w))\<lparr>redis := (redis w)(temp_key tok := None)\<rparr>)
     | _ \<Rightarrow> (Inl (ErrorString ''invalid or expired temporary token''), tick w))"
  using assms
  by (auto simp: ValidateTempToken_def SessionStore_GetString_def SessionStore_Delete_def io_run run_redis_GetString
      redis_gate_def split: option.splits rvalue.splits)

text \<open>
  The life of a temporary two-factor token, while Redis answers: from the moment it is issued
  and for less than five minutes it is accepted and names the user it was issued for; accepting it
  removes it, so that a second use fails; from five minutes on it is refused.
\<close>

theorem temp_token_life:
  assumes "\<And>n. redis_fault E n = None" "run_state (GenerateTempToken E True userID) w = (Inr tok, w1)"
  shows "\<forall>w2. redis w2 (temp_key tok) = redis w1 (temp_key tok) \<longrightarrow>
    (case run_state (ValidateTempToken E True tok) w2 of (r, w3) \<Rightarrow>
       if clock E (ticks w2) < clock E (Suc (ticks w)) + tempTokenTTL
       then r = Inr userID \<and> (\<forall>w4. redis w4 (temp_key tok) = redis w3 (temp_key tok) \<longrightarrow>
              isl (fst (run_state (ValidateTempToken E True tok) w4)))
       else isl r)"
proof -
  have "0 < tempTokenTTL" by (simp add: tempTokenTTL_def)
  then have w1: "redis w1 (temp_key tok) = Some \<lparr>r_val = RStr userID, r_expires = Some (clock E (Suc (ticks w)) + tempTokenTTL)\<rparr>"
    using assms by (auto simp: GenerateTempToken_def SessionStore_SaveString_def Let_def io_run redis_gate_def redis_put_def
        split: sum.splits)
  have lookup: "redis_lookup (clock E (ticks w2)) (redis w2) (temp_key tok) =
      (if clock E (ticks w2) < clock E (Suc (ticks w)) + tempTokenTTL then Some (RStr userID) else None)"
    if "redis w2 (temp_key tok) = redis w1 (temp_key tok)" for w2
    using that w1 by (simp add: redis_lookup_def alive_def)
  have gone: "isl (fst (run_state (ValidateTempToken E True tok) w4))" if "redis w4 (temp_key tok) = None" for w4
    using that by (simp add: run_ValidateTempToken[OF assms(1)] redis_lookup_def)
  show ?thesis
    using gone by (auto simp: run_ValidateTempToken[OF assms(1)] lookup)
qed

theorem temp_token_life_witness:
  "(case run_state (GenerateTempToken demo_env True ''u1'') demo_world of (Inr tok, w1) \<Rightarrow>
      fst (run_state (ValidateTempToken demo_env True tok) w1) = Inr ''u1'' | _ \<Rightarrow> False)"
proof -
  let ?m = "run_state (GenerateTempToken demo_env True ''u1'') demo_world"
  have up: "\<And>n. redis_fault demo_env n = None" by (simp add: demo_env_def)
  have "\<not> isl (fst ?m)" by (simp add: GenerateTempToken_def SessionStore_SaveString_def Let_def io_run redis_gate_def demo_env_def)
  then obtain tok w1 where r: "?m = (Inr tok, w1)" by (metis isl_def old.sum.exhaust prod.collapse)
  have "ticks w1 = 2"
    using r by (auto simp: GenerateTempToken_def SessionStore_SaveString_def Let_def io_run redis_gate_def demo_env_def
        demo_world_def empty_world_def)
  then have "clock demo_env (ticks w1) < clock demo_env (Suc (ticks demo_world)) + tempTokenTTL"
    by (simp add: demo_env_def demo_world_def empty_world_def tempTokenTTL_def minute_def second_def)
  then show ?thesis
    using temp_token_life[OF up r] r by (auto simp: case_prod_beta split: if_splits)
qed

end
