(* ===== verification/Password_Service.thy ===== *)
theory Password_Service
  imports Auth_Service
begin

text \<open>
  Password recovery (\<^verbatim>\<open>service/password_service.go\<close>): issuing a reset token and redeeming it. A
  reset token is valid for an hour and is cleared by the reset.
\<close>

section \<open>Model\<close>

definition reset_body :: "string \<Rightarrow> string" where
  "reset_body link = ''<p>Click <a href='' @ [CHR 0x22] @ link @ [CHR 0x22] @
     ''>here</a> to reset your password.</p><p>This link expires in 1 hour.</p>''"

definition RequestReset :: "environ \<Rightarrow> string \<Rightarrow> reqctx \<Rightarrow> string \<Rightarrow> (unit result) io" where
  "RequestReset E frontendURL ctx email = do {
     r \<leftarrow> UserRepository_GetByEmail E ctx email;
     case r of
       Inl err \<Rightarrow> ret (Inr ())
     | Inr u \<Rightarrow> do {
         token \<leftarrow> uuid_New E;
         now \<leftarrow> time_Now E;
         tryE (UserRepository_Update E ctx (u\<lparr>u_ResetToken := token, u_ResetTokenExpiresAt := now + hour\<rparr>))
           (wrap ''failed to save reset token: '') (\<lambda>_.
         SendEmail (u_Email u) ''Reset Your Password''
           (reset_body (frontendURL @ ''/reset-password?token='' @ token))) } }"

definition ResetPassword :: "environ \<Rightarrow> reqctx \<Rightarrow> string \<Rightarrow> string \<Rightarrow> (unit result) io" where
  "ResetPassword E ctx token newPassword = do {
     r \<leftarrow> UserRepository_GetByResetToken E ctx token;
     case r of
       Inl err \<Rightarrow> ret (Inl (if errors_Is err user_ErrNotFound then Sentinel ErrInvalidResetToken
                         else wrap ''failed to find user by token: '' err))
     | Inr u \<Rightarrow> do {
         now \<leftarrow> time_Now E;
         if u_ResetTokenExpiresAt u < now then ret (Inl (Sentinel ErrInvalidResetToken))
         else
           tryE (Hash E newPassword) (wrap ''failed to hash password: '') (\<lambda>hashedPassword.
           tryE (UserRepository_Update E ctx (u\<lparr>u_PasswordHash := hashedPassword, u_ResetToken := [],
                   u_ResetTokenExpiresAt := zero_time\<rparr>))
             (wrap ''failed to update user password: '') (\<lambda>_. ret (Inr ()))) } }"

section \<open>Redeeming a token\<close>

text \<open>A row without a token has no expiry either: rows are created so and updates keep it so.\<close>

definition reset_columns_ok :: "tables \<Rightarrow> bool" where
  "reset_columns_ok db \<longleftrightarrow> (\<forall>r \<in> set (users db). ur_reset_token r = [] \<longrightarrow> deref_time (ur_reset_token_expires_at r) = 0)"

lemma GetByResetToken_row:
  assumes "run_state (UserRepository_GetByResetToken E ctx tok) w = (Inr u, w')"
  obtains r where "r \<in> set (users (pg w))" "ur_reset_token r = tok" "user_visible E ctx (pg w) r"
    "scanUser (Some r) = Inr u" "u_ID u = ur_id r" "w' = tick w"
proof -
  let ?P = "\<lambda>r. ur_reset_token r = tok \<and> user_visible E ctx (pg w) r"
  from assms have s: "scanUser (find ?P (users (pg w))) = Inr u" and w': "w' = tick w"
    by (auto simp: UserRepository_GetByResetToken_def io_run split: sum.splits)
  then obtain r where f: "find ?P (users (pg w)) = Some r" using scanUser_Inr by blast
  with s show ?thesis using find_SomeD[OF f] scanUser_Inr[OF s] w' by (intro that[of r]) auto
qed

lemma ResetPassword_steps:
  assumes "run_state (ResetPassword E ctx tok pw) w = (Inr (), w')"
  shows "\<exists>u w1 h w2. run_state (UserRepository_GetByResetToken E ctx tok) w = (Inr u, w1)
    \<and> clock E (ticks w1) \<le> u_ResetTokenExpiresAt u
    \<and> bcrypt_hash E (Suc (ticks w1)) pw = Inr h \<and> pg w2 = pg w1
    \<and> run_state (UserRepository_Update E ctx (u\<lparr>u_PasswordHash := h, u_ResetToken := [],
        u_ResetTokenExpiresAt := zero_time\<rparr>)) w2 = (Inr (), w')"
proof -
  obtain r w1 where g: "run_state (UserRepository_GetByResetToken E ctx tok) w = (r, w1)" by fastforce
  from assms g obtain u where u: "r = Inr u" by (cases r) (auto simp: ResetPassword_def)
  with assms g have le: "clock E (ticks w1) \<le> u_ResetTokenExpiresAt u"
    by (auto simp: ResetPassword_def run_time_Now split: if_splits)
  with assms g u obtain h where h: "bcrypt_hash E (Suc (ticks w1)) pw = Inr h"
    by (cases "bcrypt_hash E (Suc (ticks w1)) pw") (auto simp: ResetPassword_def run_time_Now run_tryE Hash_def)
  from assms g u le h have "run_state (UserRepository_Update E ctx (u\<lparr>u_PasswordHash := h, u_ResetToken := [],
        u_ResetTokenExpiresAt := zero_time\<rparr>)) (tick (tick w1)) = (Inr (), w')"
    by (auto simp: ResetPassword_def run_time_Now run_tryE Hash_def split: sum.splits prod.splits)
  then show ?thesis using g u le h by (intro exI conjI) auto
qed

text \<open>A token that no row carries resets nothing.\<close>

lemma ResetPassword_needs_token:
  assumes "\<forall>x \<in> set (users (pg w)). ur_reset_token x \<noteq> tok"
  shows "fst (run_state (ResetPassword E ctx tok pw) w) \<noteq> Inr ()"
proof
  assume "fst (run_state (ResetPassword E ctx tok pw) w) = Inr ()"
  from ResetPassword_steps[OF run_result[OF this]] obtain u w1 where
    "run_state (UserRepository_GetByResetToken E ctx tok) w = (Inr u, w1)" by blast
  then show False using assms by (elim GetByResetToken_row) auto
qed

text \<open>
  C29: A password reset redeems a live token exactly once. If \<^verbatim>\<open>ResetPassword\<close> succeeds (the clock
  being past Go's zero time and rows without a token having no expiry), the token is not empty
  and was stored, not expired, in the row of one user; that row now carries the hash of the new
  password and no token, every other row is unchanged, and if no other row had the token, every
  later attempt with the same token on these tables fails.
\<close>

theorem ResetPassword_sound:
  assumes "users_ok (pg w)" "reset_columns_ok (pg w)" "\<And>n. 0 < clock E n"
    and "run_state (ResetPassword E ctx tok pw) w = (Inr (), w')"
  shows "tok \<noteq> [] \<and> (\<exists>r \<in> set (users (pg w)). \<exists>r' \<in> set (users (pg w')). \<exists>t n.
      ur_reset_token r = tok \<and> ur_reset_token_expires_at r = Some t \<and> clock E (Suc (ticks w)) \<le> t
      \<and> ur_id r' = ur_id r \<and> bcrypt_hash E n pw = Inr (ur_password_hash r')
      \<and> ur_reset_token r' = [] \<and> ur_reset_token_expires_at r' = None
      \<and> users (pg w') = map (\<lambda>x. if ur_id x = ur_id r then r' else x) (users (pg w))
      \<and> ((\<forall>x \<in> set (users (pg w)). ur_reset_token x = tok \<longrightarrow> x = r) \<longrightarrow>
          (\<forall>w1 pw'. pg w1 = pg w' \<longrightarrow> fst (run_state (ResetPassword E ctx tok pw') w1) \<noteq> Inr ())))"
proof -
  from ResetPassword_steps[OF assms(4)] obtain u w1 h w2 where
    g: "run_state (UserRepository_GetByResetToken E ctx tok) w = (Inr u, w1)"
    and le: "clock E (ticks w1) \<le> u_ResetTokenExpiresAt u"
    and h: "bcrypt_hash E (Suc (ticks w1)) pw = Inr h" and pg2: "pg w2 = pg w1"
    and up: "run_state (UserRepository_Update E ctx (u\<lparr>u_PasswordHash := h, u_ResetToken := [],
        u_ResetTokenExpiresAt := zero_time\<rparr>)) w2 = (Inr (), w')" (is "run_state (UserRepository_Update E ctx ?u) w2 = _")
    by blast
  from g obtain r where r: "r \<in> set (users (pg w))" "ur_reset_token r = tok" "scanUser (Some r) = Inr u"
    "u_ID u = ur_id r" and w1: "w1 = tick w"
    by (elim GetByResetToken_row)
  have exp: "u_ResetTokenExpiresAt u = deref_time (ur_reset_token_expires_at r)"
    using scanUser_Inr[OF r(3)] by simp
  have pos: "0 < deref_time (ur_reset_token_expires_at r)" using le exp assms(3)[of "ticks w1"] by simp
  then obtain t where t: "ur_reset_token_expires_at r = Some t"
    by (cases "ur_reset_token_expires_at r") (auto simp: deref_time_def)
  have tok: "tok \<noteq> []" using r pos assms(2) by (auto simp: reset_columns_ok_def)
  from up obtain r0 now where r0: "r0 \<in> set (users (pg w2))" "ur_id r0 = u_ID ?u"
    and db: "pg w' = (pg w2)\<lparr>users := map (\<lambda>x. if ur_id x = u_ID ?u then set_user_columns now ?u r0 else x) (users (pg w2))\<rparr>"
    by (elim UserRepository_Update_ok)
  have pgw: "pg w2 = pg w" using pg2 w1 by simp
  have r0r: "r0 = r" using users_okD[OF assms(1)] r0 r pgw by simp
  let ?r' = "set_user_columns now ?u r"
  have us: "users (pg w') = map (\<lambda>x. if ur_id x = ur_id r then ?r' else x) (users (pg w))"
    using db r0r pgw r(4) by simp
  have mem: "?r' \<in> set (users (pg w'))"
    unfolding us set_map by (rule rev_image_eqI[OF r(1)]) simp
  have r': "ur_id ?r' = ur_id r" "ur_password_hash ?r' = h" "ur_reset_token ?r' = []"
    "ur_reset_token_expires_at ?r' = None"
    by (simp_all add: set_user_columns_def nullable_time_def)
  have once: "fst (run_state (ResetPassword E ctx tok pw') w3) \<noteq> Inr ()"
    if "\<forall>x \<in> set (users (pg w)). ur_reset_token x = tok \<longrightarrow> x = r" and "pg w3 = pg w'" for pw' w3
    using that us r'(3) tok by (intro ResetPassword_needs_token) auto
  show ?thesis
    using tok r t le exp w1 mem r' us h once
    by (intro conjI bexI[OF _ r(1)] bexI[OF _ mem] exI[of _ t] exI[of _ "Suc (ticks w1)"])
      (auto simp: deref_time_def)
qed

definition reset_world :: world where
  "reset_world = demo_world\<lparr>pg := (pg demo_world)\<lparr>users := [(demo_user ''t1'' ''u1'' ''ana'')\<lparr>ur_reset_token := ''rt'',
     ur_reset_token_expires_at := Some 5000\<rparr>]\<rparr>\<rparr>"

theorem ResetPassword_sound_witness:
  "fst (run_state (ResetPassword owner_env background ''rt'' ''new'') reset_world) = Inr ()
    \<and> (\<exists>r \<in> set (users (pg reset_world)). ur_reset_token r = ''rt'')"
proof -
  let ?m = "run_state (ResetPassword owner_env background ''rt'' ''new'') reset_world"
  have ok: "users_ok (pg reset_world)" "fst ?m = Inr ()" by code_simp+
  have "reset_columns_ok (pg reset_world)"
    by (simp add: reset_columns_ok_def reset_world_def)
  moreover have "0 < clock owner_env n" for n by (simp add: owner_env_def demo_env_def)
  ultimately show ?thesis using ResetPassword_sound[OF ok(1) _ _ run_result[OF ok(2)]] ok(2) by blast
qed

text \<open>
  A completed password recovery locks the account: an active user requests a reset, redeems the
  token of the e-mail with success, and the login with the new password is refused with
  \<^verbatim>\<open>ErrUserNotActive\<close>, because \<^verbatim>\<open>GetByResetToken\<close> does not load the status that \<^verbatim>\<open>Update\<close> writes.
\<close>

theorem ResetPassword_locks_account:
  "(case run_state (do {
      a \<leftarrow> RequestReset owner_env ''https://app'' background ''ana'';
      b \<leftarrow> ResetPassword owner_env background (new_uuid owner_env 1) ''new'';
      c \<leftarrow> Login owner_env background ''ana'' ''new'';
      ret (a, b, c) }) demo_world of
    (res, w') \<Rightarrow> res = (Inr (), Inr (), Inl (Sentinel ErrUserNotActive)))
    \<and> map ur_status (users (pg demo_world)) = [UserActive, UserActive]"
  by code_simp

end
