(* ===== verification/Auth_Handler.thy ===== *)
theory Auth_Handler
  imports Middleware Captcha Two_Factor Password_Service
begin

text \<open>
  The HTTP handlers of authentication, two-factor setup and passwords: \<^verbatim>\<open>handlers/auth_handler.go\<close>,
  \<^verbatim>\<open>handlers/dto.go\<close>, \<^verbatim>\<open>handlers/totp_handler.go\<close> and \<^verbatim>\<open>handlers/password_handler.go\<close>. A request struct is
  decoded into the list of its string fields, in the order of the struct.
\<close>

section \<open>Dependencies and transfer objects\<close>

text \<open>
  The handler's services: the registration port, the two-factor service (\<open>None\<close> for a nil pointer,
  else whether it has a store of temporary tokens), the CAPTCHA service and whether there is a quota
  enforcer.
\<close>

record AuthHandler =
  ah_port :: "verification_port option"
  ah_totp :: "bool option"
  ah_captcha :: "(turnstile_api \<times> TurnstileService) option"
  ah_quota :: bool

record LoginResponse =
  lr_Token :: string
  lr_RefreshToken :: string
  lr_ExpiresIn :: int
  lr_Requires2FA :: bool
  lr_TempToken :: string

definition LoginResponse_json :: "LoginResponse \<Rightarrow> json" where
  "LoginResponse_json r = JObj (omitempty ''token'' (lr_Token r) @ omitempty ''refresh_token'' (lr_RefreshToken r)
     @ (if lr_ExpiresIn r = 0 then [] else [(''expires_in'', JNum (lr_ExpiresIn r))])
     @ (if lr_Requires2FA r then [(''requires_2fa'', JBool True)] else []) @ omitempty ''temp_token'' (lr_TempToken r))"

definition zeroLoginResponse :: LoginResponse where
  "zeroLoginResponse = \<lparr>lr_Token = [], lr_RefreshToken = [], lr_ExpiresIn = 0, lr_Requires2FA = False, lr_TempToken = []\<rparr>"

definition ToUserResponse :: "User \<Rightarrow> json" where
  "ToUserResponse u = JObj [(''id'', JStr (u_ID u)), (''email'', JStr (u_Email u)), (''tenant_id'', JStr (u_TenantID u)),
     (''created_at'', JNum (u_CreatedAt u)), (''updated_at'', JNum (u_UpdatedAt u))]"

definition message_json :: "string \<Rightarrow> json" where
  "message_json m = JObj [(''message'', JStr m)]"

section \<open>CAPTCHA\<close>

definition getRemoteIP :: "request \<Rightarrow> string" where
  "getRemoteIP rq =
     (if rq_header rq ''X-Forwarded-For'' \<noteq> [] then rq_header rq ''X-Forwarded-For''
      else if rq_header rq ''X-Real-IP'' \<noteq> [] then rq_header rq ''X-Real-IP''
      else rq_RemoteAddr rq)"

definition validateCaptcha :: "environ \<Rightarrow> AuthHandler \<Rightarrow> request \<Rightarrow> string \<Rightarrow> (go_error option) io" where
  "validateCaptcha E h rq token = (case ah_captcha h of
     None \<Rightarrow> ret None
   | Some (api, svc) \<Rightarrow> if \<not> tn_enabled svc then ret None
       else captcha_ValidateToken E api svc token (getRemoteIP rq))"

definition handleCaptchaError :: "go_error \<Rightarrow> response" where
  "handleCaptchaError err =
     (if errors_Is err ErrCaptchaTokenMissing then writeError ''CAPTCHA token is required'' 400
      else if errors_Is err ErrCaptchaInvalid then writeError ''CAPTCHA verification failed'' 400
      else if errors_Is err ErrCaptchaExpired then writeError ''CAPTCHA challenge expired, please try again'' 400
      else writeError ''CAPTCHA verification error'' 500)"

definition GetCaptchaSiteKey :: "AuthHandler \<Rightarrow> handler" where
  "GetCaptchaSiteKey h rq = ret (case ah_captcha h of
     None \<Rightarrow> writeJSON 200 (JObj [(''site_key'', JStr []), (''enabled'', JBool False)])
   | Some (api, svc) \<Rightarrow> writeJSON 200 (captcha_GetConfig svc))"

section \<open>Registration and login\<close>

definition track_tenant :: "environ \<Rightarrow> AuthHandler \<Rightarrow> string \<Rightarrow> unit io" where
  "track_tenant E h tenantID =
     (if ah_quota h then do { _ \<leftarrow> AddActiveTenant E tenantID; ret () } else ret ())"

definition AuthHandler_Register :: "environ \<Rightarrow> AuthHandler \<Rightarrow> handler" where
  "AuthHandler_Register E h rq =
     (case decode_strings [''email'', ''password'', ''tenant_name'', ''captcha_token'', ''cpf''] (rq_body rq) of
       Some [email, password, tenantName, captchaToken, cpf] \<Rightarrow>
         if email = [] \<or> password = [] \<or> tenantName = []
         then ret (writeError ''Email, password, and tenant_name are required'' 400)
         else do {
           c \<leftarrow> validateCaptcha E h rq captchaToken;
           case c of
             Some err \<Rightarrow> ret (handleCaptchaError err)
           | None \<Rightarrow> do {
               r \<leftarrow> RegisterWithTenant E (ah_port h) (rq_ctx rq)
                 \<lparr>rc_Email = email, rc_Password = password, rc_TenantName = tenantName, rc_CPF = cpf\<rparr>;
               case r of
                 Inl err \<Rightarrow> ret (if errors_Is err ErrCPFInvalid \<or> errors_Is err ErrCPFBlacklisted
                   then writeError (Error_text err) 400
                   else writeError (''Registration failed: '' @ Error_text err) 500)
               | Inr (u, t) \<Rightarrow> do {
                   track_tenant E h (t_ID t);
                   ret (writeJSON 201 (JObj [(''message'', JStr ''User registered successfully''),
                     (''user_id'', JStr (u_ID u)), (''tenant_id'', JStr (t_ID t))])) } } }
     | _ \<Rightarrow> ret (writeError ''Invalid request body'' 400))"

text \<open>\<open>Some\<close> response when the request was answered here, \<open>None\<close> when the login goes on.\<close>

definition handleTOTPRequirement ::
    "environ \<Rightarrow> AuthHandler \<Rightarrow> request \<Rightarrow> string \<Rightarrow> string \<Rightarrow> (response option) io" where
  "handleTOTPRequirement E h rq totpCode userID = (case ah_totp h of
     None \<Rightarrow> ret None
   | Some store \<Rightarrow> do {
       has2FA \<leftarrow> IsEnabled E (rq_ctx rq) userID;
       if has2FA \<noteq> Inr True then ret None
       else if totpCode = [] then do {
         tok \<leftarrow> GenerateTempToken E store userID;
         ret (Some (case tok of
           Inl _ \<Rightarrow> writeError ''Failed to generate 2FA token'' 500
         | Inr tempToken \<Rightarrow> writeJSON 200 (LoginResponse_json
             (zeroLoginResponse\<lparr>lr_Requires2FA := True, lr_TempToken := tempToken\<rparr>)))) }
       else do {
         ok \<leftarrow> VerifyCode E (rq_ctx rq) userID totpCode;
         ret (if \<not> ok then Some (writeError ''Invalid 2FA code'' 401) else None) } })"

definition verifyTOTPLogin :: "environ \<Rightarrow> AuthHandler \<Rightarrow> request \<Rightarrow> string \<Rightarrow> string \<Rightarrow> response io" where
  "verifyTOTPLogin E h rq tempToken totpCode = (case ah_totp h of
     None \<Rightarrow> ret (writeError ''2FA not configured'' 500)
   | Some store \<Rightarrow> do {
       r \<leftarrow> ValidateTempToken E store tempToken;
       case r of
         Inl _ \<Rightarrow> ret (writeError ''Invalid or expired session'' 401)
       | Inr userID \<Rightarrow> do {
           ok \<leftarrow> VerifyCode E (rq_ctx rq) userID totpCode;
           if \<not> ok then ret (writeError ''Invalid 2FA code'' 401)
           else do {
             t \<leftarrow> GenerateTokenForUser E (rq_ctx rq) userID;
             ret (case t of
               Inl _ \<Rightarrow> writeError ''Failed to generate token'' 500
             | Inr tokenPair \<Rightarrow> writeJSON 200 (LoginResponse_json
                 (zeroLoginResponse\<lparr>lr_Token := AccessToken tokenPair, lr_ExpiresIn := ExpiresIn tokenPair\<rparr>))) } } })"

definition login_failure :: "go_error \<Rightarrow> response" where
  "login_failure err =
     (if err = Sentinel ErrInvalidCredentials then writeError ''Invalid credentials'' 401
      else if err = Sentinel ErrUserNotActive then writeError ''User is not active. Please verify your email.'' 403
      else writeError ''Login failed'' 500)"

definition AuthHandler_Login :: "environ \<Rightarrow> AuthHandler \<Rightarrow> handler" where
  "AuthHandler_Login E h rq =
     (case decode_strings [''email'', ''password'', ''captcha_token'', ''totp_code'', ''temp_token''] (rq_body rq) of
       Some [email, password, captchaToken, totpCode, tempToken] \<Rightarrow>
         if tempToken \<noteq> [] \<and> totpCode \<noteq> [] then verifyTOTPLogin E h rq tempToken totpCode
         else if email = [] \<or> password = [] then ret (writeError ''Email and password are required'' 400)
         else do {
           c \<leftarrow> validateCaptcha E h rq captchaToken;
           case c of
             Some err \<Rightarrow> ret (handleCaptchaError err)
           | None \<Rightarrow> do {
               r \<leftarrow> LoginWithUser E (rq_ctx rq) email password;
               case r of
                 Inl err \<Rightarrow> ret (login_failure err)
               | Inr (tokenPair, u) \<Rightarrow> do {
                   handled \<leftarrow> handleTOTPRequirement E h rq totpCode (u_ID u);
                   case handled of
                     Some rs \<Rightarrow> ret rs
                   | None \<Rightarrow> do {
                       (if u_TenantID u \<noteq> [] then track_tenant E h (u_TenantID u) else ret ());
                       ret (writeJSON 200 (LoginResponse_json (zeroLoginResponse\<lparr>lr_Token := AccessToken tokenPair,
                         lr_RefreshToken := RefreshTok tokenPair, lr_ExpiresIn := ExpiresIn tokenPair\<rparr>))) } } } }
     | _ \<Rightarrow> ret (writeError ''Invalid request body'' 400))"

section \<open>The other endpoints of the authentication handler\<close>

definition AuthHandler_Me :: "environ \<Rightarrow> handler" where
  "AuthHandler_Me E rq = (case UserIDFromContext (rq_ctx rq) of
     None \<Rightarrow> ret (writeError ''Unauthorized'' 401)
   | Some userID \<Rightarrow> do {
       r \<leftarrow> GetUser E (rq_ctx rq) userID;
       ret (case r of Inl _ \<Rightarrow> writeError ''User not found'' 404 | Inr u \<Rightarrow> writeJSON 200 (ToUserResponse u)) })"

definition IntrospectResponse_json :: "Claims option \<Rightarrow> json" where
  "IntrospectResponse_json c = (case c of
     None \<Rightarrow> JObj [(''active'', JBool False)]
   | Some c \<Rightarrow> JObj ([(''active'', JBool True)] @ omitempty ''user_id'' (cl_UserID c) @ omitempty ''tenant_id'' (cl_TenantID c)
       @ (if cl_Roles c = [] then [] else [(''roles'', JArr (map JStr (cl_Roles c)))])
       @ omitempty ''active_company_id'' (cl_ActiveCompanyID c) @ omitempty ''company_role'' (cl_CompanyRole c)
       @ omitempty ''identity_type'' (cl_IdentityType c)
       @ (if cl_ExpiresAt c div second = 0 then [] else [(''exp'', JNum (cl_ExpiresAt c div second))])))"

definition AuthHandler_IntrospectToken :: "environ \<Rightarrow> handler" where
  "AuthHandler_IntrospectToken E rq = (case decode_strings [''token''] (rq_body rq) of
     Some [token] \<Rightarrow>
       if token = [] then ret (writeError ''token is required'' 400)
       else do {
         r \<leftarrow> IntrospectToken E (rq_ctx rq) token;
         ret (writeJSON 200 (IntrospectResponse_json (case r of Inl _ \<Rightarrow> None | Inr c \<Rightarrow> Some c))) }
   | _ \<Rightarrow> ret (writeError ''Invalid request body'' 400))"

definition AuthHandler_VerifyEmail :: "environ \<Rightarrow> handler" where
  "AuthHandler_VerifyEmail E rq =
     (if rq_query rq ''token'' = [] then ret (writeError ''Token is required'' 400)
      else do {
        r \<leftarrow> VerifyEmail E (rq_ctx rq) (rq_query rq ''token'');
        ret (case r of Inl e \<Rightarrow> writeError (''Verification failed: '' @ Error_text e) 400
             | Inr _ \<Rightarrow> writeJSON 200 (message_json ''Email verified successfully'')) })"

definition AuthHandler_RefreshToken :: "environ \<Rightarrow> handler" where
  "AuthHandler_RefreshToken E rq = (case decode_strings [''refresh_token''] (rq_body rq) of
     Some [refreshToken] \<Rightarrow>
       if refreshToken = [] then ret (writeError ''Refresh token is required'' 400)
       else do {
         r \<leftarrow> RefreshToken E (rq_ctx rq) refreshToken;
         ret (case r of Inl e \<Rightarrow> writeError (''Refresh failed: '' @ Error_text e) 401
              | Inr tp \<Rightarrow> writeJSON 200 (LoginResponse_json
                  (zeroLoginResponse\<lparr>lr_Token := AccessToken tp, lr_ExpiresIn := ExpiresIn tp\<rparr>))) }
   | _ \<Rightarrow> ret (writeError ''Invalid request body'' 400))"

definition AuthHandler_Logout :: "environ \<Rightarrow> handler" where
  "AuthHandler_Logout E rq = (case decode_strings [''refresh_token''] (rq_body rq) of
     Some [refreshToken] \<Rightarrow>
       if refreshToken = [] then ret (writeError ''Refresh token is required'' 400)
       else do {
         r \<leftarrow> Logout E (rq_ctx rq) refreshToken;
         ret (case r of Inl e \<Rightarrow> writeError (''Logout failed: '' @ Error_text e) 500
              | Inr _ \<Rightarrow> writeJSON 200 (message_json ''Logged out successfully'')) }
   | _ \<Rightarrow> ret (writeError ''Invalid request body'' 400))"

section \<open>Two-factor setup\<close>

definition TOTPHandler_Setup :: "environ \<Rightarrow> string \<Rightarrow> handler" where
  "TOTPHandler_Setup E issuer rq = (case UserIDFromContext (rq_ctx rq) of
     None \<Rightarrow> ret (writeError ''Unauthorized'' 401)
   | Some userID \<Rightarrow> do {
       r \<leftarrow> GetUser E (rq_ctx rq) userID;
       case r of
         Inl _ \<Rightarrow> ret (writeError ''User not found'' 404)
       | Inr u \<Rightarrow> do {
           g \<leftarrow> GenerateSecret E issuer (rq_ctx rq) userID (u_Email u);
           ret (case g of
             Inl e \<Rightarrow> writeError (''Failed to setup 2FA: '' @ Error_text e) 500
           | Inr res \<Rightarrow> writeJSON 200 (JObj [(''secret'', JStr (sr_Secret res)), (''qr_code_url'', JStr (sr_QRCodeURL res)),
               (''backup_codes'', JArr (map JStr (sr_BackupCodes res)))])) } })"

definition TOTPHandler_Verify :: "environ \<Rightarrow> handler" where
  "TOTPHandler_Verify E rq = (case UserIDFromContext (rq_ctx rq) of
     None \<Rightarrow> ret (writeError ''Unauthorized'' 401)
   | Some userID \<Rightarrow> (case decode_strings [''code''] (rq_body rq) of
       Some [code] \<Rightarrow>
         if code = [] then ret (writeError ''Verification code is required'' 400)
         else do {
           r \<leftarrow> VerifySetup E (rq_ctx rq) userID code;
           ret (case r of Inl e \<Rightarrow> writeError (''Verification failed: '' @ Error_text e) 400
                | Inr _ \<Rightarrow> writeJSON 200 (message_json ''Two-factor authentication enabled successfully'')) }
     | _ \<Rightarrow> ret (writeError ''Invalid request body'' 400)))"

definition TOTPHandler_Status :: "environ \<Rightarrow> handler" where
  "TOTPHandler_Status E rq = (case UserIDFromContext (rq_ctx rq) of
     None \<Rightarrow> ret (writeError ''Unauthorized'' 401)
   | Some userID \<Rightarrow> do {
       r \<leftarrow> IsEnabled E (rq_ctx rq) userID;
       ret (case r of Inl _ \<Rightarrow> writeError ''Failed to get 2FA status'' 500
            | Inr enabled \<Rightarrow> writeJSON 200 (JObj [(''enabled'', JBool enabled)])) })"

definition TOTPHandler_Disable :: "environ \<Rightarrow> handler" where
  "TOTPHandler_Disable E rq = (case UserIDFromContext (rq_ctx rq) of
     None \<Rightarrow> ret (writeError ''Unauthorized'' 401)
   | Some userID \<Rightarrow> do {
       let code = rq_query rq ''code'';
       ok \<leftarrow> (if code \<noteq> [] then VerifyCode E (rq_ctx rq) userID code else ret True);
       if \<not> ok then ret (writeError ''Invalid 2FA code'' 401)
       else do {
         r \<leftarrow> Disable E (rq_ctx rq) userID;
         ret (case r of Inl e \<Rightarrow> writeError (''Failed to disable 2FA: '' @ Error_text e) 500
              | Inr _ \<Rightarrow> writeJSON 200 (message_json ''Two-factor authentication disabled'')) } })"

section \<open>Passwords\<close>

text \<open>These handlers write the JSON body without setting a content type.\<close>

definition plain_ok :: "string \<Rightarrow> response" where
  "plain_ok m = \<lparr>rs_status = 200, rs_headers = [], rs_body = message_json m\<rparr>"

definition ForgotPassword :: "environ \<Rightarrow> string \<Rightarrow> handler" where
  "ForgotPassword E frontendURL rq = (case decode_strings [''email''] (rq_body rq) of
     Some [email] \<Rightarrow>
       if email = [] then ret (http_Error ''Email is required'' 400)
       else do {
         _ \<leftarrow> RequestReset E frontendURL (rq_ctx rq) email;
         ret (plain_ok ''If an account with that email exists, a password reset link has been sent.'') }
   | _ \<Rightarrow> ret (http_Error ''Invalid request body'' 400))"

definition PasswordHandler_ResetPassword :: "environ \<Rightarrow> handler" where
  "PasswordHandler_ResetPassword E rq = (case decode_strings [''token'', ''new_password''] (rq_body rq) of
     Some [token, newPassword] \<Rightarrow>
       if token = [] \<or> newPassword = [] then ret (http_Error ''Token and new password are required'' 400)
       else do {
         r \<leftarrow> ResetPassword E (rq_ctx rq) token newPassword;
         ret (case r of
           Inl err \<Rightarrow> if err = Sentinel ErrInvalidResetToken then http_Error ''Invalid or expired reset token'' 400
             else http_Error ''Failed to reset password'' 500
         | Inr _ \<Rightarrow> plain_ok ''Password has been successfully reset.'') }
   | _ \<Rightarrow> ret (http_Error ''Invalid request body'' 400))"

section \<open>The second factor is demanded\<close>

definition grants_token :: "response \<Rightarrow> bool" where
  "grants_token rs \<longleftrightarrow> (case rs_body rs of JObj fs \<Rightarrow> ''token'' \<in> fst ` set fs | _ \<Rightarrow> False)"

lemma grants_token_simps [simp]:
  "\<not> grants_token (writeError m st)" "\<not> grants_token (handleCaptchaError e)" "\<not> grants_token (login_failure e)"
  "\<not> grants_token (writeJSON st (LoginResponse_json (zeroLoginResponse\<lparr>lr_Requires2FA := True, lr_TempToken := t\<rparr>)))"
  by (simp_all add: grants_token_def writeError_def writeJSON_def handleCaptchaError_def login_failure_def
      LoginResponse_json_def zeroLoginResponse_def omitempty_def)

text \<open>Whether a code opens the second factor of a stored secret at some time.\<close>

definition opens :: "environ \<Rightarrow> string \<Rightarrow> TOTPSecret \<Rightarrow> bool" where
  "opens E code s \<longleftrightarrow> ts_Enabled s \<and> (code \<in> set (ts_BackupCodes s) \<or> (\<exists>n. totp_validate E (clock E n) code (ts_Secret s)))"

lemma VerifyCode_opens:
  assumes "run_state (VerifyCode E ctx userID code) w = (True, w')"
  shows "\<exists>uid s. uuid_parse E userID = Inr uid \<and> s \<in> set (totp_secrets (pg w)) \<and> ts_UserID s = uid \<and> opens E code s"
proof -
  from assms obtain uid where uid: "uuid_parse E userID = Inr uid"
    by (cases "uuid_parse E userID") (simp_all add: VerifyCode_def)
  obtain r w1 where r: "run_state (TOTPRepository_GetByUserID E ctx uid) w = (r, w1)" by fastforce
  from assms uid r obtain s where s: "r = Inr (Some s)" "ts_Enabled s"
    by (auto simp: VerifyCode_def split: sum.splits option.splits if_splits)
  have "s \<in> set (totp_secrets (pg w))" "ts_UserID s = uid"
    using find_SomeD[OF GetByUserID_find[OF r[unfolded s(1)], symmetric]] by auto
  moreover have "opens E code s"
    using assms uid r s
    by (auto simp: VerifyCode_def opens_def totp_Validate_def io_run spend_backup_code_eq split: if_splits option.splits)
  ultimately show ?thesis using uid by blast
qed

lemma keeps_totp_secrets:
  "keeps (\<lambda>w. totp_secrets (pg w)) (UserRepository_Update E ctx u)"
  "keeps (\<lambda>w. totp_secrets (pg w)) (LoginWithUser E ctx email pw)"
proof -
  have lift: "keeps (\<lambda>w. totp_secrets (pg w)) m" if "keeps pg m" for m :: "'c io" using that by (simp add: keeps_def)
  show up: "keeps (\<lambda>w. totp_secrets (pg w)) (UserRepository_Update E ctx u)" for u
    unfolding UserRepository_Update_def keeps_def
    by (auto simp: io_run update_user_def Let_def split: sum.splits prod.splits if_splits option.splits)
  show "keeps (\<lambda>w. totp_secrets (pg w)) (LoginWithUser E ctx email pw)"
    unfolding LoginWithUser_def Let_def
    by (intro keeps_bind keeps_tryE keeps_case_sum keeps_if keeps_ret up; (rule lift, intro io_keep)?)
qed

lemma LoginWithUser_user:
  assumes "run_state (LoginWithUser E ctx email pw) w = (Inr (tp, u), w')"
  shows "\<exists>r \<in> set (users (pg w)). ur_email r = email \<and> ur_id r = u_ID u"
proof (rule LoginWithUser_steps[OF assms])
  fix u0 w1 t
  assume g: "run_state (UserRepository_GetByEmail E ctx email) w = (Inr u0, w1)"
    and u: "u = u0\<lparr>u_LastLoginAt := t, u_LoginAttempts := 0\<rparr>"
  obtain r where "r \<in> set (users (pg w))" "ur_email r = email" "u_ID u0 = ur_id r" by (rule GetByEmail_Inr[OF g])
  then show ?thesis using u by (intro bexI[of _ r]) simp_all
qed

text \<open>
  C7: Login demands the second factor: when PostgreSQL answers a role that sees every row and every
  user with the given address has an enabled TOTP secret, the first step of \<^verbatim>\<open>POST /auth/login\<close> returns
  an access token only if the request carried a code that is a backup code of such a user or a valid
  TOTP code for the secret.
\<close>

theorem login_needs_second_factor:
  assumes "\<And>n. pg_fault E n = None" "rls_bypass E" "\<not> ctx_tx (rq_ctx rq)" "ah_totp h = Some store" "totp_ok (pg w)"
    and "decode_strings [''email'', ''password'', ''captcha_token'', ''totp_code'', ''temp_token''] (rq_body rq)
       = Some [email, pw, captcha, code, temp]" "temp = [] \<or> code = []"
    and "\<forall>r \<in> set (users (pg w)). ur_email r = email \<longrightarrow> uuid_parse E (ur_id r) = Inr (ur_id r)
       \<and> (\<exists>s \<in> set (totp_secrets (pg w)). ts_UserID s = ur_id r \<and> ts_Enabled s)"
    and "run_state (AuthHandler_Login E h rq) w = (rs, w')" "grants_token rs"
  shows "\<exists>r \<in> set (users (pg w)). \<exists>s \<in> set (totp_secrets (pg w)). ur_email r = email \<and> ts_UserID s = ur_id r \<and> opens E code s"
proof -
  obtain c w1 where c: "run_state (validateCaptcha E h rq captcha) w = (c, w1)" by fastforce
  have pg1: "pg w1 = pg w"
    using c keepsD[OF keeps_captcha(3)] by (auto simp: validateCaptcha_def split: option.splits if_splits)
  obtain l w2 where l: "run_state (LoginWithUser E (rq_ctx rq) email pw) w1 = (l, w2)" by fastforce
  note run = assms(9)[unfolded AuthHandler_Login_def assms(6)]
  from run assms(7,10) c l obtain tp u where lr: "c = None" "l = Inr (tp, u)"
    by (auto split: if_splits option.splits sum.splits prod.splits)
  have sec: "totp_secrets (pg w2) = totp_secrets (pg w)" using keepsD[OF keeps_totp_secrets(2) l] pg1 by simp
  obtain r where r: "r \<in> set (users (pg w))" "ur_email r = email" "ur_id r = u_ID u"
    using LoginWithUser_user[OF l[unfolded lr]] pg1 by auto
  from bspec[OF assms(8) r(1)] r(2,3) have uid: "uuid_parse E (u_ID u) = Inr (u_ID u)"
    and "\<exists>s \<in> set (totp_secrets (pg w)). ts_UserID s = u_ID u \<and> ts_Enabled s" by simp_all
  then obtain s where s: "s \<in> set (totp_secrets (pg w))" "ts_UserID s = u_ID u" "ts_Enabled s" by blast
  have "find (\<lambda>s. ts_UserID s = u_ID u \<and> totp_visible E (rq_ctx rq) (pg w2) (ts_UserID s)) (totp_secrets (pg w2)) = Some s"
    unfolding sec
  proof (rule find_unique[OF s(1)])
    show "ts_UserID s = u_ID u \<and> totp_visible E (rq_ctx rq) (pg w2) (ts_UserID s)"
      using s(2) assms(2) by (simp add: totp_visible_def)
    show "y = s" if "y \<in> set (totp_secrets (pg w))" "ts_UserID y = u_ID u \<and> totp_visible E (rq_ctx rq) (pg w2) (ts_UserID y)" for y
      using totp_okD[OF assms(5) that(1) s(1)] that(2) s(2) by simp
  qed
  then have en: "run_state (IsEnabled E (rq_ctx rq) (u_ID u)) w2 = (Inr True, tick w2)"
    using s(3) uid by (simp add: IsEnabled_def run_tryE run_GetByUserID[OF assms(1,3)])
  obtain hd w3 where hd: "run_state (handleTOTPRequirement E h rq code (u_ID u)) w2 = (hd, w3)" by fastforce
  from run assms(7,10) c l lr hd have "hd = None \<or> (\<exists>x. hd = Some x \<and> grants_token x)"
    by (auto split: if_splits option.splits)
  then obtain w4 where v: "run_state (VerifyCode E (rq_ctx rq) (u_ID u) code) (tick w2) = (True, w4)"
    using hd en assms(4) by (auto simp: handleTOTPRequirement_def split: if_splits sum.splits prod.splits)
  from VerifyCode_opens[OF v] uid sec obtain s' where "s' \<in> set (totp_secrets (pg w))" "ts_UserID s' = u_ID u" "opens E code s'"
    by auto
  then show ?thesis using r by (intro bexI[of _ r] bexI[of _ s']) simp_all
qed

text \<open>
  \<^verbatim>\<open>ForgotPassword\<close> does not disclose accounts: its response depends on the request only, never on
  the stored users or on what the database and the mail service do.
\<close>

theorem ForgotPassword_uniform:
  "fst (run_state (ForgotPassword E url rq) w) = fst (run_state (ForgotPassword E' url' rq) w')"
  by (simp add: ForgotPassword_def split: option.splits list.splits prod.splits)

definition login_request :: "(string \<times> json) list \<Rightarrow> request" where
  "login_request fs = plain_request\<lparr>rq_body := Some (JObj fs)\<rparr>"

definition demo_handler :: AuthHandler where
  "demo_handler = \<lparr>ah_port = None, ah_totp = Some True, ah_captcha = None, ah_quota = False\<rparr>"

lemma AuthHandler_Login_grants:
  assumes "decode_strings [''email'', ''password'', ''captcha_token'', ''totp_code'', ''temp_token''] (rq_body rq)
       = Some [email, pw, captcha, code, []]" "email \<noteq> []" "pw \<noteq> []" "ah_captcha h = None" "\<not> ah_quota h"
    and "run_state (LoginWithUser E (rq_ctx rq) email pw) w = (Inr (tp, u), w2)" "AccessToken tp \<noteq> []"
    and "run_state (handleTOTPRequirement E h rq code (u_ID u)) w2 = (None, w3)"
  shows "grants_token (fst (run_state (AuthHandler_Login E h rq) w))"
  using assms by (simp add: AuthHandler_Login_def validateCaptcha_def track_tenant_def grants_token_def writeJSON_def
      LoginResponse_json_def zeroLoginResponse_def omitempty_def)

lemma LoginWithUser_token:
  assumes "run_state (LoginWithUser E ctx email pw) w = (Inr (tp, u), w')" "\<And>c s. jwt_sign E c = Inr s \<Longrightarrow> s \<noteq> []"
  shows "AccessToken tp \<noteq> []"
  using assms(2) by (rule_tac LoginWithUser_steps[OF assms(1)]) (auto dest!: issue_access_token_claims)

lemma demo_sign: "jwt_sign owner_env c = Inr s \<Longrightarrow> s \<noteq> []" "jwt_sign (owner_env\<lparr>pg_fault := f\<rparr>) c = Inr s \<Longrightarrow> s \<noteq> []"
  by (auto simp: owner_env_def demo_env_def)

lemma totp_world_user: "r \<in> set (users (pg totp_world)) \<Longrightarrow> ur_email r = ''ana'' \<Longrightarrow> ur_id r = ''u1''"
  by (auto simp: totp_world_def demo_world_def empty_world_def demo_user_def user_to_row_def zeroUser_def)

lemma totp_world_login:
  assumes "pg_fault E 0 = None" "\<And>n. redis_fault E n = None" "\<And>c. \<exists>s. jwt_sign E c = Inr s \<and> s \<noteq> []"
    and "\<And>p h. bcrypt_verify E p h = (h = ''h:'' @ p)"
  shows "\<exists>tp u w2. run_state (LoginWithUser E background ''ana'' ''pw'') totp_world = (Inr (tp, u), w2)
    \<and> AccessToken tp \<noteq> [] \<and> u_ID u = ''u1'' \<and> 0 < ticks w2"
proof -
  obtain u where u: "run_state (UserRepository_GetByEmail E background ''ana'') totp_world = (Inr u, tick totp_world)"
    "u_PasswordHash u = ''h:pw''" "u_Status u = UserActive" "u_ActiveCompanyID u = []" "u_ID u = ''u1''"
    using assms(1) by (simp add: UserRepository_GetByEmail_def io_run pg_gate_def background_def totp_world_def demo_world_def
        empty_world_def demo_user_def user_to_row_def zeroUser_def scanUserFull_def row_cpf_def CPF_Scan_def cpf_column_def CPF_Value_def)
  have issue: "\<exists>tok w2. run_state (issue_access_token E background u) v = (Inr tok, w2) \<and> tok \<noteq> []" for v
    using u(4) assms(3) by (auto simp: issue_access_token_def CachedPolicyRepository_GetRolesForUser_def Let_def GenerateToken_def
        PolicyRepository_GetRolesForUser_def io_run split: prod.splits sum.splits)
  then obtain tok w2 where i: "run_state (issue_access_token E background u) (tick totp_world) = (Inr tok, w2)" "tok \<noteq> []" by blast
  have create: "\<exists>w2. run_state (SessionStore_Create E sess) v = (Inr (), w2)" for sess v
    by (simp add: SessionStore_Create_def io_run redis_gate_def assms(2))
  have pos: "ticks (snd (run_state (UserRepository_Update E background v) z)) > 0" for v z
    by (simp add: UserRepository_Update_def io_run split: sum.splits prod.splits)
  let ?sess = "NewSession (clock E (ticks w2 + 3)) (new_uuid E (ticks w2 + 1)) (u_ID u) (rand_hex E (ticks w2))
       (getStringFromContext background ''user_agent'' ''unknown'') (getStringFromContext background ''ip_address'' ''unknown'')
       (clock E (ticks w2 + 2) + session_lifetime)"
  obtain w3 where c: "run_state (SessionStore_Create E ?sess) (w2\<lparr>ticks := ticks w2 + 4\<rparr>) = (Inr (), w3)" using create by blast
  let ?u = "u\<lparr>u_LastLoginAt := clock E (ticks w3), u_LoginAttempts := 0\<rparr>"
  obtain x w4 where up: "run_state (UserRepository_Update E background ?u) (tick w3) = (x, w4)" by fastforce
  have "run_state (LoginWithUser E background ''ana'' ''pw'') totp_world
      = (Inr (\<lparr>AccessToken = tok, RefreshTok = rand_hex E (ticks w2), ExpiresIn = 86400\<rparr>, ?u), w4)"
    using u i c up assms(4) by (simp add: LoginWithUser_def run_tryE Verify_def GenerateRefreshToken_def GenerateID_def Let_def
        run_time_Now run_uuid_New eval_nat_numeral)
  then show ?thesis using i(2) u(5) pos[of ?u "tick w3"] up by simp
qed

theorem login_needs_second_factor_witness:
  "\<exists>s \<in> set (totp_secrets (pg totp_world)). opens owner_env ''CCCC-DDDD'' s"
proof -
  let ?rq = "login_request [(''Email'', JStr ''ana''), (''password'', JStr ''pw''), (''totp_code'', JStr ''CCCC-DDDD'')]"
  let ?m = "run_state (AuthHandler_Login owner_env demo_handler ?rq) totp_world"
  have h: "\<And>n. pg_fault owner_env n = None" "rls_bypass owner_env" "\<not> ctx_tx (rq_ctx ?rq)" "ah_totp demo_handler = Some True"
    by (simp_all add: owner_env_def demo_env_def login_request_def plain_request_def background_def demo_handler_def)
  have d: "totp_ok (pg totp_world)"
    "decode_strings [''email'', ''password'', ''captcha_token'', ''totp_code'', ''temp_token''] (rq_body ?rq)
       = Some [''ana'', ''pw'', [], ''CCCC-DDDD'', []]" by code_simp+
  have u: "\<forall>r \<in> set (users (pg totp_world)). ur_email r = ''ana'' \<longrightarrow> uuid_parse owner_env (ur_id r) = Inr (ur_id r)
       \<and> (\<exists>s \<in> set (totp_secrets (pg totp_world)). ts_UserID s = ur_id r \<and> ts_Enabled s)"
    by (simp add: totp_world_def demo_world_def empty_world_def demo_user_def user_to_row_def zeroUser_def owner_env_def demo_env_def)
  obtain tp v w2 where l: "run_state (LoginWithUser owner_env background ''ana'' ''pw'') totp_world = (Inr (tp, v), w2)"
    "AccessToken tp \<noteq> []" "u_ID v = ''u1''"
    using totp_world_login[of owner_env] by (auto simp: owner_env_def demo_env_def)
  have sec: "totp_secrets (pg w2) = totp_secrets (pg totp_world)" by (rule keepsD[OF keeps_totp_secrets(2) l(1)])
  have e: "uuid_parse owner_env ''u1'' = Inr ''u1''" "totp_validate owner_env t c x = (c = x)"
    "totp_visible owner_env ctx db i" for t c x ctx db i
    by (simp_all add: owner_env_def demo_env_def totp_visible_def)
  have "\<exists>w3. run_state (handleTOTPRequirement owner_env demo_handler ?rq ''CCCC-DDDD'' ''u1'') w2 = (None, w3)"
    by (simp add: handleTOTPRequirement_def demo_handler_def IsEnabled_def VerifyCode_def run_tryE run_GetByUserID[OF h(1,3)] sec
        e totp_world_def totp_Validate_def run_time_Now split: prod.splits)
  then obtain w3 where t: "run_state (handleTOTPRequirement owner_env demo_handler ?rq ''CCCC-DDDD'' (u_ID v)) w2 = (None, w3)"
    using l(3) by auto
  have rest: "ah_captcha demo_handler = None" "\<not> ah_quota demo_handler" "rq_ctx ?rq = background"
    by (simp_all add: demo_handler_def login_request_def plain_request_def)
  have "grants_token (fst ?m)" using AuthHandler_Login_grants[OF d(2) _ _ rest(1,2) _ l(2) t] l(1) rest(3) by simp
  from login_needs_second_factor[OF h d _ u run_result[OF refl] this] show ?thesis by auto
qed

text \<open>
  The second factor fails open: when the database is lost after the first query of a login, the
  error of \<^verbatim>\<open>IsEnabled\<close> is taken for a disabled second factor, and a user whose second factor is
  enabled gets an access token for the password alone.
\<close>

theorem login_second_factor_fails_open:
  "grants_token (fst (run_state (AuthHandler_Login (owner_env\<lparr>pg_fault := (\<lambda>n. if n = 0 then None else Some ''connection reset'')\<rparr>)
     demo_handler (login_request [(''email'', JStr ''ana''), (''password'', JStr ''pw'')])) totp_world))"
proof -
  let ?E = "owner_env\<lparr>pg_fault := (\<lambda>n. if n = 0 then None else Some ''connection reset'')\<rparr>"
  let ?rq = "login_request [(''email'', JStr ''ana''), (''password'', JStr ''pw'')]"
  obtain tp v w2 where l: "run_state (LoginWithUser ?E background ''ana'' ''pw'') totp_world = (Inr (tp, v), w2)"
    "AccessToken tp \<noteq> []" "u_ID v = ''u1''" "0 < ticks w2"
    using totp_world_login[of ?E] by (auto simp: owner_env_def demo_env_def)
  have rest: "ah_captcha demo_handler = None" "\<not> ah_quota demo_handler" "rq_ctx ?rq = background"
    by (simp_all add: demo_handler_def login_request_def plain_request_def)
  have "\<exists>w3. run_state (handleTOTPRequirement ?E demo_handler ?rq [] (u_ID v)) w2 = (None, w3)"
    using l(3,4) rest(3) by (simp add: handleTOTPRequirement_def demo_handler_def IsEnabled_def run_tryE TOTPRepository_GetByUserID_def
        io_run pg_gate_def background_def owner_env_def demo_env_def)
  then obtain w3 where t: "run_state (handleTOTPRequirement ?E demo_handler ?rq [] (u_ID v)) w2 = (None, w3)" by blast
  have d: "decode_strings [''email'', ''password'', ''captcha_token'', ''totp_code'', ''temp_token''] (rq_body ?rq)
       = Some [''ana'', ''pw'', [], [], []]" by code_simp
  show ?thesis using AuthHandler_Login_grants[OF d _ _ rest(1,2) _ l(2) t] l(1) rest(3) by simp
qed

end
