(* ===== verification/Company_Service.thy ===== *)
theory Company_Service
  imports Company_User_Repo Registration
begin

text \<open>
  Companies: the PostgreSQL repository (\<^verbatim>\<open>postgres/company_repo.go\<close>) with the unique CNPJ, the status
  check, the foreign keys and the row-level security policy of migration 20, and the company
  service (\<^verbatim>\<open>service/company_service.go\<close>) with the cached membership repository. The lookup of
  registry data is a parameter of the service (a nil service is \<open>None\<close>). Empty optional columns
  are stored as \<^verbatim>\<open>NULL\<close> and read back as empty strings, so the table keeps the entities themselves.
\<close>

section \<open>Repository\<close>

definition company_visible :: "environ \<Rightarrow> reqctx \<Rightarrow> tables \<Rightarrow> Company \<Rightarrow> bool" where
  "company_visible E ctx db c = company_policy E (tenant_setting ctx db) (c_TenantID c)"

definition insert_company :: "environ \<Rightarrow> reqctx \<Rightarrow> Company \<Rightarrow> time \<Rightarrow> tables \<Rightarrow> (tables \<times> nat) result" where
  "insert_company E ctx c t db =
     (if \<not> company_visible E ctx db c then violation ''new row violates row-level security policy''
      else if \<not> CompanyStatus_IsValid (c_Status c) then violation ''check constraint: valid_company_status''
      else if c_ID c \<in> c_ID ` set (companies db) then violation ''duplicate key: companies_pkey''
      else if c_CNPJ c \<in> c_CNPJ ` set (companies db) then violation ''duplicate key: unique_cnpj''
      else if c_TenantID c \<notin> t_ID ` set (tenants db) then violation ''foreign key violation: tenant_id''
      else Inr (db\<lparr>companies := companies db @ [c]\<rparr>, 1))"

definition CompanyRepository_Create :: "environ \<Rightarrow> reqctx \<Rightarrow> Company \<Rightarrow> (unit result) io" where
  "CompanyRepository_Create E ctx c =
     tryE (pg_exec E ctx [c_ID c, c_TenantID c] (insert_company E ctx c))
       (wrap ''failed to insert company: '') (\<lambda>_. ret (Inr ()))"

definition scanCompany :: "Company option \<Rightarrow> Company result" where
  "scanCompany row = (case row of None \<Rightarrow> Inl (Sentinel company_ErrNotFound) | Some c \<Rightarrow> Inr c)"

definition CompanyRepository_GetByID :: "environ \<Rightarrow> reqctx \<Rightarrow> string \<Rightarrow> (Company result) io" where
  "CompanyRepository_GetByID E ctx cid =
     tryE (pg_query E ctx [cid] (\<lambda>db. find (\<lambda>c. c_ID c = cid \<and> company_visible E ctx db c) (companies db)))
       (wrap ''failed to scan company: '') (\<lambda>row. ret (scanCompany row))"

definition CompanyRepository_GetByCNPJ :: "environ \<Rightarrow> reqctx \<Rightarrow> string \<Rightarrow> (Company result) io" where
  "CompanyRepository_GetByCNPJ E ctx cnpj =
     tryE (pg_query E ctx [] (\<lambda>db. find (\<lambda>c. c_CNPJ c = cnpj \<and> company_visible E ctx db c) (companies db)))
       (wrap ''failed to scan company: '') (\<lambda>row. ret (scanCompany row))"

definition set_company_columns :: "time \<Rightarrow> Company \<Rightarrow> Company \<Rightarrow> Company" where
  "set_company_columns t c x = x\<lparr>c_RazaoSocial := c_RazaoSocial c, c_NomeFantasia := c_NomeFantasia c,
     c_Endereco := c_Endereco c, c_RepresentanteLegal := c_RepresentanteLegal c, c_Status := c_Status c,
     c_UpdatedAt := t\<rparr>"

definition update_company :: "environ \<Rightarrow> reqctx \<Rightarrow> Company \<Rightarrow> time \<Rightarrow> tables \<Rightarrow> (tables \<times> nat) result" where
  "update_company E ctx c t db =
     (let hit = (\<lambda>x. c_ID x = c_ID c \<and> company_visible E ctx db x); n = length (filter hit (companies db)) in
      if n \<noteq> 0 \<and> \<not> CompanyStatus_IsValid (c_Status c) then violation ''check constraint: valid_company_status''
      else Inr (db\<lparr>companies := map (\<lambda>x. if hit x then set_company_columns t c x else x) (companies db)\<rparr>, n))"

definition not_found_if_zero :: "nat \<Rightarrow> unit result" where
  "not_found_if_zero n = (if n = 0 then Inl (Sentinel company_ErrNotFound) else Inr ())"

definition CompanyRepository_Update :: "environ \<Rightarrow> reqctx \<Rightarrow> Company \<Rightarrow> (unit result) io" where
  "CompanyRepository_Update E ctx c =
     tryE (pg_exec E ctx [c_ID c] (update_company E ctx c)) (wrap ''failed to update company: '')
       (\<lambda>n. ret (not_found_if_zero n))"

definition CompanyRepository_GetByTenantID :: "environ \<Rightarrow> reqctx \<Rightarrow> string \<Rightarrow> (Company list result) io" where
  "CompanyRepository_GetByTenantID E ctx tenantID =
     tryE (pg_query E ctx [tenantID] (\<lambda>db. sort_key c_RazaoSocial
        (filter (\<lambda>c. c_TenantID c = tenantID \<and> company_visible E ctx db c) (companies db))))
       (wrap ''failed to query companies: '') (\<lambda>rows. ret (Inr rows))"

definition CompanyRepository_ListAllActive :: "environ \<Rightarrow> reqctx \<Rightarrow> nat \<Rightarrow> nat \<Rightarrow> (Company list result) io" where
  "CompanyRepository_ListAllActive E ctx limit offset =
     tryE (pg_query E ctx [] (\<lambda>db. take limit (drop offset (sort_key c_CreatedAt
        (filter (\<lambda>c. c_Status c \<noteq> StatusSuspended \<and> company_visible E ctx db c) (companies db))))))
       (wrap ''failed to query active companies: '') (\<lambda>rows. ret (Inr rows))"

text \<open>Deleting a company cascades to memberships and invitations and clears active-company references.\<close>

definition delete_company :: "environ \<Rightarrow> reqctx \<Rightarrow> string \<Rightarrow> time \<Rightarrow> tables \<Rightarrow> (tables \<times> nat) result" where
  "delete_company E ctx cid t db =
     (let hit = (\<lambda>x. c_ID x = cid \<and> company_visible E ctx db x); n = length (filter hit (companies db)) in
      if n = 0 then Inr (db, 0)
      else Inr (db\<lparr>companies := filter (\<lambda>x. \<not> hit x) (companies db),
             company_users := filter (\<lambda>cu. cu_CompanyID cu \<noteq> cid) (company_users db),
             invitations := filter (\<lambda>i. i_CompanyID i \<noteq> cid) (invitations db),
             users := map (\<lambda>r. if ur_active_company_id r = Some cid then r\<lparr>ur_active_company_id := None\<rparr> else r)
               (users db)\<rparr>, n))"

definition CompanyRepository_Delete :: "environ \<Rightarrow> reqctx \<Rightarrow> string \<Rightarrow> (unit result) io" where
  "CompanyRepository_Delete E ctx cid =
     tryE (pg_exec E ctx [cid] (delete_company E ctx cid)) (wrap ''failed to delete company: '')
       (\<lambda>n. ret (not_found_if_zero n))"

section \<open>Service\<close>

record CreateCompanyRequest =
  cr_CNPJ :: string
  cr_RazaoSocial :: string
  cr_NomeFantasia :: string
  cr_Endereco :: Address
  cr_RepresentanteLegal :: string

type_synonym lookup_service = "reqctx \<Rightarrow> string \<Rightarrow> string \<Rightarrow> (CompanyInfo option result) io"

definition company_event :: "string \<Rightarrow> string \<Rightarrow> string \<Rightarrow> time \<Rightarrow> string \<Rightarrow> payload \<Rightarrow> Event" where
  "company_event eid typ companyID now tenantID p = \<lparr>e_ID = eid, e_Type = typ, e_AggregateType = ''company'',
     e_AggregateID = companyID, e_Source = EventSource, e_Timestamp = now, e_Payload = p, e_TenantID = tenantID\<rparr>"

definition publishAsync :: "Event \<Rightarrow> unit io" where
  "publishAsync evt = spawn (BusPublish evt)"

definition validateExternalCNPJStatus ::
    "lookup_service option \<Rightarrow> reqctx \<Rightarrow> string \<Rightarrow> string \<Rightarrow> (unit result) io" where
  "validateExternalCNPJStatus lookup ctx tenantID normalizedCNPJ = (case lookup of
     None \<Rightarrow> ret (Inr ())
   | Some getByCNPJ \<Rightarrow> do {
       r \<leftarrow> getByCNPJ ctx tenantID normalizedCNPJ;
       ret (case r of
         Inl e \<Rightarrow> Inr ()
       | Inr None \<Rightarrow> Inr ()
       | Inr (Some details) \<Rightarrow>
           if ci_Situacao details = SituationLowered \<or> ci_Situacao details = SituationNull
              \<or> ci_Situacao details = SituationInapt
           then Inl (Wrapped [] (Sentinel ErrCNPJInvalid) ('': CNPJ status is '' @ ci_Situacao details))
           else Inr ()) })"

definition validateCreateCompanyCNPJ ::
    "lookup_service option \<Rightarrow> reqctx \<Rightarrow> string \<Rightarrow> string \<Rightarrow> (string result) io" where
  "validateCreateCompanyCNPJ lookup ctx tenantID cnpj = (let normalizedCNPJ = NormalizeCNPJ cnpj in
     if \<not> ValidateCNPJ normalizedCNPJ then ret (Inl (Sentinel ErrCNPJInvalid))
     else if IsBlacklistedCNPJ normalizedCNPJ then ret (Inl (Sentinel ErrCNPJInvalid))
     else tryE (validateExternalCNPJStatus lookup ctx tenantID normalizedCNPJ) (\<lambda>e. e)
            (\<lambda>_. ret (Inr normalizedCNPJ)))"

text \<open>The function passed to \<^verbatim>\<open>RunInTransaction\<close> (lines 135 to 171).\<close>

definition create_company_tx :: "environ \<Rightarrow> time \<Rightarrow> Company \<Rightarrow> string \<Rightarrow> reqctx \<Rightarrow> (unit result) io" where
  "create_company_tx E now newCompany creatorUserID ctx =
     tryE (CompanyRepository_Create E ctx newCompany) (wrap ''failed to create company: '') (\<lambda>_. do {
     t \<leftarrow> time_Now E;
     tryE (ret (NewCompanyUser t (c_ID newCompany) creatorUserID RoleAdmin creatorUserID))
       (wrap ''failed to create company user: '') (\<lambda>cu.
     tryE (Cached_AddUser E ctx cu) (wrap ''failed to add creator as admin: '') (\<lambda>_. do {
     eid \<leftarrow> uuid_New E;
     tryE (Publisher_Publish E ctx (company_event eid ev_CompanyCreated (c_ID newCompany) now (c_TenantID newCompany)
             (CompanyCreatedPayload (c_ID newCompany) (c_CNPJ newCompany) (c_RazaoSocial newCompany)
                (c_TenantID newCompany) creatorUserID)))
       (wrap ''failed to publish event: '') (\<lambda>_. ret (Inr ())) })) })"

definition CreateCompany ::
    "environ \<Rightarrow> lookup_service option \<Rightarrow> reqctx \<Rightarrow> string \<Rightarrow> string \<Rightarrow> CreateCompanyRequest \<Rightarrow> (Company result) io" where
  "CreateCompany E lookup ctx tenantID creatorUserID req =
     tryE (validateCreateCompanyCNPJ lookup ctx tenantID (cr_CNPJ req)) (\<lambda>e. e) (\<lambda>normalizedCNPJ. do {
     existing \<leftarrow> CompanyRepository_GetByCNPJ E ctx normalizedCNPJ;
     case existing of
       Inr c \<Rightarrow> ret (Inl (Sentinel ErrCNPJTaken))
     | Inl err \<Rightarrow>
         if \<not> errors_Is err company_ErrNotFound then ret (Inl (wrap ''checking CNPJ: '' err))
         else
           tryE (UserRepository_GetByID E ctx creatorUserID) (wrap ''creator user not found: '') (\<lambda>creatorUser. do {
           companyID \<leftarrow> uuid_New E;
           now \<leftarrow> time_Now E;
           let newCompany = \<lparr>c_ID = companyID, c_TenantID = tenantID, c_CNPJ = normalizedCNPJ,
             c_RazaoSocial = cr_RazaoSocial req, c_NomeFantasia = cr_NomeFantasia req, c_Endereco = cr_Endereco req,
             c_RepresentanteLegal = cr_RepresentanteLegal req, c_Status = StatusActive,
             c_CreatedAt = now, c_UpdatedAt = now\<rparr>;
           tryE (RunInTransaction E ctx (create_company_tx E now newCompany creatorUserID)) (\<lambda>e. e) (\<lambda>_. do {
           eid \<leftarrow> uuid_New E;
           publishAsync (company_event eid ev_CompanyCreated companyID now tenantID
             (CompanyCreatedPayload companyID normalizedCNPJ (cr_RazaoSocial req) tenantID creatorUserID));
           ret (Inr newCompany) }) }) })"

definition GetCompanyByID :: "environ \<Rightarrow> reqctx \<Rightarrow> string \<Rightarrow> (Company result) io" where
  "GetCompanyByID E ctx companyID = CompanyRepository_GetByID E ctx companyID"

definition GetCompanyByCNPJ :: "environ \<Rightarrow> reqctx \<Rightarrow> string \<Rightarrow> (Company result) io" where
  "GetCompanyByCNPJ E ctx cnpj = CompanyRepository_GetByCNPJ E ctx (NormalizeCNPJ cnpj)"

fun companies_with_role ::
    "environ \<Rightarrow> reqctx \<Rightarrow> CompanyUser list \<Rightarrow> ((Company \<times> CompanyRole \<times> MembershipStatus) list) io" where
  "companies_with_role E ctx [] = ret []"
| "companies_with_role E ctx (m # ms) = do {
     c \<leftarrow> CompanyRepository_GetByID E ctx (cu_CompanyID m);
     rest \<leftarrow> companies_with_role E ctx ms;
     ret (case c of Inl e \<Rightarrow> rest | Inr x \<Rightarrow> (x, cu_Role m, cu_Status m) # rest) }"

definition GetCompaniesForUser ::
    "environ \<Rightarrow> reqctx \<Rightarrow> string \<Rightarrow> ((Company \<times> CompanyRole \<times> MembershipStatus) list result) io" where
  "GetCompaniesForUser E ctx userID =
     tryE (Cached_GetCompaniesForUser E ctx userID) (wrap ''getting user memberships: '') (\<lambda>memberships. do {
       rs \<leftarrow> companies_with_role E ctx memberships;
       ret (Inr rs) })"

text \<open>The check for an existing membership, \<^verbatim>\<open>err == nil && existingRole != ""\<close>.\<close>

definition has_role :: "CompanyRole result \<Rightarrow> bool" where
  "has_role r = (case r of Inl e \<Rightarrow> False | Inr role \<Rightarrow> role \<noteq> [])"

definition AddUserToCompany ::
    "environ \<Rightarrow> reqctx \<Rightarrow> string \<Rightarrow> string \<Rightarrow> CompanyRole \<Rightarrow> string \<Rightarrow> (unit result) io" where
  "AddUserToCompany E ctx companyID userID role invitedBy =
     (if \<not> CompanyRole_IsValid role then ret (Inl (Sentinel ErrInvalidRole))
      else
        tryE (CompanyRepository_GetByID E ctx companyID) (wrap ''company not found: '') (\<lambda>comp.
        tryE (UserRepository_GetByID E ctx userID) (wrap ''user not found: '') (\<lambda>_. do {
        existing \<leftarrow> Cached_GetUserRole E ctx companyID userID;
        if has_role existing then ret (Inl (Sentinel ErrAlreadyMember))
        else do {
        t \<leftarrow> time_Now E;
        tryE (ret (NewCompanyUser t companyID userID role invitedBy)) (\<lambda>e. e) (\<lambda>cu.
        tryE (Cached_AddUser E ctx cu) (wrap ''failed to add user: '') (\<lambda>_. do {
        eid \<leftarrow> uuid_New E;
        now \<leftarrow> time_Now E;
        publishAsync (company_event eid ev_CompanyUserAdded companyID now (c_TenantID comp)
          (CompanyUserAddedPayload companyID userID role invitedBy));
        ret (Inr ()) })) } })))"

definition RemoveUserFromCompany ::
    "environ \<Rightarrow> reqctx \<Rightarrow> string \<Rightarrow> string \<Rightarrow> string \<Rightarrow> string \<Rightarrow> (unit result) io" where
  "RemoveUserFromCompany E ctx companyID userID removedBy reason =
     tryE (CompanyRepository_GetByID E ctx companyID) (wrap ''company not found: '') (\<lambda>comp.
     tryE (Cached_GetUserRole E ctx companyID userID) (\<lambda>_. Sentinel ErrUserNotMember) (\<lambda>_.
     tryE (Cached_RemoveUser E ctx companyID userID) (wrap ''failed to remove user: '') (\<lambda>_. do {
     eid \<leftarrow> uuid_New E;
     now \<leftarrow> time_Now E;
     publishAsync (company_event eid ev_CompanyUserRemoved companyID now (c_TenantID comp)
       (CompanyUserRemovedPayload companyID userID removedBy reason));
     ret (Inr ()) })))"

definition SwitchCompany :: "environ \<Rightarrow> reqctx \<Rightarrow> string \<Rightarrow> string \<Rightarrow> (unit result) io" where
  "SwitchCompany E ctx userID companyID =
     tryE (Cached_GetUserRole E ctx companyID userID) (\<lambda>_. Sentinel ErrUserNotMember) (\<lambda>role.
     tryE (Cached_GetCompaniesForUser E ctx userID) (\<lambda>e. e) (\<lambda>memberships.
     if \<not> (\<exists>m \<in> set memberships. cu_CompanyID m = companyID \<and> cu_Status m = MembershipActive)
     then ret (Inl (Sentinel ErrUserNotMember))
     else
       tryE (UserRepository_GetByID E ctx userID) (wrap ''user not found: '') (\<lambda>u. do {
       now \<leftarrow> time_Now E;
       tryE (UserRepository_Update E ctx (u\<lparr>u_ActiveCompanyID := companyID, u_IdentityType := IdentityTypeCompany,
               u_UpdatedAt := now\<rparr>)) (wrap ''failed to update user: '') (\<lambda>_. ret (Inr ())) })))"

definition ClearCompanyContext :: "environ \<Rightarrow> reqctx \<Rightarrow> string \<Rightarrow> (unit result) io" where
  "ClearCompanyContext E ctx userID =
     tryE (UserRepository_GetByID E ctx userID) (wrap ''user not found: '') (\<lambda>u. do {
     now \<leftarrow> time_Now E;
     tryE (UserRepository_Update E ctx (u\<lparr>u_ActiveCompanyID := [], u_IdentityType := IdentityTypeIndividual,
             u_UpdatedAt := now\<rparr>)) (wrap ''failed to update user: '') (\<lambda>_. ret (Inr ())) })"

definition GetUserRoleInCompany :: "environ \<Rightarrow> reqctx \<Rightarrow> string \<Rightarrow> string \<Rightarrow> (CompanyRole result) io" where
  "GetUserRoleInCompany E ctx companyID userID = Cached_GetUserRole E ctx companyID userID"

definition UpdateUserRole ::
    "environ \<Rightarrow> reqctx \<Rightarrow> string \<Rightarrow> string \<Rightarrow> CompanyRole \<Rightarrow> string \<Rightarrow> (unit result) io" where
  "UpdateUserRole E ctx companyID userID newRole updatedBy =
     (if \<not> CompanyRole_IsValid newRole then ret (Inl (Sentinel ErrInvalidRole))
      else
        tryE (Cached_GetUserRole E ctx companyID userID) (\<lambda>_. Sentinel ErrUserNotMember) (\<lambda>currentRole.
        if currentRole = newRole then ret (Inr ())
        else tryE (Cached_UpdateUserRole E ctx companyID userID newRole) (wrap ''failed to update role: '')
               (\<lambda>_. ret (Inr ()))))"

definition SuspendCompany :: "environ \<Rightarrow> reqctx \<Rightarrow> string \<Rightarrow> string \<Rightarrow> string \<Rightarrow> (unit result) io" where
  "SuspendCompany E ctx companyID suspendedBy reason =
     tryE (CompanyRepository_GetByID E ctx companyID) (\<lambda>e. e) (\<lambda>comp. do {
     t \<leftarrow> time_Now E;
     tryE (CompanyRepository_Update E ctx (Company_Suspend t comp)) (wrap ''failed to update company: '') (\<lambda>_. do {
     eid \<leftarrow> uuid_New E;
     now \<leftarrow> time_Now E;
     publishAsync (company_event eid ev_CompanySuspended companyID now (c_TenantID comp)
       (CompanySuspendedPayload companyID suspendedBy reason));
     ret (Inr ()) }) })"

definition ActivateCompany :: "environ \<Rightarrow> reqctx \<Rightarrow> string \<Rightarrow> string \<Rightarrow> (unit result) io" where
  "ActivateCompany E ctx companyID activatedBy =
     tryE (CompanyRepository_GetByID E ctx companyID) (\<lambda>e. e) (\<lambda>comp. do {
     t \<leftarrow> time_Now E;
     tryE (CompanyRepository_Update E ctx (Company_Activate t comp)) (wrap ''failed to update company: '') (\<lambda>_. do {
     eid \<leftarrow> uuid_New E;
     now \<leftarrow> time_Now E;
     publishAsync (company_event eid ev_CompanyActivated companyID now (c_TenantID comp)
       (CompanyActivatedPayload companyID activatedBy));
     ret (Inr ()) }) })"

definition RequestJoin :: "environ \<Rightarrow> reqctx \<Rightarrow> string \<Rightarrow> string \<Rightarrow> (unit result) io" where
  "RequestJoin E ctx companyID userID =
     tryE (CompanyRepository_GetByID E ctx companyID) (wrap ''company not found: '') (\<lambda>_.
     tryE (UserRepository_GetByID E ctx userID) (wrap ''user not found: '') (\<lambda>_. do {
     existing \<leftarrow> Cached_GetUserRole E ctx companyID userID;
     if has_role existing then ret (Inl (Sentinel ErrAlreadyMember))
     else do {
     t \<leftarrow> time_Now E;
     tryE (ret (NewCompanyUser t companyID userID RoleMember userID)) (\<lambda>e. e) (\<lambda>cu.
     tryE (Cached_AddUser E ctx (cu\<lparr>cu_Status := MembershipPending\<rparr>)) (wrap ''failed to create join request: '')
       (\<lambda>_. ret (Inr ()))) } }))"

text \<open>The admin check that \<^verbatim>\<open>ApproveMember\<close> and \<^verbatim>\<open>RejectMember\<close> begin with.\<close>

definition require_admin :: "environ \<Rightarrow> reqctx \<Rightarrow> string \<Rightarrow> string \<Rightarrow> string \<Rightarrow> (unit result) io" where
  "require_admin E ctx companyID adminID msg =
     tryE (Cached_GetUserRole E ctx companyID adminID) (wrap ''failed to check admin permissions: '') (\<lambda>role.
       ret (if role \<noteq> RoleAdmin then Inl (ErrorString msg) else Inr ()))"

definition ApproveMember :: "environ \<Rightarrow> reqctx \<Rightarrow> string \<Rightarrow> string \<Rightarrow> string \<Rightarrow> (unit result) io" where
  "ApproveMember E ctx companyID adminID targetUserID =
     tryE (require_admin E ctx companyID adminID ''only admins can approve members'') (\<lambda>e. e) (\<lambda>_.
     tryE (Cached_UpdateUserStatus E ctx companyID targetUserID MembershipActive)
       (wrap ''failed to approve member: '') (\<lambda>_. ret (Inr ())))"

definition RejectMember :: "environ \<Rightarrow> reqctx \<Rightarrow> string \<Rightarrow> string \<Rightarrow> string \<Rightarrow> (unit result) io" where
  "RejectMember E ctx companyID adminID targetUserID =
     tryE (require_admin E ctx companyID adminID ''only admins can reject members'') (\<lambda>e. e) (\<lambda>_.
     tryE (Cached_RemoveUser E ctx companyID targetUserID) (wrap ''failed to reject member: '')
       (\<lambda>_. ret (Inr ())))"

section \<open>Frames\<close>

lemma keeps_company_reads [io_keep]:
  "keeps pg (CompanyRepository_GetByID E ctx cid)" "keeps redis (CompanyRepository_GetByID E ctx cid)"
  "keeps spawned (CompanyRepository_GetByID E ctx cid)"
  "keeps pg (CompanyRepository_GetByCNPJ E ctx cnpj)" "keeps redis (CompanyRepository_GetByCNPJ E ctx cnpj)"
  unfolding CompanyRepository_GetByID_def CompanyRepository_GetByCNPJ_def by (intro io_keep)+

lemma keeps_publishAsync [io_keep]: "keeps pg (publishAsync evt)" "keeps redis (publishAsync evt)"
  unfolding publishAsync_def by (intro io_keep)+

text \<open>
  The tables without the cache of company data, which the lookup service may write. Its promise is
  to touch nothing else.
\<close>

definition core :: "world \<Rightarrow> tables" where
  "core w = (pg w)\<lparr>company_infos := []\<rparr>"

lemma core_eqD:
  assumes "core w = core w'"
  shows "companies (pg w) = companies (pg w')" "company_users (pg w) = company_users (pg w')" "users (pg w) = users (pg w')"
    "tenants (pg w) = tenants (pg w')" "policy_tuples (pg w) = policy_tuples (pg w')" "invitations (pg w) = invitations (pg w')"
    "policy_roles (pg w) = policy_roles (pg w')" "totp_secrets (pg w) = totp_secrets (pg w')" "api_keys (pg w) = api_keys (pg w')"
    "outbox_events (pg w) = outbox_events (pg w')" "current_tenant (pg w) = current_tenant (pg w')"
  using assms by (cases "pg w"; cases "pg w'"; simp add: core_def)+

lemma keeps_core: "keeps pg m \<Longrightarrow> keeps core m"
  by (simp add: keeps_def core_def)

lemma clean_core: "clean pg m \<Longrightarrow> clean core m"
  by (simp add: clean_def core_def)

definition lookup_ok :: "lookup_service option \<Rightarrow> bool" where
  "lookup_ok lookup \<longleftrightarrow> (\<forall>f. lookup = Some f \<longrightarrow> (\<forall>ctx t c. keeps core (f ctx t c)))"

lemma keeps_validateCreateCompanyCNPJ:
  "lookup_ok lookup \<Longrightarrow> keeps core (validateCreateCompanyCNPJ lookup ctx t c)"
  unfolding validateCreateCompanyCNPJ_def validateExternalCNPJStatus_def lookup_ok_def Let_def
  by (auto intro!: io_keep split: option.splits)

lemma validateCreateCompanyCNPJ_valid:
  "run_state (validateCreateCompanyCNPJ lookup ctx t c) w = (Inr n, w')
    \<Longrightarrow> n = NormalizeCNPJ c \<and> ValidateCNPJ n \<and> \<not> IsBlacklistedCNPJ n"
  by (auto simp: validateCreateCompanyCNPJ_def Let_def run_tryE split: if_splits sum.splits prod.splits)

section \<open>Creating a company\<close>

lemma CreateCompany_clean:
  assumes "lookup_ok lookup" shows "clean core (CreateCompany E lookup ctx t u req)"
  unfolding CreateCompany_def Let_def
  by (intro clean_tryE[OF keeps_validateCreateCompanyCNPJ[OF assms]] clean_core clean_bind[OF keeps_core])
    (intro clean_tryE clean_bind clean_tryE_last clean_RunInTransaction never_fails_bind never_fails_ret
      clean_if clean_case_sum io_keep clean_ret)+

lemma CompanyRepository_Create_ok:
  "run_state (CompanyRepository_Create E ctx c) w = (Inr (), w')
    \<Longrightarrow> pg w' = (pg w)\<lparr>companies := companies (pg w) @ [c]\<rparr> \<and> company_visible E ctx (pg w) c
      \<and> c_CNPJ c \<notin> c_CNPJ ` set (companies (pg w)) \<and> c_ID c \<notin> c_ID ` set (companies (pg w))"
  by (auto simp: CompanyRepository_Create_def io_run insert_company_def split: sum.splits prod.splits if_splits)

lemma Cached_AddUser_ok:
  assumes "run_state (Cached_AddUser E ctx cu) w = (Inr (), w')"
  shows "pg w' = (pg w)\<lparr>company_users := company_users (pg w) @ [cu]\<rparr>
    \<and> cu_key cu \<notin> cu_key ` set (company_users (pg w))"
proof -
  from assms obtain w1 where a: "run_state (CompanyUserRepository_AddUser E ctx cu) w = (Inr (), w1)"
    and i: "run_state (invalidateUserCache E (cu_UserID cu)) w1 = ((), w')"
    by (auto simp: Cached_AddUser_def run_tryE split: sum.splits prod.splits)
  have "pg w' = pg w1" using keepsD[OF keeps_invalidate(1) i] .
  then show ?thesis
    using a by (auto simp: CompanyUserRepository_AddUser_def io_run insert_company_user_def
        split: sum.splits prod.splits if_splits)
qed

text \<open>The tables after a company was created, up to generated ids and times.\<close>

definition company_created :: "tables \<Rightarrow> tables \<Rightarrow> Company \<Rightarrow> string \<Rightarrow> bool" where
  "company_created db db' c creator \<longleftrightarrow>
     (\<exists>cu oid t evt. companies db' = companies db @ [c] \<and> company_users db' = company_users db @ [cu]
        \<and> cu_key cu = (c_ID c, creator) \<and> cu_Role cu = RoleAdmin \<and> cu_Status cu = MembershipActive
        \<and> outbox_events db' = outbox_events db @ [outbox_row_of oid t evt] \<and> e_Type evt = ev_CompanyCreated)
     \<and> c_CNPJ c \<notin> c_CNPJ ` set (companies db)
     \<and> tenants db' = tenants db \<and> users db' = users db \<and> policy_tuples db' = policy_tuples db
     \<and> invitations db' = invitations db \<and> policy_roles db' = policy_roles db
     \<and> totp_secrets db' = totp_secrets db \<and> api_keys db' = api_keys db"

lemma create_company_tx_ok:
  assumes "run_state (create_company_tx E now c creator ctx) w = (Inr (), w')"
  shows "company_created (pg w) (pg w') c creator \<and> company_visible E ctx (pg w) c"
proof -
  from assms obtain w1 cu w2 evt where
    c: "run_state (CompanyRepository_Create E ctx c) w = (Inr (), w1)"
    and cu: "NewCompanyUser (clock E (ticks w1)) (c_ID c) creator RoleAdmin creator = Inr cu"
    and a: "run_state (Cached_AddUser E ctx cu) (tick w1) = (Inr (), w2)"
    and p: "run_state (Publisher_Publish E ctx evt) (tick w2) = (Inr (), w')" and e: "e_Type evt = ev_CompanyCreated"
    by (auto simp: create_company_tx_def run_tryE_Inr run_time_Now run_uuid_New company_event_def)
  have cu': "cu_key cu = (c_ID c, creator)" "cu_Role cu = RoleAdmin" "cu_Status cu = MembershipActive"
    using cu by (auto simp: NewCompanyUser_def cu_key_def split: if_splits)
  from Publish_ok[OF p] obtain oid t where
    "pg w' = (pg w2)\<lparr>outbox_events := outbox_events (pg w2) @ [outbox_row_of oid t evt]\<rparr>" by auto
  then show ?thesis
    using CompanyRepository_Create_ok[OF c] Cached_AddUser_ok[OF a] cu' e
    by (auto simp: company_created_def)
qed

text \<open>What a successful \<^verbatim>\<open>CreateCompany\<close> went through, step by step.\<close>

lemma CreateCompany_steps:
  assumes "run_state (CreateCompany E lookup ctx tenantID creator req) w = (Inr c, w')"
  shows "\<exists>n w1 e w2 u w3 w4.
    run_state (validateCreateCompanyCNPJ lookup ctx tenantID (cr_CNPJ req)) w = (Inr n, w1)
    \<and> run_state (CompanyRepository_GetByCNPJ E ctx n) w1 = (Inl e, w2)
    \<and> run_state (UserRepository_GetByID E ctx creator) w2 = (Inr u, w3)
    \<and> c = \<lparr>c_ID = new_uuid E (ticks w3), c_TenantID = tenantID, c_CNPJ = n,
          c_RazaoSocial = cr_RazaoSocial req, c_NomeFantasia = cr_NomeFantasia req, c_Endereco = cr_Endereco req,
          c_RepresentanteLegal = cr_RepresentanteLegal req, c_Status = StatusActive,
          c_CreatedAt = clock E (Suc (ticks w3)), c_UpdatedAt = clock E (Suc (ticks w3))\<rparr>
    \<and> run_state (RunInTransaction E ctx (create_company_tx E (clock E (Suc (ticks w3))) c creator))
        (tick (tick w3)) = (Inr (), w4)
    \<and> pg w' = pg w4"
proof -
  obtain rv w1 where v: "run_state (validateCreateCompanyCNPJ lookup ctx tenantID (cr_CNPJ req)) w = (rv, w1)"
    by fastforce
  from assms v obtain n where n: "rv = Inr n" by (cases rv) (auto simp: CreateCompany_def run_tryE)
  obtain rg w2 where g: "run_state (CompanyRepository_GetByCNPJ E ctx n) w1 = (rg, w2)" by fastforce
  from assms v n g obtain e where e: "rg = Inl e" by (cases rg) (auto simp: CreateCompany_def run_tryE)
  from assms v n g e have ex: "errors_Is e company_ErrNotFound"
    by (auto simp: CreateCompany_def run_tryE split: if_splits)
  obtain ru w3 where u: "run_state (UserRepository_GetByID E ctx creator) w2 = (ru, w3)" by fastforce
  from assms v n g e ex u obtain usr where ru: "ru = Inr usr"
    by (cases ru) (auto simp: CreateCompany_def run_tryE)
  show ?thesis
    using assms v n g e ex u ru
    by (simp add: CreateCompany_def run_tryE run_time_Now run_uuid_New publishAsync_def run_spawn Let_def
        split: sum.splits prod.splits) auto
qed

lemma CreateCompany_ok:
  assumes "lookup_ok lookup" "run_state (CreateCompany E lookup ctx tenantID creator req) w = (Inr c, w')"
  shows "company_created (pg w) (pg w') c creator \<and> company_visible E (ctx\<lparr>ctx_tx := True\<rparr>) ((pg w)\<lparr>current_tenant := None\<rparr>) c
    \<and> c_CNPJ c = NormalizeCNPJ (cr_CNPJ req) \<and> ValidateCNPJ (c_CNPJ c) \<and> \<not> IsBlacklistedCNPJ (c_CNPJ c)
    \<and> c_TenantID c = tenantID \<and> c_Status c = StatusActive \<and> creator \<in> ur_id ` set (users (pg w))"
proof -
  let ?c = "\<lambda>n w3. \<lparr>c_ID = new_uuid E (ticks w3), c_TenantID = tenantID, c_CNPJ = n,
             c_RazaoSocial = cr_RazaoSocial req, c_NomeFantasia = cr_NomeFantasia req, c_Endereco = cr_Endereco req,
             c_RepresentanteLegal = cr_RepresentanteLegal req, c_Status = StatusActive,
             c_CreatedAt = clock E (Suc (ticks w3)), c_UpdatedAt = clock E (Suc (ticks w3))\<rparr>"
  from CreateCompany_steps[OF assms(2)] obtain n w1 e w2 u w3 w4 where
    v: "run_state (validateCreateCompanyCNPJ lookup ctx tenantID (cr_CNPJ req)) w = (Inr n, w1)"
    and g: "run_state (CompanyRepository_GetByCNPJ E ctx n) w1 = (Inl e, w2)"
    and gu: "run_state (UserRepository_GetByID E ctx creator) w2 = (Inr u, w3)"
    and c: "c = ?c n w3"
    and tx: "run_state (RunInTransaction E ctx (create_company_tx E (clock E (Suc (ticks w3))) c creator)) (tick (tick w3)) = (Inr (), w4)"
    and w': "pg w' = pg w4"
    by blast
  have pg2: "pg w2 = pg w1" "pg w3 = pg w1"
    using keepsD[OF keeps_company_reads(4) g] keepsD[OF UserRepository_keeps(4) gu] by simp_all
  have core1: "core w1 = core w" by (rule keepsD[OF keeps_validateCreateCompanyCNPJ[OF assms(1)] v])
  have creator: "creator \<in> ur_id ` set (users (pg w))"
    by (rule GetByID_row[OF gu]) (use core_eqD(3)[OF core1] pg2 in auto)
  from RunInTransaction_ok[OF tx] obtain w5 where
    b: "run_state (create_company_tx E (clock E (Suc (ticks w3))) c creator (ctx\<lparr>ctx_tx := True\<rparr>))
          (tx_begin E (tick (tick w3))) = (Inr (), w5)" and w4: "w4 = tx_commit (tick (tick w3)) (tick w5)"
    by blast
  show ?thesis
    using create_company_tx_ok[OF b] validateCreateCompanyCNPJ_valid[OF v] creator pg2 core_eqD[OF core1] w' w4
    by (auto simp: c company_created_def company_visible_def tenant_setting_def)
qed


definition demo_req :: CreateCompanyRequest where
  "demo_req = \<lparr>cr_CNPJ = ''11.222.333/0001-81'', cr_RazaoSocial = ''Acme'', cr_NomeFantasia = [],
     cr_Endereco = emptyAddress, cr_RepresentanteLegal = []\<rparr>"


end
