(* ===== verification/Company_Admin.thy ===== *)
theory Company_Admin
  imports Company_Service Auth_Service
begin

text \<open>
  Properties of the company service that rest on the membership cache, on row-level security and
  on the user repository: who can change memberships, what a restricted database role makes
  impossible, what \<^verbatim>\<open>SwitchCompany\<close> really stores, and the integrity of the tables under every
  operation of the service.
\<close>

section \<open>Only admins approve and reject\<close>

lemma require_admin_ok:
  assumes "role_cache_coherent w" "no_colon c" "run_state (require_admin E ctx c admin msg) w = (Inr u, w')"
  shows "active_role c admin (pg w) = Some RoleAdmin \<and> role_cache_coherent w' \<and> pg w' = pg w"
proof -
  from assms(3) obtain role where g: "run_state (Cached_GetUserRole E ctx c admin) w = (Inr role, w')"
    and role: "role = RoleAdmin"
    by (auto simp: require_admin_def run_tryE split: sum.splits prod.splits if_splits)
  show ?thesis
    using cached_roles.lookup_role[OF assms(1,2) g] cached_roles.lookup_inv[OF assms(1,2) g]
      keepsD[OF cached_roles.lookup_frame g] role by simp
qed

lemma keeps_require_admin [io_keep]: "keeps pg (require_admin E ctx c admin msg)"
  unfolding require_admin_def by (intro io_keep)

lemma Cached_change_only_pair:
  assumes "only_pair c u m"
  shows "only_pair c u (tryE m (\<lambda>e. e) (\<lambda>_. do { invalidateUserCache E u; invalidateRoleCache E c u; ret (Inr ()) }))"
  unfolding only_pair_def
proof (intro allI impI)
  fix w r w'
  assume op: "run_state (tryE m (\<lambda>e. e) (\<lambda>_. do { invalidateUserCache E u; invalidateRoleCache E c u; ret (Inr ()) })) w = (r, w')"
  obtain x w1 where x: "run_state m w = (x, w1)" by fastforce
  have "keeps pg (do { invalidateUserCache E u; invalidateRoleCache E c u; ret (Inr ()) })"
    by (intro io_keep)
  then have "pg w' = pg w1 \<and> isl r = isl x"
    using op x keepsD by (fastforce simp: run_tryE split: sum.splits prod.splits)
  then show "(isl r \<longrightarrow> pg w' = pg w)
     \<and> (\<forall>c' u'. (c', u') \<noteq> (c, u) \<longrightarrow> active_role c' u' (pg w') = active_role c' u' (pg w))"
    using assms x unfolding only_pair_def by simp
qed

lemma only_pair_Cached:
  "only_pair c u (Cached_UpdateUserStatus E ctx c u st)" "only_pair c u (Cached_RemoveUser E ctx c u)"
  unfolding Cached_UpdateUserStatus_def Cached_RemoveUser_def
  by (rule Cached_change_only_pair revoke_only_pair remove_only_pair)+

text \<open>A change of one membership behind the admin check.\<close>

lemma admin_gated:
  assumes "role_cache_coherent w" "no_colon c" "only_pair c target m"
    and op: "run_state (tryE (require_admin E ctx c admin msg) (\<lambda>e. e) (\<lambda>_. tryE m f (\<lambda>_. ret (Inr ())))) w = (r, w')"
  shows "(pg w' \<noteq> pg w \<longrightarrow> active_role c admin (pg w) = Some RoleAdmin) \<and> (isl r \<longrightarrow> pg w' = pg w)
    \<and> (\<forall>c' u'. (c', u') \<noteq> (c, target) \<longrightarrow> active_role c' u' (pg w') = active_role c' u' (pg w))"
proof -
  obtain a w1 where a: "run_state (require_admin E ctx c admin msg) w = (a, w1)" by fastforce
  have pg1: "pg w1 = pg w" using keepsD[OF keeps_require_admin a] .
  obtain x w2 where x: "run_state m w1 = (x, w2)" by fastforce
  show ?thesis
  proof (cases a)
    case (Inl e)
    then show ?thesis using op a pg1 by (auto simp: run_tryE)
  next
    case (Inr u)
    with a require_admin_ok[OF assms(1,2)] have "active_role c admin (pg w) = Some RoleAdmin" by blast
    moreover have "w' = w2" "isl r = isl x" using op a Inr x by (auto simp: run_tryE split: sum.splits)
    ultimately show ?thesis using assms(3) x pg1 unfolding only_pair_def by simp
  qed
qed

text \<open>
  Approving and rejecting members is reserved to admins: on a coherent role cache, if
  \<^verbatim>\<open>ApproveMember\<close> or \<^verbatim>\<open>RejectMember\<close> changes any table, the caller held an active admin
  membership of that company in the table; a call that reports an error changes nothing, and in
  every case the active roles of all other pairs of company and user are as before.
\<close>

theorem membership_changes_need_admin:
  assumes "role_cache_coherent w" "no_colon c"
    and "run_state (ApproveMember E ctx c admin target) w = (r, w')
      \<or> run_state (RejectMember E ctx c admin target) w = (r, w')"
  shows "(pg w' \<noteq> pg w \<longrightarrow> active_role c admin (pg w) = Some RoleAdmin) \<and> (isl r \<longrightarrow> pg w' = pg w)
    \<and> (\<forall>c' u'. (c', u') \<noteq> (c, target) \<longrightarrow> active_role c' u' (pg w') = active_role c' u' (pg w))"
  using assms(3) admin_gated[OF assms(1,2) only_pair_Cached(1)] admin_gated[OF assms(1,2) only_pair_Cached(2)]
  unfolding ApproveMember_def RejectMember_def by (elim disjE) blast+

theorem membership_changes_need_admin_witness:
  "active_role ''c1'' ''u1'' (pg member_world) = Some RoleAdmin"
proof -
  let ?m = "run_state (RejectMember demo_env background ''c1'' ''u1'' ''u1'') member_world"
  have "company_users (pg (snd ?m)) = [] \<and> company_users (pg member_world) \<noteq> []" by code_simp
  then have "pg (snd ?m) \<noteq> pg member_world" by auto
  with membership_changes_need_admin[OF member_world_coherent _ disjI2[OF run_result[OF refl]],
      where c = "''c1''" and admin = "''u1''" and target = "''u1''" and E = demo_env and ctx = background]
  show ?thesis by (simp add: no_colon_def)
qed

text \<open>
  \<^verbatim>\<open>RejectMember\<close> does not ask whether the membership is pending: it deletes an active admin
  membership, here of the last admin of the company, and reports success.
\<close>

theorem RejectMember_removes_active_admin:
  "(case run_state (RejectMember demo_env background ''c1'' ''u1'' ''u1'') member_world of
     (r, w') \<Rightarrow> r = Inr () \<and> active_role ''c1'' ''u1'' (pg member_world) = Some RoleAdmin
       \<and> company_users (pg w') = [] \<and> map c_ID (companies (pg w')) = [''c1''])"
  by code_simp

section \<open>Row-level security and the company tables\<close>

definition refused :: "('a result) io \<Rightarrow> world \<Rightarrow> bool" where
  "refused m w \<longleftrightarrow> isl (fst (run_state m w)) \<and> core (snd (run_state m w)) = core w"

lemma refused_ret: "refused (ret (Inl e)) w"
  by (simp add: refused_def)

lemma refused_first: "refused m w \<Longrightarrow> refused (tryE m f k) w"
  by (auto simp: refused_def run_tryE split: prod.splits sum.splits)

lemma company_hidden:
  assumes "\<not> rls_bypass E" "\<not> ctx_tx ctx"
  shows "refused (CompanyRepository_GetByID E ctx cid) w"
proof -
  have "\<not> company_visible E ctx db c" for db c
    using assms by (simp add: company_visible_def company_policy_def tenant_setting_def)
  then have "find (\<lambda>c. c_ID c = cid \<and> company_visible E ctx db c) (companies db) = None" for db
    by (simp add: find_None)
  then show ?thesis
    by (simp add: refused_def core_def CompanyRepository_GetByID_def scanCompany_def io_run split: sum.splits)
qed

text \<open>
  A database role subject to row-level security cannot run the company service: since no
  caller sets the tenant of the connection, every call made outside a transaction to
  \<^verbatim>\<open>CreateCompany\<close>, \<^verbatim>\<open>AddUserToCompany\<close>, \<^verbatim>\<open>RemoveUserFromCompany\<close>, \<^verbatim>\<open>SuspendCompany\<close>,
  \<^verbatim>\<open>ActivateCompany\<close> and \<^verbatim>\<open>RequestJoin\<close> ends in an error and changes no table but the cache of
  company data.
\<close>

theorem rls_refuses_company_service:
  assumes "\<not> rls_bypass E" "\<not> ctx_tx ctx" "lookup_ok lookup"
  shows "refused (CreateCompany E lookup ctx tenantID creator req) w
    \<and> refused (AddUserToCompany E ctx c u role by_user) w \<and> refused (RemoveUserFromCompany E ctx c u by_user reason) w
    \<and> refused (SuspendCompany E ctx c by_user reason) w \<and> refused (ActivateCompany E ctx c by_user) w
    \<and> refused (RequestJoin E ctx c u) w"
proof -
  note hid = refused_first[OF company_hidden[OF assms(1,2)]]
  have "refused (CreateCompany E lookup ctx tenantID creator req) w"
  proof -
    obtain r w' where r: "run_state (CreateCompany E lookup ctx tenantID creator req) w = (r, w')" by fastforce
    have "\<not> company_visible E (ctx\<lparr>ctx_tx := True\<rparr>) ((pg w)\<lparr>current_tenant := None\<rparr>) c" for c
      using assms(1) by (simp add: company_visible_def company_policy_def tenant_setting_def)
    then have "r \<noteq> Inr c" for c using CreateCompany_ok[OF assms(3)] r by metis
    then obtain e where "r = Inl e" by (cases r) auto
    then show ?thesis using cleanD[OF CreateCompany_clean[OF assms(3)]] r by (simp add: refused_def)
  qed
  moreover have "refused (AddUserToCompany E ctx c u role by_user) w"
    unfolding AddUserToCompany_def using hid refused_ret by (cases "CompanyRole_IsValid role") simp_all
  ultimately show ?thesis
    using hid unfolding RemoveUserFromCompany_def SuspendCompany_def ActivateCompany_def RequestJoin_def by blast
qed

theorem rls_refuses_company_service_witness:
  "isl (fst (run_state (SuspendCompany demo_env background ''c1'' ''u1'' []) member_world))"
  using rls_refuses_company_service[of demo_env background None, where w = member_world]
  by (simp add: demo_env_def background_def lookup_ok_def refused_def)

section \<open>Switching companies\<close>

lemma set_user_columns_keeps:
  "ur_active_company_id (set_user_columns now u r) = ur_active_company_id r"
  "ur_identity_type (set_user_columns now u r) = ur_identity_type r"
  "ur_status (set_user_columns now u r) = u_Status u"
  by (simp_all add: set_user_columns_def)

lemma company_context_update:
  assumes ok: "users_ok (pg w)"
    and g: "run_state (UserRepository_GetByID E ctx uid) w0 = (Inr u, w1)" and w0: "pg w0 = pg w" "pg w2 = pg w"
    and up: "run_state (UserRepository_Update E ctx (u\<lparr>u_ActiveCompanyID := c, u_IdentityType := t, u_UpdatedAt := now\<rparr>)) w2
          = (Inr (), w')"
  shows "map (\<lambda>r. (ur_id r, ur_active_company_id r, ur_identity_type r)) (users (pg w'))
       = map (\<lambda>r. (ur_id r, ur_active_company_id r, ur_identity_type r)) (users (pg w))
     \<and> (\<forall>r \<in> set (users (pg w')). ur_id r = uid \<longrightarrow> ur_status r = [])
     \<and> uid \<in> ur_id ` set (users (pg w'))"
proof -
  let ?u = "u\<lparr>u_ActiveCompanyID := c, u_IdentityType := t, u_UpdatedAt := now\<rparr>"
  from g obtain r1 where "r1 \<in> set (users (pg w0))" and u: "u_ID u = uid" "u_Status u = []"
    by (elim GetByID_row) auto
  from up obtain r0 now' where r0: "r0 \<in> set (users (pg w2))" "ur_id r0 = u_ID ?u"
    and db: "pg w' = (pg w2)\<lparr>users := map (\<lambda>r'. if ur_id r' = u_ID ?u then set_user_columns now' ?u r0 else r') (users (pg w2))\<rparr>"
    by (elim UserRepository_Update_ok)
  have same: "r = r0" if "r \<in> set (users (pg w))" "ur_id r = uid" for r
    using users_okD[OF ok that(1)] r0 that u w0 by simp
  have users': "users (pg w') = map (\<lambda>r'. if ur_id r' = uid then set_user_columns now' ?u r0 else r') (users (pg w))"
    using db u w0 by simp
  have "map (\<lambda>r. (ur_id r, ur_active_company_id r, ur_identity_type r)) (users (pg w'))
      = map (\<lambda>r. (ur_id r, ur_active_company_id r, ur_identity_type r)) (users (pg w))"
    unfolding users' map_map by (rule map_cong) (auto simp: set_user_columns_keeps dest: same)
  moreover have "\<forall>r \<in> set (users (pg w')). ur_id r = uid \<longrightarrow> ur_status r = []"
    using u by (auto simp: users' set_user_columns_keeps)
  moreover have "uid \<in> ur_id ` set (users (pg w'))"
  proof -
    have "set_user_columns now' ?u r0 \<in> set (users (pg w'))"
      unfolding users' set_map using r0 u w0 by (intro rev_image_eqI[of r0]) simp_all
    then show ?thesis using r0 u by (intro rev_image_eqI[of "set_user_columns now' ?u r0"]) simp_all
  qed
  ultimately show ?thesis by blast
qed

text \<open>
  A successful \<^verbatim>\<open>SwitchCompany\<close> does not switch: the caller is an active member of the company
  in the cached view, but the stored active company and identity type of every user are those of
  before, because \<^verbatim>\<open>Update\<close> has no such columns, and the stored status of the caller is now
  empty, because \<^verbatim>\<open>GetByID\<close> does not load it.
\<close>

theorem SwitchCompany_not_persisted:
  assumes "users_ok (pg w)" "run_state (SwitchCompany E ctx userID companyID) w = (Inr (), w')"
  shows "map (\<lambda>r. (ur_id r, ur_active_company_id r, ur_identity_type r)) (users (pg w'))
       = map (\<lambda>r. (ur_id r, ur_active_company_id r, ur_identity_type r)) (users (pg w))
     \<and> (\<forall>r \<in> set (users (pg w')). ur_id r = userID \<longrightarrow> ur_status r = [])
     \<and> userID \<in> ur_id ` set (users (pg w'))"
proof -
  from assms(2) obtain role w1 ms w2 u w3 where
    r: "run_state (Cached_GetUserRole E ctx companyID userID) w = (Inr role, w1)"
    and m: "run_state (Cached_GetCompaniesForUser E ctx userID) w1 = (Inr ms, w2)"
    and g: "run_state (UserRepository_GetByID E ctx userID) w2 = (Inr u, w3)"
    and up: "run_state (UserRepository_Update E ctx (u\<lparr>u_ActiveCompanyID := companyID,
       u_IdentityType := IdentityTypeCompany, u_UpdatedAt := clock E (ticks w3)\<rparr>)) (tick w3) = (Inr (), w')"
    by (auto simp: SwitchCompany_def run_tryE_Inr run_time_Now split: if_splits)
  have "pg w2 = pg w" "pg w3 = pg w"
    using keepsD[OF keeps_membership_reads(4) r] keepsD[OF keeps_GetCompaniesForUser(1) m]
      keepsD[OF UserRepository_keeps(4) g] by simp_all
  then show ?thesis using company_context_update[OF assms(1) g _ _ up] by simp
qed

theorem SwitchCompany_not_persisted_witness:
  "map ur_active_company_id (users (pg (snd (run_state (SwitchCompany owner_env background ''u1'' ''c1'') member_world))))
     = [None, None]"
proof -
  let ?m = "run_state (SwitchCompany owner_env background ''u1'' ''c1'') member_world"
  have "users_ok (pg member_world)" "fst ?m = Inr ()" by code_simp+
  from SwitchCompany_not_persisted[OF this(1) run_result[OF this(2)]]
  have "map (\<lambda>r. (ur_id r, ur_active_company_id r, ur_identity_type r)) (users (pg (snd ?m)))
      = map (\<lambda>r. (ur_id r, ur_active_company_id r, ur_identity_type r)) (users (pg member_world))" by blast
  then have "map (fst \<circ> snd) (map (\<lambda>r. (ur_id r, ur_active_company_id r, ur_identity_type r)) (users (pg (snd ?m))))
      = map (fst \<circ> snd) (map (\<lambda>r. (ur_id r, ur_active_company_id r, ur_identity_type r)) (users (pg member_world)))"
    by simp
  also have "\<dots> = [None, None]" by code_simp
  finally show ?thesis by (simp add: comp_def)
qed

text \<open>
  Switching the company locks the account: in a state in which the user could log in, a
  successful \<^verbatim>\<open>SwitchCompany\<close> is followed by a login with the right password being refused with
  \<^verbatim>\<open>ErrUserNotActive\<close>.
\<close>

theorem SwitchCompany_locks_account:
  "(case run_state (do {
      a \<leftarrow> SwitchCompany owner_env background ''u1'' ''c1'';
      b \<leftarrow> Login owner_env background ''ana'' ''pw'';
      ret (a, b) }) member_world of
    (res, w') \<Rightarrow> res = (Inr (), Inl (Sentinel ErrUserNotActive)))
    \<and> map ur_status (users (pg member_world)) = [UserActive, UserActive]"
  by code_simp

end
