(* ===== verification/Invitation_Service.thy ===== *)
theory Invitation_Service
  imports Company_Admin
begin

text \<open>
  Invitations to a company: the PostgreSQL repository (\<^verbatim>\<open>postgres/invitation_repository.go\<close>, with the
  constraints of the invitations migration) and the service (\<^verbatim>\<open>service/invitation_service.go\<close>). The
  repository sends its statements to the pool; the service runs without a transaction, so an
  acceptance is two separate changes.
\<close>

section \<open>Repository\<close>

definition inv_status_valid :: "string \<Rightarrow> bool" where
  "inv_status_valid s \<longleftrightarrow> s \<in> {InvPending, InvAccepted, InvExpired, InvRevoked}"

definition insert_invitation :: "Invitation \<Rightarrow> time \<Rightarrow> tables \<Rightarrow> (tables \<times> nat) result" where
  "insert_invitation i t db =
     (if \<not> inv_status_valid (i_Status i) then violation ''invalid input value for enum invitation_status''
      else if i_ID i \<in> i_ID ` set (invitations db) then violation ''duplicate key: invitations_pkey''
      else if i_Token i \<in> i_Token ` set (invitations db) then violation ''duplicate key: idx_invitations_token''
      else if i_CompanyID i \<notin> c_ID ` set (companies db) then violation ''foreign key violation: company_id''
      else Inr (db\<lparr>invitations := invitations db @ [i]\<rparr>, 1))"

definition InvitationRepository_Create :: "environ \<Rightarrow> reqctx \<Rightarrow> Invitation \<Rightarrow> (unit result) io" where
  "InvitationRepository_Create E ctx i =
     tryE (pg_exec E (pool ctx) [i_ID i, i_CompanyID i] (insert_invitation i)) (\<lambda>e. e) (\<lambda>_. ret (Inr ()))"

definition scanInvitation :: "Invitation option \<Rightarrow> Invitation result" where
  "scanInvitation row = (case row of None \<Rightarrow> Inl (Sentinel invitation_ErrNotFound) | Some i \<Rightarrow> Inr i)"

definition InvitationRepository_GetByToken :: "environ \<Rightarrow> reqctx \<Rightarrow> string \<Rightarrow> (Invitation result) io" where
  "InvitationRepository_GetByToken E ctx token =
     tryE (pg_query E (pool ctx) [] (\<lambda>db. find (\<lambda>i. i_Token i = token) (invitations db)))
       (\<lambda>e. e) (\<lambda>row. ret (scanInvitation row))"

definition InvitationRepository_GetByEmailAndCompany ::
    "environ \<Rightarrow> reqctx \<Rightarrow> string \<Rightarrow> string \<Rightarrow> (Invitation result) io" where
  "InvitationRepository_GetByEmailAndCompany E ctx email companyID =
     tryE (pg_query E (pool ctx) [companyID] (\<lambda>db.
        find (\<lambda>i. i_Email i = email \<and> i_CompanyID i = companyID \<and> i_Status i = InvPending) (invitations db)))
       (\<lambda>e. e) (\<lambda>row. ret (scanInvitation row))"

definition update_invitation :: "Invitation \<Rightarrow> time \<Rightarrow> tables \<Rightarrow> (tables \<times> nat) result" where
  "update_invitation i t db =
     (if \<not> inv_status_valid (i_Status i) then violation ''invalid input value for enum invitation_status''
      else Inr (db\<lparr>invitations := map (\<lambda>x. if i_ID x = i_ID i
                  then x\<lparr>i_Status := i_Status i, i_UpdatedAt := i_UpdatedAt i\<rparr> else x) (invitations db)\<rparr>,
                length (filter (\<lambda>x. i_ID x = i_ID i) (invitations db))))"

definition InvitationRepository_Update :: "environ \<Rightarrow> reqctx \<Rightarrow> Invitation \<Rightarrow> (unit result) io" where
  "InvitationRepository_Update E ctx i =
     tryE (pg_exec E (pool ctx) [i_ID i] (update_invitation i)) (\<lambda>e. e) (\<lambda>_. ret (Inr ()))"

definition InvitationRepository_ListByCompany :: "environ \<Rightarrow> reqctx \<Rightarrow> string \<Rightarrow> (Invitation list result) io" where
  "InvitationRepository_ListByCompany E ctx companyID =
     tryE (pg_query E (pool ctx) [companyID] (\<lambda>db. sort_key (\<lambda>i. - i_CreatedAt i)
        (filter (\<lambda>i. i_CompanyID i = companyID) (invitations db)))) (\<lambda>e. e) (\<lambda>rows. ret (Inr rows))"

section \<open>Service\<close>

definition invitationDuration :: duration where
  "invitationDuration = 7 * 24 * hour"

definition invitation_subject :: "string \<Rightarrow> string" where
  "invitation_subject companyName = ''Invitation to join '' @ companyName"

definition invitation_body :: "string \<Rightarrow> CompanyRole \<Rightarrow> string \<Rightarrow> string" where
  "invitation_body companyName role token =
     ''You have been invited to join '' @ companyName @ '' as a '' @ role @ ''. Click here to accept: ''
     @ ''http://localhost:8080'' @ ''/invitations/'' @ token @ ''/accept''"

text \<open>Steps 2 and 3 of \<^verbatim>\<open>InviteUser\<close>: the error that an existing member or invitation gives.\<close>

definition invite_member_check :: "environ \<Rightarrow> reqctx \<Rightarrow> string \<Rightarrow> string \<Rightarrow> bool io" where
  "invite_member_check E ctx companyID email = do {
     existingUser \<leftarrow> UserRepository_GetByEmail E ctx email;
     case existingUser of
       Inl _ \<Rightarrow> ret False
     | Inr u \<Rightarrow> do {
         r \<leftarrow> Cached_GetUserRole E ctx companyID (u_ID u);
         ret (\<not> isl r) } }"

definition invite_pending_check :: "environ \<Rightarrow> reqctx \<Rightarrow> string \<Rightarrow> string \<Rightarrow> bool io" where
  "invite_pending_check E ctx email companyID = do {
     existingInv \<leftarrow> InvitationRepository_GetByEmailAndCompany E ctx email companyID;
     case existingInv of
       Inl _ \<Rightarrow> ret False
     | Inr i \<Rightarrow> if i_Status i = InvPending then do { now \<leftarrow> time_Now E; ret (now < i_ExpiresAt i) } else ret False }"

definition InviteUser ::
    "environ \<Rightarrow> reqctx \<Rightarrow> string \<Rightarrow> string \<Rightarrow> string \<Rightarrow> CompanyRole \<Rightarrow> (unit result) io" where
  "InviteUser E ctx invitorID companyID email role =
     tryE (Cached_GetUserRole E ctx companyID invitorID) (wrap ''failed to check permissions: '') (\<lambda>invitorRole.
     if invitorRole \<noteq> RoleAdmin then ret (Inl (ErrorString ''only admins can invite users''))
     else do {
       member \<leftarrow> invite_member_check E ctx companyID email;
       if member then ret (Inl (ErrorString ''user is already a member of this company''))
       else do {
         pending \<leftarrow> invite_pending_check E ctx email companyID;
         if pending then ret (Inl (ErrorString ''pending invitation already exists for this email''))
         else do {
           now \<leftarrow> time_Now E;
           uuid1 \<leftarrow> uuid_New E;
           uuid2 \<leftarrow> uuid_New E;
           let inv = NewInvitation now uuid1 uuid2 companyID email role invitationDuration;
           tryE (InvitationRepository_Create E ctx inv) (wrap ''failed to create invitation: '') (\<lambda>_. do {
             comp \<leftarrow> CompanyRepository_GetByID E ctx companyID;
             let companyName = (case comp of Inl _ \<Rightarrow> ''Company'' | Inr c \<Rightarrow> c_RazaoSocial c);
             _ \<leftarrow> SendEmail email (invitation_subject companyName) (invitation_body companyName role (i_Token inv));
             ret (Inr ()) }) } } })"

definition AcceptInvitation :: "environ \<Rightarrow> reqctx \<Rightarrow> string \<Rightarrow> string \<Rightarrow> (unit result) io" where
  "AcceptInvitation E ctx token userID =
     tryE (InvitationRepository_GetByToken E ctx token) (\<lambda>_. Sentinel invitation_ErrNotFound) (\<lambda>inv0. do {
       now1 \<leftarrow> time_Now E;
       now2 \<leftarrow> time_Now E;
       let (err, inv) = Invitation_Accept now1 now2 inv0;
       case err of
         Some e \<Rightarrow> ret (Inl e)
       | None \<Rightarrow>
           tryE (UserRepository_GetByID E ctx userID) (wrap ''user not found: '') (\<lambda>u.
           if u_Email u \<noteq> i_Email inv
           then ret (Inl (ErrorString (''invitation email '' @ i_Email inv @ '' does not match user email '' @ u_Email u)))
           else do {
             now \<leftarrow> time_Now E;
             tryE (ret (NewCompanyUser now (i_CompanyID inv) userID (i_Role inv) []))
               (wrap ''failed to create company user entity: '') (\<lambda>cu.
             tryE (Cached_AddUser E ctx cu) (wrap ''failed to add user to company: '') (\<lambda>_.
             tryE (InvitationRepository_Update E ctx inv) (wrap ''failed to update invitation status: '')
               (\<lambda>_. ret (Inr ())))) }) })"

section \<open>Constraints and frames\<close>

definition invitations_ok :: "tables \<Rightarrow> bool" where
  "invitations_ok db \<longleftrightarrow> distinct (map i_ID (invitations db)) \<and> distinct (map i_Token (invitations db))
     \<and> (\<forall>i \<in> set (invitations db). inv_status_valid (i_Status i) \<and> i_CompanyID i \<in> c_ID ` set (companies db))"

lemma Invitation_preserves [io_pres]:
  "preserves (\<lambda>w. invitations_ok (pg w)) (InvitationRepository_Create E ctx i)"
  "preserves (\<lambda>w. invitations_ok (pg w)) (InvitationRepository_Update E ctx i)"
proof -
  have upd: "map i_ID (map (\<lambda>x. if P x then x\<lparr>i_Status := a, i_UpdatedAt := b\<rparr> else x) xs) = map i_ID xs"
    "map i_Token (map (\<lambda>x. if P x then x\<lparr>i_Status := a, i_UpdatedAt := b\<rparr> else x) xs) = map i_Token xs" for P a b xs
    by (simp_all add: comp_def)
  show "preserves (\<lambda>w. invitations_ok (pg w)) (InvitationRepository_Create E ctx i)"
    unfolding InvitationRepository_Create_def
    by (intro io_pres io_keep) (auto simp: insert_invitation_def invitations_ok_def split: if_splits)
  show "preserves (\<lambda>w. invitations_ok (pg w)) (InvitationRepository_Update E ctx i)"
    unfolding InvitationRepository_Update_def
    by (intro io_pres io_keep)
      (auto simp: update_invitation_def invitations_ok_def upd simp del: map_map split: if_splits)
qed

lemma keeps_invitation_reads [io_keep]:
  "keeps pg (InvitationRepository_GetByToken E ctx token)"
  "keeps pg (InvitationRepository_GetByEmailAndCompany E ctx email c)"
  "keeps pg (invite_member_check E ctx c email)" "keeps pg (invite_pending_check E ctx email c)"
  unfolding InvitationRepository_GetByToken_def InvitationRepository_GetByEmailAndCompany_def
    invite_member_check_def invite_pending_check_def
  by (intro io_keep)+

section \<open>Accepting an invitation\<close>

lemma GetByToken_ok:
  "run_state (InvitationRepository_GetByToken E ctx token) w = (Inr i, w')
    \<Longrightarrow> i \<in> set (invitations (pg w)) \<and> i_Token i = token \<and> w' = tick w"
  by (auto simp: InvitationRepository_GetByToken_def io_run scanInvitation_def split: sum.splits option.splits dest!: find_SomeD)

lemma Invitation_Update_ok:
  "run_state (InvitationRepository_Update E ctx i) w = (Inr (), w')
    \<Longrightarrow> pg w' = (pg w)\<lparr>invitations := map (\<lambda>x. if i_ID x = i_ID i
          then x\<lparr>i_Status := i_Status i, i_UpdatedAt := i_UpdatedAt i\<rparr> else x) (invitations (pg w))\<rparr>"
  by (auto simp: InvitationRepository_Update_def io_run update_invitation_def split: sum.splits if_splits)

lemma AcceptInvitation_run:
  assumes "run_state (AcceptInvitation E ctx token uid) w = (Inr (), w')"
  obtains i u w1 cu w2 where "i \<in> set (invitations (pg w))" "i_Token i = token" "i_Status i = InvPending"
    "clock E (Suc (ticks w)) \<le> i_ExpiresAt i"
    "run_state (UserRepository_GetByID E ctx uid) (tick (tick (tick w))) = (Inr u, w1)" "u_Email u = i_Email i"
    "NewCompanyUser (clock E (ticks w1)) (i_CompanyID i) uid (i_Role i) [] = Inr cu"
    "run_state (Cached_AddUser E ctx cu) (tick w1) = (Inr (), w2)"
    "run_state (InvitationRepository_Update E ctx
       (i\<lparr>i_Status := InvAccepted, i_UpdatedAt := clock E (Suc (Suc (ticks w)))\<rparr>)) w2 = (Inr (), w')"
proof -
  from assms obtain i where i: "run_state (InvitationRepository_GetByToken E ctx token) w = (Inr i, tick w)"
    by (auto simp: AcceptInvitation_def run_tryE_Inr dest: GetByToken_ok)
  note rest = assms[unfolded AcceptInvitation_def run_tryE i prod.case sum.case]
  from rest have st: "i_Status i = InvPending" "clock E (Suc (ticks w)) \<le> i_ExpiresAt i"
    by (auto simp: run_time_Now Invitation_Accept_def not_less split: if_splits)
  from rest st obtain u w1 where u: "run_state (UserRepository_GetByID E ctx uid) (tick (tick (tick w))) = (Inr u, w1)"
    by (auto simp: run_time_Now Invitation_Accept_def not_less run_tryE split: sum.splits prod.splits)
  from rest st u have em: "u_Email u = i_Email i"
    by (auto simp: run_time_Now Invitation_Accept_def not_less run_tryE split: if_splits)
  from rest st u em obtain cu where cu: "NewCompanyUser (clock E (ticks w1)) (i_CompanyID i) uid (i_Role i) [] = Inr cu"
    by (cases "NewCompanyUser (clock E (ticks w1)) (i_CompanyID i) uid (i_Role i) []")
      (auto simp: run_time_Now Invitation_Accept_def not_less run_tryE)
  from rest st u em cu obtain w2 where "run_state (Cached_AddUser E ctx cu) (tick w1) = (Inr (), w2)"
    "run_state (InvitationRepository_Update E ctx
       (i\<lparr>i_Status := InvAccepted, i_UpdatedAt := clock E (Suc (Suc (ticks w)))\<rparr>)) w2 = (Inr (), w')"
    by (auto simp: run_time_Now Invitation_Accept_def not_less run_tryE_Inr run_tryE[where m = "UserRepository_GetByID E ctx uid"])
  with that GetByToken_ok[OF i] st u em cu show ?thesis by blast
qed


definition pending_invitation :: "string \<Rightarrow> time \<Rightarrow> Invitation" where
  "pending_invitation email expires = \<lparr>i_ID = ''i1'', i_CompanyID = ''c1'', i_Email = email, i_Role = RoleMember,
     i_Token = ''tok'', i_Status = InvPending, i_ExpiresAt = expires, i_CreatedAt = 1, i_UpdatedAt = 1\<rparr>"

definition invited_world :: "string \<Rightarrow> time \<Rightarrow> world" where
  "invited_world email expires = member_world\<lparr>pg := (pg member_world)\<lparr>invitations := [pending_invitation email expires]\<rparr>\<rparr>"


section \<open>Inviting\<close>

lemma Invitation_Create_ok:
  "run_state (InvitationRepository_Create E ctx i) w = (x, w') \<Longrightarrow>
     (if isl x then pg w' = pg w else pg w' = (pg w)\<lparr>invitations := invitations (pg w) @ [i]\<rparr>)"
  by (auto simp: InvitationRepository_Create_def io_run insert_invitation_def split: sum.splits if_splits)

text \<open>
  Only an administrator invites: when the role cache is coherent, \<^verbatim>\<open>InviteUser\<close> changes at most
  the invitations, and only for a caller whose active role in the company is admin; then it adds one
  pending invitation for that company, address and role that expires seven days after its creation,
  and an error leaves the tables as they were.
\<close>

theorem InviteUser_sound:
  assumes "role_cache_coherent w" "no_colon c" "run_state (InviteUser E ctx admin c email role) w = (r, w')"
  shows "(isl r \<longrightarrow> pg w' = pg w) \<and> (\<not> isl r \<longrightarrow> active_role c admin (pg w) = Some RoleAdmin
    \<and> (\<exists>i. pg w' = (pg w)\<lparr>invitations := invitations (pg w) @ [i]\<rparr> \<and> i_CompanyID i = c \<and> i_Email i = email \<and> i_Role i = role
        \<and> i_Status i = InvPending \<and> i_ExpiresAt i = i_CreatedAt i + 7 * 24 * hour))"
proof -
  obtain g w1 where g: "run_state (Cached_GetUserRole E ctx c admin) w = (g, w1)" by fastforce
  have pg1: "pg w1 = pg w" using keepsD[OF keeps_membership_reads(4) g] .
  obtain m w2 where m: "run_state (invite_member_check E ctx c email) w1 = (m, w2)" by fastforce
  obtain p w3 where p: "run_state (invite_pending_check E ctx email c) w2 = (p, w3)" by fastforce
  have pg3: "pg w2 = pg w" "pg w3 = pg w"
    using keepsD[OF keeps_invitation_reads(3) m] keepsD[OF keeps_invitation_reads(4) p] pg1 by simp_all
  let ?i = "NewInvitation (clock E (ticks w3)) (new_uuid E (Suc (ticks w3))) (new_uuid E (Suc (Suc (ticks w3)))) c email role invitationDuration"
  obtain x w4 where x: "run_state (InvitationRepository_Create E ctx ?i) (tick (tick (tick w3))) = (x, w4)" by fastforce
  obtain cmp w5 where cmp: "run_state (CompanyRepository_GetByID E ctx c) w4 = (cmp, w5)" by fastforce
  have pg5: "pg w5 = pg w4" using keepsD[OF keeps_company_reads(1) cmp] .
  note run = assms(3)[unfolded InviteUser_def run_tryE g]
  show ?thesis
  proof (cases "g = Inr RoleAdmin \<and> \<not> m \<and> \<not> p \<and> \<not> isl x")
    case True
    then have "\<not> isl r" "pg w' = pg w4"
      using run m p x cmp pg5 by (auto simp: run_tryE io_run Let_def SendEmail_def split: sum.splits)
    moreover have "active_role c admin (pg w) = Some RoleAdmin"
      using cached_roles.lookup_role[OF assms(1,2)] g True by blast
    ultimately show ?thesis using Invitation_Create_ok[OF x] True pg3
      by (auto simp: NewInvitation_def invitationDuration_def)
  next
    case False
    then have "isl r" "pg w' = pg w"
      using run m p x pg1 pg3 Invitation_Create_ok[OF x] by (auto simp: run_tryE io_run Let_def split: sum.splits if_splits)
    then show ?thesis by simp
  qed
qed

theorem InviteUser_sound_witness:
  "active_role ''c1'' ''u1'' (pg member_world) = Some RoleAdmin"
proof -
  let ?m = "run_state (InviteUser owner_env background ''u1'' ''c1'' ''eva'' RoleMember) member_world"
  have "\<not> isl (fst ?m)" by code_simp
  with InviteUser_sound[OF member_world_coherent _ run_result[OF refl], where c = "''c1''" and admin = "''u1''"
      and email = "''eva''" and role = RoleMember and E = owner_env and ctx = background]
  show ?thesis by (simp add: no_colon_def)
qed

text \<open>
  The check for a pending invitation is defeated by an expired one: expiry is never stored, the
  repository returns the expired invitation, whose status is still pending, and so two invitations
  in a row for the same address and company succeed and both stay pending and unexpired.
\<close>

theorem InviteUser_duplicate_pending:
  "(case run_state (InviteUser owner_env background ''u1'' ''c1'' ''eva'' RoleMember) (invited_world ''eva'' 5) of (r1, w1) \<Rightarrow>
    case run_state (InviteUser owner_env background ''u1'' ''c1'' ''eva'' RoleAdmin) w1 of (r2, w2) \<Rightarrow>
      \<not> isl r1 \<and> \<not> isl r2 \<and> map (\<lambda>i. (i_Email i, i_Status i, clock owner_env (ticks w2) < i_ExpiresAt i)) (invitations (pg w2))
        = [(''eva'', InvPending, False), (''eva'', InvPending, True), (''eva'', InvPending, True)])"
  by code_simp

end
