(* ===== verification/Risk.thy ===== *)
theory Risk
  imports Middleware Outbox Complex_Main
begin

text \<open>
  Risk analysis of logins: the rules and the engine (\<^verbatim>\<open>domain/risk/rules.go\<close>, \<^verbatim>\<open>domain/risk/engine.go\<close>), the
  login history (\<^verbatim>\<open>postgres/history_repo.go\<close>) and the sentinel worker that feeds them from the outbox
  (\<^verbatim>\<open>cmd/sentinel-worker/main.go\<close>). A score is a rational number; the printed form of a duration and
  the Redis \<^verbatim>\<open>PUBLISH\<close> of a Go map are parameters.
\<close>

section \<open>Login history\<close>

definition history_Save :: "environ \<Rightarrow> reqctx \<Rightarrow> LoginHistory \<Rightarrow> (unit result) io" where
  "history_Save E ctx h = do {
     hid \<leftarrow> uuid_New E;
     tryE (pg_exec E (pool ctx) [] (\<lambda>t db.
        if lh_UserID h \<notin> ur_id ` set (users db) then violation ''foreign key violation: user_id''
        else Inr (db\<lparr>login_history := login_history db @ [h\<lparr>lh_ID := hid\<rparr>]\<rparr>, 1)))
       (wrap ''failed to save login history: '') (\<lambda>_. ret (Inr ())) }"

text \<open>Every error, not only a missing row, gives \<^verbatim>\<open>nil, nil\<close>.\<close>

definition GetLastLogin :: "environ \<Rightarrow> reqctx \<Rightarrow> string \<Rightarrow> (LoginHistory option result) io" where
  "GetLastLogin E ctx userID = do {
     r \<leftarrow> pg_query E (pool ctx) [] (\<lambda>db.
        case sort_key (\<lambda>h. - lh_LoginAt h) (filter (\<lambda>h. lh_UserID h = userID) (login_history db)) of
          [] \<Rightarrow> None | h # _ \<Rightarrow> Some h);
     ret (Inr (case r of Inl _ \<Rightarrow> None | Inr row \<Rightarrow> row)) }"

section \<open>Rules\<close>

record risk_rule =
  rr_name :: string
  rr_evaluate :: "reqctx \<Rightarrow> string \<Rightarrow> string \<Rightarrow> string \<Rightarrow> ((rat \<times> string) result) io"

definition velocity_key :: "string \<Rightarrow> string" where
  "velocity_key userID = ''risk:velocity:'' @ userID"

definition VelocityRule_Evaluate ::
    "environ \<Rightarrow> (duration \<Rightarrow> string) \<Rightarrow> int \<Rightarrow> duration \<Rightarrow> reqctx \<Rightarrow> string \<Rightarrow> string \<Rightarrow> string \<Rightarrow> ((rat \<times> string) result) io" where
  "VelocityRule_Evaluate E show_duration limit window ctx userID ip userAgent =
     tryE (redis_Incr E (velocity_key userID)) (wrap ''redis error: '') (\<lambda>count. do {
       _ \<leftarrow> (if count = 1 then redis_Expire E (velocity_key userID) window else ret (Inr ()));
       if limit < count
       then ret (Inr (1, ''Exceeded login limit: '' @ string_of_int count @ '' in '' @ show_duration window))
       else ret (Inr (0, [])) })"

definition ImpossibleTravelRule_Evaluate ::
    "environ \<Rightarrow> (duration \<Rightarrow> string) \<Rightarrow> reqctx \<Rightarrow> string \<Rightarrow> string \<Rightarrow> string \<Rightarrow> ((rat \<times> string) result) io" where
  "ImpossibleTravelRule_Evaluate E show_duration ctx userID ip userAgent =
     tryE (GetLastLogin E ctx userID) (\<lambda>e. e) (\<lambda>lastLogin. case lastLogin of
         None \<Rightarrow> ret (Inr (0, []))
       | Some h \<Rightarrow>
           if lh_IPAddress h = ip then ret (Inr (0, []))
           else do {
             now \<leftarrow> time_Now E;
             let timeDiff = now - lh_LoginAt h;
             if timeDiff < 5 * second
             then ret (Inr (1, ''Impossible travel detected: IP changed from '' @ lh_IPAddress h @ '' to '' @ ip @ '' in ''
                    @ show_duration timeDiff))
             else ret (Inr (0, [])) })"

definition VelocityRule :: "environ \<Rightarrow> (duration \<Rightarrow> string) \<Rightarrow> int \<Rightarrow> duration \<Rightarrow> risk_rule" where
  "VelocityRule E show_duration limit window =
     \<lparr>rr_name = ''Velocity Check'', rr_evaluate = VelocityRule_Evaluate E show_duration limit window\<rparr>"

definition ImpossibleTravelRule :: "environ \<Rightarrow> (duration \<Rightarrow> string) \<Rightarrow> risk_rule" where
  "ImpossibleTravelRule E show_duration =
     \<lparr>rr_name = ''Impossible Travel'', rr_evaluate = ImpossibleTravelRule_Evaluate E show_duration\<rparr>"

section \<open>Engine\<close>

text \<open>The format \<^verbatim>\<open>%.2f\<close> for a score that is not negative.\<close>

definition fixed2 :: "rat \<Rightarrow> string" where
  "fixed2 r = (let n = nat (round (100 * r)) in string_of_nat (n div 100) @ ''.'' @ two_digits (n mod 100))"

definition risk_reason :: "string \<Rightarrow> string \<Rightarrow> rat \<Rightarrow> string" where
  "risk_reason name reason score = name @ '': '' @ reason @ '' (Score: '' @ fixed2 score @ '')''"

fun analyze_loop ::
    "risk_rule list \<Rightarrow> reqctx \<Rightarrow> string \<Rightarrow> string \<Rightarrow> string \<Rightarrow> rat \<Rightarrow> string list \<Rightarrow> (rat \<times> string list) io" where
  "analyze_loop [] ctx userID ip ua totalScore reasons = ret (totalScore, reasons)"
| "analyze_loop (rule # rules) ctx userID ip ua totalScore reasons = do {
     r \<leftarrow> rr_evaluate rule ctx userID ip ua;
     case r of
       Inl _ \<Rightarrow> analyze_loop rules ctx userID ip ua totalScore reasons
     | Inr (score, reason) \<Rightarrow>
         if 0 < score
         then analyze_loop rules ctx userID ip ua (totalScore + score) (reasons @ [risk_reason (rr_name rule) reason score])
         else analyze_loop rules ctx userID ip ua totalScore reasons }"

definition Analyze ::
    "risk_rule list \<Rightarrow> reqctx \<Rightarrow> string \<Rightarrow> string \<Rightarrow> string \<Rightarrow> ((rat \<times> string list) result) io" where
  "Analyze rules ctx userID ip ua = do {
     (totalScore, reasons) \<leftarrow> analyze_loop rules ctx userID ip ua 0 [];
     ret (Inr (if 1 < totalScore then 1 else totalScore, reasons)) }"

section \<open>The sentinel worker\<close>

definition json_time_field :: "string \<Rightarrow> (string \<times> json) list \<Rightarrow> time option" where
  "json_time_field name fs = (case filter (\<lambda>(k, v). map ascii_lower k = name \<and> v \<noteq> JNull) fs of
     [] \<Rightarrow> Some zero_time
   | vs \<Rightarrow> (case snd (last vs) of JNum t \<Rightarrow> Some t | _ \<Rightarrow> None))"

definition login_payload :: "json \<Rightarrow> (string list \<times> time) option" where
  "login_payload p = (case (decode_strings [''user_id'', ''ip_address'', ''user_agent''] (Some p),
       json_time_field ''login_at'' (case p of JObj fs \<Rightarrow> fs | _ \<Rightarrow> [])) of
     (Some ss, Some t) \<Rightarrow> Some (ss, t) | _ \<Rightarrow> None)"

definition uuid_or_nil :: "environ \<Rightarrow> string \<Rightarrow> string" where
  "uuid_or_nil E s = (case uuid_parse E s of Inl _ \<Rightarrow> zero_uuid | Inr u \<Rightarrow> u)"

definition kill_message :: "string \<Rightarrow> json" where
  "kill_message userID = JObj [(''user_id'', JStr userID), (''reason'', JStr ''High Risk Detected'')]"

definition handleLoginEvent ::
    "environ \<Rightarrow> risk_rule list \<Rightarrow> (string \<Rightarrow> json \<Rightarrow> (unit result) io) \<Rightarrow> reqctx \<Rightarrow> json \<Rightarrow> unit io" where
  "handleLoginEvent E rules redis_publish ctx payload = (case login_payload payload of
     Some ([uid, ip, ua], loginAt) \<Rightarrow> do {
       let userID = uuid_or_nil E uid;
       r \<leftarrow> Analyze rules ctx userID ip ua;
       case r of
         Inl _ \<Rightarrow> ret ()
       | Inr (score, reasons) \<Rightarrow> do {
           _ \<leftarrow> history_Save E ctx \<lparr>lh_ID = zero_uuid, lh_UserID = userID, lh_IPAddress = ip, lh_UserAgent = ua, lh_LoginAt = loginAt\<rparr>;
           if 1 \<le> score then do { _ \<leftarrow> redis_publish ''vyst:events:killswitch'' (kill_message userID); ret () }
           else ret () } }
   | _ \<Rightarrow> ret ())"

fun sentinel_loop ::
    "environ \<Rightarrow> risk_rule list \<Rightarrow> (string \<Rightarrow> json \<Rightarrow> (unit result) io) \<Rightarrow> reqctx \<Rightarrow> outbox_row list \<Rightarrow> unit io" where
  "sentinel_loop E rules redis_publish ctx [] = ret ()"
| "sentinel_loop E rules redis_publish ctx (evt # evts) = do {
     _ \<leftarrow> (if ob_event_type evt = ev_UserLoggedIn then handleLoginEvent E rules redis_publish ctx (ob_payload evt) else ret ());
     _ \<leftarrow> MarkProcessed E ctx (uuid_or_nil E (ob_id evt));
     sentinel_loop E rules redis_publish ctx evts }"

definition sentinel_processEvents ::
    "environ \<Rightarrow> risk_rule list \<Rightarrow> (string \<Rightarrow> json \<Rightarrow> (unit result) io) \<Rightarrow> reqctx \<Rightarrow> unit io" where
  "sentinel_processEvents E rules redis_publish ctx = do {
     r \<leftarrow> FetchUnprocessed E ctx 10;
     case r of Inl _ \<Rightarrow> ret () | Inr events \<Rightarrow> sentinel_loop E rules redis_publish ctx events }"

text \<open>The rules that \<^verbatim>\<open>main\<close> installs.\<close>

definition sentinel_rules :: "environ \<Rightarrow> (duration \<Rightarrow> string) \<Rightarrow> risk_rule list" where
  "sentinel_rules E show_duration = [VelocityRule E show_duration 5 minute, ImpossibleTravelRule E show_duration]"

section \<open>The contract of a rule\<close>

text \<open>A rule's contract (\<^verbatim>\<open>RiskRule\<close>): a score between 0 and 1.\<close>

locale scoring_rule =
  fixes evaluate :: "reqctx \<Rightarrow> string \<Rightarrow> string \<Rightarrow> string \<Rightarrow> ((rat \<times> string) result) io"
  assumes score_range: "run_state (evaluate ctx u ip ua) w = (Inr (s, m), w') \<Longrightarrow> 0 \<le> s \<and> s \<le> 1"
begin

text \<open>A single rule already meets the cap, so a one-rule engine reports its score unchanged.\<close>

lemma single_rule:
  assumes "run_state (evaluate ctx u ip ua) w = (Inr (s, m), w')"
  shows "fst (projr (fst (run_state (Analyze [\<lparr>rr_name = n, rr_evaluate = evaluate\<rparr>] ctx u ip ua) w))) = s"
  using score_range[OF assms] assms by (auto simp: Analyze_def)

end

interpretation velocity: scoring_rule "VelocityRule_Evaluate E show_duration limit window" for E show_duration limit window
  by unfold_locales (auto simp: VelocityRule_Evaluate_def run_tryE_Inr case_prod_beta split: if_splits)

interpretation travel: scoring_rule "ImpossibleTravelRule_Evaluate E show_duration" for E show_duration
  by unfold_locales
    (auto simp: ImpossibleTravelRule_Evaluate_def run_tryE_Inr Let_def run_time_Now split: if_splits prod.splits option.splits)

section \<open>Scores\<close>

lemma analyze_loop_bounds:
  "0 \<le> t \<Longrightarrow> (t = 0 \<longleftrightarrow> rs = []) \<Longrightarrow> run_state (analyze_loop rules ctx u ip ua t rs) w = ((t', rs'), w')
    \<Longrightarrow> t \<le> t' \<and> (t' = 0 \<longleftrightarrow> rs' = [])"
proof (induction rules arbitrary: t rs w)
  case Nil
  then show ?case by simp
next
  case (Cons rule rules)
  obtain r w1 where r: "run_state (rr_evaluate rule ctx u ip ua) w = (r, w1)" by fastforce
  show ?case
  proof (cases "\<exists>s m. r = Inr (s, m) \<and> 0 < s")
    case True
    then obtain s m where s: "r = Inr (s, m)" "0 < s" by blast
    from Cons.IH[of "t + s" "rs @ [risk_reason (rr_name rule) m s]" w1] Cons.prems r s
    have "t + s \<le> t' \<and> (t' = 0 \<longleftrightarrow> rs' = [])" by simp
    then show ?thesis using s(2) by simp
  next
    case False
    then show ?thesis using Cons.IH[of t rs w1] Cons.prems r by (auto split: sum.splits prod.splits if_splits)
  qed
qed

text \<open>
  The engine always answers with a score between 0 and 1, whatever the rules do: an error of a
  rule is skipped, the score is 0 exactly when no reason is reported, and a rule that scores 1 or
  more makes the score 1, whatever the other rules report.
\<close>

theorem Analyze_bounds:
  "\<exists>score reasons w'. run_state (Analyze rules ctx u ip ua) w = (Inr (score, reasons), w') \<and> 0 \<le> score \<and> score \<le> 1
     \<and> (score = 0 \<longleftrightarrow> reasons = [])
     \<and> (\<forall>rule rest s m w1. rules = rule # rest \<and> run_state (rr_evaluate rule ctx u ip ua) w = (Inr (s, m), w1) \<and> 1 \<le> s
          \<longrightarrow> score = 1)"
proof -
  obtain t rs w' where r: "run_state (analyze_loop rules ctx u ip ua 0 []) w = ((t, rs), w')" by (metis surj_pair)
  have b: "0 \<le> t" "t = 0 \<longleftrightarrow> rs = []" using analyze_loop_bounds[OF _ _ r] by simp_all
  have "1 \<le> t" if h: "rules = rule # rest" "run_state (rr_evaluate rule ctx u ip ua) w = (Inr (s, m), w1)" "1 \<le> s" for rule rest s m w1
    using r h analyze_loop_bounds[of s "[risk_reason (rr_name rule) m s]" rest ctx u ip ua w1 t rs w'] by auto
  then have "\<forall>rule rest s m w1. rules = rule # rest \<and> run_state (rr_evaluate rule ctx u ip ua) w = (Inr (s, m), w1) \<and> 1 \<le> s \<longrightarrow> 1 \<le> t"
    by blast
  then show ?thesis using r b by (auto simp: Analyze_def)
qed

theorem Analyze_bounds_witness:
  "fst (projr (fst (run_state (Analyze [VelocityRule demo_env (\<lambda>_. []) 0 minute] background ''u1'' ''ip'' ''ua'') empty_world))) = 1"
proof -
  let ?rule = "VelocityRule demo_env (\<lambda>_. []) 0 minute"
  have "\<exists>m w1. run_state (rr_evaluate ?rule background ''u1'' ''ip'' ''ua'') empty_world = (Inr (1, m), w1)"
    by (simp add: VelocityRule_def VelocityRule_Evaluate_def run_tryE redis_Incr_def redis_gate_def demo_env_def redis_incr_at_def
        redis_lookup_def empty_world_def split: prod.splits)
  then obtain m w1 where "run_state (rr_evaluate ?rule background ''u1'' ''ip'' ''ua'') empty_world = (Inr (1, m), w1)" by blast
  with Analyze_bounds[of "[?rule]" background "''u1''" "''ip''" "''ua''" empty_world] show ?thesis by auto
qed

text \<open>
  The sentinel swallows the outbox: it marks every event it fetches as processed, also those it
  does not handle, so an event about a new user that it saw is never handed to the broker.
\<close>

theorem sentinel_swallows_events:
  "(let w = snd (run_state (sentinel_processEvents demo_env (sentinel_rules demo_env (\<lambda>_. [])) (\<lambda>_ _. ret (Inr ())) background) outbox_world)
    in filter (\<lambda>r. ob_event_type r = ev_UserCreated) (outbox_events (pg outbox_world)) \<noteq> []
      \<and> fetch_unprocessed batchSize (pg outbox_world) \<noteq> [] \<and> fetch_unprocessed batchSize (pg w) = [])"
  by code_simp

end
