(* ===== verification/Company_Lookup.thy ===== *)
theory Company_Lookup
  imports Company_Admin
begin

text \<open>
  Looking up company data: the cache table (\<^verbatim>\<open>postgres/company_info_repository.go\<close>), the BrasilAPI adapter
  (\<^verbatim>\<open>provider/brasilapi/cnpj_adapter.go\<close>), the lookup service with its cascade of cache and providers
  (\<^verbatim>\<open>service/company_lookup_service.go\<close>) and the job that synchronises company statuses
  (\<^verbatim>\<open>service/company_sync_service.go\<close>). The HTTP call to BrasilAPI and the parser of dates are parameters.
  The metrics, which are nil in \<^verbatim>\<open>main\<close>, are left out.
\<close>

section \<open>Cache table\<close>

text \<open>The column of the opening date has type \<^verbatim>\<open>DATE\<close>.\<close>

definition date_of :: "time \<Rightarrow> time" where
  "date_of t = t - t mod (24 * hour)"

definition upsert_info :: "CompanyInfo \<Rightarrow> time \<Rightarrow> tables \<Rightarrow> (tables \<times> nat) result" where
  "upsert_info info t db =
     (let row = info\<lparr>ci_DataAbertura := date_of (ci_DataAbertura info)\<rparr> in
      if ci_CNPJ info \<in> ci_CNPJ ` set (company_infos db)
      then Inr (db\<lparr>company_infos := map (\<lambda>x. if ci_CNPJ x = ci_CNPJ info then row else x) (company_infos db)\<rparr>, 1)
      else Inr (db\<lparr>company_infos := company_infos db @ [row]\<rparr>, 1))"

definition CompanyInfoRepository_Save :: "environ \<Rightarrow> reqctx \<Rightarrow> CompanyInfo \<Rightarrow> (unit result) io" where
  "CompanyInfoRepository_Save E ctx info =
     tryE (pg_exec E ctx [] (upsert_info info)) (wrap ''failed to save company info cache: '') (\<lambda>_. ret (Inr ()))"

definition CompanyInfoRepository_GetByCNPJ :: "environ \<Rightarrow> reqctx \<Rightarrow> string \<Rightarrow> (CompanyInfo result) io" where
  "CompanyInfoRepository_GetByCNPJ E ctx cnpj =
     tryE (pg_query E ctx [] (\<lambda>db. find (\<lambda>x. ci_CNPJ x = cnpj) (company_infos db))) (\<lambda>e. e)
       (\<lambda>row. ret (case row of None \<Rightarrow> Inl (Sentinel ErrCompanyInfoNotFound) | Some info \<Rightarrow> Inr info))"

text \<open>
  \<^verbatim>\<open>ILIKE\<close>: \<^verbatim>\<open>%\<close> matches any text, \<^verbatim>\<open>_\<close> one character, a backslash quotes the next character, and letters
  match regardless of case. The query is put between two \<^verbatim>\<open>%\<close> as it is.
\<close>

fun like_match :: "string \<Rightarrow> string \<Rightarrow> bool" where
  "like_match [] s = (s = [])"
| "like_match (x # p) s =
     (if x = CHR ''%'' then like_match p s \<or> (case s of [] \<Rightarrow> False | _ # s' \<Rightarrow> like_match (x # p) s')
      else if x = CHR ''_'' then (case s of [] \<Rightarrow> False | _ # s' \<Rightarrow> like_match p s')
      else if x = CHR 0x5C then (case p of [] \<Rightarrow> False
        | y # p' \<Rightarrow> (case s of [] \<Rightarrow> False | c # s' \<Rightarrow> y = c \<and> like_match p' s'))
      else (case s of [] \<Rightarrow> False | c # s' \<Rightarrow> x = c \<and> like_match p s'))"

definition ilike :: "string \<Rightarrow> string \<Rightarrow> bool" where
  "ilike pattern s = like_match (map ascii_lower pattern) (map ascii_lower s)"

definition CompanyInfoRepository_SearchByName ::
    "environ \<Rightarrow> reqctx \<Rightarrow> string \<Rightarrow> nat \<Rightarrow> (CompanyInfo list result) io" where
  "CompanyInfoRepository_SearchByName E ctx query limit =
     (let searchPattern = ''%'' @ query @ ''%'' in
      tryE (pg_query E ctx [] (\<lambda>db. take limit (sort_key ci_RazaoSocial (filter (\<lambda>x.
             ilike searchPattern (ci_RazaoSocial x) \<or> ci_NomeFantasia x \<noteq> [] \<and> ilike searchPattern (ci_NomeFantasia x))
           (company_infos db)))))
        (wrap ''failed to search company info: '') (\<lambda>rows. ret (Inr rows)))"

section \<open>The BrasilAPI adapter\<close>

record brasil_data =
  bd_RazaoSocial :: string
  bd_NomeFantasia :: string
  bd_DescricaoSituacao :: string
  bd_DataInicioAtv :: string
  bd_CNAEPrincipal :: int
  bd_NaturezaJuridica :: string
  bd_Endereco :: Address
  bd_DDDTelefone1 :: string
  bd_DDDTelefone2 :: string
  bd_Email :: string

text \<open>A GET gives a transport error, or a status and the decoded body (\<open>None\<close> when it does not decode).\<close>

record brasil_api =
  ba_get :: "nat \<Rightarrow> string \<Rightarrow> (nat \<times> brasil_data option) result"
  ba_parse_date :: "string \<Rightarrow> time option"
  ba_baseURL :: string

definition mapCadastralSituation :: "string \<Rightarrow> CadastralSituation" where
  "mapCadastralSituation value =
     (if CadastralSituation_IsValid value then value
      else if value = ''ATIVA'' then SituationActive
      else if value = ''BAIXADA'' then SituationLowered
      else if value = ''INAPTA'' then SituationInapt
      else if value = ''SUSPENSA'' then SituationSuspended
      else if value = ''NULA'' then SituationNull
      else SituationSuspended)"

fun collectNonEmpty :: "string list \<Rightarrow> string list" where
  "collectNonEmpty [] = []"
| "collectNonEmpty (v # vs) = (if v \<noteq> [] then v # collectNonEmpty vs else collectNonEmpty vs)"

definition BrasilAPI_GetByCNPJ :: "environ \<Rightarrow> brasil_api \<Rightarrow> reqctx \<Rightarrow> string \<Rightarrow> (CompanyInfo option result) io" where
  "BrasilAPI_GetByCNPJ E api ctx cnpj = (let normalized = NormalizeCNPJ cnpj in
     tryE (State (\<lambda>w. (ba_get api (ticks w) (ba_baseURL api @ ''/'' @ normalized), tick w)))
       (wrap ''brasilapi: request failed: '') (\<lambda>(status, body).
         if status = 404 then ret (Inl (Sentinel ErrCompanyInfoNotFound))
         else if status \<noteq> 200
           then ret (Inl (ErrorString (''brasilapi: unexpected status code '' @ string_of_nat status)))
         else (case body of
           None \<Rightarrow> ret (Inl (wrap ''brasilapi: failed to decode response: '' (ErrorString ''invalid character'')))
         | Some data \<Rightarrow> do {
             now \<leftarrow> time_Now E;
             ret (Inr (Some \<lparr>ci_CNPJ = normalized, ci_RazaoSocial = bd_RazaoSocial data, ci_NomeFantasia = bd_NomeFantasia data,
               ci_Situacao = mapCadastralSituation (bd_DescricaoSituacao data), ci_NaturezaJuridica = bd_NaturezaJuridica data,
               ci_DataAbertura = (if bd_DataInicioAtv data = [] then zero_time
                  else case ba_parse_date api (bd_DataInicioAtv data) of None \<Rightarrow> zero_time | Some t \<Rightarrow> t),
               ci_Endereco = bd_Endereco data,
               ci_Telefones = collectNonEmpty [bd_DDDTelefone1 data, bd_DDDTelefone2 data],
               ci_Emails = collectNonEmpty [bd_Email data], ci_CNAEPrincipal = string_of_int (bd_CNAEPrincipal data),
               ci_LastFetchedAt = now\<rparr>)) })))"

section \<open>Lookup service\<close>

record CompanyDataPort =
  cd_Name :: string
  cd_GetByCNPJ :: "reqctx \<Rightarrow> string \<Rightarrow> (CompanyInfo option result) io"
  cd_SearchByName :: "reqctx \<Rightarrow> string \<Rightarrow> nat \<Rightarrow> (CompanyInfo list result) io"

definition BrasilAPIAdapter :: "environ \<Rightarrow> brasil_api \<Rightarrow> CompanyDataPort" where
  "BrasilAPIAdapter E api = \<lparr>cd_Name = ''BrasilAPI'', cd_GetByCNPJ = BrasilAPI_GetByCNPJ E api,
     cd_SearchByName = (\<lambda>ctx query limit. ret (Inl (Sentinel ErrSearchNotSupported)))\<rparr>"

definition NewBrasilAPIAdapter :: "environ \<Rightarrow> brasil_api \<Rightarrow> string \<Rightarrow> CompanyDataPort" where
  "NewBrasilAPIAdapter E api baseURL = BrasilAPIAdapter E (api\<lparr>ba_baseURL :=
     (if baseURL = [] then ''https://brasilapi.com.br/api/cnpj/v1'' else baseURL)\<rparr>)"

text \<open>Whether there is a cache repository, the providers, and the rate limiter if any.\<close>

record CompanyLookupService =
  ls_repo :: bool
  ls_providers :: "CompanyDataPort list"
  ls_rateLimiter :: "(string \<Rightarrow> (bool result) io) option"

definition enforce_limit :: "CompanyLookupService \<Rightarrow> string \<Rightarrow> string \<Rightarrow> (unit result) io" where
  "enforce_limit s prefix tenantID = (case ls_rateLimiter s of
     None \<Rightarrow> ret (Inr ())
   | Some allow \<Rightarrow> do {
       r \<leftarrow> allow (prefix @ (if tenantID = [] then ''anonymous'' else tenantID));
       ret (if r = Inr True then Inr () else Inl (ErrorString ''rate limit exceeded'')) })"

definition enforceLookupRateLimit :: "CompanyLookupService \<Rightarrow> string \<Rightarrow> (unit result) io" where
  "enforceLookupRateLimit s tenantID = enforce_limit s ''company_lookup_api:'' tenantID"

definition cache_lifetime :: duration where
  "cache_lifetime = 7 * 24 * hour"

definition getFreshCachedCompanyInfo :: "environ \<Rightarrow> CompanyLookupService \<Rightarrow> reqctx \<Rightarrow> string \<Rightarrow> (CompanyInfo option) io" where
  "getFreshCachedCompanyInfo E s ctx normalizedCNPJ =
     (if \<not> ls_repo s then ret None
      else do {
        r \<leftarrow> CompanyInfoRepository_GetByCNPJ E ctx normalizedCNPJ;
        case r of
          Inl _ \<Rightarrow> ret None
        | Inr cachedInfo \<Rightarrow> do {
            now \<leftarrow> time_Now E;
            ret (if now - ci_LastFetchedAt cachedInfo \<le> cache_lifetime then Some cachedInfo else None) } })"

fun fetchCompanyInfoFromProviders ::
    "CompanyDataPort list \<Rightarrow> reqctx \<Rightarrow> string \<Rightarrow> go_error option \<Rightarrow> ((CompanyInfo \<times> string) result) io" where
  "fetchCompanyInfoFromProviders [] ctx cnpj lastErr =
     ret (Inl (case lastErr of Some e \<Rightarrow> e | None \<Rightarrow> Sentinel ErrNoProvidersAvailable))"
| "fetchCompanyInfoFromProviders (provider # providers) ctx cnpj lastErr = do {
     r \<leftarrow> cd_GetByCNPJ provider ctx cnpj;
     case r of
       Inr (Some info) \<Rightarrow> ret (Inr (info, cd_Name provider))
     | Inr None \<Rightarrow> fetchCompanyInfoFromProviders providers ctx cnpj None
     | Inl e \<Rightarrow> fetchCompanyInfoFromProviders providers ctx cnpj (Some e) }"

definition saveCompanyInfoCache :: "environ \<Rightarrow> CompanyLookupService \<Rightarrow> reqctx \<Rightarrow> CompanyInfo \<Rightarrow> unit io" where
  "saveCompanyInfoCache E s ctx info =
     (if ls_repo s then do { _ \<leftarrow> CompanyInfoRepository_Save E ctx info; ret () } else ret ())"

text \<open>The in-memory bus starts the handlers as goroutines.\<close>

definition publishCompanyInfoFetched :: "environ \<Rightarrow> string \<Rightarrow> string \<Rightarrow> bool \<Rightarrow> unit io" where
  "publishCompanyInfoFetched E cnpj provider found = do {
     eid \<leftarrow> uuid_New E;
     now \<leftarrow> time_Now E;
     spawn (BusPublish \<lparr>e_ID = eid, e_Type = ev_CompanyInfoFetched, e_AggregateType = [], e_AggregateID = [],
       e_Source = ''identity-api'', e_Timestamp = now, e_Payload = CompanyInfoFetchedPayload cnpj [] provider found, e_TenantID = []\<rparr>) }"

definition Lookup_GetByCNPJ :: "environ \<Rightarrow> CompanyLookupService \<Rightarrow> reqctx \<Rightarrow> string \<Rightarrow> string \<Rightarrow> (CompanyInfo result) io" where
  "Lookup_GetByCNPJ E s ctx tenantID cnpj = (let normalizedCNPJ = NormalizeCNPJ cnpj in
     if \<not> ValidateCNPJ normalizedCNPJ then ret (Inl (Sentinel ErrCNPJInvalid))
     else tryE (enforceLookupRateLimit s tenantID) (\<lambda>e. e) (\<lambda>_. do {
       cachedInfo \<leftarrow> getFreshCachedCompanyInfo E s ctx normalizedCNPJ;
       case cachedInfo of
         Some info \<Rightarrow> ret (Inr info)
       | None \<Rightarrow> tryE (fetchCompanyInfoFromProviders (ls_providers s) ctx normalizedCNPJ None) (\<lambda>e. e) (\<lambda>(info, provider). do {
           saveCompanyInfoCache E s ctx info;
           publishCompanyInfoFetched E normalizedCNPJ provider True;
           ret (Inr info) }) }))"

fun search_providers ::
    "CompanyDataPort list \<Rightarrow> reqctx \<Rightarrow> string \<Rightarrow> nat \<Rightarrow> go_error option \<Rightarrow> (CompanyInfo list \<times> go_error option) io" where
  "search_providers [] ctx query limit lastErr = ret ([], lastErr)"
| "search_providers (provider # providers) ctx query limit lastErr = do {
     r \<leftarrow> cd_SearchByName provider ctx query limit;
     case r of
       Inr pResults \<Rightarrow> ret (pResults, lastErr)
     | Inl pErr \<Rightarrow>
         if errors_Is pErr ErrSearchNotSupported then search_providers providers ctx query limit lastErr
         else search_providers providers ctx query limit (Some pErr) }"

text \<open>Appending an empty slice to a nil slice gives nil, so no result counts as no provider.\<close>

definition Lookup_SearchByName ::
    "environ \<Rightarrow> CompanyLookupService \<Rightarrow> reqctx \<Rightarrow> string \<Rightarrow> string \<Rightarrow> nat \<Rightarrow> (CompanyInfo list result) io" where
  "Lookup_SearchByName E s ctx tenantID query limit =
     (if length query < 3 then ret (Inl (Sentinel ErrQueryTooShort))
      else tryE (enforce_limit s ''company_search_api:'' tenantID) (\<lambda>e. e) (\<lambda>_. do {
        local \<leftarrow> (if ls_repo s then CompanyInfoRepository_SearchByName E ctx query limit else ret (Inr []));
        let localResults = (case local of Inl _ \<Rightarrow> [] | Inr xs \<Rightarrow> xs);
        if localResults \<noteq> [] then ret (Inr localResults)
        else do {
          (results, lastErr) \<leftarrow> search_providers (ls_providers s) ctx query limit None;
          ret (if results \<noteq> [] then Inr results
               else Inl (case lastErr of Some e \<Rightarrow> e | None \<Rightarrow> Sentinel ErrNoProvidersAvailable)) } }))"

definition Lookup :: "environ \<Rightarrow> CompanyLookupService \<Rightarrow> reqctx \<Rightarrow> string \<Rightarrow> string \<Rightarrow> nat \<Rightarrow> (CompanyInfo list result) io" where
  "Lookup E s ctx tenantID query limit =
     (if length query < 3 then ret (Inl (Sentinel ErrQueryTooShort))
      else let normalizedQuery = NormalizeCNPJ query in
        if length normalizedQuery = 14 \<and> ValidateCNPJ normalizedQuery then do {
          r \<leftarrow> Lookup_GetByCNPJ E s ctx tenantID normalizedQuery;
          ret (case r of
            Inl err \<Rightarrow> if errors_Is err ErrCompanyInfoNotFound \<or> errors_Is err ErrNoProvidersAvailable then Inr [] else Inl err
          | Inr info \<Rightarrow> Inr [info]) }
        else Lookup_SearchByName E s ctx tenantID query limit)"

section \<open>Synchronisation\<close>

text \<open>The status that the registry's situation maps to; none for an unknown one.\<close>

definition sync_status :: "CadastralSituation \<Rightarrow> CompanyStatus option" where
  "sync_status s =
     (if s = ''ATIVA'' then Some StatusActive
      else if s = ''BAIXADA'' \<or> s = ''INAPTA'' \<or> s = ''NULA'' then Some StatusSuspended
      else if s = ''SUSPENSA'' then Some StatusSuspended
      else None)"

definition sync_event_type :: "CompanyStatus \<Rightarrow> string" where
  "sync_event_type newStatus =
     (if newStatus = StatusSuspended then ev_CompanySuspended
      else if newStatus = StatusActive then ev_CompanyActivated
      else ev_CompanyUpdated)"

text \<open>The lookup service may be nil (\<open>None\<close>).\<close>

definition syncCompany :: "environ \<Rightarrow> CompanyLookupService option \<Rightarrow> reqctx \<Rightarrow> Company \<Rightarrow> (bool result) io" where
  "syncCompany E lookup ctx cm = (case lookup of
     None \<Rightarrow> ret (Inr False)
   | Some s \<Rightarrow> tryE (Lookup_GetByCNPJ E s ctx (c_TenantID cm) (c_CNPJ cm)) (\<lambda>e. e) (\<lambda>details.
       case sync_status (ci_Situacao details) of
         None \<Rightarrow> ret (Inr False)
       | Some newStatus \<Rightarrow>
           if c_Status cm = newStatus then ret (Inr False)
           else do {
             now \<leftarrow> time_Now E;
             tryE (CompanyRepository_Update E ctx (cm\<lparr>c_Status := newStatus, c_UpdatedAt := now\<rparr>))
               (wrap ''failed to update company status: '') (\<lambda>_. do {
                 eid \<leftarrow> uuid_New E;
                 t \<leftarrow> time_Now E;
                 spawn (BusPublish \<lparr>e_ID = eid, e_Type = sync_event_type newStatus, e_AggregateType = ''company'',
                   e_AggregateID = c_ID cm, e_Source = ''CompanySyncService'', e_Timestamp = t,
                   e_Payload = CompanySyncPayload (c_ID cm) (c_Status cm) newStatus ''External data sync'',
                   e_TenantID = c_TenantID cm\<rparr>);
                 ret (Inr True) }) }))"

record sync_counts =
  sc_processed :: nat
  sc_updated :: nat
  sc_errors :: nat

fun sync_page ::
    "environ \<Rightarrow> CompanyLookupService option \<Rightarrow> reqctx \<Rightarrow> Company list \<Rightarrow> sync_counts \<Rightarrow> sync_counts io" where
  "sync_page E lookup ctx [] n = ret n"
| "sync_page E lookup ctx (cm # comps) n = do {
     r \<leftarrow> syncCompany E lookup ctx cm;
     sync_page E lookup ctx comps (case r of
         Inl _ \<Rightarrow> n\<lparr>sc_errors := Suc (sc_errors n)\<rparr>
       | Inr updated \<Rightarrow> n\<lparr>sc_updated := (if updated then Suc (sc_updated n) else sc_updated n), sc_processed := Suc (sc_processed n)\<rparr>) }"

text \<open>
  The paging loop; \<open>None\<close> means that the fuel, an upper bound on the number of pages, ran out.
\<close>

fun sync_loop ::
    "nat \<Rightarrow> environ \<Rightarrow> CompanyLookupService option \<Rightarrow> reqctx \<Rightarrow> nat \<Rightarrow> nat \<Rightarrow> sync_counts \<Rightarrow> (sync_counts result option) io" where
  "sync_loop 0 E lookup ctx limit offset n = ret None"
| "sync_loop (Suc fuel) E lookup ctx limit offset n = do {
     r \<leftarrow> CompanyRepository_ListAllActive E ctx limit offset;
     case r of
       Inl e \<Rightarrow> ret (Some (Inl (wrap ''failed to list companies: '' e)))
     | Inr comps \<Rightarrow>
         if comps = [] then ret (Some (Inr n))
         else do {
           n' \<leftarrow> sync_page E lookup ctx comps n;
           if length comps < limit then ret (Some (Inr n'))
           else sync_loop fuel E lookup ctx limit (offset + limit) n' } }"

definition SyncAll :: "nat \<Rightarrow> environ \<Rightarrow> CompanyLookupService option \<Rightarrow> reqctx \<Rightarrow> (sync_counts result option) io" where
  "SyncAll fuel E lookup ctx = sync_loop fuel E lookup ctx 50 0 \<lparr>sc_processed = 0, sc_updated = 0, sc_errors = 0\<rparr>"

section \<open>The contract of a provider\<close>

text \<open>What the lookup service relies on: a provider and a rate limiter leave the tables alone.\<close>

locale company_data_port =
  fixes get :: "reqctx \<Rightarrow> string \<Rightarrow> (CompanyInfo option result) io"
  assumes get_frame: "keeps pg (get ctx cnpj)"
begin

lemma get_core: "keeps core (get ctx cnpj)"
  by (rule keeps_core[OF get_frame])

end

interpretation brasil: company_data_port "BrasilAPI_GetByCNPJ E api" for E api
proof
  have "keeps pg (State (\<lambda>w. (g w, tick w)))" for g :: "world \<Rightarrow> 'c" by (simp add: keeps_def)
  then show "keeps pg (BrasilAPI_GetByCNPJ E api ctx cnpj)" for ctx cnpj
    unfolding BrasilAPI_GetByCNPJ_def Let_def by (intro io_keep)
qed

definition lookup_safe :: "CompanyLookupService \<Rightarrow> bool" where
  "lookup_safe s \<longleftrightarrow> (\<forall>p \<in> set (ls_providers s). company_data_port (cd_GetByCNPJ p))
     \<and> (\<forall>allow k. ls_rateLimiter s = Some allow \<longrightarrow> keeps pg (allow k))"

lemma lookup_safe_brasil: "lookup_safe \<lparr>ls_repo = b, ls_providers = [BrasilAPIAdapter E api], ls_rateLimiter = None\<rparr>"
  by (simp add: lookup_safe_def BrasilAPIAdapter_def brasil.company_data_port_axioms)

lemma lookup_safe_production: "lookup_safe \<lparr>ls_repo = b, ls_providers = [NewBrasilAPIAdapter E api url], ls_rateLimiter = None\<rparr>"
  unfolding NewBrasilAPIAdapter_def by (rule lookup_safe_brasil)

lemma keeps_lookup_reads [io_keep]:
  "keeps pg (CompanyInfoRepository_GetByCNPJ E ctx c)" "keeps pg (getFreshCachedCompanyInfo E s ctx c)"
  "keeps pg (publishCompanyInfoFetched E c p f)"
  unfolding CompanyInfoRepository_GetByCNPJ_def getFreshCachedCompanyInfo_def publishCompanyInfoFetched_def by (intro io_keep)+

lemma keeps_enforce_limit: "lookup_safe s \<Longrightarrow> keeps pg (enforce_limit s prefix t)"
  unfolding enforce_limit_def lookup_safe_def by (auto intro!: io_keep split: option.splits)

lemma keeps_fetch:
  "\<forall>p \<in> set ps. company_data_port (cd_GetByCNPJ p) \<Longrightarrow> keeps pg (fetchCompanyInfoFromProviders ps ctx c e)"
  by (induction ps arbitrary: e) (auto intro!: io_keep company_data_port.get_frame split: option.splits)

lemma core_Save: "keeps core (CompanyInfoRepository_Save E ctx info)"
  by (auto simp: keeps_def core_def CompanyInfoRepository_Save_def io_run upsert_info_def Let_def split: sum.splits prod.splits if_splits)

lemma core_saveCache: "keeps core (saveCompanyInfoCache E s ctx info)"
  unfolding saveCompanyInfoCache_def by (intro keeps_if keeps_bind core_Save keeps_ret)

lemma core_Lookup: "lookup_safe s \<Longrightarrow> keeps core (Lookup_GetByCNPJ E s ctx t c)"
  unfolding Lookup_GetByCNPJ_def Let_def enforceLookupRateLimit_def
  by (intro keeps_if keeps_tryE keeps_bind keeps_case_option keeps_case_prod keeps_ret core_saveCache;
      (rule keeps_core, rule keeps_enforce_limit keeps_fetch io_keep)?) (auto simp: lookup_safe_def intro!: keeps_core io_keep)

text \<open>The lookup service as the company service uses it.\<close>

definition lookup_port :: "environ \<Rightarrow> CompanyLookupService \<Rightarrow> lookup_service" where
  "lookup_port E s ctx tenantID cnpj = do {
     r \<leftarrow> Lookup_GetByCNPJ E s ctx tenantID cnpj;
     ret (case r of Inl e \<Rightarrow> Inl e | Inr info \<Rightarrow> Inr (Some info)) }"

lemma lookup_port_ok: "lookup_safe s \<Longrightarrow> lookup_ok (Some (lookup_port E s))"
  by (simp add: lookup_ok_def lookup_port_def core_Lookup keeps_bind keeps_ret)

section \<open>Where the data comes from\<close>

lemma fetch_sound:
  "run_state (fetchCompanyInfoFromProviders ps ctx c e) w = (Inr (info, name), w')
    \<Longrightarrow> \<exists>p \<in> set ps. \<exists>w1 w2. name = cd_Name p \<and> run_state (cd_GetByCNPJ p ctx c) w1 = (Inr (Some info), w2)"
proof (induction ps arbitrary: e w)
  case (Cons p ps)
  obtain r w1 where r: "run_state (cd_GetByCNPJ p ctx c) w = (r, w1)" by fastforce
  show ?case
  proof (cases r)
    case (Inl x)
    then show ?thesis using Cons r by auto
  next
    case (Inr y)
    then show ?thesis using Cons r by (cases y) auto
  qed
qed simp

lemma run_fresh:
  "ls_repo s \<Longrightarrow> pg_gate E ctx [] w = Inr t \<Longrightarrow> find (\<lambda>x. ci_CNPJ x = c) (company_infos (pg w)) = Some info \<Longrightarrow>
    run_state (getFreshCachedCompanyInfo E s ctx c) w =
      (if clock E (Suc (ticks w)) - ci_LastFetchedAt info \<le> cache_lifetime then Some info else None, tick (tick w))"
  by (simp add: getFreshCachedCompanyInfo_def CompanyInfoRepository_GetByCNPJ_def io_run)

lemma fresh_sound:
  "run_state (getFreshCachedCompanyInfo E s ctx c) w = (Some info, w') \<Longrightarrow>
     info \<in> set (company_infos (pg w)) \<and> ci_CNPJ info = c
     \<and> (\<exists>n. clock E n - ci_LastFetchedAt info \<le> cache_lifetime)"
  by (auto simp: getFreshCachedCompanyInfo_def CompanyInfoRepository_GetByCNPJ_def io_run
      split: if_splits sum.splits prod.splits option.splits dest: find_SomeD)

lemma Lookup_steps:
  assumes "run_state (Lookup_GetByCNPJ E s ctx t c) w = (Inr info, w')"
  shows "ValidateCNPJ (NormalizeCNPJ c) \<and> (\<exists>w1 cached w2. run_state (enforceLookupRateLimit s t) w = (Inr (), w1)
     \<and> run_state (getFreshCachedCompanyInfo E s ctx (NormalizeCNPJ c)) w1 = (cached, w2)
     \<and> (cached = Some info \<or>
        (\<exists>name w3. run_state (fetchCompanyInfoFromProviders (ls_providers s) ctx (NormalizeCNPJ c) None) w2 = (Inr (info, name), w3))))"
proof -
  have v: "ValidateCNPJ (NormalizeCNPJ c)" using assms by (auto simp: Lookup_GetByCNPJ_def Let_def split: if_splits)
  obtain r w1 where r: "run_state (enforceLookupRateLimit s t) w = (r, w1)" by fastforce
  have r': "r = Inr ()" using assms v r by (cases r) (simp_all add: Lookup_GetByCNPJ_def Let_def run_tryE)
  obtain cached w2 where f: "run_state (getFreshCachedCompanyInfo E s ctx (NormalizeCNPJ c)) w1 = (cached, w2)" by fastforce
  have "cached = Some info \<or>
      (\<exists>name w3. run_state (fetchCompanyInfoFromProviders (ls_providers s) ctx (NormalizeCNPJ c) None) w2 = (Inr (info, name), w3))"
  proof (cases cached)
    case None
    then show ?thesis using assms v r r' f
      by (auto simp: Lookup_GetByCNPJ_def Let_def run_tryE split: sum.splits prod.splits)
  next
    case (Some x)
    then show ?thesis using assms v r r' f by (simp add: Lookup_GetByCNPJ_def Let_def run_tryE)
  qed
  then show ?thesis using v r r' f by blast
qed

text \<open>
  A lookup by CNPJ answers only for a valid CNPJ, and its answer is either a row of the cache for this
  very CNPJ that was fetched no more than seven days ago, or what one of the configured providers returned
  for it. It changes no table but the cache.
\<close>

theorem Lookup_GetByCNPJ_sound:
  assumes "lookup_safe s"
    and "run_state (Lookup_GetByCNPJ E s ctx t cnpj) w = (Inr info, w')"
  shows "ValidateCNPJ (NormalizeCNPJ cnpj)
    \<and> ((info \<in> set (company_infos (pg w)) \<and> ci_CNPJ info = NormalizeCNPJ cnpj
          \<and> (\<exists>n. clock E n - ci_LastFetchedAt info \<le> 7 * 24 * hour))
       \<or> (\<exists>p \<in> set (ls_providers s). \<exists>w1 w2. run_state (cd_GetByCNPJ p ctx (NormalizeCNPJ cnpj)) w1 = (Inr (Some info), w2)))
    \<and> core w' = core w"
proof -
  from Lookup_steps[OF assms(2)] obtain w1 cached w2 where v: "ValidateCNPJ (NormalizeCNPJ cnpj)"
    and e: "run_state (enforceLookupRateLimit s t) w = (Inr (), w1)"
    and f: "run_state (getFreshCachedCompanyInfo E s ctx (NormalizeCNPJ cnpj)) w1 = (cached, w2)"
    and d: "cached = Some info \<or>
      (\<exists>name w3. run_state (fetchCompanyInfoFromProviders (ls_providers s) ctx (NormalizeCNPJ cnpj) None) w2 = (Inr (info, name), w3))"
    by blast
  have "pg w1 = pg w" by (rule keepsD[OF keeps_enforce_limit[OF assms(1)] e[unfolded enforceLookupRateLimit_def]])
  moreover have "core w' = core w" by (rule keepsD[OF core_Lookup[OF assms(1)] assms(2)])
  ultimately show ?thesis
    using v d fresh_sound[of E s ctx "NormalizeCNPJ cnpj" w1 info w2] f fetch_sound
    unfolding cache_lifetime_def by fastforce
qed

section \<open>A company the registry has closed\<close>

lemma lookup_port_hit:
  assumes "ls_repo s" "ls_rateLimiter s = None" "pg_gate E ctx [] w = Inr now"
    and "ValidateCNPJ (NormalizeCNPJ c)"
    and "find (\<lambda>x. ci_CNPJ x = NormalizeCNPJ c) (company_infos (pg w)) = Some info"
    and "clock E (Suc (ticks w)) - ci_LastFetchedAt info \<le> cache_lifetime"
  shows "run_state (lookup_port E s ctx t c) w = (Inr (Some info), tick (tick w))"
  using assms run_fresh[OF assms(1,3,5)]
  by (simp add: lookup_port_def Lookup_GetByCNPJ_def Let_def enforceLookupRateLimit_def enforce_limit_def run_tryE)

text \<open>
  When the cache holds a fresh entry for a CNPJ whose situation is lowered, null or inapt, no company
  is created with it: the caller gets an error that is \<^verbatim>\<open>ErrCNPJInvalid\<close>, whatever the providers would
  say, and no table changes.
\<close>

theorem CreateCompany_refuses_closed:
  assumes "ls_repo s" and "ls_rateLimiter s = None" and "pg_gate E ctx [] w = Inr now"
    and "find (\<lambda>x. ci_CNPJ x = NormalizeCNPJ (cr_CNPJ req)) (company_infos (pg w)) = Some info"
    and "clock E (Suc (ticks w)) - ci_LastFetchedAt info \<le> 7 * 24 * hour"
    and "ci_Situacao info = SituationLowered \<or> ci_Situacao info = SituationNull \<or> ci_Situacao info = SituationInapt"
    and "run_state (CreateCompany E (Some (lookup_port E s)) ctx t u req) w = (r, w')"
  shows "(\<exists>e. r = Inl e \<and> errors_Is e ErrCNPJInvalid) \<and> pg w' = pg w"
proof -
  have n: "NormalizeCNPJ (NormalizeCNPJ (cr_CNPJ req)) = NormalizeCNPJ (cr_CNPJ req)"
    by (simp add: NormalizeCNPJ_def)
  have hit: "ValidateCNPJ (NormalizeCNPJ (cr_CNPJ req)) \<Longrightarrow>
      run_state (lookup_port E s ctx t (NormalizeCNPJ (cr_CNPJ req))) w = (Inr (Some info), tick (tick w))"
    by (rule lookup_port_hit[OF assms(1-3), of "NormalizeCNPJ (cr_CNPJ req)", unfolded n])
      (use assms(4,5) in \<open>simp_all add: cache_lifetime_def\<close>)
  show ?thesis
    using assms(6,7) hit
    by (cases "ValidateCNPJ (NormalizeCNPJ (cr_CNPJ req))")
      (auto simp: CreateCompany_def validateCreateCompanyCNPJ_def validateExternalCNPJStatus_def Let_def run_tryE split: if_splits)
qed

definition closed_info :: CompanyInfo where
  "closed_info = \<lparr>ci_CNPJ = ''11222333000181'', ci_RazaoSocial = ''Acme'', ci_NomeFantasia = [], ci_Situacao = SituationLowered,
     ci_NaturezaJuridica = [], ci_DataAbertura = 0, ci_Endereco = emptyAddress, ci_Telefones = [], ci_Emails = [],
     ci_CNAEPrincipal = [], ci_LastFetchedAt = 900\<rparr>"

definition cached_world :: world where
  "cached_world = demo_world\<lparr>pg := (pg demo_world)\<lparr>company_infos := [closed_info]\<rparr>\<rparr>"

definition cache_only :: CompanyLookupService where
  "cache_only = \<lparr>ls_repo = True, ls_providers = [], ls_rateLimiter = None\<rparr>"

lemma cached_world_hit:
  "pg_gate owner_env background [] cached_world = Inr 1000"
  "find (\<lambda>x. ci_CNPJ x = NormalizeCNPJ (cr_CNPJ demo_req)) (company_infos (pg cached_world)) = Some closed_info"
  "ValidateCNPJ (NormalizeCNPJ (cr_CNPJ demo_req))"
  "clock owner_env (Suc (ticks cached_world)) - ci_LastFetchedAt closed_info \<le> 7 * 24 * hour"
  by code_simp+

theorem Lookup_GetByCNPJ_sound_witness:
  "fst (run_state (Lookup_GetByCNPJ owner_env cache_only background ''t1'' ''11.222.333/0001-81'') cached_world) = Inr closed_info
   \<and> core (snd (run_state (Lookup_GetByCNPJ owner_env cache_only background ''t1'' ''11.222.333/0001-81'') cached_world)) = core cached_world"
proof -
  let ?m = "run_state (Lookup_GetByCNPJ owner_env cache_only background ''t1'' ''11.222.333/0001-81'') cached_world"
  have "fst ?m = Inr closed_info" by code_simp
  moreover have "lookup_safe cache_only" by (simp add: lookup_safe_def cache_only_def)
  ultimately show ?thesis using Lookup_GetByCNPJ_sound[OF _ run_result] by blast
qed

theorem CreateCompany_refuses_closed_witness:
  "\<exists>e. fst (run_state (CreateCompany owner_env (Some (lookup_port owner_env cache_only)) background ''t1'' ''u1'' demo_req)
     cached_world) = Inl e \<and> errors_Is e ErrCNPJInvalid"
proof -
  have "ls_repo cache_only" "ls_rateLimiter cache_only = None" "ci_Situacao closed_info = SituationLowered"
    by (simp_all add: cache_only_def closed_info_def)
  from CreateCompany_refuses_closed[OF this(1,2) cached_world_hit(1,2,4) disjI1[OF this(3)] surjective_pairing] show ?thesis by blast
qed

section \<open>Termination of the synchronisation\<close>

text \<open>What the job leaves alone: which companies there are, and every other table but the cache.\<close>

definition sync_frame :: "world \<Rightarrow> string list \<times> tables" where
  "sync_frame w = (map c_ID (companies (pg w)), (core w)\<lparr>companies := []\<rparr>)"

lemma sync_frame_core: "keeps core m \<Longrightarrow> keeps sync_frame m"
  by (simp add: keeps_def sync_frame_def) (metis core_eqD(1))

lemma sync_frame_Update: "keeps sync_frame (CompanyRepository_Update E ctx c)"
  by (auto simp: keeps_def sync_frame_def core_def CompanyRepository_Update_def io_run update_company_def Let_def
      set_company_columns_def o_def split: sum.splits prod.splits if_splits cong: map_cong)

lemma sync_frame_syncCompany:
  assumes "\<And>s. lookup = Some s \<Longrightarrow> lookup_safe s"
  shows "keeps sync_frame (syncCompany E lookup ctx c)"
proof (cases lookup)
  case (Some s)
  have frame: "keeps pg m \<Longrightarrow> keeps sync_frame m" for m :: "'c io" by (rule sync_frame_core[OF keeps_core])
  show ?thesis
    unfolding syncCompany_def Some option.case
    by (intro keeps_tryE keeps_bind keeps_case_option keeps_if keeps_ret sync_frame_Update
        sync_frame_core[OF core_Lookup[OF assms[OF Some]]] frame[OF keeps_time_Now(1)]
        frame[OF keeps_uuid_New(1)] frame[OF keeps_spawn(1)])
qed (simp add: syncCompany_def keeps_ret)

lemma sync_frame_page:
  "(\<And>s. lookup = Some s \<Longrightarrow> lookup_safe s) \<Longrightarrow> keeps sync_frame (sync_page E lookup ctx cs n)"
  by (induction cs arbitrary: n) (auto intro!: keeps_ret keeps_bind sync_frame_syncCompany)

lemma ListAllActive_page:
  "run_state (CompanyRepository_ListAllActive E ctx limit offset) w = (Inr cs, w')
    \<Longrightarrow> pg w' = pg w \<and> length cs \<le> limit \<and> (cs \<noteq> [] \<longrightarrow> offset + length cs \<le> length (companies (pg w)))"
proof -
  let ?act = "\<lambda>db. filter (\<lambda>c. c_Status c \<noteq> StatusSuspended \<and> company_visible E ctx db c) (companies db)"
  assume "run_state (CompanyRepository_ListAllActive E ctx limit offset) w = (Inr cs, w')"
  then have "pg w' = pg w" and cs: "cs = take limit (drop offset (sort_key c_CreatedAt (?act (pg w))))"
    by (auto simp: CompanyRepository_ListAllActive_def io_run split: sum.splits)
  have len: "length cs = min (length (?act (pg w)) - offset) limit" unfolding cs by simp
  have "length (?act (pg w)) \<le> length (companies (pg w))" by (rule length_filter_le)
  with len have "length cs \<le> limit" "length cs \<noteq> 0 \<longrightarrow> offset + length cs \<le> length (companies (pg w))" by linarith+
  then show ?thesis using \<open>pg w' = pg w\<close> by simp
qed

lemma keeps_ListAllActive: "keeps pg (CompanyRepository_ListAllActive E ctx limit offset)"
  unfolding CompanyRepository_ListAllActive_def by (intro io_keep)

lemma sync_loop_total:
  assumes "\<And>s. lookup = Some s \<Longrightarrow> lookup_safe s"
  shows "0 < fuel \<Longrightarrow> length (companies (pg w)) < offset + fuel * limit \<Longrightarrow>
    \<exists>r w'. run_state (sync_loop fuel E lookup ctx limit offset n) w = (Some r, w') \<and> sync_frame w' = sync_frame w"
proof (induction fuel arbitrary: w offset n)
  case (Suc fuel)
  obtain r w1 where r: "run_state (CompanyRepository_ListAllActive E ctx limit offset) w = (r, w1)" by fastforce
  have f1: "sync_frame w1 = sync_frame w" by (rule keepsD[OF sync_frame_core[OF keeps_core[OF keeps_ListAllActive]] r])
  show ?case
  proof (cases r)
    case (Inr cs)
    note page = ListAllActive_page[OF r[unfolded Inr]]
    obtain n' w2 where p: "run_state (sync_page E lookup ctx cs n) w1 = (n', w2)" by fastforce
    have f2: "sync_frame w2 = sync_frame w1" by (rule keepsD[OF sync_frame_page[OF assms] p])
    then have len: "length (companies (pg w2)) = length (companies (pg w))"
      using f1 by (metis length_map prod.inject sync_frame_def)
    show ?thesis
    proof (cases "cs \<noteq> [] \<and> \<not> length cs < limit")
      case True
      then have "offset + limit \<le> length (companies (pg w))" using page by auto
      then have "0 < fuel" "length (companies (pg w2)) < offset + limit + fuel * limit"
        using Suc.prems len by (cases fuel; simp add: algebra_simps)+
      from Suc.IH[OF this, of n'] show ?thesis using True r Inr p f1 f2 by auto
    qed (use r Inr p f1 f2 in auto)
  qed (use r f1 in simp)
qed simp

text \<open>
  C36: The synchronisation job ends. With at least one unit of fuel for every started page of fifty companies
  the paging loop returns, whatever the registry, the cache and the database answer; and it neither adds nor
  removes a company nor touches any table but the companies and the cache.
\<close>

theorem SyncAll_terminates:
  assumes "\<And>s. lookup = Some s \<Longrightarrow> lookup_safe s"
    and "length (companies (pg w)) < fuel * 50"
  shows "\<exists>r w'. run_state (SyncAll fuel E lookup ctx) w = (Some r, w')
    \<and> map c_ID (companies (pg w')) = map c_ID (companies (pg w)) \<and> (core w')\<lparr>companies := []\<rparr> = (core w)\<lparr>companies := []\<rparr>"
proof -
  have "0 < fuel" using assms(2) by (cases fuel) auto
  from sync_loop_total[OF assms(1) this, where offset = 0 and limit = 50] assms(2)
  show ?thesis unfolding SyncAll_def sync_frame_def by fastforce
qed

definition sync_company :: "string \<Rightarrow> string \<Rightarrow> time \<Rightarrow> Company" where
  "sync_company cid cnpj t = \<lparr>c_ID = cid, c_TenantID = ''t1'', c_CNPJ = cnpj, c_RazaoSocial = cid, c_NomeFantasia = [],
     c_Endereco = emptyAddress, c_RepresentanteLegal = [], c_Status = StatusActive, c_CreatedAt = t, c_UpdatedAt = t\<rparr>"

definition sync_world :: world where
  "sync_world = cached_world\<lparr>pg := (pg cached_world)\<lparr>companies := [sync_company ''a'' ''11222333000181'' 1, sync_company ''b'' ''11444777000161'' 2],
     company_infos := [closed_info, closed_info\<lparr>ci_CNPJ := ''11444777000161''\<rparr>]\<rparr>\<rparr>"

theorem SyncAll_terminates_witness:
  "\<exists>r w'. run_state (SyncAll 1 owner_env (Some cache_only) background) sync_world = (Some r, w')
     \<and> map c_ID (companies (pg w')) = [''a'', ''b'']"
proof -
  have "lookup_safe cache_only" by (simp add: lookup_safe_def cache_only_def)
  moreover have c: "map c_ID (companies (pg sync_world)) = [''a'', ''b'']" by code_simp
  moreover have "length (companies (pg sync_world)) < 1 * 50" by code_simp
  ultimately show ?thesis using SyncAll_terminates[of "Some cache_only" sync_world 1 owner_env background] by auto
qed

text \<open>
  The job advances its offset by the page size although the companies it has just suspended no longer match
  the query. With a page of one company, the second company, closed as well, is never looked at; with one page
  for both it is suspended.
\<close>

theorem sync_skips_after_suspension:
  "map c_Status (companies (pg (snd (run_state (sync_loop 5 owner_env (Some cache_only) background 1 0
       \<lparr>sc_processed = 0, sc_updated = 0, sc_errors = 0\<rparr>) sync_world)))) = [StatusSuspended, StatusActive]
   \<and> map c_Status (companies (pg (snd (run_state (sync_loop 5 owner_env (Some cache_only) background 50 0
       \<lparr>sc_processed = 0, sc_updated = 0, sc_errors = 0\<rparr>) sync_world)))) = [StatusSuspended, StatusSuspended]"
  by code_simp

end
