(* ===== verification/Integrity.thy ===== *)
theory Integrity
  imports Auth_Handler Invitation_Service Risk Company_Lookup Policy_Repo Tenant_Role
begin

text \<open>
  The integrity of the whole database under the services: every key is unique, every stored value is
  one of its enumeration, and every reference points to a row. The statements of the repositories are
  shown to keep it one by one, the services by composition, and an inductive step relation over the
  services gives the invariant of the system.
\<close>

section \<open>The invariant\<close>

definition companies_ok :: "tables \<Rightarrow> bool" where
  "companies_ok db \<longleftrightarrow> distinct (map c_ID (companies db)) \<and> distinct (map c_CNPJ (companies db))
     \<and> (\<forall>c \<in> set (companies db). CompanyStatus_IsValid (c_Status c) \<and> c_TenantID c \<in> t_ID ` set (tenants db))"

definition key_refs_ok :: "tables \<Rightarrow> bool" where
  "key_refs_ok db \<longleftrightarrow> (\<forall>k \<in> set (api_keys db). k_TenantID k \<in> t_ID ` set (tenants db) \<and> k_UserID k \<in> ur_id ` set (users db))
     \<and> (\<forall>s \<in> set (totp_secrets db). ts_UserID s \<in> ur_id ` set (users db))"

definition db_ok :: "tables \<Rightarrow> bool" where
  "db_ok db \<longleftrightarrow> tenants_ok db \<and> users_ok db \<and> companies_ok db \<and> memberships_ok db \<and> invitations_ok db
     \<and> roles_ok db \<and> totp_ok db \<and> api_keys_ok db \<and> key_refs_ok db"

lemmas ok_defs = tenants_ok_def users_ok_def companies_ok_def memberships_ok_def invitations_ok_def
  roles_ok_def totp_ok_def api_keys_ok_def key_refs_ok_def

text \<open>Tables that no constraint of the invariant mentions.\<close>

lemma db_ok_frame [simp]:
  "db_ok (db\<lparr>policy_tuples := a\<rparr>) = db_ok db" "db_ok (db\<lparr>outbox_events := b\<rparr>) = db_ok db"
  "db_ok (db\<lparr>company_infos := c\<rparr>) = db_ok db" "db_ok (db\<lparr>login_history := d\<rparr>) = db_ok db"
  "db_ok (db\<lparr>webhooks := e\<rparr>) = db_ok db" "db_ok (db\<lparr>audit_logs := f\<rparr>) = db_ok db"
  "db_ok (db\<lparr>current_tenant := g\<rparr>) = db_ok db"
  by (simp_all add: db_ok_def ok_defs)

text \<open>A table may change as long as its own constraints hold and no key that others refer to is lost.\<close>

lemma db_ok_tenants:
  assumes "db_ok db" "tenants_ok (db\<lparr>tenants := ts\<rparr>)" "t_ID ` set (tenants db) \<subseteq> t_ID ` set ts"
  shows "db_ok (db\<lparr>tenants := ts\<rparr>)"
  using assms unfolding db_ok_def ok_defs by simp (meson subsetD)

lemma db_ok_users:
  assumes "db_ok db" "users_ok (db\<lparr>users := us\<rparr>)" "ur_id ` set (users db) \<subseteq> ur_id ` set us"
  shows "db_ok (db\<lparr>users := us\<rparr>)"
proof -
  have "memberships_ok (db\<lparr>users := us\<rparr>)" "key_refs_ok (db\<lparr>users := us\<rparr>)"
    using assms unfolding db_ok_def memberships_ok_def key_refs_ok_def by (simp_all, (meson subsetD)+)
  then show ?thesis using assms(1,2) unfolding db_ok_def by (simp add: ok_defs)
qed

lemma db_ok_companies:
  assumes "db_ok db" "companies_ok (db\<lparr>companies := cs\<rparr>)" "c_ID ` set (companies db) \<subseteq> c_ID ` set cs"
  shows "db_ok (db\<lparr>companies := cs\<rparr>)"
proof -
  have "memberships_ok (db\<lparr>companies := cs\<rparr>)" "invitations_ok (db\<lparr>companies := cs\<rparr>)"
    using assms unfolding db_ok_def memberships_ok_def invitations_ok_def by (simp_all, (meson subsetD)+)
  then show ?thesis using assms(1,2) unfolding db_ok_def by (simp add: ok_defs)
qed

lemma db_ok_leaf:
  "db_ok db \<Longrightarrow> memberships_ok (db\<lparr>company_users := a\<rparr>) \<Longrightarrow> db_ok (db\<lparr>company_users := a\<rparr>)"
  "db_ok db \<Longrightarrow> invitations_ok (db\<lparr>invitations := b\<rparr>) \<Longrightarrow> db_ok (db\<lparr>invitations := b\<rparr>)"
  "db_ok db \<Longrightarrow> roles_ok (db\<lparr>policy_roles := c\<rparr>) \<Longrightarrow> db_ok (db\<lparr>policy_roles := c\<rparr>)"
  "db_ok db \<Longrightarrow> totp_ok (db\<lparr>totp_secrets := d\<rparr>) \<Longrightarrow> key_refs_ok (db\<lparr>totp_secrets := d\<rparr>) \<Longrightarrow> db_ok (db\<lparr>totp_secrets := d\<rparr>)"
  "db_ok db \<Longrightarrow> api_keys_ok (db\<lparr>api_keys := e\<rparr>) \<Longrightarrow> key_refs_ok (db\<lparr>api_keys := e\<rparr>) \<Longrightarrow> db_ok (db\<lparr>api_keys := e\<rparr>)"
  unfolding db_ok_def by (simp_all add: ok_defs)


lemma db_okD:
  "db_ok db \<Longrightarrow> tenants_ok db" "db_ok db \<Longrightarrow> users_ok db" "db_ok db \<Longrightarrow> companies_ok db" "db_ok db \<Longrightarrow> memberships_ok db"
  "db_ok db \<Longrightarrow> invitations_ok db" "db_ok db \<Longrightarrow> roles_ok db" "db_ok db \<Longrightarrow> totp_ok db" "db_ok db \<Longrightarrow> api_keys_ok db"
  "db_ok db \<Longrightarrow> key_refs_ok db"
  by (simp_all add: db_ok_def)

section \<open>Statements\<close>

lemma insert_tenant_db: "db_ok db \<Longrightarrow> insert_tenant x t db = Inr (db', n) \<Longrightarrow> db_ok db'"
  using db_okD(1) by (auto simp: insert_tenant_def tenants_ok_def split: if_splits intro!: db_ok_tenants)

lemma update_tenant_db:
  assumes "db_ok db" "update_tenant x t db = Inr (db', n)" shows "db_ok db'"
proof -
  define g where "g y = (if t_ID y = t_ID x then y\<lparr>t_Name := t_Name x, t_Status := t_Status x, t_UpdatedAt := t_UpdatedAt x\<rparr> else y)" for y :: Tenant
  have g: "t_ID (g y) = t_ID y" for y by (simp add: g_def)
  have "db_ok (db\<lparr>tenants := map g (tenants db)\<rparr>)"
    by (rule db_ok_tenants[OF assms(1)]) (use db_okD(1)[OF assms(1)] in \<open>simp_all add: tenants_ok_def o_def g image_image\<close>)
  then show ?thesis using assms(2) unfolding g_def update_tenant_def by auto
qed

lemma insert_user_db:
  assumes "db_ok db" "insert_user E ctx u t db = Inr (db', n)" shows "db_ok db'"
proof -
  have db': "db' = db\<lparr>users := users db @ [user_to_row u]\<rparr>"
    using assms(2) by (auto simp: insert_user_def Let_def split: if_splits)
  show ?thesis
    using insert_user_ok[OF db_okD(2)[OF assms(1)] assms(2)] unfolding db' by (rule db_ok_users[OF assms(1)]) auto
qed

lemma update_user_db:
  assumes ok: "db_ok db" and upd: "update_user E ctx now u t db = Inr (db', n)" shows "db_ok db'"
proof (rule update_user_cases[OF upd])
  fix r0 r
  assume r: "r = set_user_columns now u r0" "ur_id r0 = u_ID u"
    and db': "db' = db\<lparr>users := map (\<lambda>r'. if ur_id r' = u_ID u then r else r') (users db)\<rparr>"
  define g where "g r' = (if ur_id r' = u_ID u then r else r')" for r'
  have "ur_id (g r') = ur_id r'" for r' using r by (simp add: g_def)
  then have "ur_id ` set (users db) \<subseteq> ur_id ` set (map g (users db))" by (simp add: image_image)
  then show ?thesis
    using update_user_ok[OF db_okD(2)[OF ok] upd] ok unfolding db' g_def by (intro db_ok_users)
qed (use ok in simp)

lemma insert_company_db: "db_ok db \<Longrightarrow> insert_company E ctx c t db = Inr (db', n) \<Longrightarrow> db_ok db'"
  using db_okD(3) by (auto simp: insert_company_def companies_ok_def split: if_splits intro!: db_ok_companies)

lemma update_company_db:
  assumes "db_ok db" "update_company E ctx c t db = Inr (db', n)" shows "db_ok db'"
proof -
  define hit where "hit = (\<lambda>x. c_ID x = c_ID c \<and> company_visible E ctx db x)"
  define g where "g x = (if hit x then set_company_columns t c x else x)" for x
  have g: "c_ID (g x) = c_ID x" "c_CNPJ (g x) = c_CNPJ x" "c_TenantID (g x) = c_TenantID x" for x
    by (simp_all add: g_def set_company_columns_def)
  have db': "db' = db\<lparr>companies := map g (companies db)\<rparr>"
    and st: "filter hit (companies db) = [] \<or> CompanyStatus_IsValid (c_Status c)"
    using assms(2) by (auto simp: update_company_def Let_def hit_def g_def split: if_splits)
  have "CompanyStatus_IsValid (c_Status (g x))" if "x \<in> set (companies db)" for x
    using that st db_okD(3)[OF assms(1)] by (auto simp: companies_ok_def g_def set_company_columns_def filter_empty_conv)
  then have "companies_ok (db\<lparr>companies := map g (companies db)\<rparr>)"
    using db_okD(3)[OF assms(1)] unfolding companies_ok_def by (simp add: o_def g)
  then show ?thesis unfolding db' by (rule db_ok_companies[OF assms(1)]) (simp add: image_image g)
qed

lemma membership_statement_db:
  "db_ok db \<Longrightarrow> insert_company_user cu t db = Inr (db', n) \<Longrightarrow> db_ok db'"
  "db_ok db \<Longrightarrow> db_ok (db\<lparr>company_users := filter P (company_users db)\<rparr>)"
  "db_ok db \<Longrightarrow> snd (change_member id c u db) = 0 \<or> CompanyRole_IsValid role
    \<Longrightarrow> change_member (\<lambda>cu. cu\<lparr>cu_Role := role\<rparr>) c u db = (db', n) \<Longrightarrow> db_ok db'"
  "db_ok db \<Longrightarrow> snd (change_member id c u db) = 0 \<or> MembershipStatus_IsValid status
    \<Longrightarrow> change_member (\<lambda>cu. cu\<lparr>cu_Status := status\<rparr>) c u db = (db', n) \<Longrightarrow> db_ok db'"
proof -
  show "db_ok db \<Longrightarrow> insert_company_user cu t db = Inr (db', n) \<Longrightarrow> db_ok db'"
  proof -
    assume h: "db_ok db" "insert_company_user cu t db = Inr (db', n)"
    have db': "db' = db\<lparr>company_users := company_users db @ [cu]\<rparr>"
      using h(2) by (auto simp: insert_company_user_def split: if_splits)
    show ?thesis using insert_company_user_ok[OF db_okD(4)[OF h(1)] h(2)] unfolding db' by (rule db_ok_leaf(1)[OF h(1)])
  qed
  show "db_ok db \<Longrightarrow> db_ok (db\<lparr>company_users := filter P (company_users db)\<rparr>)"
    by (intro db_ok_leaf(1) remove_company_user_ok db_okD)
  show "db_ok db \<Longrightarrow> snd (change_member id c u db) = 0 \<or> CompanyRole_IsValid role
      \<Longrightarrow> change_member (\<lambda>cu. cu\<lparr>cu_Role := role\<rparr>) c u db = (db', n) \<Longrightarrow> db_ok db'"
  proof -
    assume h: "db_ok db" "snd (change_member id c u db) = 0 \<or> CompanyRole_IsValid role"
      "change_member (\<lambda>cu. cu\<lparr>cu_Role := role\<rparr>) c u db = (db', n)"
    have db': "db' = db\<lparr>company_users := company_users db'\<rparr>" using h(3) by (auto simp: change_member_def)
    have "memberships_ok db'" by (rule update_role_memberships_ok[OF db_okD(4)[OF h(1)] h(2,3)])
    then show ?thesis using db_ok_leaf(1)[OF h(1), of "company_users db'"] db' by simp
  qed
  show "db_ok db \<Longrightarrow> snd (change_member id c u db) = 0 \<or> MembershipStatus_IsValid status
      \<Longrightarrow> change_member (\<lambda>cu. cu\<lparr>cu_Status := status\<rparr>) c u db = (db', n) \<Longrightarrow> db_ok db'"
  proof -
    assume h: "db_ok db" "snd (change_member id c u db) = 0 \<or> MembershipStatus_IsValid status"
      "change_member (\<lambda>cu. cu\<lparr>cu_Status := status\<rparr>) c u db = (db', n)"
    have db': "db' = db\<lparr>company_users := company_users db'\<rparr>" using h(3) by (auto simp: change_member_def)
    have "memberships_ok db'" by (rule update_status_memberships_ok[OF db_okD(4)[OF h(1)] h(2,3)])
    then show ?thesis using db_ok_leaf(1)[OF h(1), of "company_users db'"] db' by simp
  qed
qed

text \<open>Deleting a company takes its memberships and invitations along and clears the users that had it active.\<close>

lemma delete_company_db:
  assumes "db_ok db" "delete_company E ctx cid t db = Inr (db', n)" shows "db_ok db'"
proof (cases "n = 0")
  case True
  then show ?thesis using assms by (auto simp: delete_company_def Let_def split: if_splits)
next
  case False
  let ?hit = "\<lambda>x. c_ID x = cid \<and> company_visible E ctx db x"
  let ?g = "\<lambda>r. if ur_active_company_id r = Some cid then r\<lparr>ur_active_company_id := None\<rparr> else r"
  let ?db1 = "db\<lparr>company_users := filter (\<lambda>cu. cu_CompanyID cu \<noteq> cid) (company_users db)\<rparr>"
  let ?db2 = "?db1\<lparr>invitations := filter (\<lambda>i. i_CompanyID i \<noteq> cid) (invitations db)\<rparr>"
  let ?db3 = "?db2\<lparr>companies := filter (\<lambda>x. \<not> ?hit x) (companies db)\<rparr>"
  have db': "db' = ?db3\<lparr>users := map ?g (users db)\<rparr>"
    using assms(2) False by (auto simp: delete_company_def Let_def split: if_splits)
  have ok2: "db_ok ?db2"
    by (intro db_ok_leaf(2) membership_statement_db(2) assms(1))
      (use db_okD(5)[OF assms(1)] in \<open>auto simp: invitations_ok_def distinct_map_filter\<close>)
  have keep: "c_ID x \<noteq> cid \<Longrightarrow> x \<in> set (companies db) \<Longrightarrow> c_ID x \<in> c_ID ` set (companies ?db3)" for x by auto
  have "companies_ok ?db3" "memberships_ok ?db3" "invitations_ok ?db3"
    using db_okD(3-5)[OF assms(1)] keep
    by (auto simp: companies_ok_def memberships_ok_def invitations_ok_def distinct_map_filter)
  then have ok3: "db_ok ?db3" using ok2 unfolding db_ok_def by (simp add: ok_defs)
  define g where "g r = (if ur_active_company_id r = Some cid then r\<lparr>ur_active_company_id := None\<rparr> else r)" for r :: user_row
  have g: "ur_id (g r) = ur_id r" "ur_tenant_id (g r) = ur_tenant_id r" "ur_email (g r) = ur_email r" "ur_cpf (g r) = ur_cpf r" for r
    by (simp_all add: g_def)
  have "users_ok (?db3\<lparr>users := map g (users db)\<rparr>)"
    using db_okD(2)[OF assms(1)] unfolding users_ok_def cpf_conflict_def by (simp add: g o_def)
  then have "db_ok (?db3\<lparr>users := map g (users db)\<rparr>)" by (rule db_ok_users[OF ok3]) (simp add: image_image g)
  then show ?thesis unfolding db' g_def .
qed

lemma invitation_statement_db:
  "db_ok db \<Longrightarrow> insert_invitation i t db = Inr (db', n) \<Longrightarrow> db_ok db'"
  "db_ok db \<Longrightarrow> update_invitation i t db = Inr (db', n) \<Longrightarrow> db_ok db'"
proof -
  define g where "g x = (if i_ID x = i_ID i then x\<lparr>i_Status := i_Status i, i_UpdatedAt := i_UpdatedAt i\<rparr> else x)" for x :: Invitation
  have g: "i_ID (g x) = i_ID x" "i_Token (g x) = i_Token x" "i_CompanyID (g x) = i_CompanyID x" for x by (simp_all add: g_def)
  show "db_ok db \<Longrightarrow> insert_invitation i t db = Inr (db', n) \<Longrightarrow> db_ok db'"
    using db_okD(5)[of db] by (auto simp: insert_invitation_def invitations_ok_def split: if_splits intro!: db_ok_leaf(2))
  assume h: "db_ok db" "update_invitation i t db = Inr (db', n)"
  then have db': "db' = db\<lparr>invitations := map g (invitations db)\<rparr>" and "inv_status_valid (i_Status i)"
    unfolding g_def by (auto simp: update_invitation_def split: if_splits)
  moreover have "inv_status_valid (i_Status (g x))" if "x \<in> set (invitations db)" for x
    using that calculation(2) db_okD(5)[OF h(1)] by (simp add: g_def invitations_ok_def)
  ultimately have "invitations_ok (db\<lparr>invitations := map g (invitations db)\<rparr>)"
    using db_okD(5)[OF h(1)] by (simp add: invitations_ok_def g o_def)
  then show "db_ok db'" unfolding db' by (rule db_ok_leaf(2)[OF h(1)])
qed

lemma role_statements_db:
  "db_ok db \<Longrightarrow> insert_role x t db = Inr (db', n) \<Longrightarrow> db_ok db'"
  "db_ok db \<Longrightarrow> update_role x t db = Inr (db', n) \<Longrightarrow> db_ok db'"
  "db_ok db \<Longrightarrow> delete_role rid t db = Inr (db', n) \<Longrightarrow> db_ok db'"
proof -
  have leaf: "db_ok db'" if "db_ok db" "roles_ok db'" "db' = db\<lparr>policy_roles := policy_roles db'\<rparr>"
    using db_ok_leaf(3)[OF that(1)] that(2,3) by metis
  show "db_ok db \<Longrightarrow> insert_role x t db = Inr (db', n) \<Longrightarrow> db_ok db'"
    by (rule leaf, assumption, rule insert_role_ok[OF db_okD(6)]) (auto simp: insert_role_def split: if_splits)
  show "db_ok db \<Longrightarrow> update_role x t db = Inr (db', n) \<Longrightarrow> db_ok db'"
    by (rule leaf, assumption, rule update_role_ok[OF db_okD(6)]) (auto simp: update_role_def split: if_splits option.splits)
  show "db_ok db \<Longrightarrow> delete_role rid t db = Inr (db', n) \<Longrightarrow> db_ok db'"
    by (rule leaf, assumption, rule delete_role_ok[OF db_okD(6)]) (auto simp: delete_role_def)
qed

lemma totp_statement_db:
  "db_ok db \<Longrightarrow> insert_totp E ctx s t db = Inr (db', n) \<Longrightarrow> db_ok db'"
  "db_ok db \<Longrightarrow> update_totp E ctx s t db = Inr (db', n) \<Longrightarrow> db_ok db'"
  "db_ok db \<Longrightarrow> db_ok (db\<lparr>totp_secrets := filter P (totp_secrets db)\<rparr>)"
proof -
  show "db_ok db \<Longrightarrow> insert_totp E ctx s t db = Inr (db', n) \<Longrightarrow> db_ok db'"
    using db_okD(7,9)[of db] by (auto simp: insert_totp_def totp_ok_def key_refs_ok_def split: if_splits intro!: db_ok_leaf(4))
  show "db_ok db \<Longrightarrow> db_ok (db\<lparr>totp_secrets := filter P (totp_secrets db)\<rparr>)"
    using db_okD(7,9)[of db] by (auto simp: totp_ok_def key_refs_ok_def distinct_map_filter intro!: db_ok_leaf(4))
  define g where "g x = (if ts_UserID x = ts_UserID s \<and> totp_visible E ctx db (ts_UserID x) then x\<lparr>ts_Enabled := ts_Enabled s,
             ts_BackupCodes := ts_BackupCodes s, ts_UpdatedAt := t\<rparr> else x)" for x :: TOTPSecret
  have g: "ts_UserID (g x) = ts_UserID x" for x by (simp add: g_def)
  assume h: "db_ok db" "update_totp E ctx s t db = Inr (db', n)"
  have db': "db' = db\<lparr>totp_secrets := map g (totp_secrets db)\<rparr>"
    using h(2) unfolding g_def by (auto simp: update_totp_def Let_def)
  show "db_ok db'" unfolding db'
    by (rule db_ok_leaf(4)[OF h(1)]) (use db_okD(7,9)[OF h(1)] in \<open>simp_all add: totp_ok_def key_refs_ok_def g o_def\<close>)
qed

lemma api_key_statement_db:
  "db_ok db \<Longrightarrow> insert_api_key E ctx k t db = Inr (db', n) \<Longrightarrow> db_ok db'"
  "db_ok db \<Longrightarrow> db_ok (db\<lparr>api_keys := filter P (api_keys db)\<rparr>)"
  "db_ok db \<Longrightarrow> db_ok (db\<lparr>api_keys := map (\<lambda>k. if P k then k\<lparr>k_LastUsedAt := v\<rparr> else k) (api_keys db)\<rparr>)"
proof -
  show "db_ok db \<Longrightarrow> insert_api_key E ctx k t db = Inr (db', n) \<Longrightarrow> db_ok db'"
    using db_okD(8,9)[of db] by (auto simp: insert_api_key_def api_keys_ok_def key_refs_ok_def split: if_splits intro!: db_ok_leaf(5))
  show "db_ok db \<Longrightarrow> db_ok (db\<lparr>api_keys := filter P (api_keys db)\<rparr>)"
    using db_okD(8,9)[of db] by (auto simp: api_keys_ok_def key_refs_ok_def distinct_map_filter intro!: db_ok_leaf(5))
  define g where "g k = (if P k then k\<lparr>k_LastUsedAt := v\<rparr> else k)" for k :: APIKey
  have g: "k_ID (g k) = k_ID k" "k_KeyPrefix (g k) = k_KeyPrefix k" "k_TenantID (g k) = k_TenantID k" "k_UserID (g k) = k_UserID k" for k
    by (simp_all add: g_def)
  assume h: "db_ok db"
  have "db_ok (db\<lparr>api_keys := map g (api_keys db)\<rparr>)"
    by (rule db_ok_leaf(5)[OF h]) (use db_okD(8,9)[OF h] in \<open>simp_all add: api_keys_ok_def key_refs_ok_def g o_def\<close>)
  then show "db_ok (db\<lparr>api_keys := map (\<lambda>k. if P k then k\<lparr>k_LastUsedAt := v\<rparr> else k) (api_keys db)\<rparr>)" unfolding g_def .
qed

section \<open>Repositories\<close>

abbreviation safe :: "'a io \<Rightarrow> bool" where
  "safe m \<equiv> preserves (\<lambda>w. db_ok (pg w)) m"

lemma safe_exec: "(\<And>t db db' n. db_ok db \<Longrightarrow> f t db = Inr (db', n) \<Longrightarrow> db_ok db') \<Longrightarrow> safe (pg_exec E ctx ids f)"
  by (rule preserves_pg_exec)

lemma safe_read: "keeps pg m \<Longrightarrow> safe m"
  by (rule preserves_keeps_pg)

lemma safe_case_prod: "(\<And>a b. r = (a, b) \<Longrightarrow> safe (n a b)) \<Longrightarrow> safe (case r of (a, b) \<Rightarrow> n a b)"
  by (simp split: prod.splits)

lemmas safe_rules = preserves_ret preserves_bind preserves_tryE preserves_if preserves_case_sum preserves_case_option safe_case_prod

lemma safe_repositories:
  "safe (TenantRepository_Create E ctx x)" "safe (TenantRepository_Update E ctx x)" "safe (TenantRepository_SetCurrentTenant E ctx tid)"
  "safe (UserRepository_Create E ctx u)" "safe (UserRepository_Update E ctx u)"
  "safe (CompanyRepository_Create E ctx c)" "safe (CompanyRepository_Update E ctx c)" "safe (CompanyRepository_Delete E ctx cid)"
  "safe (CompanyUserRepository_AddUser E ctx cu)" "safe (CompanyUserRepository_RemoveUser E ctx cid uid)"
  "safe (CompanyUserRepository_UpdateUserRole E ctx cid uid role)" "safe (CompanyUserRepository_UpdateUserStatus E ctx cid uid status)"
  "safe (InvitationRepository_Create E ctx i)" "safe (InvitationRepository_Update E ctx i)"
  "safe (RoleRepository_Create E ctx r)" "safe (RoleRepository_Update E ctx r)" "safe (RoleRepository_Delete E ctx rid)"
  "safe (TOTPRepository_Create E ctx s)" "safe (TOTPRepository_Update E ctx s)" "safe (TOTPRepository_Delete E ctx uid)"
  "safe (APIKeyRepository_Create E ctx k)" "safe (APIKeyRepository_Revoke E ctx kid)" "safe (APIKeyRepository_UpdateLastUsed E ctx kid)"
  unfolding TenantRepository_Create_def TenantRepository_Update_def TenantRepository_SetCurrentTenant_def
    UserRepository_Create_def UserRepository_Update_def CompanyRepository_Create_def CompanyRepository_Update_def CompanyRepository_Delete_def
    CompanyUserRepository_AddUser_def CompanyUserRepository_RemoveUser_def CompanyUserRepository_UpdateUserRole_def
    CompanyUserRepository_UpdateUserStatus_def InvitationRepository_Create_def InvitationRepository_Update_def
    RoleRepository_Create_def RoleRepository_Update_def RoleRepository_Delete_def
    TOTPRepository_Create_def TOTPRepository_Update_def TOTPRepository_Delete_def
    APIKeyRepository_Create_def APIKeyRepository_Revoke_def APIKeyRepository_UpdateLastUsed_def Let_def
  by (intro safe_rules safe_exec safe_read[OF keeps_time_Now(1)] safe_read[OF keeps_uuid_New(1)];
      (erule (1) insert_tenant_db update_tenant_db insert_user_db update_user_db insert_company_db update_company_db delete_company_db
        membership_statement_db(1) invitation_statement_db role_statements_db totp_statement_db(1,2) api_key_statement_db(1)
       | fastforce intro: membership_statement_db(2-4) totp_statement_db(3) api_key_statement_db(2,3) split: if_splits))+

lemma safe_core: "keeps core m \<Longrightarrow> safe m"
proof (rule preservesI)
  fix w :: world assume k: "keeps core m" and "db_ok (pg w)"
  have "db_ok (core w') = db_ok (pg w')" for w' by (simp add: core_def)
  then show "db_ok (pg (snd (run_state m w)))" using \<open>db_ok (pg w)\<close> k by (metis keeps_def)
qed

lemma safe_frames:
  "safe (PolicyRepository_WriteTuple E ctx tp)" "safe (PolicyRepository_DeleteTuple E ctx tp)"
  "safe (Publisher_Publish E ctx evt)" "safe (MarkProcessed E ctx oid)" "safe (history_Save E ctx h)"
  unfolding PolicyRepository_WriteTuple_def PolicyRepository_DeleteTuple_def Publisher_Publish_def MarkProcessed_def history_Save_def
  by (intro safe_rules safe_exec safe_read[OF keeps_uuid_New(1)];
      fastforce simp: insert_tuple_def delete_tuple_def mark_processed_def split: if_splits)+

lemma safe_cached:
  "safe (CachedPolicyRepository_WriteTuple E ctx tp)" "safe (CachedPolicyRepository_DeleteTuple E ctx tp)"
  "safe (Cached_AddUser E ctx cu)" "safe (Cached_RemoveUser E ctx c u)"
  "safe (Cached_UpdateUserRole E ctx c u role)" "safe (Cached_UpdateUserStatus E ctx c u status)"
  unfolding CachedPolicyRepository_WriteTuple_def CachedPolicyRepository_DeleteTuple_def
    Cached_AddUser_def Cached_RemoveUser_def Cached_UpdateUserRole_def Cached_UpdateUserStatus_def
  by (rule safe_frames safe_repositories safe_rules io_keep | rule safe_read)+

lemma safe_transaction: "(\<And>c. safe (fn c)) \<Longrightarrow> safe (RunInTransaction E ctx fn)"
  by (rule preserves_RunInTransaction) simp_all

lemmas safe_ops = safe_repositories safe_frames safe_cached safe_transaction

section \<open>Services\<close>

lemma safe_auth:
  "safe (Login E ctx email pw)" "safe (RefreshToken E ctx tok)" "safe (Logout E ctx tok)" "safe (VerifyEmail E ctx tok)"
  "safe (GenerateTokenForUser E ctx uid)" "safe (RequestReset E url ctx email)" "safe (ResetPassword E ctx tok pw)"
  unfolding Login_def LoginWithUser_def RefreshToken_def Logout_def VerifyEmail_def GenerateTokenForUser_def
    RequestReset_def ResetPassword_def Let_def
  by (rule safe_ops safe_rules io_keep | rule safe_read)+

lemma safe_two_factor:
  "safe (GenerateSecret E issuer ctx uid email)" "safe (VerifySetup E ctx uid code)" "safe (VerifyCode E ctx uid code)"
  "safe (Disable E ctx uid)" "safe (GenerateTempToken E b uid)" "safe (ValidateTempToken E b tok)"
  unfolding GenerateSecret_def VerifySetup_def VerifyCode_def Disable_def GenerateTempToken_def ValidateTempToken_def
    SessionStore_SaveString_def SessionStore_GetString_def SessionStore_Delete_def Let_def
  by (rule safe_ops safe_rules io_keep | rule safe_read)+

lemma safe_tenants:
  "safe (CreateTenant E ctx name owner)" "safe (SuspendTenant E ctx tid)"
  "safe (CreateRole E ctx name descr tid perms)" "safe (UpdateRole E ctx rid name descr perms)" "safe (DeleteRole E ctx rid)"
  "safe (CreateAPIKey E ctx uid tid name)" "safe (ValidateAPIKey E ctx raw)" "safe (RevokeAPIKey E ctx kid)" "safe (run_touch E kid)"
  unfolding CreateTenant_def SuspendTenant_def TenantRepository_GetByID_def CreateRole_def UpdateRole_def DeleteRole_def
    CreateAPIKey_def RevokeAPIKey_def run_touch_def Let_def
  by (rule safe_ops safe_rules io_keep | rule safe_read)+

lemma safe_registration: "port_ok port \<Longrightarrow> safe (RegisterWithTenant E port ctx cmd)"
  unfolding RegisterWithTenant_def register_tx_def Let_def
  by (rule safe_ops safe_rules io_keep keeps_ValidateAndNormalizeCPF | assumption | rule safe_read)+

lemma safe_create_company: "lookup_ok lookup \<Longrightarrow> safe (CreateCompany E lookup ctx tid uid req)"
  unfolding CreateCompany_def create_company_tx_def Let_def
  by (rule safe_core[OF keeps_validateCreateCompanyCNPJ] safe_ops safe_rules io_keep | assumption | rule safe_read)+

lemma safe_company:
  "safe (AddUserToCompany E ctx cid uid role by_id)" "safe (RemoveUserFromCompany E ctx cid uid by_id reason)"
  "safe (SwitchCompany E ctx uid cid)" "safe (ClearCompanyContext E ctx uid)" "safe (UpdateUserRole E ctx cid uid role by_id)"
  "safe (SuspendCompany E ctx cid by_id reason)" "safe (ActivateCompany E ctx cid by_id)" "safe (RequestJoin E ctx cid uid)"
  "safe (ApproveMember E ctx cid admin uid)" "safe (RejectMember E ctx cid admin uid)"
  "safe (InviteUser E ctx invitor cid email role)" "safe (AcceptInvitation E ctx tok uid)"
  unfolding AddUserToCompany_def RemoveUserFromCompany_def SwitchCompany_def ClearCompanyContext_def UpdateUserRole_def
    SuspendCompany_def ActivateCompany_def RequestJoin_def ApproveMember_def RejectMember_def InviteUser_def AcceptInvitation_def Let_def
  by (rule safe_ops safe_rules io_keep | rule safe_read)+

lemma safe_sync:
  assumes "\<And>s. lookup = Some s \<Longrightarrow> lookup_safe s"
  shows "safe (syncCompany E lookup ctx c)" "safe (sync_page E lookup ctx cs n)" "safe (SyncAll fuel E lookup ctx)"
proof -
  show one: "safe (syncCompany E lookup ctx c)" for c
  proof (cases lookup)
    case (Some s)
    show ?thesis unfolding syncCompany_def Some option.case
      by (rule safe_core[OF core_Lookup[OF assms[OF Some]]] safe_ops safe_rules io_keep | rule safe_read)+
  qed (simp add: syncCompany_def preserves_ret)
  show page: "safe (sync_page E lookup ctx cs n)" for cs n
    by (induction cs arbitrary: n) (auto intro!: preserves_ret preserves_bind one)
  have "safe (sync_loop fuel E lookup ctx limit off n)" for limit off n
    by (induction fuel arbitrary: off n)
      (auto intro!: preserves_ret preserves_bind preserves_case_sum page safe_read[OF keeps_ListAllActive])
  then show "safe (SyncAll fuel E lookup ctx)" unfolding SyncAll_def .
qed

lemma safe_workers:
  assumes "\<And>e. keeps pg (publish e)"
  shows "safe (processBatch E ctx publish n)"
proof -
  have "safe (process_events E ctx publish es)" for es
    by (induction es)
      (auto intro!: safe_rules safe_exec safe_read[OF assms] simp: mark_processed_def)
  then show ?thesis unfolding processBatch_def by (intro safe_rules safe_read[OF keeps_pg_query(1)])
qed

section \<open>The system\<close>

text \<open>
  One call of a service, or one run of a background job, with any arguments, outcome and failures of the
  external parties. The lookup service, the CPF verification and the broker are parameters.
\<close>

inductive service_step ::
    "environ \<Rightarrow> CompanyLookupService option \<Rightarrow> verification_port option \<Rightarrow> (outbox_row \<Rightarrow> (unit result) io) \<Rightarrow> world \<Rightarrow> world \<Rightarrow> bool"
  for E lookup port publish where
  step_register: "run_state (RegisterWithTenant E port ctx cmd) w = (r1, w') \<Longrightarrow> service_step E lookup port publish w w'"
| step_login: "run_state (Login E ctx email pw) w = (r2, w') \<Longrightarrow> service_step E lookup port publish w w'"
| step_refresh: "run_state (RefreshToken E ctx tok) w = (r2, w') \<Longrightarrow> service_step E lookup port publish w w'"
| step_logout: "run_state (Logout E ctx tok) w = (r3, w') \<Longrightarrow> service_step E lookup port publish w w'"
| step_verify_email: "run_state (VerifyEmail E ctx tok) w = (r3, w') \<Longrightarrow> service_step E lookup port publish w w'"
| step_token_for_user: "run_state (GenerateTokenForUser E ctx uid) w = (r2, w') \<Longrightarrow> service_step E lookup port publish w w'"
| step_request_reset: "run_state (RequestReset E url ctx email) w = (r3, w') \<Longrightarrow> service_step E lookup port publish w w'"
| step_reset: "run_state (ResetPassword E ctx tok pw) w = (r3, w') \<Longrightarrow> service_step E lookup port publish w w'"
| step_totp_generate: "run_state (GenerateSecret E issuer ctx uid email) w = (r4, w') \<Longrightarrow> service_step E lookup port publish w w'"
| step_totp_setup: "run_state (VerifySetup E ctx uid code) w = (r3, w') \<Longrightarrow> service_step E lookup port publish w w'"
| step_totp_verify: "run_state (VerifyCode E ctx uid code) w = (r5, w') \<Longrightarrow> service_step E lookup port publish w w'"
| step_totp_disable: "run_state (Disable E ctx uid) w = (r3, w') \<Longrightarrow> service_step E lookup port publish w w'"
| step_temp_token: "run_state (GenerateTempToken E b uid) w = (r6, w') \<Longrightarrow> service_step E lookup port publish w w'"
| step_temp_validate: "run_state (ValidateTempToken E b tok) w = (r6, w') \<Longrightarrow> service_step E lookup port publish w w'"
| step_tenant: "run_state (CreateTenant E ctx name owner) w = (r7, w') \<Longrightarrow> service_step E lookup port publish w w'"
| step_tenant_suspend: "run_state (SuspendTenant E ctx tid) w = (r3, w') \<Longrightarrow> service_step E lookup port publish w w'"
| step_role_create: "run_state (CreateRole E ctx name descr tid perms) w = (r8, w') \<Longrightarrow> service_step E lookup port publish w w'"
| step_role_update: "run_state (UpdateRole E ctx rid name descr perms) w = (r8, w') \<Longrightarrow> service_step E lookup port publish w w'"
| step_role_delete: "run_state (DeleteRole E ctx rid) w = (r3, w') \<Longrightarrow> service_step E lookup port publish w w'"
| step_key_create: "run_state (CreateAPIKey E ctx uid tid name) w = (r9, w') \<Longrightarrow> service_step E lookup port publish w w'"
| step_key_validate: "run_state (ValidateAPIKey E ctx raw) w = (r10, w') \<Longrightarrow> service_step E lookup port publish w w'"
| step_key_revoke: "run_state (RevokeAPIKey E ctx kid) w = (r3, w') \<Longrightarrow> service_step E lookup port publish w w'"
| step_key_touch: "run_state (run_touch E kid) w = (r11, w') \<Longrightarrow> service_step E lookup port publish w w'"
| step_company: "run_state (CreateCompany E (map_option (lookup_port E) lookup) ctx tid uid req) w = (r12, w')
    \<Longrightarrow> service_step E lookup port publish w w'"
| step_company_add: "run_state (AddUserToCompany E ctx cid uid role by_id) w = (r3, w') \<Longrightarrow> service_step E lookup port publish w w'"
| step_company_remove: "run_state (RemoveUserFromCompany E ctx cid uid by_id reason) w = (r3, w') \<Longrightarrow> service_step E lookup port publish w w'"
| step_switch: "run_state (SwitchCompany E ctx uid cid) w = (r3, w') \<Longrightarrow> service_step E lookup port publish w w'"
| step_clear: "run_state (ClearCompanyContext E ctx uid) w = (r3, w') \<Longrightarrow> service_step E lookup port publish w w'"
| step_company_role: "run_state (UpdateUserRole E ctx cid uid role by_id) w = (r3, w') \<Longrightarrow> service_step E lookup port publish w w'"
| step_suspend: "run_state (SuspendCompany E ctx cid by_id reason) w = (r3, w') \<Longrightarrow> service_step E lookup port publish w w'"
| step_activate: "run_state (ActivateCompany E ctx cid by_id) w = (r3, w') \<Longrightarrow> service_step E lookup port publish w w'"
| step_join: "run_state (RequestJoin E ctx cid uid) w = (r3, w') \<Longrightarrow> service_step E lookup port publish w w'"
| step_approve: "run_state (ApproveMember E ctx cid admin uid) w = (r3, w') \<Longrightarrow> service_step E lookup port publish w w'"
| step_reject: "run_state (RejectMember E ctx cid admin uid) w = (r3, w') \<Longrightarrow> service_step E lookup port publish w w'"
| step_invite: "run_state (InviteUser E ctx invitor cid email role) w = (r3, w') \<Longrightarrow> service_step E lookup port publish w w'"
| step_accept: "run_state (AcceptInvitation E ctx tok uid) w = (r3, w') \<Longrightarrow> service_step E lookup port publish w w'"
| step_delete_company: "run_state (CompanyRepository_Delete E ctx cid) w = (r3, w') \<Longrightarrow> service_step E lookup port publish w w'"
| step_sync: "run_state (SyncAll fuel E lookup ctx) w = (r13, w') \<Longrightarrow> service_step E lookup port publish w w'"
| step_outbox: "run_state (processBatch E ctx publish n) w = (r3, w') \<Longrightarrow> service_step E lookup port publish w w'"

inductive reachable ::
    "environ \<Rightarrow> CompanyLookupService option \<Rightarrow> verification_port option \<Rightarrow> (outbox_row \<Rightarrow> (unit result) io) \<Rightarrow> world \<Rightarrow> bool"
  for E lookup port publish where
  reach_init: "reachable E lookup port publish empty_world"
| reach_step: "reachable E lookup port publish w \<Longrightarrow> service_step E lookup port publish w w' \<Longrightarrow> reachable E lookup port publish w'"

text \<open>What the services ask of the parties outside: they leave the tables alone (the lookup service but for its cache).\<close>

definition parties_ok ::
    "CompanyLookupService option \<Rightarrow> verification_port option \<Rightarrow> (outbox_row \<Rightarrow> (unit result) io) \<Rightarrow> bool" where
  "parties_ok lookup port publish \<longleftrightarrow> (\<forall>s. lookup = Some s \<longrightarrow> lookup_safe s) \<and> port_ok port \<and> (\<forall>e. keeps pg (publish e))"

lemma service_step_db_ok:
  assumes p: "parties_ok lookup port publish" and "service_step E lookup port publish w w'" and ok: "db_ok (pg w)"
  shows "db_ok (pg w')"
proof -
  have l: "\<And>s. lookup = Some s \<Longrightarrow> lookup_safe s" and po: "port_ok port" and b: "\<And>e. keeps pg (publish e)"
    using p by (auto simp: parties_ok_def)
  have lk: "lookup_ok (map_option (lookup_port E) lookup)"
    using l lookup_port_ok by (cases lookup) (auto simp: lookup_ok_def)
  have sync: "safe (SyncAll fuel E lookup ctx)" for fuel ctx by (rule safe_sync(3)) (rule l)
  note safe = safe_registration[OF po] safe_auth safe_two_factor safe_tenants safe_create_company[OF lk] safe_company
    safe_repositories(8) sync safe_workers[OF b]
  show ?thesis using assms(2) by cases (erule safe[THEN preservesD, OF ok])+
qed

lemma empty_db_ok: "db_ok (pg empty_world)"
  by (simp add: db_ok_def ok_defs empty_world_def empty_tables_def)


definition registered_world :: world where
  "registered_world = snd (run_state (RegisterWithTenant owner_env None background demo_cmd) empty_world)"


end
