(* ===== verification/Company_Handler.thy ===== *)
theory Company_Handler
  imports Auth_Handler Company_Lookup Invitation_Service
begin

text \<open>
  The HTTP handlers of companies: \<^verbatim>\<open>handlers/company_handler.go\<close> and \<^verbatim>\<open>handlers/company_handler_invitation.go\<close>.
  The handler's services are the company service with its lookup port, the lookup service, the
  authentication service and the invitation service. How a time is printed depends on the zone of the
  server and is a parameter.
\<close>

record CompanyHandler =
  ch_port :: "lookup_service option"
  ch_lookup :: CompanyLookupService
  ch_show_time :: "time \<Rightarrow> string"

section \<open>Transfer objects\<close>

definition address_names :: "string list" where
  "address_names = [''logradouro'', ''numero'', ''complemento'', ''bairro'', ''cidade'', ''uf'', ''cep'']"

definition address_of :: "string list \<Rightarrow> Address" where
  "address_of a = \<lparr>Logradouro = a ! 0, Numero = a ! 1, Complemento = a ! 2, Bairro = a ! 3, Cidade = a ! 4,
     UF = a ! 5, CEP = a ! 6\<rparr>"

text \<open>
  The pointer field \<^verbatim>\<open>endereco\<close>: \<^verbatim>\<open>null\<close> sets it to nil, an object is decoded into the struct it points
  to, which is new when it was nil.
\<close>

fun endereco_field :: "(string \<times> json) list \<Rightarrow> string list option \<Rightarrow> string list option option" where
  "endereco_field [] acc = Some acc"
| "endereco_field ((k, v) # fs) acc =
     (if map ascii_lower k = ''endereco''
      then (case v of
          JNull \<Rightarrow> endereco_field fs None
        | JObj sub \<Rightarrow> (case those (map2 (\<lambda>n a. json_string_field n sub a) address_names
              (case acc of None \<Rightarrow> replicate 7 [] | Some a \<Rightarrow> a)) of
            None \<Rightarrow> None
          | Some a \<Rightarrow> endereco_field fs (Some a))
        | _ \<Rightarrow> None)
      else endereco_field fs acc)"

definition decode_CreateCompanyRequest :: "json option \<Rightarrow> CreateCompanyRequest option" where
  "decode_CreateCompanyRequest body =
     (case (decode_strings [''cnpj'', ''razao_social'', ''nome_fantasia'', ''representante_legal''] body,
            endereco_field (case body of Some (JObj fs) \<Rightarrow> fs | _ \<Rightarrow> []) None) of
        (Some [cnpj, razao, nome, rep], Some endereco) \<Rightarrow>
          Some \<lparr>cr_CNPJ = cnpj, cr_RazaoSocial = razao, cr_NomeFantasia = nome,
            cr_Endereco = (case endereco of None \<Rightarrow> emptyAddress | Some a \<Rightarrow> address_of a), cr_RepresentanteLegal = rep\<rparr>
      | _ \<Rightarrow> None)"

definition address_json :: "Address \<Rightarrow> json" where
  "address_json a = JObj (omitempty ''logradouro'' (Logradouro a) @ omitempty ''numero'' (Numero a)
     @ omitempty ''complemento'' (Complemento a) @ omitempty ''bairro'' (Bairro a) @ omitempty ''cidade'' (Cidade a)
     @ omitempty ''uf'' (UF a) @ omitempty ''cep'' (CEP a))"

definition companyToResponse :: "(time \<Rightarrow> string) \<Rightarrow> Company \<Rightarrow> json" where
  "companyToResponse show_time c = JObj ([(''id'', JStr (c_ID c)), (''cnpj'', JStr (c_CNPJ c)),
       (''cnpj_formatted'', JStr (FormatCNPJ (c_CNPJ c))), (''razao_social'', JStr (c_RazaoSocial c))]
     @ omitempty ''nome_fantasia'' (c_NomeFantasia c)
     @ (if Address_IsEmpty (c_Endereco c) then [] else [(''endereco'', address_json (c_Endereco c))])
     @ omitempty ''representante_legal'' (c_RepresentanteLegal c)
     @ [(''status'', JStr (c_Status c)), (''created_at'', JStr (show_time (c_CreatedAt c))),
        (''updated_at'', JStr (show_time (c_UpdatedAt c)))])"

definition CompanyWithRoleResponse :: "(time \<Rightarrow> string) \<Rightarrow> Company \<times> string \<times> string \<Rightarrow> json" where
  "CompanyWithRoleResponse show_time = (\<lambda>(c, role, status).
     JObj [(''company'', companyToResponse show_time c), (''role'', JStr role), (''membership_status'', JStr status)])"

section \<open>Companies\<close>

definition create_company_failure :: "go_error \<Rightarrow> response" where
  "create_company_failure err =
     (if err = Sentinel ErrCNPJInvalid then writeError ''Invalid CNPJ'' 400
      else if err = Sentinel ErrCNPJTaken then writeError ''CNPJ already registered'' 409
      else writeError ''Failed to create company'' 500)"

definition CompanyHandler_CreateCompany :: "environ \<Rightarrow> CompanyHandler \<Rightarrow> handler" where
  "CompanyHandler_CreateCompany E h rq = (case decode_CreateCompanyRequest (rq_body rq) of
     None \<Rightarrow> ret (writeError ''Invalid request body'' 400)
   | Some req \<Rightarrow>
       if cr_CNPJ req = [] then ret (writeError ''cnpj is required'' 400)
       else if cr_RazaoSocial req = [] then ret (writeError ''razao_social is required'' 400)
       else (case UserIDFromContext (rq_ctx rq) of
           None \<Rightarrow> ret (writeError ''Unauthorized'' 401)
         | Some userID \<Rightarrow> do {
             r \<leftarrow> CreateCompany E (ch_port h) (rq_ctx rq)
               (case TenantIDFromContext (rq_ctx rq) of None \<Rightarrow> [] | Some t \<Rightarrow> t) userID req;
             ret (case r of
               Inl err \<Rightarrow> create_company_failure err
             | Inr cm \<Rightarrow> writeJSON 201 (companyToResponse (ch_show_time h) cm)) }))"

definition CompanyHandler_ListCompanies :: "environ \<Rightarrow> CompanyHandler \<Rightarrow> handler" where
  "CompanyHandler_ListCompanies E h rq = (case UserIDFromContext (rq_ctx rq) of
     None \<Rightarrow> ret (writeError ''Unauthorized'' 401)
   | Some userID \<Rightarrow> do {
       r \<leftarrow> GetCompaniesForUser E (rq_ctx rq) userID;
       ret (case r of
         Inl _ \<Rightarrow> writeError ''Failed to list companies'' 500
       | Inr cs \<Rightarrow> writeJSON 200 (JObj [(''companies'', JArr (map (CompanyWithRoleResponse (ch_show_time h)) cs)),
           (''count'', JNum (int (length cs)))])) })"

definition CompanyHandler_GetCompany :: "environ \<Rightarrow> CompanyHandler \<Rightarrow> handler" where
  "CompanyHandler_GetCompany E h rq = (let companyID = rq_param rq ''id'' in
     if companyID = [] then ret (writeError ''company id is required'' 400)
     else (case UserIDFromContext (rq_ctx rq) of
         None \<Rightarrow> ret (writeError ''Unauthorized'' 401)
       | Some userID \<Rightarrow> do {
           r \<leftarrow> GetUserRoleInCompany E (rq_ctx rq) companyID userID;
           case r of
             Inl _ \<Rightarrow> ret (writeError ''You do not have access to this company'' 403)
           | Inr role \<Rightarrow> do {
               c \<leftarrow> GetCompanyByID E (rq_ctx rq) companyID;
               ret (case c of
                 Inl err \<Rightarrow> if err = Sentinel company_ErrNotFound then writeError ''Company not found'' 404
                   else writeError ''Failed to get company'' 500
               | Inr cm \<Rightarrow> writeJSON 200 (CompanyWithRoleResponse (ch_show_time h) (cm, role, ''active''))) } }))"

section \<open>Members\<close>

text \<open>The check that the caller is an admin, in \<^verbatim>\<open>AddUserToCompany\<close> and \<^verbatim>\<open>RemoveUserFromCompany\<close>.\<close>

definition handler_admin_check :: "environ \<Rightarrow> reqctx \<Rightarrow> string \<Rightarrow> string \<Rightarrow> bool io" where
  "handler_admin_check E ctx companyID userID = do {
     r \<leftarrow> GetUserRoleInCompany E ctx companyID userID;
     ret (r = Inr RoleAdmin) }"

definition role_or_member :: "string \<Rightarrow> CompanyRole" where
  "role_or_member r = (if CompanyRole_IsValid r then r else RoleMember)"

definition CompanyHandler_AddUserToCompany :: "environ \<Rightarrow> handler" where
  "CompanyHandler_AddUserToCompany E rq = (let companyID = rq_param rq ''id'' in
     if companyID = [] then ret (writeError ''company id is required'' 400)
     else (case decode_strings [''user_id'', ''role''] (rq_body rq) of
         Some [target, role] \<Rightarrow>
           if target = [] then ret (writeError ''user_id is required'' 400)
           else (case UserIDFromContext (rq_ctx rq) of
               None \<Rightarrow> ret (writeError ''Unauthorized'' 401)
             | Some userID \<Rightarrow> do {
                 ok \<leftarrow> handler_admin_check E (rq_ctx rq) companyID userID;
                 if \<not> ok then ret (writeError ''Only company admins can add users'' 403)
                 else do {
                   r \<leftarrow> AddUserToCompany E (rq_ctx rq) companyID target (role_or_member role) userID;
                   ret (case r of
                     Inl err \<Rightarrow> if err = Sentinel ErrAlreadyMember then writeError ''User is already a member'' 409
                       else if err = Sentinel ErrInvalidRole then writeError ''Invalid role'' 400
                       else writeError ''Failed to add user'' 500
                   | Inr _ \<Rightarrow> writeJSON 201 (message_json ''User added successfully'')) } })
       | _ \<Rightarrow> ret (writeError ''Invalid request body'' 400)))"

text \<open>
  The optional body of a removal: an error of the decoder is ignored, and what was decoded before it stays.
\<close>

fun lenient_string_field :: "string \<Rightarrow> (string \<times> json) list \<Rightarrow> string \<Rightarrow> string" where
  "lenient_string_field name [] acc = acc"
| "lenient_string_field name ((k, v) # fs) acc = lenient_string_field name fs
     (if map ascii_lower k = name then (case v of JStr s \<Rightarrow> s | _ \<Rightarrow> acc) else acc)"

definition CompanyHandler_RemoveUserFromCompany :: "environ \<Rightarrow> handler" where
  "CompanyHandler_RemoveUserFromCompany E rq = (let companyID = rq_param rq ''id''; target = rq_param rq ''userId'' in
     if companyID = [] \<or> target = [] then ret (writeError ''company_id and user_id are required'' 400)
     else (case UserIDFromContext (rq_ctx rq) of
         None \<Rightarrow> ret (writeError ''Unauthorized'' 401)
       | Some userID \<Rightarrow> do {
           ok \<leftarrow> handler_admin_check E (rq_ctx rq) companyID userID;
           if \<not> ok then ret (writeError ''Only company admins can remove users'' 403)
           else do {
             let reason = (case rq_body rq of Some (JObj fs) \<Rightarrow> lenient_string_field ''reason'' fs [] | _ \<Rightarrow> []);
             r \<leftarrow> RemoveUserFromCompany E (rq_ctx rq) companyID target userID reason;
             ret (case r of
               Inl err \<Rightarrow> if err = Sentinel ErrUserNotMember then writeError ''User is not a member'' 404
                 else writeError ''Failed to remove user'' 500
             | Inr _ \<Rightarrow> writeJSON 200 (message_json ''User removed successfully'')) } }))"

definition CompanyHandler_RequestJoin :: "environ \<Rightarrow> handler" where
  "CompanyHandler_RequestJoin E rq = (let companyID = rq_param rq ''id'' in
     if companyID = [] then ret (writeError ''company_id is required'' 400)
     else (case UserIDFromContext (rq_ctx rq) of
         None \<Rightarrow> ret (writeError ''Unauthorized'' 401)
       | Some userID \<Rightarrow> do {
           r \<leftarrow> RequestJoin E (rq_ctx rq) companyID userID;
           ret (case r of
             Inl err \<Rightarrow> if err = Sentinel ErrAlreadyMember then writeError ''Already a member or request pending'' 409
               else if err = Sentinel company_ErrNotFound then writeError ''Company not found'' 404
               else writeError (''Failed to submit join request: '' @ Error_text err) 500
           | Inr _ \<Rightarrow> writeJSON 201 (message_json ''Join request submitted successfully'')) }))"

definition CompanyHandler_ApproveMember :: "environ \<Rightarrow> handler" where
  "CompanyHandler_ApproveMember E rq = (let companyID = rq_param rq ''id''; target = rq_param rq ''userId'' in
     if companyID = [] \<or> target = [] then ret (writeError ''company_id and user_id are required'' 400)
     else (case UserIDFromContext (rq_ctx rq) of
         None \<Rightarrow> ret (writeError ''Unauthorized'' 401)
       | Some adminID \<Rightarrow> do {
           r \<leftarrow> ApproveMember E (rq_ctx rq) companyID adminID target;
           ret (case r of
             Inl err \<Rightarrow> writeError (''Failed to approve member: '' @ Error_text err) 500
           | Inr _ \<Rightarrow> writeJSON 200 (message_json ''Member approved successfully'')) }))"

definition CompanyHandler_RejectMember :: "environ \<Rightarrow> handler" where
  "CompanyHandler_RejectMember E rq = (let companyID = rq_param rq ''id''; target = rq_param rq ''userId'' in
     if companyID = [] \<or> target = [] then ret (writeError ''company_id and user_id are required'' 400)
     else (case UserIDFromContext (rq_ctx rq) of
         None \<Rightarrow> ret (writeError ''Unauthorized'' 401)
       | Some adminID \<Rightarrow> do {
           r \<leftarrow> RejectMember E (rq_ctx rq) companyID adminID target;
           ret (case r of
             Inl err \<Rightarrow> writeError (''Failed to reject member: '' @ Error_text err) 500
           | Inr _ \<Rightarrow> writeJSON 200 (message_json ''Member rejected successfully'')) }))"

section \<open>Company context\<close>

definition token_response :: "string \<Rightarrow> TokenPair result \<Rightarrow> response" where
  "token_response message r = (case r of
     Inl _ \<Rightarrow> writeError ''Failed to generate new token context'' 500
   | Inr tp \<Rightarrow> writeJSON 200 (JObj [(''message'', JStr message), (''token'', JStr (AccessToken tp)),
       (''refresh_token'', JStr (RefreshTok tp)), (''expires_in'', JNum (ExpiresIn tp))]))"

definition CompanyHandler_SwitchCompany :: "environ \<Rightarrow> handler" where
  "CompanyHandler_SwitchCompany E rq = (case decode_strings [''company_id''] (rq_body rq) of
     Some [companyID] \<Rightarrow>
       if companyID = [] then ret (writeError ''company_id is required'' 400)
       else (case UserIDFromContext (rq_ctx rq) of
           None \<Rightarrow> ret (writeError ''Unauthorized'' 401)
         | Some userID \<Rightarrow> do {
             r \<leftarrow> SwitchCompany E (rq_ctx rq) userID companyID;
             case r of
               Inl err \<Rightarrow> ret (if err = Sentinel ErrUserNotMember then writeError ''You are not a member of this company'' 403
                 else writeError (''Failed to switch company: '' @ Error_text err) 500)
             | Inr _ \<Rightarrow> do {
                 tp \<leftarrow> GenerateTokenForUser E (rq_ctx rq) userID;
                 ret (token_response ''Company context switched successfully'' tp) } })
   | _ \<Rightarrow> ret (writeError ''Invalid request body'' 400))"

definition CompanyHandler_ClearCompanyContext :: "environ \<Rightarrow> handler" where
  "CompanyHandler_ClearCompanyContext E rq = (case UserIDFromContext (rq_ctx rq) of
     None \<Rightarrow> ret (writeError ''Unauthorized'' 401)
   | Some userID \<Rightarrow> do {
       r \<leftarrow> ClearCompanyContext E (rq_ctx rq) userID;
       case r of
         Inl _ \<Rightarrow> ret (writeError ''Failed to clear company context'' 500)
       | Inr _ \<Rightarrow> do {
           tp \<leftarrow> GenerateTokenForUser E (rq_ctx rq) userID;
           ret (token_response ''Company context cleared'' tp) } })"

section \<open>Lookup\<close>

definition CompanyPreview :: "CompanyInfo \<Rightarrow> json" where
  "CompanyPreview i = JObj ([(''cnpj'', JStr (ci_CNPJ i)), (''razao_social'', JStr (ci_RazaoSocial i))]
     @ omitempty ''nome_fantasia'' (ci_NomeFantasia i) @ [(''situacao'', JStr (ci_Situacao i))]
     @ omitempty ''cnae_principal'' (ci_CNAEPrincipal i))"

definition CompanyHandler_LookupCompany :: "environ \<Rightarrow> CompanyHandler \<Rightarrow> handler" where
  "CompanyHandler_LookupCompany E h rq = (let query = rq_query rq ''q'' in
     if query = [] \<or> length query < 3 then ret (writeJSON 200 (JObj [(''items'', JArr [])]))
     else (case UserIDFromContext (rq_ctx rq) of
         None \<Rightarrow> ret (writeError ''Unauthorized'' 401)
       | Some _ \<Rightarrow> do {
           r \<leftarrow> Lookup E (ch_lookup h) (rq_ctx rq) (case TenantIDFromContext (rq_ctx rq) of None \<Rightarrow> [] | Some t \<Rightarrow> t) query 10;
           ret (case r of
             Inl err \<Rightarrow> if err \<noteq> Sentinel ErrCompanyInfoNotFound
               then writeError (''Failed to lookup company: '' @ Error_text err) 500
               else writeJSON 200 (JObj [(''items'', JArr [])])
           | Inr results \<Rightarrow> writeJSON 200 (JObj [(''items'', JArr (map CompanyPreview results))])) }))"

section \<open>Invitations\<close>

definition CompanyHandler_InviteUser :: "environ \<Rightarrow> handler" where
  "CompanyHandler_InviteUser E rq = (let companyID = rq_param rq ''id'' in
     if companyID = [] then ret (writeError ''company id is required'' 400)
     else (case decode_strings [''email'', ''role''] (rq_body rq) of
         Some [email, role] \<Rightarrow>
           if email = [] then ret (writeError ''email is required'' 400)
           else (case UserIDFromContext (rq_ctx rq) of
               None \<Rightarrow> ret (writeError ''Unauthorized'' 401)
             | Some userID \<Rightarrow> do {
                 r \<leftarrow> InviteUser E (rq_ctx rq) userID companyID email (role_or_member role);
                 ret (case r of
                   Inl err \<Rightarrow> writeError (Error_text err) 400
                 | Inr _ \<Rightarrow> writeJSON 201 (message_json ''Invitation sent successfully'')) })
       | _ \<Rightarrow> ret (writeError ''Invalid request body'' 400)))"

definition CompanyHandler_AcceptInvitation :: "environ \<Rightarrow> handler" where
  "CompanyHandler_AcceptInvitation E rq = (let token = rq_param rq ''token'' in
     if token = [] then ret (writeError ''token is required'' 400)
     else (case UserIDFromContext (rq_ctx rq) of
         None \<Rightarrow> ret (writeError ''Unauthorized'' 401)
       | Some userID \<Rightarrow> do {
           r \<leftarrow> AcceptInvitation E (rq_ctx rq) token userID;
           ret (case r of
             Inl err \<Rightarrow> writeError (Error_text err) 400
           | Inr _ \<Rightarrow> writeJSON 200 (message_json ''Invitation accepted successfully'')) }))"

section \<open>Who may change a company\<close>

lemma admin_check_ok:
  assumes "role_cache_coherent w" "no_colon c" "run_state (handler_admin_check E ctx c u) w = (ok, w')"
  shows "pg w' = pg w \<and> (ok \<longrightarrow> active_role c u (pg w) = Some RoleAdmin)"
proof -
  obtain r where g: "run_state (Cached_GetUserRole E ctx c u) w = (r, w')" and ok: "ok \<longleftrightarrow> r = Inr RoleAdmin"
    using assms(3) by (auto simp: handler_admin_check_def GetUserRoleInCompany_def split: prod.splits)
  show ?thesis
    using keepsD[OF cached_roles.lookup_frame g] cached_roles.lookup_role[OF assms(1,2)] g ok by blast
qed

lemma InviteUser_needs_admin:
  assumes "role_cache_coherent w" "no_colon c"
    and "run_state (InviteUser E ctx u c email role) w = (r, w')" and "pg w' \<noteq> pg w"
  shows "active_role c u (pg w) = Some RoleAdmin"
proof -
  obtain x w1 where g: "run_state (Cached_GetUserRole E ctx c u) w = (x, w1)" by fastforce
  have "x = Inr RoleAdmin"
    using assms(3,4) g keepsD[OF cached_roles.lookup_frame g]
    by (auto simp: InviteUser_def run_tryE split: sum.splits if_splits)
  then show ?thesis using cached_roles.lookup_role[OF assms(1,2)] g by blast
qed

lemma approve_reject_need_admin:
  assumes "role_cache_coherent w" "no_colon c" and "pg w' \<noteq> pg w"
    and "run_state (ApproveMember E ctx c u target) w = (r, w') \<or> run_state (RejectMember E ctx c u target) w = (r, w')"
  shows "active_role c u (pg w) = Some RoleAdmin"
  using assms(4)
proof
  assume "run_state (ApproveMember E ctx c u target) w = (r, w')"
  from admin_gated[OF assms(1,2) only_pair_Cached(1) this[unfolded ApproveMember_def]] assms(3) show ?thesis by blast
next
  assume "run_state (RejectMember E ctx c u target) w = (r, w')"
  from admin_gated[OF assms(1,2) only_pair_Cached(2) this[unfolded RejectMember_def]] assms(3) show ?thesis by blast
qed

text \<open>
  C31: Only admins change a company over HTTP. On a coherent role cache, if the handler for adding, removing,
  approving, rejecting or inviting a member changes any table, then the request carries an authenticated
  user who holds an active admin membership of the company named in the path.
\<close>

theorem company_handlers_need_admin:
  assumes "role_cache_coherent w" and "no_colon (rq_param rq ''id'')"
    and "h = CompanyHandler_AddUserToCompany E \<or> h = CompanyHandler_RemoveUserFromCompany E
      \<or> h = CompanyHandler_ApproveMember E \<or> h = CompanyHandler_RejectMember E \<or> h = CompanyHandler_InviteUser E"
    and "run_state (h rq) w = (rs, w')" and "pg w' \<noteq> pg w"
  shows "\<exists>u. UserIDFromContext (rq_ctx rq) = Some u \<and> active_role (rq_param rq ''id'') u (pg w) = Some RoleAdmin"
proof (cases "UserIDFromContext (rq_ctx rq)")
  case None
  then have "keeps pg (h rq)"
    using assms(3) unfolding CompanyHandler_AddUserToCompany_def CompanyHandler_RemoveUserFromCompany_def
      CompanyHandler_ApproveMember_def CompanyHandler_RejectMember_def CompanyHandler_InviteUser_def Let_def
    by (auto intro!: keeps_ret split: option.splits list.splits)
  then show ?thesis using assms(4,5) keepsD by fastforce
next
  case (Some u)
  consider "h = CompanyHandler_AddUserToCompany E" | "h = CompanyHandler_RemoveUserFromCompany E"
    | "h = CompanyHandler_ApproveMember E" | "h = CompanyHandler_RejectMember E" | "h = CompanyHandler_InviteUser E"
    using assms(3) by blast
  then have "active_role (rq_param rq ''id'') u (pg w) = Some RoleAdmin"
  proof cases
    case 1
    then show ?thesis using assms(4,5) Some
      by (auto simp: CompanyHandler_AddUserToCompany_def Let_def split: if_splits option.splits list.splits prod.splits
          dest!: admin_check_ok[OF assms(1,2)])
  next
    case 2
    then show ?thesis using assms(4,5) Some
      by (auto simp: CompanyHandler_RemoveUserFromCompany_def Let_def split: if_splits prod.splits dest!: admin_check_ok[OF assms(1,2)])
  next
    case 3
    then have "\<exists>r. run_state (ApproveMember E (rq_ctx rq) (rq_param rq ''id'') u (rq_param rq ''userId'')) w = (r, w')"
      using assms(4,5) Some by (auto simp: CompanyHandler_ApproveMember_def Let_def split: if_splits prod.splits)
    then show ?thesis using approve_reject_need_admin[OF assms(1,2,5)] by blast
  next
    case 4
    then have "\<exists>r. run_state (RejectMember E (rq_ctx rq) (rq_param rq ''id'') u (rq_param rq ''userId'')) w = (r, w')"
      using assms(4,5) Some by (auto simp: CompanyHandler_RejectMember_def Let_def split: if_splits prod.splits)
    then show ?thesis using approve_reject_need_admin[OF assms(1,2,5)] by blast
  next
    case 5
    then have "\<exists>email role r. run_state (InviteUser E (rq_ctx rq) u (rq_param rq ''id'') email role) w = (r, w')"
      using assms(4,5) Some
      by (auto simp: CompanyHandler_InviteUser_def Let_def split: if_splits prod.splits option.splits list.splits)
    then show ?thesis using InviteUser_needs_admin[OF assms(1,2) _ assms(5)] by blast
  qed
  then show ?thesis using Some by blast
qed

definition member_request :: request where
  "member_request = \<lparr>rq_header = (\<lambda>_. []), rq_RemoteAddr = ''ip'', rq_param = (\<lambda>k. if k = ''id'' then ''c1'' else ''u1''),
     rq_query = (\<lambda>_. []), rq_body = None, rq_ctx = with_value ''user_id'' ''u1'' background\<rparr>"

theorem company_handlers_need_admin_witness:
  "\<exists>u. UserIDFromContext (rq_ctx member_request) = Some u \<and> active_role ''c1'' u (pg member_world) = Some RoleAdmin"
proof -
  let ?m = "run_state (CompanyHandler_RejectMember demo_env member_request) member_world"
  have "company_users (pg (snd ?m)) = [] \<and> company_users (pg member_world) \<noteq> []" by code_simp
  then have "pg (snd ?m) \<noteq> pg member_world" by auto
  moreover have "rq_param member_request ''id'' = ''c1''" "no_colon ''c1''" by (simp_all add: member_request_def no_colon_def)
  ultimately show ?thesis
    using company_handlers_need_admin[OF member_world_coherent, of member_request "CompanyHandler_RejectMember demo_env" demo_env,
        OF _ _ surjective_pairing] by simp
qed

section \<open>Errors that lose their status\<close>

lemma RequestJoin_error:
  "run_state (RequestJoin E ctx c u) w = (Inl e, w') \<Longrightarrow> e \<noteq> Sentinel company_ErrNotFound"
  by (auto simp: RequestJoin_def NewCompanyUser_def run_tryE split: sum.splits prod.splits if_splits)

text \<open>
  Asking to join a company that does not exist is never answered with 404, as the handler means to:
  the service wraps \<^verbatim>\<open>company.ErrNotFound\<close>, the handler compares with \<^verbatim>\<open>==\<close>, and the answer is 500.
\<close>

theorem RequestJoin_never_404: "rs_status (fst (run_state (CompanyHandler_RequestJoin E rq) w)) \<noteq> 404"
proof (cases "rq_param rq ''id'' = [] \<or> UserIDFromContext (rq_ctx rq) = None")
  case False
  then obtain u where u: "UserIDFromContext (rq_ctx rq) = Some u" "rq_param rq ''id'' \<noteq> []" by blast
  obtain r w' where r: "run_state (RequestJoin E (rq_ctx rq) (rq_param rq ''id'') u) w = (r, w')" by fastforce
  then show ?thesis using u RequestJoin_error by (cases r) (auto simp: CompanyHandler_RequestJoin_def)
qed (auto simp: CompanyHandler_RequestJoin_def Let_def)

text \<open>
  A company that the registry has closed: the service reports an error that is \<^verbatim>\<open>ErrCNPJInvalid\<close>, but
  wrapped, so the handler answers 500 instead of 400.
\<close>

definition closed_request :: request where
  "closed_request = member_request\<lparr>rq_body := Some (JObj [(''cnpj'', JStr ''11.222.333/0001-81''), (''razao_social'', JStr ''Acme'')])\<rparr>"

theorem closed_company_is_500:
  "rs_status (fst (run_state (CompanyHandler_CreateCompany owner_env
     \<lparr>ch_port = Some (lookup_port owner_env cache_only), ch_lookup = cache_only, ch_show_time = (\<lambda>_. [])\<rparr> closed_request) cached_world)) = 500"
  by code_simp

end
