(* ===== verification/Admin_Handler.thy ===== *)
theory Admin_Handler
  imports Auth_Handler Tenant_Role
begin

text \<open>
  The HTTP handlers of API keys, roles and permissions, tenants, documents and quotas:
  \<^verbatim>\<open>handlers/apikey_handler.go\<close>, \<^verbatim>\<open>handlers/policy_handler.go\<close>, \<^verbatim>\<open>handlers/tenant_handler.go\<close>,
  \<^verbatim>\<open>handlers/document_handler.go\<close> and the quota handler of \<^verbatim>\<open>middleware/quota.go\<close>. A time in a response is its
  number, and a nil slice is not told from an empty one.
\<close>

section \<open>Responses\<close>

definition opt_time :: "string \<Rightarrow> time option \<Rightarrow> (string \<times> json) list" where
  "opt_time k t = (case t of None \<Rightarrow> [] | Some x \<Rightarrow> [(k, JNum x)])"

definition APIKey_json :: "APIKey \<Rightarrow> json" where
  "APIKey_json k = JObj ([(''id'', JStr (k_ID k)), (''tenant_id'', JStr (k_TenantID k)), (''user_id'', JStr (k_UserID k)),
       (''name'', JStr (k_Name k)), (''key_prefix'', JStr (k_KeyPrefix k)), (''scopes'', JArr (map JStr (k_Scopes k)))]
     @ opt_time ''expires_at'' (k_ExpiresAt k) @ opt_time ''last_used_at'' (k_LastUsedAt k) @ [(''created_at'', JNum (k_CreatedAt k))])"

definition Role_json :: "PolicyRole \<Rightarrow> json" where
  "Role_json r = JObj [(''id'', JStr (pr_ID r)), (''name'', JStr (pr_Name r)), (''description'', JStr (pr_Description r)),
     (''permissions'', JArr (map JStr (pr_Permissions r))), (''tenant_id'', JStr (pr_TenantID r)),
     (''created_at'', JNum (pr_CreatedAt r)), (''updated_at'', JNum (pr_UpdatedAt r))]"

definition Tenant_json :: "Tenant \<Rightarrow> json" where
  "Tenant_json t = JObj [(''id'', JStr (t_ID t)), (''name'', JStr (t_Name t)), (''status'', JStr (t_Status t)),
     (''created_at'', JNum (t_CreatedAt t)), (''updated_at'', JNum (t_UpdatedAt t))]"

definition no_content :: response where
  "no_content = \<lparr>rs_status = 204, rs_headers = [], rs_body = JNull\<rparr>"

text \<open>The router's \<^verbatim>\<open>Recoverer\<close> answers a panic of a handler with an empty 500.\<close>

definition panicked :: response where
  "panicked = \<lparr>rs_status = 500, rs_headers = [], rs_body = JNull\<rparr>"

definition json_field :: "response \<Rightarrow> string \<Rightarrow> json option" where
  "json_field rs k = (case rs_body rs of JObj fs \<Rightarrow> map_of fs k | _ \<Rightarrow> None)"

section \<open>API keys\<close>

definition APIKeyHandler_CreateAPIKey :: "environ \<Rightarrow> (time \<Rightarrow> string) \<Rightarrow> handler" where
  "APIKeyHandler_CreateAPIKey E show_time rq = (case UserIDFromContext (rq_ctx rq) of
     None \<Rightarrow> ret (writeError ''Unauthorized'' 401)
   | Some userID \<Rightarrow> (case TenantIDFromContext (rq_ctx rq) of
       None \<Rightarrow> ret (writeError ''Unauthorized'' 401)
     | Some tenantID \<Rightarrow> (case decode_strings [''name''] (rq_body rq) of
         Some [name] \<Rightarrow>
           if name = [] then ret (writeError ''Name is required'' 400)
           else do {
             r \<leftarrow> CreateAPIKey E (rq_ctx rq) userID tenantID name;
             ret (case r of
               Inl e \<Rightarrow> writeError (''Failed to create API key: '' @ Error_text e) 500
             | Inr gk \<Rightarrow> writeJSON 201 (JObj [(''id'', JStr (k_ID (gk_APIKey gk))), (''name'', JStr (k_Name (gk_APIKey gk))),
                 (''prefix'', JStr (k_KeyPrefix (gk_APIKey gk))), (''raw_key'', JStr (gk_RawKey gk)),
                 (''created_at'', JStr (show_time (k_CreatedAt (gk_APIKey gk))))])) }
       | _ \<Rightarrow> ret (writeError ''Invalid request body'' 400))))"

definition APIKeyHandler_ListAPIKeys :: "environ \<Rightarrow> handler" where
  "APIKeyHandler_ListAPIKeys E rq = (case TenantIDFromContext (rq_ctx rq) of
     None \<Rightarrow> ret (writeError ''Unauthorized'' 401)
   | Some tenantID \<Rightarrow> do {
       r \<leftarrow> ListAPIKeys E (rq_ctx rq) tenantID;
       ret (case r of Inl _ \<Rightarrow> writeError ''Failed to list API keys'' 500
            | Inr keys \<Rightarrow> writeJSON 200 (JArr (map APIKey_json keys))) })"

definition APIKeyHandler_RevokeAPIKey :: "environ \<Rightarrow> handler" where
  "APIKeyHandler_RevokeAPIKey E rq =
     (if rq_param rq ''id'' = [] then ret (writeError ''ID is required'' 400)
      else do {
        r \<leftarrow> RevokeAPIKey E (rq_ctx rq) (rq_param rq ''id'');
        ret (case r of Inl _ \<Rightarrow> writeError ''Failed to revoke API key'' 500 | Inr _ \<Rightarrow> no_content) })"

section \<open>Roles and permissions\<close>

text \<open>A field of type \<^verbatim>\<open>[]string\<close>.\<close>

fun json_strings :: "json list \<Rightarrow> string list option" where
  "json_strings [] = Some []"
| "json_strings (v # vs) = (case (v, json_strings vs) of
     (JStr s, Some ss) \<Rightarrow> Some (s # ss) | (JNull, Some ss) \<Rightarrow> Some ([] # ss) | _ \<Rightarrow> None)"

fun json_list_field :: "string \<Rightarrow> (string \<times> json) list \<Rightarrow> string list \<Rightarrow> string list option" where
  "json_list_field name [] acc = Some acc"
| "json_list_field name ((k, v) # fs) acc =
     (if map ascii_lower k = name
      then (case v of
          JArr vs \<Rightarrow> (case json_strings vs of None \<Rightarrow> None | Some ss \<Rightarrow> json_list_field name fs ss)
        | JNull \<Rightarrow> json_list_field name fs []
        | _ \<Rightarrow> None)
      else json_list_field name fs acc)"

definition decode_RoleRequest :: "json option \<Rightarrow> (string \<times> string \<times> string list) option" where
  "decode_RoleRequest body =
     (case (decode_strings [''name'', ''description''] body,
            json_list_field ''permissions'' (case body of Some (JObj fs) \<Rightarrow> fs | _ \<Rightarrow> []) []) of
        (Some [name, description], Some perms) \<Rightarrow> Some (name, description, perms)
      | _ \<Rightarrow> None)"

definition PolicyHandler_ListRoles :: "environ \<Rightarrow> handler" where
  "PolicyHandler_ListRoles E rq = (case TenantIDFromContext (rq_ctx rq) of
     None \<Rightarrow> ret (writeError ''Unauthorized'' 401)
   | Some tenantID \<Rightarrow> do {
       r \<leftarrow> ListRoles E (rq_ctx rq) tenantID;
       ret (case r of Inl _ \<Rightarrow> writeError ''Failed to list roles'' 500
            | Inr roles \<Rightarrow> writeJSON 200 (JArr (map Role_json roles))) })"

definition PolicyHandler_GetRole :: "environ \<Rightarrow> handler" where
  "PolicyHandler_GetRole E rq =
     (if rq_param rq ''id'' = [] then ret (writeError ''Role ID required'' 400)
      else do {
        r \<leftarrow> GetRole E (rq_ctx rq) (rq_param rq ''id'');
        ret (case r of Inl _ \<Rightarrow> writeError ''Role not found'' 404 | Inr role \<Rightarrow> writeJSON 200 (Role_json role)) })"

definition PolicyHandler_CreateRole :: "environ \<Rightarrow> handler" where
  "PolicyHandler_CreateRole E rq = (case TenantIDFromContext (rq_ctx rq) of
     None \<Rightarrow> ret (writeError ''Unauthorized'' 401)
   | Some tenantID \<Rightarrow> (case decode_RoleRequest (rq_body rq) of
       None \<Rightarrow> ret (writeError ''Invalid request body'' 400)
     | Some (name, description, perms) \<Rightarrow>
         if name = [] then ret (writeError ''Role name is required'' 400)
         else do {
           r \<leftarrow> CreateRole E (rq_ctx rq) name description tenantID perms;
           ret (case r of Inl _ \<Rightarrow> writeError ''Failed to create role'' 500
                | Inr role \<Rightarrow> writeJSON 201 (Role_json role)) }))"

definition PolicyHandler_UpdateRole :: "environ \<Rightarrow> handler" where
  "PolicyHandler_UpdateRole E rq =
     (if rq_param rq ''id'' = [] then ret (writeError ''Role ID required'' 400)
      else (case decode_RoleRequest (rq_body rq) of
          None \<Rightarrow> ret (writeError ''Invalid request body'' 400)
        | Some (name, description, perms) \<Rightarrow> do {
            r \<leftarrow> UpdateRole E (rq_ctx rq) (rq_param rq ''id'') name description perms;
            ret (case r of Inl _ \<Rightarrow> writeError ''Failed to update role'' 500
                 | Inr role \<Rightarrow> writeJSON 200 (Role_json role)) }))"

definition PolicyHandler_DeleteRole :: "environ \<Rightarrow> handler" where
  "PolicyHandler_DeleteRole E rq =
     (if rq_param rq ''id'' = [] then ret (writeError ''Role ID required'' 400)
      else do {
        r \<leftarrow> DeleteRole E (rq_ctx rq) (rq_param rq ''id'');
        ret (case r of Inl _ \<Rightarrow> writeError ''Failed to delete role'' 500 | Inr _ \<Rightarrow> no_content) })"

text \<open>The slice \<^verbatim>\<open>req.UserID[:5]\<close> panics when the text is shorter.\<close>

definition PolicyHandler_CheckPermission :: "environ \<Rightarrow> handler" where
  "PolicyHandler_CheckPermission E rq = (case decode_strings [''user_id'', ''action'', ''resource''] (rq_body rq) of
     Some [userID, action, resource] \<Rightarrow>
       if userID = [] \<or> action = [] \<or> resource = [] then ret (writeError ''user_id, action, and resource are required'' 400)
       else if length userID < 5 then ret panicked
       else do {
         let subject = (if substr userID 0 5 = ''user:'' then userID else ''user:'' @ userID);
         r \<leftarrow> CheckPermission E (rq_ctx rq) subject action resource;
         ret (case r of Inl _ \<Rightarrow> writeError ''Failed to check permission'' 500
              | Inr allowed \<Rightarrow> writeJSON 200 (JObj [(''allowed'', JBool allowed)])) }
   | _ \<Rightarrow> ret (writeError ''Invalid request body'' 400))"

section \<open>Tenants\<close>

definition TenantHandler_CreateTenant :: "environ \<Rightarrow> handler" where
  "TenantHandler_CreateTenant E rq = (case UserIDFromContext (rq_ctx rq) of
     None \<Rightarrow> ret (writeError ''Unauthorized'' 401)
   | Some userID \<Rightarrow> (case decode_strings [''name''] (rq_body rq) of
       Some [name] \<Rightarrow>
         if name = [] then ret (writeError ''Tenant name is required'' 400)
         else do {
           r \<leftarrow> CreateTenant E (rq_ctx rq) name userID;
           ret (case r of Inl _ \<Rightarrow> writeError ''Failed to create tenant'' 500 | Inr t \<Rightarrow> writeJSON 201 (Tenant_json t)) }
     | _ \<Rightarrow> ret (writeError ''Invalid request body'' 400)))"

definition TenantHandler_ListTenants :: "environ \<Rightarrow> handler" where
  "TenantHandler_ListTenants E rq =
     (if \<not> IsSuperAdmin (rq_ctx rq) then ret (writeError ''Forbidden: Super Admin access required'' 403)
      else do {
        r \<leftarrow> ListTenants E (rq_ctx rq);
        ret (case r of Inl _ \<Rightarrow> writeError ''Failed to list tenants'' 500
             | Inr ts \<Rightarrow> writeJSON 200 (JArr (map Tenant_json ts))) })"

text \<open>On success the status line is written first, so the content type set afterwards is not sent.\<close>

definition TenantHandler_SuspendTenant :: "environ \<Rightarrow> handler" where
  "TenantHandler_SuspendTenant E rq =
     (if rq_param rq ''id'' = [] then ret (writeError ''Tenant ID required'' 400)
      else do {
        r \<leftarrow> SuspendTenant E (rq_ctx rq) (rq_param rq ''id'');
        ret (case r of Inl _ \<Rightarrow> writeError ''Failed to suspend tenant'' 500
             | Inr _ \<Rightarrow> \<lparr>rs_status = 200, rs_headers = [], rs_body = message_json ''Tenant suspended''\<rparr>) })"

section \<open>Documents and quotas\<close>

definition DocumentHandler_ValidateCPF :: "verification_port option \<Rightarrow> handler" where
  "DocumentHandler_ValidateCPF port rq = (case decode_strings [''cpf''] (rq_body rq) of
     Some [cpf] \<Rightarrow>
       if cpf = [] then ret (writeError ''CPF is required'' 400)
       else do {
         r \<leftarrow> ValidateAndNormalizeCPF port True (rq_ctx rq) cpf;
         ret (case r of
           Inl e \<Rightarrow> writeJSON 200 (JObj ([(''valid'', JBool False)] @ omitempty ''message'' (Error_text e)))
         | Inr c \<Rightarrow> writeJSON 200 (JObj ([(''valid'', JBool True)] @ omitempty ''formatted'' (CPF_String c)))) }
   | _ \<Rightarrow> ret (writeError ''Invalid request body'' 400))"

definition QuotaUsage_json :: "QuotaUsage \<Rightarrow> json" where
  "QuotaUsage_json u = JObj [(''tenant_id'', JStr (qu_TenantID u)), (''plan_name'', JStr (qu_PlanName u)),
     (''auths_this_month'', JNum (qu_AuthsThisMonth u)), (''auths_limit'', JNum (qu_AuthsLimit u)),
     (''users_count'', JNum (qu_UsersCount u)), (''users_limit'', JNum (qu_UsersLimit u)), (''reset_date'', JNum (qu_ResetDate u))]"

definition QuotaHandler_GetUsage :: "environ \<Rightarrow> (string \<rightharpoonup> QuotaPlan) \<Rightarrow> handler" where
  "QuotaHandler_GetUsage E plans rq =
     (if rq_param rq ''id'' = [] then ret (http_Error (json_error ''tenant_id required'') 400)
      else do {
        r \<leftarrow> GetUsage E plans (rq_param rq ''id'');
        ret (case r of Inl _ \<Rightarrow> http_Error (json_error ''failed to get usage'') 500
             | Inr usage \<Rightarrow> writeJSON 200 (QuotaUsage_json usage)) })"

text \<open>\<^verbatim>\<open>encoding/json\<close> writes a map with its keys sorted; \<open>names\<close> are the sorted names of the plans.\<close>

definition QuotaPlan_json :: "QuotaPlan \<Rightarrow> json" where
  "QuotaPlan_json p = JObj [(''name'', JStr (qp_Name p)), (''auths_per_month'', JNum (qp_AuthsPerMonth p)),
     (''users_limit'', JNum (qp_UsersLimit p)), (''rate_per_minute'', JNum (qp_RatePerMinute p))]"

definition QuotaHandler_GetPlans :: "string list \<Rightarrow> (string \<rightharpoonup> QuotaPlan) \<Rightarrow> handler" where
  "QuotaHandler_GetPlans names plans rq =
     ret (writeJSON 200 (JObj (map (\<lambda>n. (n, QuotaPlan_json (plan_or_zero plans n))) names)))"

section \<open>What the caller's identity changes\<close>

text \<open>A statement sees of its context only whether it carries a transaction.\<close>

lemma pg_context:
  assumes "ctx_tx ctx = ctx_tx ctx'"
  shows "pg_query E ctx = pg_query E ctx'" "pg_exec E ctx = pg_exec E ctx'" "tenant_setting ctx = tenant_setting ctx'"
proof -
  have g: "pg_gate E ctx = pg_gate E ctx'" "pg_abort ctx = pg_abort ctx'"
    using assms by (simp_all add: fun_eq_iff pg_gate_def pg_abort_def)
  show "pg_query E ctx = pg_query E ctx'" unfolding pg_query_def g by (rule refl)
  show "pg_exec E ctx = pg_exec E ctx'" unfolding pg_exec_def g by (rule refl)
  show "tenant_setting ctx = tenant_setting ctx'" by (intro ext) (simp add: tenant_setting_def assms)
qed

lemma tx_of_caller [simp]: "ctx_tx (claims_context c ctx) = ctx_tx ctx" "ctx_tx (key_context k ctx) = ctx_tx ctx"
  by (simp_all add: claims_context_def key_context_def with_value_def)

lemma admin_context:
  assumes "ctx_tx ctx = ctx_tx ctx'"
  shows "GetRole E ctx = GetRole E ctx'" "UpdateRole E ctx = UpdateRole E ctx'" "DeleteRole E ctx = DeleteRole E ctx'"
    "SuspendTenant E ctx = SuspendTenant E ctx'" "RevokeAPIKey E ctx = RevokeAPIKey E ctx'"
proof -
  have pool: "ctx_tx (pool ctx) = ctx_tx (pool ctx')" by simp
  show "GetRole E ctx = GetRole E ctx'" "UpdateRole E ctx = UpdateRole E ctx'" "DeleteRole E ctx = DeleteRole E ctx'"
    "SuspendTenant E ctx = SuspendTenant E ctx'" "RevokeAPIKey E ctx = RevokeAPIKey E ctx'"
    unfolding fun_eq_iff GetRole_def UpdateRole_def DeleteRole_def SuspendTenant_def RevokeAPIKey_def
      RoleRepository_GetByID_def RoleRepository_Update_def RoleRepository_Delete_def TenantRepository_GetByID_def
      TenantRepository_Update_def APIKeyRepository_Revoke_def key_visible_def pg_context[OF assms] pg_context[OF pool]
    by simp_all
qed

text \<open>
  The administrative endpoints check no permission and no tenant: reading, changing and deleting a
  role, revoking an API key and suspending a tenant behave in the same way whoever the authenticated
  caller is, so a user of one tenant can act on the roles, keys and status of every other.
\<close>

theorem admin_handlers_ignore_caller:
  "PolicyHandler_GetRole E (rq\<lparr>rq_ctx := claims_context c ctx\<rparr>) = PolicyHandler_GetRole E (rq\<lparr>rq_ctx := claims_context c' ctx\<rparr>)
   \<and> PolicyHandler_UpdateRole E (rq\<lparr>rq_ctx := claims_context c ctx\<rparr>) = PolicyHandler_UpdateRole E (rq\<lparr>rq_ctx := claims_context c' ctx\<rparr>)
   \<and> PolicyHandler_DeleteRole E (rq\<lparr>rq_ctx := claims_context c ctx\<rparr>) = PolicyHandler_DeleteRole E (rq\<lparr>rq_ctx := claims_context c' ctx\<rparr>)
   \<and> APIKeyHandler_RevokeAPIKey E (rq\<lparr>rq_ctx := claims_context c ctx\<rparr>) = APIKeyHandler_RevokeAPIKey E (rq\<lparr>rq_ctx := claims_context c' ctx\<rparr>)
   \<and> TenantHandler_SuspendTenant E (rq\<lparr>rq_ctx := claims_context c ctx\<rparr>) = TenantHandler_SuspendTenant E (rq\<lparr>rq_ctx := claims_context c' ctx\<rparr>)"
proof -
  have "ctx_tx (claims_context c ctx) = ctx_tx (claims_context c' ctx)" by simp
  from admin_context[OF this, of E] show ?thesis
    unfolding PolicyHandler_GetRole_def PolicyHandler_UpdateRole_def PolicyHandler_DeleteRole_def
      APIKeyHandler_RevokeAPIKey_def TenantHandler_SuspendTenant_def by (simp split: option.split)
qed

text \<open>Listing the tenants is the one administrative endpoint that asks for the super-administrator role.\<close>

lemma ListTenants_needs_super_admin:
  assumes "run_state (TenantHandler_ListTenants E rq) w = (rs, w')" "rs_status rs = 200"
  shows "''super_admin'' \<in> set (RolesFromContext (rq_ctx rq))"
  using assms by (auto simp: TenantHandler_ListTenants_def IsSuperAdmin_def HasRole_def role_loop_iff split: if_splits)

text \<open>A subject of fewer than five characters makes the permission check panic.\<close>

lemma CheckPermission_short_subject:
  assumes "decode_strings [''user_id'', ''action'', ''resource''] (rq_body rq) = Some [u, a, r]"
    "u \<noteq> []" "a \<noteq> []" "r \<noteq> []" "length u < 5"
  shows "run_state (PolicyHandler_CheckPermission E rq) w = (panicked, w)"
  using assms by (simp add: PolicyHandler_CheckPermission_def)

section \<open>An issued API key authenticates its creator\<close>

lemma APIKeyHandler_CreateAPIKey_created:
  assumes "run_state (APIKeyHandler_CreateAPIKey E st rq) w = (rs, w1)" "rs_status rs = 201"
  obtains u t name gk where "UserIDFromContext (rq_ctx rq) = Some u" "TenantIDFromContext (rq_ctx rq) = Some t"
    "run_state (CreateAPIKey E (rq_ctx rq) u t name) w = (Inr gk, w1)"
    "json_field rs ''raw_key'' = Some (JStr (gk_RawKey gk))"
proof -
  obtain u t where ut: "UserIDFromContext (rq_ctx rq) = Some u" "TenantIDFromContext (rq_ctx rq) = Some t"
    using assms by (auto simp: APIKeyHandler_CreateAPIKey_def split: option.splits)
  obtain name where name: "decode_strings [''name''] (rq_body rq) = Some [name]" "name \<noteq> []"
    using assms ut by (auto simp: APIKeyHandler_CreateAPIKey_def split: option.splits list.splits if_splits)
  obtain r v where r: "run_state (CreateAPIKey E (rq_ctx rq) u t name) w = (r, v)" by fastforce
  show ?thesis
  proof (cases r)
    case (Inl e)
    then show ?thesis using assms ut name r by (auto simp: APIKeyHandler_CreateAPIKey_def)
  next
    case (Inr gk)
    then have "v = w1" "json_field rs ''raw_key'' = Some (JStr (gk_RawKey gk))"
      using assms ut name r by (auto simp: APIKeyHandler_CreateAPIKey_def json_field_def writeJSON_def)
    then show ?thesis using that[OF ut] r Inr by blast
  qed
qed

text \<open>
  C32: Round trip of an API key over HTTP: when \<^verbatim>\<open>POST /api-keys\<close> answers 201, the text it returned as
  \<^verbatim>\<open>raw_key\<close>, presented in \<^verbatim>\<open>X-API-Key\<close> by any later request while the stored keys are the same, makes \<^verbatim>\<open>Auth\<close> run the
  next handler with the user and the tenant of the request that created the key, on unchanged tables.
  PostgreSQL must answer a role that sees every row, and bcrypt verify what it hashed.
\<close>

theorem issued_key_authenticates:
  assumes "\<And>n. pg_fault E n = None" "rls_bypass E" "api_keys_ok (pg w)"
    and "\<And>n p h. bcrypt_hash E n p = Inr h \<Longrightarrow> bcrypt_verify E p h"
    and "run_state (APIKeyHandler_CreateAPIKey E st rq) w = (rs, w1)" "rs_status rs = 201"
    and "json_field rs ''raw_key'' = Some (JStr raw)" "rq_header rq2 ''X-API-Key'' = raw" "api_keys (pg w2) = api_keys (pg w1)"
  shows "\<exists>ctx w3. run_state (Auth E True next_handler rq2) w2 = run_state (next_handler (rq2\<lparr>rq_ctx := ctx\<rparr>)) w3 \<and> pg w3 = pg w2
    \<and> UserIDFromContext (rq_ctx rq) \<noteq> None \<and> UserIDFromContext ctx = UserIDFromContext (rq_ctx rq)
    \<and> TenantIDFromContext ctx = TenantIDFromContext (rq_ctx rq)"
proof -
  obtain u t name gk where c: "UserIDFromContext (rq_ctx rq) = Some u" "TenantIDFromContext (rq_ctx rq) = Some t"
    "run_state (CreateAPIKey E (rq_ctx rq) u t name) w = (Inr gk, w1)" "json_field rs ''raw_key'' = Some (JStr (gk_RawKey gk))"
    by (rule APIKeyHandler_CreateAPIKey_created[OF assms(5,6)])
  have raw: "raw = gk_RawKey gk" using c(4) assms(7) by simp
  note ok = CreateAPIKey_ok[OF c(3)]
  have ne: "raw \<noteq> []" using ok raw by auto
  have "fst (run_state (ValidateAPIKey E (rq_ctx rq2) raw) w2) = Inr (gk_APIKey gk)"
    unfolding raw by (rule CreateAPIKey_accepted[OF assms(1-4) c(3) assms(9)])
  then obtain w3 where v: "run_state (ValidateAPIKey E (rq_ctx rq2) raw) w2 = (Inr (gk_APIKey gk), w3)"
    by (metis prod.collapse)
  have "run_state (Auth E True next_handler rq2) w2 = run_state (next_handler (rq2\<lparr>rq_ctx := key_context (gk_APIKey gk) (rq_ctx rq2)\<rparr>)) w3"
    using v ne assms(8) by (simp add: Auth_def)
  then show ?thesis using ok c(1,2) keepsD[OF keeps_ValidateAPIKey(1) v]
    by (intro exI[of _ "key_context (gk_APIKey gk) (rq_ctx rq2)"] exI[of _ w3])
      (simp add: key_context_def with_value_def UserIDFromContext_def TenantIDFromContext_def)
qed

definition key_request :: request where
  "key_request = plain_request\<lparr>rq_body := Some (JObj [(''name'', JStr ''ci'')]),
     rq_ctx := with_value ''tenant_id'' ''t1'' (with_value ''user_id'' ''u1'' background)\<rparr>"

theorem issued_key_authenticates_witness:
  "\<exists>rs w1 raw ctx w3. run_state (APIKeyHandler_CreateAPIKey owner_env (\<lambda>_. []) key_request) demo_world = (rs, w1)
     \<and> json_field rs ''raw_key'' = Some (JStr raw)
     \<and> run_state (Auth owner_env True who_am_i (plain_request\<lparr>rq_header := (\<lambda>_. raw)\<rparr>)) w1
         = run_state (who_am_i (plain_request\<lparr>rq_header := (\<lambda>_. raw), rq_ctx := ctx\<rparr>)) w3
     \<and> UserIDFromContext ctx = Some ''u1'' \<and> TenantIDFromContext ctx = Some ''t1''"
proof -
  obtain gk w1 where c: "run_state (CreateAPIKey owner_env (rq_ctx key_request) ''u1'' ''t1'' ''ci'') demo_world = (Inr gk, w1)"
    using demo_CreateAPIKey by blast
  obtain rs v where r: "run_state (APIKeyHandler_CreateAPIKey owner_env (\<lambda>_. []) key_request) demo_world = (rs, v)" by fastforce
  have ids: "UserIDFromContext (rq_ctx key_request) = Some ''u1''" "TenantIDFromContext (rq_ctx key_request) = Some ''t1''"
    "decode_strings [''name''] (rq_body key_request) = Some [''ci'']" by code_simp+
  have "v = w1 \<and> rs_status rs = 201 \<and> json_field rs ''raw_key'' = Some (JStr (gk_RawKey gk))"
    using r c ids by (auto simp: APIKeyHandler_CreateAPIKey_def json_field_def writeJSON_def)
  then have k: "v = w1" "rs_status rs = 201" "json_field rs ''raw_key'' = Some (JStr (gk_RawKey gk))" by simp_all
  have "rq_header (plain_request\<lparr>rq_header := (\<lambda>_. gk_RawKey gk)\<rparr>) ''X-API-Key'' = gk_RawKey gk" by simp
  from issued_key_authenticates[OF demo_keys(1-3) _ r k(2,3) this refl, where next_handler = who_am_i]
  obtain ctx w3 where "run_state (Auth owner_env True who_am_i (plain_request\<lparr>rq_header := (\<lambda>_. gk_RawKey gk)\<rparr>)) v
         = run_state (who_am_i (plain_request\<lparr>rq_header := (\<lambda>_. gk_RawKey gk), rq_ctx := ctx\<rparr>)) w3"
    "UserIDFromContext ctx = Some ''u1''" "TenantIDFromContext ctx = Some ''t1''" using ids demo_keys(4) by auto
  then show ?thesis using r k(3) by blast
qed

end
