(* ===== verification/Server.thy ===== *)
theory Server
  imports Company_Handler Admin_Handler
begin

text \<open>
  The HTTP server (\<^verbatim>\<open>interfaces/http/server.go\<close>, \<^verbatim>\<open>handlers/health_handler.go\<close>): the table of routes that \<^verbatim>\<open>NewRouter\<close>
  registers, each with its middleware, and the global middleware in front of all of them. Which route a
  path selects and how \<^verbatim>\<open>RealIP\<close> reads the forwarding headers is the work of chi: a theorem
  speaks of every route of the table. The handlers of passkeys, the event stream, statistics, metrics,
  GraphQL and the web interface are parameters.
\<close>

section \<open>Health\<close>

text \<open>A checker is its two pings.\<close>

type_synonym health_checker = "(go_error option) io \<times> (go_error option) io"

definition Health :: handler where
  "Health rq = ret (writeJSON 200 (JObj [(''status'', JStr ''healthy'')]))"

definition not_ready :: "string \<Rightarrow> response" where
  "not_ready m = writeJSON 503 (JObj [(''error'', JStr m), (''status'', JStr ''not_ready'')])"

definition ready :: response where
  "ready = writeJSON 200 (JObj [(''status'', JStr ''ready'')])"

definition Ready :: "health_checker option \<Rightarrow> handler" where
  "Ready checker rq = (case checker of
     None \<Rightarrow> ret ready
   | Some (PingDB, PingRedis) \<Rightarrow> do {
       db \<leftarrow> PingDB;
       case db of
         Some _ \<Rightarrow> ret (not_ready ''database connection failed'')
       | None \<Rightarrow> do {
           r \<leftarrow> PingRedis;
           ret (case r of Some _ \<Rightarrow> not_ready ''redis connection failed'' | None \<Rightarrow> ready) } })"

section \<open>Dependencies of the router\<close>

record other_handlers =
  oh_passkey_BeginLogin :: handler
  oh_passkey_FinishLogin :: handler
  oh_passkey_BeginRegistration :: handler
  oh_passkey_FinishRegistration :: handler
  oh_StreamEvents :: handler
  oh_GetStats :: handler
  oh_metrics :: handler
  oh_graphql :: handler
  oh_playground :: handler
  oh_spa :: handler

text \<open>
  The arguments of \<^verbatim>\<open>NewRouter\<close> as the modelled services take them: the registration port, the
  two-factor service with its issuer, the CAPTCHA service, the address of the web interface for
  password mails, the company and document handlers (\<open>None\<close> for nil), whether there is a Redis client
  and a database pool, and the limiter's settings; \<open>sv_real_ip\<close> is the address chi's \<^verbatim>\<open>RealIP\<close> gives a request.
\<close>

record ServerDeps =
  sv_port :: "verification_port option"
  sv_totp :: "bool option"
  sv_issuer :: string
  sv_captcha :: "(turnstile_api \<times> TurnstileService) option"
  sv_frontendURL :: string
  sv_company :: "CompanyHandler option"
  sv_document :: "verification_port option option"
  sv_redis :: bool
  sv_dbpool :: bool
  sv_rate :: RateLimiter
  sv_show_time :: "time \<Rightarrow> string"
  sv_real_ip :: "request \<Rightarrow> string"
  sv_other :: other_handlers

record route =
  rt_method :: string
  rt_pattern :: string
  rt_handler :: handler

definition Get :: "string \<Rightarrow> handler \<Rightarrow> route" where
  "Get p h = \<lparr>rt_method = ''GET'', rt_pattern = p, rt_handler = h\<rparr>"

definition Post :: "string \<Rightarrow> handler \<Rightarrow> route" where
  "Post p h = \<lparr>rt_method = ''POST'', rt_pattern = p, rt_handler = h\<rparr>"

definition Put :: "string \<Rightarrow> handler \<Rightarrow> route" where
  "Put p h = \<lparr>rt_method = ''PUT'', rt_pattern = p, rt_handler = h\<rparr>"

definition Delete :: "string \<Rightarrow> handler \<Rightarrow> route" where
  "Delete p h = \<lparr>rt_method = ''DELETE'', rt_pattern = p, rt_handler = h\<rparr>"

text \<open>\<^verbatim>\<open>Handle\<close> registers a handler for every method.\<close>

definition Handle :: "string \<Rightarrow> handler \<Rightarrow> route" where
  "Handle p h = \<lparr>rt_method = ''*'', rt_pattern = p, rt_handler = h\<rparr>"

text \<open>\<^verbatim>\<open>Route\<close> puts a prefix before the patterns, \<^verbatim>\<open>Use\<close> in a \<^verbatim>\<open>Group\<close> a middleware before the handlers.\<close>

definition Route :: "string \<Rightarrow> route list \<Rightarrow> route list" where
  "Route prefix rts = map (\<lambda>r. r\<lparr>rt_pattern := prefix @ rt_pattern r\<rparr>) rts"

definition Use :: "(handler \<Rightarrow> handler) \<Rightarrow> route list \<Rightarrow> route list" where
  "Use mw rts = map (\<lambda>r. r\<lparr>rt_handler := mw (rt_handler r)\<rparr>) rts"

section \<open>The routes\<close>

definition router_AuthHandler :: "ServerDeps \<Rightarrow> AuthHandler" where
  "router_AuthHandler d = \<lparr>ah_port = sv_port d, ah_totp = sv_totp d, ah_captcha = sv_captcha d, ah_quota = sv_redis d\<rparr>"

definition public_auth_routes :: "environ \<Rightarrow> ServerDeps \<Rightarrow> route list" where
  "public_auth_routes E d =
     [Get ''/health'' Health,
      Get ''/ready'' (Ready None),
      Post ''/auth/register'' (AuthHandler_Register E (router_AuthHandler d)),
      Post ''/auth/login'' (AuthHandler_Login E (router_AuthHandler d)),
      Post ''/auth/forgot-password'' (ForgotPassword E (sv_frontendURL d)),
      Post ''/auth/reset-password'' (PasswordHandler_ResetPassword E),
      Get ''/auth/verify-email'' (AuthHandler_VerifyEmail E),
      Post ''/auth/refresh'' (AuthHandler_RefreshToken E),
      Post ''/auth/logout'' (AuthHandler_Logout E),
      Post ''/auth/passkeys/login/begin'' (oh_passkey_BeginLogin (sv_other d)),
      Post ''/auth/passkeys/login/finish'' (oh_passkey_FinishLogin (sv_other d))]"

definition api_public_routes :: "environ \<Rightarrow> ServerDeps \<Rightarrow> route list" where
  "api_public_routes E d =
     (if sv_redis d then [Get ''/events/stream'' (oh_StreamEvents (sv_other d))] else [])
     @ (if sv_redis d \<and> sv_dbpool d then [Get ''/stats'' (oh_GetStats (sv_other d))] else [])
     @ (if sv_redis d then [Get ''/plans'' (QuotaHandler_GetPlans [''enterprise'', ''free'', ''pro''] DefaultPlans),
          Get ''/tenants/{id}/usage'' (QuotaHandler_GetUsage E DefaultPlans)] else [])
     @ (case sv_document d of None \<Rightarrow> [] | Some port \<Rightarrow> [Post ''/documents/validate-cpf'' (DocumentHandler_ValidateCPF port)])"

definition company_routes :: "environ \<Rightarrow> CompanyHandler \<Rightarrow> route list" where
  "company_routes E ch =
     [Get ''/companies/lookup'' (CompanyHandler_LookupCompany E ch),
      Post ''/companies'' (CompanyHandler_CreateCompany E ch),
      Get ''/companies'' (CompanyHandler_ListCompanies E ch),
      Get ''/companies/{id}'' (CompanyHandler_GetCompany E ch),
      Post ''/companies/{id}/users'' (CompanyHandler_AddUserToCompany E),
      Delete ''/companies/{id}/users/{userId}'' (CompanyHandler_RemoveUserFromCompany E),
      Post ''/companies/{id}/invitations'' (CompanyHandler_InviteUser E),
      Post ''/invitations/{token}/accept'' (CompanyHandler_AcceptInvitation E),
      Post ''/companies/{id}/join-requests'' (CompanyHandler_RequestJoin E),
      Post ''/companies/{id}/members/{userId}/approve'' (CompanyHandler_ApproveMember E),
      Post ''/companies/{id}/members/{userId}/reject'' (CompanyHandler_RejectMember E),
      Post ''/auth/switch-company'' (CompanyHandler_SwitchCompany E),
      Delete ''/auth/company-context'' (CompanyHandler_ClearCompanyContext E)]"

definition api_protected_routes :: "environ \<Rightarrow> ServerDeps \<Rightarrow> route list" where
  "api_protected_routes E d =
     [Post ''/api-keys'' (APIKeyHandler_CreateAPIKey E (sv_show_time d)),
      Get ''/api-keys'' (APIKeyHandler_ListAPIKeys E),
      Delete ''/api-keys/{id}'' (APIKeyHandler_RevokeAPIKey E),
      Get ''/roles'' (PolicyHandler_ListRoles E),
      Post ''/roles'' (PolicyHandler_CreateRole E),
      Get ''/roles/{id}'' (PolicyHandler_GetRole E),
      Put ''/roles/{id}'' (PolicyHandler_UpdateRole E),
      Delete ''/roles/{id}'' (PolicyHandler_DeleteRole E),
      Post ''/tenants'' (TenantHandler_CreateTenant E)]
     @ (case sv_company d of None \<Rightarrow> [] | Some ch \<Rightarrow> company_routes E ch)
     @ [Get ''/admin/tenants'' (TenantHandler_ListTenants E),
        Post ''/admin/tenants/{id}/suspend'' (TenantHandler_SuspendTenant E)]"

definition protected_routes :: "environ \<Rightarrow> ServerDeps \<Rightarrow> route list" where
  "protected_routes E d =
     [Get ''/auth/me'' (AuthHandler_Me E),
      Post ''/auth/passkeys/register/begin'' (oh_passkey_BeginRegistration (sv_other d)),
      Post ''/auth/passkeys/register/finish'' (oh_passkey_FinishRegistration (sv_other d)),
      Post ''/auth/2fa/setup'' (TOTPHandler_Setup E (sv_issuer d)),
      Post ''/auth/2fa/verify'' (TOTPHandler_Verify E),
      Get ''/auth/2fa/status'' (TOTPHandler_Status E),
      Delete ''/auth/2fa'' (TOTPHandler_Disable E)]"

text \<open>
  The routes in the order of their registration. The validator passed to \<^verbatim>\<open>Auth\<close> is a typed pointer,
  so the interface is never nil.
\<close>

definition NewRouter :: "environ \<Rightarrow> ServerDeps \<Rightarrow> route list" where
  "NewRouter E d =
     public_auth_routes E d
     @ Route ''/api/v1'' (api_public_routes E d
         @ Use (Auth E True) (api_protected_routes E d)
         @ Use (Auth E True) [Post ''/authz/check'' (PolicyHandler_CheckPermission E)]
         @ [Post ''/auth/introspect'' (AuthHandler_IntrospectToken E)])
     @ Use (Auth E True) (protected_routes E d)
     @ [Get ''/auth/captcha-config'' (GetCaptchaSiteKey (router_AuthHandler d)),
        Handle ''/metrics'' (oh_metrics (sv_other d)),
        Handle ''/query'' (oh_graphql (sv_other d)),
        Handle ''/playground'' (oh_playground (sv_other d)),
        Get ''/*'' (oh_spa (sv_other d))]"

text \<open>
  The global middleware that touches a request: \<^verbatim>\<open>RealIP\<close> replaces the peer address, the security
  headers are set, and with a Redis client the rate limiter counts.
\<close>

definition global_middleware :: "environ \<Rightarrow> ServerDeps \<Rightarrow> handler \<Rightarrow> handler" where
  "global_middleware E d h rq =
     SecurityHeaders (if sv_redis d then RateLimiter_Middleware E (sv_rate d) h else h)
       (rq\<lparr>rq_RemoteAddr := sv_real_ip d rq\<rparr>)"

definition serve :: "environ \<Rightarrow> ServerDeps \<Rightarrow> route \<Rightarrow> handler" where
  "serve E d rt = global_middleware E d (rt_handler rt)"

section \<open>Every other route asks for a credential\<close>

text \<open>The endpoints that need none.\<close>

definition public_endpoints :: "(string \<times> string) list" where
  "public_endpoints =
     [(''GET'', ''/health''), (''GET'', ''/ready''), (''POST'', ''/auth/register''), (''POST'', ''/auth/login''),
      (''POST'', ''/auth/forgot-password''), (''POST'', ''/auth/reset-password''), (''GET'', ''/auth/verify-email''),
      (''POST'', ''/auth/refresh''), (''POST'', ''/auth/logout''), (''POST'', ''/auth/passkeys/login/begin''),
      (''POST'', ''/auth/passkeys/login/finish''), (''GET'', ''/api/v1/events/stream''), (''GET'', ''/api/v1/stats''),
      (''GET'', ''/api/v1/plans''), (''GET'', ''/api/v1/tenants/{id}/usage''), (''POST'', ''/api/v1/documents/validate-cpf''),
      (''POST'', ''/api/v1/auth/introspect''), (''GET'', ''/auth/captcha-config''), (''*'', ''/metrics''),
      (''*'', ''/query''), (''*'', ''/playground''), (''GET'', ''/*'')]"

lemmas route_defs = Get_def Post_def Put_def Delete_def Handle_def

lemma Use_handler: "rt \<in> set (Use mw rts) \<Longrightarrow> \<exists>h. rt_handler rt = mw h"
  by (auto simp: Use_def)

lemma Route_append: "Route p (xs @ ys) = Route p xs @ Route p ys"
  by (simp add: Route_def)

lemma Route_Use: "rt \<in> set (Route p (Use mw rts)) \<Longrightarrow> \<exists>h. rt_handler rt = mw h"
  by (auto simp: Use_def Route_def)

definition endpoint :: "route \<Rightarrow> string \<times> string" where
  "endpoint rt = (rt_method rt, rt_pattern rt)"

definition listed :: "(string \<times> string) list \<Rightarrow> bool" where
  "listed es \<longleftrightarrow> list_all (\<lambda>e. e \<in> set public_endpoints) es"

lemma listed_append [simp]: "listed (xs @ ys) \<longleftrightarrow> listed xs \<and> listed ys" "listed []"
  by (simp_all add: listed_def)

lemma listedD: "listed (map endpoint rts) \<Longrightarrow> rt \<in> set rts \<Longrightarrow> endpoint rt \<in> set public_endpoints"
  by (auto simp: listed_def list_all_iff)

lemma endpoints_public:
  "listed [(''GET'', ''/health''), (''GET'', ''/ready''), (''POST'', ''/auth/register''), (''POST'', ''/auth/login''),
      (''POST'', ''/auth/forgot-password''), (''POST'', ''/auth/reset-password''), (''GET'', ''/auth/verify-email''),
      (''POST'', ''/auth/refresh''), (''POST'', ''/auth/logout''), (''POST'', ''/auth/passkeys/login/begin''),
      (''POST'', ''/auth/passkeys/login/finish'')]"
  "listed [(''GET'', ''/api/v1/events/stream'')]" "listed [(''GET'', ''/api/v1/stats'')]"
  "listed [(''GET'', ''/api/v1/plans''), (''GET'', ''/api/v1/tenants/{id}/usage'')]"
  "listed [(''POST'', ''/api/v1/documents/validate-cpf'')]" "listed [(''POST'', ''/api/v1/auth/introspect'')]"
  "listed [(''GET'', ''/auth/captcha-config''), (''*'', ''/metrics''), (''*'', ''/query''), (''*'', ''/playground''), (''GET'', ''/*'')]"
  by code_simp+

lemma public_routes_listed:
  "listed (map endpoint (public_auth_routes E d))"
  "listed (map endpoint (Route ''/api/v1'' (api_public_routes E d)))"
  "listed (map endpoint (Route ''/api/v1'' [Post ''/auth/introspect'' (AuthHandler_IntrospectToken E)]))"
  "listed (map endpoint [Get ''/auth/captcha-config'' (GetCaptchaSiteKey (router_AuthHandler d)),
        Handle ''/metrics'' (oh_metrics (sv_other d)), Handle ''/query'' (oh_graphql (sv_other d)),
        Handle ''/playground'' (oh_playground (sv_other d)), Get ''/*'' (oh_spa (sv_other d))])"
  using endpoints_public
  by (simp_all add: public_auth_routes_def api_public_routes_def Route_def route_defs endpoint_def split: option.split)

lemma NewRouter_protected:
  assumes "rt \<in> set (NewRouter E d)" "endpoint rt \<notin> set public_endpoints"
  shows "\<exists>h. rt_handler rt = Auth E True h"
proof -
  note out = listedD[OF public_routes_listed(1), of rt] listedD[OF public_routes_listed(2), of rt]
    listedD[OF public_routes_listed(3), of rt] listedD[OF public_routes_listed(4), of rt]
  show ?thesis using assms(1) unfolding NewRouter_def Route_append set_append Un_iff
    using assms(2) out Use_handler[of rt] Route_Use[of rt] by metis
qed

text \<open>The global middleware answers 429 itself or runs the handler once, and changes no table.\<close>

lemma keeps_limiter_steps [io_keep]: "keeps pg (redis_Incr E k)" "keeps pg (redis_Expire E k ttl)"
  by (simp_all add: keeps_def redis_Incr_def redis_Expire_def run_redis_do split: sum.splits prod.splits)

lemma RateLimiter_cases:
  assumes "run_state (RateLimiter_Middleware E rl h rq) w = (rs, w')"
  shows "(rs_status rs = 429 \<and> pg w' = pg w)
    \<or> (\<exists>w1 rs1. pg w1 = pg w \<and> run_state (h rq) w1 = (rs1, w') \<and> rs_status rs = rs_status rs1)"
proof -
  obtain r w1 where r: "run_state (redis_Incr E (ratelimit_key (rq_RemoteAddr rq))) w = (r, w1)" by fastforce
  have p1: "pg w1 = pg w" by (rule keepsD[OF keeps_limiter_steps(1) r])
  show ?thesis
  proof (cases r)
    case (Inl e)
    then show ?thesis using assms r p1 by (auto simp: RateLimiter_Middleware_def Let_def)
  next
    case (Inr count)
    let ?ex = "if count = 1 then redis_Expire E (ratelimit_key (rq_RemoteAddr rq)) (rl_window rl) else ret (Inr ())"
    obtain x w2 where x: "run_state ?ex w1 = (x, w2)" by fastforce
    have "keeps pg ?ex" by (simp add: keeps_limiter_steps keeps_ret)
    from keepsD[OF this x] p1 have p2: "pg w2 = pg w" by simp
    show ?thesis using assms r x Inr p2
      by (auto simp: RateLimiter_Middleware_def Let_def split: if_splits prod.splits)
  qed
qed

lemma serve_cases:
  assumes "run_state (serve E d rt rq) w = (rs, w')"
  shows "(rs_status rs = 429 \<and> pg w' = pg w)
    \<or> (\<exists>w1 rs1. pg w1 = pg w \<and> run_state (rt_handler rt (rq\<lparr>rq_RemoteAddr := sv_real_ip d rq\<rparr>)) w1 = (rs1, w')
        \<and> rs_status rs = rs_status rs1)"
proof -
  let ?h = "if sv_redis d then RateLimiter_Middleware E (sv_rate d) (rt_handler rt) else rt_handler rt"
  let ?rq = "rq\<lparr>rq_RemoteAddr := sv_real_ip d rq\<rparr>"
  obtain rs1 w1 where r: "run_state (?h ?rq) w = (rs1, w1)" by fastforce
  have eq: "w1 = w'" "rs_status rs = rs_status rs1"
    using assms r by (auto simp: serve_def global_middleware_def SecurityHeaders_def)
  show ?thesis
  proof (cases "sv_redis d")
    case True
    then show ?thesis using RateLimiter_cases[of E "sv_rate d" "rt_handler rt" ?rq w rs1 w1] r eq by auto
  next
    case False
    then show ?thesis using r eq by auto
  qed
qed

text \<open>
  The identity a request proves in a state: that of the API key \<^verbatim>\<open>ValidateAPIKey\<close> accepts, or of the claims
  of the bearer token, which the JWT library accepted at some time of the clock.
\<close>

definition authenticated :: "environ \<Rightarrow> request \<Rightarrow> world \<Rightarrow> reqctx \<Rightarrow> bool" where
  "authenticated E rq w ctx \<longleftrightarrow>
     (\<exists>key. fst (run_state (ValidateAPIKey E (rq_ctx rq) (rq_header rq ''X-API-Key'')) w) = Inr key
        \<and> ctx = key_context key (rq_ctx rq))
     \<or> (\<exists>tok claims n. rq_header rq ''Authorization'' = ''Bearer '' @ tok \<and> jwt_parse E (clock E n) tok = Inr claims
        \<and> ctx = claims_context claims (rq_ctx rq))"

lemma Auth_authenticated:
  assumes "run_state (Auth E True h rq) w = (rs, w')"
  shows "(rs_status rs = 401 \<and> pg w' = pg w)
    \<or> (\<exists>ctx w1. authenticated E rq w ctx \<and> pg w1 = pg w \<and> run_state (h (rq\<lparr>rq_ctx := ctx\<rparr>)) w1 = (rs, w'))"
proof -
  consider (refused) "rs_status rs = 401" "pg w' = pg w"
    | (key) key w1 where "run_state (ValidateAPIKey E (rq_ctx rq) (rq_header rq ''X-API-Key'')) w = (Inr key, w1)"
        "run_state (h (rq\<lparr>rq_ctx := key_context key (rq_ctx rq)\<rparr>)) w1 = (rs, w')"
    | (token) tok claims n where "rq_header rq ''Authorization'' = ''Bearer '' @ tok" "jwt_parse E (clock E n) tok = Inr claims"
        "run_state (h (rq\<lparr>rq_ctx := claims_context claims (rq_ctx rq)\<rparr>)) (tick w) = (rs, w')"
    using Auth_cases[OF assms] by blast
  then show ?thesis
  proof cases
    case refused
    then show ?thesis by simp
  next
    case key
    then show ?thesis using keepsD[OF keeps_ValidateAPIKey(1) key(1)]
      by (intro disjI2 exI[of _ "key_context key (rq_ctx rq)"] exI[of _ w1]) (auto simp: authenticated_def)
  next
    case token
    then show ?thesis
      by (intro disjI2 exI[of _ "claims_context claims (rq_ctx rq)"] exI[of _ "tick w"]) (auto simp: authenticated_def)
  qed
qed

lemma authenticated_address: "authenticated E (rq\<lparr>rq_RemoteAddr := a\<rparr>) w ctx = authenticated E rq w ctx"
  by (simp add: authenticated_def)

lemma authenticated_tables: assumes "pg w1 = pg w" "\<And>n. pg_fault E n = None" "authenticated E rq w1 ctx"
  shows "authenticated E rq w ctx"
proof -
  have "run_state (ValidateAPIKey E c raw) w1 = (Inr k, v) \<Longrightarrow> fst (run_state (ValidateAPIKey E c raw) w) = Inr k" for c raw k v
    using assms(1) by (auto simp: ValidateAPIKey_def run_tryE run_GetByPrefix[OF assms(2)] run_spawn split: if_splits sum.splits)
  then have "fst (run_state (ValidateAPIKey E c raw) w1) = Inr k \<Longrightarrow> fst (run_state (ValidateAPIKey E c raw) w) = Inr k" for c raw k
    using surjective_pairing by metis
  then show ?thesis using assms(3) unfolding authenticated_def by blast
qed

text \<open>
  C4: The whole API asks for a credential: whatever the configuration, every route of the server outside
  the list of public endpoints has \<^verbatim>\<open>Auth\<close> before its handler; a request to it is answered 401 or 429 and
  changes no table, or it presents an API key that is accepted or a bearer token that the JWT
  library accepts, and the route's handler ran once, on the same tables and with that user and tenant in
  its context. PostgreSQL must answer.
\<close>

theorem router_requires_authentication:
  assumes "\<And>n. pg_fault E n = None" "rt \<in> set (NewRouter E d)" "endpoint rt \<notin> set public_endpoints"
    and "run_state (serve E d rt rq) w = (rs, w')"
  shows "\<exists>h. rt_handler rt = Auth E True h \<and>
    ((rs_status rs \<in> {401, 429} \<and> pg w' = pg w)
     \<or> (\<exists>ctx w1 rs1. authenticated E rq w ctx \<and> pg w1 = pg w \<and> rs_status rs = rs_status rs1
          \<and> run_state (h (rq\<lparr>rq_RemoteAddr := sv_real_ip d rq, rq_ctx := ctx\<rparr>)) w1 = (rs1, w')))"
proof -
  let ?rq = "rq\<lparr>rq_RemoteAddr := sv_real_ip d rq\<rparr>"
  obtain h where h: "rt_handler rt = Auth E True h" using NewRouter_protected[OF assms(2,3)] by blast
  from serve_cases[OF assms(4)] show ?thesis
  proof
    assume "rs_status rs = 429 \<and> pg w' = pg w"
    then show ?thesis using h by blast
  next
    assume "\<exists>w1 rs1. pg w1 = pg w \<and> run_state (rt_handler rt ?rq) w1 = (rs1, w') \<and> rs_status rs = rs_status rs1"
    then obtain w1 rs1 where r: "pg w1 = pg w" "run_state (Auth E True h ?rq) w1 = (rs1, w')" "rs_status rs = rs_status rs1"
      unfolding h by blast
    from Auth_authenticated[OF r(2)] show ?thesis
    proof
      assume "rs_status rs1 = 401 \<and> pg w' = pg w1"
      then show ?thesis using h r by auto
    next
      assume "\<exists>ctx w2. authenticated E ?rq w1 ctx \<and> pg w2 = pg w1 \<and> run_state (h (?rq\<lparr>rq_ctx := ctx\<rparr>)) w2 = (rs1, w')"
      then obtain ctx w2 where a: "authenticated E ?rq w1 ctx" "pg w2 = pg w1" "run_state (h (?rq\<lparr>rq_ctx := ctx\<rparr>)) w2 = (rs1, w')"
        by blast
      have "authenticated E rq w ctx" using authenticated_tables[OF r(1) assms(1)] a(1) unfolding authenticated_address by blast
      then show ?thesis using h r a by (intro exI[of _ h] conjI disjI2 exI[of _ ctx] exI[of _ w2] exI[of _ rs1]) simp_all
    qed
  qed
qed

definition demo_deps :: ServerDeps where
  "demo_deps = \<lparr>sv_port = None, sv_totp = None, sv_issuer = ''Vyst'', sv_captcha = None, sv_frontendURL = ''https://vyst'',
     sv_company = None, sv_document = None, sv_redis = True, sv_dbpool = True, sv_rate = \<lparr>rl_limit = 100, rl_window = minute\<rparr>,
     sv_show_time = (\<lambda>_. []), sv_real_ip = rq_RemoteAddr,
     sv_other = \<lparr>oh_passkey_BeginLogin = Health, oh_passkey_FinishLogin = Health, oh_passkey_BeginRegistration = Health,
       oh_passkey_FinishRegistration = Health, oh_StreamEvents = Health, oh_GetStats = Health, oh_metrics = Health,
       oh_graphql = Health, oh_playground = Health, oh_spa = Health\<rparr>\<rparr>"

theorem router_requires_authentication_witness:
  "let rt = \<lparr>rt_method = ''GET'', rt_pattern = ''/auth/me'', rt_handler = Auth owner_env True (AuthHandler_Me owner_env)\<rparr>;
     (rs, w') = run_state (serve owner_env demo_deps rt plain_request) api_world
   in rt \<in> set (NewRouter owner_env demo_deps) \<and> rs_status rs \<in> {401, 429} \<and> pg w' = pg api_world"
proof -
  let ?rt = "\<lparr>rt_method = ''GET'', rt_pattern = ''/auth/me'', rt_handler = Auth owner_env True (AuthHandler_Me owner_env)\<rparr>"
  have "?rt \<in> set (Use (Auth owner_env True) (protected_routes owner_env demo_deps))"
    by (simp add: Use_def protected_routes_def Get_def)
  then have rt: "?rt \<in> set (NewRouter owner_env demo_deps)" unfolding NewRouter_def by simp
  have "(''GET'', ''/auth/me'') \<notin> set public_endpoints" by code_simp
  then have e: "endpoint ?rt \<notin> set public_endpoints" by (simp add: endpoint_def)
  have no: "\<not> authenticated owner_env plain_request w ctx" for w ctx
    by (simp add: authenticated_def plain_request_def ValidateAPIKey_def has_prefix_def)
  obtain rs w' where r: "run_state (serve owner_env demo_deps ?rt plain_request) api_world = (rs, w')" by fastforce
  have "pg_fault owner_env n = None" for n by (simp add: owner_env_def demo_env_def)
  from router_requires_authentication[OF this rt e r] no show ?thesis using r rt by (auto simp: Let_def)
qed

end
