(* ===== verification/Sha256.thy ===== *)
theory Sha256
  imports Encoding "HOL-Library.Word"
begin

unbundle bit_operations_syntax

text \<open>
  What \<^verbatim>\<open>crypto/sha256\<close>, \<^verbatim>\<open>crypto/hmac\<close> and \<^verbatim>\<open>encoding/hex\<close> compute for the signature of a webhook: SHA-256 as
  FIPS 180-4 defines it on 32-bit words, HMAC as RFC 2104 defines it over blocks of 64 bytes, and lower-case
  hexadecimal digits. A byte is a number below 256.
\<close>

section \<open>SHA-256\<close>

text \<open>
  The constants are the first 32 bits after the point of the cube roots of the first 64 primes, and of the square roots of the
  first eight. \<open>root_bits k n acc x\<close> adds to \<open>acc\<close>, bit by bit from \<open>2 ^ (k - 1)\<close> down, what keeps its \<open>n\<close>th power below \<open>x\<close>.
\<close>

fun root_bits :: "nat \<Rightarrow> nat \<Rightarrow> int \<Rightarrow> int \<Rightarrow> int" where
  "root_bits 0 n acc x = acc"
| "root_bits (Suc k) n acc x = root_bits k n (if (acc + 2 ^ k) ^ n \<le> x then acc + 2 ^ k else acc) x"

definition root_fraction :: "nat \<Rightarrow> int \<Rightarrow> 32 word" where
  "root_fraction n p = word_of_int (root_bits 37 n 0 (p * 2 ^ (32 * n)))"

text \<open>Below 324 a number is prime if no smaller one among 2, 3, 5, 7, 11, 13 and 17 divides it.\<close>

definition primes_below :: "int \<Rightarrow> int list" where
  "primes_below m = filter (\<lambda>p. list_all (\<lambda>d. d < p \<longrightarrow> p mod d \<noteq> 0) [2, 3, 5, 7, 11, 13, 17]) [2..m - 1]"

definition K256 :: "32 word list" where
  "K256 = map (root_fraction 3) (primes_below 312)"

definition H256 :: "32 word list" where
  "H256 = map (root_fraction 2) (primes_below 20)"

definition rotr :: "nat \<Rightarrow> 32 word \<Rightarrow> 32 word" where
  "rotr n x = drop_bit n x OR push_bit (32 - n) x"

definition small_sigma0 :: "32 word \<Rightarrow> 32 word" where
  "small_sigma0 x = rotr 7 x XOR rotr 18 x XOR drop_bit 3 x"

definition small_sigma1 :: "32 word \<Rightarrow> 32 word" where
  "small_sigma1 x = rotr 17 x XOR rotr 19 x XOR drop_bit 10 x"

definition big_sigma0 :: "32 word \<Rightarrow> 32 word" where
  "big_sigma0 x = rotr 2 x XOR rotr 13 x XOR rotr 22 x"

definition big_sigma1 :: "32 word \<Rightarrow> 32 word" where
  "big_sigma1 x = rotr 6 x XOR rotr 11 x XOR rotr 25 x"

text \<open>The message schedule, newest word first, grown from the 16 words of a block.\<close>

fun schedule :: "nat \<Rightarrow> 32 word list \<Rightarrow> 32 word list" where
  "schedule 0 ws = ws"
| "schedule (Suc n) ws = schedule n ((small_sigma1 (ws ! 1) + ws ! 6 + small_sigma0 (ws ! 14) + ws ! 15) # ws)"

type_synonym sha_state = "32 word \<times> 32 word \<times> 32 word \<times> 32 word \<times> 32 word \<times> 32 word \<times> 32 word \<times> 32 word"

fun sha_round :: "sha_state \<Rightarrow> 32 word \<times> 32 word \<Rightarrow> sha_state" where
  "sha_round (a, b, c, d, e, f, g, h) (k, w) =
     (let t1 = h + big_sigma1 e + ((e AND f) XOR (NOT e AND g)) + k + w;
          t2 = big_sigma0 a + ((a AND b) XOR (a AND c) XOR (b AND c))
      in (t1 + t2, a, b, c, d + t1, e, f, g))"

fun state_of :: "32 word list \<Rightarrow> sha_state" where
  "state_of [a, b, c, d, e, f, g, h] = (a, b, c, d, e, f, g, h)"
| "state_of _ = (0, 0, 0, 0, 0, 0, 0, 0)"

fun list_of :: "sha_state \<Rightarrow> 32 word list" where
  "list_of (a, b, c, d, e, f, g, h) = [a, b, c, d, e, f, g, h]"

definition compress :: "32 word list \<Rightarrow> 32 word list \<Rightarrow> 32 word list" where
  "compress hs block =
     map2 (+) hs (list_of (foldl sha_round (state_of hs) (zip K256 (rev (schedule 48 (rev block))))))"

fun bytes_words :: "nat list \<Rightarrow> 32 word list" where
  "bytes_words (a # b # c # d # bs) = of_nat (((a * 256 + b) * 256 + c) * 256 + d) # bytes_words bs"
| "bytes_words _ = []"

definition be_bytes :: "nat \<Rightarrow> nat \<Rightarrow> nat list" where
  "be_bytes n x = map (\<lambda>i. x div 256 ^ (n - 1 - i) mod 256) [0..<n]"

definition sha_pad :: "nat list \<Rightarrow> nat list" where
  "sha_pad bs = bs @ 128 # replicate ((119 - length bs mod 64) mod 64) 0 @ be_bytes 8 (8 * length bs)"

function blocks :: "'a list \<Rightarrow> nat \<Rightarrow> 'a list list" where
  "blocks xs n = (if xs = [] \<or> n = 0 then [] else take n xs # blocks (drop n xs) n)"
  by auto
termination by (relation "measure (\<lambda>(xs, n). length xs)") auto

declare blocks.simps [simp del]

definition sha256 :: "nat list \<Rightarrow> nat list" where
  "sha256 bs = concat (map (\<lambda>w. be_bytes 4 (unat w)) (foldl compress H256 (map bytes_words (blocks (sha_pad bs) 64))))"

section \<open>HMAC and hexadecimal\<close>

definition hmac_sha256 :: "nat list \<Rightarrow> nat list \<Rightarrow> nat list" where
  "hmac_sha256 key msg =
     (let k = (if 64 < length key then sha256 key else key);
          kp = k @ replicate (64 - length k) 0
      in sha256 (map (\<lambda>b. b XOR 92) kp @ sha256 (map (\<lambda>b. b XOR 54) kp @ msg)))"

definition hex_digit :: "nat \<Rightarrow> char" where
  "hex_digit n = ''0123456789abcdef'' ! n"

definition hex_encode :: "nat list \<Rightarrow> string" where
  "hex_encode bs = concat (map (\<lambda>b. [hex_digit (b div 16 mod 16), hex_digit (b mod 16)]) bs)"

definition string_bytes :: "string \<Rightarrow> nat list" where
  "string_bytes s = map of_char s"

section \<open>Shape of a digest\<close>

lemma length_be_bytes [simp]: "length (be_bytes n x) = n"
  by (simp add: be_bytes_def)

text \<open>The padded message is a whole number of blocks.\<close>

lemma length_sha_pad: "length (sha_pad bs) mod 64 = 0"
proof -
  define q r where "q = length bs div 64" and "r = length bs mod 64"
  have r: "length bs = 64 * q + r" "r < 64" by (simp_all add: q_def r_def)
  have "(119 - r) mod 64 = (if r \<le> 55 then 55 - r else 119 - r)"
  proof (cases "r \<le> 55")
    case True
    then have "119 - r = (55 - r) + 64" by simp
    then have "(119 - r) mod 64 = (55 - r) mod 64" by (simp only: mod_add_self2)
    then show ?thesis using True by simp
  next
    case False
    then show ?thesis using r(2) by simp
  qed
  then have "length (sha_pad bs) = 64 * q + (if r \<le> 55 then 64 else 128)"
    using r by (simp add: sha_pad_def r_def[symmetric])
  then show ?thesis by simp
qed

lemma length_list_of: "length (list_of s) = 8"
  by (cases s rule: list_of.cases) simp

lemma length_compress: "length hs = 8 \<Longrightarrow> length (compress hs b) = 8"
  by (simp add: compress_def length_list_of)

lemma length_foldl_compress: "length hs = 8 \<Longrightarrow> length (foldl compress hs bs) = 8"
  by (induction bs arbitrary: hs) (simp_all add: length_compress)

lemma length_concat_const: "(\<And>x. length (f x) = n) \<Longrightarrow> length (concat (map f xs)) = n * length xs"
  by (induction xs) simp_all

lemma H256_values:
  "map uint H256 = [1779033703, 3144134277, 1013904242, 2773480762, 1359893119, 2600822924, 528734635, 1541459225]"
  by code_simp

lemma length_H256: "length H256 = 8"
  using arg_cong[OF H256_values, of length] by simp

lemma length_sha256 [simp]: "length (sha256 bs) = 32"
  by (simp add: sha256_def length_concat_const[where n = 4] length_foldl_compress length_H256)

lemma length_hmac [simp]: "length (hmac_sha256 k m) = 32"
  by (simp add: hmac_sha256_def Let_def)

lemma length_hex [simp]: "length (hex_encode bs) = 2 * length bs"
  by (simp add: hex_encode_def length_concat_const[where n = 2])

end
