(* ===== verification/Events.thy ===== *)
theory Events
  imports Sha256 Company_Service "HOL-Library.AList" "HOL-Library.Multiset"
begin

text \<open>
  The in-memory event bus (\<^verbatim>\<open>eventbus/inmemory.go\<close>) and its subscribers: webhooks (\<^verbatim>\<open>domain/webhook\<close>,
  \<^verbatim>\<open>postgres/webhook_repository.go\<close>, \<^verbatim>\<open>service/webhook_service.go\<close>), the audit log (\<^verbatim>\<open>domain/audit\<close>,
  \<^verbatim>\<open>postgres/audit_repository.go\<close>, \<^verbatim>\<open>service/audit_service.go\<close>) and the subscription of the kill switch in
  \<^verbatim>\<open>cmd/identity-api/main.go\<close>.
\<close>

section \<open>The bus\<close>

text \<open>
  The handlers of each event type by the id they were registered under. A Go map is iterated in an
  order the language does not fix; the list keeps the order of registration.
\<close>

type_synonym 'h bus = "string \<rightharpoonup> (string \<times> 'h) list"

definition NewInMemoryBus :: "'h bus" where
  "NewInMemoryBus = Map.empty"

definition handlers_of :: "'h bus \<Rightarrow> string \<Rightarrow> (string \<times> 'h) list" where
  "handlers_of b et = (case b et of None \<Rightarrow> [] | Some hs \<Rightarrow> hs)"

definition bus_put :: "string \<Rightarrow> string \<Rightarrow> 'h \<Rightarrow> 'h bus \<Rightarrow> 'h bus" where
  "bus_put et hid h b = b(et \<mapsto> AList.update hid h (handlers_of b et))"

text \<open>\<^verbatim>\<open>Subscribe\<close> gives the id that the returned function unsubscribes.\<close>

definition bus_Subscribe :: "environ \<Rightarrow> string \<Rightarrow> 'h \<Rightarrow> 'h bus \<Rightarrow> (string \<times> 'h bus) io" where
  "bus_Subscribe E et h b = do { hid \<leftarrow> uuid_New E; ret (hid, bus_put et hid h b) }"

definition bus_Unsubscribe :: "string \<Rightarrow> string \<Rightarrow> 'h bus \<Rightarrow> 'h bus" where
  "bus_Unsubscribe et hid b = (case b et of
     None \<Rightarrow> b
   | Some m \<Rightarrow> (let m' = AList.delete hid m in if m' = [] then b(et := None) else b(et \<mapsto> m')))"

text \<open>The handlers that \<^verbatim>\<open>Publish\<close> starts, each in a goroutine of its own.\<close>

definition bus_Publish :: "'h bus \<Rightarrow> Event \<Rightarrow> 'h list" where
  "bus_Publish b evt = map snd (handlers_of b (e_Type evt))"

fun subscribe_all :: "environ \<Rightarrow> string list \<Rightarrow> 'h \<Rightarrow> 'h bus \<Rightarrow> 'h bus io" where
  "subscribe_all E [] h b = ret b"
| "subscribe_all E (et # ets) h b = do { (hid, b') \<leftarrow> bus_Subscribe E et h b; subscribe_all E ets h b' }"

section \<open>Webhooks\<close>

abbreviation StatusActive_hook :: string where
  "StatusActive_hook \<equiv> ''active''"

text \<open>
  What \<^verbatim>\<open>net/url\<close> and \<^verbatim>\<open>net/http\<close> decide about an address, the text \<^verbatim>\<open>encoding/json\<close> writes for a value, and the
  answer of the receiver.
\<close>

record webhook_request =
  wr_URL :: string
  wr_headers :: "(string \<times> string) list"
  wr_body :: string

record http_client =
  hc_ParseRequestURI :: "string \<Rightarrow> bool"
  hc_NewRequest :: "string \<Rightarrow> bool"
  hc_Marshal :: "json \<Rightarrow> string"
  hc_Do :: "webhook_request \<Rightarrow> nat result"

definition NewWebhook :: "environ \<Rightarrow> http_client \<Rightarrow> string \<Rightarrow> string \<Rightarrow> string list \<Rightarrow> string \<Rightarrow> (Webhook result) io" where
  "NewWebhook E C tenantID targetURL events secret =
     (if tenantID = [] then ret (Inl (ErrorString ''tenant id is required''))
      else if \<not> hc_ParseRequestURI C targetURL then ret (Inl (Sentinel ErrInvalidURL))
      else if events = [] then ret (Inl (Sentinel ErrEmptyEvents))
      else do {
        now \<leftarrow> time_Now E;
        wid \<leftarrow> uuid_New E;
        ret (Inr \<lparr>wh_ID = wid, wh_TenantID = tenantID, wh_URL = targetURL, wh_Secret = secret, wh_Events = events,
          wh_Status = StatusActive_hook, wh_CreatedAt = now, wh_UpdatedAt = now\<rparr>) })"

definition insert_webhook :: "Webhook \<Rightarrow> time \<Rightarrow> tables \<Rightarrow> (tables \<times> nat) result" where
  "insert_webhook x t db =
     (if wh_ID x \<in> wh_ID ` set (webhooks db) then violation ''duplicate key: webhooks_pkey''
      else Inr (db\<lparr>webhooks := webhooks db @ [x]\<rparr>, 1))"

definition WebhookRepository_Create :: "environ \<Rightarrow> reqctx \<Rightarrow> Webhook \<Rightarrow> (unit result) io" where
  "WebhookRepository_Create E ctx x =
     tryE (pg_exec E (pool ctx) [wh_ID x] (insert_webhook x)) (wrap ''failed to create webhook: '') (\<lambda>_. ret (Inr ()))"

definition WebhookRepository_GetByID :: "environ \<Rightarrow> reqctx \<Rightarrow> string \<Rightarrow> (Webhook result) io" where
  "WebhookRepository_GetByID E ctx wid =
     tryE (pg_query E (pool ctx) [wid] (\<lambda>db. find (\<lambda>x. wh_ID x = wid) (webhooks db))) (wrap ''failed to get webhook: '')
       (\<lambda>row. ret (case row of None \<Rightarrow> Inl (Sentinel webhook_ErrNotFound) | Some x \<Rightarrow> Inr x))"

definition WebhookRepository_ListByTenant :: "environ \<Rightarrow> reqctx \<Rightarrow> string \<Rightarrow> (Webhook list result) io" where
  "WebhookRepository_ListByTenant E ctx tenantID =
     tryE (pg_query E (pool ctx) [] (\<lambda>db. filter (\<lambda>x. wh_TenantID x = tenantID) (webhooks db)))
       (wrap ''failed to list webhooks: '') (\<lambda>rows. ret (Inr rows))"

definition hook_matches :: "string \<Rightarrow> string \<Rightarrow> Webhook \<Rightarrow> bool" where
  "hook_matches tenantID eventType x \<longleftrightarrow>
     wh_TenantID x = tenantID \<and> wh_Status x = ''active'' \<and> eventType \<in> set (wh_Events x)"

text \<open>\<open>cancelled\<close> says whether the context has been cancelled by the time the query is sent.\<close>

definition WebhookRepository_ListByEvent ::
    "environ \<Rightarrow> reqctx \<Rightarrow> bool \<Rightarrow> string \<Rightarrow> string \<Rightarrow> (Webhook list result) io" where
  "WebhookRepository_ListByEvent E ctx cancelled tenantID eventType =
     tryE (if cancelled then ret (Inl (Driver ''context canceled''))
           else pg_query E (pool ctx) [] (\<lambda>db. filter (hook_matches tenantID eventType) (webhooks db)))
       (wrap ''failed to list webhooks by event: '') (\<lambda>rows. ret (Inr rows))"

definition update_webhook :: "Webhook \<Rightarrow> time \<Rightarrow> tables \<Rightarrow> (tables \<times> nat) result" where
  "update_webhook x t db = Inr
     (db\<lparr>webhooks := map (\<lambda>y. if wh_ID y = wh_ID x then y\<lparr>wh_URL := wh_URL x, wh_Secret := wh_Secret x,
        wh_Events := wh_Events x, wh_Status := wh_Status x, wh_UpdatedAt := wh_UpdatedAt x\<rparr> else y) (webhooks db)\<rparr>,
      length (filter (\<lambda>y. wh_ID y = wh_ID x) (webhooks db)))"

definition WebhookRepository_Update :: "environ \<Rightarrow> reqctx \<Rightarrow> Webhook \<Rightarrow> (unit result) io" where
  "WebhookRepository_Update E ctx x =
     tryE (pg_exec E (pool ctx) [wh_ID x] (update_webhook x)) (wrap ''failed to update webhook: '')
       (\<lambda>n. ret (if n = 0 then Inl (Sentinel webhook_ErrNotFound) else Inr ()))"

definition WebhookRepository_Delete :: "environ \<Rightarrow> reqctx \<Rightarrow> string \<Rightarrow> (unit result) io" where
  "WebhookRepository_Delete E ctx wid =
     tryE (pg_exec E (pool ctx) [wid] (\<lambda>t db. Inr (db\<lparr>webhooks := filter (\<lambda>y. wh_ID y \<noteq> wid) (webhooks db)\<rparr>,
        length (filter (\<lambda>y. wh_ID y = wid) (webhooks db))))) (wrap ''failed to delete webhook: '')
       (\<lambda>n. ret (if n = 0 then Inl (Sentinel webhook_ErrNotFound) else Inr ()))"

definition CreateWebhook ::
    "environ \<Rightarrow> http_client \<Rightarrow> reqctx \<Rightarrow> string \<Rightarrow> string \<Rightarrow> string list \<Rightarrow> string \<Rightarrow> (Webhook result) io" where
  "CreateWebhook E C ctx tenantID url events secret = do {
     sec \<leftarrow> (if secret = [] then uuid_New E else ret secret);
     tryE (NewWebhook E C tenantID url events sec) (\<lambda>e. e) (\<lambda>x.
     tryE (WebhookRepository_Create E ctx x) (\<lambda>e. e) (\<lambda>_. ret (Inr x))) }"

definition ListWebhooks :: "environ \<Rightarrow> reqctx \<Rightarrow> string \<Rightarrow> (Webhook list result) io" where
  "ListWebhooks E ctx tenantID = WebhookRepository_ListByTenant E ctx tenantID"

definition DeleteWebhook :: "environ \<Rightarrow> reqctx \<Rightarrow> string \<Rightarrow> (unit result) io" where
  "DeleteWebhook E ctx wid = WebhookRepository_Delete E ctx wid"

definition webhook_event_types :: "string list" where
  "webhook_event_types = [ev_CompanyCreated, ev_CompanyUserAdded, ev_CompanyUserRemoved, ev_UserCreated]"

fun spawn_dispatches :: "Webhook list \<Rightarrow> Event \<Rightarrow> unit io" where
  "spawn_dispatches [] e = ret ()"
| "spawn_dispatches (x # xs) e = do { spawn (DispatchWebhook x e); spawn_dispatches xs e }"

definition WebhookService_handleEvent :: "environ \<Rightarrow> reqctx \<Rightarrow> bool \<Rightarrow> Event \<Rightarrow> (unit result) io" where
  "WebhookService_handleEvent E ctx cancelled e =
     tryE (WebhookRepository_ListByEvent E ctx cancelled (e_TenantID e) (e_Type e)) (\<lambda>err. err) (\<lambda>hooks.
       if hooks = [] then ret (Inr ()) else do { spawn_dispatches hooks e; ret (Inr ()) })"

definition computeHMAC :: "string \<Rightarrow> string \<Rightarrow> string" where
  "computeHMAC message secret = hex_encode (hmac_sha256 (string_bytes secret) (string_bytes message))"

text \<open>The request that the goroutine sends, \<open>None\<close> when none could be built; its outcome is only logged.\<close>

definition dispatch :: "environ \<Rightarrow> http_client \<Rightarrow> Webhook \<Rightarrow> Event \<Rightarrow> (webhook_request option) io" where
  "dispatch E C x e =
     (let payload = hc_Marshal C (event_json e) in
      if \<not> hc_NewRequest C (wh_URL x) then ret None
      else do {
        now \<leftarrow> time_Now E;
        let timestamp = string_of_int (now div second);
        ret (Some \<lparr>wr_URL = wh_URL x,
          wr_headers = [(''Content-Type'', ''application/json''), (''User-Agent'', ''Vyst-Identity-Webhook/1.0''),
            (''X-Webhook-ID'', wh_ID x), (''X-Event-ID'', e_ID e), (''X-Event-Type'', e_Type e),
            (''X-Vyst-Timestamp'', timestamp), (''X-Vyst-Signature'', computeHMAC (timestamp @ ''.'' @ payload) (wh_Secret x))],
          wr_body = payload\<rparr>) })"

section \<open>The audit log\<close>

definition NewLogEntry ::
    "environ \<Rightarrow> string \<Rightarrow> string \<Rightarrow> string \<Rightarrow> string \<Rightarrow> string \<Rightarrow> (string \<times> json) list \<Rightarrow> LogEntry io" where
  "NewLogEntry E tenantID actorID action entity entityID metadata = do {
     lid \<leftarrow> uuid_New E;
     now \<leftarrow> time_Now E;
     ret \<lparr>le_ID = lid, le_TenantID = tenantID, le_ActorID = actorID, le_Action = action, le_Entity = entity,
       le_EntityID = entityID, le_Metadata = metadata, le_Timestamp = now\<rparr> }"

definition insert_log :: "LogEntry \<Rightarrow> time \<Rightarrow> tables \<Rightarrow> (tables \<times> nat) result" where
  "insert_log x t db =
     (if le_ID x \<in> le_ID ` set (audit_logs db) then violation ''duplicate key: audit_logs_pkey''
      else Inr (db\<lparr>audit_logs := audit_logs db @ [x]\<rparr>, 1))"

definition AuditRepository_Create :: "environ \<Rightarrow> reqctx \<Rightarrow> LogEntry \<Rightarrow> (unit result) io" where
  "AuditRepository_Create E ctx x =
     tryE (pg_exec E (pool ctx) [le_ID x] (insert_log x)) (wrap ''failed to insert audit log: '') (\<lambda>_. ret (Inr ()))"

text \<open>PostgreSQL refuses a negative \<^verbatim>\<open>LIMIT\<close> or \<^verbatim>\<open>OFFSET\<close>.\<close>

definition AuditRepository_ListByTenant ::
    "environ \<Rightarrow> reqctx \<Rightarrow> string \<Rightarrow> int \<Rightarrow> int \<Rightarrow> (LogEntry list result) io" where
  "AuditRepository_ListByTenant E ctx tenantID limit offset =
     tryE (pg_query E (pool ctx) [] (\<lambda>db.
        if limit < 0 then Inl (Driver ''LIMIT must not be negative'')
        else if offset < 0 then Inl (Driver ''OFFSET must not be negative'')
        else Inr (take (nat limit) (drop (nat offset)
          (sort_key (\<lambda>x. - le_Timestamp x) (filter (\<lambda>x. le_TenantID x = tenantID) (audit_logs db)))))))
       (wrap ''failed to query audit logs: '')
       (\<lambda>r. ret (case r of Inl e \<Rightarrow> Inl (wrap ''failed to query audit logs: '' e) | Inr rows \<Rightarrow> Inr rows))"

definition audit_event_types :: "string list" where
  "audit_event_types = [ev_CompanyCreated, ev_CompanyUpdated, ev_CompanySuspended, ev_CompanyActivated,
     ev_CompanyUserAdded, ev_CompanyUserRemoved, ev_UserCreated, ev_UserSuspended, ''Identity.UserUpdated'']"

text \<open>The payload as a map: a struct is written to JSON and read back.\<close>

definition payload_map :: "payload \<Rightarrow> (string \<times> json) list" where
  "payload_map p = (case payload_json p of JObj fs \<Rightarrow> fs | _ \<Rightarrow> [])"

text \<open>\<^verbatim>\<open>fmt.Sprintf("%v")\<close> of a value read from JSON, for the strings and booleans that payloads hold.\<close>

fun sprint_value :: "json \<Rightarrow> string" where
  "sprint_value (JStr s) = s"
| "sprint_value (JBool b) = (if b then ''true'' else ''false'')"
| "sprint_value (JNum n) = string_of_int n"
| "sprint_value _ = ''<nil>''"

definition actor_of :: "payload \<Rightarrow> string" where
  "actor_of p = (case map_of (payload_map p) ''actor_id'' of Some v \<Rightarrow> sprint_value v | None \<Rightarrow> ''system'')"

definition AuditService_handleEvent :: "environ \<Rightarrow> Event \<Rightarrow> (unit result) io" where
  "AuditService_handleEvent E e = do {
     entry \<leftarrow> NewLogEntry E (e_TenantID e) (actor_of (e_Payload e)) (e_Type e) (e_AggregateType e) (e_AggregateID e)
       (payload_map (e_Payload e));
     AuditRepository_Create E background (entry\<lparr>le_Timestamp := e_Timestamp e\<rparr>) }"

definition ListLogs :: "environ \<Rightarrow> reqctx \<Rightarrow> string \<Rightarrow> int \<Rightarrow> int \<Rightarrow> (LogEntry list result) io" where
  "ListLogs E ctx tenantID limit offset = AuditRepository_ListByTenant E ctx tenantID limit offset"

section \<open>The subscribers of the program\<close>

datatype subscriber = WebhookSubscriber | AuditSubscriber | KillSwitchSubscriber

definition main_bus :: "environ \<Rightarrow> subscriber bus io" where
  "main_bus E = do {
     b1 \<leftarrow> subscribe_all E webhook_event_types WebhookSubscriber NewInMemoryBus;
     b2 \<leftarrow> subscribe_all E audit_event_types AuditSubscriber b1;
     subscribe_all E [ev_UserSuspended] KillSwitchSubscriber b2 }"

text \<open>The kill switch acts on the struct of package \<^verbatim>\<open>event\<close>: the user whose streams are closed.\<close>

definition kill_switch_target :: "Event \<Rightarrow> string option" where
  "kill_switch_target e = (case e_Payload e of UserSuspendedPayload u _ \<Rightarrow> Some u | _ \<Rightarrow> None)"

definition run_subscriber :: "environ \<Rightarrow> reqctx \<Rightarrow> bool \<Rightarrow> Event \<Rightarrow> subscriber \<Rightarrow> (unit result) io" where
  "run_subscriber E ctx cancelled e s = (case s of
     WebhookSubscriber \<Rightarrow> WebhookService_handleEvent E ctx cancelled e
   | AuditSubscriber \<Rightarrow> AuditService_handleEvent E e
   | KillSwitchSubscriber \<Rightarrow> (case kill_switch_target e of
       None \<Rightarrow> ret (Inr ())
     | Some u \<Rightarrow> do { spawn (KillSwitch u []); ret (Inr ()) }))"

section \<open>What a bus promises\<close>

text \<open>
  Subscribing and unsubscribing as operations, and the contract of a bus: which handler an event type
  has under an id. A client that never reuses the id of another keeps its subscription.
\<close>

datatype 'h bus_op = Sub string string 'h | Unsub string string

locale event_bus =
  fixes start :: 'b
    and put :: "string \<Rightarrow> string \<Rightarrow> 'h \<Rightarrow> 'b \<Rightarrow> 'b"
    and remove :: "string \<Rightarrow> string \<Rightarrow> 'b \<Rightarrow> 'b"
    and subscribed :: "'b \<Rightarrow> string \<Rightarrow> string \<Rightarrow> 'h option"
  assumes start: "subscribed start et hid = None"
    and put: "subscribed (put et hid h b) et' hid' = (if et' = et \<and> hid' = hid then Some h else subscribed b et' hid')"
    and remove: "subscribed (remove et hid b) et' hid' = (if et' = et \<and> hid' = hid then None else subscribed b et' hid')"
begin

primrec apply_op :: "'h bus_op \<Rightarrow> 'b \<Rightarrow> 'b" where
  "apply_op (Sub et hid h) b = put et hid h b"
| "apply_op (Unsub et hid) b = remove et hid b"

primrec foreign :: "string \<Rightarrow> string \<Rightarrow> 'h bus_op \<Rightarrow> bool" where
  "foreign et hid (Sub et' hid' h) = (\<not> (et' = et \<and> hid' = hid))"
| "foreign et hid (Unsub et' hid') = (\<not> (et' = et \<and> hid' = hid))"

lemma subscription_stays:
  "list_all (foreign et hid) ops \<Longrightarrow> subscribed (fold apply_op ops b) et hid = subscribed b et hid"
proof (induction ops arbitrary: b)
  case (Cons a ops)
  then show ?case by (cases a) (auto simp: put remove)
qed simp

lemma subscription_until_removed:
  assumes "list_all (foreign et hid) ops"
  shows "subscribed (fold apply_op ops (put et hid h b)) et hid = Some h"
    "subscribed (fold apply_op ops (remove et hid b)) et hid = None"
  using subscription_stays[OF assms] by (simp_all add: put remove)

end

definition bus_lookup :: "'h bus \<Rightarrow> string \<Rightarrow> string \<Rightarrow> 'h option" where
  "bus_lookup b et hid = map_of (handlers_of b et) hid"

text \<open>Ids are distinct within a type.\<close>

definition bus_ok :: "'h bus \<Rightarrow> bool" where
  "bus_ok b \<longleftrightarrow> (\<forall>et. distinct (map fst (handlers_of b et)))"

lemma handlers_of_new [simp]: "handlers_of NewInMemoryBus et = []"
  by (simp add: NewInMemoryBus_def handlers_of_def)

lemma handlers_of_put: "handlers_of (bus_put et hid h b) et' = (if et' = et then AList.update hid h (handlers_of b et) else handlers_of b et')"
  by (simp add: bus_put_def handlers_of_def)

lemma handlers_of_remove: "handlers_of (bus_Unsubscribe et hid b) et' = (if et' = et then AList.delete hid (handlers_of b et) else handlers_of b et')"
  by (simp add: bus_Unsubscribe_def handlers_of_def Let_def split: option.split)

interpretation memory_bus: event_bus NewInMemoryBus bus_put bus_Unsubscribe bus_lookup
  by unfold_locales (simp_all add: bus_lookup_def handlers_of_put handlers_of_remove update_conv' delete_conv')

lemma bus_ok_ops: "bus_ok NewInMemoryBus" "bus_ok b \<Longrightarrow> bus_ok (bus_put et hid h b)" "bus_ok b \<Longrightarrow> bus_ok (bus_Unsubscribe et hid b)"
  by (auto simp: bus_ok_def handlers_of_put handlers_of_remove distinct_update distinct_delete)

lemma mset_values:
  assumes "distinct (map fst xs)"
  shows "mset (map snd xs) = image_mset (\<lambda>k. the (map_of xs k)) (mset_set (dom (map_of xs)))"
proof -
  have "mset_set (dom (map_of xs)) = mset (map fst xs)"
    using assms by (metis dom_map_of_conv_image_fst list.set_map mset_set_set)
  moreover have "the (map_of xs (fst x)) = snd x" if "x \<in> set xs" for x
    using assms that by (metis map_of_is_SomeI option.sel prod.collapse)
  then have "map (\<lambda>k. the (map_of xs k)) (map fst xs) = map snd xs" by simp
  ultimately show ?thesis by (metis mset_map)
qed

primrec spec_op :: "'h bus_op \<Rightarrow> (string \<times> string \<rightharpoonup> 'h) \<Rightarrow> (string \<times> string \<rightharpoonup> 'h)" where
  "spec_op (Sub et hid h) m = m((et, hid) \<mapsto> h)"
| "spec_op (Unsub et hid) m = m((et, hid) := None)"

primrec bus_op_run :: "'h bus_op \<Rightarrow> 'h bus \<Rightarrow> 'h bus" where
  "bus_op_run (Sub et hid h) b = bus_put et hid h b"
| "bus_op_run (Unsub et hid) b = bus_Unsubscribe et hid b"

lemma bus_refines:
  assumes "bus_ok b" "\<And>et hid. bus_lookup b et hid = m (et, hid)"
  shows "bus_ok (fold bus_op_run ops b) \<and> (\<forall>et hid. bus_lookup (fold bus_op_run ops b) et hid = fold spec_op ops m (et, hid))"
  using assms
proof (induction ops arbitrary: b m)
  case (Cons a ops)
  have "bus_ok (bus_op_run a b)" using Cons.prems(1) by (cases a) (simp_all add: bus_ok_ops)
  moreover have "bus_lookup (bus_op_run a b) et hid = spec_op a m (et, hid)" for et hid
    using Cons.prems(2) by (cases a) (simp_all add: memory_bus.put memory_bus.remove)
  ultimately show ?case using Cons.IH by simp
qed simp

text \<open>
  C12: The bus delivers exactly to its subscribers: after any sequence of subscriptions and removals,
  publishing an event starts one goroutine for each id under which a handler is then registered for its
  type, and no other: the nested maps of the bus refine a map from type and id to handler.
\<close>

theorem bus_publish_exact:
  "mset (bus_Publish (fold bus_op_run ops NewInMemoryBus) evt) =
     image_mset (\<lambda>hid. the (fold spec_op ops Map.empty (e_Type evt, hid)))
       (mset_set {hid. fold spec_op ops Map.empty (e_Type evt, hid) \<noteq> None})"
proof -
  let ?b = "fold bus_op_run ops NewInMemoryBus"
  have r: "bus_ok ?b" "\<And>et hid. bus_lookup ?b et hid = fold spec_op ops Map.empty (et, hid)"
    using bus_refines[OF bus_ok_ops(1), of Map.empty] memory_bus.start by auto
  then have "distinct (map fst (handlers_of ?b (e_Type evt)))" by (simp add: bus_ok_def)
  from mset_values[OF this] show ?thesis
    using r(2) by (simp add: bus_Publish_def bus_lookup_def dom_def)
qed

section \<open>The subscribers of the program\<close>

text \<open>Ids that are new to the bus add a handler to exactly the types listed.\<close>

lemma update_new: "k \<notin> fst ` set xs \<Longrightarrow> AList.update k v xs = xs @ [(k, v)]"
  by (induction xs) auto

lemma update_fst: "fst ` set (AList.update k v xs) = insert k (fst ` set xs)"
  using dom_update[of k v xs] by (simp add: dom_map_of_conv_image_fst)

lemma set_handlers_put:
  "hid \<notin> fst ` set (handlers_of b et) \<Longrightarrow>
   snd ` set (handlers_of (bus_put et hid h b) et') = (if et' = et then {h} else {}) \<union> snd ` set (handlers_of b et')"
  by (simp add: handlers_of_put update_new)

definition ids_below :: "environ \<Rightarrow> nat \<Rightarrow> 'h bus \<Rightarrow> bool" where
  "ids_below E n b \<longleftrightarrow> (\<forall>et. fst ` set (handlers_of b et) \<subseteq> new_uuid E ` {..<n})"

lemma ids_below_put: "ids_below E n b \<Longrightarrow> ids_below E (Suc n) (bus_put et (new_uuid E n) h b)"
  unfolding ids_below_def handlers_of_put by (auto simp: update_fst lessThan_Suc)

lemma subscribe_all_handlers:
  assumes "inj (new_uuid E)" "ids_below E (ticks w) b" "run_state (subscribe_all E ets h b) w = (b', w')"
  shows "ids_below E (ticks w') b' \<and>
    (\<forall>et. snd ` set (handlers_of b' et) = (if et \<in> set ets then {h} else {}) \<union> snd ` set (handlers_of b et))"
  using assms(2,3)
proof (induction ets arbitrary: b w)
  case (Cons et ets)
  let ?b = "bus_put et (new_uuid E (ticks w)) h b"
  have "new_uuid E (ticks w) \<notin> fst ` set (handlers_of b et)"
    using Cons.prems(1) assms(1) by (auto simp: ids_below_def inj_def)
  then have put: "snd ` set (handlers_of ?b et') = (if et' = et then {h} else {}) \<union> snd ` set (handlers_of b et')" for et'
    by (rule set_handlers_put)
  have run: "run_state (subscribe_all E ets h ?b) (tick w) = (b', w')"
    using Cons.prems(2) by (simp add: bus_Subscribe_def io_run)
  have "ids_below E (ticks (tick w)) ?b" using ids_below_put[OF Cons.prems(1)] by simp
  from Cons.IH[OF this run] show ?case by (auto simp: put)
qed simp

text \<open>
  Which events reach which subscriber: on the bus that the program builds, when the UUID generator never
  repeats, an event starts the webhook service exactly for its four types, the audit service exactly for
  its nine, and the kill switch exactly for \<^verbatim>\<open>UserSuspended\<close>.
\<close>

theorem main_bus_routes:
  assumes "inj (new_uuid E)" "run_state (main_bus E) w = (b, w')"
  shows "set (bus_Publish b evt) =
    (if e_Type evt \<in> set webhook_event_types then {WebhookSubscriber} else {})
    \<union> (if e_Type evt \<in> set audit_event_types then {AuditSubscriber} else {})
    \<union> (if e_Type evt = ev_UserSuspended then {KillSwitchSubscriber} else {})"
proof -
  obtain b1 w1 where r1: "run_state (subscribe_all E webhook_event_types WebhookSubscriber NewInMemoryBus) w = (b1, w1)" by fastforce
  obtain b2 w2 where r2: "run_state (subscribe_all E audit_event_types AuditSubscriber b1) w1 = (b2, w2)" by fastforce
  have r3: "run_state (subscribe_all E [ev_UserSuspended] KillSwitchSubscriber b2) w2 = (b, w')"
    using assms(2) r1 r2 by (simp add: main_bus_def)
  have s0: "ids_below E (ticks w) (NewInMemoryBus :: subscriber bus)" by (simp add: ids_below_def)
  note s1 = subscribe_all_handlers[OF assms(1) s0 r1]
  note s2 = subscribe_all_handlers[OF assms(1) conjunct1[OF s1] r2]
  note s3 = subscribe_all_handlers[OF assms(1) conjunct1[OF s2] r3]
  show ?thesis
    using conjunct2[OF s1] conjunct2[OF s2] conjunct2[OF s3] by (auto simp: bus_Publish_def)
qed

theorem main_bus_routes_witness:
  "set (bus_Publish (fst (run_state (main_bus (demo_env\<lparr>new_uuid := (\<lambda>n. replicate n CHR ''x'')\<rparr>)) empty_world))
     \<lparr>e_ID = [], e_Type = ev_CompanyActivated, e_AggregateType = [], e_AggregateID = [], e_Source = [], e_Timestamp = 0,
      e_Payload = CompanyActivatedPayload [] [], e_TenantID = []\<rparr>) = {AuditSubscriber}"
proof -
  have "inj (new_uuid (demo_env\<lparr>new_uuid := (\<lambda>n. replicate n CHR ''x'')\<rparr>))"
    by (rule injI) (simp add: replicate_eq_replicate)
  from main_bus_routes[OF this run_result[OF refl]] show ?thesis
    by (simp add: webhook_event_types_def audit_event_types_def)
qed

section \<open>Webhooks reach the tenant's receivers\<close>

lemma run_spawn_dispatches:
  "run_state (spawn_dispatches xs e) w = ((), w\<lparr>spawned := spawned w @ map (\<lambda>x. DispatchWebhook x e) xs\<rparr>)"
  by (induction xs arbitrary: w) (simp_all add: io_run)

text \<open>What a receiver checks: the signature is the HMAC of the timestamp and the body under its secret.\<close>

definition signature_ok :: "string \<Rightarrow> webhook_request \<Rightarrow> bool" where
  "signature_ok secret rq = (case (map_of (wr_headers rq) ''X-Vyst-Timestamp'', map_of (wr_headers rq) ''X-Vyst-Signature'') of
     (Some t, Some s) \<Rightarrow> s = computeHMAC (t @ ''.'' @ wr_body rq) secret
   | _ \<Rightarrow> False)"

lemma dispatch_signed:
  assumes "run_state (dispatch E C x e) w = (Some req, w')"
  shows "wr_URL req = wh_URL x \<and> signature_ok (wh_Secret x) req \<and> wr_body req = hc_Marshal C (event_json e)"
  using assms by (auto simp: dispatch_def Let_def io_run signature_ok_def split: if_splits)


definition demo_hook :: Webhook where
  "demo_hook = \<lparr>wh_ID = ''h1'', wh_TenantID = ''t1'', wh_URL = ''https://t1/hook'', wh_Secret = ''s'',
     wh_Events = [ev_CompanyCreated], wh_Status = ''active'', wh_CreatedAt = 0, wh_UpdatedAt = 0\<rparr>"

definition demo_event :: Event where
  "demo_event = company_event ''e1'' ev_CompanyCreated ''c1'' 7 ''t1'' (CompanyCreatedPayload ''c1'' ''0'' ''Acme'' ''t1'' ''u1'')"


text \<open>
  The services publish with the context of the HTTP request, which is cancelled when the response is
  finished: an event handled after that starts no delivery at all.
\<close>

theorem cancelled_request_drops_webhooks:
  "run_state (WebhookService_handleEvent E ctx True e) w =
     (Inl (wrap ''failed to list webhooks by event: '' (Driver ''context canceled'')), w)"
  by (simp add: WebhookService_handleEvent_def WebhookRepository_ListByEvent_def run_tryE)

section \<open>The audit log\<close>

lemma actor_of_system: "actor_of p = ''system''"
  by (cases p) (simp_all add: actor_of_def payload_map_def omitempty_def)

lemma sorted_desc: "sorted_wrt (\<lambda>x y. f y \<le> f x) (sort_key (\<lambda>x. - f x :: int) xs)"
  using sorted_sort_key[of "\<lambda>x. - f x" xs] by (simp add: sorted_wrt_map)

text \<open>
  The audit log records what happened: an event that the audit service handles adds exactly one entry,
  with the event's tenant, type, aggregate, payload and time, and while PostgreSQL answers the list of
  that tenant contains it, newest first, with entries of no other tenant.
\<close>

theorem audit_records_event:
  assumes "run_state (AuditService_handleEvent E e) w = (Inr (), w')" "\<And>n. pg_fault E n = None"
    and "int (length (audit_logs (pg w'))) \<le> limit"
  shows "\<exists>x rows. pg w' = (pg w)\<lparr>audit_logs := audit_logs (pg w) @ [x]\<rparr> \<and> le_TenantID x = e_TenantID e
    \<and> le_Action x = e_Type e \<and> le_Entity x = e_AggregateType e \<and> le_EntityID x = e_AggregateID e
    \<and> le_Metadata x = payload_map (e_Payload e) \<and> le_Timestamp x = e_Timestamp e
    \<and> fst (run_state (ListLogs E ctx (e_TenantID e) limit 0) w') = Inr rows \<and> x \<in> set rows
    \<and> le_TenantID ` set rows = {e_TenantID e} \<and> sorted_wrt (\<lambda>y z. le_Timestamp z \<le> le_Timestamp y) rows"
proof -
  let ?x = "\<lparr>le_ID = new_uuid E (ticks w), le_TenantID = e_TenantID e, le_ActorID = actor_of (e_Payload e), le_Action = e_Type e,
    le_Entity = e_AggregateType e, le_EntityID = e_AggregateID e, le_Metadata = payload_map (e_Payload e), le_Timestamp = e_Timestamp e\<rparr>"
  have db: "pg w' = (pg w)\<lparr>audit_logs := audit_logs (pg w) @ [?x]\<rparr>"
    using assms(1) by (auto simp: AuditService_handleEvent_def NewLogEntry_def AuditRepository_Create_def io_run insert_log_def
        split: sum.splits if_splits)
  let ?rows = "sort_key (\<lambda>x. - le_Timestamp x) (filter (\<lambda>x. le_TenantID x = e_TenantID e) (audit_logs (pg w')))"
  have len: "length ?rows \<le> nat limit" using assms(3) length_filter_le[of "\<lambda>x. le_TenantID x = e_TenantID e" "audit_logs (pg w')"]
    unfolding length_sort by linarith
  have "fst (run_state (ListLogs E ctx (e_TenantID e) limit 0) w') = Inr ?rows"
    using assms(2,3) len by (simp add: ListLogs_def AuditRepository_ListByTenant_def io_run pg_gate_def)
  moreover have "le_TenantID ` set ?rows = {e_TenantID e}" using db by auto
  ultimately show ?thesis using db sorted_desc[of le_Timestamp]
    by (intro exI[of _ ?x] exI[of _ ?rows]) simp
qed

theorem audit_records_event_witness:
  "\<exists>x rows. fst (run_state (ListLogs owner_env background ''t1'' 10 0) (snd (run_state (AuditService_handleEvent owner_env demo_event) empty_world)))
     = Inr rows \<and> x \<in> set rows \<and> le_Action x = ev_CompanyCreated"
proof -
  obtain w' where r: "run_state (AuditService_handleEvent owner_env demo_event) empty_world = (Inr (), w')" "length (audit_logs (pg w')) = 1"
    by (simp add: AuditService_handleEvent_def NewLogEntry_def AuditRepository_Create_def io_run insert_log_def pg_gate_def
        owner_env_def demo_env_def empty_world_def empty_tables_def)
  have "pg_fault owner_env n = None" for n by (simp add: owner_env_def demo_env_def)
  from audit_records_event[OF r(1) this, of 10 background] r show ?thesis
    by (auto simp: demo_event_def company_event_def)
qed

text \<open>
  The actor is never recorded: no payload that the services publish has an \<^verbatim>\<open>actor_id\<close>, so every entry of
  the audit log names the actor \<^verbatim>\<open>system\<close>, although the payloads say who created, invited or removed.
\<close>

theorem audit_actor_is_system:
  "run_state (AuditService_handleEvent E e) w = run_state (do {
     entry \<leftarrow> NewLogEntry E (e_TenantID e) ''system'' (e_Type e) (e_AggregateType e) (e_AggregateID e) (payload_map (e_Payload e));
     AuditRepository_Create E background (entry\<lparr>le_Timestamp := e_Timestamp e\<rparr>) }) w"
  by (simp add: AuditService_handleEvent_def actor_of_system)

end
