(* ===== verification/Grpc.thy ===== *)
theory Grpc
  imports Auth_Service
begin

text \<open>
  The gRPC server (\<^verbatim>\<open>interfaces/grpc/server.go\<close>). Its requests are programs over the world; the table of
  session streams is a state of its own. The streams of a user are a Go slice: \<^verbatim>\<open>triggerKillSwitch\<close> walks a copy of the
  slice header without holding the lock, while a stream that ends shifts the elements of the same
  array. So the arrays are kept in a heap and a slice is an address with a length.
\<close>

section \<open>Unary requests\<close>

datatype grpc_code = InvalidArgument | Unauthenticated | Internal

type_synonym 'a rpc = "((grpc_code \<times> string) + 'a) io"

record ValidateTokenResponse =
  vt_Valid :: bool
  vt_UserId :: string
  vt_TenantId :: string
  vt_Roles :: "string list"

definition invalid_token :: ValidateTokenResponse where
  "invalid_token = \<lparr>vt_Valid = False, vt_UserId = [], vt_TenantId = [], vt_Roles = []\<rparr>"

definition grpc_ValidateToken :: "environ \<Rightarrow> string \<Rightarrow> ValidateTokenResponse rpc" where
  "grpc_ValidateToken E token =
     (if token = [] then ret (Inr invalid_token)
      else do {
        r \<leftarrow> token_ValidateToken E token;
        ret (Inr (case r of
          Inl _ \<Rightarrow> invalid_token
        | Inr claims \<Rightarrow> \<lparr>vt_Valid = True, vt_UserId = cl_UserID claims, vt_TenantId = cl_TenantID claims, vt_Roles = cl_Roles claims\<rparr>)) })"

text \<open>The text of an error is that of \<^verbatim>\<open>Errorf\<close> with its verb \<^verbatim>\<open>%v\<close>, given by \<open>show\<close>.\<close>

definition GetUserRoles :: "environ \<Rightarrow> (go_error \<Rightarrow> string) \<Rightarrow> reqctx \<Rightarrow> string \<Rightarrow> string list rpc" where
  "GetUserRoles E show_err ctx userID =
     (if userID = [] then ret (Inl (InvalidArgument, ''user_id is required''))
      else do {
        r \<leftarrow> CachedPolicyRepository_GetRolesForUser E ctx userID;
        ret (case r of Inl e \<Rightarrow> Inl (Internal, ''failed to get roles: '' @ show_err e) | Inr roles \<Rightarrow> Inr roles) })"

record rpc_Permission =
  pp_Resource :: string
  pp_Action :: string
  pp_ResourceId :: string

definition GetUserPermissions :: "environ \<Rightarrow> (go_error \<Rightarrow> string) \<Rightarrow> reqctx \<Rightarrow> string \<Rightarrow> rpc_Permission list rpc" where
  "GetUserPermissions E show_err ctx userID =
     (if userID = [] then ret (Inl (InvalidArgument, ''user_id is required''))
      else do {
        r \<leftarrow> CachedPolicyRepository_GetRolesForUser E ctx userID;
        ret (case r of
          Inl e \<Rightarrow> Inl (Internal, ''failed to get roles: '' @ show_err e)
        | Inr roles \<Rightarrow> Inr (map (\<lambda>role. \<lparr>pp_Resource = ''*'', pp_Action = role, pp_ResourceId = ''*''\<rparr>) roles)) })"

record CompanyAccess =
  ca_Valid :: bool
  ca_UserId :: string
  ca_Role :: string

definition no_access :: CompanyAccess where
  "no_access = \<lparr>ca_Valid = False, ca_UserId = [], ca_Role = []\<rparr>"

definition ValidateCompanyAccess :: "environ \<Rightarrow> (go_error \<Rightarrow> string) \<Rightarrow> reqctx \<Rightarrow> string \<Rightarrow> string \<Rightarrow> CompanyAccess rpc" where
  "ValidateCompanyAccess E show_err ctx token companyID =
     (if token = [] \<or> companyID = [] then ret (Inr no_access)
      else do {
        r \<leftarrow> token_ValidateToken E token;
        case r of
          Inl _ \<Rightarrow> ret (Inr no_access)
        | Inr claims \<Rightarrow> do {
            q \<leftarrow> Cached_GetUserRole E ctx companyID (cl_UserID claims);
            ret (case q of
              Inl e \<Rightarrow> if errors_Is e ErrUserNotMember then Inr no_access
                else Inl (Internal, ''failed to check company access: '' @ show_err e)
            | Inr role \<Rightarrow> Inr \<lparr>ca_Valid = True, ca_UserId = cl_UserID claims, ca_Role = role\<rparr>) } })"

definition GetCompanyRoles :: "environ \<Rightarrow> (go_error \<Rightarrow> string) \<Rightarrow> reqctx \<Rightarrow> string \<Rightarrow> (string \<times> string) list rpc" where
  "GetCompanyRoles E show_err ctx userID =
     (if userID = [] then ret (Inl (InvalidArgument, ''user_id is required''))
      else do {
        r \<leftarrow> Cached_GetCompaniesForUser E ctx userID;
        ret (case r of
          Inl e \<Rightarrow> Inl (Internal, ''failed to get user companies: '' @ show_err e)
        | Inr cs \<Rightarrow> Inr (map (\<lambda>c. (cu_CompanyID c, cu_Role c)) cs)) })"

definition safeInt32 :: "int \<Rightarrow> int" where
  "safeInt32 value = (if 2 ^ 31 - 1 < value then 2 ^ 31 - 1 else if value < - (2 ^ 31) then - (2 ^ 31) else value)"

section \<open>The table of streams\<close>

record slice =
  sl_addr :: nat
  sl_len :: nat

record streams =
  st_arrays :: "nat \<Rightarrow> nat list"          \<comment> \<open>the array at an address; its length is its capacity\<close>
  st_next :: nat                          \<comment> \<open>the next free address\<close>
  st_slices :: "string \<rightharpoonup> slice"          \<comment> \<open>\<^verbatim>\<open>s.streams\<close>\<close>
  st_chan :: nat                          \<comment> \<open>the next new channel\<close>
  st_closed :: "nat list"

definition elems :: "streams \<Rightarrow> slice \<Rightarrow> nat list" where
  "elems s sl = take (sl_len sl) (st_arrays s (sl_addr sl))"

definition no_streams :: streams where
  "no_streams = \<lparr>st_arrays = (\<lambda>_. []), st_next = 0, st_slices = Map.empty, st_chan = 0, st_closed = []\<rparr>"

text \<open>
  \<^verbatim>\<open>append\<close> of one element: in place when the capacity allows, else into a new array whose capacity the
  runtime chooses; \<open>grow\<close> gives it for the needed length.
\<close>

definition append_chan :: "(nat \<Rightarrow> nat) \<Rightarrow> slice option \<Rightarrow> nat \<Rightarrow> streams \<Rightarrow> slice \<times> streams" where
  "append_chan grow osl c s =
     (let sl = (case osl of None \<Rightarrow> \<lparr>sl_addr = st_next s, sl_len = 0\<rparr> | Some sl \<Rightarrow> sl);
          arr = (case osl of None \<Rightarrow> [] | Some sl \<Rightarrow> st_arrays s (sl_addr sl)) in
      if sl_len sl < length arr
      then (sl\<lparr>sl_len := Suc (sl_len sl)\<rparr>, s\<lparr>st_arrays := (st_arrays s)(sl_addr sl := arr[sl_len sl := c])\<rparr>)
      else (let new = take (sl_len sl) arr @ [c] @ replicate (grow (Suc (sl_len sl)) - Suc (sl_len sl)) 0 in
        (\<lparr>sl_addr = st_next s, sl_len = Suc (sl_len sl)\<rparr>,
         s\<lparr>st_arrays := (st_arrays s)(st_next s := new), st_next := Suc (st_next s)\<rparr>)))"

text \<open>The registration of a stream, under the lock: a new channel is appended to the user's slice.\<close>

definition register_stream :: "(nat \<Rightarrow> nat) \<Rightarrow> string \<Rightarrow> streams \<Rightarrow> nat \<times> streams" where
  "register_stream grow userID s =
     (let c = st_chan s; (sl, s') = append_chan grow (st_slices s userID) c (s\<lparr>st_chan := Suc c\<rparr>)
      in (c, s'\<lparr>st_slices := (st_slices s')(userID \<mapsto> sl)\<rparr>))"

text \<open>
  The deferred function of a stream, under the lock: \<^verbatim>\<open>append(channels[:i], channels[i+1:]...)\<close> moves the later
  elements of the array one place down; an empty slice is deleted.
\<close>

fun index_of :: "nat \<Rightarrow> nat list \<Rightarrow> nat option" where
  "index_of c [] = None"
| "index_of c (x # xs) = (if x = c then Some 0 else map_option Suc (index_of c xs))"

definition shift_down :: "nat \<Rightarrow> nat \<Rightarrow> nat list \<Rightarrow> nat list" where
  "shift_down i len arr = take i arr @ drop (Suc i) (take len arr) @ drop (len - 1) arr"

definition unregister_stream :: "string \<Rightarrow> nat \<Rightarrow> streams \<Rightarrow> streams" where
  "unregister_stream userID c s = (case st_slices s userID of
     None \<Rightarrow> s
   | Some sl \<Rightarrow>
       (let s' = (case index_of c (elems s sl) of
            None \<Rightarrow> s
          | Some i \<Rightarrow> s\<lparr>st_arrays := (st_arrays s)(sl_addr sl := shift_down i (sl_len sl) (st_arrays s (sl_addr sl))),
              st_slices := (st_slices s)(userID \<mapsto> sl\<lparr>sl_len := sl_len sl - 1\<rparr>)\<rparr>)
        in if map_option sl_len (st_slices s' userID) = Some 0 then s'\<lparr>st_slices := (st_slices s')(userID := None)\<rparr> else s'))"

section \<open>The kill switch\<close>

text \<open>Without interference: the loop over the copied slice header closes what is not closed.\<close>

fun close_all :: "nat list \<Rightarrow> nat list \<Rightarrow> nat \<Rightarrow> nat list \<times> nat" where
  "close_all [] closed count = (closed, count)"
| "close_all (c # cs) closed count =
     (if c \<in> set closed then close_all cs closed count else close_all cs (c # closed) (Suc count))"

definition triggerKillSwitch :: "string \<Rightarrow> streams \<Rightarrow> nat \<times> streams" where
  "triggerKillSwitch userID s = (case st_slices s userID of
     None \<Rightarrow> (0, s)
   | Some sl \<Rightarrow> (let (closed, count) = close_all (elems s sl) (st_closed s) 0 in (count, s\<lparr>st_closed := closed\<rparr>)))"

definition RevokeUserSessions :: "string \<Rightarrow> streams \<Rightarrow> ((grpc_code \<times> string) + (int \<times> bool)) \<times> streams" where
  "RevokeUserSessions userID s =
     (if userID = [] then (Inl (InvalidArgument, ''user_id is required''), s)
      else (let (count, s') = triggerKillSwitch userID s in (Inr (safeInt32 (int count), True), s')))"

definition TriggerKillSwitch :: "string \<Rightarrow> streams \<Rightarrow> streams" where
  "TriggerKillSwitch userID s = snd (triggerKillSwitch userID s)"

text \<open>
  The same loop as the scheduler runs it: a killer has copied a slice header; for each index it reads the
  array, and closes the channel unless it finds it closed, in a step of its own. Closing a closed channel panics.
\<close>

record killer =
  kl_slice :: slice
  kl_i :: nat
  kl_pending :: "nat option"
  kl_count :: nat

record server =
  sv_streams :: streams
  sv_killers :: "killer list"
  sv_panic :: bool

datatype action = Connect string | Disconnect string nat | StartKill string | ReadChan nat | CloseChan nat

definition next_index :: "killer \<Rightarrow> killer" where
  "next_index k = k\<lparr>kl_i := Suc (kl_i k), kl_pending := None\<rparr>"

definition kill_done :: "killer \<Rightarrow> bool" where
  "kill_done k \<longleftrightarrow> kl_pending k = None \<and> sl_len (kl_slice k) \<le> kl_i k"

fun act :: "(nat \<Rightarrow> nat) \<Rightarrow> action \<Rightarrow> server \<Rightarrow> server option" where
  "act grow (Connect u) v = Some (v\<lparr>sv_streams := snd (register_stream grow u (sv_streams v))\<rparr>)"
| "act grow (Disconnect u c) v = Some (v\<lparr>sv_streams := unregister_stream u c (sv_streams v)\<rparr>)"
| "act grow (StartKill u) v = (case st_slices (sv_streams v) u of
     None \<Rightarrow> Some v
   | Some sl \<Rightarrow> Some (v\<lparr>sv_killers := sv_killers v @ [\<lparr>kl_slice = sl, kl_i = 0, kl_pending = None, kl_count = 0\<rparr>]\<rparr>))"
| "act grow (ReadChan j) v =
     (if j < length (sv_killers v) \<and> kl_pending (sv_killers v ! j) = None
        \<and> kl_i (sv_killers v ! j) < sl_len (kl_slice (sv_killers v ! j))
      then (let k = sv_killers v ! j; c = st_arrays (sv_streams v) (sl_addr (kl_slice k)) ! kl_i k in
        Some (v\<lparr>sv_killers := (sv_killers v)[j := (if c \<in> set (st_closed (sv_streams v)) then next_index k
          else k\<lparr>kl_pending := Some c\<rparr>)]\<rparr>))
      else None)"
| "act grow (CloseChan j) v =
     (if j < length (sv_killers v) then (let k = sv_killers v ! j in case kl_pending k of
          None \<Rightarrow> None
        | Some c \<Rightarrow>
            if c \<in> set (st_closed (sv_streams v)) then Some (v\<lparr>sv_panic := True\<rparr>)
            else Some (v\<lparr>sv_streams := (sv_streams v)\<lparr>st_closed := c # st_closed (sv_streams v)\<rparr>,
              sv_killers := (sv_killers v)[j := (next_index k)\<lparr>kl_count := Suc (kl_count k)\<rparr>]\<rparr>))
      else None)"

fun run_actions :: "(nat \<Rightarrow> nat) \<Rightarrow> action list \<Rightarrow> server \<Rightarrow> server option" where
  "run_actions grow [] v = Some v"
| "run_actions grow (a # as) v = Option.bind (act grow a v) (run_actions grow as)"

definition initial_server :: server where
  "initial_server = \<lparr>sv_streams = no_streams, sv_killers = [], sv_panic = False\<rparr>"

section \<open>A session stream\<close>

datatype stream_event = CtxDone | Killed | Heartbeat

record SessionResponse =
  sr_Active :: bool
  sr_Reason :: string

text \<open>
  The loop of \<^verbatim>\<open>StreamValidateSession\<close>: which case of the \<^verbatim>\<open>select\<close> fires next is given as a list; \<open>sends\<close> says
  whether each send succeeds. The result is what was sent.
\<close>

fun stream_loop :: "stream_event list \<Rightarrow> bool list \<Rightarrow> SessionResponse list" where
  "stream_loop (CtxDone # es) sends = []"
| "stream_loop (Killed # es) (True # sends) = [\<lparr>sr_Active = False, sr_Reason = ''Session terminated by security policy''\<rparr>]"
| "stream_loop (Heartbeat # es) (True # sends) = \<lparr>sr_Active = True, sr_Reason = []\<rparr> # stream_loop es sends"
| "stream_loop _ _ = []"

text \<open>The part before the loop: the first message names a token, which gives the user.\<close>

definition StreamValidateSession :: "environ \<Rightarrow> (go_error \<Rightarrow> string) \<Rightarrow> string \<Rightarrow> string rpc" where
  "StreamValidateSession E show_err sessionID =
     (if sessionID = [] then ret (Inl (InvalidArgument, ''session_id (token) is required''))
      else do {
        r \<leftarrow> token_ValidateToken E sessionID;
        ret (case r of Inl e \<Rightarrow> Inl (Unauthenticated, ''invalid token: '' @ show_err e) | Inr claims \<Rightarrow> Inr (cl_UserID claims)) })"

definition stream_messages :: "stream_event list \<Rightarrow> bool list \<Rightarrow> SessionResponse list" where
  "stream_messages es sends = (case sends of
     True # ss \<Rightarrow> \<lparr>sr_Active = True, sr_Reason = []\<rparr> # stream_loop es ss
   | _ \<Rightarrow> [])"

section \<open>Slices implement lists\<close>

definition streams_of :: "streams \<Rightarrow> string \<Rightarrow> nat list" where
  "streams_of s u = (case st_slices s u of None \<Rightarrow> [] | Some sl \<Rightarrow> elems s sl)"

text \<open>Slices stay within their arrays, and two users never share an array.\<close>

definition slices_ok :: "streams \<Rightarrow> bool" where
  "slices_ok s \<longleftrightarrow> (\<forall>u sl. st_slices s u = Some sl \<longrightarrow> 0 < sl_len sl \<and> sl_len sl \<le> length (st_arrays s (sl_addr sl))
       \<and> sl_addr sl < st_next s)
     \<and> (\<forall>u u' sl sl'. st_slices s u = Some sl \<longrightarrow> st_slices s u' = Some sl' \<longrightarrow> u \<noteq> u' \<longrightarrow> sl_addr sl \<noteq> sl_addr sl')"

lemma slices_okD:
  assumes "slices_ok s" "st_slices s u = Some sl"
  shows "0 < sl_len sl" "sl_len sl \<le> length (st_arrays s (sl_addr sl))" "sl_addr sl < st_next s"
    "length (elems s sl) = sl_len sl" "\<And>u' sl'. st_slices s u' = Some sl' \<Longrightarrow> u \<noteq> u' \<Longrightarrow> sl_addr sl \<noteq> sl_addr sl'"
proof -
  show b: "0 < sl_len sl" "sl_len sl \<le> length (st_arrays s (sl_addr sl))" "sl_addr sl < st_next s"
    using assms unfolding slices_ok_def by blast+
  show "length (elems s sl) = sl_len sl" using b(2) by (simp add: elems_def)
qed (use assms in \<open>unfold slices_ok_def, blast\<close>)

text \<open>Writing one user's array and slice leaves the lists of the others alone.\<close>

lemma streams_of_frame:
  assumes "\<And>u' sl. u' \<noteq> u \<Longrightarrow> st_slices s u' = Some sl \<Longrightarrow> sl_addr sl \<noteq> a" "elems (s\<lparr>st_arrays := (st_arrays s)(a := arr)\<rparr>) sl = xs" "sl_addr sl = a"
  shows "streams_of (s\<lparr>st_arrays := (st_arrays s)(a := arr), st_slices := (st_slices s)(u \<mapsto> sl)\<rparr>) = (streams_of s)(u := xs)"
proof
  fix u'
  show "streams_of (s\<lparr>st_arrays := (st_arrays s)(a := arr), st_slices := (st_slices s)(u \<mapsto> sl)\<rparr>) u' = ((streams_of s)(u := xs)) u'"
    using assms by (cases "st_slices s u'") (auto simp: streams_of_def elems_def)
qed

lemma take_shift_down: "i < len \<Longrightarrow> len \<le> length arr \<Longrightarrow> take (len - 1) (shift_down i len arr) = take i (take len arr) @ drop (Suc i) (take len arr)"
  by (cases "i = len - 1") (auto simp: shift_down_def min_def)

lemma index_of_Some: "index_of c xs = Some i \<Longrightarrow> i < length xs \<and> c \<in> set xs \<and> take i xs @ drop (Suc i) xs = remove1 c xs"
proof (induction xs arbitrary: i)
  case (Cons x xs)
  then show ?case by (cases i) (auto split: if_splits)
qed simp

lemma index_of_None: "index_of c xs = None \<Longrightarrow> remove1 c xs = xs"
  by (induction xs) (auto split: if_splits)

lemma register_refines:
  assumes "slices_ok s" "register_stream grow u s = (c, s')"
  shows "slices_ok s' \<and> streams_of s' = (streams_of s)(u := streams_of s u @ [c])
    \<and> st_closed s' = st_closed s \<and> st_chan s' = Suc (st_chan s) \<and> c = st_chan s"
proof -
  let ?s = "s\<lparr>st_chan := Suc (st_chan s)\<rparr>"
  have same: "streams_of ?s = streams_of s" by (simp add: streams_of_def elems_def fun_eq_iff split: option.split)
  consider (place) sl where "st_slices s u = Some sl" "sl_len sl < length (st_arrays s (sl_addr sl))"
    | (fresh) xs where "streams_of s u = xs" "s' = s\<lparr>st_arrays := (st_arrays s)(st_next s := xs @ [c] @ replicate (grow (Suc (length xs)) - Suc (length xs)) 0),
        st_next := Suc (st_next s), st_slices := (st_slices s)(u \<mapsto> \<lparr>sl_addr = st_next s, sl_len = Suc (length xs)\<rparr>), st_chan := Suc c\<rparr>" "c = st_chan s"
  proof (cases "st_slices s u")
    case None
    then show ?thesis using assms(2) by (intro that(2)[of "[]"]) (auto simp: register_stream_def append_chan_def Let_def streams_of_def)
  next
    case (Some sl)
    show ?thesis
    proof (cases "sl_len sl < length (st_arrays s (sl_addr sl))")
      case True
      then show ?thesis using Some by (intro that(1))
    next
      case False
      then show ?thesis using assms(2) Some slices_okD(4)[OF assms(1) Some]
        by (intro that(2)[of "elems s sl"]) (auto simp: register_stream_def append_chan_def Let_def streams_of_def elems_def)
    qed
  qed
  then show ?thesis
  proof cases
    case place
    let ?arr = "(st_arrays s (sl_addr sl))[sl_len sl := st_chan s]"
    have eq: "c = st_chan s" "s' = ?s\<lparr>st_arrays := (st_arrays ?s)(sl_addr sl := ?arr),
        st_slices := (st_slices ?s)(u \<mapsto> sl\<lparr>sl_len := Suc (sl_len sl)\<rparr>)\<rparr>"
      using assms(2) place by (auto simp: register_stream_def append_chan_def Let_def)
    have "elems (?s\<lparr>st_arrays := (st_arrays ?s)(sl_addr sl := ?arr)\<rparr>) (sl\<lparr>sl_len := Suc (sl_len sl)\<rparr>) = elems s sl @ [st_chan s]"
      using place(2) by (simp add: elems_def take_Suc_conv_app_nth)
    moreover have "sl_addr sl' \<noteq> sl_addr sl" if "u' \<noteq> u" "st_slices ?s u' = Some sl'" for u' sl'
      using slices_okD(5)[OF assms(1) place(1), of u' sl'] that by auto
    ultimately have "streams_of s' = (streams_of ?s)(u := elems s sl @ [st_chan s])"
      unfolding eq(2) by (intro streams_of_frame) auto
    moreover have "slices_ok s'" using assms(1) place unfolding eq(2) slices_ok_def by auto
    ultimately show ?thesis using place(1) eq same by (simp add: streams_of_def)
  next
    case fresh
    have "streams_of s' u' = ((streams_of s)(u := xs @ [c])) u'" for u'
      using slices_okD(3)[OF assms(1), of u'] unfolding fresh(2) by (auto simp: streams_of_def elems_def split: option.split)
    moreover have lt: "sl_addr sl' \<noteq> st_next s \<and> sl_addr sl' < Suc (st_next s)" if "st_slices s u' = Some sl'" for u' sl'
      using slices_okD(3)[OF assms(1) that] by simp
    have "slices_ok s'" using assms(1) unfolding fresh(2) slices_ok_def by (auto dest: lt)
    ultimately show ?thesis using fresh by (simp add: fun_eq_iff)
  qed
qed

lemma unregister_refines:
  assumes "slices_ok s"
  shows "slices_ok (unregister_stream u c s) \<and> streams_of (unregister_stream u c s) = (streams_of s)(u := remove1 c (streams_of s u))
    \<and> st_closed (unregister_stream u c s) = st_closed s \<and> st_chan (unregister_stream u c s) = st_chan s"
proof (cases "st_slices s u")
  case None
  then show ?thesis using assms by (simp add: unregister_stream_def streams_of_def fun_upd_idem)
next
  case (Some sl)
  note ok = slices_okD[OF assms Some]
  show ?thesis
  proof (cases "index_of c (elems s sl)")
    case None
    then show ?thesis using assms Some ok(1) index_of_None[OF None]
      by (simp add: unregister_stream_def Let_def streams_of_def fun_upd_idem)
  next
    case i: (Some i)
    let ?arr = "shift_down i (sl_len sl) (st_arrays s (sl_addr sl))" and ?sl = "sl\<lparr>sl_len := sl_len sl - 1\<rparr>"
    let ?s = "s\<lparr>st_arrays := (st_arrays s)(sl_addr sl := ?arr), st_slices := (st_slices s)(u \<mapsto> ?sl)\<rparr>"
    have lt: "i < sl_len sl" and rem: "take i (elems s sl) @ drop (Suc i) (elems s sl) = remove1 c (elems s sl)"
      using index_of_Some[OF i] ok(4) by simp_all
    have "elems (s\<lparr>st_arrays := (st_arrays s)(sl_addr sl := ?arr)\<rparr>) ?sl = remove1 c (elems s sl)"
      using take_shift_down[OF lt ok(2)] rem by (simp add: elems_def)
    moreover have other: "sl_addr sl' \<noteq> sl_addr sl" if "u' \<noteq> u" "st_slices s u' = Some sl'" for u' sl'
      using ok(5)[OF that(2)] that(1) by metis
    ultimately have S: "streams_of ?s = (streams_of s)(u := remove1 c (elems s sl))"
      by (intro streams_of_frame) auto
    have len: "length (remove1 c (elems s sl)) = sl_len sl - 1" using index_of_Some[OF i] ok(4) by (simp add: length_remove1)
    have arr: "length ?arr = length (st_arrays s (sl_addr sl))" using lt ok(2) by (simp add: shift_down_def min_def)
    show ?thesis
    proof (cases "sl_len sl = 1")
      case True
      then have nil: "remove1 c (elems s sl) = []" using len by simp
      have eq: "unregister_stream u c s = ?s\<lparr>st_slices := (st_slices ?s)(u := None)\<rparr>"
        using Some i True by (simp add: unregister_stream_def Let_def)
      have "streams_of (?s\<lparr>st_slices := (st_slices ?s)(u := None)\<rparr>) = (streams_of ?s)(u := [])"
        by (auto simp: streams_of_def elems_def fun_eq_iff split: option.split)
      moreover have "slices_ok (?s\<lparr>st_slices := (st_slices ?s)(u := None)\<rparr>)"
        using assms arr unfolding slices_ok_def by (auto dest: other)
      ultimately show ?thesis using S nil eq Some by (simp add: streams_of_def)
    next
      case False
      then have eq: "unregister_stream u c s = ?s" using Some i ok(1) by (simp add: unregister_stream_def Let_def)
      have "slices_ok ?s" using assms ok(1-4) arr False unfolding slices_ok_def by (auto dest: other)
      then show ?thesis using S eq Some by (simp add: streams_of_def)
    qed
  qed
qed

text \<open>
  C11: The table of streams refines a list per user: a stream that connects appends its channel, which is new,
  a stream that ends removes its channel, and nothing changes for another user, although the lists live in
  shared arrays that are overwritten in place.
\<close>

theorem stream_table_refines_lists:
  assumes "slices_ok s"
  shows "slices_ok (snd (register_stream grow u s)) \<and> slices_ok (unregister_stream u c s)
    \<and> streams_of (snd (register_stream grow u s)) = (streams_of s)(u := streams_of s u @ [st_chan s])
    \<and> streams_of (unregister_stream u c s) = (streams_of s)(u := remove1 c (streams_of s u))"
  using register_refines[OF assms, of grow u "fst (register_stream grow u s)" "snd (register_stream grow u s)"]
    unregister_refines[OF assms, of u c] by simp

theorem stream_table_refines_lists_witness:
  "streams_of (unregister_stream ''u'' 0 (snd (register_stream (\<lambda>n. n) ''u'' (snd (register_stream (\<lambda>n. n) ''u'' no_streams))))) ''u'' = [1]"
proof -
  let ?s0 = no_streams and ?s1 = "snd (register_stream (\<lambda>n. n) ''u'' no_streams)"
  have o0: "slices_ok ?s0" by (simp add: slices_ok_def no_streams_def)
  note t0 = stream_table_refines_lists[OF o0, of "\<lambda>n. n" "''u''"]
  have o1: "slices_ok ?s1" using t0 by blast
  note t1 = stream_table_refines_lists[OF o1, of "\<lambda>n. n" "''u''"]
  then have o2: "slices_ok (snd (register_stream (\<lambda>n. n) ''u'' ?s1))" by blast
  note t2 = stream_table_refines_lists[OF o2, of "\<lambda>n. n" "''u''" 0]
  have "st_chan ?s0 = 0" "st_chan ?s1 = 1" by code_simp+
  then show ?thesis using t0 t1 t2 by (simp add: streams_of_def no_streams_def)
qed

section \<open>What the kill switch does\<close>

lemma close_all_props:
  assumes "close_all cs closed n = (closed', n')"
  shows "set closed' = set closed \<union> set cs \<and> n' = n + card (set cs - set closed)"
  using assms
proof (induction cs arbitrary: closed n)
  case (Cons c cs)
  show ?case
  proof (cases "c \<in> set closed")
    case True
    then have "set (c # cs) - set closed = set cs - set closed" by auto
    then show ?thesis using True Cons by auto
  next
    case False
    then have "set (c # cs) - set closed = insert c (set cs - insert c (set closed))" by auto
    moreover have "card (insert c (set cs - insert c (set closed))) = Suc (card (set cs - insert c (set closed)))" by (simp add: card_insert_if)
    ultimately show ?thesis using False Cons.IH[of "c # closed" "Suc n"] Cons.prems by auto
  qed
qed simp

text \<open>
  Undisturbed, the kill switch closes every stream of the user and of nobody else, counts the
  streams it closed, and the response reports their number within 32 bits.
\<close>

theorem kill_switch_exact:
  assumes "RevokeUserSessions u s = (Inr (n, ok), s')"
  shows "set (st_closed s') = set (st_closed s) \<union> set (streams_of s u) \<and> streams_of s' = streams_of s \<and> ok
    \<and> n = min (2 ^ 31 - 1) (int (card (set (streams_of s u) - set (st_closed s))))"
proof -
  have u: "u \<noteq> []" using assms by (auto simp: RevokeUserSessions_def)
  obtain k s1 where t: "triggerKillSwitch u s = (k, s1)" by fastforce
  have eq: "s' = s1" "n = safeInt32 (int k)" "ok" using assms u t by (auto simp: RevokeUserSessions_def)
  have "set (st_closed s1) = set (st_closed s) \<union> set (streams_of s u) \<and> k = card (set (streams_of s u) - set (st_closed s)) \<and> streams_of s1 = streams_of s"
  proof (cases "st_slices s u")
    case None
    then show ?thesis using t by (simp add: triggerKillSwitch_def streams_of_def)
  next
    case (Some sl)
    obtain cl m where c: "close_all (elems s sl) (st_closed s) 0 = (cl, m)" by fastforce
    have "k = m" "s1 = s\<lparr>st_closed := cl\<rparr>" using t Some c by (simp_all add: triggerKillSwitch_def)
    then show ?thesis using close_all_props[OF c] Some by (auto simp: streams_of_def elems_def fun_eq_iff split: option.split)
  qed
  then show ?thesis using eq by (simp add: safeInt32_def)
qed

theorem kill_switch_exact_witness:
  "set (st_closed (snd (RevokeUserSessions ''u'' (snd (register_stream (\<lambda>n. n) ''u'' (snd (register_stream (\<lambda>n. n) ''v'' no_streams))))))) = {1}"
proof -
  let ?s = "snd (register_stream (\<lambda>n. n) ''u'' (snd (register_stream (\<lambda>n. n) ''v'' no_streams)))"
  have "fst (RevokeUserSessions ''u'' ?s) = Inr (1, True)" by code_simp
  then have "RevokeUserSessions ''u'' ?s = (Inr (1, True), snd (RevokeUserSessions ''u'' ?s))" by (metis prod.collapse)
  note conjunct1[OF kill_switch_exact[OF this]]
  moreover have "streams_of ?s ''u'' = [1]" "st_closed ?s = []" by code_simp+
  ultimately show ?thesis by simp
qed

section \<open>The kill switch under interference\<close>

text \<open>Capacities as the Go runtime grows a small slice.\<close>

definition go_grow :: "nat \<Rightarrow> nat" where
  "go_grow n = (if n \<le> 1 then 1 else if n \<le> 2 then 2 else if n \<le> 4 then 4 else 2 * n)"

text \<open>
  The kill switch can miss a session: with three streams of a user, when the first stream is closed
  and ends before the loop goes on, the removal shifts the array under the loop, which skips the second
  stream and finishes with that stream connected and open.
\<close>

theorem kill_switch_misses_stream:
  "case run_actions go_grow [Connect ''u'', Connect ''u'', Connect ''u'', StartKill ''u'', ReadChan 0, CloseChan 0, Disconnect ''u'' 0,
       ReadChan 0, CloseChan 0, ReadChan 0] initial_server of
     None \<Rightarrow> False
   | Some v \<Rightarrow> list_all kill_done (sv_killers v) \<and> \<not> sv_panic v
       \<and> 1 \<in> set (streams_of (sv_streams v) ''u'') \<and> 1 \<notin> set (st_closed (sv_streams v))"
  by code_simp

text \<open>Two kill switches at once can close the same channel twice, which panics.\<close>

theorem kill_switch_double_close:
  "map_option sv_panic (run_actions go_grow [Connect ''u'', StartKill ''u'', StartKill ''u'', ReadChan 0, ReadChan 1, CloseChan 0, CloseChan 1]
     initial_server) = Some True"
  by code_simp

text \<open>A killer holds a channel to close only if it is open, as long as nobody else closes.\<close>

definition lone_killer :: "server \<Rightarrow> bool" where
  "lone_killer v \<longleftrightarrow> \<not> sv_panic v \<and> length (sv_killers v) \<le> 1
     \<and> (\<forall>k \<in> set (sv_killers v). \<forall>c. kl_pending k = Some c \<longrightarrow> c \<notin> set (st_closed (sv_streams v)))"

lemma closed_frame [simp]:
  "st_closed (snd (register_stream grow u s)) = st_closed s" "st_closed (unregister_stream u c s) = st_closed s"
  by (simp_all add: register_stream_def append_chan_def unregister_stream_def Let_def split: option.splits)

lemma act_lone_killer:
  assumes "act grow a v = Some v'" "lone_killer v" "\<And>u. a = StartKill u \<Longrightarrow> sv_killers v = []"
  shows "lone_killer v'"
proof (cases a)
  case (StartKill u)
  then show ?thesis using assms by (auto simp: lone_killer_def split: option.splits)
next
  case (ReadChan j)
  then have j: "j < length (sv_killers v)" using assms(1) by (auto split: if_splits)
  then obtain k where k: "sv_killers v = [k]" "j = 0" using assms(2) by (cases "sv_killers v") (auto simp: lone_killer_def)
  then show ?thesis using assms(1,2) ReadChan by (auto simp: lone_killer_def Let_def next_index_def split: if_splits)
next
  case (CloseChan j)
  then have j: "j < length (sv_killers v)" using assms(1) by (auto split: if_splits)
  then obtain k where k: "sv_killers v = [k]" "j = 0" using assms(2) by (cases "sv_killers v") (auto simp: lone_killer_def)
  then show ?thesis using assms(1,2) CloseChan by (auto simp: lone_killer_def Let_def next_index_def split: if_splits option.splits)
qed (use assms in \<open>auto simp: lone_killer_def\<close>)

fun kills :: "action list \<Rightarrow> nat" where
  "kills [] = 0"
| "kills (StartKill u # as) = Suc (kills as)"
| "kills (a # as) = kills as"

lemma act_killers: "act grow a v = Some v' \<Longrightarrow> length (sv_killers v') \<le> length (sv_killers v) + (case a of StartKill u \<Rightarrow> 1 | _ \<Rightarrow> 0)"
  by (cases a) (auto simp: Let_def split: if_splits option.splits)

lemma run_lone_killer:
  "run_actions grow as v = Some v' \<Longrightarrow> lone_killer v \<Longrightarrow> length (sv_killers v) + kills as \<le> 1 \<Longrightarrow> lone_killer v'"
proof (induction as arbitrary: v)
  case (Cons a as)
  from Cons.prems(1) obtain v1 where v1: "act grow a v = Some v1" "run_actions grow as v1 = Some v'"
    by (auto simp: bind_eq_Some_conv)
  have "sv_killers v = []" if "a = StartKill u" for u using Cons.prems(3) that by simp
  with act_lone_killer[OF v1(1) Cons.prems(2)] have "lone_killer v1" by blast
  moreover have "length (sv_killers v1) + kills as \<le> 1" using act_killers[OF v1(1)] Cons.prems(3) by (cases a) auto
  ultimately show ?case using Cons.IH[OF v1(2)] by blast
qed simp

text \<open>
  C22: One kill switch at a time is safe: whatever streams connect and disconnect and however the steps
  interleave, a run with at most one use of the kill switch never closes a channel twice.
\<close>

theorem single_kill_never_panics:
  assumes "run_actions grow as initial_server = Some v" "kills as \<le> 1"
  shows "\<not> sv_panic v"
  using run_lone_killer[OF assms(1)] assms(2) by (simp add: lone_killer_def initial_server_def)

theorem single_kill_never_panics_witness:
  "\<exists>v. run_actions go_grow [Connect ''u'', StartKill ''u'', ReadChan 0, CloseChan 0, Disconnect ''u'' 0] initial_server = Some v \<and> \<not> sv_panic v"
proof -
  let ?as = "[Connect ''u'', StartKill ''u'', ReadChan 0, CloseChan 0, Disconnect ''u'' 0]"
  have "run_actions go_grow ?as initial_server \<noteq> None" by code_simp
  then obtain v where "run_actions go_grow ?as initial_server = Some v" by blast
  with single_kill_never_panics[OF this] show ?thesis by simp
qed

section \<open>Requests\<close>

lemma stream_ends_on_kill:
  "stream_messages (replicate n Heartbeat @ Killed # es) (replicate (n + 2) True @ ss) =
     replicate (n + 1) \<lparr>sr_Active = True, sr_Reason = []\<rparr> @ [\<lparr>sr_Active = False, sr_Reason = ''Session terminated by security policy''\<rparr>]"
proof -
  have "stream_loop (replicate n Heartbeat @ Killed # es) (replicate (Suc n) True @ ss) =
     replicate n \<lparr>sr_Active = True, sr_Reason = []\<rparr> @ [\<lparr>sr_Active = False, sr_Reason = ''Session terminated by security policy''\<rparr>]"
    by (induction n) simp_all
  then show ?thesis by (simp add: stream_messages_def)
qed

text \<open>
  C23: Company access over gRPC: an answer that is valid names the user of a token that the JWT library
  accepted and the role that this user holds, as an active member, in the company; while the role cache is
  coherent, a cached role is as good as a stored one. No table changes.
\<close>

theorem ValidateCompanyAccess_sound:
  assumes "role_cache_coherent w" "no_colon companyID"
    and "run_state (ValidateCompanyAccess E show_err ctx token companyID) w = (Inr a, w')" "ca_Valid a"
  shows "\<exists>claims. jwt_parse E (clock E (ticks w)) token = Inr claims \<and> ca_UserId a = cl_UserID claims
    \<and> active_role companyID (cl_UserID claims) (pg w) = Some (ca_Role a) \<and> pg w' = pg w"
proof -
  obtain claims where c: "jwt_parse E (clock E (ticks w)) token = Inr claims"
    using assms(3,4) by (cases "jwt_parse E (clock E (ticks w)) token")
      (auto simp: ValidateCompanyAccess_def no_access_def token_ValidateToken_def run_time_Now split: if_splits)
  obtain q w1 where q: "run_state (Cached_GetUserRole E ctx companyID (cl_UserID claims)) (tick w) = (q, w1)" by fastforce
  have a: "\<exists>role. q = Inr role \<and> a = \<lparr>ca_Valid = True, ca_UserId = cl_UserID claims, ca_Role = role\<rparr> \<and> w' = w1"
    using assms(3,4) c q
    by (auto simp: ValidateCompanyAccess_def no_access_def token_ValidateToken_def run_time_Now split: if_splits sum.splits)
  then obtain role where "q = Inr role" "a = \<lparr>ca_Valid = True, ca_UserId = cl_UserID claims, ca_Role = role\<rparr>" "w' = w1" by blast
  moreover have "role_cache_coherent (tick w)" using assms(1) by (simp add: role_cache_coherent_def)
  ultimately show ?thesis
    using c cached_roles.lookup_role[OF _ assms(2), of "tick w" E ctx "cl_UserID claims" role w1] q
      keepsD[OF cached_roles.lookup_frame q] by simp
qed

definition token_env :: environ where
  "token_env = demo_env\<lparr>jwt_parse := (\<lambda>t s. Inr \<lparr>cl_UserID = s, cl_TenantID = ''t1'', cl_Roles = [], cl_ActiveCompanyID = [],
     cl_CompanyRole = [], cl_IdentityType = [], cl_ExpiresAt = t + 1, cl_IssuedAt = t, cl_NotBefore = t, cl_Issuer = ''vyst'', cl_ID = []\<rparr>)\<rparr>"

theorem ValidateCompanyAccess_sound_witness:
  "active_role ''c1'' ''u1'' (pg member_world) = Some (case fst (run_state (ValidateCompanyAccess token_env (\<lambda>_. []) background ''u1'' ''c1'') member_world)
     of Inr a \<Rightarrow> ca_Role a | Inl _ \<Rightarrow> [])"
proof -
  let ?m = "run_state (ValidateCompanyAccess token_env (\<lambda>_. []) background ''u1'' ''c1'') member_world"
  have r: "fst ?m = Inr \<lparr>ca_Valid = True, ca_UserId = ''u1'', ca_Role = RoleAdmin\<rparr>" by code_simp
  have "no_colon ''c1''" by (simp add: no_colon_def)
  from ValidateCompanyAccess_sound[OF member_world_coherent this run_result[OF r]] show ?thesis
    unfolding r by (auto simp: token_env_def)
qed

end
