(* ===== verification/Graphql.thy ===== *)
theory Graphql
  imports Server Events
begin

text \<open>
  The resolvers behind \<^verbatim>\<open>/query\<close> (\<^verbatim>\<open>graphql/resolvers/schema.resolvers.go\<close>, \<^verbatim>\<open>resolver.go\<close>, \<^verbatim>\<open>graphql/model\<close>). The execution
  of a query, which gqlgen generates, is not modelled: a resolver is the function that it calls. A panic
  is an error value here; a Go \<^verbatim>\<open>int\<close> argument is a 64-bit word. The values under the context keys are strings,
  so the branch for a user id of another type has no counterpart.
\<close>

unbundle bit_operations_syntax

section \<open>Models\<close>

record model_Address =
  ma_Logradouro :: string
  ma_Numero :: string
  ma_Complemento :: "string option"
  ma_Bairro :: string
  ma_Cidade :: string
  ma_Uf :: string
  ma_Cep :: string

record model_Company =
  mc_ID :: string
  mc_TenantID :: string
  mc_Cnpj :: string
  mc_RazaoSocial :: string
  mc_NomeFantasia :: string
  mc_Status :: string
  mc_Address :: model_Address
  mc_CreatedAt :: string
  mc_UpdatedAt :: string

record CompanyConnection =
  cc_Items :: "model_Company list"
  cc_Count :: nat

record model_CompanyInfoCache =
  mi_Cnpj :: string
  mi_RazaoSocial :: string
  mi_NomeFantasia :: "string option"
  mi_Situacao :: string
  mi_NaturezaJuridica :: "string option"
  mi_DataAbertura :: "string option"
  mi_Endereco :: model_Address
  mi_Telefones :: "string list"
  mi_Emails :: "string list"
  mi_CnaePrincipal :: "string option"
  mi_LastFetchedAt :: string

record model_CompanyUser =
  mu_CompanyID :: string
  mu_UserID :: string
  mu_Role :: string
  mu_Status :: string
  mu_JoinedAt :: string

text \<open>
  The dependencies: the lookup service, if any, whether there is a role repository, and how \<^verbatim>\<open>time.Format\<close>
  prints a time as \<^verbatim>\<open>RFC3339\<close> and as \<^verbatim>\<open>DateOnly\<close>.
\<close>

record Resolver =
  rv_CompanyLookupService :: "CompanyLookupService option"
  rv_PolicyRepo :: bool
  rv_RFC3339 :: "time \<Rightarrow> string"
  rv_DateOnly :: "time \<Rightarrow> string"

text \<open>The resolver that \<^verbatim>\<open>NewRouter\<close> builds has no lookup service.\<close>

definition router_Resolver :: "(time \<Rightarrow> string) \<Rightarrow> (time \<Rightarrow> string) \<Rightarrow> Resolver" where
  "router_Resolver rfc3339 dateOnly = \<lparr>rv_CompanyLookupService = None, rv_PolicyRepo = True,
     rv_RFC3339 = rfc3339, rv_DateOnly = dateOnly\<rparr>"

definition to_model_Address :: "Address \<Rightarrow> model_Address" where
  "to_model_Address a = \<lparr>ma_Logradouro = Logradouro a, ma_Numero = Numero a, ma_Complemento = Some (Complemento a),
     ma_Bairro = Bairro a, ma_Cidade = Cidade a, ma_Uf = UF a, ma_Cep = CEP a\<rparr>"

definition to_model_Company :: "Resolver \<Rightarrow> Company \<Rightarrow> model_Company" where
  "to_model_Company R c = \<lparr>mc_ID = c_ID c, mc_TenantID = c_TenantID c, mc_Cnpj = c_CNPJ c, mc_RazaoSocial = c_RazaoSocial c,
     mc_NomeFantasia = c_NomeFantasia c, mc_Status = c_Status c, mc_Address = to_model_Address (c_Endereco c),
     mc_CreatedAt = rv_RFC3339 R (c_CreatedAt c), mc_UpdatedAt = rv_RFC3339 R (c_UpdatedAt c)\<rparr>"

section \<open>Mutations\<close>

definition not_implemented :: "string \<Rightarrow> 'a result" where
  "not_implemented name = Inl (RuntimePanic (''not implemented: '' @ name))"

definition UpdateUserRoles :: "reqctx \<Rightarrow> string \<Rightarrow> string list \<Rightarrow> (User result) io" where
  "UpdateUserRoles ctx userID roles = ret (not_implemented ''UpdateUserRoles'')"

definition DeactivateUser :: "reqctx \<Rightarrow> string \<Rightarrow> string option \<Rightarrow> (User result) io" where
  "DeactivateUser ctx userID reason = ret (not_implemented ''DeactivateUser'')"

definition ReactivateUser :: "reqctx \<Rightarrow> string \<Rightarrow> (User result) io" where
  "ReactivateUser ctx userID = ret (not_implemented ''ReactivateUser'')"

text \<open>
  \<^verbatim>\<open>strings.ToLower\<close> on UTF-8, as far as it gives ASCII: the capitals A to Z, the Kelvin sign and the capital I with
  a dot have an ASCII lower case; every other character keeps its bytes here.
\<close>

fun ToLower :: "string \<Rightarrow> string" where
  "ToLower [] = []"
| "ToLower (a # b # c # cs) =
     (if a = CHR 0xE2 \<and> b = CHR 0x84 \<and> c = CHR 0xAA then CHR ''k'' # ToLower cs
      else if a = CHR 0xC4 \<and> b = CHR 0xB0 then CHR ''i'' # ToLower (c # cs)
      else ascii_lower a # ToLower (b # c # cs))"
| "ToLower [a, b] = (if a = CHR 0xC4 \<and> b = CHR 0xB0 then ''i'' else ascii_lower a # ToLower [b])"
| "ToLower [a] = [ascii_lower a]"

definition set_status :: "CompanyStatus \<Rightarrow> time \<Rightarrow> Company \<Rightarrow> Company" where
  "set_status st now c =
     (if st = StatusActive then Company_Activate now c
      else if st = StatusSuspended then Company_Suspend now c
      else if st = StatusPending then c\<lparr>c_Status := StatusPending, c_UpdatedAt := now\<rparr>
      else c)"

definition UpdateCompanyStatus :: "environ \<Rightarrow> Resolver \<Rightarrow> reqctx \<Rightarrow> string \<Rightarrow> string \<Rightarrow> (model_Company result) io" where
  "UpdateCompanyStatus E R ctx cid status =
     tryE (CompanyRepository_GetByID E ctx cid)
       (\<lambda>e. if e = Sentinel company_ErrNotFound then ErrorString ''company not found''
            else wrap ''failed to get company: '' e) (\<lambda>cm.
     let st = ToLower status in
     if \<not> CompanyStatus_IsValid st then ret (Inl (ErrorString (''invalid status: '' @ status)))
     else do {
       now \<leftarrow> time_Now E;
       let cm' = set_status st now cm;
       tryE (CompanyRepository_Update E ctx cm') (wrap ''failed to update company: '') (\<lambda>_.
         ret (Inr (to_model_Company R cm'))) })"

section \<open>Queries\<close>

definition query_Me :: "environ \<Rightarrow> reqctx \<Rightarrow> (User result) io" where
  "query_Me E ctx = (case UserIDFromContext ctx of
     None \<Rightarrow> ret (Inl (ErrorString ''unauthorized''))
   | Some userID \<Rightarrow> GetUser E ctx userID)"

text \<open>The connections of users and tenants, the permissions, the roles and the CNPJ verifications are stubs.\<close>

definition query_Users :: "reqctx \<Rightarrow> ((User list \<times> nat) result) io" where
  "query_Users ctx = ret (Inr ([], 0))"

definition query_Tenants :: "reqctx \<Rightarrow> ((Tenant list \<times> nat) result) io" where
  "query_Tenants ctx = ret (Inr ([], 0))"

definition query_Permissions :: "reqctx \<Rightarrow> (string list result) io" where
  "query_Permissions ctx = ret (Inr [])"

definition query_Roles :: "Resolver \<Rightarrow> reqctx \<Rightarrow> (PolicyRole list result) io" where
  "query_Roles R ctx = (if \<not> rv_PolicyRepo R then ret (Inr []) else ret (Inr []))"

definition CnpjVerifications :: "reqctx \<Rightarrow> (string list result) io" where
  "CnpjVerifications ctx = ret (Inr [])"

text \<open>A page or limit that is absent or not positive is the default.\<close>

definition positive_or :: "64 word \<Rightarrow> 64 word option \<Rightarrow> 64 word" where
  "positive_or d x = (case x of Some v \<Rightarrow> if 0 < sint v then v else d | None \<Rightarrow> d)"

text \<open>\<^verbatim>\<open>items[start:end]\<close>, whose bounds are checked at run time.\<close>

definition go_slice :: "'a list \<Rightarrow> 64 word \<Rightarrow> 64 word \<Rightarrow> 'a list result" where
  "go_slice items start stop =
     (if sint start < 0 \<or> sint stop < sint start \<or> int (length items) < sint stop
      then Inl (RuntimePanic ''slice bounds out of range'')
      else Inr (take (nat (sint stop - sint start)) (drop (nat (sint start)) items)))"

definition paginate :: "64 word option \<Rightarrow> 64 word option \<Rightarrow> 'a list \<Rightarrow> 'a list result" where
  "paginate page limit items =
     (let count = word_of_nat (length items);
          p = positive_or 1 page;
          l = positive_or 10 limit;
          start = (p - 1) * l;
          stop = start + l;
          start' = (if sint count < sint start then count else start);
          stop' = (if sint count < sint stop then count else stop)
      in go_slice items start' stop')"

definition query_Companies ::
    "environ \<Rightarrow> Resolver \<Rightarrow> reqctx \<Rightarrow> 64 word option \<Rightarrow> 64 word option \<Rightarrow> (CompanyConnection result) io" where
  "query_Companies E R ctx page limit = (case UserIDFromContext ctx of
     None \<Rightarrow> ret (Inl (ErrorString ''unauthorized''))
   | Some userID \<Rightarrow>
       tryE (GetCompaniesForUser E ctx userID) (wrap ''failed to list companies: '') (\<lambda>companiesWithRole.
         let items = map (\<lambda>(c, _, _). to_model_Company R c) companiesWithRole in
         ret (case paginate page limit items of
           Inl e \<Rightarrow> Inl e
         | Inr pagedItems \<Rightarrow> Inr \<lparr>cc_Items = pagedItems, cc_Count = length items\<rparr>)))"

definition to_model_CompanyInfo :: "Resolver \<Rightarrow> CompanyInfo \<Rightarrow> model_CompanyInfoCache" where
  "to_model_CompanyInfo R res = \<lparr>mi_Cnpj = ci_CNPJ res, mi_RazaoSocial = ci_RazaoSocial res,
     mi_NomeFantasia = Some (ci_NomeFantasia res), mi_Situacao = ci_Situacao res,
     mi_NaturezaJuridica = Some (ci_NaturezaJuridica res),
     mi_DataAbertura = Some (if ci_DataAbertura res = zero_time then [] else rv_DateOnly R (ci_DataAbertura res)),
     mi_Endereco = to_model_Address (ci_Endereco res), mi_Telefones = ci_Telefones res, mi_Emails = ci_Emails res,
     mi_CnaePrincipal = Some (ci_CNAEPrincipal res), mi_LastFetchedAt = rv_RFC3339 R (ci_LastFetchedAt res)\<rparr>"

definition CompanyInfoCache ::
    "environ \<Rightarrow> Resolver \<Rightarrow> reqctx \<Rightarrow> string option \<Rightarrow> 64 word option \<Rightarrow> (model_CompanyInfoCache list result) io" where
  "CompanyInfoCache E R ctx filt limit = (case rv_CompanyLookupService R of
     None \<Rightarrow> ret (Inl (ErrorString ''company lookup service not configured''))
   | Some s \<Rightarrow> do {
       let searchLimit = positive_or 10 limit;
       let query = (case filt of None \<Rightarrow> [] | Some q \<Rightarrow> q);
       let tenantID = (case TenantIDFromContext ctx of None \<Rightarrow> [] | Some t \<Rightarrow> t);
       r \<leftarrow> Lookup E s ctx tenantID query (unat searchLimit);
       ret (case r of
         Inl e \<Rightarrow> if e = Sentinel ErrCompanyInfoNotFound then Inr [] else Inl (wrap ''failed to lookup company info: '' e)
       | Inr results \<Rightarrow> Inr (map (to_model_CompanyInfo R) results)) })"

section \<open>Subscriptions\<close>

definition sub_UserRegistered :: "reqctx \<Rightarrow> unit result" where
  "sub_UserRegistered ctx = not_implemented ''UserRegistered''"

definition sub_UserDeactivated :: "reqctx \<Rightarrow> unit result" where
  "sub_UserDeactivated ctx = not_implemented ''UserDeactivated''"

definition sub_UserRolesUpdated :: "reqctx \<Rightarrow> unit result" where
  "sub_UserRolesUpdated ctx = not_implemented ''UserRolesUpdated''"

text \<open>
  The channel holds one value; a send to a full channel is dropped. The handler is the closure over the
  company that \<^verbatim>\<open>CompanyUserAdded\<close> subscribes; it turns the contents of the channel into the next.
\<close>

type_synonym added_channel = "model_CompanyUser list"

definition added_handler :: "environ \<Rightarrow> Resolver \<Rightarrow> string \<Rightarrow> Event \<Rightarrow> added_channel \<Rightarrow> added_channel io" where
  "added_handler E R companyID e ch = (case e_Payload e of
     event_CompanyUserAddedPayload c u r \<Rightarrow>
       if c \<noteq> companyID then ret ch
       else do {
         now \<leftarrow> time_Now E;
         let modelUser = \<lparr>mu_CompanyID = c, mu_UserID = u, mu_Role = r, mu_Status = ''active'', mu_JoinedAt = rv_RFC3339 R now\<rparr>;
         ret (if length ch < 1 then ch @ [modelUser] else ch) }
   | _ \<Rightarrow> ret ch)"

type_synonym added_bus = "(Event \<Rightarrow> added_channel \<Rightarrow> added_channel io) bus"

text \<open>The empty channel, the id that the end of the context unsubscribes, and the bus.\<close>

definition CompanyUserAdded :: "environ \<Rightarrow> Resolver \<Rightarrow> string \<Rightarrow> added_bus \<Rightarrow> (added_channel \<times> string \<times> added_bus) io" where
  "CompanyUserAdded E R companyID b = do {
     (hid, b') \<leftarrow> bus_Subscribe E ev_CompanyUserAdded (added_handler E R companyID) b;
     ret ([], hid, b') }"

section \<open>Fields\<close>

definition tenant_Status :: "Tenant \<Rightarrow> string" where
  "tenant_Status obj = t_Status obj"

definition tenant_UserCount :: "Tenant \<Rightarrow> nat" where
  "tenant_UserCount obj = 0"

definition tenant_CreatedAt :: "Resolver \<Rightarrow> Tenant \<Rightarrow> string" where
  "tenant_CreatedAt R obj = rv_RFC3339 R (t_CreatedAt obj)"

definition tenant_UpdatedAt :: "Resolver \<Rightarrow> Tenant \<Rightarrow> string" where
  "tenant_UpdatedAt R obj = rv_RFC3339 R (t_UpdatedAt obj)"

definition user_Roles :: "User \<Rightarrow> string list" where
  "user_Roles obj = []"

definition user_CreatedAt :: "Resolver \<Rightarrow> User \<Rightarrow> string" where
  "user_CreatedAt R obj = rv_RFC3339 R (u_CreatedAt obj)"

definition user_UpdatedAt :: "Resolver \<Rightarrow> User \<Rightarrow> string" where
  "user_UpdatedAt R obj = rv_RFC3339 R (u_UpdatedAt obj)"

section \<open>Pages\<close>

lemma sint_small: "0 \<le> x \<Longrightarrow> x < 2 ^ 63 \<Longrightarrow> sint (word_of_int x :: 64 word) = x"
  by (simp only: sint_sbintrunc' len_bit0 len_num1) (simp add: signed_take_bit_int_eq_self)

lemma sint_nat: "n < 2 ^ 63 \<Longrightarrow> sint (word_of_nat n :: 64 word) = int n"
  using sint_small[of "int n"] by simp

lemma positive_or_given: "1 \<le> n \<Longrightarrow> n < 2 ^ 63 \<Longrightarrow> positive_or d (Some (word_of_nat n)) = word_of_nat n"
  by (simp add: positive_or_def sint_nat)

text \<open>Without overflow a page is the window of the list, clipped at its end, and never a panic.\<close>

lemma paginate_window:
  assumes "1 \<le> p" "1 \<le> l" "p * l < 2 ^ 63" "length items < 2 ^ 63"
  shows "paginate (Some (word_of_nat p)) (Some (word_of_nat l)) items = Inr (take l (drop ((p - 1) * l) items))"
proof -
  have "p * 1 \<le> p * l" "1 * l \<le> p * l" using assms(1,2) by (intro mult_le_mono; simp)+
  then have pl: "p < 2 ^ 63" "l < 2 ^ 63" using assms(3) by linarith+
  define s where "s = (p - 1) * l"
  have s: "s + l = p * l" using assms(1) by (cases p) (simp_all add: s_def)
  have start: "(word_of_nat p - 1) * word_of_nat l = (word_of_nat s :: 64 word)"
    using assms(1) by (simp add: s_def of_nat_diff)
  have stop: "(word_of_nat s + word_of_nat l :: 64 word) = word_of_nat (s + l)" by simp
  have bounds: "s < 2 ^ 63" "s + l < 2 ^ 63" using assms(3) s by auto
  show ?thesis
    unfolding paginate_def Let_def positive_or_given[OF assms(1) pl(1)] positive_or_given[OF assms(2) pl(2)] start stop
      s_def[symmetric]
    using sint_nat[OF bounds(1)] sint_nat[OF bounds(2)] sint_nat[OF assms(4)] bounds
    by (auto simp: go_slice_def nat_diff_distrib' simp del: of_nat_add)
qed

lemma pages_concat: "concat (map (\<lambda>p. take l (drop (p * l) xs)) [0..<n]) = take (n * l) xs"
proof (induction n)
  case (Suc n)
  then show ?case by (simp add: take_add[of "n * l" l] add.commute[of l])
qed simp

text \<open>
  Pagination of the companies: the pages of a positive size, asked for one after the other, are all answered, and together they
  are the whole list in its order, each company once, as soon as they reach its end; the last index must stay below the range
  of \<^verbatim>\<open>int\<close>.
\<close>

theorem pages_partition:
  assumes "1 \<le> l" "length items \<le> n * l" "n * l < 2 ^ 63"
  shows "\<exists>pages. map (\<lambda>p. paginate (Some (word_of_nat p)) (Some (word_of_nat l)) items) [1..<Suc n] = map Inr pages
    \<and> concat pages = items"
proof -
  let ?pages = "map (\<lambda>p. take l (drop ((p - 1) * l) items)) [1..<Suc n]"
  have page: "paginate (Some (word_of_nat p)) (Some (word_of_nat l)) items = Inr (take l (drop ((p - 1) * l) items))"
    if "p \<in> set [1..<Suc n]" for p
  proof -
    have "p * l \<le> n * l" using that by (intro mult_le_mono1) auto
    then have "p * l < 2 ^ 63" "1 \<le> p" "length items < 2 ^ 63" using assms(2,3) that by (linarith | simp)+
    from paginate_window[OF this(2) assms(1) this(1,3)] show ?thesis .
  qed
  have "concat ?pages = items"
    using pages_concat[of l items n] assms(2) by (simp add: map_Suc_upt[symmetric] comp_def del: upt_Suc)
  moreover have "map (\<lambda>p. paginate (Some (word_of_nat p)) (Some (word_of_nat l)) items) [1..<Suc n] = map Inr ?pages"
    unfolding map_map comp_def using page by (intro map_cong refl)
  ultimately show ?thesis by blast
qed

theorem pages_partition_witness:
  "\<exists>pages. map (\<lambda>p. paginate (Some (word_of_nat p)) (Some (word_of_nat 2)) [''a'', ''b'', ''c'']) [1..<Suc 2] = map Inr pages
    \<and> concat pages = [''a'', ''b'', ''c'']"
  by (rule pages_partition) simp_all

text \<open>A page number whose offset wraps around makes the slice expression panic, whatever the companies are.\<close>

lemma page_overflow_panics:
  "paginate (Some 4611686018427387905) (Some 2) items = Inl (RuntimePanic ''slice bounds out of range'')"
  if "length items < 2 ^ 63"
proof -
  have n: "positive_or 1 (Some 4611686018427387905) = 4611686018427387905" "positive_or 10 (Some 2) = 2"
    by (simp_all add: positive_or_def)
  have "sint ((4611686018427387905 - 1) * 2 :: 64 word) < 0" by simp
  moreover have "sint (word_of_nat (length items) :: 64 word) \<ge> 0" using sint_nat[OF that] by simp
  ultimately show ?thesis unfolding paginate_def n Let_def by (auto simp: go_slice_def)
qed

section \<open>Changing a status\<close>

text \<open>The entity that is stored differs from the one read in its status and its time only.\<close>

lemma set_status_fields:
  "CompanyStatus_IsValid st \<Longrightarrow> set_status st now c = c\<lparr>c_Status := st, c_UpdatedAt := now\<rparr>"
  by (auto simp: set_status_def CompanyStatus_IsValid_def Company_Activate_def Company_Suspend_def)

lemma set_company_columns_own: "set_company_columns t (c\<lparr>c_Status := st, c_UpdatedAt := now\<rparr>) c = c\<lparr>c_Status := st, c_UpdatedAt := t\<rparr>"
  by (simp add: set_company_columns_def)

text \<open>
  A mutation that answers with a company has changed that company's status to the lower case of the
  given one, which is valid, and nothing else: no other column but the time of the update, no other row and no other
  table.
\<close>

theorem UpdateCompanyStatus_exact:
  assumes "distinct (map c_ID (companies (pg w)))"
    and "run_state (UpdateCompanyStatus E R ctx cid status) w = (Inr m, w')"
  shows "\<exists>c t. c \<in> set (companies (pg w)) \<and> c_ID c = cid \<and> company_visible E ctx (pg w) c
    \<and> CompanyStatus_IsValid (ToLower status) \<and> mc_ID m = cid \<and> mc_Status m = ToLower status
    \<and> pg w' = (pg w)\<lparr>companies := map (\<lambda>x. if c_ID x = cid then x\<lparr>c_Status := ToLower status, c_UpdatedAt := t\<rparr> else x)
        (companies (pg w))\<rparr>"
proof -
  let ?st = "ToLower status"
  let ?find = "find (\<lambda>c. c_ID c = cid \<and> company_visible E ctx (pg w) c) (companies (pg w))"
  obtain c where c: "?find = Some c" and st: "CompanyStatus_IsValid ?st"
    using assms(2) by (auto simp: UpdateCompanyStatus_def CompanyRepository_GetByID_def scanCompany_def io_run Let_def
        split: sum.splits option.splits if_splits prod.splits)
  have cm: "c \<in> set (companies (pg w))" "c_ID c = cid" "company_visible E ctx (pg w) c"
    using c by (auto simp: find_Some_iff)
  have same: "x = c" if "x \<in> set (companies (pg w))" "c_ID x = cid" for x
    using assms(1) that cm(1,2) unfolding distinct_map by (metis inj_onD)
  let ?now = "clock E (Suc (ticks w))"
  let ?c' = "c\<lparr>c_Status := ?st, c_UpdatedAt := ?now\<rparr>"
  obtain t0 where gate: "pg_gate E ctx [cid] w = Inr t0"
    using assms(2) by (auto simp: UpdateCompanyStatus_def CompanyRepository_GetByID_def io_run split: sum.splits)
  have get: "run_state (CompanyRepository_GetByID E ctx cid) w = (Inr c, tick w)"
    by (simp add: CompanyRepository_GetByID_def io_run gate c scanCompany_def)
  have "run_state (tryE (CompanyRepository_Update E ctx ?c') (wrap ''failed to update company: '')
      (\<lambda>_. ret (Inr (to_model_Company R ?c')))) (tick (tick w)) = (Inr m, w')"
    using assms(2) unfolding UpdateCompanyStatus_def run_tryE[of "CompanyRepository_GetByID E ctx cid"] get
    by (simp only: prod.case sum.case Let_def st simp_thms if_False run_state_bind run_time_Now set_status_fields) simp
  then obtain t n where upd: "update_company E ctx ?c' t (pg w) = Inr (pg w', n)" and m: "m = to_model_Company R ?c'"
    by (auto simp: CompanyRepository_Update_def io_run not_found_if_zero_def split: sum.splits prod.splits if_splits)
  have "(if c_ID x = cid \<and> company_visible E ctx (pg w) x then set_company_columns t ?c' x else x)
      = (if c_ID x = cid then x\<lparr>c_Status := ?st, c_UpdatedAt := t\<rparr> else x)" if "x \<in> set (companies (pg w))" for x
  proof (cases "c_ID x = cid")
    case True
    then show ?thesis using same[OF that True] cm by (simp add: set_company_columns_own)
  qed simp
  then have "map (\<lambda>x. if c_ID x = cid \<and> company_visible E ctx (pg w) x then set_company_columns t ?c' x else x) (companies (pg w))
      = map (\<lambda>x. if c_ID x = cid then x\<lparr>c_Status := ?st, c_UpdatedAt := t\<rparr> else x) (companies (pg w))"
    by (intro map_cong refl)
  moreover have "pg w' = (pg w)\<lparr>companies := map (\<lambda>x. if c_ID x = cid \<and> company_visible E ctx (pg w) x
      then set_company_columns t ?c' x else x) (companies (pg w))\<rparr>"
    using upd st cm(2) by (simp add: update_company_def Let_def)
  ultimately have "pg w' = (pg w)\<lparr>companies := map (\<lambda>x. if c_ID x = cid then x\<lparr>c_Status := ?st, c_UpdatedAt := t\<rparr> else x) (companies (pg w))\<rparr>"
    by simp
  then show ?thesis using cm st m by (auto simp: to_model_Company_def)
qed

definition pending_company :: Company where
  "pending_company = \<lparr>c_ID = ''c1'', c_TenantID = ''t1'', c_CNPJ = ''11222333000181'', c_RazaoSocial = ''Acme'', c_NomeFantasia = [],
     c_Endereco = emptyAddress, c_RepresentanteLegal = [], c_Status = StatusPending, c_CreatedAt = 1, c_UpdatedAt = 1\<rparr>"

definition company_world :: world where
  "company_world = demo_world\<lparr>pg := (pg demo_world)\<lparr>companies := [pending_company]\<rparr>\<rparr>"

theorem UpdateCompanyStatus_exact_witness:
  "\<exists>t. pg (snd (run_state (UpdateCompanyStatus owner_env (router_Resolver (\<lambda>_. []) (\<lambda>_. [])) background ''c1'' ''ACTIVE'') company_world))
     = (pg company_world)\<lparr>companies := [pending_company\<lparr>c_Status := ''active'', c_UpdatedAt := t\<rparr>]\<rparr>"
proof -
  let ?m = "run_state (UpdateCompanyStatus owner_env (router_Resolver (\<lambda>_. []) (\<lambda>_. [])) background ''c1'' ''ACTIVE'') company_world"
  have "isl (fst ?m) = False" by code_simp
  then have "fst ?m = Inr (projr (fst ?m))" by (cases "fst ?m") simp_all
  then have run: "?m = (Inr (projr (fst ?m)), snd ?m)" by (metis prod.collapse)
  have st: "ToLower ''ACTIVE'' = ''active''" by code_simp
  have rows: "companies (pg company_world) = [pending_company]" "distinct (map c_ID (companies (pg company_world)))"
    by (simp_all add: company_world_def)
  from UpdateCompanyStatus_exact[OF rows(2) run] show ?thesis
    by (auto simp: st rows(1) pending_company_def simp del: ToLower.simps)
qed

text \<open>
  Neither the resolver nor the route asks who is calling: \<^verbatim>\<open>/query\<close> is registered outside every group with
  authentication, and for a database role that bypasses row-level security the mutation does the same in every context without a
  transaction.
\<close>

lemma company_rows_any_caller:
  assumes "rls_bypass E" "\<not> ctx_tx ctx" "\<not> ctx_tx ctx'"
  shows "CompanyRepository_GetByID E ctx = CompanyRepository_GetByID E ctx'"
    "CompanyRepository_Update E ctx = CompanyRepository_Update E ctx'"
proof -
  have g: "pg_gate E ctx = pg_gate E ctx'" "pg_abort ctx = pg_abort ctx'"
    using assms(2,3) by (intro ext; simp add: pg_gate_def pg_abort_def)+
  have v: "company_visible E ctx = company_visible E ctx'"
    using assms(1) by (intro ext) (simp add: company_visible_def company_policy_def)
  show "CompanyRepository_GetByID E ctx = CompanyRepository_GetByID E ctx'"
    "CompanyRepository_Update E ctx = CompanyRepository_Update E ctx'"
    unfolding fun_eq_iff CompanyRepository_GetByID_def CompanyRepository_Update_def update_company_def pg_query_def pg_exec_def g v
    by simp_all
qed

lemma UpdateCompanyStatus_any_caller:
  assumes "rls_bypass E" "\<not> ctx_tx ctx" "\<not> ctx_tx ctx'"
  shows "UpdateCompanyStatus E R ctx cid status = UpdateCompanyStatus E R ctx' cid status"
  unfolding UpdateCompanyStatus_def company_rows_any_caller[OF assms] by (rule refl)

lemma query_route_unauthenticated: "Handle ''/query'' (oh_graphql (sv_other d)) \<in> set (NewRouter E d)"
  by (simp add: NewRouter_def)

text \<open>Queries about the caller are refused there, since no middleware put a user into the context.\<close>

lemma query_without_user:
  "UserIDFromContext ctx = None \<Longrightarrow> query_Me E ctx = ret (Inl (ErrorString ''unauthorized''))"
  "UserIDFromContext ctx = None \<Longrightarrow> query_Companies E R ctx page limit = ret (Inl (ErrorString ''unauthorized''))"
  "CompanyInfoCache E (router_Resolver f g) ctx filt limit = ret (Inl (ErrorString ''company lookup service not configured''))"
  by (simp_all add: query_Me_def query_Companies_def CompanyInfoCache_def router_Resolver_def)

section \<open>Subscribing to new members\<close>

text \<open>
  The subscription stays silent: what the company service publishes for a new member carries the payload of package
  \<^verbatim>\<open>company\<close>, and the handler only takes the one of package \<^verbatim>\<open>event\<close>.
\<close>

lemma added_handler_ignores_service_events:
  "added_handler E R companyID (company_event eid ev_CompanyUserAdded companyID now tenant
     (CompanyUserAddedPayload companyID userID role invitedBy)) ch = ret ch"
  by (simp add: added_handler_def company_event_def)

text \<open>For its own payload a subscriber with an empty channel gets the member of its company, and a full channel drops it.\<close>

lemma added_handler_own_payload:
  assumes "e_Payload e = event_CompanyUserAddedPayload companyID u r"
  shows "run_state (added_handler E R companyID e []) w =
      ([\<lparr>mu_CompanyID = companyID, mu_UserID = u, mu_Role = r, mu_Status = ''active'', mu_JoinedAt = rv_RFC3339 R (clock E (ticks w))\<rparr>], tick w)"
    "run_state (added_handler E R companyID e [m]) w = ([m], tick w)"
  using assms by (simp_all add: added_handler_def io_run)

text \<open>Subscribing adds one handler for the event type under a new id, and the end of the context removes exactly that one.\<close>

lemma CompanyUserAdded_lifecycle:
  assumes "run_state (CompanyUserAdded E R companyID b) w = ((ch, hid, b'), w')" "bus_lookup b ev_CompanyUserAdded hid = None"
  shows "ch = [] \<and> bus_lookup b' ev_CompanyUserAdded hid = Some (added_handler E R companyID)
    \<and> bus_lookup (bus_Unsubscribe ev_CompanyUserAdded hid b') et hid' = bus_lookup b et hid'"
  using assms by (auto simp: CompanyUserAdded_def bus_Subscribe_def io_run memory_bus.put memory_bus.remove)

end
