(* ===== verification/Startup.thy ===== *)
theory Startup
  imports Prelude
begin

text \<open>
  What the programs do before they serve: reading the configuration (\<^verbatim>\<open>config/config.go\<close>) and bringing the
  schema up to date with its repairs (\<^verbatim>\<open>runMigrations\<close> of \<^verbatim>\<open>cmd/identity-api/main.go\<close>). The migration library and
  the database it works on are a parameter.
\<close>

section \<open>Configuration\<close>

record Config =
  cf_Port :: string
  cf_GRPCPort :: string
  cf_DatabaseURL :: string
  cf_RedisURL :: string
  cf_JWTPrivateKey :: string
  cf_JWTPublicKey :: string
  cf_EnableTelemetry :: bool
  cf_WebAuthnRPID :: string
  cf_WebAuthnOrigin :: string
  cf_WebAuthnRPName :: string
  cf_TurnstileSiteKey :: string
  cf_TurnstileSecretKey :: string
  cf_TOTPIssuer :: string
  cf_FrontendURL :: string
  cf_SerproAPIURL :: string
  cf_SerproAPIKey :: string
  cf_BrasilAPIURL :: string

text \<open>The process environment is the map that \<^verbatim>\<open>os.LookupEnv\<close> reads.\<close>

definition getEnv :: "(string \<rightharpoonup> string) \<Rightarrow> string \<Rightarrow> string \<Rightarrow> string" where
  "getEnv env key fallback = (case env key of Some value \<Rightarrow> value | None \<Rightarrow> fallback)"

definition getEnvAsBool :: "(string \<rightharpoonup> string) \<Rightarrow> string \<Rightarrow> bool \<Rightarrow> bool" where
  "getEnvAsBool env key fallback = (case env key of Some value \<Rightarrow> value = ''true'' \<or> value = ''1'' | None \<Rightarrow> fallback)"

definition getEnvOrError :: "(string \<rightharpoonup> string) \<Rightarrow> string \<Rightarrow> string result" where
  "getEnvOrError env key = (case env key of
     Some value \<Rightarrow> Inr value
   | None \<Rightarrow> Inl (ErrorString (''environment variable '' @ key @ '' is required but not set'')))"

definition Load :: "(string \<rightharpoonup> string) \<Rightarrow> Config result" where
  "Load env = (case getEnvOrError env ''DATABASE_URL'' of Inl e \<Rightarrow> Inl e | Inr dbURL \<Rightarrow>
     (case getEnvOrError env ''REDIS_URL'' of Inl e \<Rightarrow> Inl e | Inr redisURL \<Rightarrow>
     (case getEnvOrError env ''JWT_PRIVATE_KEY'' of Inl e \<Rightarrow> Inl e | Inr jwtPrivate \<Rightarrow>
     (case getEnvOrError env ''JWT_PUBLIC_KEY'' of Inl e \<Rightarrow> Inl e | Inr jwtPublic \<Rightarrow>
       Inr \<lparr>cf_Port = getEnv env ''PORT'' ''8080'', cf_GRPCPort = getEnv env ''GRPC_PORT'' ''50051'',
         cf_DatabaseURL = dbURL, cf_RedisURL = redisURL, cf_JWTPrivateKey = jwtPrivate, cf_JWTPublicKey = jwtPublic,
         cf_EnableTelemetry = getEnvAsBool env ''ENABLE_TELEMETRY'' True,
         cf_WebAuthnRPID = getEnv env ''WEBAUTHN_RP_ID'' ''localhost'',
         cf_WebAuthnOrigin = getEnv env ''WEBAUTHN_ORIGIN'' ''http://localhost:3000'',
         cf_WebAuthnRPName = getEnv env ''WEBAUTHN_RP_NAME'' ''Vyst Identity'',
         cf_TurnstileSiteKey = getEnv env ''TURNSTILE_SITE_KEY'' [], cf_TurnstileSecretKey = getEnv env ''TURNSTILE_SECRET_KEY'' [],
         cf_TOTPIssuer = getEnv env ''TOTP_ISSUER'' ''Vyst Identity'',
         cf_FrontendURL = getEnv env ''FRONTEND_URL'' ''http://localhost:4200'',
         cf_SerproAPIURL = getEnv env ''SERPRO_API_URL'' [], cf_SerproAPIKey = getEnv env ''SERPRO_API_KEY'' [],
         cf_BrasilAPIURL = getEnv env ''BRASIL_API_URL'' ''https://brasilapi.com.br/api/cnpj/v1''\<rparr>))))"

definition required_keys :: "string list" where
  "required_keys = [''DATABASE_URL'', ''REDIS_URL'', ''JWT_PRIVATE_KEY'', ''JWT_PUBLIC_KEY'']"

text \<open>The configuration loads exactly when the four required variables are set; else the error names the first that is not.\<close>

lemma Load_missing:
  assumes "find (\<lambda>k. env k = None) required_keys = Some k"
  shows "Load env = Inl (ErrorString (''environment variable '' @ k @ '' is required but not set''))"
  using assms by (auto simp: Load_def required_keys_def getEnvOrError_def split: option.splits if_splits)

lemma Load_succeeds: "find (\<lambda>k. env k = None) required_keys = None \<longleftrightarrow> (\<exists>cfg. Load env = Inr cfg)"
  by (simp add: Load_def required_keys_def getEnvOrError_def split: option.splits)

section \<open>Migrations\<close>

text \<open>
  What \<^verbatim>\<open>golang-migrate\<close> and the catalogue of the database answer: the recorded version (none at all, an
  error, or a number with its dirty flag), dropping everything, applying what is missing, forcing a version, and
  whether a table exists. An error of \<^verbatim>\<open>Up\<close> is its text.
\<close>

datatype version_reply = NilVersion | VersionError string | Version nat bool

datatype up_reply = UpOK | UpNoChange | UpError string

record 'db migrator =
  mg_Source :: "string option"
  mg_New :: "'db \<Rightarrow> string option"
  mg_Version :: "'db \<Rightarrow> version_reply"
  mg_Drop :: "'db \<Rightarrow> string option \<times> 'db"
  mg_Up :: "'db \<Rightarrow> up_reply \<times> 'db"
  mg_Force :: "int \<Rightarrow> 'db \<Rightarrow> string option \<times> 'db"
  mg_tableExists :: "string \<Rightarrow> 'db \<Rightarrow> bool result"

definition strings_Contains :: "string \<Rightarrow> string \<Rightarrow> bool" where
  "strings_Contains s sub \<longleftrightarrow> (\<exists>i \<in> set [0..<Suc (length s)]. take (length sub) (drop i s) = sub)"

text \<open>A step gives whether to start again, an error, and the database.\<close>

definition repairMissingTable :: "'db migrator \<Rightarrow> string \<Rightarrow> 'db \<Rightarrow> bool \<times> 'db" where
  "repairMissingTable M table db = (case mg_tableExists M table db of
     Inl _ \<Rightarrow> (False, db)
   | Inr True \<Rightarrow> (False, db)
   | Inr False \<Rightarrow> (case mg_Drop M db of (Some _, db') \<Rightarrow> (False, db') | (None, db') \<Rightarrow> (True, db')))"

definition repairMigrationDrift :: "'db migrator \<Rightarrow> 'db \<Rightarrow> bool \<times> 'db" where
  "repairMigrationDrift M db = (case mg_Version M db of
     VersionError _ \<Rightarrow> (False, db)
   | NilVersion \<Rightarrow> (False, db)
   | Version version dirty \<Rightarrow>
       (let (rerun, db1) = (if 0 < version then repairMissingTable M ''tenants'' db else (False, db)) in
        if rerun then (True, db1)
        else if 20 \<le> version then repairMissingTable M ''companies'' db1
        else (False, db1)))"

text \<open>\<^verbatim>\<open>Atoi\<close> of the printed version fails beyond 63 bits.\<close>

definition migrationForceVersion :: "nat \<Rightarrow> int result" where
  "migrationForceVersion version =
     (if version \<le> 2 then Inr 0
      else if version < 2 ^ 63 then Inr (int version)
      else Inl (wrap ''migration version is too large: '' (ErrorString ''value out of range'')))"

definition recoverDirtyMigration :: "'db migrator \<Rightarrow> 'db \<Rightarrow> (unit result) \<times> 'db" where
  "recoverDirtyMigration M db = (case mg_Version M db of
     VersionError m \<Rightarrow> (Inl (wrap ''failed to get version: '' (Driver m)), db)
   | NilVersion \<Rightarrow> (Inl (wrap ''failed to get version: '' (Driver ''no migration'')), db)
   | Version version dirty \<Rightarrow>
       if \<not> dirty then (Inr (), db)
       else (case migrationForceVersion version of
           Inl e \<Rightarrow> (Inl e, db)
         | Inr target \<Rightarrow> (case mg_Force M target db of
             (Some m, db1) \<Rightarrow> (Inl (wrap ''failed to force version: '' (Driver m)), db1)
           | (None, db1) \<Rightarrow> (case mg_Up M db1 of
               (UpError m, db2) \<Rightarrow> (Inl (wrap ''failed to retry migrate up: '' (Driver m)), db2)
             | (_, db2) \<Rightarrow> (Inr (), db2)))))"

definition dropCorruptedDatabase :: "'db migrator \<Rightarrow> 'db \<Rightarrow> bool \<times> 'db" where
  "dropCorruptedDatabase M db = (case mg_Drop M db of (Some _, db') \<Rightarrow> (False, db') | (None, db') \<Rightarrow> (True, db'))"

definition recoverMigrationError :: "'db migrator \<Rightarrow> string \<Rightarrow> 'db \<Rightarrow> bool \<times> (unit result) \<times> 'db" where
  "recoverMigrationError M msg db =
     (if strings_Contains msg ''no migration found for version 0''
      then (let (rerun, db') = dropCorruptedDatabase M db in (rerun, Inr (), db'))
      else if strings_Contains msg ''Dirty database version'' then (False, recoverDirtyMigration M db)
      else (False, Inl (wrap ''failed to run migrate up: '' (Driver msg)), db))"

definition migrateUpWithRecovery :: "'db migrator \<Rightarrow> 'db \<Rightarrow> bool \<times> (unit result) \<times> 'db" where
  "migrateUpWithRecovery M db = (case mg_Up M db of
     (UpError msg, db') \<Rightarrow> recoverMigrationError M msg db'
   | (_, db') \<Rightarrow> (False, Inr (), db'))"

text \<open>A run that never ends is \<open>None\<close>.\<close>

partial_function (option) runMigrations :: "'db migrator \<Rightarrow> 'db \<Rightarrow> ((unit result) \<times> 'db) option" where
  "runMigrations M db =
     (if mg_Source M \<noteq> None then Some (Inl (wrap ''failed to create iofs driver: '' (Driver (the (mg_Source M)))), db)
      else if mg_New M db \<noteq> None then Some (Inl (wrap ''failed to create migrate instance: '' (Driver (the (mg_New M db)))), db)
      else let drift = repairMigrationDrift M db in
        if fst drift then runMigrations M (snd drift)
        else let up = migrateUpWithRecovery M (snd drift) in
          if isl (fst (snd up)) then Some (snd up)
          else if fst up then runMigrations M (snd (snd up))
          else Some (Inr (), snd (snd up)))"

section \<open>The repairs\<close>

text \<open>Drift is repaired at most once, because a dropped database has no version.\<close>

lemma repair_drops:
  assumes "repairMigrationDrift M db = (True, db1)"
  shows "\<exists>db0. mg_Drop M db0 = (None, db1)"
  using assms by (auto simp: repairMigrationDrift_def repairMissingTable_def Let_def
      split: version_reply.splits if_splits prod.splits sum.splits bool.splits option.splits)

lemma recovery_drops:
  assumes "migrateUpWithRecovery M db = (True, r, db1)"
  shows "\<exists>db0. mg_Drop M db0 = (None, db1)"
  using assms by (auto simp: migrateUpWithRecovery_def recoverMigrationError_def dropCorruptedDatabase_def
      split: up_reply.splits if_splits prod.splits option.splits)

lemma no_version_no_repair: "mg_Version M db = NilVersion \<Longrightarrow> repairMigrationDrift M db = (False, db)"
  by (simp add: repairMigrationDrift_def)

lemma recovery_result:
  assumes "\<And>m db'. mg_Up M db = (UpError m, db') \<Longrightarrow> \<not> strings_Contains m ''no migration found for version 0''"
  shows "\<exists>r db'. migrateUpWithRecovery M db = (False, r, db')"
  using assms by (auto simp: migrateUpWithRecovery_def recoverMigrationError_def split: up_reply.splits prod.splits)

lemma runMigrations_fresh:
  assumes "mg_Version M db = NilVersion"
    and "\<And>m db'. mg_Up M db = (UpError m, db') \<Longrightarrow> \<not> strings_Contains m ''no migration found for version 0''"
  shows "\<exists>r. runMigrations M db = Some r"
proof -
  obtain r db' where r: "migrateUpWithRecovery M db = (False, r, db')" using recovery_result[of M db] assms(2) by blast
  show ?thesis
    by (subst runMigrations.simps) (simp add: no_version_no_repair[OF assms(1)] r Let_def)
qed

text \<open>
  C24: Start-up ends: when dropping the database leaves it without a version, and applying the migrations to a
  database without a version does not complain about version 0, the repairs of \<^verbatim>\<open>runMigrations\<close>, which calls itself
  again after each drop, cannot go on for ever.
\<close>

theorem runMigrations_terminates:
  assumes "\<And>db db'. mg_Drop M db = (None, db') \<Longrightarrow> mg_Version M db' = NilVersion"
    and "\<And>db m db'. mg_Version M db = NilVersion \<Longrightarrow> mg_Up M db = (UpError m, db') \<Longrightarrow>
       \<not> strings_Contains m ''no migration found for version 0''"
  shows "\<exists>r. runMigrations M db = Some r"
proof -
  have fresh: "\<exists>r. runMigrations M db1 = Some r" if "mg_Drop M db0 = (None, db1)" for db0 db1
    using runMigrations_fresh[OF assms(1)[OF that]] assms(2)[OF assms(1)[OF that]] by blast
  obtain rerun db1 where rep: "repairMigrationDrift M db = (rerun, db1)" by fastforce
  obtain again r db2 where mig: "migrateUpWithRecovery M db1 = (again, r, db2)" by (metis prod.exhaust)
  have "\<exists>x. runMigrations M db1 = Some x" if "rerun"
    using fresh repair_drops[of M db db1] rep that by (metis (full_types))
  moreover have "\<exists>x. runMigrations M db2 = Some x" if "again"
    using fresh recovery_drops[of M db1 r db2] mig that by (metis (full_types))
  ultimately show ?thesis
    by (subst runMigrations.simps) (auto simp: rep mig Let_def)
qed

text \<open>
  A healthy database is kept: when both sentinel tables exist and the migrations apply or have nothing
  to do, start-up succeeds with exactly the database that \<^verbatim>\<open>Up\<close> leaves; nothing is dropped or forced.
\<close>

lemma healthy_database_kept:
  assumes "mg_Source M = None" "mg_New M db = None" "mg_tableExists M ''tenants'' db = Inr True" "mg_tableExists M ''companies'' db = Inr True"
    and "mg_Up M db = (reply, db')" "reply = UpOK \<or> reply = UpNoChange"
  shows "runMigrations M db = Some (Inr (), db')"
proof -
  have "repairMigrationDrift M db = (False, db)"
    using assms(3,4) by (auto simp: repairMigrationDrift_def repairMissingTable_def Let_def split: version_reply.split)
  moreover have "migrateUpWithRecovery M db = (False, Inr (), db')"
    using assms(5,6) by (auto simp: migrateUpWithRecovery_def)
  ultimately show ?thesis using assms(1,2) by (subst runMigrations.simps) simp
qed

text \<open>
  A database that remembers what was applied: migrations 1 to \<open>sc_latest\<close>, the recorded version and dirty flag,
  the tables, and the migrations whose script fails.
\<close>

record schema =
  sc_version :: "nat option"
  sc_dirty :: bool
  sc_tables :: "string list"
  sc_applied :: "nat list"
  sc_broken :: "nat list"
  sc_latest :: nat

definition table_of :: "nat \<Rightarrow> string list" where
  "table_of v = (if v = 1 then [''tenants''] else if v = 20 then [''companies''] else [])"

fun apply_from :: "nat list \<Rightarrow> schema \<Rightarrow> up_reply \<times> schema" where
  "apply_from [] s = (UpOK, s)"
| "apply_from (v # vs) s =
     (if v \<in> set (sc_broken s) then (UpError ''migration failed'', s\<lparr>sc_version := Some v, sc_dirty := True\<rparr>)
      else apply_from vs (s\<lparr>sc_version := Some v, sc_applied := sc_applied s @ [v], sc_tables := sc_tables s @ table_of v\<rparr>))"

definition schema_up :: "schema \<Rightarrow> up_reply \<times> schema" where
  "schema_up s =
     (if sc_dirty s then (UpError ''Dirty database version. Fix and force version.'', s)
      else if sc_version s = Some 0 then (UpError ''no migration found for version 0: file does not exist'', s)
      else (case [Suc (case sc_version s of None \<Rightarrow> 0 | Some v \<Rightarrow> v)..<Suc (sc_latest s)] of
          [] \<Rightarrow> (UpNoChange, s)
        | vs \<Rightarrow> apply_from vs s))"

definition schema_migrator :: "schema migrator" where
  "schema_migrator = \<lparr>mg_Source = None, mg_New = (\<lambda>s. None),
     mg_Version = (\<lambda>s. case sc_version s of None \<Rightarrow> NilVersion | Some v \<Rightarrow> Version v (sc_dirty s)),
     mg_Drop = (\<lambda>s. (None, s\<lparr>sc_version := None, sc_dirty := False, sc_tables := [], sc_applied := []\<rparr>)),
     mg_Up = schema_up,
     mg_Force = (\<lambda>v s. (None, s\<lparr>sc_version := Some (nat v), sc_dirty := False\<rparr>)),
     mg_tableExists = (\<lambda>t s. Inr (t \<in> set (sc_tables s)))\<rparr>"

lemma apply_from_error: "apply_from vs s = (UpError m, s') \<Longrightarrow> m = ''migration failed''"
  by (induction vs arbitrary: s) (auto split: if_splits)

lemma schema_drop: "mg_Drop schema_migrator db = (None, db') \<Longrightarrow> mg_Version schema_migrator db' = NilVersion"
  by (auto simp: schema_migrator_def)

lemma other_errors:
  "\<not> strings_Contains ''migration failed'' ''no migration found for version 0''"
  "\<not> strings_Contains ''Dirty database version. Fix and force version.'' ''no migration found for version 0''"
  by code_simp+

lemma schema_fresh:
  assumes "mg_Version schema_migrator db = NilVersion" "mg_Up schema_migrator db = (UpError m, db')"
  shows "\<not> strings_Contains m ''no migration found for version 0''"
  using assms other_errors by (auto simp: schema_migrator_def schema_up_def dest: apply_from_error split: option.splits if_splits list.splits)

definition demo_schema :: schema where
  "demo_schema = \<lparr>sc_version = Some 29, sc_dirty = False, sc_tables = [''tenants'', ''users''], sc_applied = [1..<30],
     sc_broken = [], sc_latest = 29\<rparr>"

theorem runMigrations_terminates_witness: "\<exists>r. runMigrations schema_migrator demo_schema = Some r"
  by (rule runMigrations_terminates) (erule schema_drop, erule schema_fresh)

text \<open>
  The repair of a missing table drops the whole database: the user table of a database whose \<open>companies\<close> table is
  gone is dropped with it, and the migrations run again from the first.
\<close>

lemma missing_table_drops_everything:
  "mg_Version schema_migrator demo_schema = Version 29 False"
  "repairMigrationDrift schema_migrator demo_schema = (True, demo_schema\<lparr>sc_version := None, sc_tables := [], sc_applied := []\<rparr>)"
  by (simp_all add: demo_schema_def schema_migrator_def repairMigrationDrift_def repairMissingTable_def)

text \<open>
  The recovery of a dirty version marks it as applied: start-up succeeds although the script of migration 28 failed
  half-way, and no later start-up runs it, even when its script is mended.
\<close>

definition dirty_schema :: schema where
  "dirty_schema = \<lparr>sc_version = Some 28, sc_dirty = True, sc_tables = [''tenants'', ''companies''], sc_applied = [1..<28],
     sc_broken = [28], sc_latest = 29\<rparr>"

lemma dirty_migration_skipped:
  "\<exists>db. runMigrations schema_migrator dirty_schema = Some (Inr (), db) \<and> 28 \<notin> set (sc_applied db) \<and> sc_version db = Some 29 \<and>
     \<not> sc_dirty db \<and> (\<forall>broken. mg_Up schema_migrator (db\<lparr>sc_broken := broken\<rparr>) = (UpNoChange, db\<lparr>sc_broken := broken\<rparr>))"
proof -
  have texts: "\<not> strings_Contains ''Dirty database version. Fix and force version.'' ''no migration found for version 0''"
    "strings_Contains ''Dirty database version. Fix and force version.'' ''Dirty database version''"
    by code_simp+
  have drift: "repairMigrationDrift schema_migrator dirty_schema = (False, dirty_schema)"
    by (simp add: repairMigrationDrift_def repairMissingTable_def schema_migrator_def dirty_schema_def)
  have up: "migrateUpWithRecovery schema_migrator dirty_schema = (False, Inr (),
      dirty_schema\<lparr>sc_version := Some 29, sc_dirty := False, sc_applied := [1..<28] @ [29]\<rparr>)"
    using texts by (simp add: migrateUpWithRecovery_def recoverMigrationError_def recoverDirtyMigration_def
        migrationForceVersion_def schema_migrator_def schema_up_def dirty_schema_def table_of_def upt_rec[of 29])
  have "runMigrations schema_migrator dirty_schema =
      Some (Inr (), dirty_schema\<lparr>sc_version := Some 29, sc_dirty := False, sc_applied := [1..<28] @ [29]\<rparr>)"
    by (subst runMigrations.simps) (simp add: drift up Let_def, simp add: schema_migrator_def)
  then show ?thesis by (auto simp: schema_migrator_def schema_up_def dirty_schema_def)
qed

end
