(* ===== verification/Webauthn.thy ===== *)
theory Webauthn
  imports Admin_Handler
begin

text \<open>
  Passkeys: the table of credentials (\<^verbatim>\<open>postgres/webauthn_repo.go\<close>, migration 7), the service
  (\<^verbatim>\<open>service/webauthn_service.go\<close>) and the handlers (\<^verbatim>\<open>handlers/webauthn_handler.go\<close>). The \<^verbatim>\<open>go-webauthn\<close> library is a parameter:
  the four functions that the service calls, with the session data as the JSON text that the session store
  keeps. A failed type assertion is a panic.
\<close>

section \<open>Credentials table\<close>

text \<open>The policy of migration 7: the row's user belongs to the tenant of the setting, or to the zero tenant without one.\<close>

definition credential_visible :: "environ \<Rightarrow> reqctx \<Rightarrow> tables \<Rightarrow> WebAuthnCredential \<Rightarrow> bool" where
  "credential_visible E ctx db c \<longleftrightarrow> rls_bypass E \<or>
     (\<exists>r \<in> set (users db). ur_id r = wc_UserID c
        \<and> ur_tenant_id r = (case tenant_setting ctx db of None \<Rightarrow> zero_uuid | Some t \<Rightarrow> t))"

text \<open>
  The column is an \<^verbatim>\<open>INT\<close>: the driver refuses a counter beyond 31 bits. The id is drawn by
  \<^verbatim>\<open>gen_random_uuid()\<close>.
\<close>

definition fits_int4 :: "32 word \<Rightarrow> bool" where
  "fits_int4 n \<longleftrightarrow> uint n < 2 ^ 31"

definition insert_credential ::
    "environ \<Rightarrow> reqctx \<Rightarrow> string \<Rightarrow> WebAuthnCredential \<Rightarrow> time \<Rightarrow> tables \<Rightarrow> (tables \<times> nat) result" where
  "insert_credential E ctx cid c t db =
     (let row = c\<lparr>wc_ID := cid, wc_CreatedAt := t, wc_UpdatedAt := t\<rparr> in
      if \<not> fits_int4 (wc_SignCount c) then violation ''sign_count is greater than maximum value for int4''
      else if \<not> credential_visible E ctx db row then violation ''new row violates row-level security policy''
      else if cid \<in> wc_ID ` set (webauthn_credentials db) then violation ''duplicate key: webauthn_credentials_pkey''
      else if \<exists>x \<in> set (webauthn_credentials db). wc_UserID x = wc_UserID c \<and> wc_WebAuthnID x = wc_WebAuthnID c
        then violation ''duplicate key: webauthn_credentials_user_id_webauthn_id_key''
      else if wc_UserID c \<notin> ur_id ` set (users db) then violation ''foreign key violation: user_id''
      else Inr (db\<lparr>webauthn_credentials := webauthn_credentials db @ [row]\<rparr>, 1))"

definition WebAuthnRepository_Create :: "environ \<Rightarrow> reqctx \<Rightarrow> WebAuthnCredential \<Rightarrow> (unit result) io" where
  "WebAuthnRepository_Create E ctx c = do {
     cid \<leftarrow> uuid_New E;
     tryE (pg_exec E ctx [wc_UserID c] (insert_credential E ctx cid c))
       (wrap ''failed to create webauthn credential: '') (\<lambda>_. ret (Inr ())) }"

definition WebAuthnRepository_GetByUserID :: "environ \<Rightarrow> reqctx \<Rightarrow> string \<Rightarrow> (WebAuthnCredential list result) io" where
  "WebAuthnRepository_GetByUserID E ctx userID =
     tryE (pg_query E ctx [userID]
        (\<lambda>db. filter (\<lambda>c. wc_UserID c = userID \<and> credential_visible E ctx db c) (webauthn_credentials db)))
       (wrap ''failed to query webauthn credentials: '') (\<lambda>rows. ret (Inr rows))"

definition update_sign_count :: "environ \<Rightarrow> reqctx \<Rightarrow> string \<Rightarrow> 32 word \<Rightarrow> time \<Rightarrow> tables \<Rightarrow> (tables \<times> nat) result" where
  "update_sign_count E ctx cid n t db =
     (if \<not> fits_int4 n then violation ''sign_count is greater than maximum value for int4''
      else let hit = (\<lambda>c. wc_ID c = cid \<and> credential_visible E ctx db c) in
        Inr (db\<lparr>webauthn_credentials := map (\<lambda>c. if hit c then c\<lparr>wc_SignCount := n, wc_UpdatedAt := t\<rparr> else c)
               (webauthn_credentials db)\<rparr>, length (filter hit (webauthn_credentials db))))"

definition WebAuthnRepository_Update :: "environ \<Rightarrow> reqctx \<Rightarrow> string \<Rightarrow> 32 word \<Rightarrow> (unit result) io" where
  "WebAuthnRepository_Update E ctx cid n =
     tryE (pg_exec E ctx [cid] (update_sign_count E ctx cid n)) (wrap ''failed to update webauthn credential: '')
       (\<lambda>_. ret (Inr ()))"

section \<open>The library\<close>

record webauthn_Credential =
  lc_ID :: "nat list"
  lc_PublicKey :: "nat list"
  lc_AttestationType :: string
  lc_Transport :: "string list"
  lc_UserPresent :: bool
  lc_UserVerified :: bool
  lc_BackupEligible :: bool
  lc_BackupState :: bool
  lc_SignCount :: "32 word"

record webAuthnUser =
  wu_id :: string
  wu_name :: string
  wu_displayName :: string
  wu_credentials :: "webauthn_Credential list"

text \<open>The challenges of a ceremony depend on the calls made so far; a request is what the client sent.\<close>

record webauthn_lib =
  wl_BeginRegistration :: "nat \<Rightarrow> webAuthnUser \<Rightarrow> (json \<times> string) result"
  wl_FinishRegistration :: "webAuthnUser \<Rightarrow> string \<Rightarrow> request \<Rightarrow> webauthn_Credential result"
  wl_BeginLogin :: "nat \<Rightarrow> webAuthnUser \<Rightarrow> (json \<times> string) result"
  wl_FinishLogin :: "webAuthnUser \<Rightarrow> string \<Rightarrow> request \<Rightarrow> webauthn_Credential result"

section \<open>Service\<close>

text \<open>\<^verbatim>\<open>c.Flags[key].(bool)\<close> panics when the key is absent or its value is of another type.\<close>

definition flag :: "string \<Rightarrow> WebAuthnCredential \<Rightarrow> bool result" where
  "flag key c = (case map_of (wc_Flags c) key of
     Some (JBool b) \<Rightarrow> Inr b
   | _ \<Rightarrow> Inl (RuntimePanic ''interface conversion: interface {} is not bool''))"

definition lib_credential :: "WebAuthnCredential \<Rightarrow> webauthn_Credential result" where
  "lib_credential c = (case flag ''userPresent'' c of Inl e \<Rightarrow> Inl e | Inr up \<Rightarrow>
     (case flag ''userVerified'' c of Inl e \<Rightarrow> Inl e | Inr uv \<Rightarrow>
     (case flag ''backupEligible'' c of Inl e \<Rightarrow> Inl e | Inr be \<Rightarrow>
     (case flag ''backupState'' c of Inl e \<Rightarrow> Inl e | Inr bs \<Rightarrow>
       Inr \<lparr>lc_ID = wc_WebAuthnID c, lc_PublicKey = wc_PublicKey c, lc_AttestationType = wc_AttestationType c,
         lc_Transport = wc_Transport c, lc_UserPresent = up, lc_UserVerified = uv, lc_BackupEligible = be,
         lc_BackupState = bs, lc_SignCount = wc_SignCount c\<rparr>))))"

fun lib_credentials :: "WebAuthnCredential list \<Rightarrow> webauthn_Credential list result" where
  "lib_credentials [] = Inr []"
| "lib_credentials (c # cs) = (case lib_credential c of Inl e \<Rightarrow> Inl e | Inr x \<Rightarrow>
     (case lib_credentials cs of Inl e \<Rightarrow> Inl e | Inr xs \<Rightarrow> Inr (x # xs)))"

definition getUserAdapter :: "environ \<Rightarrow> reqctx \<Rightarrow> string \<Rightarrow> (webAuthnUser result) io" where
  "getUserAdapter E ctx userID =
     tryE (UserRepository_GetByID E ctx userID) (wrap ''failed to get user: '') (\<lambda>u.
     tryE (WebAuthnRepository_GetByUserID E ctx userID) (wrap ''failed to get credentials: '') (\<lambda>creds.
     ret (case lib_credentials creds of
       Inl e \<Rightarrow> Inl e
     | Inr wCreds \<Rightarrow> Inr \<lparr>wu_id = u_ID u, wu_name = u_Email u, wu_displayName = u_Email u, wu_credentials = wCreds\<rparr>)))"

definition begin_ceremony ::
    "(nat \<Rightarrow> webAuthnUser \<Rightarrow> (json \<times> string) result) \<Rightarrow> webAuthnUser \<Rightarrow> ((json \<times> string) result) io" where
  "begin_ceremony f u = State (\<lambda>w. (f (ticks w) u, tick w))"

definition Service_BeginRegistration :: "environ \<Rightarrow> webauthn_lib \<Rightarrow> reqctx \<Rightarrow> string \<Rightarrow> ((json \<times> string) result) io" where
  "Service_BeginRegistration E L ctx userID =
     tryE (getUserAdapter E ctx userID) (\<lambda>e. e) (\<lambda>u.
     tryE (begin_ceremony (wl_BeginRegistration L) u) (wrap ''failed to begin registration: '') (\<lambda>x. ret (Inr x)))"

definition stored_credential :: "string \<Rightarrow> webauthn_Credential \<Rightarrow> WebAuthnCredential" where
  "stored_credential userID c = \<lparr>wc_ID = zero_uuid, wc_UserID = userID, wc_WebAuthnID = lc_ID c, wc_PublicKey = lc_PublicKey c,
     wc_AttestationType = lc_AttestationType c, wc_Transport = lc_Transport c,
     wc_Flags = [(''userPresent'', JBool (lc_UserPresent c)), (''userVerified'', JBool (lc_UserVerified c)),
       (''backupEligible'', JBool (lc_BackupEligible c)), (''backupState'', JBool (lc_BackupState c))],
     wc_SignCount = lc_SignCount c, wc_CreatedAt = zero_time, wc_UpdatedAt = zero_time\<rparr>"

definition Service_FinishRegistration ::
    "environ \<Rightarrow> webauthn_lib \<Rightarrow> reqctx \<Rightarrow> string \<Rightarrow> string \<Rightarrow> request \<Rightarrow> (unit result) io" where
  "Service_FinishRegistration E L ctx userID sessionData rq =
     tryE (getUserAdapter E ctx userID) (\<lambda>e. e) (\<lambda>u.
     tryE (ret (wl_FinishRegistration L u sessionData rq)) (wrap ''failed to finish registration: '') (\<lambda>credential.
     tryE (WebAuthnRepository_Create E ctx (stored_credential userID credential)) (wrap ''failed to save credential: '')
       (\<lambda>_. ret (Inr ()))))"

definition Service_BeginLogin :: "environ \<Rightarrow> webauthn_lib \<Rightarrow> reqctx \<Rightarrow> string \<Rightarrow> ((json \<times> string) result) io" where
  "Service_BeginLogin E L ctx userID =
     tryE (getUserAdapter E ctx userID) (\<lambda>e. e) (\<lambda>u.
     tryE (begin_ceremony (wl_BeginLogin L) u) (wrap ''failed to begin login: '') (\<lambda>x. ret (Inr x)))"

definition BeginLoginByEmail ::
    "environ \<Rightarrow> webauthn_lib \<Rightarrow> reqctx \<Rightarrow> string \<Rightarrow> ((json \<times> string \<times> string) result) io" where
  "BeginLoginByEmail E L ctx email =
     tryE (UserRepository_GetByEmail E ctx email) (wrap ''failed to get user: '') (\<lambda>u.
     tryE (ret (uuid_parse E (u_ID u))) (wrap ''invalid user id in db: '') (\<lambda>userID.
     tryE (Service_BeginLogin E L ctx userID) (\<lambda>e. e) (\<lambda>(options, session). ret (Inr (options, session, userID)))))"

text \<open>
  The loop over the user's credentials: for each with the id of the used one the stored rows are read, an
  error giving none, and the first with that id is taken.
\<close>

fun find_stored_id ::
    "environ \<Rightarrow> reqctx \<Rightarrow> string \<Rightarrow> nat list \<Rightarrow> webauthn_Credential list \<Rightarrow> string \<Rightarrow> string io" where
  "find_stored_id E ctx userID wid [] acc = ret acc"
| "find_stored_id E ctx userID wid (c # cs) acc =
     (if lc_ID c = wid then do {
        r \<leftarrow> WebAuthnRepository_GetByUserID E ctx userID;
        let storedCreds = (case r of Inl _ \<Rightarrow> [] | Inr xs \<Rightarrow> xs);
        find_stored_id E ctx userID wid cs
          (case find (\<lambda>sc. wc_WebAuthnID sc = wid) storedCreds of None \<Rightarrow> acc | Some sc \<Rightarrow> wc_ID sc) }
      else find_stored_id E ctx userID wid cs acc)"

definition Service_FinishLogin ::
    "environ \<Rightarrow> webauthn_lib \<Rightarrow> reqctx \<Rightarrow> string \<Rightarrow> string \<Rightarrow> request \<Rightarrow> (webauthn_Credential result) io" where
  "Service_FinishLogin E L ctx userID sessionData rq =
     tryE (getUserAdapter E ctx userID) (\<lambda>e. e) (\<lambda>u.
     tryE (ret (wl_FinishLogin L u sessionData rq)) (wrap ''failed to finish login: '') (\<lambda>credential. do {
       cid \<leftarrow> find_stored_id E ctx userID (lc_ID credential) (wu_credentials u) zero_uuid;
       if cid \<noteq> zero_uuid
       then tryE (WebAuthnRepository_Update E ctx cid (lc_SignCount credential))
              (wrap ''failed to update credential counter: '') (\<lambda>_. ret (Inr credential))
       else ret (Inr credential) }))"

section \<open>Handlers\<close>

text \<open>A panic below a handler ends in the router's \<^verbatim>\<open>Recoverer\<close>.\<close>

definition answer_error :: "go_error \<Rightarrow> response \<Rightarrow> response" where
  "answer_error e rs = (case e of RuntimePanic _ \<Rightarrow> panicked | _ \<Rightarrow> rs)"

definition ceremony_ttl :: duration where
  "ceremony_ttl = 5 * minute"

definition Handler_BeginRegistration :: "environ \<Rightarrow> webauthn_lib \<Rightarrow> handler" where
  "Handler_BeginRegistration E L rq = (case UserIDFromContext (rq_ctx rq) of
     None \<Rightarrow> ret panicked
   | Some userIDStr \<Rightarrow> (case uuid_parse E userIDStr of
       Inl _ \<Rightarrow> ret (http_Error ''Invalid user ID'' 401)
     | Inr userID \<Rightarrow> do {
         r \<leftarrow> Service_BeginRegistration E L (rq_ctx rq) userID;
         case r of
           Inl err \<Rightarrow> ret (answer_error err (http_Error (Error_text err) 500))
         | Inr (options, session) \<Rightarrow> do {
             s \<leftarrow> SessionStore_SaveSession E (''reg:'' @ userIDStr) session ceremony_ttl;
             ret (case s of
               Inl _ \<Rightarrow> http_Error ''Failed to save session'' 500
             | Inr _ \<Rightarrow> writeJSON 200 options) } }))"

definition Handler_FinishRegistration :: "environ \<Rightarrow> webauthn_lib \<Rightarrow> handler" where
  "Handler_FinishRegistration E L rq = (case UserIDFromContext (rq_ctx rq) of
     None \<Rightarrow> ret panicked
   | Some userIDStr \<Rightarrow> (case uuid_parse E userIDStr of
       Inl _ \<Rightarrow> ret (http_Error ''Invalid user ID'' 401)
     | Inr userID \<Rightarrow> do {
         s \<leftarrow> SessionStore_GetSession E (''reg:'' @ userIDStr);
         case s of
           Inl _ \<Rightarrow> ret (http_Error ''Session expired or invalid'' 400)
         | Inr session \<Rightarrow> do {
             r \<leftarrow> Service_FinishRegistration E L (rq_ctx rq) userID session rq;
             ret (case r of
               Inl err \<Rightarrow> answer_error err (http_Error (''Registration failed: '' @ Error_text err) 400)
             | Inr _ \<Rightarrow> writeJSON 200 (JObj [(''status'', JStr ''ok'')])) } }))"

text \<open>The text of the cookie that \<^verbatim>\<open>http.SetCookie\<close> writes.\<close>

definition login_cookie :: "string \<Rightarrow> string" where
  "login_cookie userID = ''login_user_id='' @ userID @ ''; Path=/; Max-Age=300; HttpOnly''"

definition cleared_cookie :: string where
  "cleared_cookie = ''login_user_id=; Path=/; Max-Age=0; HttpOnly''"

definition Handler_BeginLogin :: "environ \<Rightarrow> webauthn_lib \<Rightarrow> handler" where
  "Handler_BeginLogin E L rq = (case decode_strings [''email''] (rq_body rq) of
     Some [email] \<Rightarrow> do {
       r \<leftarrow> BeginLoginByEmail E L (rq_ctx rq) email;
       case r of
         Inl err \<Rightarrow> ret (answer_error err (http_Error (''Login failed: '' @ Error_text err) 400))
       | Inr (options, session, userID) \<Rightarrow> do {
           s \<leftarrow> SessionStore_SaveSession E (''login:'' @ userID) session ceremony_ttl;
           ret (case s of
             Inl _ \<Rightarrow> http_Error ''Failed to save session'' 500
           | Inr _ \<Rightarrow> with_headers [(''Set-Cookie'', login_cookie userID)] (writeJSON 200 options)) } }
   | _ \<Rightarrow> ret (http_Error ''Invalid request body'' 400))"

text \<open>
  \<^verbatim>\<open>r.Cookie(name)\<close>: the header is split at semicolons, each part trimmed and cut at the first equals sign;
  a value may be quoted and is skipped when it has a byte that no cookie value may have.
\<close>

fun split_at_char :: "char \<Rightarrow> string \<Rightarrow> string list" where
  "split_at_char d [] = [[]]"
| "split_at_char d (c # cs) = (let rest = split_at_char d cs in
     if c = d then [] # rest else (c # hd rest) # tl rest)"

definition trim_blank :: "string \<Rightarrow> string" where
  "trim_blank s = (let blank = (\<lambda>c. c \<in> {CHR '' '', CHR 0x09, CHR 0x0A, CHR 0x0D}) in
     rev (dropWhile blank (rev (dropWhile blank s))))"

definition unquote :: "string \<Rightarrow> string" where
  "unquote v = (if 1 < length v \<and> hd v = CHR 0x22 \<and> last v = CHR 0x22 then butlast (tl v) else v)"

definition cookie_char :: "char \<Rightarrow> bool" where
  "cookie_char c \<longleftrightarrow> (let n = of_char c :: nat in 32 \<le> n \<and> n < 127 \<and> n \<noteq> 34 \<and> n \<noteq> 59 \<and> n \<noteq> 92)"

definition cookie_part :: "string \<Rightarrow> string \<Rightarrow> string option" where
  "cookie_part name part =
     (let p = trim_blank part; k = takeWhile (\<lambda>c. c \<noteq> CHR ''='') p; v = unquote (drop (Suc (length k)) p) in
      if trim_blank k = name \<and> list_all cookie_char v then Some v else None)"

definition request_Cookie :: "string \<Rightarrow> request \<Rightarrow> string option" where
  "request_Cookie name rq = (case List.map_filter (cookie_part name) (split_at_char (CHR 0x3B) (rq_header rq ''Cookie'')) of
     [] \<Rightarrow> None | v # _ \<Rightarrow> Some v)"

definition Handler_FinishLogin :: "environ \<Rightarrow> webauthn_lib \<Rightarrow> handler" where
  "Handler_FinishLogin E L rq = (case request_Cookie ''login_user_id'' rq of
     None \<Rightarrow> ret (http_Error ''Missing login session'' 400)
   | Some userIDStr \<Rightarrow> (case uuid_parse E userIDStr of
       Inl _ \<Rightarrow> ret (http_Error ''Invalid user ID'' 400)
     | Inr userID \<Rightarrow> do {
         s \<leftarrow> SessionStore_GetSession E (''login:'' @ userIDStr);
         case s of
           Inl _ \<Rightarrow> ret (http_Error ''Session expired or invalid'' 400)
         | Inr session \<Rightarrow> do {
             r \<leftarrow> Service_FinishLogin E L (rq_ctx rq) userID session rq;
             case r of
               Inl err \<Rightarrow> ret (answer_error err (http_Error (''Login failed: '' @ Error_text err) 401))
             | Inr _ \<Rightarrow> do {
                 t \<leftarrow> GenerateTokenForUser E (rq_ctx rq) userIDStr;
                 ret (case t of
                   Inl _ \<Rightarrow> http_Error ''Failed to generate token'' 500
                 | Inr tokenPair \<Rightarrow> with_headers [(''Set-Cookie'', cleared_cookie)] (writeJSON 200 (LoginResponse_json
                     (zeroLoginResponse\<lparr>lr_Token := AccessToken tokenPair, lr_ExpiresIn := ExpiresIn tokenPair\<rparr>)))) } } }))"

section \<open>The table and its panics\<close>

text \<open>
  What holds of the table: ids are distinct, a user has a credential id once, every row belongs to a user, its
  counter fits the column and its four flags are booleans.
\<close>

definition flags_complete :: "WebAuthnCredential \<Rightarrow> bool" where
  "flags_complete c \<longleftrightarrow> (\<forall>k \<in> set [''userPresent'', ''userVerified'', ''backupEligible'', ''backupState'']. \<exists>b. map_of (wc_Flags c) k = Some (JBool b))"

definition credentials_ok :: "tables \<Rightarrow> bool" where
  "credentials_ok db \<longleftrightarrow> distinct (map wc_ID (webauthn_credentials db))
     \<and> distinct (map (\<lambda>c. (wc_UserID c, wc_WebAuthnID c)) (webauthn_credentials db))
     \<and> (\<forall>c \<in> set (webauthn_credentials db). wc_UserID c \<in> ur_id ` set (users db) \<and> fits_int4 (wc_SignCount c) \<and> flags_complete c)"

lemma stored_flags: "flags_complete (stored_credential userID c)"
  by (simp add: flags_complete_def stored_credential_def)

text \<open>What a registration stores is read back as the credential that the library gave.\<close>

lemma credential_roundtrip:
  "lib_credential ((stored_credential userID c)\<lparr>wc_ID := cid, wc_CreatedAt := t, wc_UpdatedAt := t\<rparr>) = Inr c"
  by (simp add: lib_credential_def flag_def stored_credential_def)

lemma lib_credentials_complete: "list_all flags_complete cs \<Longrightarrow> \<exists>xs. lib_credentials cs = Inr xs"
  by (induction cs) (auto simp: lib_credential_def flag_def flags_complete_def)

lemma insert_credential_ok:
  assumes ok: "credentials_ok db" and flags: "flags_complete c"
    and ins: "insert_credential E ctx cid c t db = Inr (db', n)"
  shows "credentials_ok db'"
proof -
  let ?row = "c\<lparr>wc_ID := cid, wc_CreatedAt := t, wc_UpdatedAt := t\<rparr>"
  have db': "db' = db\<lparr>webauthn_credentials := webauthn_credentials db @ [?row]\<rparr>"
    and new: "cid \<notin> wc_ID ` set (webauthn_credentials db)" "wc_UserID c \<in> ur_id ` set (users db)" "fits_int4 (wc_SignCount c)"
      "(wc_UserID c, wc_WebAuthnID c) \<notin> (\<lambda>c. (wc_UserID c, wc_WebAuthnID c)) ` set (webauthn_credentials db)"
    using ins by (auto simp: insert_credential_def Let_def split: if_splits)
  have "flags_complete ?row" using flags by (simp add: flags_complete_def)
  then show ?thesis using ok new unfolding credentials_ok_def db' by simp
qed

lemma update_sign_count_ok:
  assumes ok: "credentials_ok db" and upd: "update_sign_count E ctx cid n t db = Inr (db', m)"
  shows "credentials_ok db'"
proof -
  let ?f = "\<lambda>c. if wc_ID c = cid \<and> credential_visible E ctx db c then c\<lparr>wc_SignCount := n, wc_UpdatedAt := t\<rparr> else c"
  have db': "db' = db\<lparr>webauthn_credentials := map ?f (webauthn_credentials db)\<rparr>" and n: "fits_int4 n"
    using upd by (auto simp: update_sign_count_def Let_def split: if_splits)
  have m: "map wc_ID (map ?f xs) = map wc_ID xs"
    "map (\<lambda>c. (wc_UserID c, wc_WebAuthnID c)) (map ?f xs) = map (\<lambda>c. (wc_UserID c, wc_WebAuthnID c)) xs" for xs
    by simp_all
  have rows: "webauthn_credentials db' = map ?f (webauthn_credentials db)" "users db' = users db" by (simp_all add: db')
  show ?thesis using ok n unfolding credentials_ok_def rows m by (auto simp: flags_complete_def)
qed

lemma keeps_webauthn_reads [io_keep]:
  "keeps pg (WebAuthnRepository_GetByUserID E ctx u)" "keeps redis (WebAuthnRepository_GetByUserID E ctx u)"
  "keeps pg (getUserAdapter E ctx u)" "keeps redis (getUserAdapter E ctx u)"
  "keeps pg (begin_ceremony f a)" "keeps redis (begin_ceremony f a)"
  unfolding WebAuthnRepository_GetByUserID_def getUserAdapter_def
  by (intro io_keep | simp add: keeps_def begin_ceremony_def)+

lemma keeps_find_stored [io_keep]:
  "keeps pg (find_stored_id E ctx u wid cs acc)" "keeps redis (find_stored_id E ctx u wid cs acc)"
  by (induction cs arbitrary: acc) (auto simp: Let_def intro!: io_keep)

lemma keeps_webauthn_writes [io_keep]:
  "keeps redis (WebAuthnRepository_Create E ctx c)" "keeps redis (WebAuthnRepository_Update E ctx cid n)"
  unfolding WebAuthnRepository_Create_def WebAuthnRepository_Update_def by (intro io_keep)+

lemma keeps_ceremony_store [io_keep]:
  "keeps pg (SessionStore_SaveSession E k v ttl)" "keeps pg (SessionStore_GetSession E k)"
  unfolding SessionStore_SaveSession_def SessionStore_GetSession_def by (intro io_keep)+

lemma preserves_repo_writes:
  "flags_complete c \<Longrightarrow> preserves (\<lambda>w. credentials_ok (pg w)) (WebAuthnRepository_Create E ctx c)"
  "preserves (\<lambda>w. credentials_ok (pg w)) (WebAuthnRepository_Update E ctx cid n)"
  unfolding WebAuthnRepository_Create_def WebAuthnRepository_Update_def
  by (rule preserves_tryE preserves_bind preserves_ret preserves_pg_exec preserves_keeps_pg[OF keeps_uuid_New(1)]
      | erule insert_credential_ok update_sign_count_ok | assumption)+

lemma preserves_services [io_pres]:
  "preserves (\<lambda>w. credentials_ok (pg w)) (Service_FinishRegistration E L ctx u sd rq)"
  "preserves (\<lambda>w. credentials_ok (pg w)) (Service_FinishLogin E L ctx u sd rq)"
  "preserves (\<lambda>w. credentials_ok (pg w)) (Service_BeginRegistration E L ctx u)"
  "preserves (\<lambda>w. credentials_ok (pg w)) (BeginLoginByEmail E L ctx email)"
  unfolding Service_FinishRegistration_def Service_FinishLogin_def Service_BeginRegistration_def
    BeginLoginByEmail_def Service_BeginLogin_def
  by (rule preserves_tryE preserves_bind preserves_ret preserves_if preserves_repo_writes stored_flags keeps_ret
      | (rule preserves_keeps_pg, rule io_keep) | (simp only: split_beta))+

lemma keeps_pg_token_for_user [io_keep]: "keeps pg (GenerateTokenForUser E ctx u)"
  unfolding GenerateTokenForUser_def by (intro io_keep)

lemma preserves_handlers:
  "preserves (\<lambda>w. credentials_ok (pg w)) (Handler_BeginRegistration E L rq)"
  "preserves (\<lambda>w. credentials_ok (pg w)) (Handler_FinishRegistration E L rq)"
  "preserves (\<lambda>w. credentials_ok (pg w)) (Handler_FinishLogin E L rq)"
  "preserves (\<lambda>w. credentials_ok (pg w)) (Handler_BeginLogin E L rq)"
  unfolding Handler_BeginRegistration_def Handler_FinishRegistration_def Handler_FinishLogin_def Handler_BeginLogin_def
  by (auto split: option.split sum.split list.split prod.split
      intro!: preserves_bind preserves_ret preserves_case_sum preserves_services
        preserves_keeps_pg[OF keeps_ceremony_store(1)] preserves_keeps_pg[OF keeps_ceremony_store(2)]
        preserves_keeps_pg[OF keeps_pg_token_for_user])

text \<open>Under the invariant no stored credential makes a service panic.\<close>

lemma getUserAdapter_no_panic:
  assumes ok: "credentials_ok (pg w)" and run: "run_state (getUserAdapter E ctx userID) w = (Inl e, w')"
  shows "\<exists>pre d. e = wrap pre d"
proof -
  obtain r w1 where g: "run_state (UserRepository_GetByID E ctx userID) w = (r, w1)" by fastforce
  have p1: "pg w1 = pg w" by (rule keepsD[OF UserRepository_keeps(4) g])
  show ?thesis
  proof (cases r)
    case (Inl x)
    then show ?thesis using run g by (auto simp: getUserAdapter_def run_tryE)
  next
    case (Inr u)
    obtain r2 w2 where c: "run_state (WebAuthnRepository_GetByUserID E ctx userID) w1 = (r2, w2)" by fastforce
    show ?thesis
    proof (cases r2)
      case (Inl x)
      then show ?thesis using run g c Inr by (auto simp: getUserAdapter_def run_tryE)
    next
      case (Inr rows)
      have "set rows \<subseteq> set (webauthn_credentials (pg w))"
        using c Inr p1 by (auto simp: WebAuthnRepository_GetByUserID_def io_run split: sum.splits)
      then have "list_all flags_complete rows" using ok by (auto simp: credentials_ok_def list_all_iff)
      from lib_credentials_complete[OF this] obtain xs where xs: "lib_credentials rows = Inr xs" by blast
      have "run_state (getUserAdapter E ctx userID) w
          = (Inr \<lparr>wu_id = u_ID u, wu_name = u_Email u, wu_displayName = u_Email u, wu_credentials = xs\<rparr>, w2)"
        using g c \<open>r = Inr u\<close> Inr xs by (simp add: getUserAdapter_def run_tryE)
      then show ?thesis using run by simp
    qed
  qed
qed

section \<open>Login with a passkey\<close>

lemma GetSession_Inr:
  assumes "run_state (SessionStore_GetSession E key) w = (Inr session, w')"
  shows "\<exists>e t. redis w (''webauthn:'' @ key) = Some e \<and> r_val e = RStr session \<and> alive t e \<and> t = clock E (ticks w)"
    and "pg w' = pg w" and "ticks w' = ticks w + 2"
    and "redis_fault E (Suc (ticks w)) = None \<Longrightarrow> redis w' = (redis w)(''webauthn:'' @ key := None)"
  using assms
  by (auto simp: SessionStore_GetSession_def redis_GetString_def io_run redis_lookup_def redis_gate_def
      split: sum.splits option.splits rvalue.splits if_splits prod.splits)

text \<open>The steps of a passkey login that is answered with 200.\<close>

lemma FinishLogin_steps:
  assumes "run_state (Handler_FinishLogin E L rq) w = (rs, w')" "rs_status rs = 200"
  obtains uidStr uid session w1 cred w2 tp where "request_Cookie ''login_user_id'' rq = Some uidStr" "uuid_parse E uidStr = Inr uid"
    "run_state (SessionStore_GetSession E (''login:'' @ uidStr)) w = (Inr session, w1)"
    "run_state (Service_FinishLogin E L (rq_ctx rq) uid session rq) w1 = (Inr cred, w2)"
    "run_state (GenerateTokenForUser E (rq_ctx rq) uidStr) w2 = (Inr tp, w')"
    "rs = with_headers [(''Set-Cookie'', cleared_cookie)] (writeJSON 200 (LoginResponse_json
       (zeroLoginResponse\<lparr>lr_Token := AccessToken tp, lr_ExpiresIn := ExpiresIn tp\<rparr>)))"
proof -
  obtain uidStr where u: "request_Cookie ''login_user_id'' rq = Some uidStr"
    using assms by (cases "request_Cookie ''login_user_id'' rq") (auto simp: Handler_FinishLogin_def)
  obtain uid where p: "uuid_parse E uidStr = Inr uid"
    using assms u by (cases "uuid_parse E uidStr") (auto simp: Handler_FinishLogin_def)
  obtain s w1 where s: "run_state (SessionStore_GetSession E (''login:'' @ uidStr)) w = (s, w1)" by fastforce
  obtain session where s': "s = Inr session" using assms u p s by (cases s) (auto simp: Handler_FinishLogin_def)
  obtain r w2 where r: "run_state (Service_FinishLogin E L (rq_ctx rq) uid session rq) w1 = (r, w2)" by fastforce
  obtain cred where r': "r = Inr cred"
    using assms u p s s' r by (cases r) (auto simp: Handler_FinishLogin_def answer_error_def panicked_def split: go_error.splits)
  obtain t w3 where t: "run_state (GenerateTokenForUser E (rq_ctx rq) uidStr) w2 = (t, w3)" by fastforce
  obtain tp where t': "t = Inr tp" using assms u p s s' r r' t by (cases t) (auto simp: Handler_FinishLogin_def)
  have "w3 = w'" "rs = with_headers [(''Set-Cookie'', cleared_cookie)] (writeJSON 200 (LoginResponse_json
       (zeroLoginResponse\<lparr>lr_Token := AccessToken tp, lr_ExpiresIn := ExpiresIn tp\<rparr>)))"
    using assms(1) u p s s' r r' t t' by (auto simp: Handler_FinishLogin_def)
  then show thesis using that u p s s' r r' t t' by blast
qed

lemma keeps_users: "keeps pg m \<Longrightarrow> keeps (\<lambda>w. users (pg w)) m"
  by (simp add: keeps_def)

lemma keeps_users_sign_count: "keeps (\<lambda>w. users (pg w)) (pg_exec E ctx ids (update_sign_count E ctx cid n))"
  by (auto simp: keeps_def io_run update_sign_count_def Let_def split: sum.splits if_splits)

lemma keeps_users_FinishLogin: "keeps (\<lambda>w. users (pg w)) (Service_FinishLogin E L ctx u sd rq)"
  unfolding Service_FinishLogin_def WebAuthnRepository_Update_def
  by (rule keeps_tryE keeps_bind keeps_ret keeps_if keeps_users_sign_count keeps_users[OF keeps_webauthn_reads(3)]
      keeps_users[OF keeps_find_stored(1)])+

lemma getUserAdapter_Inr:
  assumes "run_state (getUserAdapter E ctx userID) w = (Inr u, w')"
  shows "wu_id u = userID \<and> lib_credentials (filter (\<lambda>c. wc_UserID c = userID \<and> credential_visible E ctx (pg w) c)
    (webauthn_credentials (pg w))) = Inr (wu_credentials u)"
proof -
  let ?adapter = "\<lambda>x xs. \<lparr>wu_id = u_ID x, wu_name = u_Email x, wu_displayName = u_Email x, wu_credentials = xs\<rparr>"
  obtain x w1 rows w2 where g: "run_state (UserRepository_GetByID E ctx userID) w = (Inr x, w1)"
    and c: "run_state (WebAuthnRepository_GetByUserID E ctx userID) w1 = (Inr rows, w2)"
    and l: "(case lib_credentials rows of Inl e \<Rightarrow> Inl e | Inr xs \<Rightarrow> Inr (?adapter x xs)) = Inr u"
    using assms by (auto simp: getUserAdapter_def run_tryE_Inr)
  obtain xs where xs: "lib_credentials rows = Inr xs" "u = ?adapter x xs" using l by (cases "lib_credentials rows") auto
  have "pg w1 = pg w" by (rule keepsD[OF UserRepository_keeps(4) g])
  then have "rows = filter (\<lambda>c. wc_UserID c = userID \<and> credential_visible E ctx (pg w) c) (webauthn_credentials (pg w))"
    using c by (auto simp: WebAuthnRepository_GetByUserID_def io_run split: sum.splits)
  moreover have "u_ID x = userID" by (rule GetByID_row[OF g])
  ultimately show ?thesis using xs by simp
qed

text \<open>
  C19: A passkey login that is answered with a token was proved: the cookie named a user, an unexpired login ceremony
  was stored for that user, and the library accepted the assertion for exactly that user's stored
  credentials and that ceremony; the token carries the id and the tenant of the stored user that the cookie names.
\<close>

theorem passkey_login_sound:
  assumes "run_state (Handler_FinishLogin E L rq) w = (rs, w')" "rs_status rs = 200"
  shows "\<exists>uidStr uid e session u cred r c token. request_Cookie ''login_user_id'' rq = Some uidStr \<and> uuid_parse E uidStr = Inr uid
    \<and> redis w (''webauthn:login:'' @ uidStr) = Some e \<and> r_val e = RStr session \<and> alive (clock E (ticks w)) e
    \<and> wl_FinishLogin L u session rq = Inr cred \<and> wu_id u = uid
    \<and> lib_credentials (filter (\<lambda>c. wc_UserID c = uid \<and> credential_visible E (rq_ctx rq) (pg w) c)
        (webauthn_credentials (pg w))) = Inr (wu_credentials u)
    \<and> r \<in> set (users (pg w)) \<and> ur_id r = uidStr
    \<and> jwt_sign E c = Inr token \<and> cl_UserID c = uidStr \<and> cl_TenantID c = ur_tenant_id r
    \<and> rs_body rs = LoginResponse_json (zeroLoginResponse\<lparr>lr_Token := token, lr_ExpiresIn := 86400\<rparr>)"
proof (rule FinishLogin_steps[OF assms])
  fix uidStr uid session w1 cred w2 tp
  assume ck: "request_Cookie ''login_user_id'' rq = Some uidStr" "uuid_parse E uidStr = Inr uid"
    and s: "run_state (SessionStore_GetSession E (''login:'' @ uidStr)) w = (Inr session, w1)"
    and f: "run_state (Service_FinishLogin E L (rq_ctx rq) uid session rq) w1 = (Inr cred, w2)"
    and t: "run_state (GenerateTokenForUser E (rq_ctx rq) uidStr) w2 = (Inr tp, w')"
    and rs: "rs = with_headers [(''Set-Cookie'', cleared_cookie)] (writeJSON 200 (LoginResponse_json
       (zeroLoginResponse\<lparr>lr_Token := AccessToken tp, lr_ExpiresIn := ExpiresIn tp\<rparr>)))"
  note ses = GetSession_Inr(1,2)[OF s]
  obtain u w1' where a: "run_state (getUserAdapter E (rq_ctx rq) uid) w1 = (Inr u, w1')"
    and lib: "\<exists>cr. wl_FinishLogin L u session rq = Inr cr"
    using f by (auto simp: Service_FinishLogin_def run_tryE_Inr)
  have users: "users (pg w2) = users (pg w)"
    using keepsD[OF keeps_users_FinishLogin f] ses(2) by simp
  obtain v w3 tok where gu: "run_state (UserRepository_GetByID E (rq_ctx rq) uidStr) w2 = (Inr v, w3)"
    and i: "run_state (issue_access_token E (rq_ctx rq) v) w3 = (Inr tok, w')"
    and tp: "tp = \<lparr>AccessToken = tok, RefreshTok = [], ExpiresIn = 86400\<rparr>"
    using t by (auto simp: GenerateTokenForUser_def run_tryE_Inr)
  from GetByID_row[OF gu] users obtain r where r: "r \<in> set (users (pg w))" "ur_id r = uidStr" "u_ID v = uidStr"
    "u_TenantID v = ur_tenant_id r" by auto
  from issue_access_token_claims[OF i] obtain c where c: "jwt_sign E c = Inr tok" "cl_UserID c = u_ID v"
    "cl_TenantID c = u_TenantID v" by blast
  have body: "rs_body rs = LoginResponse_json (zeroLoginResponse\<lparr>lr_Token := tok, lr_ExpiresIn := 86400\<rparr>)"
    by (simp add: rs tp with_headers_def writeJSON_def)
  show ?thesis using ck ses getUserAdapter_Inr[OF a] lib r c body by auto blast
qed

text \<open>The keys of the ceremonies: issuing a token writes role caches only.\<close>

definition ceremony_view :: "world \<Rightarrow> string \<Rightarrow> rentry option" where
  "ceremony_view w k = redis w (''webauthn:'' @ k)"

lemma keeps_ceremonies: "keeps redis m \<Longrightarrow> keeps ceremony_view m"
  by (simp add: keeps_def ceremony_view_def fun_eq_iff)

lemma keeps_ceremonies_role: "keeps ceremony_view (redis_Set E (role_key c u) v ttl)"
  by (simp add: keeps_def ceremony_view_def run_redis_Set role_key_def redis_put_def fun_eq_iff split: sum.splits)

lemma keeps_ceremonies_issue: "keeps ceremony_view (issue_access_token E ctx u)"
  unfolding issue_access_token_def CachedPolicyRepository_GetRolesForUser_def Cached_GetUserRole_def
    cached_role_miss_def Let_def
  by (rule keeps_bind keeps_if keeps_ret keeps_case_sum keeps_case_option keeps_ceremonies_role
      | (rule keeps_ceremonies, rule io_keep))+

lemma keeps_ceremonies_token: "keeps ceremony_view (GenerateTokenForUser E ctx u)"
  unfolding GenerateTokenForUser_def
  by (rule keeps_tryE keeps_ret keeps_ceremonies_issue keeps_ceremonies[OF UserRepository_keeps(5)])+

lemma keeps_ceremonies_login: "keeps ceremony_view (Service_FinishLogin E L ctx u sd rq)"
  unfolding Service_FinishLogin_def by (rule keeps_ceremonies) (intro io_keep)

lemma FinishLogin_consumes:
  assumes run: "run_state (Handler_FinishLogin E L rq) w = (rs, w')" "rs_status rs \<noteq> 400" and up: "redis_fault E = (\<lambda>_. None)"
  obtains uidStr where "request_Cookie ''login_user_id'' rq = Some uidStr" "redis w' (''webauthn:login:'' @ uidStr) = None"
proof -
  obtain uidStr where u: "request_Cookie ''login_user_id'' rq = Some uidStr"
    using run by (cases "request_Cookie ''login_user_id'' rq") (auto simp: Handler_FinishLogin_def)
  obtain uid where p: "uuid_parse E uidStr = Inr uid"
    using run u by (cases "uuid_parse E uidStr") (auto simp: Handler_FinishLogin_def)
  obtain s w1 where s: "run_state (SessionStore_GetSession E (''login:'' @ uidStr)) w = (s, w1)" by fastforce
  obtain session where s': "s = Inr session" using run u p s by (cases s) (auto simp: Handler_FinishLogin_def)
  obtain r w2 where r: "run_state (Service_FinishLogin E L (rq_ctx rq) uid session rq) w1 = (r, w2)" by fastforce
  obtain t w3 where t: "run_state (GenerateTokenForUser E (rq_ctx rq) uidStr) w2 = (t, w3)" by fastforce
  have "w' = w2 \<or> w' = w3" using run(1) u p s s' r t by (cases r) (auto simp: Handler_FinishLogin_def)
  then have "ceremony_view w' = ceremony_view w1"
    using keepsD[OF keeps_ceremonies_login r] keepsD[OF keeps_ceremonies_token t] by auto
  moreover have "ceremony_view w1 (''login:'' @ uidStr) = None"
    using GetSession_Inr(4)[of E "''login:'' @ uidStr" w session w1] s s' up by (simp add: ceremony_view_def)
  ultimately show thesis using that u by (simp add: ceremony_view_def fun_eq_iff)
qed

text \<open>
  C20: A login ceremony is used once. Whatever the outcome of a first attempt that got past the session lookup,
  with Redis up a second request with the same cookie, even with the same assertion, is answered with 400.
\<close>

theorem passkey_session_single_use:
  assumes "run_state (Handler_FinishLogin E L rq) w = (rs, w')" "rs_status rs \<noteq> 400"
    and "redis_fault E = (\<lambda>_. None)" "request_Cookie ''login_user_id'' rq' = request_Cookie ''login_user_id'' rq"
  shows "rs_status (fst (run_state (Handler_FinishLogin E L rq') w')) = 400"
proof (rule FinishLogin_consumes[OF assms(1-3)])
  fix uidStr assume u: "request_Cookie ''login_user_id'' rq = Some uidStr" and none: "redis w' (''webauthn:login:'' @ uidStr) = None"
  have "run_state (SessionStore_GetSession E (''login:'' @ uidStr)) w' = (Inl (ErrorString ''session not found''), tick w')"
    using none assms(3) by (simp add: SessionStore_GetSession_def redis_GetString_def io_run redis_gate_def redis_lookup_def)
  then show ?thesis using u assms(4)
    by (cases "uuid_parse E uidStr") (auto simp: Handler_FinishLogin_def)
qed

section \<open>A passkey of a suspended user\<close>

definition demo_credential :: webauthn_Credential where
  "demo_credential = \<lparr>lc_ID = [1, 2], lc_PublicKey = [3], lc_AttestationType = ''none'', lc_Transport = [''internal''],
     lc_UserPresent = True, lc_UserVerified = True, lc_BackupEligible = False, lc_BackupState = False, lc_SignCount = 5\<rparr>"

definition demo_lib :: webauthn_lib where
  "demo_lib = \<lparr>wl_BeginRegistration = (\<lambda>n u. Inr (JNull, ''challenge'')), wl_FinishRegistration = (\<lambda>u s rq. Inr demo_credential),
     wl_BeginLogin = (\<lambda>n u. Inr (JNull, ''challenge'')),
     wl_FinishLogin = (\<lambda>u s rq. if s = ''challenge'' \<and> wu_credentials u \<noteq> [] then Inr (hd (wu_credentials u))
        else Inl (Driver ''invalid assertion''))\<rparr>"

definition passkey_world :: world where
  "passkey_world = suspended_world\<lparr>pg := (pg suspended_world)\<lparr>webauthn_credentials :=
       [(stored_credential ''u1'' demo_credential)\<lparr>wc_ID := ''k1''\<rparr>]\<rparr>,
     redis := (redis suspended_world)(''webauthn:login:u1'' \<mapsto> \<lparr>r_val = RStr ''challenge'', r_expires = None\<rparr>)\<rparr>"

definition passkey_request :: request where
  "passkey_request = \<lparr>rq_header = (\<lambda>h. if h = ''Cookie'' then ''theme=dark; login_user_id=u1'' else []), rq_RemoteAddr = [],
     rq_param = (\<lambda>_. []), rq_query = (\<lambda>_. []), rq_body = None, rq_ctx = background\<rparr>"

lemma passkey_run: "rs_status (fst (run_state (Handler_FinishLogin owner_env demo_lib passkey_request) passkey_world)) = 200"
  by code_simp

theorem passkey_login_sound_witness:
  "\<exists>u cred. wl_FinishLogin demo_lib u ''challenge'' passkey_request = Inr cred \<and> wu_id u = ''u1''"
proof -
  have ck: "request_Cookie ''login_user_id'' passkey_request = Some ''u1''" by code_simp
  have parse: "uuid_parse owner_env ''u1'' = Inr ''u1''" by (simp add: owner_env_def demo_env_def)
  from passkey_login_sound[OF prod.collapse[symmetric] passkey_run] show ?thesis
    by (auto simp: ck parse passkey_world_def)
qed

theorem passkey_session_single_use_witness:
  "rs_status (fst (run_state (Handler_FinishLogin owner_env demo_lib passkey_request)
     (snd (run_state (Handler_FinishLogin owner_env demo_lib passkey_request) passkey_world)))) = 400"
  by (rule passkey_session_single_use[OF prod.collapse[symmetric] _ _ refl])
    (simp_all add: passkey_run, simp add: owner_env_def demo_env_def)

text \<open>
  The passkey login does not look at the status of the account: the user of this world is suspended, the password login
  refuses it, and the passkey login answers with a token.
\<close>

lemma passkey_login_ignores_status:
  "fst (run_state (Login owner_env background ''ana'' ''pw'') passkey_world) = Inl (Sentinel ErrUserNotActive)
   \<and> rs_status (fst (run_state (Handler_FinishLogin owner_env demo_lib passkey_request) passkey_world)) = 200"
  using passkey_run by (simp, code_simp)

text \<open>A counter of 31 bits or more, which an authenticator may report, cannot be stored: the login fails although the assertion is good.\<close>

lemma large_counter_refused:
  assumes "\<not> fits_int4 (wc_SignCount c)"
  shows "\<exists>e w'. run_state (WebAuthnRepository_Create E ctx c) w = (Inl e, w') \<and> pg w' = pg w"
    "\<not> fits_int4 n \<Longrightarrow> \<exists>e w'. run_state (WebAuthnRepository_Update E ctx cid n) w = (Inl e, w') \<and> pg w' = pg w"
  using assms by (auto simp: WebAuthnRepository_Create_def WebAuthnRepository_Update_def io_run insert_credential_def
      update_sign_count_def Let_def split: sum.splits)

text \<open>
  The repository sends its statements without a tenant. For a database role that is subject to row-level security they reach only users
  of the zero tenant: everyone else can neither store a passkey nor find one.
\<close>

lemma rls_refuses_passkeys:
  assumes "\<not> rls_bypass E" "\<not> ctx_tx ctx" "\<forall>r \<in> set (users (pg w)). ur_tenant_id r \<noteq> zero_uuid"
  shows "isl (fst (run_state (WebAuthnRepository_Create E ctx c) w))"
    "run_state (WebAuthnRepository_GetByUserID E ctx u) w = (Inr rows, w') \<Longrightarrow> rows = []"
proof -
  have no: "\<not> credential_visible E ctx (pg w) x" for x
    using assms by (auto simp: credential_visible_def tenant_setting_def)
  then show "isl (fst (run_state (WebAuthnRepository_Create E ctx c) w))"
    by (simp add: WebAuthnRepository_Create_def io_run insert_credential_def Let_def split: sum.split)
  show "run_state (WebAuthnRepository_GetByUserID E ctx u) w = (Inr rows, w') \<Longrightarrow> rows = []"
    using no by (auto simp: WebAuthnRepository_GetByUserID_def io_run split: sum.splits)
qed

end
