(* ===== verification/Document_Port.thy ===== *)
theory Document_Port
  imports Registration
begin

text \<open>
  The decorators around the registry of CPFs, in the order of \<^verbatim>\<open>cmd/identity-api/main.go\<close>: the Redis cache, the circuit breaker
  (\<^verbatim>\<open>resilience/circuit_breaker_verification.go\<close>), the metrics (\<^verbatim>\<open>telemetry/metrics_verification.go\<close>) and the adapter; and the
  records of verifications (\<^verbatim>\<open>postgres/verification_repo.go\<close>) that the goroutine of \<^verbatim>\<open>service/document_service.go\<close>
  writes. The breaker of \<^verbatim>\<open>sony/gobreaker\<close> is a parameter: at each call it refuses with one of its errors or runs the
  function. What the metrics record is no part of the state.
\<close>

section \<open>Circuit breaker\<close>

datatype refusal = ErrOpenState | ErrTooManyRequests

definition refusal_error :: "refusal \<Rightarrow> go_error" where
  "refusal_error r = Driver (case r of ErrOpenState \<Rightarrow> ''circuit breaker is open'' | ErrTooManyRequests \<Rightarrow> ''too many requests'')"

record breaker_Counts =
  bc_Requests :: "32 word"
  bc_TotalFailures :: "32 word"

text \<open>
  \<^verbatim>\<open>ReadyToTrip\<close>: the quotient of two 32-bit counters as \<^verbatim>\<open>float64\<close> compares with \<^verbatim>\<open>0.6\<close> as the rational numbers do, since
  a difference is at least \<open>1 / (5 * 2 ^ 32)\<close>; the quotient by zero only arises where the first test is false.
\<close>

definition ReadyToTrip :: "breaker_Counts \<Rightarrow> bool" where
  "ReadyToTrip c \<longleftrightarrow> 3 \<le> uint (bc_Requests c) \<and> 3 * uint (bc_Requests c) \<le> 5 * uint (bc_TotalFailures c)"

text \<open>The breaker's decision at a call, by the number of calls so far.\<close>

definition breaker_Execute :: "(nat \<Rightarrow> refusal option) \<Rightarrow> ('a result) io \<Rightarrow> (refusal + 'a result) io" where
  "breaker_Execute gate fn = State (\<lambda>w. case gate (ticks w) of
     Some r \<Rightarrow> (Inl r, tick w)
   | None \<Rightarrow> (case run_state fn (tick w) of (x, w') \<Rightarrow> (Inr x, w')))"

definition CircuitBreaker_VerifyCPF :: "(nat \<Rightarrow> refusal option) \<Rightarrow> verification_port \<Rightarrow> verification_port" where
  "CircuitBreaker_VerifyCPF gate delegate ctx cpf = do {
     r \<leftarrow> breaker_Execute gate (delegate ctx cpf);
     ret (case r of
       Inl ErrOpenState \<Rightarrow> Inl (wrap ''service unavailable (circuit open): '' (refusal_error ErrOpenState))
     | Inl ErrTooManyRequests \<Rightarrow> Inl (refusal_error ErrTooManyRequests)
     | Inr x \<Rightarrow> x) }"

section \<open>Metrics\<close>

definition Metric_VerifyCPF :: "environ \<Rightarrow> verification_port \<Rightarrow> verification_port" where
  "Metric_VerifyCPF E delegate ctx cpf = do {
     start \<leftarrow> time_Now E;
     result \<leftarrow> delegate ctx cpf;
     stop \<leftarrow> time_Now E;
     ret result }"

section \<open>The chain\<close>

definition decorated_port ::
    "environ \<Rightarrow> (nat \<Rightarrow> refusal option) \<Rightarrow> string \<Rightarrow> string \<Rightarrow> (string \<Rightarrow> serpro_reply) \<Rightarrow> verification_port" where
  "decorated_port E gate baseURL apiKey http =
     CachedVerifyCPF E (CircuitBreaker_VerifyCPF gate (Metric_VerifyCPF E (SerproAdapter_VerifyCPF E baseURL apiKey http)))
       (24 * hour)"

section \<open>Verification records\<close>

text \<open>\<open>jsonText\<close> is the text of a JSON value as \<^verbatim>\<open>encoding/json\<close> and the \<^verbatim>\<open>JSONB\<close> column print it.\<close>

definition insert_verification :: "(json \<Rightarrow> string) \<Rightarrow> VerificationRecord \<Rightarrow> time \<Rightarrow> tables \<Rightarrow> (tables \<times> nat) result" where
  "insert_verification jsonText r t db =
     (if vr_ID r \<in> vr_ID ` set (document_verifications db) then violation ''duplicate key: document_verifications_pkey''
      else Inr (db\<lparr>document_verifications := document_verifications db @ [r\<lparr>vr_Metadata := jsonText (JStr (vr_Metadata r))\<rparr>]\<rparr>, 1))"

definition VerificationRepository_Save :: "environ \<Rightarrow> (json \<Rightarrow> string) \<Rightarrow> reqctx \<Rightarrow> VerificationRecord \<Rightarrow> (unit result) io" where
  "VerificationRepository_Save E jsonText ctx r =
     tryE (pg_exec E (pool ctx) [vr_ID r] (insert_verification jsonText r)) (wrap ''failed to save verification record: '')
       (\<lambda>_. ret (Inr ()))"

definition VerificationRepository_GetByDocument ::
    "environ \<Rightarrow> reqctx \<Rightarrow> string \<Rightarrow> string \<Rightarrow> (VerificationRecord list result) io" where
  "VerificationRepository_GetByDocument E ctx docType docValue =
     tryE (pg_query E (pool ctx) [] (\<lambda>db. sort_key (\<lambda>r. - vr_CreatedAt r)
        (filter (\<lambda>r. vr_Type r = docType \<and> vr_Document r = docValue) (document_verifications db))))
       (wrap ''failed to query verifications: '') (\<lambda>rows. ret (Inr rows))"

text \<open>The goroutine that \<^verbatim>\<open>ValidateAndNormalizeCPF\<close> starts.\<close>

definition run_SaveVerification :: "environ \<Rightarrow> (json \<Rightarrow> string) \<Rightarrow> string \<Rightarrow> string \<Rightarrow> bool \<Rightarrow> unit io" where
  "run_SaveVerification E jsonText masked source valid = do {
     vid \<leftarrow> uuid_New E;
     now \<leftarrow> time_Now E;
     _ \<leftarrow> VerificationRepository_Save E jsonText background \<lparr>vr_ID = vid, vr_Document = masked, vr_Type = ''CPF'',
       vr_Source = source, vr_Valid = valid, vr_Metadata = [], vr_CreatedAt = now\<rparr>;
     ret () }"

section \<open>What the decorators keep\<close>

text \<open>
  The contract of a port: an answer for a CPF satisfies \<open>good\<close>, as long as the state satisfies \<open>inv\<close>, which a call
  keeps. A decorator is correct when it turns a port with the contract into one.
\<close>

locale sound_port =
  fixes port :: verification_port
    and good :: "string \<Rightarrow> DocumentVerificationResult \<Rightarrow> bool"
    and inv :: "world \<Rightarrow> bool"
  assumes answers: "inv w \<Longrightarrow> run_state (port ctx cpf) w = (Inr d, w') \<Longrightarrow> good cpf d"
    and keeps_inv: "inv w \<Longrightarrow> inv (snd (run_state (port ctx cpf) w))"
begin

lemma inv_after: "inv w \<Longrightarrow> run_state (port ctx cpf) w = (r, w') \<Longrightarrow> inv w'"
  using keeps_inv by (metis snd_conv)

text \<open>A validation that the external source rejects never gives a CPF, and what is accepted had no bad answer.\<close>

lemma rejected_only_by_answer:
  assumes "inv w" "run_state (ValidateAndNormalizeCPF (Some port) hasRepo ctx cpf) w = (Inl e, w')"
    and "NewCPF cpf = Inr c" "CPF_Value c = VString n"
  shows "\<exists>d. good n d \<and> \<not> dv_Valid d \<and> e = ErrorString (''CPF invalid according to external source: '' @ dv_Situation d)"
proof -
  obtain r w1 where p: "run_state (port ctx n) w = (r, w1)" by fastforce
  show ?thesis
  proof (cases r)
    case (Inl x)
    then show ?thesis using assms(2-4) p by (auto simp: ValidateAndNormalizeCPF_def Let_def io_run split: if_splits)
  next
    case (Inr d)
    then show ?thesis using assms p answers[OF assms(1), of ctx n d w1]
      by (auto simp: ValidateAndNormalizeCPF_def Let_def io_run split: if_splits)
  qed
qed

end

text \<open>An invariant that looks at the Redis data only.\<close>

definition redis_inv :: "((string \<rightharpoonup> rentry) \<Rightarrow> bool) \<Rightarrow> world \<Rightarrow> bool" where
  "redis_inv P w \<longleftrightarrow> P (redis w)"

lemma tick_redis: "redis_inv P (tick w) = redis_inv P w"
  by (simp add: redis_inv_def)

lemma run_CircuitBreaker:
  "run_state (CircuitBreaker_VerifyCPF gate port ctx cpf) w = (case gate (ticks w) of
     Some r \<Rightarrow> (Inl (case r of ErrOpenState \<Rightarrow> wrap ''service unavailable (circuit open): '' (refusal_error ErrOpenState)
        | ErrTooManyRequests \<Rightarrow> refusal_error ErrTooManyRequests), tick w)
   | None \<Rightarrow> run_state (port ctx cpf) (tick w))"
  by (simp add: CircuitBreaker_VerifyCPF_def breaker_Execute_def split: option.split refusal.split prod.split)

lemma sound_breaker:
  assumes "sound_port port good (redis_inv P)"
  shows "sound_port (CircuitBreaker_VerifyCPF gate port) good (redis_inv P)"
proof
  fix w ctx cpf d w'
  assume i: "redis_inv P w"
  show "run_state (CircuitBreaker_VerifyCPF gate port ctx cpf) w = (Inr d, w') \<Longrightarrow> good cpf d"
    using sound_port.answers[OF assms, of "tick w" ctx cpf d w'] i
    by (auto simp: run_CircuitBreaker tick_redis split: option.splits)
  show "redis_inv P (snd (run_state (CircuitBreaker_VerifyCPF gate port ctx cpf) w))"
    using sound_port.keeps_inv[OF assms, of "tick w" ctx cpf] i
    by (auto simp: run_CircuitBreaker tick_redis split: option.splits)
qed

lemma run_Metric:
  "run_state (Metric_VerifyCPF E port ctx cpf) w = (fst (run_state (port ctx cpf) (tick w)), tick (snd (run_state (port ctx cpf) (tick w))))"
  by (simp add: Metric_VerifyCPF_def io_run split: prod.split)

lemma sound_metrics:
  assumes "sound_port port good (redis_inv P)"
  shows "sound_port (Metric_VerifyCPF E port) good (redis_inv P)"
proof
  fix w ctx cpf d w'
  assume i: "redis_inv P w"
  show "run_state (Metric_VerifyCPF E port ctx cpf) w = (Inr d, w') \<Longrightarrow> good cpf d"
    using sound_port.answers[OF assms, of "tick w" ctx cpf d "snd (run_state (port ctx cpf) (tick w))"] i
    by (metis Pair_inject run_Metric prod.collapse tick_redis)
  show "redis_inv P (snd (run_state (Metric_VerifyCPF E port ctx cpf) w))"
    using sound_port.keeps_inv[OF assms, of "tick w" ctx cpf] i by (simp add: run_Metric tick_redis)
qed

text \<open>Every cached answer is good for the CPF of its key.\<close>

definition cached_good :: "(string \<Rightarrow> DocumentVerificationResult \<Rightarrow> bool) \<Rightarrow> (string \<rightharpoonup> rentry) \<Rightarrow> bool" where
  "cached_good good m \<longleftrightarrow> (\<forall>cpf e d. m (''document:verification:cpf:'' @ cpf) = Some e \<longrightarrow> r_val e = RDocument d \<longrightarrow> good cpf d)"

lemma cached_good_put:
  "cached_good good m \<Longrightarrow> good cpf d \<Longrightarrow> cached_good good (redis_put now (''document:verification:cpf:'' @ cpf) (RDocument d) ttl m)"
  by (auto simp: cached_good_def redis_put_def)

lemma sound_cache:
  assumes "sound_port port good (redis_inv (cached_good good))"
  shows "sound_port (CachedVerifyCPF E port ttl) good (redis_inv (cached_good good))"
proof -
  have step: "(case fst (run_state (CachedVerifyCPF E port ttl ctx cpf) w) of Inl _ \<Rightarrow> True | Inr d \<Rightarrow> good cpf d)
      \<and> redis_inv (cached_good good) (snd (run_state (CachedVerifyCPF E port ttl ctx cpf) w))"
    if i: "redis_inv (cached_good good) w" for w ctx cpf
  proof -
    let ?key = "''document:verification:cpf:'' @ cpf"
    obtain v where g: "run_state (redis_Get E ?key) w = (v, tick w)" by (simp add: io_run)
    have hit: "good cpf d" if "v = Inr (Some (RDocument d))" for d
      using g that i by (auto simp: io_run redis_lookup_def redis_inv_def cached_good_def split: sum.splits option.splits if_splits)
    obtain r w1 where p: "run_state (port ctx cpf) (tick w) = (r, w1)" by fastforce
    have i1: "redis_inv (cached_good good) w1"
      using sound_port.inv_after[OF assms _ p] i by (simp add: tick_redis)
    have ans: "good cpf d" if "r = Inr d" for d
      using sound_port.answers[OF assms, of "tick w" ctx cpf d w1] p i that by (simp add: tick_redis)
    have put: "redis_inv (cached_good good) (snd (run_state (redis_Set E ?key (RDocument d) ttl) w1))" if "r = Inr d" for d
      using i1 ans[OF that] cached_good_put by (auto simp: io_run redis_inv_def split: sum.split)
    have miss: "(case fst (run_state (tryE (port ctx cpf) (\<lambda>e. e) (\<lambda>result. do {
        _ \<leftarrow> redis_Set E ?key (RDocument result) ttl; ret (Inr result) })) (tick w)) of Inl _ \<Rightarrow> True | Inr d \<Rightarrow> good cpf d)
      \<and> redis_inv (cached_good good) (snd (run_state (tryE (port ctx cpf) (\<lambda>e. e) (\<lambda>result. do {
        _ \<leftarrow> redis_Set E ?key (RDocument result) ttl; ret (Inr result) })) (tick w)))"
      using p i1 ans put by (cases r) (auto simp: run_tryE split: prod.split)
    show ?thesis
    proof (cases "\<exists>d. v = Inr (Some (RDocument d))")
      case True
      then show ?thesis using g hit i by (auto simp: CachedVerifyCPF_def Let_def tick_redis)
    next
      case False
      then have "run_state (CachedVerifyCPF E port ttl ctx cpf) w = run_state (tryE (port ctx cpf) (\<lambda>e. e) (\<lambda>result. do {
          _ \<leftarrow> redis_Set E ?key (RDocument result) ttl; ret (Inr result) })) (tick w)"
        using g by (auto simp: CachedVerifyCPF_def Let_def split: sum.split option.split rvalue.split)
      then show ?thesis using miss by simp
    qed
  qed
  show ?thesis
  proof
    fix w ctx cpf d w'
    assume "redis_inv (cached_good good) w" "run_state (CachedVerifyCPF E port ttl ctx cpf) w = (Inr d, w')"
    then show "good cpf d" using step[where w = w and ctx = ctx and cpf = cpf] by simp
  qed (use step in blast)
qed

section \<open>The registry's answers\<close>

text \<open>What the adapter may answer for a CPF, given what the registry replies.\<close>

definition serpro_spec :: "string \<Rightarrow> string \<Rightarrow> (string \<Rightarrow> serpro_reply) \<Rightarrow> string \<Rightarrow> DocumentVerificationResult \<Rightarrow> bool" where
  "serpro_spec baseURL apiKey http cpf d \<longleftrightarrow>
     (if baseURL = [] \<or> apiKey = [] then dv_Valid d \<and> dv_Situation d = ''REGULAR (MOCKED)''
      else case http (baseURL @ ''/consulta/cpf/v1/cpf/'' @ cpf) of
        HttpStatus n \<Rightarrow> n = 404 \<and> \<not> dv_Valid d \<and> dv_Situation d = ''NOT_FOUND''
      | HttpOK (Some (nome, descricao)) \<Rightarrow> dv_Valid d = (descricao = ''REGULAR'') \<and> dv_Situation d = descricao \<and> dv_Name d = nome
      | _ \<Rightarrow> False)"

interpretation serpro: sound_port "SerproAdapter_VerifyCPF E baseURL apiKey http" "serpro_spec baseURL apiKey http" "redis_inv P"
  for E baseURL apiKey http P
  by unfold_locales (auto simp: SerproAdapter_VerifyCPF_def serpro_spec_def redis_inv_def io_run
      split: serpro_reply.splits option.splits if_splits prod.splits)

interpretation decorated: sound_port "decorated_port E gate baseURL apiKey http" "serpro_spec baseURL apiKey http"
  "redis_inv (cached_good (serpro_spec baseURL apiKey http))" for E gate baseURL apiKey http
  unfolding decorated_port_def
  by (intro sound_cache sound_breaker sound_metrics) (rule serpro.sound_port_axioms)

text \<open>
  Registration refuses a well-formed CPF only on the registry's word. Through the cache, the breaker and the metrics, with a cache
  that holds answers of the registry (the empty one, and every cache a call leaves), a validation fails only when the
  registry has answered for this CPF that it is unknown or not regular; refusals of the breaker, timeouts and
  undecodable replies never reject.
\<close>

theorem cpf_rejected_only_by_registry:
  assumes "redis_inv (cached_good (serpro_spec baseURL apiKey http)) w"
    and "run_state (ValidateAndNormalizeCPF (Some (decorated_port E gate baseURL apiKey http)) hasRepo ctx cpf) w = (Inl e, w')"
    and "NewCPF cpf = Inr c" "CPF_Value c = VString n"
  shows "baseURL \<noteq> [] \<and> apiKey \<noteq> []
    \<and> (http (baseURL @ ''/consulta/cpf/v1/cpf/'' @ n) = HttpStatus 404
       \<or> (\<exists>nome descricao. http (baseURL @ ''/consulta/cpf/v1/cpf/'' @ n) = HttpOK (Some (nome, descricao)) \<and> descricao \<noteq> ''REGULAR''))"
  using decorated.rejected_only_by_answer[OF assms]
  by (auto simp: serpro_spec_def split: if_splits serpro_reply.splits option.splits)

theorem cpf_rejected_only_by_registry_witness:
  "isl (fst (run_state (ValidateAndNormalizeCPF (Some (decorated_port demo_env (\<lambda>_. None) ''u'' ''k'' (\<lambda>_. HttpStatus 404))) True background
     ''529.982.247-25'') empty_world))
   \<and> (\<lambda>_ :: string. HttpStatus 404) (''u'' @ ''/consulta/cpf/v1/cpf/'' @ ''52998224725'') = HttpStatus 404"
proof -
  let ?http = "\<lambda>_ :: string. HttpStatus 404"
  let ?m = "run_state (ValidateAndNormalizeCPF (Some (decorated_port demo_env (\<lambda>_. None) ''u'' ''k'' ?http)) True background
     ''529.982.247-25'') empty_world"
  have bad: "isl (fst ?m)" by code_simp
  then have run: "?m = (Inl (projl (fst ?m)), snd ?m)" by (metis prod.collapse sum.collapse(1))
  have inv: "redis_inv (cached_good (serpro_spec ''u'' ''k'' ?http)) empty_world"
    by (simp add: redis_inv_def cached_good_def empty_world_def)
  have n: "\<exists>c. NewCPF ''529.982.247-25'' = Inr c \<and> CPF_Value c = VString ''52998224725''"
  proof -
    have "\<not> isl (NewCPF ''529.982.247-25'')" "CPF_Value (projr (NewCPF ''529.982.247-25'')) = VString ''52998224725''" by code_simp+
    then show ?thesis by (metis sum.collapse(2))
  qed
  then obtain c where c: "NewCPF ''529.982.247-25'' = Inr c" "CPF_Value c = VString ''52998224725''" by blast
  show ?thesis using bad cpf_rejected_only_by_registry[OF inv run c] by simp
qed

section \<open>Breaker and records\<close>

text \<open>An open breaker answers without calling the registry, and a closed one is transparent.\<close>

lemma breaker_open_fails_fast:
  "gate (ticks w) = Some r \<Longrightarrow> \<exists>e. run_state (CircuitBreaker_VerifyCPF gate port ctx cpf) w = (Inl e, tick w)"
  "gate (ticks w) = None \<Longrightarrow> run_state (CircuitBreaker_VerifyCPF gate port ctx cpf) w = run_state (port ctx cpf) (tick w)"
  by (simp_all add: run_CircuitBreaker)

text \<open>Two failures of three calls trip the breaker; one never does, and no failure count does before the third call.\<close>

lemma ReadyToTrip_examples:
  "ReadyToTrip \<lparr>bc_Requests = 3, bc_TotalFailures = 2\<rparr>" "\<not> ReadyToTrip \<lparr>bc_Requests = 3, bc_TotalFailures = 1\<rparr>"
  "ReadyToTrip \<lparr>bc_Requests = 5, bc_TotalFailures = 3\<rparr>"
  "uint (bc_Requests c) < 3 \<Longrightarrow> \<not> ReadyToTrip c"
  by (simp_all add: ReadyToTrip_def)

text \<open>The record of a validation holds the masked document and the source only.\<close>

lemma verification_record_masked:
  assumes "run_state (run_SaveVerification E jsonText masked source valid) w = ((), w')"
  shows "document_verifications (pg w') = document_verifications (pg w) \<or>
    (\<exists>r. document_verifications (pg w') = document_verifications (pg w) @ [r] \<and> vr_Document r = masked \<and> vr_Source r = source
      \<and> vr_Valid r = valid \<and> vr_Type r = ''CPF'')"
  using assms by (auto simp: run_SaveVerification_def VerificationRepository_Save_def insert_verification_def io_run
      split: sum.splits if_splits)

text \<open>Metadata does not survive: the empty text is stored as a JSON string and read back as its two quotes.\<close>

lemma metadata_not_round_trip:
  assumes "jsonText (JStr []) = [CHR 0x22, CHR 0x22]" "insert_verification jsonText (r\<lparr>vr_Metadata := []\<rparr>) t db = Inr (db', n)"
  shows "\<exists>r' \<in> set (document_verifications db'). vr_ID r' = vr_ID r \<and> vr_Metadata r' \<noteq> []"
  using assms by (auto simp: insert_verification_def split: if_splits)

end
