(* ===== verification/Dashboard.thy ===== *)
theory Dashboard
  imports Complex_Main Middleware Startup "HOL-Library.Sublist"
begin

text \<open>
  What the administration dashboard shows: the statistics (\<^verbatim>\<open>handlers/stats_handler.go\<close>), the stream of server-sent events
  (\<^verbatim>\<open>handlers/sse_handler.go\<close>), and the invoices of \<^verbatim>\<open>cmd/billing-worker/main.go\<close>. How a time prints as a date, how JSON is read
  and written, and the keys that \<^verbatim>\<open>KEYS\<close> lists are parameters.
\<close>

section \<open>Statistics\<close>

record DashboardStats =
  ds_TotalUsers :: int
  ds_ActiveSessions :: int
  ds_RiskEvents24h :: int
  ds_AuthsToday :: int
  ds_BlockedLogins :: int
  ds_LastUpdated :: time

definition getTotalUsers :: "environ \<Rightarrow> reqctx \<Rightarrow> (int result) io" where
  "getTotalUsers E ctx = pg_query E (pool ctx) [] (\<lambda>db. int (length (filter (user_visible E (pool ctx) db) (users db))))"

text \<open>\<open>keys\<close> is the answer of \<^verbatim>\<open>KEYS session:*\<close> over the data at a time.\<close>

type_synonym redis_keys = "time \<Rightarrow> (string \<rightharpoonup> rentry) \<Rightarrow> string list"

definition getActiveSessions :: "environ \<Rightarrow> redis_keys \<Rightarrow> (int result) io" where
  "getActiveSessions E keys = State (\<lambda>w. (case redis_gate E w of Inl e \<Rightarrow> Inl e
     | Inr now \<Rightarrow> Inr (int (length (keys now (redis w)))), tick w))"

text \<open>The query compares with the database's \<^verbatim>\<open>NOW()\<close>.\<close>

definition getRiskEvents24h :: "environ \<Rightarrow> reqctx \<Rightarrow> (int result) io" where
  "getRiskEvents24h E ctx = State (\<lambda>w. case pg_gate E (pool ctx) [] w of
     Inl e \<Rightarrow> (Inl e, tick w)
   | Inr now \<Rightarrow> (Inr (int (length (filter (\<lambda>r. strings_Contains (ob_event_type r) ''Risk'' \<and> now - 24 * hour < ob_created_at r)
        (outbox_events (pg w))))), tick w))"

definition get_counter :: "environ \<Rightarrow> (time \<Rightarrow> string) \<Rightarrow> string \<Rightarrow> (int result) io" where
  "get_counter E date pre = do {
     now \<leftarrow> time_Now E;
     r \<leftarrow> redis_Get E (pre @ date now);
     ret (case r of
       Inl e \<Rightarrow> Inl e
     | Inr None \<Rightarrow> Inr 0
     | Inr (Some (RInt n)) \<Rightarrow> Inr n
     | Inr (Some _) \<Rightarrow> Inl (Driver ''strconv.ParseInt: invalid syntax'')) }"

definition getAuthsToday :: "environ \<Rightarrow> (time \<Rightarrow> string) \<Rightarrow> (int result) io" where
  "getAuthsToday E date = get_counter E date ''stats:auths:''"

definition getBlockedLogins :: "environ \<Rightarrow> (time \<Rightarrow> string) \<Rightarrow> (int result) io" where
  "getBlockedLogins E date = get_counter E date ''stats:blocked:''"

definition or_zero :: "int result \<Rightarrow> int" where
  "or_zero r = (case r of Inl _ \<Rightarrow> 0 | Inr n \<Rightarrow> n)"

definition collect_stats :: "environ \<Rightarrow> redis_keys \<Rightarrow> (time \<Rightarrow> string) \<Rightarrow> reqctx \<Rightarrow> DashboardStats io" where
  "collect_stats E keys date ctx = do {
     now \<leftarrow> time_Now E;
     u \<leftarrow> getTotalUsers E ctx;
     s \<leftarrow> getActiveSessions E keys;
     k \<leftarrow> getRiskEvents24h E ctx;
     a \<leftarrow> getAuthsToday E date;
     b \<leftarrow> getBlockedLogins E date;
     ret \<lparr>ds_TotalUsers = or_zero u, ds_ActiveSessions = or_zero s, ds_RiskEvents24h = or_zero k, ds_AuthsToday = or_zero a,
       ds_BlockedLogins = or_zero b, ds_LastUpdated = now\<rparr> }"

definition Stats_json :: "DashboardStats \<Rightarrow> json" where
  "Stats_json d = JObj [(''total_users'', JNum (ds_TotalUsers d)), (''active_sessions'', JNum (ds_ActiveSessions d)),
     (''risk_events_24h'', JNum (ds_RiskEvents24h d)), (''auths_today'', JNum (ds_AuthsToday d)),
     (''blocked_logins'', JNum (ds_BlockedLogins d)), (''last_updated'', JNum (ds_LastUpdated d))]"

definition GetStats :: "environ \<Rightarrow> redis_keys \<Rightarrow> (time \<Rightarrow> string) \<Rightarrow> handler" where
  "GetStats E keys date rq = do { stats \<leftarrow> collect_stats E keys date (rq_ctx rq); ret (writeJSON 200 (Stats_json stats)) }"

text \<open>The two commands of a pipeline travel together.\<close>

definition increment_counter :: "environ \<Rightarrow> (time \<Rightarrow> string) \<Rightarrow> string \<Rightarrow> (unit result) io" where
  "increment_counter E date pre = do {
     now \<leftarrow> time_Now E;
     let key = pre @ date now;
     State (\<lambda>w. case redis_gate E w of
       Inl e \<Rightarrow> (Inl e, tick w)
     | Inr t \<Rightarrow> (case redis_incr_at t key (redis w) of
         Inl e \<Rightarrow> (Inl e, (tick w)\<lparr>redis := expire_at t (t + 48 * hour) key (redis w)\<rparr>)
       | Inr (n, m) \<Rightarrow> (Inr (), (tick w)\<lparr>redis := expire_at t (t + 48 * hour) key m\<rparr>))) }"

definition IncrementAuthCounter :: "environ \<Rightarrow> (time \<Rightarrow> string) \<Rightarrow> (unit result) io" where
  "IncrementAuthCounter E date = increment_counter E date ''stats:auths:''"

definition IncrementBlockedCounter :: "environ \<Rightarrow> (time \<Rightarrow> string) \<Rightarrow> (unit result) io" where
  "IncrementBlockedCounter E date = increment_counter E date ''stats:blocked:''"

section \<open>Server-sent events\<close>

record SSEEvent =
  se_Type :: string
  se_Payload :: json
  se_Time :: time

record redis_Message =
  rm_Channel :: string
  rm_Payload :: string

definition parseRedisMessage :: "(string \<Rightarrow> json option) \<Rightarrow> time \<Rightarrow> redis_Message \<Rightarrow> SSEEvent" where
  "parseRedisMessage parse now msg =
     \<lparr>se_Type = (if 13 < length (rm_Channel msg) then drop 13 (rm_Channel msg) else rm_Channel msg),
      se_Payload = (case parse (rm_Payload msg) of Some p \<Rightarrow> p | None \<Rightarrow> JStr (rm_Payload msg)),
      se_Time = now\<rparr>"

definition SSEEvent_json :: "SSEEvent \<Rightarrow> json" where
  "SSEEvent_json e = JObj [(''type'', JStr (se_Type e)), (''payload'', se_Payload e), (''time'', JNum (se_Time e))]"

definition newline :: string where
  "newline = [CHR 0x0A]"

definition sendEvent :: "(json \<Rightarrow> string) \<Rightarrow> SSEEvent \<Rightarrow> string" where
  "sendEvent marshal e = ''event: '' @ se_Type e @ newline @ ''data: '' @ marshal (SSEEvent_json e) @ newline @ newline"

text \<open>What the loop of \<^verbatim>\<open>StreamEvents\<close> selects until the client goes: a message at a time, or a tick of the keep-alive.\<close>

datatype sse_input = Message time redis_Message | KeepAlive

definition sse_headers :: "(string \<times> string) list" where
  "sse_headers = [(''Content-Type'', ''text/event-stream''), (''Cache-Control'', ''no-cache''), (''Connection'', ''keep-alive''),
     (''Access-Control-Allow-Origin'', ''*'')]"

fun sse_loop :: "(string \<Rightarrow> json option) \<Rightarrow> (json \<Rightarrow> string) \<Rightarrow> sse_input list \<Rightarrow> string list" where
  "sse_loop parse marshal [] = []"
| "sse_loop parse marshal (Message now msg # xs) = sendEvent marshal (parseRedisMessage parse now msg) # sse_loop parse marshal xs"
| "sse_loop parse marshal (KeepAlive # xs) = ('': keep-alive'' @ newline @ newline) # sse_loop parse marshal xs"

definition StreamEvents :: "(string \<Rightarrow> json option) \<Rightarrow> (json \<Rightarrow> string) \<Rightarrow> time \<Rightarrow> sse_input list \<Rightarrow> string list" where
  "StreamEvents parse marshal now xs =
     sendEvent marshal \<lparr>se_Type = ''connected'',
       se_Payload = JObj [(''message'', JStr ''Connected to Vyst Identity event stream'')], se_Time = now\<rparr> # sse_loop parse marshal xs"

record RiskEvent =
  re_UserID :: string
  re_Score :: rat
  re_Reasons :: "string list"
  re_IP :: string
  re_Timestamp :: time
  re_Action :: string

text \<open>
  \<^verbatim>\<open>PublishRiskEvent\<close>, with what \<^verbatim>\<open>json.Marshal\<close> makes of the event as a parameter; the result is the message that the
  subscribers of the channel get.
\<close>

definition PublishRiskEvent :: "environ \<Rightarrow> (RiskEvent \<Rightarrow> string result) \<Rightarrow> RiskEvent \<Rightarrow> (redis_Message result) io" where
  "PublishRiskEvent E marshal event = (case marshal event of
     Inl e \<Rightarrow> ret (Inl e)
   | Inr payload \<Rightarrow> State (\<lambda>w. (case redis_gate E w of Inl e \<Rightarrow> Inl e
       | Inr t \<Rightarrow> Inr \<lparr>rm_Channel = ''vyst:events:risk'', rm_Payload = payload\<rparr>, tick w)))"

section \<open>Billing\<close>

record invoice =
  iv_tenant :: string
  iv_plan :: string
  iv_usage :: int
  iv_amount :: rat

text \<open>Amounts are rational numbers; the source computes with \<^verbatim>\<open>float64\<close> and prints two digits.\<close>

definition plan_cost :: "QuotaUsage \<Rightarrow> rat" where
  "plan_cost u =
     (if qu_PlanName u = ''Free'' then 0
      else if qu_PlanName u = ''Pro'' then 10 + of_int (qu_AuthsThisMonth u) / 1000
      else if qu_PlanName u = ''Enterprise'' then 500
      else 0)"

fun bill_tenants :: "environ \<Rightarrow> (string \<rightharpoonup> QuotaPlan) \<Rightarrow> string list \<Rightarrow> invoice list io" where
  "bill_tenants E plans [] = ret []"
| "bill_tenants E plans (t # ts) = do {
     r \<leftarrow> GetUsage E plans t;
     rest \<leftarrow> bill_tenants E plans ts;
     ret (case r of
       Inl _ \<Rightarrow> rest
     | Inr u \<Rightarrow> if 0 < plan_cost u
         then \<lparr>iv_tenant = t, iv_plan = qu_PlanName u, iv_usage = qu_AuthsThisMonth u, iv_amount = plan_cost u\<rparr> # rest
         else rest) }"

definition processBilling :: "environ \<Rightarrow> (string \<rightharpoonup> QuotaPlan) \<Rightarrow> invoice list io" where
  "processBilling E plans = do {
     r \<leftarrow> GetActiveTenants E;
     case r of
       Inl _ \<Rightarrow> ret []
     | Inr ts \<Rightarrow> if ts = [] then ret [] else bill_tenants E plans ts }"

section \<open>Properties\<close>

text \<open>Without failures the statistics are the counts of the state, and the answer is a 200 in any case.\<close>

lemma GetStats_answers: "rs_status (fst (run_state (GetStats E keys date rq) w)) = 200"
  by (simp add: GetStats_def split: prod.split)

lemma collect_stats_exact:
  assumes "pg_fault E = (\<lambda>_. None)" "redis_fault E = (\<lambda>_. None)"
    and "\<And>now m. distinct (keys now m) \<and> set (keys now m) = {k. prefix ''session:'' k \<and> redis_lookup now m k \<noteq> None}"
    and "run_state (collect_stats E keys date ctx) w = (d, w')"
  shows "ds_TotalUsers d = int (length (filter (user_visible E (pool ctx) (pg w)) (users (pg w))))
    \<and> ds_ActiveSessions d = int (card {k. prefix ''session:'' k \<and> redis_lookup (clock E (Suc (Suc (ticks w)))) (redis w) k \<noteq> None})
    \<and> pg w' = pg w \<and> redis w' = redis w"
proof -
  have len: "length (keys now m) = card {k. prefix ''session:'' k \<and> redis_lookup now m k \<noteq> None}" for now m
    using assms(3)[of now m] distinct_card by metis
  show ?thesis
    using assms(4) by (auto simp: collect_stats_def getTotalUsers_def getActiveSessions_def getRiskEvents24h_def getAuthsToday_def
        getBlockedLogins_def get_counter_def io_run redis_gate_def pg_gate_def assms(1,2) or_zero_def len)
qed

text \<open>
  The type of a streamed event: the comment in the source promises the part of the channel after \<^verbatim>\<open>vyst:events:\<close>, which has
  twelve characters; thirteen are skipped. So the first character of the name is lost, and a name of one
  character keeps the whole channel: no event has the type that is promised.
\<close>

theorem sse_event_type:
  "se_Type (parseRedisMessage parse now \<lparr>rm_Channel = ''vyst:events:'' @ name, rm_Payload = p\<rparr>)
     = (if 2 \<le> length name then tl name else ''vyst:events:'' @ name)"
  by (cases name) (auto simp: parseRedisMessage_def Suc_le_eq)

lemma risk_event_type:
  "run_state (PublishRiskEvent E marshal event) w = (Inr msg, w') \<Longrightarrow> se_Type (parseRedisMessage parse now msg) = ''isk''"
  by (auto simp: PublishRiskEvent_def parseRedisMessage_def split: sum.splits)

lemma sse_type_never_promised:
  "se_Type (parseRedisMessage parse now \<lparr>rm_Channel = ''vyst:events:'' @ name, rm_Payload = p\<rparr>) \<noteq> name"
  by (cases name) (auto simp: parseRedisMessage_def)

lemma bill_tenants_invoices:
  "run_state (bill_tenants E plans ts) w = (is, w') \<Longrightarrow> iv \<in> set is \<Longrightarrow>
    iv_tenant iv \<in> set ts \<and> 0 < iv_amount iv
    \<and> (iv_plan iv = ''Pro'' \<and> iv_amount iv = 10 + of_int (iv_usage iv) / 1000 \<or> iv_plan iv = ''Enterprise'' \<and> iv_amount iv = 500)"
proof (induction ts arbitrary: w "is" w')
  case (Cons t ts)
  obtain r w1 where r: "run_state (GetUsage E plans t) w = (r, w1)" by fastforce
  obtain rest w2 where rest: "run_state (bill_tenants E plans ts) w1 = (rest, w2)" by fastforce
  show ?case
  proof (cases "iv \<in> set rest")
    case True
    then show ?thesis using Cons.IH[OF rest] by auto
  next
    case False
    then show ?thesis using Cons.prems r rest by (cases r) (auto simp: plan_cost_def split: if_splits)
  qed
qed simp

text \<open>
  Invoices: a billing cycle issues an invoice only to an active tenant, on the paid plan that the tenant has, for an amount that is
  positive and determined by the plan and the usage: at least 10 and 1 per thousand authentications on the
  Pro plan, 500 on Enterprise; none for the Free plan.
\<close>

theorem billing_invoices:
  assumes "run_state (processBilling E plans) w = (is, w')" "iv \<in> set is"
  shows "(\<exists>ts w1. run_state (GetActiveTenants E) w = (Inr ts, w1) \<and> iv_tenant iv \<in> set ts) \<and> 0 < iv_amount iv
    \<and> (iv_plan iv = ''Pro'' \<and> iv_amount iv = 10 + of_int (iv_usage iv) / 1000 \<or> iv_plan iv = ''Enterprise'' \<and> iv_amount iv = 500)"
proof -
  obtain r w1 where r: "run_state (GetActiveTenants E) w = (r, w1)" by fastforce
  obtain ts where ts: "r = Inr ts" "run_state (bill_tenants E plans ts) w1 = (is, w')"
    using assms r by (cases r) (auto simp: processBilling_def split: if_splits)
  from bill_tenants_invoices[OF ts(2) assms(2)] ts(1) r show ?thesis by blast
qed

definition billing_world :: world where
  "billing_world = empty_world\<lparr>redis := [''tenants:active'' \<mapsto> \<lparr>r_val = RSet [''t1'', ''t2''], r_expires = None\<rparr>,
     ''tenant:t2:plan'' \<mapsto> \<lparr>r_val = RStr ''pro'', r_expires = None\<rparr>]\<rparr>"

theorem billing_invoices_witness:
  "0 < iv_amount (hd (fst (run_state (processBilling demo_env DefaultPlans) billing_world)))"
proof -
  let ?m = "run_state (processBilling demo_env DefaultPlans) billing_world"
  have "map iv_tenant (fst ?m) = [''t2'']" by code_simp
  then have "hd (fst ?m) \<in> set (fst ?m)" by (cases "fst ?m") auto
  from billing_invoices[OF prod.collapse[symmetric] this] show ?thesis by blast
qed

end
