(* ===== verification/Notification.thy ===== *)
theory Notification
  imports Auth_Service "HOL-Library.Multiset"
begin

text \<open>
  What leaves the system besides HTTP: the notification service (\<^verbatim>\<open>service/notification_service.go\<close>) and its adapters for
  e-mail (\<^verbatim>\<open>notification/smtp/smtp_adapter.go\<close>) and SMS (\<^verbatim>\<open>notification/plivo/plivo_adapter.go\<close>), and the mock of the OAuth login
  (\<^verbatim>\<open>service/oauth_service.go\<close>). The parsing of addresses (\<^verbatim>\<open>net/mail\<close>), the SMTP exchange and the HTTP call are parameters.
\<close>

section \<open>E-mail\<close>

record SMTPAdapter =
  sm_Host :: string
  sm_Port :: string
  sm_User :: string
  sm_Password :: string
  sm_From :: string

record smtp_mail =
  ml_addr :: string
  ml_from :: string
  ml_to :: string
  ml_message :: string

abbreviation CR :: char where "CR \<equiv> CHR 0x0D"
abbreviation LF :: char where "LF \<equiv> CHR 0x0A"

definition without :: "char set \<Rightarrow> string \<Rightarrow> string" where
  "without cs s = filter (\<lambda>c. c \<notin> cs) s"

definition quoted_utf8 :: string where
  "quoted_utf8 = ''text/html; charset='' @ [CHR 0x22] @ ''UTF-8'' @ [CHR 0x22]"

text \<open>
  The headers are a Go map, whose iteration order is not fixed: \<open>order\<close> is the order of this call, a permutation. An
  error of the exchange is returned as it is.
\<close>

definition smtp_headers :: "string \<Rightarrow> string \<Rightarrow> string \<Rightarrow> (string \<times> string) list" where
  "smtp_headers from to subject = [(''From'', from), (''To'', to), (''Subject'', subject), (''Content-Type'', quoted_utf8)]"

definition header_line :: "string \<times> string \<Rightarrow> string" where
  "header_line kv = fst kv @ '': '' @ snd kv"

definition smtp_message :: "(string \<times> string) list \<Rightarrow> string \<Rightarrow> string" where
  "smtp_message headers body = concat (map (\<lambda>kv. header_line kv @ [CR, LF]) headers) @ [CR, LF] @ body"

definition SMTP_SendEmail ::
    "(string \<Rightarrow> string result) \<Rightarrow> ((string \<times> string) list \<Rightarrow> (string \<times> string) list) \<Rightarrow> (smtp_mail \<Rightarrow> unit result)
      \<Rightarrow> SMTPAdapter \<Rightarrow> string \<Rightarrow> string \<Rightarrow> string \<Rightarrow> smtp_mail option \<times> unit result" where
  "SMTP_SendEmail ParseAddress order SendMail s to subject body = (case ParseAddress to of
     Inl e \<Rightarrow> (None, Inl (wrap ''invalid recipient email address: '' e))
   | Inr parsedTo \<Rightarrow> (case ParseAddress (sm_From s) of
       Inl e \<Rightarrow> (None, Inl (wrap ''invalid sender email address: '' e))
     | Inr parsedFrom \<Rightarrow>
         if CR \<in> set subject \<or> LF \<in> set subject then (None, Inl (ErrorString ''invalid email subject''))
         else let safeSubject = without {LF} (without {CR} subject);
                  safeBody = without {CR} body;
                  m = \<lparr>ml_addr = sm_Host s @ '':'' @ sm_Port s, ml_from = parsedFrom, ml_to = parsedTo,
                       ml_message = smtp_message (order (smtp_headers parsedFrom parsedTo safeSubject)) safeBody\<rparr>
              in (Some m, SendMail m)))"

section \<open>SMS\<close>

record PlivoAdapter =
  pl_AuthID :: string
  pl_AuthToken :: string
  pl_Source :: string

record plivo_call =
  pc_url :: string
  pc_auth :: "string \<times> string"
  pc_body :: json

text \<open>\<open>build\<close> says whether \<^verbatim>\<open>NewRequest\<close> accepts the URL; the answer is a status.\<close>

definition Plivo_SendSMS :: "(string \<Rightarrow> bool) \<Rightarrow> (plivo_call \<Rightarrow> nat result) \<Rightarrow> PlivoAdapter \<Rightarrow> string \<Rightarrow> string \<Rightarrow> unit result" where
  "Plivo_SendSMS build send p to content =
     (let url = ''https://api.plivo.com/v1/Account/'' @ pl_AuthID p @ ''/Message/'' in
      if \<not> build url then Inl (wrap ''failed to create request: '' (Driver ''invalid URL''))
      else case send \<lparr>pc_url = url, pc_auth = (pl_AuthID p, pl_AuthToken p),
             pc_body = JObj [(''dst'', JStr to), (''src'', JStr (pl_Source p)), (''text'', JStr content)]\<rparr> of
        Inl e \<Rightarrow> Inl (wrap ''failed to send request to plivo: '' e)
      | Inr status \<Rightarrow> if status < 200 \<or> 300 \<le> status
          then Inl (ErrorString (''plivo api returned non-success status: '' @ string_of_nat status)) else Inr ())"

text \<open>The service's \<^verbatim>\<open>SendSMS\<close>: its answer, and the call its goroutine makes.\<close>

definition SendSMS :: "string \<Rightarrow> string \<Rightarrow> unit result \<times> (string \<times> string)" where
  "SendSMS to content = (Inr (), (to, content))"

section \<open>OAuth\<close>

definition GetAuthURL :: "string \<Rightarrow> string result" where
  "GetAuthURL provider =
     (if provider = ''google'' then Inr ''https://accounts.google.com/o/oauth2/v2/auth?client_id=MOCK&redirect_uri=MOCK&response_type=code&scope=email''
      else if provider = ''github'' then Inr ''https://github.com/login/oauth/authorize?client_id=MOCK&redirect_uri=MOCK&scope=user:email''
      else Inl (ErrorString ''unsupported provider''))"

definition OAuth_Callback :: "environ \<Rightarrow> reqctx \<Rightarrow> string \<Rightarrow> string \<Rightarrow> (TokenPair result) io" where
  "OAuth_Callback E ctx provider code =
     tryE (UserRepository_GetByEmail E ctx (''user_'' @ code @ ''@example.com''))
       (wrap ''user not found (auto-registration not implemented in this mock): '') (\<lambda>u.
     tryE (GenerateToken E (u_ID u) (u_TenantID u) [''user''] [] [] IdentityTypeIndividual) (\<lambda>e. e) (\<lambda>accessToken. do {
       refreshToken \<leftarrow> GenerateRefreshToken E;
       ret (Inr \<lparr>AccessToken = accessToken, RefreshTok = refreshToken, ExpiresIn = 86400\<rparr>) }))"

text \<open>The mock asks for no proof: neither the provider nor a password nor the status of the account matters, and no session is stored.\<close>

lemma OAuth_Callback_unchecked:
  "OAuth_Callback E ctx provider code = OAuth_Callback E ctx provider' code"
  "keeps redis (OAuth_Callback E ctx provider code)"
  unfolding OAuth_Callback_def by (rule refl) (intro io_keep)

section \<open>No header injection\<close>

text \<open>The lines of a message as a mail server sees them, which end with a carriage return and a line feed.\<close>

fun crlf_lines :: "string \<Rightarrow> string list" where
  "crlf_lines (a # b # cs) = (if a = CR \<and> b = LF then [] # crlf_lines cs
     else (case crlf_lines (b # cs) of [] \<Rightarrow> [[a]] | l # ls \<Rightarrow> (a # l) # ls))"
| "crlf_lines [a] = [[a]]"
| "crlf_lines [] = [[]]"

lemma crlf_lines_line: "CR \<notin> set l \<Longrightarrow> crlf_lines (l @ CR # LF # rest) = l # crlf_lines rest"
proof (induction l)
  case (Cons a l)
  then have a: "a \<noteq> CR" and ih: "crlf_lines (l @ CR # LF # rest) = l # crlf_lines rest" by auto
  obtain b cs where "l @ CR # LF # rest = b # cs" by (cases l) auto
  then show ?case using a ih by simp
qed simp

lemma crlf_lines_single: "CR \<notin> set l \<Longrightarrow> crlf_lines l = [l]"
proof (induction l)
  case (Cons a l)
  then show ?case by (cases l) auto
qed simp

lemma crlf_lines_message:
  assumes "\<And>k v. (k, v) \<in> set hs \<Longrightarrow> CR \<notin> set k \<and> CR \<notin> set v" "CR \<notin> set body"
  shows "crlf_lines (smtp_message hs body) = map header_line hs @ [[], body]"
  using assms(1)
proof (induction hs)
  case Nil
  then show ?case using crlf_lines_single[OF assms(2)] by (simp add: smtp_message_def)
next
  case (Cons h hs)
  have "CR \<notin> set (header_line h)" using Cons.prems[of "fst h" "snd h"] by (auto simp: header_line_def)
  moreover have "crlf_lines (smtp_message hs body) = map header_line hs @ [[], body]" using Cons by (metis list.set_intros(2))
  ultimately show ?case using crlf_lines_line[of "header_line h" "smtp_message hs body"] by (simp add: smtp_message_def)
qed

text \<open>
  A message has no injected header: whatever the recipient, the subject and the body are, what is sent has exactly the four header
  lines, in some order, an empty line and the body without carriage returns, if a parsed address has
  no carriage return (RFC 5322 addresses have none). A subject with a line break is refused before anything is sent.
\<close>

theorem smtp_no_header_injection:
  assumes "\<And>a p. ParseAddress a = Inr p \<Longrightarrow> CR \<notin> set p" "\<And>hs. mset (order hs) = mset hs"
    and "SMTP_SendEmail ParseAddress order SendMail s to subject body = (Some m, r)"
  shows "\<exists>hs. mset hs = mset (smtp_headers (ml_from m) (ml_to m) subject)
    \<and> crlf_lines (ml_message m) = map header_line hs @ [[], filter (\<lambda>c. c \<noteq> CR) body]
    \<and> CR \<notin> set subject \<and> LF \<notin> set subject"
proof -
  from assms(3) obtain to' from' where p: "ParseAddress to = Inr to'" "ParseAddress (sm_From s) = Inr from'"
    and subj: "CR \<notin> set subject" "LF \<notin> set subject"
    and m: "ml_from m = from'" "ml_to m = to'"
      "ml_message m = smtp_message (order (smtp_headers from' to' (without {LF} (without {CR} subject)))) (without {CR} body)"
    by (auto simp: SMTP_SendEmail_def Let_def split: sum.splits if_splits)
  have same: "without {LF} (without {CR} subject) = subject" using subj by (auto simp: without_def filter_id_conv)
  let ?hs = "order (smtp_headers from' to' subject)"
  have perm: "mset ?hs = mset (smtp_headers from' to' subject)" by (rule assms(2))
  have "CR \<notin> set k \<and> CR \<notin> set v" if "(k, v) \<in> set ?hs" for k v
  proof -
    have "(k, v) \<in> set (smtp_headers from' to' subject)" using that mset_eq_setD[OF perm] by simp
    then show ?thesis using assms(1)[OF p(1)] assms(1)[OF p(2)] subj by (auto simp: smtp_headers_def quoted_utf8_def)
  qed
  then have "crlf_lines (smtp_message ?hs (without {CR} body)) = map header_line ?hs @ [[], without {CR} body]"
    by (intro crlf_lines_message) (auto simp: without_def)
  then have "crlf_lines (ml_message m) = map header_line ?hs @ [[], without {CR} body]" by (simp only: m(3) same)
  then show ?thesis using perm subj m by (auto simp: without_def intro!: exI[of _ ?hs])
qed

theorem smtp_no_header_injection_witness:
  "last (crlf_lines (ml_message (the (fst (SMTP_SendEmail (\<lambda>a. Inr (without {CR, LF} a)) (\<lambda>hs. hs) (\<lambda>m. Inr ())
      \<lparr>sm_Host = ''h'', sm_Port = ''25'', sm_User = [], sm_Password = [], sm_From = ''no-reply@x''\<rparr> (''a@x'' @ [CR, LF] @ ''Bcc: b'') ''hi''
      ([CR, LF] @ ''Bcc: c'')))))) = LF # ''Bcc: c''"
proof -
  let ?s = "\<lparr>sm_Host = ''h'', sm_Port = ''25'', sm_User = [], sm_Password = [], sm_From = ''no-reply@x''\<rparr>"
  let ?m = "SMTP_SendEmail (\<lambda>a. Inr (without {CR, LF} a)) (\<lambda>hs. hs) (\<lambda>m. Inr ()) ?s (''a@x'' @ [CR, LF] @ ''Bcc: b'') ''hi'' ([CR, LF] @ ''Bcc: c'')"
  have "\<exists>m. fst ?m = Some m" by (simp add: SMTP_SendEmail_def Let_def)
  then have run: "?m = (Some (the (fst ?m)), snd ?m)" by auto
  from smtp_no_header_injection[OF _ _ run] show ?thesis by (auto simp: without_def)
qed

end
