(* ===== verification/Sdk.thy ===== *)
theory Sdk
  imports Server
begin

text \<open>
  The Go client of the API (\<^verbatim>\<open>pkg/sdk/client.go\<close>) and what it makes of the answers of the handlers. The HTTP client is a
  parameter: whether a request can be built, and the status, body text and body value of its answer. The client's
  mutex makes each access to its fields atomic, and a client is a value here. The times are the clock's.
\<close>

section \<open>The client\<close>

record Client =
  sd_baseURL :: string
  sd_accessToken :: string
  sd_refreshToken :: string
  sd_expiresAt :: time
  sd_autoRefresh :: bool
  sd_refreshBuffer :: duration

record sdk_request =
  sq_method :: string
  sq_url :: string
  sq_headers :: "(string \<times> string) list"
  sq_body :: string

record sdk_reply =
  sr_status :: nat
  sr_text :: string
  sr_json :: "json option"

record sdk_http =
  sh_NewRequest :: "string \<Rightarrow> string \<Rightarrow> bool"
  sh_Do :: "sdk_request \<Rightarrow> (sdk_reply result) io"

definition TrimSuffix_slash :: "string \<Rightarrow> string" where
  "TrimSuffix_slash s = (if s \<noteq> [] \<and> last s = CHR ''/'' then butlast s else s)"

definition NewClient :: "string \<Rightarrow> (Client \<Rightarrow> Client) list \<Rightarrow> Client" where
  "NewClient baseURL opts = fold (\<lambda>opt c. opt c) opts
     \<lparr>sd_baseURL = TrimSuffix_slash baseURL, sd_accessToken = [], sd_refreshToken = [], sd_expiresAt = zero_time,
      sd_autoRefresh = True, sd_refreshBuffer = 5 * minute\<rparr>"

definition WithAutoRefresh :: "bool \<Rightarrow> Client \<Rightarrow> Client" where
  "WithAutoRefresh enabled c = c\<lparr>sd_autoRefresh := enabled\<rparr>"

definition WithRefreshBuffer :: "duration \<Rightarrow> Client \<Rightarrow> Client" where
  "WithRefreshBuffer d c = c\<lparr>sd_refreshBuffer := d\<rparr>"

definition WithTokens :: "string \<Rightarrow> string \<Rightarrow> Client \<Rightarrow> Client" where
  "WithTokens accessToken refreshToken c = c\<lparr>sd_accessToken := accessToken, sd_refreshToken := refreshToken\<rparr>"

section \<open>Requests and answers\<close>

text \<open>The bodies are formatted text: a value is put between quotes as it is.\<close>

fun json_pairs :: "(string \<times> string) list \<Rightarrow> string" where
  "json_pairs [] = []"
| "json_pairs [(k, v)] = [CHR 0x22] @ k @ [CHR 0x22, CHR '':'', CHR 0x22] @ v @ [CHR 0x22]"
| "json_pairs (p # ps) = json_pairs [p] @ '','' @ json_pairs ps"

definition json_body :: "(string \<times> string) list \<Rightarrow> string" where
  "json_body ps = ''{'' @ json_pairs ps @ ''}''"

text \<open>\<^verbatim>\<open>Decode\<close> of an \<^verbatim>\<open>int64\<close> field and of a boolean one.\<close>

fun json_int64_field :: "string \<Rightarrow> (string \<times> json) list \<Rightarrow> int \<Rightarrow> int option" where
  "json_int64_field name [] acc = Some acc"
| "json_int64_field name ((k, v) # fs) acc =
     (if map ascii_lower k = name
      then (case v of JNum n \<Rightarrow> if - (2 ^ 63) \<le> n \<and> n < 2 ^ 63 then json_int64_field name fs n else None
            | JNull \<Rightarrow> json_int64_field name fs acc | _ \<Rightarrow> None)
      else json_int64_field name fs acc)"

fun json_bool_field :: "string \<Rightarrow> (string \<times> json) list \<Rightarrow> bool \<Rightarrow> bool option" where
  "json_bool_field name [] acc = Some acc"
| "json_bool_field name ((k, v) # fs) acc =
     (if map ascii_lower k = name
      then (case v of JBool b \<Rightarrow> json_bool_field name fs b | JNull \<Rightarrow> json_bool_field name fs acc | _ \<Rightarrow> None)
      else json_bool_field name fs acc)"

record sdk_LoginResponse =
  sl_AccessToken :: string
  sl_RefreshToken :: string
  sl_ExpiresIn :: int
  sl_TokenType :: string

definition object_fields :: "json option \<Rightarrow> (string \<times> json) list option" where
  "object_fields j = (case j of Some (JObj fs) \<Rightarrow> Some fs | Some JNull \<Rightarrow> Some [] | _ \<Rightarrow> None)"

definition decode_login :: "json option \<Rightarrow> sdk_LoginResponse option" where
  "decode_login j = do {
     fs \<leftarrow> object_fields j;
     a \<leftarrow> json_string_field ''access_token'' fs [];
     r \<leftarrow> json_string_field ''refresh_token'' fs [];
     n \<leftarrow> json_int64_field ''expires_in'' fs 0;
     t \<leftarrow> json_string_field ''token_type'' fs [];
     Some \<lparr>sl_AccessToken = a, sl_RefreshToken = r, sl_ExpiresIn = n, sl_TokenType = t\<rparr> }"

definition status_error :: "string \<Rightarrow> sdk_reply \<Rightarrow> go_error" where
  "status_error what reply = ErrorString (what @ '' failed: '' @ string_of_nat (sr_status reply) @ '' - '' @ sr_text reply)"

definition json_headers :: "(string \<times> string) list" where
  "json_headers = [(''Content-Type'', ''application/json'')]"

text \<open>\<^verbatim>\<open>time.Duration(n) * time.Second\<close> is a product of 64-bit integers.\<close>

definition int64 :: "int \<Rightarrow> int" where
  "int64 n = sint (word_of_int n :: 64 word)"

definition store_tokens :: "sdk_LoginResponse \<Rightarrow> time \<Rightarrow> Client \<Rightarrow> Client" where
  "store_tokens r now c = c\<lparr>sd_accessToken := sl_AccessToken r, sd_refreshToken := sl_RefreshToken r,
     sd_expiresAt := now + int64 (sl_ExpiresIn r * second)\<rparr>"

text \<open>What \<^verbatim>\<open>Login\<close> and \<^verbatim>\<open>doRefresh\<close> share: post a body, and store the tokens of the answer.\<close>

definition token_call ::
    "environ \<Rightarrow> sdk_http \<Rightarrow> string \<Rightarrow> string \<Rightarrow> string \<Rightarrow> string \<Rightarrow> Client \<Rightarrow> ((sdk_LoginResponse \<times> Client) result) io" where
  "token_call E H what create path body c =
     (if \<not> sh_NewRequest H ''POST'' (sd_baseURL c @ path) then ret (Inl (wrap create (Driver ''invalid URL'')))
      else tryE (sh_Do H \<lparr>sq_method = ''POST'', sq_url = sd_baseURL c @ path, sq_headers = json_headers, sq_body = body\<rparr>)
             (wrap (what @ '' request: '')) (\<lambda>reply.
        if sr_status reply \<noteq> 200 then ret (Inl (status_error what reply))
        else (case decode_login (sr_json reply) of
            None \<Rightarrow> ret (Inl (wrap ''decode response: '' (Driver ''json'')))
          | Some r \<Rightarrow> do {
              now \<leftarrow> time_Now E;
              ret (Inr (r, store_tokens r now c)) })))"

definition sdk_Login :: "environ \<Rightarrow> sdk_http \<Rightarrow> string \<Rightarrow> string \<Rightarrow> Client \<Rightarrow> (Client result) io" where
  "sdk_Login E H email password c =
     tryE (token_call E H ''login'' ''create request: '' ''/auth/login'' (json_body [(''email'', email), (''password'', password)]) c)
       (\<lambda>e. e) (\<lambda>(r, c'). ret (Inr c'))"

text \<open>The pair is what the callback of \<^verbatim>\<open>WithOnTokenRefresh\<close> is given.\<close>

definition doRefresh :: "environ \<Rightarrow> sdk_http \<Rightarrow> string \<Rightarrow> Client \<Rightarrow> (((string \<times> string) \<times> Client) result) io" where
  "doRefresh E H refreshToken c =
     tryE (token_call E H ''refresh'' ''create refresh request: '' ''/auth/refresh'' (json_body [(''refresh_token'', refreshToken)]) c)
       (\<lambda>e. e) (\<lambda>(r, c'). ret (Inr ((sl_AccessToken r, sl_RefreshToken r), c')))"

definition RefreshIfNeeded :: "environ \<Rightarrow> sdk_http \<Rightarrow> Client \<Rightarrow> (Client result) io" where
  "RefreshIfNeeded E H c = do {
     now \<leftarrow> time_Now E;
     let needsRefresh = sd_expiresAt c < now + sd_refreshBuffer c;
     if \<not> needsRefresh \<or> sd_refreshToken c = [] then ret (Inr c)
     else tryE (doRefresh E H (sd_refreshToken c) c) (\<lambda>e. e) (\<lambda>(_, c'). ret (Inr c')) }"

definition auto_refresh :: "environ \<Rightarrow> sdk_http \<Rightarrow> Client \<Rightarrow> (Client result) io" where
  "auto_refresh E H c =
     (if sd_autoRefresh c then tryE (RefreshIfNeeded E H c) (wrap ''refresh token: '') (\<lambda>c'. ret (Inr c')) else ret (Inr c))"

definition Can :: "environ \<Rightarrow> sdk_http \<Rightarrow> string \<Rightarrow> string \<Rightarrow> string \<Rightarrow> Client \<Rightarrow> ((bool \<times> Client) result) io" where
  "Can E H userID action resource c =
     tryE (auto_refresh E H c) (\<lambda>e. e) (\<lambda>c'.
     let url = sd_baseURL c' @ ''/api/v1/authz/check'' in
     if \<not> sh_NewRequest H ''POST'' url then ret (Inl (wrap ''create request: '' (Driver ''invalid URL'')))
     else tryE (sh_Do H \<lparr>sq_method = ''POST'', sq_url = url,
                  sq_headers = json_headers @ [(''Authorization'', ''Bearer '' @ sd_accessToken c')],
                  sq_body = json_body [(''user_id'', userID), (''action'', action), (''resource'', resource)]\<rparr>)
            (wrap ''permission check request: '') (\<lambda>reply.
       ret (if sr_status reply \<noteq> 200 then Inl (status_error ''permission check'' reply)
            else case object_fields (sr_json reply) of
              None \<Rightarrow> Inl (wrap ''decode response: '' (Driver ''json''))
            | Some fs \<Rightarrow> (case (json_bool_field ''allowed'' fs False, json_string_field ''reason'' fs []) of
                (Some allowed, Some _) \<Rightarrow> Inr (allowed, c')
              | _ \<Rightarrow> Inl (wrap ''decode response: '' (Driver ''json''))))))"

record sdk_Claims =
  sc_UserID :: string
  sc_TenantID :: string
  sc_Email :: string
  sc_Roles :: "string list"
  sc_Exp :: int

definition decode_claims :: "json option \<Rightarrow> sdk_Claims option" where
  "decode_claims j = do {
     fs \<leftarrow> object_fields j;
     u \<leftarrow> json_string_field ''sub'' fs [];
     t \<leftarrow> json_string_field ''tenant_id'' fs [];
     m \<leftarrow> json_string_field ''email'' fs [];
     rs \<leftarrow> json_list_field ''roles'' fs [];
     x \<leftarrow> json_int64_field ''exp'' fs 0;
     Some \<lparr>sc_UserID = u, sc_TenantID = t, sc_Email = m, sc_Roles = rs, sc_Exp = x\<rparr> }"

definition sdk_ValidateToken :: "sdk_http \<Rightarrow> string \<Rightarrow> Client \<Rightarrow> (sdk_Claims result) io" where
  "sdk_ValidateToken H token c =
     (let url = sd_baseURL c @ ''/api/v1/auth/introspect'' in
      if \<not> sh_NewRequest H ''POST'' url then ret (Inl (wrap ''create request: '' (Driver ''invalid URL'')))
      else tryE (sh_Do H \<lparr>sq_method = ''POST'', sq_url = url, sq_headers = json_headers, sq_body = json_body [(''token'', token)]\<rparr>)
             (wrap ''introspect request: '') (\<lambda>reply.
        ret (if sr_status reply \<noteq> 200 then Inl (status_error ''introspect'' reply)
             else case decode_claims (sr_json reply) of
               None \<Rightarrow> Inl (wrap ''decode response: '' (Driver ''json''))
             | Some claims \<Rightarrow> Inr claims)))"

definition sdk_Do :: "environ \<Rightarrow> sdk_http \<Rightarrow> string \<Rightarrow> string \<Rightarrow> string \<Rightarrow> Client \<Rightarrow> ((sdk_reply \<times> Client) result) io" where
  "sdk_Do E H method path body c =
     tryE (auto_refresh E H c) (\<lambda>e. e) (\<lambda>c'.
     if \<not> sh_NewRequest H method (sd_baseURL c' @ path) then ret (Inl (wrap ''create request: '' (Driver ''invalid URL'')))
     else tryE (sh_Do H \<lparr>sq_method = method, sq_url = sd_baseURL c' @ path,
                  sq_headers = [(''Authorization'', ''Bearer '' @ sd_accessToken c')] @ json_headers, sq_body = body\<rparr>)
            (\<lambda>e. e) (\<lambda>reply. ret (Inr (reply, c'))))"

definition sdk_Get :: "environ \<Rightarrow> sdk_http \<Rightarrow> string \<Rightarrow> Client \<Rightarrow> ((sdk_reply \<times> Client) result) io" where
  "sdk_Get E H path c = sdk_Do E H ''GET'' path [] c"

definition sdk_Post :: "environ \<Rightarrow> sdk_http \<Rightarrow> string \<Rightarrow> string \<Rightarrow> Client \<Rightarrow> ((sdk_reply \<times> Client) result) io" where
  "sdk_Post E H path body c = sdk_Do E H ''POST'' path body c"

definition IsAuthenticated :: "time \<Rightarrow> Client \<Rightarrow> bool" where
  "IsAuthenticated now c \<longleftrightarrow> sd_accessToken c \<noteq> [] \<and> now < sd_expiresAt c"

definition sdk_Logout :: "Client \<Rightarrow> Client" where
  "sdk_Logout c = c\<lparr>sd_accessToken := [], sd_refreshToken := [], sd_expiresAt := zero_time\<rparr>"

section \<open>Refreshing\<close>

text \<open>
  The values are not escaped: an e-mail that contains a quote adds a field of its own to the body, here a second
  \<^verbatim>\<open>email\<close>, the one that the server's decoder keeps.
\<close>

lemma json_body_injection:
  "json_body [(''email'', a @ [CHR 0x22] @ '','' @ [CHR 0x22] @ ''email'' @ [CHR 0x22, CHR '':'', CHR 0x22] @ b), (''password'', p)]
   = json_body [(''email'', a), (''email'', b), (''password'', p)]"
  by (simp add: json_body_def)

text \<open>
  A request refreshes first exactly when the token expires within the buffer and there is a refresh token; a refresh that
  succeeds leaves the tokens of the answer, and one that fails leaves the client as it was.
\<close>

lemma RefreshIfNeeded_result:
  assumes "run_state (RefreshIfNeeded E H c) w = (Inr c', w')"
  shows "c' = c \<and> (clock E (ticks w) + sd_refreshBuffer c \<le> sd_expiresAt c \<or> sd_refreshToken c = [])
    \<or> (\<exists>r now. sd_expiresAt c < clock E (ticks w) + sd_refreshBuffer c \<and> c' = store_tokens r now c)"
  using assms by (auto simp: RefreshIfNeeded_def doRefresh_def token_call_def Let_def io_run
      split: if_splits option.splits prod.splits sum.splits)

lemma IsAuthenticated_after_login:
  "IsAuthenticated t (store_tokens r now c) \<longleftrightarrow> sl_AccessToken r \<noteq> [] \<and> t < now + int64 (sl_ExpiresIn r * second)"
  by (simp add: IsAuthenticated_def store_tokens_def)

lemma sdk_Logout_unauthenticated: "\<not> IsAuthenticated t (sdk_Logout c)"
  by (simp add: IsAuthenticated_def sdk_Logout_def)

section \<open>The client and the server\<close>

text \<open>
  A transport that hands the request to a handler of the server: \<open>parse\<close> reads a JSON text and \<open>print\<close> writes one; the route
  is chosen by the URL.
\<close>

definition handler_http :: "(string \<Rightarrow> json option) \<Rightarrow> (json \<Rightarrow> string) \<Rightarrow> (string \<Rightarrow> handler) \<Rightarrow> sdk_http" where
  "handler_http parse print route = \<lparr>sh_NewRequest = (\<lambda>m u. True), sh_Do = (\<lambda>q. do {
     rs \<leftarrow> route (sq_url q) (plain_request\<lparr>rq_body := parse (sq_body q)\<rparr>);
     ret (Inr \<lparr>sr_status = rs_status rs, sr_text = print (rs_body rs), sr_json = Some (rs_body rs)\<rparr>) })\<rparr>"

text \<open>What the client decodes of the server's login response: the field names differ.\<close>

lemma decode_LoginResponse:
  assumes "decode_login (Some (LoginResponse_json x)) = Some r"
  shows "sl_AccessToken r = [] \<and> sl_RefreshToken r = lr_RefreshToken x"
  using assms by (auto simp: decode_login_def object_fields_def LoginResponse_json_def omitempty_def ascii_lower_def
      split: option.splits if_splits)

lemma token_call_body:
  assumes "run_state (token_call E (handler_http parse print route) what create path body c) w = (Inr (r, c'), w')"
  obtains rs w1 now where
    "run_state (route (sd_baseURL c @ path) (plain_request\<lparr>rq_body := parse body\<rparr>)) w = (rs, w1)" "rs_status rs = 200"
    "decode_login (Some (rs_body rs)) = Some r" "c' = store_tokens r now c"
proof -
  obtain rs w1 where rs: "run_state (route (sd_baseURL c @ path) (plain_request\<lparr>rq_body := parse body\<rparr>)) w = (rs, w1)" by fastforce
  show ?thesis using assms that rs
    by (auto simp: token_call_def handler_http_def run_tryE_Inr io_run split: if_splits option.splits)
qed

lemma writeJSON_body: "rs_body (writeJSON n d) = d"
  by (simp add: writeJSON_def)

lemma verifyTOTPLogin_body:
  assumes "run_state (verifyTOTPLogin E h rq t code) w = (rs, w')" "rs_status rs = 200"
  shows "\<exists>x. rs_body rs = LoginResponse_json x"
  using assms by (auto simp: verifyTOTPLogin_def writeJSON_body split: option.splits sum.splits if_splits prod.splits)

lemma handleTOTPRequirement_body:
  assumes "run_state (handleTOTPRequirement E h rq code u) w = (Some rs, w')" "rs_status rs = 200"
  shows "\<exists>x. rs_body rs = LoginResponse_json x"
  using assms by (auto simp: handleTOTPRequirement_def writeJSON_body split: option.splits sum.splits if_splits prod.splits)

lemma AuthHandler_Login_body:
  assumes run: "run_state (AuthHandler_Login E h rq) w = (rs, w')" and ok: "rs_status rs = 200"
  shows "\<exists>x. rs_body rs = LoginResponse_json x"
proof -
  obtain email pw cap code tmp where d: "decode_strings [''email'', ''password'', ''captcha_token'', ''totp_code'', ''temp_token''] (rq_body rq)
      = Some [email, pw, cap, code, tmp]"
    using assms by (auto simp: AuthHandler_Login_def split: option.splits list.splits)
  show ?thesis
  proof (cases "tmp \<noteq> [] \<and> code \<noteq> []")
    case True
    then show ?thesis using run ok verifyTOTPLogin_body by (auto simp: AuthHandler_Login_def d)
  next
    case False
    obtain c w1 where c: "run_state (validateCaptcha E h rq cap) w = (c, w1)" by fastforce
    obtain r w2 where r: "run_state (LoginWithUser E (rq_ctx rq) email pw) w1 = (r, w2)" by fastforce
    have "c = None" using run ok False c
      by (cases c) (auto simp: AuthHandler_Login_def d handleCaptchaError_def split: if_splits)
    moreover obtain tp u where "r = Inr (tp, u)" using run ok False c r calculation
      by (cases r) (auto simp: AuthHandler_Login_def d login_failure_def split: if_splits)
    moreover obtain hd' w3 where h: "run_state (handleTOTPRequirement E h rq code (u_ID u)) w2 = (hd', w3)" by fastforce
    ultimately show ?thesis using run ok False c r h
      by (cases hd') (auto simp: AuthHandler_Login_def d writeJSON_body split: if_splits prod.splits dest: handleTOTPRequirement_body)
  qed
qed

text \<open>
  The client cannot log in to the server it is written for: whatever the credentials, a login that the client reports as successful leaves it
  without an access token, since the server sends \<^verbatim>\<open>token\<close> where the client reads \<^verbatim>\<open>access_token\<close>; it is not
  authenticated at any time, and its requests carry an empty bearer token.
\<close>

theorem sdk_login_without_token:
  assumes "route (sd_baseURL c @ ''/auth/login'') = AuthHandler_Login E h"
    and "run_state (sdk_Login E (handler_http parse print route) email password c) w = (Inr c', w')"
  shows "sd_accessToken c' = [] \<and> (\<forall>t. \<not> IsAuthenticated t c')"
proof -
  obtain r where t: "run_state (token_call E (handler_http parse print route) ''login'' ''create request: '' ''/auth/login''
      (json_body [(''email'', email), (''password'', password)]) c) w = (Inr (r, c'), w')"
    using assms(2) by (auto simp: sdk_Login_def run_tryE_Inr)
  show ?thesis
  proof (rule token_call_body[OF t])
    fix rs w1 now
    assume "run_state (route (sd_baseURL c @ ''/auth/login'') (plain_request\<lparr>rq_body := parse (json_body [(''email'', email), (''password'', password)])\<rparr>)) w
        = (rs, w1)" "rs_status rs = 200" and d: "decode_login (Some (rs_body rs)) = Some r" and c': "c' = store_tokens r now c"
    then obtain x where "rs_body rs = LoginResponse_json x" using AuthHandler_Login_body unfolding assms(1) by blast
    then show ?thesis using decode_LoginResponse d c' by (auto simp: store_tokens_def IsAuthenticated_def)
  qed
qed

text \<open>A refresh that succeeds logs the client out: the answer has no refresh token either.\<close>

lemma sdk_refresh_drops_tokens:
  assumes "route (sd_baseURL c @ ''/auth/refresh'') = AuthHandler_RefreshToken E"
    and "run_state (doRefresh E (handler_http parse print route) tok c) w = (Inr (pair, c'), w')"
  shows "sd_accessToken c' = [] \<and> sd_refreshToken c' = []"
proof -
  obtain r where t: "run_state (token_call E (handler_http parse print route) ''refresh'' ''create refresh request: '' ''/auth/refresh''
      (json_body [(''refresh_token'', tok)]) c) w = (Inr (r, c'), w')"
    using assms(2) by (auto simp: doRefresh_def run_tryE_Inr)
  show ?thesis
  proof (rule token_call_body[OF t])
    fix rs w1 now
    assume a: "run_state (route (sd_baseURL c @ ''/auth/refresh'') (plain_request\<lparr>rq_body := parse (json_body [(''refresh_token'', tok)])\<rparr>)) w
        = (rs, w1)" "rs_status rs = 200" and d: "decode_login (Some (rs_body rs)) = Some r" and c': "c' = store_tokens r now c"
    have "\<exists>x. rs_body rs = LoginResponse_json x \<and> lr_RefreshToken x = []" using a unfolding assms(1)
      by (auto simp: AuthHandler_RefreshToken_def writeJSON_body zeroLoginResponse_def split: option.splits list.splits if_splits sum.splits prod.splits)
    then show ?thesis using decode_LoginResponse d c' by (auto simp: store_tokens_def)
  qed
qed

text \<open>
  The client's token validation accepts what the server calls inactive: the answer \<^verbatim>\<open>{"active": false}\<close> has status 200, and
  the client returns empty claims and no error.
\<close>

lemma sdk_validation_accepts_inactive:
  assumes "route (sd_baseURL c @ ''/api/v1/auth/introspect'') = AuthHandler_IntrospectToken E"
    and "parse (json_body [(''token'', token)]) = Some (JObj [(''token'', JStr token)])" "token \<noteq> []"
    and "run_state (IntrospectToken E background token) w = (Inl e, w')"
  shows "run_state (sdk_ValidateToken (handler_http parse print route) token c) w
    = (Inr \<lparr>sc_UserID = [], sc_TenantID = [], sc_Email = [], sc_Roles = [], sc_Exp = 0\<rparr>, w')"
proof -
  have d: "decode_strings [''token''] (rq_body (plain_request\<lparr>rq_body := parse (json_body [(''token'', token)])\<rparr>)) = Some [token]"
    by (simp add: assms(2) decode_strings_def ascii_lower_def)
  have rs: "run_state (route (sd_baseURL c @ ''/api/v1/auth/introspect'') (plain_request\<lparr>rq_body := parse (json_body [(''token'', token)])\<rparr>)) w
      = (writeJSON 200 (JObj [(''active'', JBool False)]), w')"
    unfolding assms(1) using d assms(3,4)
    by (simp add: AuthHandler_IntrospectToken_def IntrospectResponse_json_def plain_request_def)
  have "decode_claims (Some (JObj [(''active'', JBool False)]))
      = Some \<lparr>sc_UserID = [], sc_TenantID = [], sc_Email = [], sc_Roles = [], sc_Exp = 0\<rparr>"
    by (simp add: decode_claims_def object_fields_def ascii_lower_def)
  then show ?thesis using rs by (simp add: sdk_ValidateToken_def handler_http_def run_tryE writeJSON_def Let_def)
qed

lemma decode_LoginResponse_total:
  "0 \<le> lr_ExpiresIn x \<Longrightarrow> lr_ExpiresIn x < 2 ^ 63 \<Longrightarrow> \<exists>r. decode_login (Some (LoginResponse_json x)) = Some r"
  by (simp add: decode_login_def object_fields_def LoginResponse_json_def omitempty_def ascii_lower_def)

definition password_only :: AuthHandler where
  "password_only = demo_handler\<lparr>ah_totp := None\<rparr>"

definition demo_transport :: sdk_http where
  "demo_transport = handler_http (\<lambda>_. Some (JObj [(''email'', JStr ''ana''), (''password'', JStr ''pw'')])) (\<lambda>_. [])
     (\<lambda>u. AuthHandler_Login owner_env password_only)"

definition demo_client :: Client where
  "demo_client = NewClient ''http://localhost:8080/'' []"

lemma demo_sdk_login: "\<exists>c' w'. run_state (sdk_Login owner_env demo_transport ''ana'' ''pw'' demo_client) totp_world = (Inr c', w')"
proof -
  let ?rq = "plain_request\<lparr>rq_body := Some (JObj [(''email'', JStr ''ana''), (''password'', JStr ''pw'')])\<rparr>"
  obtain tp u w2 where l: "run_state (LoginWithUser owner_env background ''ana'' ''pw'') totp_world = (Inr (tp, u), w2)"
    using totp_world_login[of owner_env] by (auto simp: owner_env_def demo_env_def)
  have "ExpiresIn tp = 86400" by (rule LoginWithUser_steps[OF l]) simp
  let ?x = "zeroLoginResponse\<lparr>lr_Token := AccessToken tp, lr_RefreshToken := RefreshTok tp, lr_ExpiresIn := 86400\<rparr>"
  have d: "decode_strings [''email'', ''password'', ''captcha_token'', ''totp_code'', ''temp_token''] (rq_body ?rq)
      = Some [''ana'', ''pw'', [], [], []]" by code_simp
  have h: "ah_captcha password_only = None" "\<not> ah_quota password_only" "ah_totp password_only = None" "rq_ctx ?rq = background"
    by (simp_all add: password_only_def demo_handler_def plain_request_def)
  have rs: "run_state (AuthHandler_Login owner_env password_only ?rq) totp_world = (writeJSON 200 (LoginResponse_json ?x), w2)"
    using l d h \<open>ExpiresIn tp = 86400\<close>
    by (simp add: AuthHandler_Login_def validateCaptcha_def handleTOTPRequirement_def track_tenant_def)
  obtain r where r: "decode_login (Some (LoginResponse_json ?x)) = Some r"
    using decode_LoginResponse_total[of ?x] by auto
  show ?thesis
    using rs r by (simp add: sdk_Login_def token_call_def demo_transport_def handler_http_def run_tryE writeJSON_def io_run)
qed

theorem sdk_login_without_token_witness:
  "\<exists>c' w'. run_state (sdk_Login owner_env demo_transport ''ana'' ''pw'' demo_client) totp_world = (Inr c', w') \<and> sd_accessToken c' = []"
proof -
  obtain c' w' where run: "run_state (sdk_Login owner_env demo_transport ''ana'' ''pw'' demo_client) totp_world = (Inr c', w')"
    using demo_sdk_login by blast
  from sdk_login_without_token[OF refl run[unfolded demo_transport_def]] run show ?thesis by blast
qed

end
