(* ===== verification/Database.thy ===== *)
theory Database
  imports Tenant_Role
begin

text \<open>
  The helpers of \<^verbatim>\<open>postgres/db.go\<close> that run a function in a transaction of its own, with and without
  the tenant of row-level security, and what every way of running a transaction promises.
\<close>

section \<open>Operations\<close>

text \<open>
  The function gets the transaction, here a context that carries it. \<^verbatim>\<open>set_config\<close> with \<^verbatim>\<open>is_local\<close>
  lasts until the transaction ends.
\<close>

definition SetTenant :: "environ \<Rightarrow> reqctx \<Rightarrow> string \<Rightarrow> (unit result) io" where
  "SetTenant E tx tenantID =
     tryE (ret (uuid_parse E tenantID)) (wrap ''invalid tenant ID format: '') (\<lambda>_.
       tryE (pg_exec E tx [] (\<lambda>t db. Inr (if ctx_tx tx then db\<lparr>current_tenant := Some tenantID\<rparr> else db, 1)))
         (\<lambda>e. e) (\<lambda>_. ret (Inr ())))"

definition RunInTxWithoutTenant ::
    "environ \<Rightarrow> reqctx \<Rightarrow> (reqctx \<Rightarrow> (unit result) io) \<Rightarrow> (unit result) io" where
  "RunInTxWithoutTenant E ctx fn = State (\<lambda>w0.
     case pg_fault E (ticks w0) of
       Some m \<Rightarrow> (Inl (wrap ''failed to begin transaction: '' (Driver m)), tick w0)
     | None \<Rightarrow> (case run_state (fn (ctx\<lparr>ctx_tx := True\<rparr>)) (tx_begin E w0) of
         (Inl e, w) \<Rightarrow> (Inl e, tx_rollback w0 w)
       | (Inr u, w) \<Rightarrow> (case pg_gate E (ctx\<lparr>ctx_tx := True\<rparr>) [] w of
           Inl e \<Rightarrow> (Inl (wrap ''failed to commit transaction: '' e), tx_rollback w0 (tick w))
         | Inr t \<Rightarrow> (Inr (), tx_commit w0 (tick w)))))"

definition RunInTx ::
    "environ \<Rightarrow> reqctx \<Rightarrow> string \<Rightarrow> (reqctx \<Rightarrow> (unit result) io) \<Rightarrow> (unit result) io" where
  "RunInTx E ctx tenantID fn = RunInTxWithoutTenant E ctx (\<lambda>tx.
     tryE (SetTenant E tx tenantID) (wrap ''failed to set tenant context: '') (\<lambda>_. fn tx))"

section \<open>What a transaction promises\<close>

text \<open>
  The interface of a runner: an error leaves every table as it was; a success ran the body, with
  a transaction and the tenant setting \<open>setting\<close>, on the tables as they were, and its tables are the new
  ones. The caller's own setting is never changed.
\<close>

locale unit_of_work =
  fixes run :: "(reqctx \<Rightarrow> (unit result) io) \<Rightarrow> (unit result) io"
    and setting :: "string option"
  assumes aborted: "run_state (run fn) w = (Inl e, w') \<Longrightarrow> pg w' = pg w"
    and committed: "run_state (run fn) w = (Inr u, w') \<Longrightarrow>
      \<exists>c w0 w1. ctx_tx c \<and> pg w0 = (pg w)\<lparr>current_tenant := setting\<rparr> \<and> run_state (fn c) w0 = (Inr (), w1)
        \<and> pg w' = (pg w1)\<lparr>current_tenant := current_tenant (pg w)\<rparr>"
begin

lemma keeps_setting: "run_state (run fn) w = (r, w') \<Longrightarrow> current_tenant (pg w') = current_tenant (pg w)"
proof (cases r)
  case (Inr u)
  moreover assume "run_state (run fn) w = (r, w')"
  ultimately show ?thesis using committed by fastforce
qed (use aborted in auto)

text \<open>An invariant of the tables that does not mention the setting survives the transaction if the body keeps it.\<close>

lemma keeps_invariant:
  assumes "\<And>db s. P (db\<lparr>current_tenant := s\<rparr>) = P db" and "\<And>c. preserves (\<lambda>w :: world. P (pg w)) (fn c)"
  shows "preserves (\<lambda>w :: world. P (pg w)) (run fn)"
proof (rule preservesI)
  fix w :: world assume p: "P (pg w)"
  obtain r w' where r: "run_state (run fn) w = (r, w')" by fastforce
  show "P (pg (snd (run_state (run fn) w)))"
  proof (cases r)
    case (Inl e)
    then show ?thesis using r aborted p by fastforce
  next
    case (Inr u)
    with r committed obtain c w0 w1 where c: "pg w0 = (pg w)\<lparr>current_tenant := setting\<rparr>"
      "run_state (fn c) w0 = (Inr (), w1)" "pg w' = (pg w1)\<lparr>current_tenant := current_tenant (pg w)\<rparr>" by blast
    have "P (pg w0)" using p c(1) assms(1) by simp
    from preservesD[OF assms(2) this c(2)] show ?thesis using r c(3) assms(1) by simp
  qed
qed

end

lemma RunInTxWithoutTenant_eq: "RunInTxWithoutTenant E ctx = RunInTransaction E ctx"
  by (rule ext) (simp add: RunInTxWithoutTenant_def RunInTransaction_def)

interpretation manager: unit_of_work "RunInTransaction E ctx" None for E ctx
proof
  show "run_state (RunInTransaction E ctx fn) w = (Inl e, w') \<Longrightarrow> pg w' = pg w" for fn w e w'
    by (rule RunInTransaction_error)
next
  fix fn w u w' assume "run_state (RunInTransaction E ctx fn) w = (Inr u, w')"
  from RunInTransaction_ok[OF this] obtain w1 where
    "run_state (fn (ctx\<lparr>ctx_tx := True\<rparr>)) (tx_begin E w) = (Inr (), w1)" "w' = tx_commit w (tick w1)" by blast
  then show "\<exists>c w0 w1. ctx_tx c \<and> pg w0 = (pg w)\<lparr>current_tenant := None\<rparr> \<and> run_state (fn c) w0 = (Inr (), w1)
      \<and> pg w' = (pg w1)\<lparr>current_tenant := current_tenant (pg w)\<rparr>"
    by (intro exI[of _ "ctx\<lparr>ctx_tx := True\<rparr>"] exI[of _ "tx_begin E w"] exI[of _ w1]) simp
qed

interpretation untenanted: unit_of_work "RunInTxWithoutTenant E ctx" None for E ctx
  unfolding RunInTxWithoutTenant_eq by (rule manager.unit_of_work_axioms)

lemma SetTenant_ok:
  assumes "run_state (SetTenant E tx tenantID) w = (Inr u, w')" "ctx_tx tx"
  shows "pg w' = (pg w)\<lparr>current_tenant := Some tenantID\<rparr> \<and> (\<exists>v. uuid_parse E tenantID = Inr v)"
  using assms by (auto simp: SetTenant_def io_run split: sum.splits)

text \<open>The body of \<^verbatim>\<open>RunInTx\<close> runs on the same tables under the setting \<open>tenantID\<close>.\<close>

interpretation tenanted: unit_of_work "RunInTx E ctx tenantID" "Some tenantID" for E ctx tenantID
proof
  show "run_state (RunInTx E ctx tenantID fn) w = (Inl e, w') \<Longrightarrow> pg w' = pg w" for fn w e w'
    unfolding RunInTx_def by (rule untenanted.aborted)
next
  fix fn w u w' assume "run_state (RunInTx E ctx tenantID fn) w = (Inr u, w')"
  from untenanted.committed[OF this[unfolded RunInTx_def]] obtain c w0 w1 where c: "ctx_tx c"
    "pg w0 = (pg w)\<lparr>current_tenant := None\<rparr>" "pg w' = (pg w1)\<lparr>current_tenant := current_tenant (pg w)\<rparr>"
    and body: "run_state (tryE (SetTenant E c tenantID) (wrap ''failed to set tenant context: '') (\<lambda>_. fn c)) w0 = (Inr (), w1)"
    by blast
  obtain r w2 where s: "run_state (SetTenant E c tenantID) w0 = (r, w2)" by fastforce
  then obtain v where v: "r = Inr v" using body by (cases r) (simp_all add: io_run)
  then have "run_state (fn c) w2 = (Inr (), w1)" using body s by (simp add: io_run)
  moreover have "pg w2 = (pg w)\<lparr>current_tenant := Some tenantID\<rparr>" using SetTenant_ok[OF s[unfolded v] c(1)] c(2) by simp
  ultimately show "\<exists>c w0 w1. ctx_tx c \<and> pg w0 = (pg w)\<lparr>current_tenant := Some tenantID\<rparr> \<and> run_state (fn c) w0 = (Inr (), w1)
      \<and> pg w' = (pg w1)\<lparr>current_tenant := current_tenant (pg w)\<rparr>" using c by blast
qed

text \<open>A malformed tenant is refused before the body runs.\<close>

lemma RunInTx_bad_tenant:
  assumes "uuid_parse E tenantID = Inl e" "pg_fault E (ticks w) = None"
  shows "fst (run_state (RunInTx E ctx tenantID fn) w)
    = Inl (wrap ''failed to set tenant context: '' (wrap ''invalid tenant ID format: '' e))"
  using assms by (simp add: RunInTx_def RunInTxWithoutTenant_def SetTenant_def io_run)

lemma RunInTx_uuid:
  "run_state (RunInTx E ctx tenantID fn) w = (Inr u, w') \<Longrightarrow> \<exists>v. uuid_parse E tenantID = Inr v"
  using RunInTx_bad_tenant[of E tenantID _ w ctx fn]
  by (cases "uuid_parse E tenantID"; cases "pg_fault E (ticks w)")
    (simp_all add: RunInTx_def RunInTxWithoutTenant_def)

text \<open>
  A transaction of \<^verbatim>\<open>RunInTx\<close> is all or nothing and confined to its tenant. If it fails, no table changed. If it
  succeeds, the tenant is a UUID, the body saw the tables of before under exactly this tenant's setting, what it
  made of them is what is stored, and the setting does not outlive the transaction.
\<close>

theorem RunInTx_scoped:
  "case run_state (RunInTx E ctx tenantID fn) w of
     (Inl e, w') \<Rightarrow> pg w' = pg w
   | (Inr u, w') \<Rightarrow> current_tenant (pg w') = current_tenant (pg w) \<and> (\<exists>v. uuid_parse E tenantID = Inr v)
       \<and> (\<exists>c w0 w1. tenant_setting c (pg w0) = Some tenantID \<and> pg w0 = (pg w)\<lparr>current_tenant := Some tenantID\<rparr>
            \<and> run_state (fn c) w0 = (Inr (), w1) \<and> pg w' = (pg w1)\<lparr>current_tenant := current_tenant (pg w)\<rparr>)"
proof -
  obtain r w' where r: "run_state (RunInTx E ctx tenantID fn) w = (r, w')" by fastforce
  show ?thesis
  proof (cases r)
    case (Inl e)
    then show ?thesis using r tenanted.aborted[of E ctx tenantID fn w e w'] by simp
  next
    case (Inr u)
    from tenanted.committed[OF r[unfolded Inr]] obtain c w0 w1 where c: "ctx_tx c"
      "pg w0 = (pg w)\<lparr>current_tenant := Some tenantID\<rparr>" "run_state (fn c) w0 = (Inr (), w1)"
      "pg w' = (pg w1)\<lparr>current_tenant := current_tenant (pg w)\<rparr>" by blast
    then have "tenant_setting c (pg w0) = Some tenantID" by (simp add: tenant_setting_def)
    with c have "\<exists>c w0 w1. tenant_setting c (pg w0) = Some tenantID \<and> pg w0 = (pg w)\<lparr>current_tenant := Some tenantID\<rparr>
       \<and> run_state (fn c) w0 = (Inr (), w1) \<and> pg w' = (pg w1)\<lparr>current_tenant := current_tenant (pg w)\<rparr>" by blast
    then show ?thesis unfolding r Inr using tenanted.keeps_setting[OF r] RunInTx_uuid[OF r[unfolded Inr]] by simp
  qed
qed

end
