(* ===== verification/Api.thy ===== *)
theory Api
  imports Server Webauthn Dashboard
begin

text \<open>
  The server with the passkey and dashboard handlers that \<^verbatim>\<open>main\<close> and \<^verbatim>\<open>NewRouter\<close> build for it, and what the whole
  stack (global middleware, authentication, handler, service and repository) guarantees about passkeys.
\<close>

section \<open>The handlers of the router\<close>

text \<open>
  The event stream, the metrics, the GraphQL executor, its playground and the files of the web interface stay as they are
  in \<open>other\<close>; \<open>keys\<close> and \<open>date\<close> are the parameters of the statistics.
\<close>

definition router_handlers ::
    "environ \<Rightarrow> webauthn_lib \<Rightarrow> redis_keys \<Rightarrow> (time \<Rightarrow> string) \<Rightarrow> other_handlers \<Rightarrow> other_handlers" where
  "router_handlers E L keys date other = other\<lparr>
     oh_passkey_BeginLogin := Handler_BeginLogin E L,
     oh_passkey_FinishLogin := Handler_FinishLogin E L,
     oh_passkey_BeginRegistration := Handler_BeginRegistration E L,
     oh_passkey_FinishRegistration := Handler_FinishRegistration E L,
     oh_GetStats := GetStats E keys date\<rparr>"

section \<open>Registration of a passkey\<close>

definition credential_row :: "string \<Rightarrow> time \<Rightarrow> WebAuthnCredential \<Rightarrow> WebAuthnCredential" where
  "credential_row cid t c = c\<lparr>wc_ID := cid, wc_CreatedAt := t, wc_UpdatedAt := t\<rparr>"

lemma Create_effect:
  assumes "run_state (WebAuthnRepository_Create E ctx c) w = (r, w')"
  shows "pg w' = pg w \<or> (\<exists>cid t. pg w' = (pg w)\<lparr>webauthn_credentials := webauthn_credentials (pg w) @ [credential_row cid t c]\<rparr>)"
proof -
  have row: "c\<lparr>wc_ID := cid, wc_CreatedAt := t, wc_UpdatedAt := t\<rparr> = credential_row cid t c" for cid t
    by (simp add: credential_row_def)
  show ?thesis
    using assms by (auto simp: WebAuthnRepository_Create_def io_run insert_credential_def Let_def row
      split: sum.splits prod.splits if_splits) blast
qed

text \<open>What a registration adds is the library's credential, for the user of the context.\<close>

definition registers :: "environ \<Rightarrow> webauthn_lib \<Rightarrow> reqctx \<Rightarrow> request \<Rightarrow> tables \<Rightarrow> tables \<Rightarrow> bool" where
  "registers E L ctx rq db db' \<longleftrightarrow> (\<exists>uidStr uid u session cred cid t.
     UserIDFromContext ctx = Some uidStr \<and> uuid_parse E uidStr = Inr uid
     \<and> wu_id u = uid \<and> wl_FinishRegistration L u session rq = Inr cred
     \<and> db' = db\<lparr>webauthn_credentials := webauthn_credentials db @ [credential_row cid t (stored_credential uid cred)]\<rparr>)"

lemma FinishRegistration_effect:
  assumes "run_state (Handler_FinishRegistration E L rq) w = (rs, w')"
  shows "pg w' = pg w \<or> registers E L (rq_ctx rq) rq (pg w) (pg w')"
proof -
  consider "pg w' = pg w"
    | uidStr uid session w1 r where "UserIDFromContext (rq_ctx rq) = Some uidStr" "uuid_parse E uidStr = Inr uid" "pg w1 = pg w"
        "run_state (Service_FinishRegistration E L (rq_ctx rq) uid session rq) w1 = (r, w')"
  proof (cases "\<exists>uidStr uid. UserIDFromContext (rq_ctx rq) = Some uidStr \<and> uuid_parse E uidStr = Inr uid")
    case False
    then show ?thesis using that(1) assms
      by (auto simp: Handler_FinishRegistration_def split: option.splits sum.splits)
  next
    case True
    then obtain uidStr uid where u: "UserIDFromContext (rq_ctx rq) = Some uidStr" "uuid_parse E uidStr = Inr uid" by blast
    obtain s w1 where g: "run_state (SessionStore_GetSession E (''reg:'' @ uidStr)) w = (s, w1)" by fastforce
    have p1: "pg w1 = pg w" by (rule keepsD[OF keeps_ceremony_store(2) g])
    show ?thesis
    proof (cases s)
      case (Inl e)
      then have "w' = w1" using assms u g by (simp add: Handler_FinishRegistration_def)
      then show ?thesis using that(1) p1 by simp
    next
      case (Inr session)
      obtain r w2 where r: "run_state (Service_FinishRegistration E L (rq_ctx rq) uid session rq) w1 = (r, w2)" by fastforce
      then have "w' = w2" using assms u g Inr by (simp add: Handler_FinishRegistration_def)
      then show ?thesis using that(2)[OF u p1] r by blast
    qed
  qed
  then show ?thesis
  proof cases
    case 2
    obtain a w2 where a: "run_state (getUserAdapter E (rq_ctx rq) uid) w1 = (a, w2)" by fastforce
    have p2: "pg w2 = pg w" using keepsD[OF keeps_webauthn_reads(3) a] 2(3) by simp
    show ?thesis
    proof (cases "\<exists>u cred. a = Inr u \<and> wl_FinishRegistration L u session rq = Inr cred")
      case True
      then obtain u cred where u: "a = Inr u" "wl_FinishRegistration L u session rq = Inr cred" by blast
      obtain c w3 where c: "run_state (WebAuthnRepository_Create E (rq_ctx rq) (stored_credential uid cred)) w2 = (c, w3)" by fastforce
      have "w3 = w'" using 2(4) a u c by (cases c) (auto simp: Service_FinishRegistration_def run_tryE)
      moreover have "wu_id u = uid" using getUserAdapter_Inr[OF a[unfolded u(1)]] by blast
      ultimately show ?thesis using Create_effect[OF c] 2(1,2) u(2) unfolding registers_def p2 by blast
    next
      case False
      then have "w' = w2" using 2(4) a
        by (cases a) (auto simp: Service_FinishRegistration_def run_tryE split: sum.splits)
      then show ?thesis using p2 by simp
    qed
  qed simp
qed

section \<open>Through the whole server\<close>

text \<open>The route of the endpoint is the one that is registered for it.\<close>

lemma registration_route:
  assumes "rt \<in> set (NewRouter E (d\<lparr>sv_other := router_handlers E L keys date other\<rparr>))"
    and "endpoint rt = (''POST'', ''/auth/passkeys/register/finish'')"
  shows "rt_handler rt = Auth E True (Handler_FinishRegistration E L)"
proof -
  have no: "(''POST'', ''/auth/passkeys/register/finish'') \<notin> set public_endpoints" by code_simp
  note out = listedD[OF public_routes_listed(1), of rt] listedD[OF public_routes_listed(2), of rt]
    listedD[OF public_routes_listed(3), of rt] listedD[OF public_routes_listed(4), of rt]
  have api: "rt \<notin> set (Route ''/api/v1'' rts)" for rts
    using assms(2) by (auto simp: Route_def endpoint_def)
  have "rt \<in> set (Use (Auth E True) (protected_routes E (d\<lparr>sv_other := router_handlers E L keys date other\<rparr>)))"
    using assms(1) unfolding NewRouter_def set_append Un_iff using out no api assms(2) by metis
  then show ?thesis using assms(2)
    by (auto simp: Use_def protected_routes_def route_defs endpoint_def router_handlers_def)
qed

text \<open>
  C10: A passkey is enrolled only by its owner. Whatever a client sends to the registration endpoint of the running server,
  either no table changes, or the request proved an identity (an accepted API key or bearer token) and
  exactly one credential is added: the one that the WebAuthn library accepted for the user of that identity, stored
  under that user's id. PostgreSQL must answer.
\<close>

theorem passkeys_enrolled_by_owner:
  assumes "\<And>n. pg_fault E n = None"
    and "rt \<in> set (NewRouter E (d\<lparr>sv_other := router_handlers E L keys date other\<rparr>))"
    and "endpoint rt = (''POST'', ''/auth/passkeys/register/finish'')"
    and "run_state (serve E (d\<lparr>sv_other := router_handlers E L keys date other\<rparr>) rt rq) w = (rs, w')"
  shows "pg w' = pg w \<or> (\<exists>ctx. authenticated E rq w ctx
    \<and> registers E L ctx (rq\<lparr>rq_RemoteAddr := sv_real_ip d rq, rq_ctx := ctx\<rparr>) (pg w) (pg w'))"
proof -
  let ?rq = "rq\<lparr>rq_RemoteAddr := sv_real_ip d rq\<rparr>"
  note h = registration_route[OF assms(2,3)]
  from serve_cases[OF assms(4)] show ?thesis
  proof
    assume "\<exists>w1 rs1. pg w1 = pg w \<and> run_state (rt_handler rt (rq\<lparr>rq_RemoteAddr := sv_real_ip
       (d\<lparr>sv_other := router_handlers E L keys date other\<rparr>) rq\<rparr>)) w1 = (rs1, w') \<and> rs_status rs = rs_status rs1"
    then obtain w1 rs1 where r: "pg w1 = pg w" "run_state (Auth E True (Handler_FinishRegistration E L) ?rq) w1 = (rs1, w')"
      unfolding h by auto
    from Auth_authenticated[OF r(2)] show ?thesis
    proof
      assume "\<exists>ctx w2. authenticated E ?rq w1 ctx \<and> pg w2 = pg w1
        \<and> run_state (Handler_FinishRegistration E L (?rq\<lparr>rq_ctx := ctx\<rparr>)) w2 = (rs1, w')"
      then obtain ctx w2 where a: "authenticated E ?rq w1 ctx" "pg w2 = pg w1"
        "run_state (Handler_FinishRegistration E L (?rq\<lparr>rq_ctx := ctx\<rparr>)) w2 = (rs1, w')" by blast
      have "authenticated E rq w ctx" using authenticated_tables[OF r(1) assms(1)] a(1) unfolding authenticated_address by blast
      then show ?thesis using FinishRegistration_effect[OF a(3)] a(2) r(1) by auto
    qed (use r(1) in simp)
  qed simp
qed

definition bearer_env :: environ where
  "bearer_env = owner_env\<lparr>jwt_parse := (\<lambda>t s. if s = ''tok'' then Inr member_claims else Inl (Driver ''token is malformed''))\<rparr>"

definition bearer_request :: request where
  "bearer_request = plain_request\<lparr>rq_header := (\<lambda>h. if h = ''Authorization'' then ''Bearer tok'' else [])\<rparr>"

definition enrolment_world :: world where
  "enrolment_world = demo_world\<lparr>redis := [''webauthn:reg:u1'' \<mapsto> \<lparr>r_val = RStr ''challenge'', r_expires = None\<rparr>]\<rparr>"

definition enrolment_route :: route where
  "enrolment_route = \<lparr>rt_method = ''POST'', rt_pattern = ''/auth/passkeys/register/finish'',
     rt_handler = Auth bearer_env True (Handler_FinishRegistration bearer_env demo_lib)\<rparr>"

definition enrolment_deps :: ServerDeps where
  "enrolment_deps = demo_deps\<lparr>sv_other := router_handlers bearer_env demo_lib (\<lambda>_ _. []) (\<lambda>_. []) (sv_other demo_deps)\<rparr>"

theorem passkeys_enrolled_by_owner_witness:
  "let w' = snd (run_state (serve bearer_env enrolment_deps enrolment_route bearer_request) enrolment_world)
   in map wc_UserID (webauthn_credentials (pg w')) = [''u1''] \<and>
     (\<exists>ctx rq. authenticated bearer_env bearer_request enrolment_world ctx
        \<and> registers bearer_env demo_lib ctx rq (pg enrolment_world) (pg w'))"
proof -
  let ?m = "run_state (serve bearer_env enrolment_deps enrolment_route bearer_request) enrolment_world"
  have one: "map wc_UserID (webauthn_credentials (pg (snd ?m))) = [''u1'']" by code_simp
  have rt: "enrolment_route \<in> set (NewRouter bearer_env enrolment_deps)"
    by (simp add: NewRouter_def Use_def protected_routes_def route_defs enrolment_route_def enrolment_deps_def router_handlers_def)
  have ep: "endpoint enrolment_route = (''POST'', ''/auth/passkeys/register/finish'')"
    by (simp add: endpoint_def enrolment_route_def)
  have "pg (snd ?m) \<noteq> pg enrolment_world"
    using one by (auto simp: enrolment_world_def demo_world_def empty_world_def empty_tables_def)
  moreover have "pg_fault bearer_env n = None" for n by (simp add: bearer_env_def owner_env_def demo_env_def)
  ultimately show ?thesis
    using one passkeys_enrolled_by_owner[of bearer_env, OF _ rt[unfolded enrolment_deps_def] ep,
        of bearer_request enrolment_world "fst ?m" "snd ?m"]
    unfolding Let_def enrolment_deps_def[symmetric] by simp blast
qed

end
