(* ===== verification/Workers.thy ===== *)
theory Workers
  imports Risk Dashboard Company_Lookup
begin

text \<open>
  The programs around the background jobs: the sentinel (\<^verbatim>\<open>cmd/sentinel-worker/main.go\<close>), the billing worker
  (\<^verbatim>\<open>cmd/billing-worker/main.go\<close>) and the synchronisation job (\<^verbatim>\<open>cmd/job-sync-companies/main.go\<close>). What a program
  waits for is the list of the ticks and signals that it receives; whether the configuration, the database and Redis can be
  reached is given by the errors of the calls that try. \<^verbatim>\<open>log.Fatalf\<close> ends a program with exit code 1.
\<close>

section \<open>Start-up\<close>

text \<open>The first call that fails ends the program.\<close>

fun start_up :: "(string \<times> go_error option) list \<Rightarrow> go_error option" where
  "start_up [] = None"
| "start_up ((msg, r) # calls) = (case r of Some err \<Rightarrow> Some (wrap msg err) | None \<Rightarrow> start_up calls)"

lemma start_up_None: "start_up calls = None \<longleftrightarrow> (\<forall>c \<in> set calls. snd c = None)"
  by (induction calls rule: start_up.induct) (auto split: option.splits)

datatype worker_event = Ticked | Interrupted

section \<open>The sentinel\<close>

fun sentinel_wait ::
    "environ \<Rightarrow> risk_rule list \<Rightarrow> (string \<Rightarrow> json \<Rightarrow> (unit result) io) \<Rightarrow> worker_event list \<Rightarrow> unit io" where
  "sentinel_wait E rules redis_publish [] = ret ()"
| "sentinel_wait E rules redis_publish (Ticked # evs) = do {
     sentinel_processEvents E rules redis_publish background;
     sentinel_wait E rules redis_publish evs }"
| "sentinel_wait E rules redis_publish (Interrupted # evs) = ret ()"

definition sentinel_main ::
    "environ \<Rightarrow> (duration \<Rightarrow> string) \<Rightarrow> (string \<Rightarrow> json \<Rightarrow> (unit result) io) \<Rightarrow> go_error option \<Rightarrow> go_error option \<Rightarrow> go_error option
      \<Rightarrow> worker_event list \<Rightarrow> (unit result) io" where
  "sentinel_main E show_duration redis_publish config_Load NewDB ParseURL evs =
     (case start_up [(''Failed to load config: '', config_Load), (''Failed to connect to database: '', NewDB),
         (''Failed to parse Redis URL: '', ParseURL)] of
        Some err \<Rightarrow> ret (Inl err)
      | None \<Rightarrow> do {
          sentinel_wait E (sentinel_rules E show_duration) redis_publish evs;
          ret (Inr ()) })"

section \<open>Billing\<close>

text \<open>The invoices of a run, one cycle per tick; the loop has no end.\<close>

fun billing_ticks :: "environ \<Rightarrow> nat \<Rightarrow> (invoice list) io" where
  "billing_ticks E 0 = ret []"
| "billing_ticks E (Suc n) = do {
     is \<leftarrow> processBilling E DefaultPlans;
     rest \<leftarrow> billing_ticks E n;
     ret (is @ rest) }"

definition billing_address :: "string \<Rightarrow> string" where
  "billing_address REDIS_ADDR = (if REDIS_ADDR = [] then ''localhost:6379'' else REDIS_ADDR)"

definition billing_main :: "environ \<Rightarrow> (string \<Rightarrow> go_error option) \<Rightarrow> string \<Rightarrow> nat \<Rightarrow> (invoice list result) io" where
  "billing_main E Ping REDIS_ADDR n = (case Ping (billing_address REDIS_ADDR) of
     Some err \<Rightarrow> ret (Inl (wrap ''Failed to connect to Redis: '' err))
   | None \<Rightarrow> do {
       is \<leftarrow> billing_ticks E n;
       ret (Inr is) })"

section \<open>Synchronisation\<close>

text \<open>The lookup service has the BrasilAPI provider and no limiter; the exit code is 1 when the run reports an error.\<close>

definition job_lookup :: "environ \<Rightarrow> brasil_api \<Rightarrow> string \<Rightarrow> CompanyLookupService" where
  "job_lookup E api url = \<lparr>ls_repo = True, ls_providers = [NewBrasilAPIAdapter E api url], ls_rateLimiter = None\<rparr>"

definition sync_main :: "nat \<Rightarrow> environ \<Rightarrow> brasil_api \<Rightarrow> string \<Rightarrow> go_error option \<Rightarrow> go_error option \<Rightarrow> (int option) io" where
  "sync_main fuel E api BrasilAPIURL config_Load NewDB =
     (case start_up [(''Failed to load config: '', config_Load), (''Failed to connect to database: '', NewDB)] of
        Some err \<Rightarrow> ret (Some 1)
      | None \<Rightarrow> do {
          r \<leftarrow> SyncAll fuel E (Some (job_lookup E api BrasilAPIURL)) background;
          ret (map_option (\<lambda>x. case x of Inl _ \<Rightarrow> 1 | Inr _ \<Rightarrow> 0) r) })"

section \<open>Properties\<close>

text \<open>After the signal nothing is processed any more.\<close>

lemma sentinel_stops: "sentinel_wait E rules pub (evs @ Interrupted # later) = sentinel_wait E rules pub evs"
  by (induction E rules pub evs rule: sentinel_wait.induct) auto

text \<open>
  A tick of the billing worker looks at the same usage as the one before and records nothing: each minute, the month's
  invoice is issued again.
\<close>

theorem invoices_repeat_every_tick:
  "map iv_tenant (fst (run_state (billing_ticks demo_env 2) billing_world)) = [''t2'', ''t2'']"
  by code_simp

text \<open>The job ends with 0 exactly when the run completes.\<close>

lemma sync_main_exit:
  assumes "config_Load = None" "NewDB = None"
  shows "fst (run_state (sync_main fuel E api url config_Load NewDB) w)
    = map_option (\<lambda>x. if isl x then 1 else 0) (fst (run_state (SyncAll fuel E (Some (job_lookup E api url)) background) w))"
  using assms by (auto simp: sync_main_def isl_def split: prod.splits sum.splits intro!: map_option_cong)

end
