(* ===== verification/Verify_Parallel.thy ===== *)
theory Verify_Parallel
  imports Verify_Runner
begin

text \<open>
  The goroutines of the verification runner: the invariant that ties the semaphore and the results to where the goroutines
  are, the bound on the length of their runs and the absence of deadlocks with at least one slot, the verdict of a run, and
  the sequential mode as one of the schedules of the parallel one.
\<close>

section \<open>The invariant of the goroutines\<close>

fun holds_slot :: "phase \<Rightarrow> bool" where
  "holds_slot Waiting = False"
| "holds_slot (Exited r) = False"
| "holds_slot _ = True"

text \<open>The result that a goroutine has added.\<close>

fun recorded :: "phase \<Rightarrow> CheckResult list" where
  "recorded (Reporting r) = [r]"
| "recorded (Releasing r) = [r]"
| "recorded (Exited r) = [r]"
| "recorded _ = []"

definition par_inv :: "'s Runner \<Rightarrow> 's parallel \<Rightarrow> bool" where
  "par_inv r p \<longleftrightarrow> list_all2 (phase_ok (rn_cfg r)) (rn_checks r) (pl_phases p)
     \<and> pl_sem p = length (filter holds_slot (pl_phases p))
     \<and> int (pl_sem p) \<le> max 0 (vc_Parallelism (rn_cfg r))
     \<and> mset (pl_results p) = mset (rn_results r) + mset (concat (map recorded (pl_phases p)))"

text \<open>One entry of a list changes.\<close>

lemma sum_list_update_nat:
  "i < length xs \<Longrightarrow> sum_list (map f (xs[i := y])) + f (xs ! i) = sum_list (map f xs) + (f y :: nat)"
  by (induction xs arbitrary: i) (auto split: nat.splits)

lemma length_filter_update:
  "i < length xs \<Longrightarrow> length (filter P (xs[i := y])) + (if P (xs ! i) then 1 else 0)
     = length (filter P xs) + (if P y then 1 else 0)"
proof -
  have "length (filter P zs) = sum_list (map (\<lambda>x. if P x then 1 else 0) zs)" for zs by (induction zs) auto
  then show "i < length xs \<Longrightarrow> ?thesis" using sum_list_update_nat[of i xs "\<lambda>x. if P x then 1 else 0" y] by metis
qed

lemma mset_concat_update:
  "i < length xs \<Longrightarrow> mset (concat (map f (xs[i := y]))) + mset (f (xs ! i)) = mset (concat (map f xs)) + mset (f y)"
  by (induction xs arbitrary: i) (auto split: nat.splits simp: ac_simps)

lemma list_all2_update:
  "list_all2 P xs ys \<Longrightarrow> i < length ys \<Longrightarrow> P (xs ! i) y \<Longrightarrow> list_all2 P xs (ys[i := y])"
  by (metis list_all2_update_cong list_update_id)

text \<open>A step changes one phase; the semaphore and the results follow it.\<close>

lemma loop_header_facts [simp]:
  "holds_slot (loop_header cfg c a result e)" "recorded (loop_header cfg c a result e) = []"
  by (simp_all add: loop_header_def)

lemma attempt_once_facts:
  assumes "run_state (attempt_once R cfg c a result) s = (ph, s')"
  shows "holds_slot ph \<and> recorded ph = []"
  using assms by (auto simp: attempt_once_def split: if_splits prod.splits)

lemma delay_once_facts:
  assumes "run_state (delay_once R cfg c a result e t d) s = (ph, s')"
  shows "holds_slot ph \<and> recorded ph = []"
  using assms by (auto simp: delay_once_def split: if_splits prod.splits)

lemma par_inv_update:
  assumes inv: "par_inv r p" and i: "i < length (pl_phases p)"
    and ok: "phase_ok (rn_cfg r) (rn_checks r ! i) ph"
    and sem: "sem + (if holds_slot (pl_phases p ! i) then 1 else 0) = pl_sem p + (if holds_slot ph then 1 else 0)"
    and cap: "int sem \<le> max 0 (vc_Parallelism (rn_cfg r))"
    and res: "mset rs + mset (recorded (pl_phases p ! i)) = mset (pl_results p) + mset (recorded ph)"
  shows "par_inv r (p\<lparr>pl_phases := (pl_phases p)[i := ph], pl_sem := sem, pl_results := rs, pl_state := s\<rparr>)"
proof -
  have "sem = length (filter holds_slot ((pl_phases p)[i := ph]))"
    using length_filter_update[OF i, of holds_slot ph] inv sem by (simp add: par_inv_def)
  moreover have "mset rs = mset (rn_results r) + mset (concat (map recorded ((pl_phases p)[i := ph])))"
    using mset_concat_update[OF i, of recorded ph] inv res unfolding par_inv_def
    by (metis (no_types, lifting) add.assoc add_right_cancel)
  ultimately show ?thesis
    using inv ok i cap by (simp add: par_inv_def list_all2_update)
qed

lemma par_step_inv:
  assumes "par_step R (rn_cfg r) (rn_checks r) p q" "par_inv r p"
  shows "par_inv r q"
proof -
  have phase: "phase_ok (rn_cfg r) (rn_checks r ! i) (pl_phases p ! i)" if "i < length (pl_phases p)" for i
    using assms(2) that by (auto simp: par_inv_def list_all2_conv_all_nth)
  have cap: "int (pl_sem p) \<le> max 0 (vc_Parallelism (rn_cfg r))" using assms(2) by (simp add: par_inv_def)
  note upd = par_inv_update[OF assms(2)]
  show ?thesis using assms(1)
  proof cases
    case (acquire i)
    then show ?thesis
      using upd[of i "loop_header (rn_cfg r) (rn_checks r ! i) 0 None None" "Suc (pl_sem p)" "pl_results p" "pl_state p"]
      by (auto simp: phase_rules)
  next
    case (attempt i a result lastErr ph s)
    have "phase_ok (rn_cfg r) (rn_checks r ! i) ph" "holds_slot ph" "recorded ph = []"
      using attempt phase[of i] attempt_once_ok attempt_once_facts by fastforce+
    then show ?thesis using upd[of i ph "pl_sem p" "pl_results p" s] attempt cap by auto
  next
    case (delay i a result err start d ph s)
    have "phase_ok (rn_cfg r) (rn_checks r ! i) ph" "holds_slot ph" "recorded ph = []"
      using delay phase[of i] delay_once_ok delay_once_facts by fastforce+
    then show ?thesis using upd[of i ph "pl_sem p" "pl_results p" s] delay cap by auto
  next
    case (add i x)
    then show ?thesis using upd[of i "Reporting x" "pl_sem p" "pl_results p @ [x]" "pl_state p"] phase[of i] cap by auto
  next
    case (report i x u s)
    then show ?thesis using upd[of i "Releasing x" "pl_sem p" "pl_results p" s] phase[of i] cap by auto
  next
    case (release i x)
    have "pl_phases p ! i \<in> set (filter holds_slot (pl_phases p))" using release nth_mem[of i "pl_phases p"] by auto
    then have "0 < pl_sem p" using assms(2) by (auto simp: par_inv_def simp del: set_filter dest: length_pos_if_in_set)
    then show ?thesis
      using upd[of i "Exited x" "pl_sem p - 1" "pl_results p" "pl_state p"] release phase[of i] cap by auto
  qed
qed

lemma par_inv_start: "par_inv r (par_start r s)"
  by (auto simp: par_inv_def par_start_def list_all2_conv_all_nth filter_empty_conv)

lemma par_reach_inv:
  assumes "(par_step R (rn_cfg r) (rn_checks r))\<^sup>*\<^sup>* (par_start r s) p"
  shows "par_inv r p"
  using assms by (induction rule: rtranclp_induct) (auto intro: par_inv_start par_step_inv)

section \<open>Runs of the goroutines end\<close>

fun phase_work :: "verify_config \<Rightarrow> phase \<Rightarrow> nat" where
  "phase_work cfg Waiting = 2 * nat (vc_MaxRetries cfg + 1) + 4"
| "phase_work cfg (Trying a result e) = 2 * nat (vc_MaxRetries cfg + 1 - a) + 3"
| "phase_work cfg (Delaying a result e t d) = 2 * nat (vc_MaxRetries cfg + 1 - a) + 2"
| "phase_work cfg (Adding r) = 3"
| "phase_work cfg (Reporting r) = 2"
| "phase_work cfg (Releasing r) = 1"
| "phase_work cfg (Exited r) = 0"

definition par_work :: "verify_config \<Rightarrow> 's parallel \<Rightarrow> nat" where
  "par_work cfg p = sum_list (map (phase_work cfg) (pl_phases p))"

lemma par_work_update:
  "i < length (pl_phases p) \<Longrightarrow> phase_work cfg ph < phase_work cfg (pl_phases p ! i) \<Longrightarrow>
    sum_list (map (phase_work cfg) ((pl_phases p)[i := ph])) < sum_list (map (phase_work cfg) (pl_phases p))"
  using sum_list_update_nat[of i "pl_phases p" "phase_work cfg" ph] by simp

lemma attempt_once_work:
  assumes "run_state (attempt_once R cfg c a result) s = (ph, s')" "a \<le> vc_MaxRetries cfg"
  shows "phase_work cfg ph < phase_work cfg (Trying a result e)"
  using assms by (auto simp: attempt_once_def loop_header_def split: if_splits prod.splits)

lemma delay_once_work:
  assumes "run_state (delay_once R cfg c a result e t d) s = (ph, s')" "a < vc_MaxRetries cfg"
  shows "phase_work cfg ph < phase_work cfg (Delaying a result e t d)"
  using assms by (auto simp: delay_once_def loop_header_def split: if_splits prod.splits)

lemma par_step_work:
  assumes "par_step R (rn_cfg r) (rn_checks r) p q" "par_inv r p"
  shows "par_work (rn_cfg r) q < par_work (rn_cfg r) p"
proof -
  have phase: "phase_ok (rn_cfg r) (rn_checks r ! i) (pl_phases p ! i)" if "i < length (pl_phases p)" for i
    using assms(2) that by (auto simp: par_inv_def list_all2_conv_all_nth)
  show ?thesis using assms(1)
  proof cases
    case (acquire i)
    have "phase_work (rn_cfg r) (loop_header (rn_cfg r) (rn_checks r ! i) 0 None None) < phase_work (rn_cfg r) Waiting"
      by (simp add: loop_header_def)
    then show ?thesis using acquire by (simp add: par_work_def par_work_update)
  next
    case (attempt i a result lastErr ph s)
    then have "phase_work (rn_cfg r) ph < phase_work (rn_cfg r) (pl_phases p ! i)"
      using attempt_once_work[OF attempt(4)] phase[of i] by fastforce
    then show ?thesis using attempt by (simp add: par_work_def par_work_update)
  next
    case (delay i a result err start d ph s)
    then have "phase_work (rn_cfg r) ph < phase_work (rn_cfg r) (pl_phases p ! i)"
      using delay_once_work[OF delay(4)] phase[of i] by fastforce
    then show ?thesis using delay by (simp add: par_work_def par_work_update)
  qed (auto simp: par_work_def intro: par_work_update)
qed

lemma par_work_start:
  "par_work cfg (par_start r s) = length (rn_checks r) * (2 * nat (vc_MaxRetries cfg + 1) + 4)"
  by (induction "rn_checks r" arbitrary: r) (auto simp: par_work_def par_start_def comp_def sum_list_triv)

lemma par_run_length:
  assumes "((par_step R (rn_cfg r) (rn_checks r)) ^^ n) (par_start r s) p"
  shows "par_inv r p \<and> n + par_work (rn_cfg r) p \<le> length (rn_checks r) * (2 * nat (vc_MaxRetries (rn_cfg r) + 1) + 4)"
  using assms
proof (induction n arbitrary: p)
  case 0
  then show ?case using par_inv_start[of r s] by (auto simp: par_work_start)
next
  case (Suc n)
  then obtain q where "((par_step R (rn_cfg r) (rn_checks r)) ^^ n) (par_start r s) q" "par_step R (rn_cfg r) (rn_checks r) q p"
    by auto
  then show ?case using Suc.IH[of q] par_step_work[of R r q p] par_step_inv[of R r q p] by fastforce
qed

text \<open>With at least one slot, a goroutine that has not exited can move, or another one that holds a slot can.\<close>

lemma phase_moves:
  assumes "i < length (pl_phases p)" "holds_slot (pl_phases p ! i)"
  shows "\<exists>q. par_step R cfg checks p q"
proof (cases "pl_phases p ! i")
  case (Trying a result e)
  then show ?thesis using assms(1) par_step.attempt[of i p a result e] by (metis surj_pair)
next
  case (Delaying a result e t d)
  then show ?thesis using assms(1) par_step.delay[of i p a result e t d] by (metis surj_pair)
next
  case (Reporting r)
  then show ?thesis using assms(1) par_step.report[of i p r] by (metis surj_pair)
qed (use assms in \<open>auto intro: par_step.add par_step.release\<close>)

lemma par_progress:
  assumes inv: "par_inv r p" and cap: "1 \<le> vc_Parallelism (rn_cfg r)" and more: "\<not> par_done p"
  shows "\<exists>q. par_step R (rn_cfg r) (rn_checks r) p q"
proof (cases "pl_sem p = 0")
  case False
  then obtain ph where "ph \<in> set (pl_phases p)" "holds_slot ph"
    using inv by (auto simp: par_inv_def filter_empty_conv)
  then show ?thesis using phase_moves by (metis in_set_conv_nth)
next
  case True
  obtain i where i: "i < length (pl_phases p)" "\<not> has_exited (pl_phases p ! i)"
    using more by (auto simp: par_done_def list_all_length)
  have "pl_phases p ! i = Waiting \<or> holds_slot (pl_phases p ! i)" using i(2) by (cases "pl_phases p ! i") auto
  moreover have "int (pl_sem p) < vc_Parallelism (rn_cfg r)" using True cap by simp
  ultimately show ?thesis using phase_moves[OF i(1)] par_step.acquire[OF i(1)] by blast
qed

text \<open>
  C38: With at least one slot every run of the goroutines is finite, with a bound in the number of checks and retries, and one
  that cannot go on has let every goroutine exit, so that \<^verbatim>\<open>wg.Wait\<close> returns. On the way no more checks run than there are slots.
\<close>

theorem parallel_run_ends:
  assumes "1 \<le> vc_Parallelism (rn_cfg r)" "((par_step R (rn_cfg r) (rn_checks r)) ^^ n) (par_start r s) p"
  shows "n \<le> length (rn_checks r) * (2 * nat (vc_MaxRetries (rn_cfg r) + 1) + 4)
    \<and> int (length (filter holds_slot (pl_phases p))) \<le> vc_Parallelism (rn_cfg r)
    \<and> ((\<nexists>q. par_step R (rn_cfg r) (rn_checks r) p q) \<longrightarrow> par_done p)"
  using par_run_length[OF assms(2)] par_progress[OF _ assms(1)] assms(1) by (auto simp: par_inv_def)

text \<open>Without a slot no goroutine ever moves: a run with checks deadlocks and has no outcome.\<close>

lemma no_slot_no_step:
  assumes "vc_Parallelism (rn_cfg r) = 0"
  shows "\<not> par_step R (rn_cfg r) (rn_checks r) (par_start r s) q"
  using assms by (auto simp: par_start_def elim!: par_step.cases)

theorem parallelism_zero_deadlocks:
  assumes "vc_Parallelism (rn_cfg r) = 0" "rn_checks r \<noteq> []"
  shows "\<not> Runner_Run R r s x s'"
proof
  assume "Runner_Run R r s x s'"
  then obtain t s1 p where "(par_step R (rn_cfg r) (rn_checks r))\<^sup>*\<^sup>* (par_start r s1) p" "par_done p"
    using assms by (auto elim!: Runner_RunE)
  moreover have "p = par_start r s1"
    using calculation(1) no_slot_no_step[OF assms(1)] by (metis converse_rtranclpE)
  ultimately show False using assms(2) by (cases "rn_checks r") (auto simp: par_done_def par_start_def)
qed

section \<open>The verdict of a run\<close>

lemma par_done_outcomes:
  assumes "par_inv r p" "par_done p"
  shows "\<exists>rs. list_all2 (check_outcome (rn_cfg r)) (rn_checks r) rs \<and> mset (pl_results p) = mset (rn_results r) + mset rs"
proof -
  define rs where "rs = concat (map recorded (pl_phases p))"
  have ex: "\<exists>x. ph = Exited x" if "ph \<in> set (pl_phases p)" for ph
    using assms(2) that by (cases ph) (auto simp: par_done_def list_all_iff)
  have "list_all2 (check_outcome cfg) cs (concat (map recorded phs))"
    if "list_all2 (phase_ok cfg) cs phs" "\<forall>ph \<in> set phs. \<exists>x. ph = Exited x" for cfg and cs :: "'a Check list" and phs
    using that by (induction rule: list_all2_induct) auto
  then have "list_all2 (check_outcome (rn_cfg r)) (rn_checks r) rs"
    using assms(1) ex by (auto simp: par_inv_def rs_def)
  then show ?thesis using assms(1) by (auto simp: par_inv_def rs_def)
qed

text \<open>
  A run that returns has one result for each check, an outcome of that check, in the order of the checks when they run in
  order; it ends without an error only when every check has passed.
\<close>

lemma Run_results:
  assumes run: "Runner_Run R r s (Inr (err, r')) s'" and new: "rn_results r = []"
  shows "\<exists>rs. list_all2 (check_outcome (rn_cfg r)) (rn_checks r) rs \<and> mset (rn_results r') = mset rs
    \<and> (vc_Parallelism (rn_cfg r) = 1 \<longrightarrow> rn_results r' = rs)
    \<and> (err = None \<longrightarrow> (\<forall>x \<in> set rs. cr_Passed x))
    \<and> (vc_Format (rn_cfg r) \<noteq> ''json'' \<longrightarrow> (\<forall>x \<in> set rs. cr_Passed x) \<longrightarrow> err = None)"
  using run
proof (cases rule: Runner_Run.cases)
  case sequential
  obtain t s1 where t: "run_state (Reporter_Start R (rn_cfg r)) s = (t, s1)" by fastforce
  obtain q s2 where q: "run_state (sequential_loop R (rn_checks r) r) s1 = (q, s2)" by fastforce
  obtain e s3 where e: "run_state (Reporter_Finish R (rn_cfg r) t (rn_results q)) s2 = (e, s3)" by fastforce
  have "q = r'" "e = err" using sequential(2) t q e by (simp_all add: Run_sequential_def)
  then show ?thesis using sequential_loop_outcomes[OF q] Finish_verdict[OF e] new by auto
next
  case (parallel t s1 p)
  obtain rs where rs: "list_all2 (check_outcome (rn_cfg r)) (rn_checks r) rs" "mset (pl_results p) = mset rs"
    using par_done_outcomes[OF par_reach_inv[OF parallel(5)] parallel(6)] new by auto
  moreover have "set (pl_results p) = set rs" using rs(2) by (rule mset_eq_setD)
  ultimately show ?thesis using Finish_verdict[OF parallel(7)] parallel by auto
qed

section \<open>The order of the checks is one of the schedules\<close>

lemma solo_attempt:
  assumes "i < length (pl_phases p)" "run_state (attempt_once R cfg (checks ! i) a result) s = (ph, s1)"
  shows "par_step R cfg checks (p\<lparr>pl_phases := (pl_phases p)[i := Trying a result e], pl_state := s\<rparr>)
    (p\<lparr>pl_phases := (pl_phases p)[i := ph], pl_state := s1\<rparr>)"
  using par_step.attempt[of i "p\<lparr>pl_phases := (pl_phases p)[i := Trying a result e], pl_state := s\<rparr>" a result e R cfg checks ph s1]
    assms by simp

lemma solo_delay:
  assumes "i < length (pl_phases p)" "run_state (delay_once R cfg (checks ! i) a result e t d) s = (ph, s1)"
  shows "par_step R cfg checks (p\<lparr>pl_phases := (pl_phases p)[i := Delaying a result e t d], pl_state := s\<rparr>)
    (p\<lparr>pl_phases := (pl_phases p)[i := ph], pl_state := s1\<rparr>)"
  using par_step.delay[of i "p\<lparr>pl_phases := (pl_phases p)[i := Delaying a result e t d], pl_state := s\<rparr>" a result e t d R cfg checks ph s1]
    assms by simp

lemma solo_retry:
  assumes i: "i < length (pl_phases p)" and run: "run_state (retry_loop R cfg (checks ! i) a result e) s = (x, s')"
  shows "(par_step R cfg checks)\<^sup>*\<^sup>*
    (p\<lparr>pl_phases := (pl_phases p)[i := loop_header cfg (checks ! i) a result e], pl_state := s\<rparr>)
    (p\<lparr>pl_phases := (pl_phases p)[i := Adding x], pl_state := s'\<rparr>)"
  using run
proof (induction "nat (vc_MaxRetries cfg + 1 - a)" arbitrary: a result e s rule: less_induct)
  case less
  show ?case
  proof (cases "a \<le> vc_MaxRetries cfg")
    case False
    then show ?thesis using less.prems by (simp add: retry_loop.simps loop_header_def)
  next
    case a: True
    then have h: "loop_header cfg (checks ! i) a result e = Trying a result e" by (simp add: loop_header_def)
    note IH = less.hyps[of "a + 1"] and steps = solo_attempt[OF i] solo_delay[OF i] converse_rtranclp_into_rtranclp[of "par_step R cfg checks"] and one = r_into_rtranclp[of "par_step R cfg checks"]
    from a less.prems show ?thesis
    proof (cases rule: retry_iteration)
      case passed
      show ?thesis unfolding h by (rule one[OF solo_attempt[OF i passed]])
    next
      case (last res err s1)
      show ?thesis unfolding h by (rule steps(3)[OF solo_attempt[OF i last(1)] IH[OF _ last(2)]]) (use a in simp)
    next
      case (cancelled res err t d s1)
      show ?thesis unfolding h by (rule steps(3)[OF solo_attempt[OF i cancelled(1)] one[OF solo_delay[OF i cancelled(2)]]])
    next
      case (again res err t d s1 s2)
      show ?thesis unfolding h
        by (rule steps(3)[OF solo_attempt[OF i again(1)] steps(3)[OF solo_delay[OF i again(2)] IH[OF _ again(3)]]]) (use a in simp)
    qed
  qed
qed

lemma solo_check:
  assumes i: "i < length (pl_phases p)" "pl_phases p ! i = Waiting" and cap: "int (pl_sem p) < vc_Parallelism cfg"
    and run: "run_state (runCheckWithRetry R cfg (checks ! i)) (pl_state p) = (x, s1)" "run_state (ReportCheck R cfg x) s1 = (u, s2)"
  shows "(par_step R cfg checks)\<^sup>*\<^sup>* p (p\<lparr>pl_phases := (pl_phases p)[i := Exited x], pl_results := pl_results p @ [x], pl_state := s2\<rparr>)"
proof -
  define q where "q = p\<lparr>pl_sem := Suc (pl_sem p)\<rparr>"
  have q: "i < length (pl_phases q)" using i by (simp add: q_def)
  define q1 where "q1 = q\<lparr>pl_phases := (pl_phases q)[i := Adding x], pl_state := s1\<rparr>"
  define q2 where "q2 = q1\<lparr>pl_phases := (pl_phases q1)[i := Reporting x], pl_results := pl_results q1 @ [x]\<rparr>"
  define q3 where "q3 = q2\<lparr>pl_phases := (pl_phases q2)[i := Releasing x], pl_state := s2\<rparr>"
  have 0: "par_step R cfg checks p (q\<lparr>pl_phases := (pl_phases q)[i := loop_header cfg (checks ! i) 0 None None], pl_state := pl_state p\<rparr>)"
    using par_step.acquire[OF i cap, of R checks] by (cases p) (simp add: q_def)
  have 1: "(par_step R cfg checks)\<^sup>*\<^sup>* (q\<lparr>pl_phases := (pl_phases q)[i := loop_header cfg (checks ! i) 0 None None], pl_state := pl_state p\<rparr>) q1"
    unfolding q1_def using run(1) by (intro solo_retry[OF q]) (simp add: runCheckWithRetry_def)
  have 2: "par_step R cfg checks q1 q2" unfolding q2_def using q by (intro par_step.add) (simp_all add: q1_def)
  have 3: "par_step R cfg checks q2 q3"
    unfolding q3_def using q run(2) by (intro par_step.report) (simp_all add: q1_def q2_def)
  have "par_step R cfg checks q3 (q3\<lparr>pl_phases := (pl_phases q3)[i := Exited x], pl_sem := pl_sem q3 - 1\<rparr>)"
    using q by (intro par_step.release) (simp_all add: q1_def q2_def q3_def)
  moreover have "q3\<lparr>pl_phases := (pl_phases q3)[i := Exited x], pl_sem := pl_sem q3 - 1\<rparr>
      = p\<lparr>pl_phases := (pl_phases p)[i := Exited x], pl_results := pl_results p @ [x], pl_state := s2\<rparr>"
    by (simp add: q3_def q2_def q1_def q_def)
  moreover have "(par_step R cfg checks)\<^sup>*\<^sup>* p q3"
    using converse_rtranclp_into_rtranclp[of "par_step R cfg checks", OF 0 1] 2 3 by (blast intro: rtranclp.rtrancl_into_rtrancl)
  ultimately show ?thesis by (metis rtranclp.rtrancl_into_rtrancl)
qed

lemma sequential_schedule:
  assumes "run_state (sequential_loop R rest r) s = (r', s')" "1 \<le> vc_Parallelism (rn_cfg r)" "length prev = length pre"
  shows "\<exists>p. (par_step R (rn_cfg r) (pre @ rest))\<^sup>*\<^sup>*
      \<lparr>pl_phases = map Exited prev @ map (\<lambda>_. Waiting) rest, pl_sem = 0, pl_results = rn_results r, pl_state = s\<rparr> p
    \<and> par_done p \<and> pl_results p = rn_results r' \<and> pl_state p = s'"
  using assms
proof (induction R rest r arbitrary: s pre prev rule: sequential_loop.induct)
  case (1 R r)
  then show ?case by (intro exI[of _ "\<lparr>pl_phases = map Exited prev, pl_sem = 0, pl_results = rn_results r, pl_state = s\<rparr>"])
    (auto simp: par_done_def list_all_iff)
next
  case (2 R check rest r)
  let ?p = "\<lambda>prev ws rs s. \<lparr>pl_phases = map Exited prev @ map (\<lambda>_. Waiting) ws, pl_sem = 0, pl_results = rs, pl_state = s\<rparr>"
  obtain x s1 where x: "run_state (runCheckWithRetry R (rn_cfg r) check) s = (x, s1)" by fastforce
  obtain s2 where u: "run_state (ReportCheck R (rn_cfg r) x) s1 = ((), s2)" by (metis old.unit.exhaust surj_pair)
  have "run_state (sequential_loop R rest (addResult x r)) s2 = (r', s')" using "2.prems"(1) x u by (simp add: Let_def)
  from "2.IH"[OF refl this, of "prev @ [x]" "pre @ [check]"] "2.prems" obtain p where
    p: "(par_step R (rn_cfg r) (pre @ check # rest))\<^sup>*\<^sup>* (?p (prev @ [x]) rest (rn_results r @ [x]) s2) p"
      "par_done p" "pl_results p = rn_results r'" "pl_state p = s'"
    by (auto simp: addResult_def)
  have "(par_step R (rn_cfg r) (pre @ check # rest))\<^sup>*\<^sup>* (?p prev (check # rest) (rn_results r) s) (?p (prev @ [x]) rest (rn_results r @ [x]) s2)"
    using solo_check[of "length pre" "?p prev (check # rest) (rn_results r) s" "rn_cfg r" R "pre @ check # rest" x s1 "()" s2] x u "2.prems"
    by (simp add: nth_append list_update_append)
  from rtranclp_trans[OF this p(1)] show ?case using p(2-4) by blast
qed


section \<open>The small run\<close>

lemma demo_runner_fields: "rn_checks demo_runner = demo_checks" "rn_cfg demo_runner = DefaultConfig" "vc_Parallelism DefaultConfig = 4"
  "vc_MaxRetries DefaultConfig = 3"
  by (simp_all add: demo_runner_def AddChecks_def NewRunner_def DefaultConfig_def)

theorem parallel_run_ends_witness:
  "\<exists>p. ((par_step demo_runner_env (rn_cfg demo_runner) (rn_checks demo_runner)) ^^ 1) (par_start demo_runner 0) p
     \<and> 1 \<le> 2 * (12 :: nat) \<and> int (length (filter holds_slot (pl_phases p))) \<le> 4
     \<and> ((\<nexists>q. par_step demo_runner_env (rn_cfg demo_runner) (rn_checks demo_runner) p q) \<longrightarrow> par_done p)"
proof -
  let ?s = "par_step demo_runner_env (rn_cfg demo_runner) (rn_checks demo_runner)"
  have "\<exists>p. ?s (par_start demo_runner 0) p"
    by (rule exI, rule par_step.acquire[of 0]) (simp_all add: par_start_def demo_runner_fields demo_checks_def)
  then obtain p where p: "(?s ^^ 1) (par_start demo_runner 0) p" by auto
  have "1 \<le> vc_Parallelism (rn_cfg demo_runner)" by (simp add: demo_runner_fields)
  from parallel_run_ends[OF this p] p show ?thesis by (auto simp: demo_runner_fields demo_checks_def)
qed


end
