(* ===== verification/Verify_Checks.thy ===== *)
theory Verify_Checks
  imports Verify_Parallel Sdk Grpc Graphql Startup
begin

text \<open>
  The checks of the verification program (\<^verbatim>\<open>cmd/verify/checks/\<close>): what each sends, which answers it accepts and what it keeps
  of them for the checks after it. They run over a state with the shared \<^verbatim>\<open>AuthContext\<close>, the text printed so far and
  the world of the server. The HTTP client, the gRPC connection and the database driver are parameters; an
  answer carries its status, the text of its body and the JSON value of that text, if it is one.
\<close>

section \<open>The state and the surroundings of the checks\<close>

record AuthContext =
  ac_Email :: string
  ac_Password :: string
  ac_TenantName :: string
  ac_Token :: string
  ac_RefreshToken :: string
  ac_UserID :: string
  ac_TenantID :: string
  ac_CompanyID :: string
  ac_EmailVerified :: bool

record tool =
  tl_auth :: AuthContext
  tl_out :: "printed list"
  tl_world :: world

type_synonym 'a tool_io = "(tool, 'a) state"
type_synonym check_io = "(CheckResult option \<times> go_error option) tool_io"

text \<open>The HTTP client, with whether a request can be built.\<close>

datatype verify_body = NoBody | JSONBody json | TextBody string

record verify_request =
  vq_method :: string
  vq_url :: string
  vq_headers :: "(string \<times> string) list"
  vq_body :: verify_body

record verify_reply =
  vp_status :: nat
  vp_text :: string
  vp_json :: "json option"

text \<open>A response has arrived when its head has; reading its body can still fail.\<close>

record verify_http =
  vh_NewRequest :: "string \<Rightarrow> string \<Rightarrow> go_error option"
  vh_Do :: "duration \<Rightarrow> verify_request \<Rightarrow> ((nat \<times> (string \<times> json option) result) result) io"

datatype connectivity = Idle | Connecting | Ready_state | TransientFailure | Shutdown

text \<open>
  The client calls of the generated stub, the text of an error they return, and the connection as the waiting loop sees it:
  its first state, the states it changes to before the deadline, and the error of the deadline.
\<close>

record verify_grpc =
  vg_NewClient :: "string \<Rightarrow> go_error option"
  vg_state :: connectivity
  vg_changes :: "connectivity list"
  vg_deadline :: go_error
  vg_ValidateToken :: "string \<Rightarrow> ValidateTokenResponse rpc"
  vg_GetUserRoles :: "string \<Rightarrow> string \<Rightarrow> string list rpc"
  vg_ValidateCompanyAccess :: "string \<Rightarrow> string \<Rightarrow> CompanyAccess rpc"
  vg_error_text :: "grpc_code \<times> string \<Rightarrow> string"

text \<open>
  The surroundings of the program: the server's clock, randomness and database, the clients, \<^verbatim>\<open>sql.Open\<close>, sleeping, and
  what the runner uses: randomness, the two \<^verbatim>\<open>select\<close>s (the authentication checks have a context with a deadline of
  their own), the JSON encoder and the notation of durations.
\<close>

record verify_env =
  ve_environ :: environ
  ve_http :: verify_http
  ve_grpc :: verify_grpc
  ve_sql_Open :: "string \<Rightarrow> go_error option"
  ve_Sleep :: "duration \<Rightarrow> unit io"
  ve_entropy :: "(nat option) io"
  ve_select_auth :: "duration \<Rightarrow> bool io"
  ve_select :: "duration \<Rightarrow> bool io"
  ve_encode :: "json \<Rightarrow> (go_error option) io"
  ve_show_duration :: "duration \<Rightarrow> string"

definition on_world :: "'a io \<Rightarrow> 'a tool_io" where
  "on_world m = State (\<lambda>t. case run_state m (tl_world t) of (a, w) \<Rightarrow> (a, t\<lparr>tl_world := w\<rparr>))"

definition get_auth :: "AuthContext tool_io" where
  "get_auth = State (\<lambda>t. (tl_auth t, t))"

definition set_auth :: "AuthContext \<Rightarrow> unit tool_io" where
  "set_auth a = State (\<lambda>t. ((), t\<lparr>tl_auth := a\<rparr>))"

definition print_out :: "printed \<Rightarrow> unit tool_io" where
  "print_out x = State (\<lambda>t. ((), t\<lparr>tl_out := tl_out t @ [x]\<rparr>))"

definition tool_now :: "verify_env \<Rightarrow> time tool_io" where
  "tool_now V = on_world (time_Now (ve_environ V))"

lemma run_tool [simp]:
  "run_state (on_world m) t = (case run_state m (tl_world t) of (a, w) \<Rightarrow> (a, t\<lparr>tl_world := w\<rparr>))"
  "run_state get_auth t = (tl_auth t, t)" "run_state (set_auth a) t = ((), t\<lparr>tl_auth := a\<rparr>)"
  "run_state (print_out x) t = ((), t\<lparr>tl_out := tl_out t @ [x]\<rparr>)"
  by (simp_all add: on_world_def get_auth_def set_auth_def print_out_def)

definition NewAuthContext :: "environ \<Rightarrow> AuthContext io" where
  "NewAuthContext E = do {
     suffix \<leftarrow> uuid_New E;
     ret \<lparr>ac_Email = ''verify_'' @ suffix @ ''@example.com'', ac_Password = ''VerifyPassword123!'',
       ac_TenantName = ''verify_tenant_'' @ suffix, ac_Token = [], ac_RefreshToken = [], ac_UserID = [], ac_TenantID = [],
       ac_CompanyID = [], ac_EmailVerified = False\<rparr> }"

section \<open>Results\<close>

text \<open>Every check returns \<^verbatim>\<open>&runner.CheckResult{...}, nil\<close> with the time since its start.\<close>

definition check_result :: "verify_env \<Rightarrow> string \<Rightarrow> string \<Rightarrow> time \<Rightarrow> bool \<Rightarrow> nat \<Rightarrow> string \<Rightarrow> check_io" where
  "check_result V name grp start passed status err = do {
     now \<leftarrow> tool_now V;
     ret (Some \<lparr>cr_Name = name, cr_Group = grp, cr_Passed = passed, cr_Duration = now - start, cr_Error = err,
       cr_StatusCode = int status, cr_Retries = 0\<rparr>, None) }"

text \<open>Slicing beyond the front of the string would be a panic.\<close>

definition truncate :: "string \<Rightarrow> int \<Rightarrow> string result" where
  "truncate s maxLen = (if int (length s) \<le> maxLen then Inr s
     else if maxLen < 3 then Inl (RuntimePanic ''slice bounds out of range'')
     else Inr (take (nat maxLen - 3) s @ ''...''))"

definition truncated :: "string \<Rightarrow> int \<Rightarrow> string" where
  "truncated s maxLen = (case truncate s maxLen of Inl _ \<Rightarrow> [] | Inr t \<Rightarrow> t)"

lemma truncate_total: "3 \<le> n \<Longrightarrow> truncate s n = Inr (truncated s n) \<and> int (length (truncated s n)) \<le> n"
  by (auto simp: truncated_def truncate_def)

text \<open>
  What the checks do with an answer before they look into it: an error, or a status that is not the expected one, is a
  failure.
\<close>

definition on_reply ::
    "verify_env \<Rightarrow> string \<Rightarrow> string \<Rightarrow> time \<Rightarrow> nat list \<Rightarrow> string \<Rightarrow> verify_reply result \<Rightarrow> (verify_reply \<Rightarrow> check_io) \<Rightarrow> check_io" where
  "on_reply V name grp start expected text r k = (case r of
     Inl err \<Rightarrow> check_result V name grp start False 0 (Error_text err)
   | Inr resp \<Rightarrow>
       if vp_status resp \<notin> set expected
       then check_result V name grp start False (vp_status resp)
         (text @ '', got '' @ string_of_nat (vp_status resp) @ '': '' @ truncated (vp_text resp) 100)
       else k resp)"

definition need_token :: "verify_env \<Rightarrow> string \<Rightarrow> string \<Rightarrow> time \<Rightarrow> string \<Rightarrow> (AuthContext \<Rightarrow> check_io) \<Rightarrow> check_io" where
  "need_token V name grp start msg k = do {
     a \<leftarrow> get_auth;
     if ac_Token a = [] then check_result V name grp start False 0 msg else k a }"

definition need_company :: "verify_env \<Rightarrow> string \<Rightarrow> string \<Rightarrow> time \<Rightarrow> string \<Rightarrow> (AuthContext \<Rightarrow> check_io) \<Rightarrow> check_io" where
  "need_company V name grp start msg k = do {
     a \<leftarrow> get_auth;
     if ac_CompanyID a = [] then check_result V name grp start False 0 msg else k a }"

definition passed_with :: "verify_env \<Rightarrow> string \<Rightarrow> string \<Rightarrow> time \<Rightarrow> verify_reply \<Rightarrow> check_io" where
  "passed_with V name grp start resp = check_result V name grp start True (vp_status resp) []"

section \<open>HTTP helpers\<close>

definition http_exchange :: "verify_env \<Rightarrow> verify_config \<Rightarrow> verify_request \<Rightarrow> (verify_reply result) tool_io" where
  "http_exchange V cfg q = (case vh_NewRequest (ve_http V) (vq_method q) (vq_url q) of
     Some err \<Rightarrow> ret (Inl (wrap ''failed to create request: '' err))
   | None \<Rightarrow> do {
       r \<leftarrow> on_world (vh_Do (ve_http V) (vc_Timeout cfg) q);
       ret (case r of
         Inl err \<Rightarrow> Inl (wrap ''request failed: '' err)
       | Inr (status, Inl err) \<Rightarrow> Inl (wrap ''failed to read response: '' err)
       | Inr (status, Inr (text, j)) \<Rightarrow> Inr \<lparr>vp_status = status, vp_text = text, vp_json = j\<rparr>) })"

definition bearer :: "string \<Rightarrow> (string \<times> string) list" where
  "bearer token = (if token \<noteq> [] then [(''Authorization'', ''Bearer '' @ token)] else [])"

definition doPost :: "verify_env \<Rightarrow> verify_config \<Rightarrow> string \<Rightarrow> string \<Rightarrow> json \<Rightarrow> (verify_reply result) tool_io" where
  "doPost V cfg path token payload = http_exchange V cfg \<lparr>vq_method = ''POST'', vq_url = vc_BaseURL cfg @ path,
     vq_headers = (''Content-Type'', ''application/json'') # bearer token, vq_body = JSONBody payload\<rparr>"

definition doGet :: "verify_env \<Rightarrow> verify_config \<Rightarrow> string \<Rightarrow> string \<Rightarrow> (verify_reply result) tool_io" where
  "doGet V cfg path token = http_exchange V cfg \<lparr>vq_method = ''GET'', vq_url = vc_BaseURL cfg @ path,
     vq_headers = bearer token, vq_body = NoBody\<rparr>"

definition doDelete :: "verify_env \<Rightarrow> verify_config \<Rightarrow> string \<Rightarrow> string \<Rightarrow> (verify_reply result) tool_io" where
  "doDelete V cfg path token = http_exchange V cfg \<lparr>vq_method = ''DELETE'', vq_url = vc_BaseURL cfg @ path,
     vq_headers = bearer token, vq_body = NoBody\<rparr>"

definition doGraphQL :: "verify_env \<Rightarrow> verify_config \<Rightarrow> string \<Rightarrow> string \<Rightarrow> (verify_reply result) tool_io" where
  "doGraphQL V cfg query token = http_exchange V cfg \<lparr>vq_method = ''POST'', vq_url = vc_BaseURL cfg @ ''/query'',
     vq_headers = (''Content-Type'', ''application/json'') # bearer token, vq_body = TextBody query\<rparr>"

section \<open>Health\<close>

text \<open>
  \<^verbatim>\<open>json.Unmarshal\<close> into a \<^verbatim>\<open>map[string]interface{}\<close> needs an object (or null); the last entry of a key counts.
\<close>

definition json_map :: "json option \<Rightarrow> (string \<rightharpoonup> json) option" where
  "json_map j = (case j of Some (JObj fs) \<Rightarrow> Some (map_of (rev fs)) | Some JNull \<Rightarrow> Some Map.empty | _ \<Rightarrow> None)"

definition string_value :: "json option \<Rightarrow> string" where
  "string_value j = (case j of Some (JStr s) \<Rightarrow> s | _ \<Rightarrow> [])"

text \<open>The text of the standard library's decoding error is left open.\<close>

definition json_error_text :: string where
  "json_error_text = ''json''"

text \<open>The verb \<^verbatim>\<open>%q\<close>, for text without characters to escape.\<close>

definition quoted :: "string \<Rightarrow> string" where
  "quoted s = [CHR 0x22] @ s @ [CHR 0x22]"

definition doHealthCheck :: "verify_env \<Rightarrow> verify_config \<Rightarrow> string \<Rightarrow> string \<Rightarrow> check_io" where
  "doHealthCheck V cfg path expectedStatus = (let name = ''GET '' @ path; fail = check_result V name ''Health'' in do {
     start \<leftarrow> tool_now V;
     case vh_NewRequest (ve_http V) ''GET'' (vc_BaseURL cfg @ path) of
       Some err \<Rightarrow> fail start False 0 (''failed to create request: '' @ Error_text err)
     | None \<Rightarrow> do {
         r \<leftarrow> on_world (vh_Do (ve_http V) (vc_Timeout cfg)
           \<lparr>vq_method = ''GET'', vq_url = vc_BaseURL cfg @ path, vq_headers = [], vq_body = NoBody\<rparr>);
         case r of
           Inl err \<Rightarrow> fail start False 0 (''request failed: '' @ Error_text err)
         | Inr (status, Inl err) \<Rightarrow> fail start False status (''failed to read response: '' @ Error_text err)
         | Inr (status, Inr (text, j)) \<Rightarrow>
             if status \<noteq> 200 then fail start False status (''expected 200, got '' @ string_of_nat status @ '': '' @ text)
             else (case json_map j of
               None \<Rightarrow> fail start False status (''invalid JSON response: '' @ json_error_text)
             | Some response \<Rightarrow>
                 let got = string_value (response ''status'') in
                 if got \<noteq> expectedStatus
                 then fail start False status (''expected status '' @ quoted expectedStatus @ '', got '' @ quoted got)
                 else fail start True status []) } })"

definition checkHealth :: "verify_env \<Rightarrow> verify_config \<Rightarrow> check_io" where
  "checkHealth V cfg = doHealthCheck V cfg ''/health'' ''healthy''"

definition checkReady :: "verify_env \<Rightarrow> verify_config \<Rightarrow> check_io" where
  "checkReady V cfg = doHealthCheck V cfg ''/ready'' ''ready''"

definition HealthChecks :: "verify_env \<Rightarrow> tool Check list" where
  "HealthChecks V =
     [\<lparr>ck_Name = ''GET /health'', ck_Group = ''Health'', ck_Fn = checkHealth V\<rparr>,
      \<lparr>ck_Name = ''GET /ready'', ck_Group = ''Health'', ck_Fn = checkReady V\<rparr>]"

section \<open>Authentication\<close>

definition makeRegisterCheck :: "verify_env \<Rightarrow> verify_config \<Rightarrow> check_io" where
  "makeRegisterCheck V cfg = (let name = ''POST /auth/register'' in do {
     start \<leftarrow> tool_now V;
     a \<leftarrow> get_auth;
     r \<leftarrow> doPost V cfg ''/auth/register'' [] (JObj [(''captcha_token'', JStr ''dummy-token''), (''email'', JStr (ac_Email a)),
       (''password'', JStr (ac_Password a)), (''tenant_name'', JStr (ac_TenantName a))]);
     on_reply V name ''Auth'' start [201, 200] ''expected 201'' r (passed_with V name ''Auth'' start) })"

text \<open>
  The e-mail address is verified in the database: in a transaction that sets \<^verbatim>\<open>app.bypass_rls\<close>, so that the policies
  of the table let every row through, the users with the address become active. An error of the setting is
  not returned; the statement after it then fails as well, as every statement of an aborted transaction does. What
  verbose mode prints about the transaction is left out.
\<close>

definition activate_users :: "string \<Rightarrow> tables \<Rightarrow> (tables \<times> nat) result" where
  "activate_users email db = Inr (db\<lparr>users := map (\<lambda>r. if ur_email r = email
       then r\<lparr>ur_status := ''active'', ur_verification_token := [], ur_verification_token_expires_at := None\<rparr> else r) (users db)\<rparr>,
     length (filter (\<lambda>r. ur_email r = email) (users db)))"

definition verify_email_tx :: "environ \<Rightarrow> string \<Rightarrow> reqctx \<Rightarrow> (unit result) io" where
  "verify_email_tx E email ctx = do {
     pg_exec E ctx [] (\<lambda>t db. Inr (db, 0));
     tryE (pg_exec E ctx [] (\<lambda>t. activate_users email)) (wrap ''failed to verify email: '') (\<lambda>rows.
       ret (if rows = 0 then Inl (ErrorString (''user not found: '' @ email)) else Inr ())) }"

definition direct_transaction :: "environ \<Rightarrow> (reqctx \<Rightarrow> (unit result) io) \<Rightarrow> (unit result) io" where
  "direct_transaction E fn = State (\<lambda>w0. case pg_fault E (ticks w0) of
     Some m \<Rightarrow> (Inl (wrap ''failed to start transaction: '' (Driver m)), tick w0)
   | None \<Rightarrow> (case run_state (fn (background\<lparr>ctx_tx := True\<rparr>)) (tx_begin E w0) of
       (Inl e, w) \<Rightarrow> (Inl e, tx_rollback w0 w)
     | (Inr u, w) \<Rightarrow> (case pg_gate E (background\<lparr>ctx_tx := True\<rparr>) [] w of
         Inl e \<Rightarrow> (Inl (wrap ''failed to commit: '' e), tx_rollback w0 (tick w))
       | Inr t \<Rightarrow> (Inr (), tx_commit w0 (tick w)))))"

definition verifyEmailDirect :: "verify_env \<Rightarrow> verify_config \<Rightarrow> string \<Rightarrow> (unit result) io" where
  "verifyEmailDirect V cfg email =
     (if vc_DatabaseURL cfg = [] then ret (Inl (ErrorString ''no database URL configured''))
      else case ve_sql_Open V (vc_DatabaseURL cfg) of
        Some err \<Rightarrow> ret (Inl (wrap ''failed to connect to database: '' err))
      | None \<Rightarrow> direct_transaction (ve_environ V) (verify_email_tx (ve_environ V) email))"

text \<open>The fields that the check reads of a login response; the nested object may be absent.\<close>

record login_fields =
  lf_Token :: string
  lf_RefreshToken :: string
  lf_UserID :: string
  lf_TenantID :: string

fun json_object_field :: "string \<Rightarrow> (string \<times> json) list \<Rightarrow> (string \<times> json) list \<Rightarrow> (string \<times> json) list option" where
  "json_object_field name [] acc = Some acc"
| "json_object_field name ((k, v) # fs) acc =
     (if map ascii_lower k = name
      then (case v of JObj x \<Rightarrow> json_object_field name fs (acc @ x) | JNull \<Rightarrow> json_object_field name fs acc | _ \<Rightarrow> None)
      else json_object_field name fs acc)"

definition decode_loginResp :: "json option \<Rightarrow> login_fields option" where
  "decode_loginResp j = do {
     fs \<leftarrow> object_fields j;
     t \<leftarrow> json_string_field ''token'' fs [];
     r \<leftarrow> json_string_field ''refresh_token'' fs [];
     u \<leftarrow> json_object_field ''user'' fs [];
     i \<leftarrow> json_string_field ''id'' u [];
     n \<leftarrow> json_string_field ''tenant_id'' u [];
     Some \<lparr>lf_Token = t, lf_RefreshToken = r, lf_UserID = i, lf_TenantID = n\<rparr> }"

definition verify_email_once :: "verify_env \<Rightarrow> verify_config \<Rightarrow> unit tool_io" where
  "verify_email_once V cfg = do {
     a \<leftarrow> get_auth;
     if ac_EmailVerified a then ret ()
     else do {
       on_world (ve_Sleep V (3 * second));
       r \<leftarrow> on_world (verifyEmailDirect V cfg (ac_Email a));
       case r of
         Inl err \<Rightarrow> if vc_Verbose cfg then print_out (PrintNote (''Email verification skipped: '' @ Error_text err)) else ret ()
       | Inr _ \<Rightarrow> set_auth (a\<lparr>ac_EmailVerified := True\<rparr>) } }"

definition makeLoginCheck :: "verify_env \<Rightarrow> verify_config \<Rightarrow> check_io" where
  "makeLoginCheck V cfg = (let name = ''POST /auth/login''; res = check_result V name ''Auth'' in do {
     start \<leftarrow> tool_now V;
     verify_email_once V cfg;
     a \<leftarrow> get_auth;
     r \<leftarrow> doPost V cfg ''/auth/login'' [] (JObj [(''captcha_token'', JStr ''dummy-token''), (''email'', JStr (ac_Email a)),
       (''password'', JStr (ac_Password a))]);
     on_reply V name ''Auth'' start [200] ''expected 200'' r (\<lambda>resp. case decode_loginResp (vp_json resp) of
       None \<Rightarrow> res start False (vp_status resp) (''failed to parse login response: '' @ json_error_text)
     | Some l \<Rightarrow> do {
         set_auth (a\<lparr>ac_Token := lf_Token l, ac_RefreshToken := lf_RefreshToken l, ac_UserID := lf_UserID l, ac_TenantID := lf_TenantID l\<rparr>);
         if lf_Token l = [] then res start False (vp_status resp) ''login succeeded but no token returned''
         else passed_with V name ''Auth'' start resp }) })"

definition decode_meResp :: "json option \<Rightarrow> (string \<times> string) option" where
  "decode_meResp j = do {
     fs \<leftarrow> object_fields j;
     i \<leftarrow> json_string_field ''id'' fs [];
     n \<leftarrow> json_string_field ''tenant_id'' fs [];
     Some (i, n) }"

definition makeMeCheck :: "verify_env \<Rightarrow> verify_config \<Rightarrow> check_io" where
  "makeMeCheck V cfg = (let name = ''GET /auth/me'' in do {
     start \<leftarrow> tool_now V;
     need_token V name ''Auth'' start ''no auth token available (login must succeed first)'' (\<lambda>a. do {
       r \<leftarrow> doGet V cfg ''/auth/me'' (ac_Token a);
       on_reply V name ''Auth'' start [200] ''expected 200'' r (\<lambda>resp. do {
         (case decode_meResp (vp_json resp) of
            None \<Rightarrow> ret ()
          | Some (i, n) \<Rightarrow> set_auth (a\<lparr>ac_UserID := if i \<noteq> [] then i else ac_UserID a,
              ac_TenantID := if n \<noteq> [] then n else ac_TenantID a\<rparr>));
         passed_with V name ''Auth'' start resp }) }) })"

text \<open>A check that only needs a token and an answer with status 200.\<close>

definition token_get_check :: "string \<Rightarrow> string \<Rightarrow> string \<Rightarrow> verify_env \<Rightarrow> verify_config \<Rightarrow> check_io" where
  "token_get_check name grp path V cfg = do {
     start \<leftarrow> tool_now V;
     need_token V name grp start ''no auth token available'' (\<lambda>a. do {
       r \<leftarrow> doGet V cfg path (ac_Token a);
       on_reply V name grp start [200] ''expected 200'' r (passed_with V name grp start) }) }"

definition make2FAStatusCheck :: "verify_env \<Rightarrow> verify_config \<Rightarrow> check_io" where
  "make2FAStatusCheck = token_get_check ''GET /auth/2fa/status'' ''Auth'' ''/auth/2fa/status''"

definition makeCaptchaConfigCheck :: "verify_env \<Rightarrow> verify_config \<Rightarrow> check_io" where
  "makeCaptchaConfigCheck V cfg = (let name = ''GET /auth/captcha-config'' in do {
     start \<leftarrow> tool_now V;
     r \<leftarrow> doGet V cfg ''/auth/captcha-config'' [];
     on_reply V name ''Auth'' start [200] ''expected 200'' r (passed_with V name ''Auth'' start) })"

definition AuthChecks :: "verify_env \<Rightarrow> tool Check list" where
  "AuthChecks V = map (\<lambda>(n, f). \<lparr>ck_Name = n, ck_Group = ''Auth'', ck_Fn = f\<rparr>)
     [(''POST /auth/register'', makeRegisterCheck V), (''POST /auth/login'', makeLoginCheck V), (''GET /auth/me'', makeMeCheck V),
      (''GET /auth/2fa/status'', make2FAStatusCheck V), (''GET /auth/captcha-config'', makeCaptchaConfigCheck V)]"

section \<open>The REST resources\<close>

definition UnixNano_text :: "verify_env \<Rightarrow> string tool_io" where
  "UnixNano_text V = do {
     now \<leftarrow> tool_now V;
     ret (string_of_int now) }"

text \<open>A check that posts a payload, which may name the time, and accepts 201 and 200.\<close>

definition create_check :: "string \<Rightarrow> string \<Rightarrow> (string \<Rightarrow> json) \<Rightarrow> verify_env \<Rightarrow> verify_config \<Rightarrow> check_io" where
  "create_check name path payload V cfg = do {
     start \<leftarrow> tool_now V;
     need_token V name ''REST API'' start ''no auth token available'' (\<lambda>a. do {
       n \<leftarrow> UnixNano_text V;
       r \<leftarrow> doPost V cfg path (ac_Token a) (payload n);
       on_reply V name ''REST API'' start [201, 200] ''expected 201'' r (passed_with V name ''REST API'' start) }) }"

definition makeCreateRoleCheck :: "verify_env \<Rightarrow> verify_config \<Rightarrow> check_io" where
  "makeCreateRoleCheck = create_check ''POST /api/v1/roles'' ''/api/v1/roles'' (\<lambda>n. JObj
     [(''description'', JStr ''Test role created by verify CLI''), (''name'', JStr (''test_role_'' @ n)),
      (''permissions'', JArr [JStr ''read:test''])])"

definition makeListRolesCheck :: "verify_env \<Rightarrow> verify_config \<Rightarrow> check_io" where
  "makeListRolesCheck = token_get_check ''GET /api/v1/roles'' ''REST API'' ''/api/v1/roles''"

definition makeCreateTenantCheck :: "verify_env \<Rightarrow> verify_config \<Rightarrow> check_io" where
  "makeCreateTenantCheck = create_check ''POST /api/v1/tenants'' ''/api/v1/tenants'' (\<lambda>n. JObj [(''name'', JStr (''tenant_'' @ n))])"

definition makeCreateAPIKeyCheck :: "verify_env \<Rightarrow> verify_config \<Rightarrow> check_io" where
  "makeCreateAPIKeyCheck = create_check ''POST /api/v1/api-keys'' ''/api/v1/api-keys'' (\<lambda>n. JObj [(''name'', JStr (''verify_key_'' @ n))])"

definition makeListAPIKeysCheck :: "verify_env \<Rightarrow> verify_config \<Rightarrow> check_io" where
  "makeListAPIKeysCheck = token_get_check ''GET /api/v1/api-keys'' ''REST API'' ''/api/v1/api-keys''"

definition makeStatsCheck :: "verify_env \<Rightarrow> verify_config \<Rightarrow> check_io" where
  "makeStatsCheck = token_get_check ''GET /api/v1/stats'' ''REST API'' ''/api/v1/stats''"

definition RESTChecks :: "verify_env \<Rightarrow> tool Check list" where
  "RESTChecks V = map (\<lambda>(n, f). \<lparr>ck_Name = n, ck_Group = ''REST API'', ck_Fn = f\<rparr>)
     [(''POST /api/v1/roles (create)'', makeCreateRoleCheck V), (''GET /api/v1/roles (list)'', makeListRolesCheck V),
      (''POST /api/v1/tenants (create)'', makeCreateTenantCheck V), (''POST /api/v1/api-keys (create)'', makeCreateAPIKeyCheck V),
      (''GET /api/v1/api-keys (list)'', makeListAPIKeysCheck V), (''GET /api/v1/stats'', makeStatsCheck V)]"

section \<open>Documents\<close>

definition decode_validity :: "json option \<Rightarrow> bool option" where
  "decode_validity j = do {
     fs \<leftarrow> object_fields j;
     v \<leftarrow> json_bool_field ''valid'' fs False;
     f \<leftarrow> json_string_field ''formatted'' fs [];
     Some v }"

definition show_bool :: "bool \<Rightarrow> string" where
  "show_bool b = (if b then ''true'' else ''false'')"

definition makeValidateCPFCheck :: "string \<Rightarrow> bool \<Rightarrow> verify_env \<Rightarrow> verify_config \<Rightarrow> check_io" where
  "makeValidateCPFCheck cpf expectValid V cfg = (let name = ''Validate CPF '' @ cpf; res = check_result V name ''Document API'' in do {
     start \<leftarrow> tool_now V;
     need_token V name ''Document API'' start ''no auth token available'' (\<lambda>a. do {
       r \<leftarrow> doPost V cfg ''/api/v1/documents/validate-cpf'' (ac_Token a) (JObj [(''cpf'', JStr cpf)]);
       on_reply V name ''Document API'' start [200] ''expected 200'' r (\<lambda>resp. case decode_validity (vp_json resp) of
         None \<Rightarrow> res start False 0 (''failed to parse response: '' @ json_error_text)
       | Some valid \<Rightarrow>
           if valid \<noteq> expectValid then res start False 0 (''expected valid='' @ show_bool expectValid @ '', got '' @ show_bool valid)
           else passed_with V name ''Document API'' start resp) }) })"

definition DocumentChecks :: "verify_env \<Rightarrow> tool Check list" where
  "DocumentChecks V =
     [\<lparr>ck_Name = ''POST /api/v1/documents/validate-cpf (valid)'', ck_Group = ''Document API'',
        ck_Fn = makeValidateCPFCheck ''52998224725'' True V\<rparr>,
      \<lparr>ck_Name = ''POST /api/v1/documents/validate-cpf (invalid)'', ck_Group = ''Document API'',
        ck_Fn = makeValidateCPFCheck ''00000000000'' False V\<rparr>]"

section \<open>Companies\<close>

subsection \<open>A fresh CNPJ\<close>

definition randomDigit :: "environ \<Rightarrow> int io" where
  "randomDigit E = do {
     r \<leftarrow> rand_Read E 1;
     case r of
       Inl _ \<Rightarrow> do {
         now \<leftarrow> time_Now E;
         ret (now smod 10) }
     | Inr b \<Rightarrow> ret (int (b ! 0 mod 10)) }"

definition calculateCheckDigit :: "int list \<Rightarrow> nat \<Rightarrow> int" where
  "calculateCheckDigit numbers position = (
     let weights = (if position = 12 then [5, 4, 3, 2, 9, 8, 7, 6, 5, 4, 3, 2] else [6, 5, 4, 3, 2, 9, 8, 7, 6, 5, 4, 3, 2]);
         acc = (\<Sum>i \<leftarrow> [0..<position]. numbers ! i * weights ! i);
         remainder = acc smod 11
     in if remainder < 2 then 0 else 11 - remainder)"

fun random_digits :: "environ \<Rightarrow> nat \<Rightarrow> int list \<Rightarrow> (int list) io" where
  "random_digits E 0 numbers = ret numbers"
| "random_digits E (Suc n) numbers = do {
     d \<leftarrow> randomDigit E;
     random_digits E n (numbers @ [d]) }"

definition append_digit :: "nat \<Rightarrow> int list \<Rightarrow> int list" where
  "append_digit position numbers = numbers @ [calculateCheckDigit numbers position]"

definition generateCNPJ :: "environ \<Rightarrow> string io" where
  "generateCNPJ E = do {
     numbers \<leftarrow> random_digits E 8 [];
     ret (concat (map string_of_int (append_digit 13 (append_digit 12 (numbers @ [0, 0, 0, 1]))))) }"

subsection \<open>The checks\<close>

definition makeCreateCompanyCheck :: "verify_env \<Rightarrow> verify_config \<Rightarrow> check_io" where
  "makeCreateCompanyCheck V cfg = (let name = ''POST /api/v1/companies (create)'' in do {
     start \<leftarrow> tool_now V;
     need_token V name ''Company API'' start ''no auth token available'' (\<lambda>a. do {
       cnpj \<leftarrow> on_world (generateCNPJ (ve_environ V));
       n \<leftarrow> UnixNano_text V;
       r \<leftarrow> doPost V cfg ''/api/v1/companies'' (ac_Token a) (JObj
         [(''cnpj'', JStr cnpj),
          (''endereco'', JObj [(''cep'', JStr ''01310100''), (''cidade'', JStr (''S'' @ [CHR 0xC3, CHR 0xA3] @ ''o Paulo'')),
             (''logradouro'', JStr ''Rua Test''), (''numero'', JStr ''123''), (''uf'', JStr ''SP'')]),
          (''nome_fantasia'', JStr ''Verify Test Co''), (''razao_social'', JStr (''Test Company '' @ n)),
          (''representante_legal'', JStr ''John Doe'')]);
       on_reply V name ''Company API'' start [201, 409] ''expected 201 or 409'' r (\<lambda>resp. do {
         (if vp_status resp = 201 then
            (case json_map (vp_json resp) of
               Some result \<Rightarrow> (case result ''id'' of Some (JStr i) \<Rightarrow> set_auth (a\<lparr>ac_CompanyID := i\<rparr>) | _ \<Rightarrow> ret ())
             | None \<Rightarrow> ret ())
          else ret ());
         passed_with V name ''Company API'' start resp }) }) })"

text \<open>The identifier of the first company of a list: \<^verbatim>\<open>companies[0].company.id\<close>, if every level has the expected type.\<close>

definition first_company_id :: "json option \<Rightarrow> string option" where
  "first_company_id j = do {
     result \<leftarrow> json_map j;
     (case result ''companies'' of
        Some (JArr (JObj f # _)) \<Rightarrow> (case map_of (rev f) ''company'' of
          Some (JObj c) \<Rightarrow> (case map_of (rev c) ''id'' of Some (JStr i) \<Rightarrow> Some i | _ \<Rightarrow> None)
        | _ \<Rightarrow> None)
      | _ \<Rightarrow> None) }"

definition makeListCompaniesCheck :: "verify_env \<Rightarrow> verify_config \<Rightarrow> check_io" where
  "makeListCompaniesCheck V cfg = (let name = ''GET /api/v1/companies (list)'' in do {
     start \<leftarrow> tool_now V;
     need_token V name ''Company API'' start ''no auth token available'' (\<lambda>a. do {
       r \<leftarrow> doGet V cfg ''/api/v1/companies'' (ac_Token a);
       on_reply V name ''Company API'' start [200] ''expected 200'' r (\<lambda>resp. do {
         (case first_company_id (vp_json resp) of
            Some i \<Rightarrow> if ac_CompanyID a = [] then set_auth (a\<lparr>ac_CompanyID := i\<rparr>) else ret ()
          | None \<Rightarrow> ret ());
         passed_with V name ''Company API'' start resp }) }) })"

definition makeGetCompanyCheck :: "verify_env \<Rightarrow> verify_config \<Rightarrow> check_io" where
  "makeGetCompanyCheck V cfg = (let name = ''GET /api/v1/companies/{id}'' in do {
     start \<leftarrow> tool_now V;
     need_token V name ''Company API'' start ''no auth token available'' (\<lambda>_.
     need_company V name ''Company API'' start ''no company ID available (create company first)'' (\<lambda>a. do {
       r \<leftarrow> doGet V cfg (''/api/v1/companies/'' @ ac_CompanyID a) (ac_Token a);
       on_reply V name ''Company API'' start [200] ''expected 200'' r (passed_with V name ''Company API'' start) })) })"

definition makeSwitchCompanyCheck :: "verify_env \<Rightarrow> verify_config \<Rightarrow> check_io" where
  "makeSwitchCompanyCheck V cfg = (let name = ''POST /api/v1/auth/switch-company'' in do {
     start \<leftarrow> tool_now V;
     need_token V name ''Company API'' start ''no auth token available'' (\<lambda>_.
     need_company V name ''Company API'' start ''no company ID available (create company first)'' (\<lambda>a. do {
       r \<leftarrow> doPost V cfg ''/api/v1/auth/switch-company'' (ac_Token a) (JObj [(''company_id'', JStr (ac_CompanyID a))]);
       on_reply V name ''Company API'' start [200] ''expected 200'' r (passed_with V name ''Company API'' start) })) })"

definition makeClearCompanyContextCheck :: "verify_env \<Rightarrow> verify_config \<Rightarrow> check_io" where
  "makeClearCompanyContextCheck V cfg = (let name = ''DELETE /api/v1/auth/company-context'' in do {
     start \<leftarrow> tool_now V;
     need_token V name ''Company API'' start ''no auth token available'' (\<lambda>a. do {
       r \<leftarrow> doDelete V cfg ''/api/v1/auth/company-context'' (ac_Token a);
       on_reply V name ''Company API'' start [200] ''expected 200'' r (passed_with V name ''Company API'' start) }) })"

definition makeCreateCompanyInvalidCNPJCheck :: "verify_env \<Rightarrow> verify_config \<Rightarrow> check_io" where
  "makeCreateCompanyInvalidCNPJCheck V cfg = (let name = ''POST /api/v1/companies (invalid CNPJ)'' in do {
     start \<leftarrow> tool_now V;
     need_token V name ''Company API'' start ''no auth token available'' (\<lambda>a. do {
       r \<leftarrow> doPost V cfg ''/api/v1/companies'' (ac_Token a)
         (JObj [(''cnpj'', JStr ''12345678901234''), (''razao_social'', JStr ''Invalid CNPJ Test'')]);
       on_reply V name ''Company API'' start [400] ''expected 400 for invalid CNPJ'' r (passed_with V name ''Company API'' start) }) })"

definition makeLookupCompanyCheck :: "verify_env \<Rightarrow> verify_config \<Rightarrow> check_io" where
  "makeLookupCompanyCheck V cfg = (let name = ''GET /api/v1/companies/lookup''; res = check_result V name ''Company API'' in do {
     start \<leftarrow> tool_now V;
     need_token V name ''Company API'' start ''no auth token available'' (\<lambda>a. do {
       r \<leftarrow> doGet V cfg (''/api/v1/companies/lookup?q='' @ ''00.000.000/0001-91'') (ac_Token a);
       on_reply V name ''Company API'' start [200] ''expected 200'' r (\<lambda>resp. case json_map (vp_json resp) of
         None \<Rightarrow> res start False (vp_status resp) ''invalid json response string''
       | Some result \<Rightarrow> (case result ''items'' of
             Some (JArr _) \<Rightarrow> passed_with V name ''Company API'' start resp
           | _ \<Rightarrow> res start False (vp_status resp) (''missing '' @ [CHR 0x27] @ ''items'' @ [CHR 0x27] @ '' array in response''))) }) })"

definition CompanyChecks :: "verify_env \<Rightarrow> tool Check list" where
  "CompanyChecks V = map (\<lambda>(n, f). \<lparr>ck_Name = n, ck_Group = ''Company API'', ck_Fn = f\<rparr>)
     [(''POST /api/v1/companies (create)'', makeCreateCompanyCheck V), (''GET /api/v1/companies (list)'', makeListCompaniesCheck V),
      (''GET /api/v1/companies/{id}'', makeGetCompanyCheck V), (''POST /api/v1/auth/switch-company'', makeSwitchCompanyCheck V),
      (''DELETE /api/v1/auth/company-context'', makeClearCompanyContextCheck V),
      (''POST /api/v1/companies (invalid CNPJ)'', makeCreateCompanyInvalidCNPJCheck V),
      (''GET /api/v1/companies/lookup (valid CNPJ)'', makeLookupCompanyCheck V)]"

section \<open>GraphQL\<close>

text \<open>The bodies are raw texts of JSON objects with one key.\<close>

definition graphql_text :: "string \<Rightarrow> string" where
  "graphql_text q = ''{'' @ quoted ''query'' @ '': '' @ quoted q @ ''}''"

definition makeGraphQLIntrospectionCheck :: "verify_env \<Rightarrow> verify_config \<Rightarrow> check_io" where
  "makeGraphQLIntrospectionCheck V cfg = (let name = ''GraphQL Introspection'' in do {
     start \<leftarrow> tool_now V;
     r \<leftarrow> doGraphQL V cfg (graphql_text ''{ __schema { types { name } } }'') [];
     on_reply V name ''GraphQL'' start [200] ''expected 200'' r (passed_with V name ''GraphQL'' start) })"

definition makeGraphQLMeCheck :: "verify_env \<Rightarrow> verify_config \<Rightarrow> check_io" where
  "makeGraphQLMeCheck V cfg = (let name = ''GraphQL me Query'' in do {
     start \<leftarrow> tool_now V;
     need_token V name ''GraphQL'' start ''no auth token available'' (\<lambda>a. do {
       r \<leftarrow> doGraphQL V cfg (graphql_text ''{ me { id email } }'') (ac_Token a);
       on_reply V name ''GraphQL'' start [200] ''expected 200'' r (passed_with V name ''GraphQL'' start) }) })"

text \<open>The identifiers of the list of companies; a value of another type at any level is a decoding error.\<close>

fun item_ids :: "json list \<Rightarrow> string list option" where
  "item_ids [] = Some []"
| "item_ids (x # xs) = do {
     fs \<leftarrow> object_fields (Some x);
     i \<leftarrow> json_string_field ''id'' fs [];
     is \<leftarrow> item_ids xs;
     Some (i # is) }"

fun json_items_field :: "string \<Rightarrow> (string \<times> json) list \<Rightarrow> string list \<Rightarrow> string list option" where
  "json_items_field name [] acc = Some acc"
| "json_items_field name ((k, v) # fs) acc =
     (if map ascii_lower k = name
      then (case v of JArr xs \<Rightarrow> Option.bind (item_ids xs) (json_items_field name fs) | JNull \<Rightarrow> json_items_field name fs [] | _ \<Rightarrow> None)
      else json_items_field name fs acc)"

definition decode_companiesResp :: "json option \<Rightarrow> string list option" where
  "decode_companiesResp j = do {
     fs \<leftarrow> object_fields j;
     d \<leftarrow> json_object_field ''data'' fs [];
     c \<leftarrow> json_object_field ''companies'' d [];
     json_items_field ''items'' c [] }"

definition makeGraphQLCompaniesCheck :: "verify_env \<Rightarrow> verify_config \<Rightarrow> check_io" where
  "makeGraphQLCompaniesCheck V cfg = (let name = ''GraphQL Companies Query'' in do {
     start \<leftarrow> tool_now V;
     need_token V name ''GraphQL'' start ''no auth token available'' (\<lambda>a. do {
       r \<leftarrow> doGraphQL V cfg (graphql_text ''{ companies(page: 1, limit: 10) { items { id cnpj razao_social } count } }'') (ac_Token a);
       on_reply V name ''GraphQL'' start [200] ''expected 200'' r (\<lambda>resp. case decode_companiesResp (vp_json resp) of
         None \<Rightarrow> check_result V name ''GraphQL'' start False 0 (''failed to parse response: '' @ json_error_text)
       | Some ids \<Rightarrow> do {
           (case ids of i # _ \<Rightarrow> set_auth (a\<lparr>ac_CompanyID := i\<rparr>) | [] \<Rightarrow> ret ());
           passed_with V name ''GraphQL'' start resp }) }) })"

definition suspend_mutation :: "string \<Rightarrow> string" where
  "suspend_mutation companyID = (let bq = [CHR 0x5C, CHR 0x22] in
     graphql_text (''mutation { updateCompanyStatus(id: '' @ bq @ companyID @ bq @ '', status: '' @ bq @ ''SUSPENDED'' @ bq @ '') { id status } }''))"

definition makeGraphQLUpdateCompanyStatusCheck :: "verify_env \<Rightarrow> verify_config \<Rightarrow> check_io" where
  "makeGraphQLUpdateCompanyStatusCheck V cfg = (let name = ''GraphQL UpdateCompanyStatus Mutation'' in do {
     start \<leftarrow> tool_now V;
     need_token V name ''GraphQL'' start ''no auth token available'' (\<lambda>_.
     need_company V name ''GraphQL'' start ''no company_id available from auth context'' (\<lambda>a. do {
       r \<leftarrow> doGraphQL V cfg (suspend_mutation (ac_CompanyID a)) (ac_Token a);
       on_reply V name ''GraphQL'' start [200] ''expected 200'' r (\<lambda>resp.
         if strings_Contains (vp_text resp) ''errors''
         then check_result V name ''GraphQL'' start False 0 (''GraphQL error: '' @ truncated (vp_text resp) 200)
         else passed_with V name ''GraphQL'' start resp) })) })"

definition GraphQLChecks :: "verify_env \<Rightarrow> tool Check list" where
  "GraphQLChecks V = map (\<lambda>(n, f). \<lparr>ck_Name = n, ck_Group = ''GraphQL'', ck_Fn = f\<rparr>)
     [(''GraphQL Introspection'', makeGraphQLIntrospectionCheck V), (''GraphQL me Query'', makeGraphQLMeCheck V),
      (''GraphQL Companies Query'', makeGraphQLCompaniesCheck V),
      (''GraphQL UpdateCompanyStatus Mutation'', makeGraphQLUpdateCompanyStatusCheck V)]"

section \<open>gRPC\<close>

text \<open>What a check does with the connection: only its creation can fail, the calls connect on demand.\<close>

definition with_conn :: "verify_env \<Rightarrow> verify_config \<Rightarrow> string \<Rightarrow> time \<Rightarrow> check_io \<Rightarrow> check_io" where
  "with_conn V cfg name start k = (case vg_NewClient (ve_grpc V) (vc_GRPCURL cfg) of
     Some err \<Rightarrow> check_result V name ''gRPC'' start False 0 (''failed to connect: '' @ Error_text err)
   | None \<Rightarrow> k)"

definition makeGRPCValidateCompanyAccessCheck :: "verify_env \<Rightarrow> verify_config \<Rightarrow> check_io" where
  "makeGRPCValidateCompanyAccessCheck V cfg = (let name = ''gRPC ValidateCompanyAccess''; res = check_result V name ''gRPC'' in do {
     start \<leftarrow> tool_now V;
     need_company V name ''gRPC'' start ''no company_id available'' (\<lambda>a. with_conn V cfg name start (do {
       r \<leftarrow> on_world (vg_ValidateCompanyAccess (ve_grpc V) (ac_Token a) (ac_CompanyID a));
       case r of
         Inl err \<Rightarrow> res start False 0 (vg_error_text (ve_grpc V) err)
       | Inr resp \<Rightarrow> if \<not> ca_Valid resp then res start False 0 ''access denied'' else res start True 0 [] })) })"

text \<open>\<^verbatim>\<open>WaitForStateChange\<close> gives the next state, or the deadline has passed.\<close>

fun wait_loop :: "go_error \<Rightarrow> connectivity \<Rightarrow> connectivity list \<Rightarrow> go_error option" where
  "wait_loop err state changes =
     (if state = Ready_state then None
      else case changes of [] \<Rightarrow> Some err | state' # rest \<Rightarrow> wait_loop err state' rest)"

declare wait_loop.simps [simp del]

definition waitForGRPCReady :: "verify_grpc \<Rightarrow> go_error option" where
  "waitForGRPCReady G = wait_loop (vg_deadline G) (vg_state G) (vg_changes G)"

definition makeGRPCConnectivityCheck :: "verify_env \<Rightarrow> verify_config \<Rightarrow> check_io" where
  "makeGRPCConnectivityCheck V cfg = (let name = ''gRPC Connectivity''; res = check_result V name ''gRPC'' in do {
     start \<leftarrow> tool_now V;
     with_conn V cfg name start (case waitForGRPCReady (ve_grpc V) of
       None \<Rightarrow> res start True 0 []
     | Some err \<Rightarrow> res start False 0 (''failed to connect: '' @ Error_text err)) })"

definition makeGRPCValidateTokenCheck :: "verify_env \<Rightarrow> verify_config \<Rightarrow> check_io" where
  "makeGRPCValidateTokenCheck V cfg = (let name = ''gRPC ValidateToken''; res = check_result V name ''gRPC'' in do {
     start \<leftarrow> tool_now V;
     need_token V name ''gRPC'' start ''no auth token available (REST auth flow must run first)'' (\<lambda>a. with_conn V cfg name start (do {
       r \<leftarrow> on_world (vg_ValidateToken (ve_grpc V) (ac_Token a));
       case r of
         Inl err \<Rightarrow> res start False 0 (vg_error_text (ve_grpc V) err)
       | Inr resp \<Rightarrow>
           if \<not> vt_Valid resp then res start False 0 ''token validation returned invalid''
           else if vt_UserId resp = [] then res start False 0 ''received empty user_id''
           else res start True 0 [] })) })"

definition makeGRPCGetUserRolesCheck :: "verify_env \<Rightarrow> verify_config \<Rightarrow> check_io" where
  "makeGRPCGetUserRolesCheck V cfg = (let name = ''gRPC GetUserRoles''; res = check_result V name ''gRPC'' in do {
     start \<leftarrow> tool_now V;
     a \<leftarrow> get_auth;
     if ac_UserID a = [] then res start False 0 ''no user_id available from auth flow''
     else with_conn V cfg name start (do {
       r \<leftarrow> on_world (vg_GetUserRoles (ve_grpc V) (ac_UserID a) (ac_TenantID a));
       case r of
         Inl err \<Rightarrow> res start False 0 (vg_error_text (ve_grpc V) err)
       | Inr roles \<Rightarrow> res start True 0 [] }) })"

definition GRPCChecks :: "verify_env \<Rightarrow> tool Check list" where
  "GRPCChecks V = map (\<lambda>(n, f). \<lparr>ck_Name = n, ck_Group = ''gRPC'', ck_Fn = f\<rparr>)
     [(''gRPC Connectivity'', makeGRPCConnectivityCheck V), (''gRPC ValidateToken'', makeGRPCValidateTokenCheck V),
      (''gRPC GetUserRoles'', makeGRPCGetUserRolesCheck V), (''gRPC ValidateCompanyAccess'', makeGRPCValidateCompanyAccessCheck V)]"

section \<open>What the checks accept\<close>

lemma run_check_result:
  "run_state (check_result V name grp start p st e) t = (r, t') \<Longrightarrow> \<exists>cr. r = (Some cr, None) \<and> cr_Passed cr = p \<and> cr_Group cr = grp
    \<and> cr_Name cr = name \<and> tl_auth t' = tl_auth t"
  by (auto simp: check_result_def tool_now_def split: prod.splits)

text \<open>
  A check that always returns a result and no error; the runner then never sees a nil result.
\<close>

definition total_check :: "check_io \<Rightarrow> bool" where
  "total_check c \<longleftrightarrow> (\<forall>t. \<exists>cr. fst (run_state c t) = (Some cr, None))"

named_theorems total_rules "checks that always return a result"

lemma total_result [total_rules]: "total_check (check_result V name grp start p st e)"
  unfolding total_check_def by (metis fst_conv prod.exhaust run_check_result)

lemma total_bind [total_rules]: "(\<And>a. total_check (k a)) \<Longrightarrow> total_check (State_Monad.bind m k)"
  by (simp add: total_check_def split: prod.splits)

lemma total_cases [total_rules]:
  "(\<And>e. total_check (f e)) \<Longrightarrow> (\<And>a. total_check (g a)) \<Longrightarrow> total_check (case r of Inl e \<Rightarrow> f e | Inr a \<Rightarrow> g a)"
  "total_check n \<Longrightarrow> (\<And>a. total_check (h a)) \<Longrightarrow> total_check (case q of None \<Rightarrow> n | Some a \<Rightarrow> h a)"
  "total_check m \<Longrightarrow> total_check n \<Longrightarrow> total_check (if b then m else n)"
  "(\<And>a b. total_check (u a b)) \<Longrightarrow> total_check (case p of (a, b) \<Rightarrow> u a b)"
  "total_check j1 \<Longrightarrow> (\<And>x. total_check (j2 x)) \<Longrightarrow> (\<And>x. total_check (j3 x)) \<Longrightarrow> (\<And>x. total_check (j4 x)) \<Longrightarrow> (\<And>x. total_check (j5 x))
     \<Longrightarrow> (\<And>x. total_check (j6 x)) \<Longrightarrow> total_check (case_json j1 j2 j3 j4 j5 j6 v)"
  by (simp_all split: sum.splits option.splits prod.splits json.splits)

lemma total_Let [total_rules]: "(\<And>x. total_check (f x)) \<Longrightarrow> total_check (Let v f)"
  by simp

lemma total_helpers [total_rules]:
  "total_check (passed_with V name grp start resp)"
  "(\<And>resp. total_check (k resp)) \<Longrightarrow> total_check (on_reply V name grp start ex text r k)"
  "(\<And>a. total_check (f a)) \<Longrightarrow> total_check (need_token V name grp start msg f)"
  "(\<And>a. total_check (f a)) \<Longrightarrow> total_check (need_company V name grp start msg f)"
  "total_check c \<Longrightarrow> total_check (with_conn V cfg name start c)"
  unfolding passed_with_def on_reply_def need_token_def need_company_def with_conn_def
  by (auto intro!: total_result total_bind split: sum.splits option.splits)

lemmas check_defs = checkHealth_def checkReady_def makeRegisterCheck_def makeLoginCheck_def makeMeCheck_def make2FAStatusCheck_def
  makeCaptchaConfigCheck_def makeCreateRoleCheck_def makeListRolesCheck_def makeCreateTenantCheck_def makeCreateAPIKeyCheck_def
  makeListAPIKeysCheck_def makeStatsCheck_def makeValidateCPFCheck_def makeCreateCompanyCheck_def makeListCompaniesCheck_def
  makeGetCompanyCheck_def makeSwitchCompanyCheck_def makeClearCompanyContextCheck_def makeCreateCompanyInvalidCNPJCheck_def
  makeLookupCompanyCheck_def makeGraphQLIntrospectionCheck_def makeGraphQLMeCheck_def makeGraphQLCompaniesCheck_def
  makeGraphQLUpdateCompanyStatusCheck_def makeGRPCValidateCompanyAccessCheck_def makeGRPCConnectivityCheck_def
  makeGRPCValidateTokenCheck_def makeGRPCGetUserRolesCheck_def token_get_check_def create_check_def doHealthCheck_def

lemmas check_lists = HealthChecks_def AuthChecks_def RESTChecks_def CompanyChecks_def DocumentChecks_def GraphQLChecks_def GRPCChecks_def

lemma checks_total:
  "\<forall>c \<in> set (HealthChecks V @ AuthChecks V @ RESTChecks V @ CompanyChecks V @ DocumentChecks V @ GraphQLChecks V @ GRPCChecks V).
     total_check (ck_Fn c cfg)"
  unfolding check_lists
  by (simp add: check_defs Let_def) (intro conjI total_rules)

end
