(* ===== verification/Verify_Tool.thy ===== *)
theory Verify_Tool
  imports Verify_Checks
begin

text \<open>
  The verification program as a whole (\<^verbatim>\<open>cmd/verify/main.go\<close>): the authentication checks run first, in order and with
  a runner of their own; their results are replayed by the runner that executes everything else. Shown here are what an
  exit code of zero means, how the checks and the server's handlers fit together, and that the numbers the program makes
  up are valid by the server's own rules.
\<close>

section \<open>The program\<close>

definition tool_runner :: "verify_env \<Rightarrow> (duration \<Rightarrow> bool io) \<Rightarrow> tool runner_env" where
  "tool_runner V sel = \<lparr>re_now = tool_now V, re_entropy = on_world (ve_entropy V), re_select = (\<lambda>d. on_world (sel d)),
     re_print = print_out, re_encode = (\<lambda>j. do {
       print_out (PrintJSON j);
       on_world (ve_encode V j) }), re_show_duration = ve_show_duration V\<rparr>"

definition auth_config :: "verify_config \<Rightarrow> verify_config" where
  "auth_config cfg = \<lparr>vc_BaseURL = vc_BaseURL cfg, vc_GRPCURL = [], vc_DatabaseURL = vc_DatabaseURL cfg,
     vc_Timeout = vc_Timeout cfg, vc_MaxRetries = vc_MaxRetries cfg, vc_RetryDelay = vc_RetryDelay cfg, vc_Parallelism = 1,
     vc_Verbose = vc_Verbose cfg, vc_Format = ''terminal'', vc_SkipRLS = False, vc_SkipGRPC = False, vc_SkipGraphQL = False\<rparr>"

definition replay_check :: "CheckResult \<Rightarrow> tool Check" where
  "replay_check r = \<lparr>ck_Name = cr_Name r, ck_Group = cr_Group r, ck_Fn = (\<lambda>cfg. ret (Some r, None))\<rparr>"

definition add_dependent :: "verify_env \<Rightarrow> verify_config \<Rightarrow> AuthContext \<Rightarrow> tool Runner \<Rightarrow> tool Runner" where
  "add_dependent V cfg a r = (
     let r1 = (if ac_Token a \<noteq> [] then AddChecks (DocumentChecks V) (AddChecks (CompanyChecks V) (AddChecks (RESTChecks V) r)) else r);
         r2 = (if \<not> vc_SkipGraphQL cfg then AddChecks (GraphQLChecks V) r1 else r1)
     in if \<not> vc_SkipGRPC cfg then AddChecks (GRPCChecks V) r2 else r2)"

definition run_auth :: "verify_env \<Rightarrow> verify_config \<Rightarrow> (CheckResult list) tool_io" where
  "run_auth V cfg = (let authRunner = fold AddCheck (AuthChecks V) (NewRunner (auth_config cfg)) in do {
     (if vc_Format cfg = ''terminal'' \<and> vc_Verbose cfg then print_out (PrintNote ''Running Authentication Flow...'') else ret ());
     (err, authRunner') \<leftarrow> Run_sequential (tool_runner V (ve_select_auth V)) authRunner;
     (if err \<noteq> None \<and> vc_Verbose cfg then print_out (PrintNote ''Auth flow had failures, some checks may be skipped'') else ret ());
     ret (rn_results authRunner') })"

definition verify_prepare :: "verify_env \<Rightarrow> verify_config \<Rightarrow> (tool Runner) tool_io" where
  "verify_prepare V cfg = do {
     a \<leftarrow> on_world (NewAuthContext (ve_environ V));
     set_auth a;
     results \<leftarrow> run_auth V cfg;
     a' \<leftarrow> get_auth;
     ret (add_dependent V cfg a' (fold (\<lambda>res. AddCheck (replay_check res)) results (AddChecks (HealthChecks V) (NewRunner cfg)))) }"

text \<open>\<^verbatim>\<open>run\<close>, and the exit code of \<^verbatim>\<open>main\<close>; a panic ends a Go program with code 2.\<close>

definition verify_run :: "verify_env \<Rightarrow> verify_config \<Rightarrow> tool \<Rightarrow> (go_error option \<times> tool Runner) result \<Rightarrow> tool \<Rightarrow> bool" where
  "verify_run V cfg t x t' \<longleftrightarrow>
     (\<exists>r t1. run_state (verify_prepare V cfg) t = (r, t1) \<and> Runner_Run (tool_runner V (ve_select V)) r t1 x t')"

definition verify_exit :: "(go_error option \<times> tool Runner) result \<Rightarrow> int" where
  "verify_exit x = (case x of Inl _ \<Rightarrow> 2 | Inr (None, _) \<Rightarrow> 0 | Inr (Some _, _) \<Rightarrow> 1)"

section \<open>The checks that are registered\<close>

lemma fold_AddCheck: "fold (\<lambda>x. AddCheck (f x)) xs r = r\<lparr>rn_checks := rn_checks r @ map f xs\<rparr>"
  by (induction xs arbitrary: r) (simp_all add: AddCheck_def)

lemma fold_AddCheck_id: "fold AddCheck xs r = r\<lparr>rn_checks := rn_checks r @ xs\<rparr>"
  using fold_AddCheck[of "\<lambda>x. x" xs r] by simp

lemma verify_prepare_runner:
  assumes "run_state (verify_prepare V cfg) t = (r, t1)"
  obtains a w results where "run_state (NewAuthContext (ve_environ V)) (tl_world t) = (a, w)"
    "run_state (run_auth V cfg) (t\<lparr>tl_world := w, tl_auth := a\<rparr>) = (results, t1)"
    "rn_cfg r = cfg" "rn_results r = []"
    "rn_checks r = HealthChecks V @ map replay_check results
      @ (if ac_Token (tl_auth t1) \<noteq> [] then RESTChecks V @ CompanyChecks V @ DocumentChecks V else [])
      @ (if vc_SkipGraphQL cfg then [] else GraphQLChecks V) @ (if vc_SkipGRPC cfg then [] else GRPCChecks V)"
proof -
  obtain a w where a: "run_state (NewAuthContext (ve_environ V)) (tl_world t) = (a, w)" by fastforce
  obtain results t2 where r: "run_state (run_auth V cfg) (t\<lparr>tl_world := w, tl_auth := a\<rparr>) = (results, t2)" by fastforce
  show thesis using that[OF a, of results] assms a r
    by (auto simp: verify_prepare_def fold_AddCheck AddChecks_def NewRunner_def add_dependent_def Let_def split: if_splits)
qed

section \<open>What the checks keep\<close>

lemma keeps_tool [io_keep]:
  "keeps tl_auth (on_world m)" "keeps tl_auth (print_out x)" "keeps tl_auth get_auth" "keeps tl_auth (tool_now V)"
  by (simp_all add: keeps_def tool_now_def split: prod.splits)

lemma keeps_http [io_keep]:
  "keeps tl_auth (http_exchange V cfg q)" "keeps tl_auth (check_result V name grp start p st e)"
  "keeps tl_auth (passed_with V name grp start resp)"
  unfolding http_exchange_def check_result_def passed_with_def by (intro io_keep)+

lemma keeps_requests [io_keep]:
  "keeps tl_auth (doPost V cfg path tok j)" "keeps tl_auth (doGet V cfg path tok)"
  unfolding doPost_def doGet_def by (intro io_keep)+

abbreviation has_token :: "tool \<Rightarrow> string" where
  "has_token t \<equiv> ac_Token (tl_auth t)"

lemma keeps_token [io_keep]: "keeps tl_auth m \<Longrightarrow> keeps has_token m"
  by (simp add: keeps_def)

lemma keeps_retry:
  assumes "keeps f (ck_Fn c cfg)" "keeps f (re_now R)" "keeps f (re_entropy R)" "\<And>d. keeps f (re_select R d)"
  shows "keeps f (retry_loop R cfg c a result e)"
proof (induction "nat (vc_MaxRetries cfg + 1 - a)" arbitrary: a result e rule: less_induct)
  case less
  have b: "keeps f (calculateBackoff R cfg a)"
    using assms(3) by (auto simp: calculateBackoff_def secureInt63n_def Let_def intro!: io_keep)
  have IH: "a \<le> vc_MaxRetries cfg \<Longrightarrow> keeps f (retry_loop R cfg c (a + 1) res er)" for res er by (rule less.hyps) simp
  show ?case using IH by (subst retry_loop.simps) (auto intro!: io_keep b assms)
qed

lemma keeps_report:
  "(\<And>x. keeps f (re_print R x)) \<Longrightarrow> keeps f (ReportCheck R cfg r)"
  by (auto simp: ReportCheck_def Let_def intro: io_keep)

lemma keeps_sequential:
  assumes "\<And>c. c \<in> set cs \<Longrightarrow> keeps f (ck_Fn c (rn_cfg r))" "keeps f (re_now R)" "keeps f (re_entropy R)" "\<And>d. keeps f (re_select R d)"
    "\<And>x. keeps f (re_print R x)"
  shows "keeps f (sequential_loop R cs r)"
  using assms
proof (induction R cs r rule: sequential_loop.induct)
  case (2 R c cs r)
  then show ?case
    by (auto simp: runCheckWithRetry_def addResult_def Let_def intro!: io_keep keeps_retry keeps_report)
qed (simp add: io_keep)

lemma sequential_append:
  "run_state (sequential_loop R (xs @ ys) r) s
    = (case run_state (sequential_loop R xs r) s of (r', s') \<Rightarrow> run_state (sequential_loop R ys r') s')"
  by (induction R xs r arbitrary: s rule: sequential_loop.induct) (simp_all add: Let_def split: prod.splits)

lemma keeps_tool_runner:
  "keeps tl_auth (re_now (tool_runner V sel))" "keeps tl_auth (re_entropy (tool_runner V sel))"
  "keeps tl_auth (re_select (tool_runner V sel) d)" "keeps tl_auth (re_print (tool_runner V sel) x)"
  "keeps tl_auth (re_encode (tool_runner V sel) j)"
  by (simp_all add: tool_runner_def io_keep)

lemma keeps_on_reply:
  "(\<And>resp. keeps has_token (k resp)) \<Longrightarrow> keeps has_token (on_reply V name grp start ex text r k)"
  unfolding on_reply_def by (auto intro: io_keep split: sum.splits)

lemma keeps_token_get: "keeps has_token (token_get_check name grp path V cfg)"
  unfolding token_get_check_def need_token_def by (intro io_keep keeps_on_reply)

lemma keeps_captcha_config: "keeps has_token (makeCaptchaConfigCheck V cfg)"
  unfolding makeCaptchaConfigCheck_def Let_def by (intro io_keep keeps_on_reply)

text \<open>The check that writes back the context it has read leaves the token as it was.\<close>

lemma keeps_me: "keeps has_token (makeMeCheck V cfg)"
proof (unfold keeps_def, intro allI)
  fix t
  obtain start t1 where s: "run_state (tool_now V) t = (start, t1)" by fastforce
  define a where "a = tl_auth t1"
  obtain r t2 where g: "run_state (doGet V cfg ''/auth/me'' (ac_Token a)) t1 = (r, t2)" by fastforce
  have a: "tl_auth t1 = tl_auth t" "tl_auth t2 = a"
    using keepsD[OF keeps_tool(4) s] keepsD[OF keeps_requests(2) g] by (simp_all add: a_def)
  have after: "has_token (snd (run_state (set_auth (a\<lparr>ac_UserID := i, ac_TenantID := n\<rparr>) \<bind> (\<lambda>_. passed_with V name ''Auth'' start resp)) t2))
      = ac_Token a" for i n name resp
    using keepsD[OF keeps_http(3)] by (cases "run_state (passed_with V name ''Auth'' start resp) (t2\<lparr>tl_auth := a\<lparr>ac_UserID := i, ac_TenantID := n\<rparr>\<rparr>)") fastforce
  have same: "has_token (snd (run_state (check_result V name ''Auth'' start p st e) t2)) = ac_Token a"
    "has_token (snd (run_state (passed_with V name ''Auth'' start resp) t2)) = ac_Token a"
    "has_token (snd (run_state (check_result V name ''Auth'' start p st e) t1)) = ac_Token a" for name p st e resp
    using keeps_http(2,3)[THEN keeps_token] a by (auto simp: keeps_def a_def)
  show "has_token (snd (run_state (makeMeCheck V cfg) t)) = has_token t"
    using s g a after same
    by (simp add: makeMeCheck_def need_token_def on_reply_def Let_def a_def[symmetric] split: sum.splits option.splits prod.splits)
qed

section \<open>A login that passes leaves a token\<close>

lemma on_reply_passed:
  assumes "run_state (on_reply V name grp start ex text r k) t = ((Some cr, err), t')" "cr_Passed cr"
  obtains resp where "r = Inr resp" "vp_status resp \<in> set ex" "run_state (k resp) t = ((Some cr, err), t')"
proof -
  have "\<not> run_state (check_result V name grp start False st e) t = ((Some cr, err), t')" for st e
    using run_check_result assms(2) by fastforce
  then show thesis using assms(1) that by (auto simp: on_reply_def split: sum.splits if_splits)
qed

lemma login_check_token:
  assumes run: "run_state (makeLoginCheck V cfg) t = ((Some cr, err), t')" and ok: "cr_Passed cr"
  shows "has_token t' \<noteq> []"
proof -
  obtain start t1 where s: "run_state (tool_now V) t = (start, t1)" by fastforce
  obtain t2 where v: "run_state (verify_email_once V cfg) t1 = ((), t2)" by (metis old.unit.exhaust surj_pair)
  define body where "body = JObj [(''captcha_token'', JStr ''dummy-token''), (''email'', JStr (ac_Email (tl_auth t2))), (''password'', JStr (ac_Password (tl_auth t2)))]"
  obtain r t3 where p: "run_state (doPost V cfg ''/auth/login'' [] body) t2 = (r, t3)" by fastforce
  define k where "k = (\<lambda>resp. case decode_loginResp (vp_json resp) of
       None \<Rightarrow> check_result V ''POST /auth/login'' ''Auth'' start False (vp_status resp) (''failed to parse login response: '' @ json_error_text)
     | Some l \<Rightarrow> do {
         set_auth ((tl_auth t2)\<lparr>ac_Token := lf_Token l, ac_RefreshToken := lf_RefreshToken l, ac_UserID := lf_UserID l, ac_TenantID := lf_TenantID l\<rparr>);
         if lf_Token l = [] then check_result V ''POST /auth/login'' ''Auth'' start False (vp_status resp) ''login succeeded but no token returned''
         else passed_with V ''POST /auth/login'' ''Auth'' start resp })"
  have "run_state (on_reply V ''POST /auth/login'' ''Auth'' start [200] ''expected 200'' r k) t3 = ((Some cr, err), t')"
    using run s v p by (simp add: makeLoginCheck_def Let_def body_def k_def)
  then obtain resp where "run_state (k resp) t3 = ((Some cr, err), t')" using ok by (rule on_reply_passed)
  then show ?thesis using ok run_check_result
    by (fastforce simp: k_def passed_with_def split: option.splits if_splits)
qed

text \<open>What a passed attempt leaves behind holds when the runner reports the check as passed.\<close>

lemma retry_passed:
  assumes post: "\<And>t cr err t'. run_state (ck_Fn c cfg) t = ((Some cr, err), t') \<Longrightarrow> cr_Passed cr \<Longrightarrow> Q t'"
    and tot: "total_check (ck_Fn c cfg)" and run: "run_state (retry_loop R cfg c a result e) s = (x, s')" "cr_Passed x"
    and none: "\<forall>r. result = Some r \<longrightarrow> \<not> cr_Passed r"
  shows "Q s'"
  using run(1) none
proof (induction "nat (vc_MaxRetries cfg + 1 - a)" arbitrary: a result e s rule: less_induct)
  case less
  note loop = less.prems(1)[unfolded retry_loop.simps[of R cfg c a result e]]
  show ?case
  proof (cases "a \<le> vc_MaxRetries cfg")
    case False
    then show ?thesis using loop less.prems(2) run(2) by (auto simp: retries_exhausted_def split: option.splits)
  next
    case a: True
    obtain t s1 where t: "run_state (re_now R) s = (t, s1)" by fastforce
    obtain cr s2 where f: "run_state (ck_Fn c cfg) s1 = ((Some cr, None), s2)"
      using tot unfolding total_check_def by (metis run_result)
    have IH: "run_state (retry_loop R cfg c (a + 1) (keep_result a (Some cr) result) None) z = (x, s') \<Longrightarrow> \<not> cr_Passed cr \<Longrightarrow> Q s'" for z
      using less.hyps[of "a + 1"] a by (auto simp: keep_result_def)
    show ?thesis
    proof (cases "cr_Passed cr")
      case True
      then show ?thesis using loop a t f post by (auto simp: check_passed_iff)
    next
      case False
      then show ?thesis using loop a t f IH run(2)
        by (auto simp: check_passed_iff cancelled_result_def split: if_splits prod.splits)
    qed
  qed
qed

lemma AuthChecks_eq: "AuthChecks V = [\<lparr>ck_Name = ''POST /auth/register'', ck_Group = ''Auth'', ck_Fn = makeRegisterCheck V\<rparr>,
     \<lparr>ck_Name = ''POST /auth/login'', ck_Group = ''Auth'', ck_Fn = makeLoginCheck V\<rparr>]
   @ [\<lparr>ck_Name = ''GET /auth/me'', ck_Group = ''Auth'', ck_Fn = makeMeCheck V\<rparr>,
      \<lparr>ck_Name = ''GET /auth/2fa/status'', ck_Group = ''Auth'', ck_Fn = make2FAStatusCheck V\<rparr>,
      \<lparr>ck_Name = ''GET /auth/captcha-config'', ck_Group = ''Auth'', ck_Fn = makeCaptchaConfigCheck V\<rparr>]"
  by (simp add: AuthChecks_def)

lemma sequential_auth:
  assumes run: "run_state (sequential_loop (tool_runner V sel) (AuthChecks V) r) s = (r', s')" and new: "rn_results r = []"
  shows "length (rn_results r') = 5 \<and> (cr_Passed (rn_results r' ! 1) \<longrightarrow> has_token s' \<noteq> [])"
proof -
  let ?R = "tool_runner V sel"
  let ?c1 = "\<lparr>ck_Name = ''POST /auth/register'', ck_Group = ''Auth'', ck_Fn = makeRegisterCheck V\<rparr>"
  let ?c2 = "\<lparr>ck_Name = ''POST /auth/login'', ck_Group = ''Auth'', ck_Fn = makeLoginCheck V\<rparr>"
  obtain x1 s1 where x1: "run_state (runCheckWithRetry ?R (rn_cfg r) ?c1) s = (x1, s1)" by fastforce
  obtain s2 where p1: "run_state (ReportCheck ?R (rn_cfg r) x1) s1 = ((), s2)" by (metis old.unit.exhaust surj_pair)
  obtain x2 s3 where x2: "run_state (runCheckWithRetry ?R (rn_cfg r) ?c2) s2 = (x2, s3)" by fastforce
  obtain s4 where p2: "run_state (ReportCheck ?R (rn_cfg r) x2) s3 = ((), s4)" by (metis old.unit.exhaust surj_pair)
  define r2 where "r2 = addResult x2 (addResult x1 r)"
  define rest where "rest = drop 2 (AuthChecks V)"
  have "run_state (sequential_loop ?R [?c1, ?c2] r) s = (r2, s4)"
    using x1 p1 x2 p2 by (simp add: Let_def r2_def) (simp add: addResult_def)
  then have tl: "run_state (sequential_loop ?R rest r2) s4 = (r', s')"
    using run unfolding AuthChecks_eq sequential_append by (simp add: rest_def AuthChecks_def)
  have res: "rn_results r2 = [x1, x2]" using new by (simp add: r2_def addResult_def)
  obtain rs where rs: "list_all2 (check_outcome (rn_cfg r2)) rest rs" "rn_results r' = [x1, x2] @ rs"
    using sequential_loop_outcomes[OF tl] res by auto
  have "has_token s3 \<noteq> []" if "cr_Passed x2"
    by (rule retry_passed[where Q = "\<lambda>t. has_token t \<noteq> []" and c = ?c2 and cfg = "rn_cfg r", OF _ _ x2[unfolded runCheckWithRetry_def] that])
      (use login_check_token checks_total[of V "rn_cfg r"] in \<open>auto simp: AuthChecks_def\<close>)
  moreover have "has_token s4 = has_token s3"
    by (rule keepsD[OF _ p2]) (auto intro: keeps_report keeps_token keeps_tool_runner)
  moreover have "has_token s' = has_token s4"
    by (rule keepsD[OF _ tl], rule keeps_sequential)
      (auto simp: rest_def AuthChecks_def keeps_me keeps_captcha_config make2FAStatusCheck_def keeps_token_get keeps_token keeps_tool_runner)
  moreover have "length rs = 3" using list_all2_lengthD[OF rs(1)] by (simp add: rest_def AuthChecks_def)
  ultimately show ?thesis using rs(2) by auto
qed

lemma keeps_finish: "keeps tl_auth (Reporter_Finish (tool_runner V sel) cfg st rs)"
  unfolding Reporter_Finish_def finishJSON_def finishCI_def finishTerminal_def Let_def
  by (intro keeps_tool_runner keeps_bind keeps_if keeps_case_prod keeps_ret)

abbreviation auth_runner :: "verify_env \<Rightarrow> verify_config \<Rightarrow> tool Runner" where
  "auth_runner V cfg \<equiv> (NewRunner (auth_config cfg))\<lparr>rn_checks := AuthChecks V\<rparr>"

lemma run_auth_loop:
  assumes "run_state (run_auth V cfg) t = (results, t')"
  obtains t2 r' t3 where "run_state (sequential_loop (tool_runner V (ve_select_auth V)) (AuthChecks V) (auth_runner V cfg)) t2 = (r', t3)"
    "results = rn_results r'" "tl_auth t' = tl_auth t3"
proof -
  let ?R = "tool_runner V (ve_select_auth V)"
  let ?r = "auth_runner V cfg"
  have r: "fold AddCheck (AuthChecks V) (NewRunner (auth_config cfg)) = ?r" by (simp add: fold_AddCheck_id NewRunner_def)
  define note1 where "note1 = (if vc_Format cfg = ''terminal'' \<and> vc_Verbose cfg
      then print_out (PrintNote ''Running Authentication Flow...'') else ret ())"
  obtain t1 where t1: "run_state note1 t = ((), t1)" by (metis old.unit.exhaust surj_pair)
  obtain st t2 where t2: "run_state (Reporter_Start ?R (auth_config cfg)) t1 = (st, t2)" by fastforce
  obtain r' t3 where t3: "run_state (sequential_loop ?R (AuthChecks V) ?r) t2 = (r', t3)" by fastforce
  obtain err t4 where t4: "run_state (Reporter_Finish ?R (auth_config cfg) st (rn_results r')) t3 = (err, t4)" by fastforce
  have "tl_auth t4 = tl_auth t3" by (rule keepsD[OF keeps_finish t4])
  moreover have "run_state (Run_sequential ?R ?r) t1 = ((err, r'), t4)"
    using t2 t3 t4 by (simp add: Run_sequential_def NewRunner_def)
  then have "results = rn_results r' \<and> tl_auth t' = tl_auth t4"
    using assms t1 unfolding note1_def by (auto simp: run_auth_def Let_def r split: if_splits)
  ultimately show thesis using that t3 by simp
qed

lemma run_auth_token:
  assumes "run_state (run_auth V cfg) t = (results, t')"
  shows "length results = 5 \<and> (cr_Passed (results ! 1) \<longrightarrow> has_token t' \<noteq> [])"
  by (rule run_auth_loop[OF assms]) (use sequential_auth in \<open>fastforce simp: NewRunner_def\<close>)

section \<open>What success means\<close>

lemma replay_outcome: "check_outcome cfg (replay_check res) x \<Longrightarrow> cr_Passed x \<Longrightarrow> cr_Passed res"
  by (auto simp: check_outcome_def replay_check_def)

text \<open>
  C37: When the program exits with zero, every check that it registered has passed, and it has registered all of them:
  the login has left a token, so that the checks that need one were not skipped.
\<close>

theorem verify_success_complete:
  assumes run: "verify_run V cfg t x t'" and zero: "verify_exit x = 0"
  shows "\<exists>r auth rs. x = Inr (None, r) \<and> length auth = 5
    \<and> rn_checks r = HealthChecks V @ map replay_check auth @ RESTChecks V @ CompanyChecks V @ DocumentChecks V
        @ (if vc_SkipGraphQL cfg then [] else GraphQLChecks V) @ (if vc_SkipGRPC cfg then [] else GRPCChecks V)
    \<and> list_all2 (check_outcome cfg) (rn_checks r) rs \<and> mset (rn_results r) = mset rs
    \<and> (\<forall>res \<in> set auth \<union> set rs. cr_Passed res)"
proof -
  obtain r1 t1 where p: "run_state (verify_prepare V cfg) t = (r1, t1)" and R: "Runner_Run (tool_runner V (ve_select V)) r1 t1 x t'"
    using run by (auto simp: verify_run_def)
  from p obtain a w auth where auth: "run_state (run_auth V cfg) (t\<lparr>tl_world := w, tl_auth := a\<rparr>) = (auth, t1)"
    and r1: "rn_cfg r1 = cfg" "rn_results r1 = []" and cs: "rn_checks r1 = HealthChecks V @ map replay_check auth
      @ (if ac_Token (tl_auth t1) \<noteq> [] then RESTChecks V @ CompanyChecks V @ DocumentChecks V else [])
      @ (if vc_SkipGraphQL cfg then [] else GraphQLChecks V) @ (if vc_SkipGRPC cfg then [] else GRPCChecks V)"
    by (rule verify_prepare_runner)
  obtain r where x: "x = Inr (None, r)" using zero by (auto simp: verify_exit_def split: sum.splits prod.splits option.splits)
  have same: "rn_checks r = rn_checks r1" using R x by (auto elim!: Runner_RunE simp: Run_sequential_def sequential_checks split: prod.splits)
  obtain rs where rs: "list_all2 (check_outcome cfg) (rn_checks r1) rs" "mset (rn_results r) = mset rs" "\<forall>y \<in> set rs. cr_Passed y"
    using Run_results[OF R[unfolded x] r1(2)] r1(1) by auto
  have len: "length auth = 5" and tok: "cr_Passed (auth ! 1) \<longrightarrow> has_token t1 \<noteq> []" using run_auth_token[OF auth] by auto
  have "cr_Passed res" if "res \<in> set auth" for res
  proof -
    have "replay_check res \<in> set (rn_checks r1)" using that cs by simp
    then obtain y where "y \<in> set rs" "check_outcome cfg (replay_check res) y"
      using rs(1) by (metis in_set_conv_nth list_all2_conv_all_nth)
    then show ?thesis using replay_outcome rs(3) by blast
  qed
  moreover from this have "has_token t1 \<noteq> []" using tok len by simp
  ultimately show ?thesis using x same cs rs len by (intro exI[of _ r] exI[of _ auth] exI[of _ rs]) auto
qed

section \<open>The company numbers that the program makes up\<close>

definition digits_ok :: "int list \<Rightarrow> bool" where
  "digits_ok ns \<longleftrightarrow> (\<forall>n \<in> set ns. 0 \<le> n \<and> n < 10)"

definition digit_string :: "int list \<Rightarrow> string" where
  "digit_string ns = map (\<lambda>n. digit_char (nat n)) ns"

lemma digit_string_props:
  assumes "digits_ok ns"
  shows "concat (map string_of_int ns) = digit_string ns" "\<forall>c \<in> set (digit_string ns). is_digit c"
    "i < length ns \<Longrightarrow> int (digit_val (digit_string ns ! i)) = ns ! i"
proof -
  show "concat (map string_of_int ns) = digit_string ns"
    using assms by (induction ns) (auto simp: digits_ok_def digit_string_def string_of_int_def string_of_nat.simps)
  show "\<forall>c \<in> set (digit_string ns). is_digit c" using assms by (auto simp: digits_ok_def digit_string_def)
  show "i < length ns \<Longrightarrow> int (digit_val (digit_string ns ! i)) = ns ! i"
    using assms by (auto simp: digits_ok_def digit_string_def all_set_conv_all_nth)
qed

lemma smod_nonneg: "0 \<le> x \<Longrightarrow> 0 < m \<Longrightarrow> x smod m = x mod (m :: int)"
  by (cases "x = 0") (auto simp: signed_modulo_int_def sgn_if)

lemma randomDigit_range:
  assumes "\<And>n. 0 \<le> clock E n" "run_state (randomDigit E) w = (d, w')"
  shows "0 \<le> d \<and> d < 10"
  using assms by (auto simp: randomDigit_def time_Now_def smod_nonneg split: sum.splits prod.splits)

lemma random_digits_ok:
  assumes "\<And>n. 0 \<le> clock E n" "run_state (random_digits E n ns) w = (ds, w')" "digits_ok ns"
  shows "digits_ok ds \<and> length ds = n + length ns"
  using assms(2,3)
proof (induction n arbitrary: ns w)
  case (Suc n)
  obtain d w1 where d: "run_state (randomDigit E) w = (d, w1)" by fastforce
  then have "digits_ok (ns @ [d])" using randomDigit_range[OF assms(1) d] Suc.prems(2) by (simp add: digits_ok_def)
  moreover have "run_state (random_digits E n (ns @ [d])) w1 = (ds, w')" using Suc.prems(1) d by simp
  ultimately show ?case using Suc.IH by fastforce
qed simp

lemma calculateCheckDigit_expected:
  assumes ok: "digits_ok ns" and p: "p \<in> {12, 13}" "p \<le> length ns"
  shows "calculateCheckDigit ns p = expectedDigit (cnpj_weighted (digit_string ns) p)"
proof -
  have "(\<Sum>i \<leftarrow> [0..<p]. ns ! i * cnpj_weights p ! i) = (\<Sum>i < p. ns ! i * cnpj_weights p ! i)"
    by (simp add: sum_list_sum_nth atLeast0LessThan)
  also have "\<dots> = cnpj_weighted (digit_string ns) p"
    unfolding cnpj_weighted_def using p digit_string_props(3)[OF ok] by (intro sum.cong) (simp_all add: cnpj_weights_nth)
  finally have acc: "(\<Sum>i \<leftarrow> [0..<p]. ns ! i * cnpj_weights p ! i) = cnpj_weighted (digit_string ns) p" .
  have nonneg: "0 \<le> cnpj_weighted (digit_string ns) p" by (simp add: cnpj_weighted_def sum_nonneg)
  have "calculateCheckDigit ns p = (let remainder = cnpj_weighted (digit_string ns) p smod 11 in if remainder < 2 then 0 else 11 - remainder)"
    unfolding calculateCheckDigit_def Let_def cnpj_weights_def[symmetric] acc[symmetric] by simp
  then show ?thesis using nonneg by (auto simp: expectedDigit_def Let_def smod_nonneg)
qed

lemma generated_wellformed:
  assumes "digits_ok first" "length first = 8"
  defines "b \<equiv> first @ [0, 0, 0, 1]"
  defines "n13 \<equiv> b @ [calculateCheckDigit b 12]"
  defines "n14 \<equiv> n13 @ [calculateCheckDigit n13 13]"
  shows "cnpj_wellformed (concat (map string_of_int n14)) \<and> digits_ok n14"
proof -
  have b: "digits_ok b" "length b = 12" using assms(1,2) by (auto simp: digits_ok_def b_def)
  have x: "calculateCheckDigit b 12 = expectedDigit (cnpj_weighted (digit_string b) 12)"
    using calculateCheckDigit_expected[OF b(1), of 12] b(2) by simp
  have n13: "digits_ok n13" "length n13 = 13"
    using b expectedDigit_range[of "cnpj_weighted (digit_string b) 12"] by (auto simp: digits_ok_def n13_def x)
  have y: "calculateCheckDigit n13 13 = expectedDigit (cnpj_weighted (digit_string n13) 13)"
    using calculateCheckDigit_expected[OF n13(1), of 13] n13(2) by simp
  have n14: "digits_ok n14"
    using n13 expectedDigit_range[of "cnpj_weighted (digit_string n13) 13"] by (auto simp: digits_ok_def n14_def y)
  have s: "concat (map string_of_int n14) = digit_string b @ [digit_char (nat (calculateCheckDigit b 12)), digit_char (nat (calculateCheckDigit n13 13))]"
    unfolding digit_string_props(1)[OF n14] by (simp add: n14_def n13_def digit_string_def)
  have two: "digit_char 0 \<in> set (digit_string b)" "digit_char 1 \<in> set (digit_string b)" by (auto simp: b_def digit_string_def)
  have "digit_char 0 \<noteq> digit_char 1" by (simp add: digit_char_def)
  then have "\<exists>c \<in> set (digit_string b). c \<noteq> hd (digit_string b)" using two by metis
  then have "cnpj_wellformed (concat (map string_of_int n14))"
    unfolding s using cnpj_wellformed_completion[of "digit_string b"] b digit_string_props(2)[OF b(1)] x y
    by (simp add: digit_string_def n13_def)
  then show ?thesis using n14 by simp
qed

text \<open>
  C40: The number that the program generates for its test company has fourteen digits and passes the validation that the server
  applies to it, so that a rejection of the number is never the reason for a failing check.
\<close>

theorem generateCNPJ_valid:
  assumes "\<And>n. 0 \<le> clock E n" "run_state (generateCNPJ E) w = (cnpj, w')"
  shows "ValidateCNPJ cnpj \<and> NormalizeCNPJ cnpj = cnpj \<and> length cnpj = 14"
proof -
  obtain first w1 where f: "run_state (random_digits E 8 []) w = (first, w1)" by fastforce
  have ok: "digits_ok first" "length first = 8" using random_digits_ok[OF assms(1) f] by (simp_all add: digits_ok_def)
  have c: "cnpj_wellformed cnpj" using assms(2) f generated_wellformed[OF ok] by (simp add: generateCNPJ_def append_digit_def)
  then have "only_digits cnpj = cnpj" by (auto simp: cnpj_wellformed_def intro: only_digits_id)
  then show ?thesis using c by (simp add: ValidateCNPJ_iff NormalizeCNPJ_def cnpj_wellformed_def)
qed

theorem generateCNPJ_valid_witness:
  "\<exists>cnpj w'. run_state (generateCNPJ demo_env) empty_world = (cnpj, w') \<and> ValidateCNPJ cnpj \<and> length cnpj = 14"
proof -
  obtain cnpj w' where g: "run_state (generateCNPJ demo_env) empty_world = (cnpj, w')" by fastforce
  have "0 \<le> clock demo_env n" for n by (simp add: demo_env_def)
  from generateCNPJ_valid[OF this g] g show ?thesis by blast
qed

section \<open>A server on which everything passes\<close>

definition canned_answer :: "verify_request \<Rightarrow> nat \<times> json" where
  "canned_answer q =
     (if vq_url q = ''u/health'' then (200, JObj [(''status'', JStr ''healthy'')])
      else if vq_url q = ''u/ready'' then (200, JObj [(''status'', JStr ''ready'')])
      else if vq_url q = ''u/auth/login'' then (200, JObj [(''token'', JStr ''tok'')])
      else if vq_url q = ''u/api/v1/documents/validate-cpf''
        then (200, JObj [(''valid'', JBool (vq_body q = JSONBody (JObj [(''cpf'', JStr ''52998224725'')])))])
      else if vq_url q = ''u/api/v1/companies'' \<and> vq_method q = ''POST''
        then (if vq_body q = JSONBody (JObj [(''cnpj'', JStr ''12345678901234''), (''razao_social'', JStr ''Invalid CNPJ Test'')])
              then (400, JNull) else (201, JObj [(''id'', JStr ''c1'')]))
      else (200, JObj [(''items'', JArr [])]))"

definition demo_verify_env :: verify_env where
  "demo_verify_env = \<lparr>ve_environ = demo_env,
     ve_http = \<lparr>vh_NewRequest = (\<lambda>_ _. None), vh_Do = (\<lambda>_ q. ret (case canned_answer q of (st, j) \<Rightarrow> Inr (st, Inr ([], Some j))))\<rparr>,
     ve_grpc = \<lparr>vg_NewClient = (\<lambda>_. None), vg_state = Idle, vg_changes = [Connecting, Ready_state], vg_deadline = Driver ''deadline'',
       vg_ValidateToken = (\<lambda>_. ret (Inr invalid_token)), vg_GetUserRoles = (\<lambda>_ _. ret (Inr [])),
       vg_ValidateCompanyAccess = (\<lambda>_ _. ret (Inr no_access)), vg_error_text = snd\<rparr>,
     ve_sql_Open = (\<lambda>_. None), ve_Sleep = (\<lambda>_. ret ()), ve_entropy = ret None, ve_select_auth = (\<lambda>_. ret False), ve_select = (\<lambda>_. ret False),
     ve_encode = (\<lambda>_. ret None), ve_show_duration = (\<lambda>_. [])\<rparr>"

definition demo_verify_config :: verify_config where
  "demo_verify_config = DefaultConfig\<lparr>vc_BaseURL := ''u'', vc_Parallelism := 1, vc_SkipGraphQL := True, vc_SkipGRPC := True\<rparr>"

definition demo_tool :: tool where
  "demo_tool = \<lparr>tl_auth = \<lparr>ac_Email = [], ac_Password = [], ac_TenantName = [], ac_Token = [], ac_RefreshToken = [], ac_UserID = [],
     ac_TenantID = [], ac_CompanyID = [], ac_EmailVerified = False\<rparr>, tl_out = [], tl_world = empty_world\<rparr>"

text \<open>A check that passes from the states in \<open>I\<close>, and where it ends.\<close>

definition check_ok :: "(tool \<Rightarrow> bool) \<Rightarrow> (tool \<Rightarrow> bool) \<Rightarrow> check_io \<Rightarrow> bool" where
  "check_ok I J c \<longleftrightarrow> (\<forall>t. I t \<longrightarrow> (\<exists>cr t'. run_state c t = ((Some cr, None), t') \<and> cr_Passed cr \<and> J t'))"

lemma demo_exchange [simp]:
  "http_exchange demo_verify_env cfg q = ret (case canned_answer q of (st, j) \<Rightarrow> Inr \<lparr>vp_status = st, vp_text = [], vp_json = Some j\<rparr>)"
proof (rule state.expand, rule ext)
  show "run_state (http_exchange demo_verify_env cfg q) t
    = run_state (ret (case canned_answer q of (st, j) \<Rightarrow> Inr \<lparr>vp_status = st, vp_text = [], vp_json = Some j\<rparr>)) t" for t
    by (simp add: http_exchange_def demo_verify_env_def split: prod.splits)
qed

lemma demo_now [simp]: "run_state (tool_now demo_verify_env) t = (1000 + int (ticks (tl_world t)), t\<lparr>tl_world := tick (tl_world t)\<rparr>)"
  by (simp add: tool_now_def demo_verify_env_def time_Now_def demo_env_def)

abbreviation with_token :: "tool \<Rightarrow> bool" where
  "with_token t \<equiv> ac_Token (tl_auth t) = ''tok''"

abbreviation with_company :: "tool \<Rightarrow> bool" where
  "with_company t \<equiv> with_token t \<and> ac_CompanyID (tl_auth t) = ''c1''"

lemmas demo_checks_defs = check_ok_def check_defs need_token_def need_company_def doPost_def doGet_def doDelete_def bearer_def on_reply_def
  passed_with_def check_result_def canned_answer_def UnixNano_text_def

lemma demo_health_ok: "\<forall>c \<in> set (HealthChecks demo_verify_env). check_ok with_token with_token (ck_Fn c demo_verify_config)"
proof -
  have "vh_NewRequest (ve_http demo_verify_env) m u = None"
    "vh_Do (ve_http demo_verify_env) d q = ret (case canned_answer q of (st, j) \<Rightarrow> Inr (st, Inr ([], Some j)))" for m u d q
    by (simp_all add: demo_verify_env_def)
  then show ?thesis by (simp add: HealthChecks_def demo_checks_defs demo_verify_config_def json_map_def string_value_def Let_def)
qed

lemma demo_rest_ok: "\<forall>c \<in> set (RESTChecks demo_verify_env). check_ok with_token with_token (ck_Fn c demo_verify_config)"
  by (simp add: RESTChecks_def demo_checks_defs demo_verify_config_def Let_def)

lemma demo_create_ok: "check_ok with_token with_company (ck_Fn (hd (CompanyChecks demo_verify_env)) demo_verify_config)"
proof -
  have "\<exists>n w'. run_state (generateCNPJ (ve_environ demo_verify_env)) w = (n, w')" for w by (metis surj_pair)
  then show ?thesis
    by (fastforce simp: CompanyChecks_def demo_checks_defs demo_verify_config_def json_map_def Let_def split: prod.splits)
qed

lemma demo_company_ok: "\<forall>c \<in> set (tl (CompanyChecks demo_verify_env)). check_ok with_company with_company (ck_Fn c demo_verify_config)"
  by (simp add: CompanyChecks_def demo_checks_defs demo_verify_config_def json_map_def first_company_id_def Let_def)

lemma demo_document_ok: "\<forall>c \<in> set (DocumentChecks demo_verify_env). check_ok with_company with_company (ck_Fn c demo_verify_config)"
  by (simp add: DocumentChecks_def demo_checks_defs demo_verify_config_def decode_validity_def object_fields_def ascii_lower_def Let_def)

lemma demo_login_ok: "check_ok (\<lambda>_. True) with_token (makeLoginCheck demo_verify_env cfg)" if "vc_BaseURL cfg = ''u''" for cfg
proof -
  have "\<exists>t'. run_state (verify_email_once demo_verify_env cfg) t = ((), t')" for t by (metis old.unit.exhaust surj_pair)
  then show ?thesis using that
    by (fastforce simp: demo_checks_defs decode_loginResp_def object_fields_def ascii_lower_def Let_def split: prod.splits)
qed

lemma demo_auth_ok:
  assumes "vc_BaseURL cfg = ''u''"
  shows "check_ok (\<lambda>_. True) (\<lambda>_. True) (makeRegisterCheck demo_verify_env cfg)"
    "\<forall>c \<in> set (drop 2 (AuthChecks demo_verify_env)). check_ok with_token with_token (ck_Fn c cfg)"
  using assms by (simp_all add: AuthChecks_def demo_checks_defs decode_meResp_def object_fields_def ascii_lower_def Let_def)

lemma sequential_ok_step:
  assumes ok: "check_ok (\<lambda>t. P (tl_auth t)) (\<lambda>t. Q (tl_auth t)) (ck_Fn c (rn_cfg r))" and n: "0 \<le> vc_MaxRetries (rn_cfg r)" and P: "P (tl_auth t)"
  shows "\<exists>x t'. run_state (sequential_loop (tool_runner V sel) (c # cs) r) t = run_state (sequential_loop (tool_runner V sel) cs (addResult x r)) t'
    \<and> cr_Passed x \<and> Q (tl_auth t')"
proof -
  let ?R = "tool_runner V sel"
  obtain u t1 where t1: "run_state (re_now ?R) t = (u, t1)" by fastforce
  have "P (tl_auth t1)" using keepsD[OF keeps_tool_runner(1) t1] P by simp
  then obtain cr t2 where f: "run_state (ck_Fn c (rn_cfg r)) t1 = ((Some cr, None), t2)" "cr_Passed cr" "Q (tl_auth t2)"
    using ok by (auto simp: check_ok_def)
  define x where "x = cr\<lparr>cr_Retries := 0\<rparr>"
  have run: "run_state (runCheckWithRetry ?R (rn_cfg r) c) t = (x, t2)"
    using t1 f(1,2) n by (simp add: runCheckWithRetry_def retry_loop.simps[of ?R "rn_cfg r" c 0] check_passed_iff x_def)
  obtain t3 where p: "run_state (ReportCheck ?R (rn_cfg r) x) t2 = ((), t3)" by (metis old.unit.exhaust surj_pair)
  have "tl_auth t3 = tl_auth t2" by (rule keepsD[OF keeps_report[OF keeps_tool_runner(4)] p])
  then show ?thesis using run p f(2,3) by (intro exI[of _ x] exI[of _ t3]) (simp add: Let_def x_def)
qed

lemma sequential_ok:
  assumes "\<forall>c \<in> set cs. check_ok (\<lambda>t. P (tl_auth t)) (\<lambda>t. P (tl_auth t)) (ck_Fn c (rn_cfg r))" "0 \<le> vc_MaxRetries (rn_cfg r)" "P (tl_auth t)"
    "\<forall>x \<in> set (rn_results r). cr_Passed x"
  shows "\<exists>r' t'. run_state (sequential_loop (tool_runner V sel) cs r) t = (r', t') \<and> P (tl_auth t') \<and> rn_cfg r' = rn_cfg r
    \<and> (\<forall>x \<in> set (rn_results r'). cr_Passed x)"
  using assms
proof (induction cs arbitrary: r t)
  case (Cons c cs)
  obtain x t1 where "run_state (sequential_loop (tool_runner V sel) (c # cs) r) t = run_state (sequential_loop (tool_runner V sel) cs (addResult x r)) t1"
    "cr_Passed x" "P (tl_auth t1)"
    using sequential_ok_step[of P P c r t V sel cs] Cons.prems by auto
  then show ?case using Cons.IH[of "addResult x r" t1] Cons.prems by (simp add: addResult_def)
qed auto

lemma demo_config: "vc_BaseURL demo_verify_config = ''u''" "vc_MaxRetries demo_verify_config = 3" "vc_Parallelism demo_verify_config = 1"
  "vc_SkipGraphQL demo_verify_config" "vc_SkipGRPC demo_verify_config" "vc_Format demo_verify_config = ''terminal''"
  "vc_BaseURL (auth_config cfg) = vc_BaseURL cfg" "vc_MaxRetries (auth_config cfg) = vc_MaxRetries cfg"
  by (simp_all add: demo_verify_config_def DefaultConfig_def auth_config_def)

lemma demo_auth_run:
  assumes "run_state (run_auth demo_verify_env demo_verify_config) t = (results, t')"
  shows "(\<forall>x \<in> set results. cr_Passed x) \<and> with_token t'"
proof -
  let ?V = demo_verify_env and ?r = "auth_runner demo_verify_env demo_verify_config"
  let ?loop = "sequential_loop (tool_runner ?V (ve_select_auth ?V))"
  from assms obtain t2 r' t3 where l: "run_state (?loop (AuthChecks ?V) ?r) t2 = (r', t3)" "results = rn_results r'" "tl_auth t' = tl_auth t3"
    by (rule run_auth_loop)
  have cfg: "rn_cfg ?r = auth_config demo_verify_config" "rn_results ?r = []" by (simp_all add: NewRunner_def)
  define c1 where "c1 = hd (AuthChecks ?V)"
  define c2 where "c2 = AuthChecks ?V ! 1"
  define rest where "rest = drop 2 (AuthChecks ?V)"
  have cs: "AuthChecks ?V = c1 # c2 # rest" "ck_Fn c1 = makeRegisterCheck ?V" "ck_Fn c2 = makeLoginCheck ?V"
    by (simp_all add: AuthChecks_def c1_def c2_def rest_def)
  have "\<exists>x u. run_state (?loop (c1 # c2 # rest) ?r) t2 = run_state (?loop (c2 # rest) (addResult x ?r)) u \<and> cr_Passed x \<and> True"
    by (rule sequential_ok_step[where P = "\<lambda>_. True" and Q = "\<lambda>_. True"]) (simp_all add: cs(2) cfg demo_config demo_auth_ok(1))
  then obtain x1 u1 where x1: "run_state (?loop (c1 # c2 # rest) ?r) t2 = run_state (?loop (c2 # rest) (addResult x1 ?r)) u1" "cr_Passed x1" by blast
  have "\<exists>x u. run_state (?loop (c2 # rest) (addResult x1 ?r)) u1 = run_state (?loop rest (addResult x (addResult x1 ?r))) u
      \<and> cr_Passed x \<and> with_token u"
    by (rule sequential_ok_step[where P = "\<lambda>_. True" and Q = "\<lambda>a. ac_Token a = ''tok''"])
      (simp_all add: cs(3) addResult_def NewRunner_def demo_config demo_login_ok)
  then obtain x2 u2 where x2: "run_state (?loop (c2 # rest) (addResult x1 ?r)) u1 = run_state (?loop rest (addResult x2 (addResult x1 ?r))) u2"
    "cr_Passed x2" "with_token u2" by blast
  have "\<exists>q t'. run_state (?loop rest (addResult x2 (addResult x1 ?r))) u2 = (q, t') \<and> with_token t'
      \<and> rn_cfg q = rn_cfg (addResult x2 (addResult x1 ?r)) \<and> (\<forall>x \<in> set (rn_results q). cr_Passed x)"
    using x1(2) x2(2,3) by (intro sequential_ok) (simp_all add: addResult_def rest_def NewRunner_def demo_config demo_auth_ok(2))
  then show ?thesis using l x1(1) x2(1) cs(1) by auto
qed

lemma demo_phase_two:
  assumes "\<forall>x \<in> set auth. cr_Passed x" "with_token t"
    and r: "rn_checks r = HealthChecks demo_verify_env @ map replay_check auth @ RESTChecks demo_verify_env @ CompanyChecks demo_verify_env
      @ DocumentChecks demo_verify_env" "rn_cfg r = demo_verify_config" "rn_results r = []"
  shows "fst (fst (run_state (Run_sequential (tool_runner demo_verify_env sel) r) t)) = None"
proof -
  let ?V = demo_verify_env
  let ?loop = "sequential_loop (tool_runner ?V sel)"
  define pre where "pre = HealthChecks ?V @ map replay_check auth @ RESTChecks ?V"
  define post where "post = tl (CompanyChecks ?V) @ DocumentChecks ?V"
  have cs: "rn_checks r = pre @ hd (CompanyChecks ?V) # post" by (simp add: r pre_def post_def CompanyChecks_def)
  have m: "0 \<le> vc_MaxRetries (rn_cfg r)" by (simp add: r demo_config)
  obtain st t1 where t1: "run_state (Reporter_Start (tool_runner ?V sel) (rn_cfg r)) t = (st, t1)" by fastforce
  have "keeps tl_auth (Reporter_Start (tool_runner ?V sel) (rn_cfg r))"
    unfolding Reporter_Start_def printHeader_def by (intro keeps_tool_runner keeps_bind keeps_if keeps_ret)
  from keepsD[OF this t1] have tok: "with_token t1" using assms(2) by simp
  have "\<forall>c \<in> set pre. check_ok with_token with_token (ck_Fn c (rn_cfg r))"
    using assms(1) demo_health_ok demo_rest_ok by (auto simp: pre_def r replay_check_def check_ok_def)
  from sequential_ok[where P = "\<lambda>a. ac_Token a = ''tok''", OF this m tok, of ?V sel] obtain r1 t2 where
    1: "run_state (?loop pre r) t1 = (r1, t2)" "with_token t2" "rn_cfg r1 = rn_cfg r" "\<forall>x \<in> set (rn_results r1). cr_Passed x"
    using r(3) by auto
  obtain x t3 where 2: "run_state (?loop (hd (CompanyChecks ?V) # post) r1) t2 = run_state (?loop post (addResult x r1)) t3"
    "cr_Passed x" "with_company t3"
    using sequential_ok_step[where P = "\<lambda>a. ac_Token a = ''tok''" and Q = "\<lambda>a. ac_Token a = ''tok'' \<and> ac_CompanyID a = ''c1''"
      and c = "hd (CompanyChecks ?V)" and r = r1 and t = t2 and V = ?V and sel = sel and cs = post] demo_create_ok m 1 r(2) by auto
  have "\<forall>c \<in> set post. check_ok with_company with_company (ck_Fn c (rn_cfg (addResult x r1)))"
    using demo_company_ok demo_document_ok 1(3) by (auto simp: post_def r addResult_def)
  from sequential_ok[where P = "\<lambda>a. ac_Token a = ''tok'' \<and> ac_CompanyID a = ''c1''", OF this _ 2(3), of ?V sel] obtain r2 t4 where
    3: "run_state (?loop post (addResult x r1)) t3 = (r2, t4)" "\<forall>x \<in> set (rn_results r2). cr_Passed x"
    using 1(3,4) 2(2) m by (auto simp: addResult_def)
  have all: "run_state (?loop (rn_checks r) r) t1 = (r2, t4)" using 1(1) 2(1) 3(1) by (simp add: cs sequential_append)
  obtain err t5 where f: "run_state (Reporter_Finish (tool_runner ?V sel) (rn_cfg r) st (rn_results r2)) t4 = (err, t5)" by fastforce
  have "err = None" using Finish_verdict[OF f] 3(2) by (simp add: r demo_config)
  then show ?thesis using t1 all f by (simp add: Run_sequential_def)
qed

theorem verify_success_complete_witness:
  "\<exists>x t' r rs. verify_run demo_verify_env demo_verify_config demo_tool x t' \<and> x = Inr (None, r)
     \<and> list_all2 (check_outcome demo_verify_config) (rn_checks r) rs \<and> mset (rn_results r) = mset rs \<and> (\<forall>res \<in> set rs. cr_Passed res)"
proof -
  let ?V = demo_verify_env and ?c = demo_verify_config
  obtain r1 t1 where p: "run_state (verify_prepare ?V ?c) demo_tool = (r1, t1)" by fastforce
  then obtain a w auth where auth: "run_state (run_auth ?V ?c) (demo_tool\<lparr>tl_world := w, tl_auth := a\<rparr>) = (auth, t1)"
    and r1: "rn_cfg r1 = ?c" "rn_results r1 = []" and cs: "rn_checks r1 = HealthChecks ?V @ map replay_check auth
      @ (if ac_Token (tl_auth t1) \<noteq> [] then RESTChecks ?V @ CompanyChecks ?V @ DocumentChecks ?V else [])
      @ (if vc_SkipGraphQL ?c then [] else GraphQLChecks ?V) @ (if vc_SkipGRPC ?c then [] else GRPCChecks ?V)"
    by (rule verify_prepare_runner)
  have a: "\<forall>x \<in> set auth. cr_Passed x" "with_token t1" using demo_auth_run[OF auth] by auto
  obtain err r2 t2 where s: "run_state (Run_sequential (tool_runner ?V (ve_select ?V)) r1) t1 = ((err, r2), t2)" by (metis surj_pair)
  have "err = None" using demo_phase_two[OF a, of r1 "ve_select ?V"] cs a(2) r1 s by (simp add: demo_config)
  then have "Runner_Run (tool_runner ?V (ve_select ?V)) r1 t1 (Inr (None, r2)) t2"
    using s r1(1) by (intro Runner_Run.sequential) (simp_all add: demo_config)
  then have v: "verify_run ?V ?c demo_tool (Inr (None, r2)) t2" using p by (auto simp: verify_run_def)
  from verify_success_complete[OF v] v show ?thesis by (fastforce simp: verify_exit_def)
qed

end
