(* ===== verification/Verify_Server.thy ===== *)
theory Verify_Server
  imports Verify_Tool
begin

text \<open>
  The verification program against the server's own handlers: the health and document checks pass on them, the fields that
  the checks read are the ones the handlers write, the e-mail verification in the database is atomic; and what the checks do
  not notice.
\<close>

section \<open>A transport to the handlers\<close>

text \<open>
  The request reaches the handler that \<open>route\<close> gives for its method and URL; \<open>print\<close> writes a JSON value.
\<close>

definition verify_transport :: "(json \<Rightarrow> string) \<Rightarrow> (string \<Rightarrow> string \<Rightarrow> handler) \<Rightarrow> verify_http" where
  "verify_transport print route = \<lparr>vh_NewRequest = (\<lambda>_ _. None), vh_Do = (\<lambda>_ q. do {
     rs \<leftarrow> route (vq_method q) (vq_url q) (plain_request\<lparr>
       rq_header := (\<lambda>k. case map_of (vq_headers q) k of None \<Rightarrow> [] | Some v \<Rightarrow> v),
       rq_body := (case vq_body q of JSONBody j \<Rightarrow> Some j | _ \<Rightarrow> None)\<rparr>);
     ret (Inr (rs_status rs, Inr (print (rs_body rs), Some (rs_body rs)))) })\<rparr>"

definition passes :: "check_io \<Rightarrow> tool \<Rightarrow> bool" where
  "passes c t \<longleftrightarrow> (\<exists>cr t'. run_state c t = ((Some cr, None), t') \<and> cr_Passed cr)"

text \<open>A check that passes is reported as passed on its first attempt.\<close>

lemma passes_first_attempt:
  assumes "passes (ck_Fn c cfg) (snd (run_state (re_now R) t))" "0 \<le> vc_MaxRetries cfg"
  shows "cr_Passed (fst (run_state (runCheckWithRetry R cfg c) t)) \<and> cr_Retries (fst (run_state (runCheckWithRetry R cfg c) t)) = 0"
  using assms by (auto simp: passes_def runCheckWithRetry_def retry_loop.simps[of R cfg c 0] check_passed_iff split: prod.splits)

section \<open>Health\<close>

lemma health_checks_pass:
  assumes "ve_http V = verify_transport print route" "route ''GET'' (vc_BaseURL cfg @ ''/health'') = Health"
    "route ''GET'' (vc_BaseURL cfg @ ''/ready'') = Ready None"
  shows "passes (checkHealth V cfg) t" "passes (checkReady V cfg) t"
  using assms
  by (auto simp: passes_def checkHealth_def checkReady_def doHealthCheck_def verify_transport_def Health_def Ready_def ready_def
      writeJSON_def json_map_def string_value_def check_result_def tool_now_def Let_def split: prod.splits)

section \<open>Documents\<close>

lemma example_CPFs: "NewCPF ''52998224725'' = Inr \<lparr>number = ''52998224725''\<rparr>" "isl (NewCPF ''00000000000'')"
  by code_simp+

lemma invalid_CPF_check_passes:
  assumes "ve_http V = verify_transport print route"
    "route ''POST'' (vc_BaseURL cfg @ ''/api/v1/documents/validate-cpf'') = DocumentHandler_ValidateCPF port"
    "ac_Token (tl_auth t) \<noteq> []"
  shows "passes (makeValidateCPFCheck ''00000000000'' False V cfg) t"
proof -
  obtain e where e: "NewCPF ''00000000000'' = Inl e" using example_CPFs(2) by (auto simp: isl_def)
  show ?thesis using assms
    by (auto simp: passes_def makeValidateCPFCheck_def need_token_def doPost_def http_exchange_def verify_transport_def on_reply_def
        DocumentHandler_ValidateCPF_def decode_strings_def ascii_lower_def ValidateAndNormalizeCPF_def e writeJSON_def decode_validity_def
        object_fields_def omitempty_def passed_with_def check_result_def tool_now_def Let_def time_Now_def split: prod.splits)
qed

lemma valid_CPF_check_passes:
  assumes "ve_http V = verify_transport print route"
    "route ''POST'' (vc_BaseURL cfg @ ''/api/v1/documents/validate-cpf'') = DocumentHandler_ValidateCPF port"
    "ac_Token (tl_auth t) \<noteq> []"
    and accepts: "\<And>verify ctx w d w'. port = Some verify \<Longrightarrow> run_state (verify ctx ''52998224725'') w = (Inr d, w') \<Longrightarrow> dv_Valid d"
  shows "passes (makeValidateCPFCheck ''52998224725'' True V cfg) t"
proof -
  obtain start t1 where t1: "run_state (tool_now V) t = (start, t1)" by fastforce
  have auth: "tl_auth t1 = tl_auth t" by (rule keepsD[OF keeps_tool(4) t1])
  have "\<exists>c w'. run_state (ValidateAndNormalizeCPF port True ctx ''52998224725'') w = (Inr c, w')" for ctx w
    using accepts by (auto simp: ValidateAndNormalizeCPF_def example_CPFs(1) CPF_Value_def spawn_def Let_def split: option.splits sum.splits prod.splits)
  then obtain c w' where v: "run_state (ValidateAndNormalizeCPF port True (rq_ctx plain_request) ''52998224725'') (tl_world t1) = (Inr c, w')" by blast
  show ?thesis using assms(1-3) t1 auth v
    by (auto simp: passes_def makeValidateCPFCheck_def need_token_def doPost_def http_exchange_def verify_transport_def on_reply_def
        DocumentHandler_ValidateCPF_def decode_strings_def ascii_lower_def writeJSON_def decode_validity_def object_fields_def
        omitempty_def passed_with_def check_result_def Let_def split: prod.splits)
qed

section \<open>The fields that the checks read\<close>

text \<open>The login check reads the token that the server sends, unlike the client library.\<close>

lemma decode_loginResp_server:
  "\<exists>l. decode_loginResp (Some (LoginResponse_json x)) = Some l \<and> lf_Token l = lr_Token x \<and> lf_RefreshToken l = lr_RefreshToken x"
  by (auto simp: decode_loginResp_def object_fields_def LoginResponse_json_def omitempty_def ascii_lower_def)

lemma decode_meResp_server: "decode_meResp (Some (ToUserResponse u)) = Some (u_ID u, u_TenantID u)"
  by (simp add: decode_meResp_def object_fields_def ToUserResponse_def ascii_lower_def)

lemma created_company_id: "Option.bind (json_map (Some (companyToResponse st c))) (\<lambda>m. m ''id'') = Some (JStr (c_ID c))"
  by (simp add: json_map_def companyToResponse_def omitempty_def)

lemma listed_company_id:
  "first_company_id (Some (JObj [(''companies'', JArr (map (CompanyWithRoleResponse st) ((c, role, status) # cs))), (''count'', n)])) = Some (c_ID c)"
  by (simp add: first_company_id_def json_map_def CompanyWithRoleResponse_def companyToResponse_def omitempty_def)

section \<open>E-mail verification in the database\<close>

text \<open>The transaction either activates every user with the address, of whom there is one, or leaves the tables as they were.\<close>

lemma pg_exec_run:
  "run_state (pg_exec E ctx ids f) w = (case pg_gate E ctx ids w of
       Inl e \<Rightarrow> (Inl e, pg_abort ctx (tick w))
     | Inr t \<Rightarrow> (case f t (pg w) of Inl e \<Rightarrow> (Inl e, pg_abort ctx (tick w)) | Inr (db, n) \<Rightarrow> (Inr n, (tick w)\<lparr>pg := db\<rparr>)))"
  by (simp add: pg_exec_def)

lemma verify_email_atomic:
  assumes "run_state (direct_transaction E (verify_email_tx E email)) w = (r, w')"
  shows "case r of Inl _ \<Rightarrow> pg w' = pg w
    | Inr _ \<Rightarrow> (\<exists>u \<in> set (users (pg w)). ur_email u = email) \<and> users (pg w') = map (\<lambda>u. if ur_email u = email
        then u\<lparr>ur_status := ''active'', ur_verification_token := [], ur_verification_token_expires_at := None\<rparr> else u) (users (pg w))"
  using assms
  by (auto simp: direct_transaction_def verify_email_tx_def pg_exec_run activate_users_def io_run tx_begin_def tx_rollback_def tx_commit_def
      filter_empty_conv split: option.splits sum.splits prod.splits if_splits)

text \<open>
  A failure to set the variable is not survived, although the code goes on: the transaction is aborted, and the update fails.
\<close>

lemma bypass_failure_is_fatal:
  assumes "pg_fault E (ticks w) = None" "pg_fault E (Suc (ticks w)) = Some m"
  shows "isl (fst (run_state (direct_transaction E (verify_email_tx E email)) w))"
  using assms by (auto simp: direct_transaction_def verify_email_tx_def pg_exec_run pg_gate_def pg_abort_def io_run tx_begin_def split: prod.splits)

section \<open>What the checks do not notice\<close>

text \<open>
  A GraphQL answer with status 200 passes whatever its body says: the executor reports the errors of a query in the body.
\<close>

lemma graphql_me_ignores_errors:
  assumes "\<And>w. run_state (vh_Do (ve_http V) (vc_Timeout cfg) q) w = (Inr (200, Inr (text, j)), w)"
    "vh_NewRequest (ve_http V) ''POST'' (vc_BaseURL cfg @ ''/query'') = None" "ac_Token (tl_auth t) \<noteq> []"
    "q = \<lparr>vq_method = ''POST'', vq_url = vc_BaseURL cfg @ ''/query'',
       vq_headers = [(''Content-Type'', ''application/json''), (''Authorization'', ''Bearer '' @ ac_Token (tl_auth t))],
       vq_body = TextBody (graphql_text ''{ me { id email } }'')\<rparr>"
  shows "passes (makeGraphQLMeCheck V cfg) t"
  using assms
  by (auto simp: passes_def makeGraphQLMeCheck_def need_token_def doGraphQL_def http_exchange_def bearer_def on_reply_def passed_with_def
      check_result_def tool_now_def time_Now_def Let_def split: prod.splits)

text \<open>A replayed result has lost the number of retries that the check needed.\<close>

lemma replay_loses_retries:
  assumes "cr_Passed r" "0 \<le> vc_MaxRetries cfg"
  shows "fst (run_state (runCheckWithRetry R cfg (replay_check r)) t) = r\<lparr>cr_Retries := 0\<rparr>"
  using assms by (simp add: runCheckWithRetry_def retry_loop.simps[of R cfg _ 0] replay_check_def check_passed_def split: prod.splits)

text \<open>
  Whatever format is asked for, the runner of the authentication checks writes its header, in the terminal format, to the
  standard output that the JSON report goes to.
\<close>

lemma auth_header_in_every_format:
  assumes "run_state (Reporter_Start (tool_runner V sel) (auth_config cfg)) t = (st, t')"
  shows "tl_out t' = tl_out t @ [PrintHeader (vc_BaseURL cfg) 1 (vc_MaxRetries cfg)]"
  using assms by (auto simp: Reporter_Start_def printHeader_def auth_config_def tool_runner_def tool_now_def split: prod.splits)

end
