(* ===== verification/Spec2Isabelle.thy ===== *)
theory Spec2Isabelle
  imports Integrity Server Events Grpc Graphql Startup Migrate Webauthn Document_Port Dashboard Notification
    Sdk Database Outbox_Worker Api Workers Verify_Server
begin

text \<open>
  Verification of Vyst OpenAuth, an identity provider written in Go: users and tenants, password, passkey and
  two-factor login, sessions and JSON web tokens, relation-based permissions, companies with memberships and
  invitations, API keys, webhooks, an audit log and a transactional outbox, served over HTTP, GraphQL and gRPC, with
  PostgreSQL and Redis behind. Paths below are relative to \<^verbatim>\<open>src/\<close>; \<^verbatim>\<open>service/\<close> stands for
  \<^verbatim>\<open>internal/application/service/\<close>, \<^verbatim>\<open>domain/\<close> for \<^verbatim>\<open>internal/domain/\<close>, \<^verbatim>\<open>postgres/\<close> and \<^verbatim>\<open>redis/\<close> for the
  directories of \<^verbatim>\<open>internal/infrastructure/persistence/\<close>, \<^verbatim>\<open>http/\<close> for \<^verbatim>\<open>internal/interfaces/http/\<close>.

  \<^bold>\<open>How the code is modelled.\<close> A Go function that can fail gives a value of \<open>'a result\<close>, \<open>Inl\<close> being its error; wrapped errors keep
  their cause, so that \<^verbatim>\<open>errors.Is\<close> and \<^verbatim>\<open>==\<close> differ as they do in Go, and a panic is an error of its own kind. A function with effects
  is a program of the state monad over \<open>world\<close>: the PostgreSQL tables as lists of rows, the setting of the current tenant,
  the Redis keyspace with expiry times, the goroutines started so far as a list of tasks, and a counter of
  external calls. Everything outside the repository is a field of \<open>environ\<close>: clock, UUIDs, random bytes, bcrypt, JWT and
  TOTP libraries, and the failures of PostgreSQL and Redis, any call of which may fail. Constraints and row-level security policies of
  the tables are taken from \<^verbatim>\<open>migrations/\<close>. A transaction keeps or restores the tables as a whole and
  aborts after a failed statement. Times are integers of nanoseconds, machine integers are words where
  their range matters, scores and amounts are rational numbers where the source computes with \<^verbatim>\<open>float64\<close>. A goroutine
  runs as a later step; apart from the stream registry of \<open>Grpc\<close> and the goroutines of \<open>Verify_Parallel\<close>, whose steps
  interleave, service calls are atomic.

  \<^bold>\<open>Foundations.\<close>
  \<^item> \<open>Prelude\<close>: errors, decimal and string functions, JSON, the monad, and the collections \<open>io_run\<close>, \<open>io_keep\<close> and
    \<open>io_pres\<close> with which proofs step through programs, show what they keep and which invariants they preserve.
  \<^item> \<open>World\<close>: environment, tables, Redis, contexts, transactions (\<^verbatim>\<open>postgres/transaction.go\<close>), row-level security.
  \<^item> \<open>Encoding\<close>, \<open>Sha256\<close>: base32, base64, SHA-256 and HMAC of the standard library. \<open>Http\<close>: requests, responses, JSON bodies.
  \<^item> \<open>Database\<close>: the transaction helpers of \<^verbatim>\<open>postgres/db.go\<close>, and the contract \<open>unit_of_work\<close> that they and the transaction
    manager meet.

  \<^bold>\<open>Domain.\<close>
  \<^item> \<open>Tax_Document\<close> (the contract of a Brazilian tax number), \<open>Cpf\<close> (\<^verbatim>\<open>domain/document/cpf.go\<close>), \<open>Cnpj\<close> (\<^verbatim>\<open>domain/company/cnpj.go\<close>): the
    check-digit algorithms equal the modulus-11 definitions, and every printed, stored or marshalled number reads
    back.
  \<^item> \<open>Company\<close>, \<open>Invitation\<close>, \<open>Identity\<close>: the entities of \<^verbatim>\<open>domain/\<close>, their constructors and state changes, the event payloads.

  \<^bold>\<open>Repositories and stores.\<close>
  \<^item> \<open>User_Repo\<close>, \<open>Tenant_Role\<close>, \<open>Company_User_Repo\<close>, \<open>Session_Store\<close>, \<open>Outbox\<close>: users with their row-level
    security, tenants and roles, memberships with the Redis cache in front, sessions in Redis, the outbox. Tenant
    isolation of lookups, exactness of the cached role while the cache is coherent, and that revocations keep it
    coherent; no event is marked before the broker took it. \<open>Outbox_Worker\<close> adds the polling loop: it drains the
    outbox while the broker accepts, and starves behind events that the broker refuses.
  \<^item> \<open>Policy_Repo\<close>: the recursive query of \<^verbatim>\<open>postgres/policy_repo.go\<close> is computed level by level to the depth of 10 that the
    query itself fixes; it refines reachability in at most that many steps. The cached repository is transparent over a
    coherent cache.

  \<^bold>\<open>Services.\<close>
  \<^item> \<open>Registration\<close>, \<open>Document_Port\<close>: registration as one transaction with its outbox events, and the verification of a
    CPF through cache, circuit breaker and metrics down to the Serpro adapter; only the registry's word rejects.
  \<^item> \<open>Auth_Service\<close>, \<open>Password_Service\<close>, \<open>Two_Factor\<close>, \<open>Api_Key\<close>, \<open>Captcha\<close>: login, refresh, logout, e-mail verification, recovery,
    TOTP and backup codes, API keys, Turnstile. What a success proves, which error each failure gives, that login
    succeeds when it should, and that a logout is final for any later sequence of operations.
  \<^item> \<open>Company_Service\<close>, \<open>Company_Admin\<close>, \<open>Invitation_Service\<close>, \<open>Company_Lookup\<close>: companies, memberships, invitations, registry data and
    the synchronisation job, whose loop ends because the offset passes the finitely many companies: the fuel is the
    number of pages plus one.
  \<^item> \<open>Risk\<close>: login history, rules, engine and the sentinel worker. \<open>Events\<close>: the in-memory bus, webhooks and audit log; the
    nested maps of the bus refine one map from event type and id to handler.
  \<^item> \<open>Notification\<close>: e-mail, SMS and the OAuth mock; no caller of the SMTP adapter can add a header.

  \<^bold>\<open>Interfaces.\<close>
  \<^item> \<open>Middleware\<close>, \<open>Auth_Handler\<close>, \<open>Company_Handler\<close>, \<open>Admin_Handler\<close>, \<open>Webauthn\<close>, \<open>Dashboard\<close>: every handler and middleware of \<^verbatim>\<open>http/\<close>,
    with services and repositories of passkeys, the statistics, the event stream and the billing job.
  \<^item> \<open>Server\<close>: the routes of \<^verbatim>\<open>http/server.go\<close> and the middleware around them; \<open>Api\<close> puts the modelled handlers in and follows a
    passkey registration through the whole stack.
  \<^item> \<open>Graphql\<close>: the resolvers; \<open>Grpc\<close>: the calls, the registry of streams over Go slices that share arrays, which refines a list
    per user, and the kill switch as interleaved steps. \<open>Sdk\<close>: the client of \<^verbatim>\<open>pkg/sdk\<close> against the server's handlers.
  \<^item> \<open>Startup\<close>, \<open>Migrate\<close>: configuration, the migrations at start with their repairs, which call each other
    recursively and are shown to end, and the migration tool, whose failed runs can be resumed. \<open>Workers\<close>: the programs around
    the sentinel, the billing cycle and the synchronisation job.

  \<^bold>\<open>The verification program\<close> (\<^verbatim>\<open>cmd/verify/\<close>).
  \<^item> \<open>Verify_Runner\<close> (\<^verbatim>\<open>runner/\<close>, \<^verbatim>\<open>config/\<close>): retries with exponential backoff on 64-bit integers, its bounds and its overflow, and
    the reports. \<open>Verify_Parallel\<close>: the goroutines that share a semaphore as a step relation; their invariant, the bound on the length
    of every run and the absence of deadlocks with at least one slot; the sequential mode is one of the schedules.
  \<^item> \<open>Verify_Checks\<close> (\<^verbatim>\<open>checks/\<close>): every check over the shared context, with the HTTP client, the gRPC connection and the database driver
    as parameters. \<open>Verify_Tool\<close> (\<^verbatim>\<open>main.go\<close>): exit code zero means that no check was skipped and all passed, and the
    company numbers that the program makes up are valid for the server. \<open>Verify_Server\<close>: the checks against the server's handlers.

  \<^bold>\<open>Across components.\<close> \<open>Integrity\<close> states keys, foreign keys and column constraints of the whole database and shows that every state
  reached by any sequence of the services satisfies them. \<open>Server\<close> and \<open>Api\<close> compose router, authentication, handlers, services and
  repositories. The locales are the interfaces between components: tax numbers, policy checkers, role lookups,
  session repositories, company data providers, verification ports, scoring rules, event buses and transaction
  runners; each is interpreted on the definitions that the program runs, the cached variants included.

  \<^bold>\<open>Not modelled.\<close> Code generated by gqlgen and protobuf; mocks, examples and API documentation; logging, the request logger and
  tracing; the construction of components in the \<^verbatim>\<open>main\<close> functions, flags and signal handlers; path matching by chi and the
  file server of the web interface; which bytes the reporter of the verification program writes around the values it prints.
\<close>

end
